(* ===== verification/Prelude.thy ===== *)
theory Prelude
  imports Complex_Main "HOL-Library.Char_ord" "HOL-Library.List_Lexorder"
    "HOL-Library.Product_Lexorder"
begin

text \<open>
  What every component of the development shares.

  \<^item> Fallible code returns \<open>'e + 'a\<close>: \<open>Inl\<close> is the exception raised, \<open>Inr\<close> the value.
    \<open>andthen\<close> sequences two such steps, \<open>require\<close> is a guard that raises, \<open>present\<close>
    raises on Python's \<open>None\<close>.  The collection \<open>ok_iff\<close> inverts a successful run into
    the conjunction of the guards it passed.
  \<^item> A SQL table is the list of its rows in insertion order.  \<open>tget\<close> is
    \<open>session.get\<close> or a \<open>scalar\<close> query on a unique column, \<open>tupd\<close> mutates the row with
    a key, \<open>tadd\<close> is \<open>session.add\<close> with the table's primary-key and \<open>unique\<close>
    constraints, \<open>sql_max\<close> is \<open>func.max(...) or 0\<close>.
  \<^item> Date-times are instants, \<open>int\<close> counts of microseconds in UTC, as after \<open>aware\<close>.
\<close>

section \<open>Result-valued steps\<close>

named_theorems ok_iff \<open>when a result-valued step succeeds\<close>

fun andthen :: "'e + 'a \<Rightarrow> ('a \<Rightarrow> 'e + 'b) \<Rightarrow> 'e + 'b" where
  "andthen (Inl e) f = Inl e"
| "andthen (Inr x) f = f x"

definition require :: "bool \<Rightarrow> 'e \<Rightarrow> 'e + unit" where
  "require c e = (if c then Inr () else Inl e)"

definition present :: "'a option \<Rightarrow> 'e \<Rightarrow> 'e + 'a" where
  "present x e = (case x of None \<Rightarrow> Inl e | Some v \<Rightarrow> Inr v)"

text \<open>The simplifier evaluates the first step before it looks at what follows it.\<close>

lemma andthen_weak_cong [cong]: "m = m' \<Longrightarrow> andthen m f = andthen m' f"
  by simp

lemma andthen_case [code_unfold]: "andthen m f = (case m of Inl e \<Rightarrow> Inl e | Inr x \<Rightarrow> f x)"
  by (cases m) simp_all

lemma andthen_ok [ok_iff]: "andthen m f = Inr y \<longleftrightarrow> (\<exists>x. m = Inr x \<and> f x = Inr y)"
  by (cases m) auto

lemma andthen_err: "andthen m f = Inl e \<longleftrightarrow> m = Inl e \<or> (\<exists>x. m = Inr x \<and> f x = Inl e)"
  by (cases m) auto

lemma require_ok [ok_iff]: "require c e = Inr u \<longleftrightarrow> c"
  by (simp add: require_def)

lemma require_err: "require c e = Inl e' \<longleftrightarrow> \<not> c \<and> e' = e"
  by (auto simp: require_def)

lemma require_simps [simp]: "require True e = Inr ()" "require False e = Inl e"
  by (simp_all add: require_def)

lemma present_ok [ok_iff]: "present x e = Inr v \<longleftrightarrow> x = Some v"
  by (simp add: present_def split: option.splits)

lemma present_simps [simp]: "present None e = Inl e" "present (Some v) e = Inr v"
  by (simp_all add: present_def)

section \<open>Tables\<close>

definition tget :: "('r \<Rightarrow> 'k) \<Rightarrow> 'k \<Rightarrow> 'r list \<Rightarrow> 'r option" where
  "tget key k t = find (\<lambda>r. key r = k) t"

definition tupd :: "('r \<Rightarrow> 'k) \<Rightarrow> 'k \<Rightarrow> ('r \<Rightarrow> 'r) \<Rightarrow> 'r list \<Rightarrow> 'r list" where
  "tupd key k f t = map (\<lambda>r. if key r = k then f r else r) t"

definition tadd :: "('r \<Rightarrow> 'r \<Rightarrow> bool) \<Rightarrow> 'e \<Rightarrow> 'r \<Rightarrow> 'r list \<Rightarrow> 'e + 'r list" where
  "tadd clash e r t = (if list_ex (clash r) t then Inl e else Inr (t @ [r]))"

fun sql_max :: "int list \<Rightarrow> int" where
  "sql_max [] = 0"
| "sql_max [x] = x"
| "sql_max (x # y # zs) = max x (sql_max (y # zs))"

lemma tget_SomeD: "tget key k t = Some r \<Longrightarrow> r \<in> set t \<and> key r = k"
  by (auto simp: tget_def find_Some_iff)

lemma tget_None_iff: "tget key k t = None \<longleftrightarrow> k \<notin> key ` set t"
  by (auto simp: tget_def find_None_iff)

lemma tget_Nil [simp]: "tget key k [] = None"
  by (simp add: tget_def)

lemma tget_Cons: "tget key k (r # t) = (if key r = k then Some r else tget key k t)"
  by (simp add: tget_def)

lemma tget_append:
  "tget key k (t @ u) = (case tget key k t of None \<Rightarrow> tget key k u | Some r \<Rightarrow> Some r)"
  by (induction t) (auto simp: tget_Cons)

lemma tget_iff:
  "distinct (map key t) \<Longrightarrow> tget key k t = Some r \<longleftrightarrow> r \<in> set t \<and> key r = k"
proof (induction t)
  case (Cons a t)
  then show ?case by (auto simp: tget_Cons dest: tget_SomeD)
qed simp

lemma tget_mem: "distinct (map key t) \<Longrightarrow> r \<in> set t \<Longrightarrow> tget key (key r) t = Some r"
  by (simp add: tget_iff)

lemma distinct_key_eq:
  "distinct (map key t) \<Longrightarrow> r \<in> set t \<Longrightarrow> r' \<in> set t \<Longrightarrow> key r = key r' \<Longrightarrow> r = r'"
  by (metis option.inject tget_mem)

lemma key_singleton:
  "distinct (map key t) \<Longrightarrow> r \<in> set t \<Longrightarrow> key r = k \<Longrightarrow> {s \<in> set t. key s = k} = {r}"
  by (auto dest: distinct_key_eq)

lemma map_tupd: "(\<And>r. g (f r) = g r) \<Longrightarrow> map g (tupd key k f t) = map g t"
  by (auto simp: tupd_def)

lemma tget_tupd:
  "(\<And>r. key (f r) = key r) \<Longrightarrow>
   tget key k' (tupd key k f t) = (if k' = k then map_option f (tget key k t) else tget key k' t)"
  by (induction t) (auto simp: tget_Cons tupd_def)

lemma tget_tupd_const:
  "key v = k \<Longrightarrow> tget key k' (tupd key k (\<lambda>_. v) t) =
     (if k' = k then map_option (\<lambda>_. v) (tget key k t) else tget key k' t)"
  by (induction t) (auto simp: tget_Cons tupd_def)

lemma tget_tupd_by:
  "(\<And>r. key' (f r) = key' r) \<Longrightarrow> tget key' k' (tupd key k f t)
     = map_option (\<lambda>r. if key r = k then f r else r) (tget key' k' t)"
  by (induction t) (auto simp: tget_Cons tupd_def)

lemma tget_snoc: "key r \<notin> key ` set t \<Longrightarrow> tget key k (t @ [r]) = (if k = key r then Some r else tget key k t)"
  using tget_None_iff [of key "key r" t] by (auto simp: tget_append tget_Cons split: option.splits)

lemma set_tupd: "set (tupd key k f t) = {r \<in> set t. key r \<noteq> k} \<union> f ` {r \<in> set t. key r = k}"
  by (auto simp: tupd_def)

lemma in_set_tupdE:
  assumes "r \<in> set (tupd key k f t)"
  obtains (other) "r \<in> set t" "key r \<noteq> k" | (hit) s where "s \<in> set t" "key s = k" "r = f s"
  using assms by (auto simp: set_tupd)

lemma length_tupd [simp]: "length (tupd key k f t) = length t"
  by (simp add: tupd_def)

lemma tupd_absent: "tget key k t = None \<Longrightarrow> tupd key k f t = t"
  by (induction t) (auto simp: tget_Cons tupd_def split: if_splits)

lemma tadd_ok [ok_iff]:
  "tadd clash e r t = Inr t' \<longleftrightarrow> (\<forall>r' \<in> set t. \<not> clash r r') \<and> t' = t @ [r]"
  by (auto simp: tadd_def list_ex_iff)

lemma sql_max_ge: "x \<in> set xs \<Longrightarrow> x \<le> sql_max xs"
  by (induction xs rule: sql_max.induct) (auto simp: le_max_iff_disj)

lemma sql_max_in: "xs \<noteq> [] \<Longrightarrow> sql_max xs \<in> set xs"
  by (induction xs rule: sql_max.induct) (auto simp: max_def)

lemma sql_max_bound: "(\<And>x. x \<in> set xs \<Longrightarrow> x \<le> b) \<Longrightarrow> 0 \<le> b \<Longrightarrow> sql_max xs \<le> b"
  by (metis sql_max.simps(1) sql_max_in)

lemma sql_max_0: "(\<And>x. x \<in> set xs \<Longrightarrow> 0 \<le> x) \<Longrightarrow> 0 \<le> sql_max xs"
  by (metis order_refl sql_max.simps(1) sql_max_in)

section \<open>Ordered pages\<close>

text \<open>
  \<open>ORDER BY key LIMIT n\<close>; a keyset cursor keeps the rows strictly after the last key of
  the page before.  SQLite compares text bytewise, which is the order of
  \<open>List_Lexorder\<close> over \<open>Char_ord\<close>.
\<close>

definition order_by :: "('r \<Rightarrow> 'k::linorder) \<Rightarrow> 'r list \<Rightarrow> 'r list" where
  "order_by key t = sort_key key t"

definition after_cursor :: "('r \<Rightarrow> 'k::linorder) \<Rightarrow> 'k option \<Rightarrow> 'r list \<Rightarrow> 'r list" where
  "after_cursor key c t = (case c of None \<Rightarrow> t | Some k \<Rightarrow> filter (\<lambda>r. k < key r) t)"

lemma set_order_by [simp]: "set (order_by key t) = set t"
  by (simp add: order_by_def)

lemma sorted_order_by: "sorted (map key (order_by key t))"
  by (simp add: order_by_def)

end
