(* ===== verification/Contracts.thy ===== *)
theory Contracts
  imports Prelude "HOL-Library.Word"
begin

text \<open>
  The values that cross component boundaries: identities, references, the documents the
  code signs, hashes or canonicalises, and the exceptions it raises
  (\<open>hub/contracts/bindings/admission.py\<close>, \<open>hub/contracts/bindings/device.py\<close>,
  \<open>hub/admission/domain.py\<close>).

  The classes themselves come from the package \<open>eidolon_sdk\<close>, which is not in the
  repository; only their fields are used here, and the records below have the fields
  the repository constructs and reads.  What that package and the other libraries
  compute is a parameter: the record \<open>external\<close>.
\<close>

section \<open>Scalars and JSON\<close>

type_synonym byte = "8 word"
type_synonym instant = int

text \<open>\<open>str.encode()\<close>; \<open>string\<close> holds the bytes of the Python text.\<close>

definition encode :: "string \<Rightarrow> byte list" where
  "encode s = map (\<lambda>c. of_char c) s"

definition decode_text :: "byte list \<Rightarrow> string" where
  "decode_text bs = map (\<lambda>b. char_of (unat b)) bs"

definition hex_digit :: "nat \<Rightarrow> char" where
  "hex_digit n = ''0123456789abcdef'' ! (n mod 16)"

text \<open>\<open>bytes.hex()\<close>, as in \<open>hashlib.sha256(..).hexdigest()\<close>.\<close>

fun hex :: "byte list \<Rightarrow> string" where
  "hex [] = []"
| "hex (b # bs) = hex_digit (unat b div 16) # hex_digit (unat b mod 16) # hex bs"

datatype json =
  JNull
| JBool bool
| JNum rat
| JStr string
| JArr "json list"
| JObj "(string \<times> json) list"

section \<open>References and records of the wire contracts\<close>

record device_ref =
  device_instance_id :: string
  ref_owner_domain_id :: string
  owner_domain_generation :: int
  claim_generation :: int
  trust_epoch :: int

record manifest_ref =
  manifest_id :: string
  manifest_revision :: int
  manifest_digest :: string

record controller_actor =
  principal_id :: string
  actor_owner_domain_id :: string
  granted_scopes :: "string list"

datatype verdict = Approve | Reject

record approval_decision =
  ad_decision_id :: string
  ad_enrollment_id :: string
  ad_decision :: verdict
  ad_actor :: controller_actor
  ad_target_owner_domain_id :: string
  ad_target_business_owner_id :: string
  ad_reviewed_manifest_ref :: manifest_ref
  ad_expected_proposal_revision :: int
  ad_decided_at :: instant

record claim_grant =
  cg_grant_id :: string
  cg_enrollment_id :: string
  cg_device_ref :: device_ref
  cg_manifest_ref :: manifest_ref
  cg_approval_decision_id :: string
  cg_handoff_key_id :: string
  cg_operational_key_id :: string
  cg_issued_at :: instant
  cg_expires_at :: instant

record claim_grant_aad =
  aad_enrollment_id :: string
  aad_proposal_revision :: int
  aad_device_instance_id :: string
  aad_hardware_evidence_digest :: string
  aad_manifest_ref :: manifest_ref
  aad_owner_domain_id :: string
  aad_owner_domain_generation :: int
  aad_claim_generation :: int
  aad_trust_epoch :: int
  aad_grant_id :: string

record wire_envelope =
  we_recipient_handoff_key_id :: string
  we_encapsulated_key :: string
  we_ciphertext :: string
  we_aad :: claim_grant_aad

section \<open>Command payloads\<close>

record hardware_evidence =
  he_scheme :: string
  he_evidence :: string
  he_evidence_digest :: string

record commissioning_proof =
  cp_scheme :: string
  cp_nonce :: string
  cp_proof :: string

record proposed_manifest =
  pm_manifest_id :: string
  pm_revision :: int
  pm_digest :: string
  pm_document :: json

record enrollment_payload =
  ep_requested_owner_domain_id :: string
  ep_hardware_identity_evidence :: hardware_evidence
  ep_handoff_public_key :: string
  ep_operational_public_key :: string
  ep_device_instance_candidate_id :: string
  ep_commissioning_proof :: commissioning_proof
  ep_manifest :: proposed_manifest

record decision_payload =
  dp_target_owner_domain_id :: string
  dp_target_business_owner_id :: string
  dp_decision :: verdict
  dp_expected_proposal_revision :: int
  dp_reviewed_manifest_ref :: manifest_ref

text \<open>The \<open>payload\<close> dict each command fingerprints, with its entries in order.\<close>

datatype command_payload =
  Create_payload enrollment_payload
| Cancel_payload string string controller_actor
| Decide_payload decision_payload string controller_actor
| Collect_payload string int string string
| Ack_payload string string string int int
| Revoke_payload device_ref string

text \<open>Every document the code passes to \<open>rfc8785.dumps\<close>.\<close>

datatype document =
  Command_doc string string command_payload
| Json_doc json
| Collection_proof_doc string int string
| Ack_proof_doc string string device_ref
| Continuation_proof_doc string string string string string
| Grant_doc claim_grant
| Aad_doc claim_grant_aad

section \<open>Code outside the repository\<close>

datatype public_key = P256_key "byte list" | Other_key

record external =
  sha256 :: "byte list \<Rightarrow> byte list"
  hmac_sha256 :: "byte list \<Rightarrow> byte list \<Rightarrow> byte list"
  rfc8785_dumps :: "document \<Rightarrow> byte list"
  json_loads :: "string \<Rightarrow> json option"
  load_der_public_key :: "byte list \<Rightarrow> public_key option"
  ecdsa_verify :: "public_key \<Rightarrow> nat \<Rightarrow> nat \<Rightarrow> byte list \<Rightarrow> bool"
  ecdh :: "nat \<Rightarrow> public_key \<Rightarrow> byte list"
  public_point :: "nat \<Rightarrow> byte list"
  aesgcm_encrypt :: "byte list \<Rightarrow> byte list \<Rightarrow> byte list \<Rightarrow> byte list \<Rightarrow> byte list"
  sdk_operational_key_id :: "string \<Rightarrow> string option"
  sdk_derive_device_instance_id :: "string \<Rightarrow> string option"
  py_str :: "json \<Rightarrow> string"
  py_int :: "string \<Rightarrow> int option"
  fresh_id :: "string \<Rightarrow> nat \<Rightarrow> string"
  token_urlsafe :: "nat \<Rightarrow> nat \<Rightarrow> string"

text \<open>The decimal text an f-string gives an \<open>int\<close>.\<close>

fun digits :: "nat \<Rightarrow> string" where
  "digits n = (if n < 10 then [hex_digit n] else digits (n div 10) @ [hex_digit (n mod 10)])"

declare digits.simps [simp del]

definition str_int :: "int \<Rightarrow> string" where
  "str_int i = (if i < 0 then CHR ''-'' # digits (nat (- i)) else digits (nat i))"

definition sha256_hex :: "external \<Rightarrow> string \<Rightarrow> string" where
  "sha256_hex x s = hex (sha256 x (encode s))"

section \<open>Exceptions\<close>

record problem =
  code :: string
  detail :: string
  status :: int
  category :: string
  retryable :: bool

text \<open>
  The classes of \<open>hub/device_control/domain.py\<close>, \<open>output_policy.py\<close> and
  \<open>hub/ports/repositories.py\<close> below \<open>Type_error\<close> are subclasses of \<open>ValueError\<close>, apart
  from the SDK's \<open>DeviceEraseContractError\<close> and \<open>ChannelProviderError\<close>, which has a code, a
  retryability and a detail.  \<open>Other_error\<close> is any other class, by its name.
\<close>

datatype exn =
  Admission_problem problem
| Integrity_error
| Value_error string
| Key_error string
| Permission_error string
| Type_error string
| Erase_contract_error string
| Erase_idempotency_conflict string
| Erase_generation_conflict string
| Manifest_revision_conflict string
| Output_policy_conflict string
| Concurrent_mutation string
| Provider_error string bool string
| Other_error string

text \<open>\<open>AdmissionProblem(code, detail)\<close> with its keyword defaults.\<close>

definition problem_of :: "string \<Rightarrow> string \<Rightarrow> int \<Rightarrow> string \<Rightarrow> exn" where
  "problem_of c d st cat =
     Admission_problem \<lparr>code = c, detail = d, status = st, category = cat, retryable = False\<rparr>"

definition conflict :: "string \<Rightarrow> string \<Rightarrow> exn" where
  "conflict c d = problem_of c d 409 ''conflict''"

fun problem_code :: "exn \<Rightarrow> string option" where
  "problem_code (Admission_problem p) = Some (code p)"
| "problem_code _ = None"

lemma problem_code_simps [simp]:
  "problem_code (problem_of c d st cat) = Some c"
  "problem_code (conflict c d) = Some c"
  by (simp_all add: conflict_def problem_of_def)

section \<open>Text\<close>

lemma hex_digit_inj:
  assumes "a < 16" "b < 16" "hex_digit a = hex_digit b"
  shows "a = b"
proof -
  have d: "distinct ''0123456789abcdef''" and l: "length ''0123456789abcdef'' = 16"
    by simp_all
  have "''0123456789abcdef'' ! a = ''0123456789abcdef'' ! b"
    using assms by (simp add: hex_digit_def)
  then show ?thesis
    using nth_eq_iff_index_eq [OF d] assms(1,2) l by metis
qed

lemma hex_inj: "hex bs = hex cs \<Longrightarrow> bs = cs"
proof (induction bs arbitrary: cs)
  case Nil
  then show ?case by (cases cs) auto
next
  case (Cons b bs)
  then obtain c cs' where cs: "cs = c # cs'" by (cases cs) auto
  have lt: "unat x div 16 < 16" "unat x mod 16 < 16" for x :: byte
    using unsigned_less [of x, where ?'a = nat] by auto
  from Cons.prems cs have "unat b div 16 = unat c div 16" "unat b mod 16 = unat c mod 16"
    by (auto intro: hex_digit_inj lt)
  then have "unat b = unat c" by (metis mult_div_mod_eq)
  with Cons cs show ?case by (simp add: word_unat_eq_iff)
qed

lemma length_hex [simp]: "length (hex bs) = 2 * length bs"
  by (induction bs) auto

lemma decode_encode [simp]: "decode_text (encode s) = s"
proof -
  have "char_of (unat (of_char c :: byte)) = c" for c
  proof -
    have "(of_char c :: byte) = of_nat (of_char c)"
      by (simp add: of_nat_of_char)
    then have "unat (of_char c :: byte) = (of_char c :: nat)"
      by (simp add: unat_of_nat)
    then show ?thesis by simp
  qed
  then show ?thesis by (simp add: decode_text_def encode_def comp_def)
qed

lemma encode_inj: "encode s = encode t \<Longrightarrow> s = t"
  by (metis decode_encode)

end
