(* ===== verification/Admission_Domain.thy ===== *)
theory Admission_Domain
  imports Contracts
begin

text \<open>
  The pure part of Admission (\<open>hub/admission/domain.py\<close>): who is asking, the
  transitions a Proposal and a Claim may make, and the fingerprint that identifies the
  content of a command.
\<close>

section \<open>Actor context\<close>

record actor_context =
  actor :: controller_actor
  ctx_owner_domain_id :: string
  ctx_business_owner_id :: string

text \<open>The constructor with \<open>__post_init__\<close>.\<close>

definition actor_context_new :: "controller_actor \<Rightarrow> string \<Rightarrow> string \<Rightarrow> exn + actor_context" where
  "actor_context_new a od bus =
     (if actor_owner_domain_id a \<noteq> od
      then Inl (Value_error ''ActorContext Owner Domain does not match ActorRef'')
      else Inr \<lparr>actor = a, ctx_owner_domain_id = od, ctx_business_owner_id = bus\<rparr>)"

definition require_scope :: "actor_context \<Rightarrow> string \<Rightarrow> exn + unit" where
  "require_scope ctx sc =
     require (sc \<in> set (granted_scopes (actor ctx)))
       (problem_of ''FORBIDDEN'' (''Controller ActorRef lacks required scope '' @ sc)
          403 ''forbidden'')"

section \<open>Proposal and Claim states\<close>

datatype proposal_state =
  Pending_review | Approved_awaiting_handoff | Grant_delivered | Grant_acknowledged
| Rejected | Expired | Canceled | Claim_revoked

datatype claim_state = Active | Suspended | Revoked

fun proposal_state_value :: "proposal_state \<Rightarrow> string" where
  "proposal_state_value Pending_review = ''pending_review''"
| "proposal_state_value Approved_awaiting_handoff = ''approved_awaiting_handoff''"
| "proposal_state_value Grant_delivered = ''grant_delivered''"
| "proposal_state_value Grant_acknowledged = ''grant_acknowledged''"
| "proposal_state_value Rejected = ''rejected''"
| "proposal_state_value Expired = ''expired''"
| "proposal_state_value Canceled = ''canceled''"
| "proposal_state_value Claim_revoked = ''claim_revoked''"

fun claim_state_value :: "claim_state \<Rightarrow> string" where
  "claim_state_value Active = ''active''"
| "claim_state_value Suspended = ''suspended''"
| "claim_state_value Revoked = ''revoked''"

definition terminal_proposal_states :: "proposal_state list" where
  "terminal_proposal_states = [Grant_acknowledged, Rejected, Expired, Canceled, Claim_revoked]"

text \<open>\<open>ALLOWED_PROPOSAL_TRANSITIONS.get(current, frozenset())\<close>\<close>

fun allowed_proposal_transitions :: "proposal_state \<Rightarrow> proposal_state list" where
  "allowed_proposal_transitions Pending_review =
     [Approved_awaiting_handoff, Rejected, Expired, Canceled]"
| "allowed_proposal_transitions Approved_awaiting_handoff =
     [Grant_delivered, Expired, Claim_revoked]"
| "allowed_proposal_transitions Grant_delivered = [Grant_acknowledged, Expired, Claim_revoked]"
| "allowed_proposal_transitions _ = []"

fun allowed_claim_transitions :: "claim_state \<Rightarrow> claim_state list" where
  "allowed_claim_transitions Active = [Suspended, Revoked]"
| "allowed_claim_transitions Suspended = [Active, Revoked]"
| "allowed_claim_transitions _ = []"

definition require_transition :: "proposal_state \<Rightarrow> proposal_state \<Rightarrow> exn + unit" where
  "require_transition current target =
     require (target \<in> set (allowed_proposal_transitions current))
       (conflict
          (if current \<in> set terminal_proposal_states then ''PROPOSAL_TERMINAL''
           else ''REVISION_CONFLICT'')
          (''proposal transition '' @ proposal_state_value current @ '' -> ''
           @ proposal_state_value target @ '' is not allowed''))"

definition require_claim_transition :: "claim_state \<Rightarrow> claim_state \<Rightarrow> exn + unit" where
  "require_claim_transition current target =
     require (target \<in> set (allowed_claim_transitions current))
       (conflict
          (if current = Revoked then ''CLAIM_REVOKED'' else ''REVISION_CONFLICT'')
          (''Claim transition '' @ claim_state_value current @ '' -> ''
           @ claim_state_value target @ '' is not allowed''))"

lemma require_scope_ok [ok_iff]:
  "require_scope ctx sc = Inr u \<longleftrightarrow> sc \<in> set (granted_scopes (actor ctx))"
  by (simp add: require_scope_def ok_iff)

lemma require_transition_ok [ok_iff]:
  "require_transition s t = Inr u \<longleftrightarrow> t \<in> set (allowed_proposal_transitions s)"
  by (simp add: require_transition_def ok_iff)

lemma require_claim_transition_ok [ok_iff]:
  "require_claim_transition s t = Inr u \<longleftrightarrow> t \<in> set (allowed_claim_transitions s)"
  by (simp add: require_claim_transition_def ok_iff)

text \<open>A terminal state is exactly one with no way out.\<close>

lemma terminal_iff_no_transition:
  "s \<in> set terminal_proposal_states \<longleftrightarrow> allowed_proposal_transitions s = []"
  by (cases s) (simp_all add: terminal_proposal_states_def)

text \<open>Every transition moves forward, so a Proposal changes state at most three times.\<close>

fun proposal_rank :: "proposal_state \<Rightarrow> nat" where
  "proposal_rank Pending_review = 3"
| "proposal_rank Approved_awaiting_handoff = 2"
| "proposal_rank Grant_delivered = 1"
| "proposal_rank _ = 0"

lemma transition_decreases_rank:
  "t \<in> set (allowed_proposal_transitions s) \<Longrightarrow> proposal_rank t < proposal_rank s"
  by (cases s) auto

section \<open>Command fingerprints\<close>

definition fingerprint :: "external \<Rightarrow> string \<Rightarrow> string \<Rightarrow> command_payload \<Rightarrow> string" where
  "fingerprint x command_type od payload =
     ''sha256:'' @ hex (sha256 x (rfc8785_dumps x (Command_doc command_type od payload)))"

text \<open>
  What content-addressed idempotency relies on: canonicalisation is injective (RFC 8785)
  and SHA-256 does not collide on the documents at hand.
\<close>

definition collision_free :: "external \<Rightarrow> bool" where
  "collision_free x \<longleftrightarrow> inj (rfc8785_dumps x) \<and> inj (sha256 x)"

lemma fingerprint_inj:
  assumes "collision_free x" "fingerprint x c d p = fingerprint x c' d' p'"
  shows "c = c' \<and> d = d' \<and> p = p'"
proof -
  from assms(2) have "sha256 x (rfc8785_dumps x (Command_doc c d p)) =
      sha256 x (rfc8785_dumps x (Command_doc c' d' p'))"
    by (auto simp: fingerprint_def dest: hex_inj)
  with assms(1) show ?thesis
    by (auto simp: collision_free_def dest!: injD)
qed

end
