(* ===== verification/Schema.thy ===== *)
theory Schema
  imports Admission_Domain
begin

text \<open>
  The relational schema (\<open>hub/adapters/persistence/models.py\<close>): one record per table
  row, and the database as the record of its tables.  A \<open>_json\<close> column holds the value it
  encodes; only the two columns whose text is read back with a chance of failing keep
  that chance: \<open>manifest_json\<close> is the stored text itself, and the Controller of a
  standing is a \<open>column\<close>, readable or not.

  The database also carries \<open>id_draws\<close>, how many identifiers the process drew from its
  \<open>IdGenerator\<close>, and \<open>stream_seq\<close>, the autoincrement counter of the Claim event stream.
\<close>

datatype 'a column = Encoded 'a | Unreadable string

fun validate_json :: "'a column \<Rightarrow> 'a option" where
  "validate_json (Encoded v) = Some v"
| "validate_json (Unreadable _) = None"

section \<open>Owner-facing directory and management events\<close>

record output_policy =
  op_revision :: int
  op_allowed :: "string list"
  op_inputs :: "string list option"

datatype lifecycle_state = Device_approved | Device_revoked

record device_row =
  dv_device_id :: string
  dv_display_name :: string
  dv_manifest_id :: string
  dv_manifest_json :: string
  dv_output_policy :: "output_policy option"
  dv_manifest_revision :: string
  dv_manifest_declared_revision :: int
  dv_enrolled_at :: instant
  dv_updated_at :: instant
  dv_owner_domain_generation :: int
  dv_claim_generation :: int
  dv_trust_epoch :: int
  dv_aggregate_revision :: int
  dv_owner_id :: "string option"
  dv_lifecycle_state :: lifecycle_state
  dv_last_management_request_id :: string
  dv_last_management_fingerprint :: string

datatype management_data =
  Manifest_accepted_data string int string string
| Output_policy_data "string option" device_ref output_policy

record management_event_row =
  me_stream_position :: int
  me_event_id :: string
  me_event_type :: string
  me_source :: string
  me_principal_id :: string
  me_subject :: string
  me_owner_id :: string
  me_occurred_at :: instant
  me_data :: management_data

section \<open>Channel revocation delivery and device erase\<close>

datatype delivery_state = Delivery_pending | Delivered | Fenced

record revocation_row =
  rv_source_event_id :: string
  rv_operation_id :: string
  rv_device_ref :: device_ref
  rv_reason :: string
  rv_state :: delivery_state
  rv_attempt_count :: int
  rv_next_attempt_at :: instant
  rv_delivered_at :: "instant option"
  rv_result_code :: string
  rv_last_error :: string

datatype erase_state =
  Erase_accepted | Erase_pending | Delivery_accepted | Erase_acknowledged | Erase_expired
| Permanent_failure

record erase_command =
  ec_operation_id :: string
  ec_device_ref :: device_ref
  ec_deadline :: instant

record erase_row =
  er_operation_id :: string
  er_source_event_id :: string
  er_request_fingerprint :: string
  er_device_ref :: device_ref
  er_accepted_manifest_digest :: string
  er_public_key_spki :: "string option"
  er_key_id :: "string option"
  er_command :: erase_command
  er_state :: erase_state
  er_created_at :: instant
  er_deadline :: instant
  er_attempt_count :: int
  er_delivery_attempt_id :: "string option"
  er_delivery_accepted_at :: "instant option"
  er_acknowledged_at :: "instant option"
  er_terminal_result :: "string option"
  er_result_code :: string
  er_last_error_code :: string

record erase_evidence_row =
  ev_operation_id :: string
  ev_ack_sequence :: int
  ev_ack_fingerprint :: string
  ev_received_at :: instant
  ev_applied :: int
  ev_result :: string
  ev_result_code :: string

section \<open>Admission\<close>

record base_identity_row =
  bi_device_base_id :: string
  bi_owner_domain_id :: string
  bi_hardware_identity_ref :: string
  bi_operational_key_id :: string
  bi_provenance :: string
  bi_bound_at :: instant

record voucher_row =
  cv_jti :: string
  cv_device_base_id :: string
  cv_operational_key_id :: string
  cv_expires_at :: instant
  cv_consumed_at :: instant

record standing_row =
  cs_jti :: string
  cs_operational_key_id :: string
  cs_owner_domain_id :: string
  cs_business_owner_id :: string
  cs_actor :: "controller_actor column"
  cs_recorded_at :: instant

record withdrawal_row =
  cw_owner_domain_id :: string
  cw_principal_id :: string
  cw_withdrawn_at :: instant
  cw_actor :: controller_actor

record proposal_row =
  pr_enrollment_id :: string
  pr_device_instance_id :: string
  pr_hardware_identity_ref :: string
  pr_requested_owner_domain_id :: string
  pr_state :: proposal_state
  pr_revision :: int
  pr_hardware_evidence_digest :: string
  pr_commissioning_proof_digest :: string
  pr_manifest_id :: string
  pr_manifest_revision :: int
  pr_manifest_digest :: string
  pr_manifest_json :: string
  pr_handoff_public_key_spki :: string
  pr_handoff_key_id :: string
  pr_operational_public_key_spki :: string
  pr_operational_key_id :: string
  pr_collection_challenge_hash :: string
  pr_created_at :: instant
  pr_expires_at :: instant
  pr_updated_at :: instant

record decision_row =
  dc_decision_id :: string
  dc_enrollment_id :: string
  dc_decision :: verdict
  dc_actor :: controller_actor
  dc_target_owner_domain_id :: string
  dc_target_business_owner_id :: string
  dc_reviewed_manifest_ref :: manifest_ref
  dc_expected_proposal_revision :: int
  dc_decided_at :: instant

record grant_row =
  gr_grant_id :: string
  gr_enrollment_id :: string
  gr_decision_id :: string
  gr_owner_domain_id :: string
  gr_hardware_identity_ref :: string
  gr_claim_generation :: int
  gr_device_ref :: device_ref
  gr_manifest_ref :: manifest_ref
  gr_handoff_key_id :: string
  gr_operational_key_id :: string
  gr_grant :: claim_grant
  gr_wire_envelope :: "wire_envelope option"
  gr_issued_at :: instant
  gr_expires_at :: instant
  gr_delivered_at :: "instant option"
  gr_revoked_at :: "instant option"

record grant_ack_row =
  ga_grant_id :: string
  ga_enrollment_id :: string
  ga_proof_fingerprint :: string
  ga_device_ref :: device_ref
  ga_acknowledged_at :: instant

record claim_row =
  cl_device_instance_id :: string
  cl_owner_domain_id :: string
  cl_business_owner_id :: string
  cl_hardware_identity_ref :: string
  cl_owner_domain_generation :: int
  cl_claim_generation :: int
  cl_trust_epoch :: int
  cl_manifest_ref :: manifest_ref
  cl_approval_decision_id :: string
  cl_operational_public_key_spki :: string
  cl_state :: claim_state
  cl_revision :: int
  cl_activated_at :: "instant option"
  cl_updated_at :: instant
  cl_revoked_at :: "instant option"

datatype outcome = Committed | Replayed

datatype result_body =
  Create_result string int proposal_state string instant manifest_ref
| Cancel_result string proposal_state int
| Decide_result approval_decision "string option" int
| Collect_result string wire_envelope instant string int
| Ack_result device_ref claim_state
| Revoke_result device_ref int "string option" lifecycle_state claim_state

record command_result =
  cr_command_id :: string
  cr_outcome :: outcome
  cr_body :: result_body
  cr_occurred_at :: instant

record result_row =
  rs_owner_domain_id :: string
  rs_command_type :: string
  rs_command_id :: string
  rs_fingerprint :: string
  rs_result :: command_result
  rs_occurred_at :: instant

datatype event_data =
  Proposal_created_data string manifest_ref
| Enrollment_data string
| Canceled_data string string
| Decision_data string verdict
| Grant_delivered_data string string
| Grant_acknowledged_data string
| Claim_activated_data device_ref string manifest_ref string instant
| Claim_revoked_data device_ref string instant

record admission_event =
  ae_id :: string
  ae_type :: string
  ae_subject :: string
  ae_time :: instant
  ae_dataschema :: string
  ae_audience :: string
  ae_owner_domain_id :: string
  ae_aggregate_revision :: int
  ae_correlation_id :: string
  ae_causation_id :: string
  ae_data :: event_data

record outbox_row =
  ob_event_id :: string
  ob_event_type :: string
  ob_aggregate_id :: string
  ob_aggregate_revision :: int
  ob_event :: admission_event
  ob_occurred_at :: instant
  ob_published_at :: "instant option"
  ob_publish_attempts :: int
  ob_last_error :: string

record stream_row =
  se_stream_position :: int
  se_event_id :: string
  se_owner_domain_id :: string
  se_event_type :: string
  se_event :: admission_event
  se_occurred_at :: instant

section \<open>The database\<close>

record hub_db =
  base_identities :: "base_identity_row list"
  vouchers :: "voucher_row list"
  standings :: "standing_row list"
  withdrawals :: "withdrawal_row list"
  proposals :: "proposal_row list"
  decisions :: "decision_row list"
  grants :: "grant_row list"
  grant_acks :: "grant_ack_row list"
  claims :: "claim_row list"
  command_results :: "result_row list"
  outbox :: "outbox_row list"
  claim_stream :: "stream_row list"
  stream_seq :: int
  devices :: "device_row list"
  management_events :: "management_event_row list"
  revocations :: "revocation_row list"
  erase_operations :: "erase_row list"
  erase_evidence :: "erase_evidence_row list"
  id_draws :: nat

definition empty_db :: hub_db where
  "empty_db = \<lparr>base_identities = [], vouchers = [], standings = [], withdrawals = [],
     proposals = [], decisions = [], grants = [], grant_acks = [], claims = [],
     command_results = [], outbox = [], claim_stream = [], stream_seq = 0, devices = [],
     management_events = [], revocations = [], erase_operations = [], erase_evidence = [],
     id_draws = 0\<rparr>"

text \<open>\<open>self.ids.new(prefix)\<close>: the identifier drawn and the state after the draw.\<close>

definition new_id :: "external \<Rightarrow> string \<Rightarrow> hub_db \<Rightarrow> string \<times> hub_db" where
  "new_id x prefix db = (fresh_id x prefix (id_draws db), db\<lparr>id_draws := Suc (id_draws db)\<rparr>)"

end
