(* ===== verification/Hardware_Identity.thy ===== *)
theory Hardware_Identity
  imports Contracts
begin

text \<open>
  The permanent hardware identity (\<open>hub/admission/hardware_identity.py\<close>): a digest of
  the base identity commissioning verified, and the shape check at the boundary of the
  durable record.
\<close>

section \<open>Python text operations\<close>

definition is_space :: "char \<Rightarrow> bool" where
  "is_space c = (of_char c \<in> {9, 10, 11, 12, 13, 28, 29, 30, 31, 32 :: nat})"

text \<open>\<open>str.strip()\<close>, on ASCII text.\<close>

definition strip :: "string \<Rightarrow> string" where
  "strip s = rev (dropWhile is_space (rev (dropWhile is_space s)))"

text \<open>\<open>str.casefold()\<close>, on ASCII text.\<close>

definition fold_char :: "char \<Rightarrow> char" where
  "fold_char c = (let n = (of_char c :: nat) in if 65 \<le> n \<and> n \<le> 90 then char_of (n + 32) else c)"

definition casefold :: "string \<Rightarrow> string" where
  "casefold s = map fold_char s"

section \<open>Derivation and shape\<close>

definition derivation_label :: "byte list" where
  "derivation_label = encode ''eidolon-hardware-identity-v1''"

definition maximum_lookup_id_bytes :: nat where
  "maximum_lookup_id_bytes = 128"

definition derive_hardware_identity_ref :: "external \<Rightarrow> string \<Rightarrow> exn + string" where
  "derive_hardware_identity_ref x device_base_id =
     (let canonical = casefold (strip device_base_id)
      in if canonical = [] \<or> maximum_lookup_id_bytes < length (encode canonical)
         then Inl (Value_error ''device base id is empty or too long to be an identity'')
         else Inr (''hardware-'' @ hex (sha256 x (derivation_label @ [0] @ encode canonical))))"

definition hex_lower :: "char \<Rightarrow> bool" where
  "hex_lower c = (c \<in> set ''0123456789abcdef'')"

text \<open>\<open>HARDWARE_IDENTITY_REF_PATTERN.fullmatch\<close>\<close>

definition matches_identity_ref :: "string \<Rightarrow> bool" where
  "matches_identity_ref s =
     (take 9 s = ''hardware-'' \<and> length (drop 9 s) = 64 \<and> list_all hex_lower (drop 9 s))"

definition require_derived_hardware_identity_ref :: "string \<Rightarrow> exn + string" where
  "require_derived_hardware_identity_ref s =
     (if matches_identity_ref s then Inr s
      else Inl (Value_error ''hardware identity ref was not derived from verified input''))"

lemma require_derived_ok [ok_iff]:
  "require_derived_hardware_identity_ref s = Inr t \<longleftrightarrow> matches_identity_ref s \<and> t = s"
  by (auto simp: require_derived_hardware_identity_ref_def)

section \<open>Facts\<close>

lemma hex_digit_lower: "hex_lower (hex_digit n)"
proof -
  have "n mod 16 < length ''0123456789abcdef''" by simp
  then show ?thesis
    unfolding hex_lower_def hex_digit_def by (rule nth_mem)
qed

lemma list_all_hex: "list_all hex_lower (hex bs)"
  by (induction bs) (simp_all add: hex_digit_lower)

lemma derive_ok_iff:
  "derive_hardware_identity_ref x b = Inr r \<longleftrightarrow>
   casefold (strip b) \<noteq> [] \<and> length (casefold (strip b)) \<le> 128 \<and>
   r = ''hardware-'' @ hex (sha256 x (derivation_label @ [0] @ encode (casefold (strip b))))"
  by (auto simp: derive_hardware_identity_ref_def Let_def maximum_lookup_id_bytes_def encode_def
      split: if_splits)

text \<open>\<open>hashlib.sha256\<close> returns 32 bytes.\<close>

definition sha256_width :: "external \<Rightarrow> bool" where
  "sha256_width x \<longleftrightarrow> (\<forall>bs. length (sha256 x bs) = 32)"

lemma derived_matches:
  assumes "sha256_width x" "derive_hardware_identity_ref x b = Inr r"
  shows "matches_identity_ref r"
  using assms by (auto simp: derive_ok_iff matches_identity_ref_def sha256_width_def list_all_hex)

lemma dropWhile_casefold: "dropWhile is_space (casefold s) = casefold (dropWhile is_space s)"
proof -
  have "is_space (fold_char c) = is_space c" for c
    by (auto simp: is_space_def fold_char_def Let_def)
  then show ?thesis by (simp add: casefold_def dropWhile_map comp_def)
qed

lemma casefold_idem: "casefold (casefold s) = casefold s"
  by (auto simp: casefold_def fold_char_def Let_def)

lemma rev_casefold: "rev (casefold s) = casefold (rev s)"
  by (simp add: casefold_def rev_map)

lemma strip_casefold: "strip (casefold s) = casefold (strip s)"
  by (simp add: strip_def dropWhile_casefold rev_casefold)

end
