(* ===== verification/Admission_Store.thy ===== *)
theory Admission_Store
  imports Schema Hardware_Identity
begin

text \<open>
  The statements canonical Admission runs inside a transaction
  (\<open>SqlAdmissionStore\<close> of \<open>hub/admission/persistence.py\<close>), one definition per method.
  A query is a function of the database; a write returns the database after it, or the
  exception that rolls the transaction back.  A violated primary key or \<open>unique\<close> column is
  \<open>Integrity_error\<close>.
\<close>

section \<open>Lookups\<close>

definition get_claim :: "hub_db \<Rightarrow> string \<Rightarrow> claim_row option" where
  "get_claim db i = tget cl_device_instance_id i (claims db)"

definition get_decision :: "hub_db \<Rightarrow> string \<Rightarrow> decision_row option" where
  "get_decision db i = tget dc_decision_id i (decisions db)"

definition get_grant :: "hub_db \<Rightarrow> string \<Rightarrow> grant_row option" where
  "get_grant db i = tget gr_grant_id i (grants db)"

definition get_proposal :: "hub_db \<Rightarrow> string \<Rightarrow> proposal_row option" where
  "get_proposal db i = tget pr_enrollment_id i (proposals db)"

definition get_grant_for_enrollment :: "hub_db \<Rightarrow> string \<Rightarrow> grant_row option" where
  "get_grant_for_enrollment db i = tget gr_enrollment_id i (grants db)"

definition get_grant_for_device_ref :: "hub_db \<Rightarrow> device_ref \<Rightarrow> grant_row option" where
  "get_grant_for_device_ref db r = tget gr_device_ref r (grants db)"

definition get_grant_for_decision :: "hub_db \<Rightarrow> string \<Rightarrow> grant_row option" where
  "get_grant_for_decision db i = tget gr_decision_id i (grants db)"

definition get_decision_for_enrollment :: "hub_db \<Rightarrow> string \<Rightarrow> decision_row option" where
  "get_decision_for_enrollment db i = tget dc_enrollment_id i (decisions db)"

definition get_ack_for_enrollment :: "hub_db \<Rightarrow> string \<Rightarrow> grant_ack_row option" where
  "get_ack_for_enrollment db i = tget ga_enrollment_id i (grant_acks db)"

definition proposal_sort_key :: "proposal_row \<Rightarrow> int \<times> string" where
  "proposal_sort_key r = (pr_created_at r, pr_enrollment_id r)"

definition list_proposals ::
  "hub_db \<Rightarrow> string \<Rightarrow> proposal_state list \<Rightarrow> (int \<times> string) option \<Rightarrow> nat \<Rightarrow> proposal_row list" where
  "list_proposals db owner states cursor limit =
     take limit (order_by proposal_sort_key
       (after_cursor proposal_sort_key cursor
         (filter (\<lambda>r. pr_requested_owner_domain_id r = owner \<and> pr_state r \<in> set states)
           (proposals db))))"

definition claim_sort_key :: "claim_row \<Rightarrow> int \<times> string" where
  "claim_sort_key r = (cl_updated_at r, cl_device_instance_id r)"

definition list_claim_rows ::
  "hub_db \<Rightarrow> string \<Rightarrow> string \<Rightarrow> claim_state list \<Rightarrow> (int \<times> string) option \<Rightarrow> nat \<Rightarrow> claim_row list" where
  "list_claim_rows db owner business states cursor limit =
     take limit (order_by claim_sort_key
       (after_cursor claim_sort_key cursor
         (filter (\<lambda>r. cl_owner_domain_id r = owner \<and> cl_business_owner_id r = business
                      \<and> cl_state r \<in> set states)
           (claims db))))"

definition list_expirable :: "hub_db \<Rightarrow> proposal_state list \<Rightarrow> instant \<Rightarrow> proposal_row list" where
  "list_expirable db states deadline =
     order_by pr_enrollment_id
       (filter (\<lambda>r. pr_state r \<in> set states \<and> pr_expires_at r \<le> deadline) (proposals db))"

definition max_claim_generation :: "hub_db \<Rightarrow> string \<Rightarrow> string \<Rightarrow> int" where
  "max_claim_generation db owner hw =
     sql_max (map gr_claim_generation
       (filter (\<lambda>g. gr_owner_domain_id g = owner \<and> gr_hardware_identity_ref g = hw) (grants db)))"

section \<open>Row mutations\<close>

definition update_proposal :: "string \<Rightarrow> (proposal_row \<Rightarrow> proposal_row) \<Rightarrow> hub_db \<Rightarrow> hub_db" where
  "update_proposal i f db = db\<lparr>proposals := tupd pr_enrollment_id i f (proposals db)\<rparr>"

definition update_grant :: "string \<Rightarrow> (grant_row \<Rightarrow> grant_row) \<Rightarrow> hub_db \<Rightarrow> hub_db" where
  "update_grant i f db = db\<lparr>grants := tupd gr_grant_id i f (grants db)\<rparr>"

definition update_claim :: "string \<Rightarrow> (claim_row \<Rightarrow> claim_row) \<Rightarrow> hub_db \<Rightarrow> hub_db" where
  "update_claim i f db = db\<lparr>claims := tupd cl_device_instance_id i f (claims db)\<rparr>"

definition update_device :: "string \<Rightarrow> (device_row \<Rightarrow> device_row) \<Rightarrow> hub_db \<Rightarrow> hub_db" where
  "update_device i f db = db\<lparr>devices := tupd dv_device_id i f (devices db)\<rparr>"

definition get_device_row :: "hub_db \<Rightarrow> string \<Rightarrow> device_row option" where
  "get_device_row db i = tget dv_device_id i (devices db)"

definition insert_proposal_row :: "proposal_row \<Rightarrow> hub_db \<Rightarrow> exn + hub_db" where
  "insert_proposal_row r db =
     andthen (tadd (\<lambda>a b. pr_enrollment_id a = pr_enrollment_id b) Integrity_error r (proposals db))
       (\<lambda>t. Inr (db\<lparr>proposals := t\<rparr>))"

definition add_proposal :: "proposal_row \<Rightarrow> hub_db \<Rightarrow> exn + hub_db" where
  "add_proposal r db =
     andthen (require_derived_hardware_identity_ref (pr_hardware_identity_ref r))
       (\<lambda>_. insert_proposal_row r db)"

definition add_decision :: "decision_row \<Rightarrow> hub_db \<Rightarrow> exn + hub_db" where
  "add_decision r db =
     andthen (tadd (\<lambda>a b. dc_decision_id a = dc_decision_id b \<or> dc_enrollment_id a = dc_enrollment_id b)
                Integrity_error r (decisions db))
       (\<lambda>t. Inr (db\<lparr>decisions := t\<rparr>))"

definition add_grant :: "grant_row \<Rightarrow> hub_db \<Rightarrow> exn + hub_db" where
  "add_grant r db =
     andthen (tadd (\<lambda>a b. gr_grant_id a = gr_grant_id b \<or> gr_enrollment_id a = gr_enrollment_id b
                          \<or> gr_decision_id a = gr_decision_id b)
                Integrity_error r (grants db))
       (\<lambda>t. Inr (db\<lparr>grants := t\<rparr>))"

definition add_grant_ack :: "grant_ack_row \<Rightarrow> hub_db \<Rightarrow> exn + hub_db" where
  "add_grant_ack r db =
     andthen (tadd (\<lambda>a b. ga_grant_id a = ga_grant_id b \<or> ga_enrollment_id a = ga_enrollment_id b)
                Integrity_error r (grant_acks db))
       (\<lambda>t. Inr (db\<lparr>grant_acks := t\<rparr>))"

definition upsert_claim :: "claim_row \<Rightarrow> hub_db \<Rightarrow> int \<times> hub_db" where
  "upsert_claim v db =
     (case get_claim db (cl_device_instance_id v) of
        None \<Rightarrow> (cl_revision v, db\<lparr>claims := claims db @ [v]\<rparr>)
      | Some existing \<Rightarrow>
          let revision = cl_revision existing + 1
          in (revision, update_claim (cl_device_instance_id v) (\<lambda>_. v\<lparr>cl_revision := revision\<rparr>) db))"

section \<open>Directory projection\<close>

text \<open>The display name a Manifest's \<open>title\<close> gives, else the device instance id.\<close>

fun manifest_title :: "(string \<times> json) list \<Rightarrow> string option" where
  "manifest_title doc = (case map_of doc ''title'' of Some (JStr t) \<Rightarrow> Some t | _ \<Rightarrow> None)"

definition projected_display_name :: "(string \<times> json) list \<Rightarrow> string \<Rightarrow> string" where
  "projected_display_name doc device_id =
     (case manifest_title doc of
        Some t \<Rightarrow> (if strip t \<noteq> [] then strip t else device_id)
      | None \<Rightarrow> device_id)"

definition project_active_claim ::
  "external \<Rightarrow> device_ref \<Rightarrow> string \<Rightarrow> string \<Rightarrow> string \<Rightarrow> string \<Rightarrow> int \<Rightarrow> instant \<Rightarrow> hub_db \<Rightarrow> exn + hub_db" where
  "project_active_claim x ref business mid mjson mdigest mrev activated_at db =
     andthen (present (json_loads x mjson) (Value_error ''JSONDecodeError'')) (\<lambda>document.
     andthen (case document of
                JObj entries \<Rightarrow> Inr entries
              | _ \<Rightarrow> Inl (conflict ''INVALID_ARGUMENT'' ''Manifest document must be an object''))
       (\<lambda>entries.
        let device_id = device_instance_id ref;
            display_name = projected_display_name entries device_id
        in Inr (case get_device_row db device_id of
             None \<Rightarrow> db\<lparr>devices := devices db @
               [\<lparr>dv_device_id = device_id, dv_display_name = display_name,
                 dv_manifest_id = mid, dv_manifest_json = mjson, dv_output_policy = None,
                 dv_manifest_revision = mdigest, dv_manifest_declared_revision = mrev,
                 dv_enrolled_at = activated_at, dv_updated_at = activated_at,
                 dv_owner_domain_generation = owner_domain_generation ref,
                 dv_claim_generation = claim_generation ref, dv_trust_epoch = trust_epoch ref,
                 dv_aggregate_revision = 1, dv_owner_id = Some business,
                 dv_lifecycle_state = Device_approved,
                 dv_last_management_request_id = '''', dv_last_management_fingerprint = ''''\<rparr>]\<rparr>
           | Some _ \<Rightarrow> update_device device_id (\<lambda>r. r\<lparr>
                 dv_manifest_id := mid, dv_manifest_json := mjson,
                 dv_manifest_revision := mdigest, dv_manifest_declared_revision := mrev,
                 dv_enrolled_at := activated_at, dv_updated_at := activated_at,
                 dv_owner_domain_generation := owner_domain_generation ref,
                 dv_claim_generation := claim_generation ref, dv_trust_epoch := trust_epoch ref,
                 dv_aggregate_revision := dv_aggregate_revision r + 1, dv_owner_id := Some business,
                 dv_lifecycle_state := Device_approved,
                 dv_last_management_request_id := '''', dv_last_management_fingerprint := ''''\<rparr>) db)))"

definition project_revoked_claim :: "device_ref \<Rightarrow> instant \<Rightarrow> hub_db \<Rightarrow> hub_db" where
  "project_revoked_claim ref revoked_at db =
     (case get_device_row db (device_instance_id ref) of
        None \<Rightarrow> db
      | Some row \<Rightarrow>
          if (dv_owner_domain_generation row, dv_claim_generation row, dv_trust_epoch row)
             \<noteq> (owner_domain_generation ref, claim_generation ref, trust_epoch ref)
          then db
          else update_device (device_instance_id ref) (\<lambda>r. r\<lparr>
                 dv_lifecycle_state := Device_revoked, dv_updated_at := revoked_at,
                 dv_aggregate_revision := dv_aggregate_revision r + 1\<rparr>) db)"

section \<open>Commissioning ledgers\<close>

definition base_identity :: "hub_db \<Rightarrow> string \<Rightarrow> base_identity_row option" where
  "base_identity db i = tget bi_device_base_id i (base_identities db)"

definition base_identity_for_key :: "hub_db \<Rightarrow> string \<Rightarrow> base_identity_row option" where
  "base_identity_for_key db k = tget bi_operational_key_id k (base_identities db)"

definition bind_base_identity :: "base_identity_row \<Rightarrow> hub_db \<Rightarrow> exn + hub_db" where
  "bind_base_identity v db =
     andthen (require_derived_hardware_identity_ref (bi_hardware_identity_ref v)) (\<lambda>_.
       case base_identity db (bi_device_base_id v) of
         Some existing \<Rightarrow>
           if bi_operational_key_id existing \<noteq> bi_operational_key_id v
           then Inl (problem_of ''UNAUTHENTICATED''
                       ''base identity is bound to another operational key'' 401 ''auth'')
           else Inr db
       | None \<Rightarrow>
           (case base_identity_for_key db (bi_operational_key_id v) of
              Some _ \<Rightarrow> Inl (problem_of ''UNAUTHENTICATED''
                          ''operational key is already bound to another base identity'' 401 ''auth'')
            | None \<Rightarrow> Inr (db\<lparr>base_identities := base_identities db @ [v]\<rparr>)))"

definition consume_commissioning_voucher :: "voucher_row \<Rightarrow> hub_db \<Rightarrow> exn + hub_db" where
  "consume_commissioning_voucher v db =
     (case tget cv_jti (cv_jti v) (vouchers db) of
        Some _ \<Rightarrow> Inl (problem_of ''UNAUTHENTICATED''
                    ''commissioning voucher was already used'' 401 ''auth'')
      | None \<Rightarrow> Inr (db\<lparr>vouchers := vouchers db @ [v]\<rparr>))"

definition commissioning_standing :: "hub_db \<Rightarrow> string \<Rightarrow> standing_row option" where
  "commissioning_standing db jti = tget cs_jti jti (standings db)"

definition store_commissioning_standing :: "standing_row \<Rightarrow> hub_db \<Rightarrow> exn + bool \<times> hub_db" where
  "store_commissioning_standing v db =
     (case commissioning_standing db (cs_jti v) of
        Some existing \<Rightarrow>
          if cs_operational_key_id existing \<noteq> cs_operational_key_id v
             \<or> cs_owner_domain_id existing \<noteq> cs_owner_domain_id v
             \<or> cs_business_owner_id existing \<noteq> cs_business_owner_id v
             \<or> cs_actor existing \<noteq> cs_actor v
          then Inl (conflict ''IDEMPOTENCY_CONFLICT''
                 ''commissioning standing was already recorded for another key or Controller'')
          else Inr (False, db)
      | None \<Rightarrow> Inr (True, db\<lparr>standings := standings db @ [v]\<rparr>))"

text \<open>\<open>ORDER BY recorded_at DESC, jti DESC LIMIT 1\<close>: the last row of the ascending order.\<close>

definition latest_commissioning_standing_for_key ::
  "hub_db \<Rightarrow> string \<Rightarrow> string \<Rightarrow> standing_row option" where
  "latest_commissioning_standing_for_key db owner key =
     (case rev (order_by (\<lambda>r. (cs_recorded_at r, cs_jti r))
              (filter (\<lambda>r. cs_owner_domain_id r = owner \<and> cs_operational_key_id r = key)
                (standings db))) of
        [] \<Rightarrow> None
      | r # _ \<Rightarrow> Some r)"

definition withdrawal_key :: "withdrawal_row \<Rightarrow> string \<times> string" where
  "withdrawal_key r = (cw_owner_domain_id r, cw_principal_id r)"

definition record_controller_withdrawal :: "withdrawal_row \<Rightarrow> hub_db \<Rightarrow> instant \<times> hub_db" where
  "record_controller_withdrawal v db =
     (case tget withdrawal_key (withdrawal_key v) (withdrawals db) of
        None \<Rightarrow> (cw_withdrawn_at v, db\<lparr>withdrawals := withdrawals db @ [v]\<rparr>)
      | Some existing \<Rightarrow>
          if cw_withdrawn_at existing < cw_withdrawn_at v
          then (cw_withdrawn_at v,
                db\<lparr>withdrawals := tupd withdrawal_key (withdrawal_key v)
                     (\<lambda>r. r\<lparr>cw_withdrawn_at := cw_withdrawn_at v, cw_actor := cw_actor v\<rparr>)
                     (withdrawals db)\<rparr>)
          else (cw_withdrawn_at existing, db))"

definition controller_withdrawn_at :: "hub_db \<Rightarrow> string \<Rightarrow> string \<Rightarrow> instant option" where
  "controller_withdrawn_at db owner pid =
     map_option cw_withdrawn_at (tget withdrawal_key (owner, pid) (withdrawals db))"

definition requires_fresh_presence :: "hub_db \<Rightarrow> string \<Rightarrow> string \<Rightarrow> bool" where
  "requires_fresh_presence db owner hw =
     (list_ex (\<lambda>p. pr_requested_owner_domain_id p = owner \<and> pr_hardware_identity_ref p = hw
                   \<and> pr_state p = Rejected) (proposals db)
      \<or> list_ex (\<lambda>c. cl_owner_domain_id c = owner \<and> cl_hardware_identity_ref c = hw
                   \<and> cl_state c = Revoked) (claims db))"

section \<open>Command results\<close>

definition result_key :: "result_row \<Rightarrow> string \<times> string \<times> string" where
  "result_key r = (rs_owner_domain_id r, rs_command_type r, rs_command_id r)"

definition replay_in_session ::
  "hub_db \<Rightarrow> string \<Rightarrow> string \<Rightarrow> string \<Rightarrow> string \<Rightarrow> exn + command_result option" where
  "replay_in_session db owner command_type command_id fp =
     (case tget result_key (owner, command_type, command_id) (command_results db) of
        None \<Rightarrow> Inr None
      | Some row \<Rightarrow>
          if rs_fingerprint row \<noteq> fp
          then Inl (conflict ''IDEMPOTENCY_CONFLICT''
                      ''command_id was reused with different canonical payload'')
          else Inr (Some ((rs_result row)\<lparr>cr_outcome := Replayed\<rparr>)))"

definition save_result ::
  "string \<Rightarrow> string \<Rightarrow> string \<Rightarrow> string \<Rightarrow> command_result \<Rightarrow> instant \<Rightarrow> hub_db \<Rightarrow> exn + hub_db" where
  "save_result owner command_type command_id fp result occurred_at db =
     andthen (tadd (\<lambda>a b. result_key a = result_key b) Integrity_error
                \<lparr>rs_owner_domain_id = owner, rs_command_type = command_type,
                 rs_command_id = command_id, rs_fingerprint = fp, rs_result = result,
                 rs_occurred_at = occurred_at\<rparr> (command_results db))
       (\<lambda>t. Inr (db\<lparr>command_results := t\<rparr>))"

section \<open>Outbox and Claim event stream\<close>

definition is_claim_stream_event :: "string \<Rightarrow> bool" where
  "is_claim_stream_event t = (t \<in> {''live.eidolon.device.claim-activated.v1'',
                                  ''live.eidolon.device.claim-revoked.v1''})"

definition add_outbox ::
  "string \<Rightarrow> string \<Rightarrow> string \<Rightarrow> int \<Rightarrow> admission_event \<Rightarrow> instant \<Rightarrow> hub_db \<Rightarrow> exn + hub_db" where
  "add_outbox event_id event_type aggregate_id aggregate_revision event occurred_at db =
     andthen (tadd (\<lambda>a b. ob_event_id a = ob_event_id b) Integrity_error
                \<lparr>ob_event_id = event_id, ob_event_type = event_type, ob_aggregate_id = aggregate_id,
                 ob_aggregate_revision = aggregate_revision, ob_event = event,
                 ob_occurred_at = occurred_at, ob_published_at = None,
                 ob_publish_attempts = 0, ob_last_error = ''''\<rparr> (outbox db))
       (\<lambda>t. if is_claim_stream_event event_type
            then andthen (tadd (\<lambda>a b. se_event_id a = se_event_id b) Integrity_error
                     \<lparr>se_stream_position = stream_seq db + 1, se_event_id = event_id,
                      se_owner_domain_id = ae_owner_domain_id event,
                      se_event_type = event_type, se_event = event,
                      se_occurred_at = occurred_at\<rparr> (claim_stream db))
                   (\<lambda>s. Inr (db\<lparr>outbox := t, claim_stream := s, stream_seq := stream_seq db + 1\<rparr>))
            else Inr (db\<lparr>outbox := t\<rparr>))"

definition stream_high_watermark :: "hub_db \<Rightarrow> int" where
  "stream_high_watermark db = sql_max (map se_stream_position (claim_stream db))"

definition claim_event_rows ::
  "hub_db \<Rightarrow> int \<Rightarrow> nat \<Rightarrow> exn + (int \<times> admission_event) list \<times> int" where
  "claim_event_rows db after limit =
     (let high = stream_high_watermark db
      in andthen (require (after \<le> high)
           (conflict ''CURSOR_GAP'' ''Claim event cursor is ahead of the stream'')) (\<lambda>_.
         andthen (require (after = 0 \<or> tget se_stream_position after (claim_stream db) \<noteq> None)
           (conflict ''CURSOR_GAP'' ''Claim event cursor is no longer retained'')) (\<lambda>_.
         let rows = take limit (order_by se_stream_position
                      (filter (\<lambda>r. after < se_stream_position r) (claim_stream db)));
             positions = map se_stream_position rows
         in andthen (require (positions = map (\<lambda>i. after + 1 + int i) [0..<length positions])
              (conflict ''CURSOR_GAP'' ''Claim event stream contains a durable gap'')) (\<lambda>_.
            Inr (map (\<lambda>r. (se_stream_position r, se_event r)) rows, high)))))"

definition pending_outbox :: "hub_db \<Rightarrow> nat \<Rightarrow> admission_event list" where
  "pending_outbox db limit =
     map ob_event (take limit (order_by (\<lambda>r. (ob_occurred_at r, ob_event_id r))
       (filter (\<lambda>r. ob_published_at r = None) (outbox db))))"

definition record_publish_failure :: "string \<Rightarrow> string \<Rightarrow> hub_db \<Rightarrow> hub_db" where
  "record_publish_failure event_id error db =
     (case tget ob_event_id event_id (outbox db) of
        None \<Rightarrow> db
      | Some row \<Rightarrow>
          if ob_published_at row \<noteq> None then db
          else db\<lparr>outbox := tupd ob_event_id event_id
                 (\<lambda>r. r\<lparr>ob_publish_attempts := ob_publish_attempts r + 1,
                        ob_last_error := take 512 error\<rparr>) (outbox db)\<rparr>)"

definition mark_published :: "string \<Rightarrow> instant \<Rightarrow> hub_db \<Rightarrow> exn + hub_db" where
  "mark_published event_id published_at db =
     (case tget ob_event_id event_id (outbox db) of
        None \<Rightarrow> Inl (Key_error event_id)
      | Some row \<Rightarrow>
          if ob_published_at row = None
          then Inr (db\<lparr>outbox := tupd ob_event_id event_id
                 (\<lambda>r. r\<lparr>ob_published_at := Some published_at, ob_last_error := ''''\<rparr>) (outbox db)\<rparr>)
          else Inr db)"

end
