(* ===== verification/Crypto.thy ===== *)
theory Crypto
  imports Contracts
begin

text \<open>
  P-256 proof verification and HPKE Base-mode sealing of a grant
  (\<open>hub/admission/crypto.py\<close>).  Base64url, the HKDF labels and the expand loop are
  computed here; SHA-256/HMAC, ECDSA, ECDH and AES-GCM are the libraries' and come from
  \<open>external\<close>, the ephemeral private key is an argument.
\<close>

section \<open>Base64url as Python's \<open>base64\<close> module does it\<close>

text \<open>The alphabet \<open>A-Z a-z 0-9 - _\<close> by its character codes.\<close>

definition b64_char :: "nat \<Rightarrow> char" where
  "b64_char n = char_of
     (if n < 26 then n + 65 else if n < 52 then n + 71 else if n < 62 then n - 4
      else if n = 62 then 45 else 95)"

text \<open>\<open>urlsafe_b64decode\<close> translates \<open>-_\<close> to \<open>+/\<close>, so both spellings decode.\<close>

definition b64_value :: "char \<Rightarrow> nat option" where
  "b64_value c = (let n = of_char c :: nat in
     if 65 \<le> n \<and> n \<le> 90 then Some (n - 65)
     else if 97 \<le> n \<and> n \<le> 122 then Some (n - 71)
     else if 48 \<le> n \<and> n \<le> 57 then Some (n + 4)
     else if n = 45 \<or> n = 43 then Some 62
     else if n = 95 \<or> n = 47 then Some 63
     else None)"

text \<open>
  \<open>binascii.a2b_base64\<close>, not strict: characters outside the alphabet are skipped, a
  complete pad sequence stops the scan, a quad left open is an error.
\<close>

definition octet :: "nat \<Rightarrow> byte" where
  "octet n = word_of_nat n"

fun a2b_base64 :: "string \<Rightarrow> nat \<Rightarrow> nat \<Rightarrow> nat \<Rightarrow> byte list option" where
  "a2b_base64 [] quad left pads = (if quad = 0 then Some [] else None)"
| "a2b_base64 (c # cs) quad left pads =
     (if c = CHR ''='' then
        (if 2 \<le> quad then (if 4 \<le> quad + Suc pads then Some []
                           else a2b_base64 cs quad left (Suc pads))
         else a2b_base64 cs quad left pads)
      else (case b64_value c of
          None \<Rightarrow> a2b_base64 cs quad left pads
        | Some v \<Rightarrow>
            if quad = 0 then a2b_base64 cs 1 v 0
            else if quad = 1 then
              map_option (Cons (octet (left * 4 + v div 16))) (a2b_base64 cs 2 (v mod 16) 0)
            else if quad = 2 then
              map_option (Cons (octet (left * 16 + v div 4))) (a2b_base64 cs 3 (v mod 4) 0)
            else map_option (Cons (octet (left * 64 + v))) (a2b_base64 cs 0 0 0)))"

definition urlsafe_b64decode :: "string \<Rightarrow> byte list option" where
  "urlsafe_b64decode s =
     (if list_all (\<lambda>c. (of_char c :: nat) < 128) s then a2b_base64 s 0 0 0 else None)"

fun urlsafe_b64encode :: "byte list \<Rightarrow> string" where
  "urlsafe_b64encode [] = []"
| "urlsafe_b64encode [a] =
     [b64_char (unat a div 4), b64_char (unat a mod 4 * 16), CHR ''='', CHR ''='']"
| "urlsafe_b64encode [a, b] =
     [b64_char (unat a div 4), b64_char (unat a mod 4 * 16 + unat b div 16),
      b64_char (unat b mod 16 * 4), CHR ''='']"
| "urlsafe_b64encode (a # b # c # bs) =
     b64_char (unat a div 4) # b64_char (unat a mod 4 * 16 + unat b div 16)
     # b64_char (unat b mod 16 * 4 + unat c div 64) # b64_char (unat c mod 64)
     # urlsafe_b64encode bs"

definition rstrip_pad :: "string \<Rightarrow> string" where
  "rstrip_pad s = rev (dropWhile (\<lambda>c. c = CHR ''='') (rev s))"

text \<open>\<open>_b64\<close>\<close>

definition b64 :: "byte list \<Rightarrow> string" where
  "b64 value = rstrip_pad (urlsafe_b64encode value)"

definition spki_scheme :: string where
  "spki_scheme = ''p256-spki:''"

definition remove_prefix :: "string \<Rightarrow> string \<Rightarrow> string" where
  "remove_prefix p s = (if take (length p) s = p then drop (length p) s else s)"

text \<open>\<open>"=" * (-len(raw) % 4)\<close>\<close>

definition pad_for :: "string \<Rightarrow> string" where
  "pad_for raw = replicate (nat ((- int (length raw)) mod 4)) (CHR ''='')"

text \<open>\<open>_decode\<close>; \<open>None\<close> is the \<open>ValueError\<close> of the decoder.\<close>

definition decode_key :: "string \<Rightarrow> byte list option" where
  "decode_key value = (let raw = remove_prefix spki_scheme value
                       in urlsafe_b64decode (raw @ pad_for raw))"

section \<open>Keys and proofs\<close>

definition load_p256_spki :: "external \<Rightarrow> string \<Rightarrow> exn + public_key" where
  "load_p256_spki x value =
     andthen (present (decode_key value) (Value_error ''base64'')) (\<lambda>der.
     andthen (present (load_der_public_key x der) (Value_error ''der'')) (\<lambda>key.
     (case key of
        P256_key _ \<Rightarrow> Inr key
      | Other_key \<Rightarrow> Inl (Value_error ''key is not P-256 SPKI''))))"

definition key_id :: "external \<Rightarrow> string \<Rightarrow> exn + string" where
  "key_id x value = present (sdk_operational_key_id x value) (Value_error ''not a P-256 SPKI'')"

definition int_from_bytes :: "byte list \<Rightarrow> nat" where
  "int_from_bytes bs = foldl (\<lambda>n b. n * 256 + unat b) 0 bs"

definition verify_p256_proof :: "external \<Rightarrow> string \<Rightarrow> document \<Rightarrow> string \<Rightarrow> bool" where
  "verify_p256_proof x public_spki doc signature =
     (case decode_key signature of
        None \<Rightarrow> False
      | Some raw \<Rightarrow>
          if length raw \<noteq> 64 then False
          else (case load_p256_spki x public_spki of
              Inl _ \<Rightarrow> False
            | Inr key \<Rightarrow> ecdsa_verify x key (int_from_bytes (take 32 raw))
                          (int_from_bytes (drop 32 raw)) (rfc8785_dumps x doc)))"

section \<open>HKDF and HPKE\<close>

definition hkdf_extract :: "external \<Rightarrow> byte list \<Rightarrow> byte list \<Rightarrow> byte list" where
  "hkdf_extract x salt ikm = hmac_sha256 x (if salt = [] then replicate 32 0 else salt) ikm"

text \<open>The loop of \<open>_expand\<close>: \<open>n\<close> blocks from \<open>counter\<close>, each chained to the one before.\<close>

fun expand_blocks :: "external \<Rightarrow> byte list \<Rightarrow> byte list \<Rightarrow> byte list \<Rightarrow> nat \<Rightarrow> nat \<Rightarrow> byte list" where
  "expand_blocks x prk info block counter 0 = []"
| "expand_blocks x prk info block counter (Suc n) =
     (let block' = hmac_sha256 x prk (block @ info @ [word_of_nat counter])
      in block' @ expand_blocks x prk info block' (Suc counter) n)"

text \<open>\<open>bytes([counter])\<close> raises once the counter passes 255.\<close>

definition hkdf_expand :: "external \<Rightarrow> byte list \<Rightarrow> byte list \<Rightarrow> nat \<Rightarrow> exn + byte list" where
  "hkdf_expand x prk info len =
     (let n = (len + 31) div 32
      in if 255 < n then Inl (Value_error ''bytes must be in range(0, 256)'')
         else Inr (take len (expand_blocks x prk info [] 1 n)))"

definition to_bytes2 :: "nat \<Rightarrow> byte list" where
  "to_bytes2 n = [word_of_nat (n div 256), word_of_nat (n mod 256)]"

definition hpke_v1 :: "byte list" where
  "hpke_v1 = encode ''HPKE-v1''"

definition labeled_extract ::
  "external \<Rightarrow> byte list \<Rightarrow> byte list \<Rightarrow> byte list \<Rightarrow> byte list \<Rightarrow> byte list" where
  "labeled_extract x suite salt label ikm = hkdf_extract x salt (hpke_v1 @ suite @ label @ ikm)"

definition labeled_expand ::
  "external \<Rightarrow> byte list \<Rightarrow> byte list \<Rightarrow> byte list \<Rightarrow> byte list \<Rightarrow> nat \<Rightarrow> exn + byte list" where
  "labeled_expand x suite prk label info len =
     hkdf_expand x prk (to_bytes2 len @ hpke_v1 @ suite @ label @ info) len"

definition seal_claim_grant ::
  "external \<Rightarrow> nat \<Rightarrow> string \<Rightarrow> claim_grant \<Rightarrow> claim_grant_aad \<Rightarrow> string \<Rightarrow> exn + wire_envelope" where
  "seal_claim_grant x ephemeral public_spki grant aad recipient_handoff_key_id =
     andthen (load_p256_spki x public_spki) (\<lambda>recipient.
     let enc = public_point x ephemeral;
         recipient_point = (case recipient of P256_key p \<Rightarrow> p | Other_key \<Rightarrow> []);
         kem_suite = encode ''KEM'' @ to_bytes2 16
     in andthen (labeled_expand x kem_suite
            (labeled_extract x kem_suite [] (encode ''eae_prk'') (ecdh x ephemeral recipient))
            (encode ''shared_secret'') (enc @ recipient_point) 32) (\<lambda>shared.
        let suite = encode ''HPKE'' @ to_bytes2 16 @ to_bytes2 1 @ to_bytes2 1;
            info = encode ''eidolon-trust-p256-hpke-v1'';
            context_bytes = [0] @ labeled_extract x suite [] (encode ''psk_id_hash'') []
              @ labeled_extract x suite [] (encode ''info_hash'') info;
            secret = labeled_extract x suite shared (encode ''secret'') []
        in andthen (labeled_expand x suite secret (encode ''key'') context_bytes 16) (\<lambda>key.
           andthen (labeled_expand x suite secret (encode ''base_nonce'') context_bytes 12) (\<lambda>nonce.
           Inr \<lparr>we_recipient_handoff_key_id = recipient_handoff_key_id,
                we_encapsulated_key = b64 enc,
                we_ciphertext = b64 (aesgcm_encrypt x key nonce (rfc8785_dumps x (Grant_doc grant))
                                      (rfc8785_dumps x (Aad_doc aad))),
                we_aad = aad\<rparr>))))"

section \<open>Facts\<close>

lemma b64_value_char: "n < 64 \<Longrightarrow> b64_value (b64_char n) = Some n"
  by (auto simp: b64_char_def b64_value_def Let_def)

lemma b64_char_ascii: "n < 64 \<Longrightarrow> (of_char (b64_char n) :: nat) < 128"
  by (auto simp: b64_char_def)

lemma b64_char_no_pad: "n < 64 \<Longrightarrow> b64_char n \<noteq> CHR ''=''"
proof -
  have "b64_value CHR ''='' = None" by (simp add: b64_value_def)
  then show "n < 64 \<Longrightarrow> ?thesis" by (metis b64_value_char option.distinct(1))
qed

lemma b64_char_no_colon: "n < 64 \<Longrightarrow> b64_char n \<noteq> CHR '':''"
proof -
  have "b64_value CHR '':'' = None" by (simp add: b64_value_def)
  then show "n < 64 \<Longrightarrow> ?thesis" by (metis b64_value_char option.distinct(1))
qed

lemma unat_byte: "unat (b :: byte) < 256"
  using unsigned_less [of b, where ?'a = nat] by simp

lemma byte_split:
  "unat (b :: byte) div 4 < 64" "unat b mod 4 * 16 + unat (c :: byte) div 16 < 64"
  "unat b mod 4 * 16 < 64" "unat b mod 16 * 4 < 64" "unat b mod 64 < 64"
  "unat b mod 16 * 4 + unat c div 64 < 64"
  using unat_byte [of b] unat_byte [of c] by auto

lemma octet_unat: "n = unat b \<Longrightarrow> octet n = b"
  by (simp add: octet_def)

lemma sextet_join:
  fixes a b c :: nat
  assumes "b < 256" "c < 256"
  shows "a div 4 * 4 + (a mod 4 * 16 + b div 16) div 16 = a"
    and "(a mod 4 * 16 + b div 16) mod 16 * 16 + (b mod 16 * 4 + c div 64) div 4 = b"
    and "(b mod 16 * 4 + c div 64) mod 4 * 64 + c mod 64 = c"
proof -
  have 1: "b div 16 < 16" "c div 64 < 4" using assms by auto
  then have "(a mod 4 * 16 + b div 16) div 16 = a mod 4" "(b mod 16 * 4 + c div 64) div 4 = b mod 16"
    "(a mod 4 * 16 + b div 16) mod 16 = b div 16" "(b mod 16 * 4 + c div 64) mod 4 = c div 64"
    by simp_all
  then show "a div 4 * 4 + (a mod 4 * 16 + b div 16) div 16 = a"
    "(a mod 4 * 16 + b div 16) mod 16 * 16 + (b mod 16 * 4 + c div 64) div 4 = b"
    "(b mod 16 * 4 + c div 64) mod 4 * 64 + c mod 64 = c"
    by (simp_all only: div_mult_mod_eq)
qed

lemma octet_join:
  "octet (unat a div 4 * 4 + (unat a mod 4 * 16 + unat b div 16) div 16) = a"
  "octet ((unat a mod 4 * 16 + unat b div 16) mod 16 * 16
     + (unat b mod 16 * 4 + unat c div 64) div 4) = b"
  "octet ((unat b mod 16 * 4 + unat c div 64) mod 4 * 64 + unat c mod 64) = c"
  by (rule octet_unat [OF sextet_join(1) [OF unat_byte unat_byte [of c]]]
        octet_unat [OF sextet_join(2) [OF unat_byte unat_byte]]
        octet_unat [OF sextet_join(3) [OF unat_byte [of b] unat_byte]])+

lemma octet_join_short:
  "octet (unat a div 4 * 4 + (unat a mod 4 * 16) div 16) = a"
  "octet ((unat a mod 4 * 16 + unat b div 16) mod 16 * 16 + (unat b mod 16 * 4) div 4) = b"
  using octet_join(1) [of a 0] octet_join(2) [of a b 0] by (simp_all only: unat_0 div_0 add_0_right)

text \<open>Decoding one quad, and the two padded ones that can end the text.\<close>

lemma a2b_quad:
  assumes "w < 64" "x < 64" "y < 64" "z < 64"
  shows "a2b_base64 (b64_char w # b64_char x # b64_char y # b64_char z # cs) 0 0 0 =
    map_option (\<lambda>r. octet (w * 4 + x div 16) # octet (x mod 16 * 16 + y div 4)
      # octet (y mod 4 * 64 + z) # r) (a2b_base64 cs 0 0 0)"
  using assms by (simp add: b64_value_char b64_char_no_pad option.map_comp comp_def)

lemma a2b_char0: "n < 64 \<Longrightarrow> a2b_base64 (b64_char n # cs) 0 l p = a2b_base64 cs 1 n 0"
  by (simp add: b64_value_char b64_char_no_pad)

lemma a2b_char1:
  "n < 64 \<Longrightarrow> a2b_base64 (b64_char n # cs) 1 l p =
     map_option (Cons (octet (l * 4 + n div 16))) (a2b_base64 cs 2 (n mod 16) 0)"
  by (simp add: b64_value_char b64_char_no_pad)

lemma a2b_char2:
  "n < 64 \<Longrightarrow> a2b_base64 (b64_char n # cs) 2 l p =
     map_option (Cons (octet (l * 16 + n div 4))) (a2b_base64 cs 3 (n mod 4) 0)"
  by (simp add: b64_value_char b64_char_no_pad)

lemma a2b_stop2: "a2b_base64 [CHR ''='', CHR ''=''] 2 l 0 = Some []"
  by simp

lemma a2b_stop3: "a2b_base64 [CHR ''=''] 3 l 0 = Some []"
  by simp

lemma a2b_padded2:
  assumes "w < 64" "x < 64"
  shows "a2b_base64 [b64_char w, b64_char x, CHR ''='', CHR ''=''] 0 0 0 =
      Some [octet (w * 4 + x div 16)]"
  using assms by (simp only: a2b_char0 a2b_char1 a2b_stop2 option.map)

lemma a2b_padded1:
  assumes "w < 64" "x < 64" "y < 64"
  shows "a2b_base64 [b64_char w, b64_char x, b64_char y, CHR ''=''] 0 0 0 =
      Some [octet (w * 4 + x div 16), octet (x mod 16 * 16 + y div 4)]"
  using assms by (simp only: a2b_char0 a2b_char1 a2b_char2 a2b_stop3 option.map)

text \<open>What \<open>_b64\<close> keeps: the encoding without its pad characters.\<close>

fun b64_body :: "byte list \<Rightarrow> string" where
  "b64_body [] = []"
| "b64_body [a] = [b64_char (unat a div 4), b64_char (unat a mod 4 * 16)]"
| "b64_body [a, b] =
     [b64_char (unat a div 4), b64_char (unat a mod 4 * 16 + unat b div 16),
      b64_char (unat b mod 16 * 4)]"
| "b64_body (a # b # c # bs) =
     b64_char (unat a div 4) # b64_char (unat a mod 4 * 16 + unat b div 16)
     # b64_char (unat b mod 16 * 4 + unat c div 64) # b64_char (unat c mod 64) # b64_body bs"

lemma b64_body_chars:
  "c \<in> set (b64_body bs) \<Longrightarrow> c \<noteq> CHR ''='' \<and> c \<noteq> CHR '':'' \<and> (of_char c :: nat) < 128"
  by (induction bs rule: b64_body.induct)
     (auto simp: b64_char_no_pad b64_char_no_colon b64_char_ascii byte_split)

lemma encode_body_pad: "urlsafe_b64encode bs = b64_body bs @ pad_for (b64_body bs)"
proof (induction bs rule: b64_body.induct)
  case (4 a b c bs)
  have "pad_for (w # x # y # z # s) = pad_for s" for w x y z and s :: string
  proof -
    have "(- (4 + int (length s))) mod 4 = (- int (length s)) mod 4" by presburger
    then show ?thesis by (simp add: pad_for_def)
  qed
  with 4 show ?case by simp
qed (simp_all add: pad_for_def numeral_2_eq_2)

lemma b64_eq_body: "b64 bs = b64_body bs"
proof -
  have nopad: "\<And>c. c \<in> set (b64_body bs) \<Longrightarrow> c \<noteq> CHR ''=''" using b64_body_chars by blast
  have "dropWhile (\<lambda>c. c = CHR ''='') (replicate n (CHR ''='') @ xs)
      = dropWhile (\<lambda>c. c = CHR ''='') xs" for n xs
    by (induction n) simp_all
  moreover have "dropWhile (\<lambda>c. c = CHR ''='') (rev (b64_body bs)) = rev (b64_body bs)"
    using nopad by (cases "rev (b64_body bs)") (auto simp flip: set_rev [of "b64_body bs"])
  ultimately show ?thesis
    by (simp add: b64_def rstrip_pad_def encode_body_pad pad_for_def)
qed

lemma a2b_encode: "a2b_base64 (urlsafe_b64encode bs) 0 0 0 = Some bs"
  by (induction bs rule: urlsafe_b64encode.induct)
     (simp_all only: urlsafe_b64encode.simps a2b_quad a2b_padded1 a2b_padded2 byte_split octet_join
        octet_join_short option.map a2b_base64.simps(1) if_True simp_thms)

lemma no_spki_prefix: "CHR '':'' \<notin> set s \<Longrightarrow> remove_prefix spki_scheme s = s"
proof -
  assume "CHR '':'' \<notin> set s"
  moreover have "CHR '':'' \<in> set spki_scheme" by (simp add: spki_scheme_def)
  ultimately have "take (length spki_scheme) s \<noteq> spki_scheme" by (metis in_set_takeD)
  then show ?thesis by (simp add: remove_prefix_def)
qed

lemma urlsafe_decode_encode: "urlsafe_b64decode (urlsafe_b64encode bs) = Some bs"
proof -
  have "list_all (\<lambda>c. (of_char c :: nat) < 128) (urlsafe_b64encode bs)"
    by (auto simp: encode_body_pad list_all_iff pad_for_def dest: b64_body_chars)
  then show ?thesis by (simp add: urlsafe_b64decode_def a2b_encode)
qed

lemma remove_spki_prefix: "remove_prefix spki_scheme (spki_scheme @ s) = s"
  by (simp add: remove_prefix_def)

lemma length_expand_blocks:
  assumes "\<And>k m. length (hmac_sha256 x k m) = 32"
  shows "length (expand_blocks x prk info block counter n) = 32 * n"
  by (induction n arbitrary: block counter) (simp_all add: Let_def assms)

end
