(* ===== verification/Commissioning.thy ===== *)
theory Commissioning
  imports Crypto Admission_Domain Hardware_Identity
begin

text \<open>
  What gives a Body standing to ask for admission (\<open>hub/admission/commissioning.py\<close>): the
  evidence that it holds the operational key, and either a voucher this Owner Domain signed
  or a continuation signature under the key.  Everything here is pure verification.

  The names and values a voucher and an evidence document consist of are constants of
  \<open>eidolon_sdk\<close>; they are the record \<open>voucher_contract\<close>.
\<close>

record voucher_contract =
  evidence_scheme :: string
  evidence_fields :: "string list"
  trust_profile_id :: string
  voucher_header :: "(string \<times> json) list"
  voucher_claim_names :: "string list"
  voucher_purpose :: string
  voucher_provenance :: "string list"

definition voucher_scheme :: string where
  "voucher_scheme = ''hub-issued-commissioning-voucher-v1''"

definition enrolled_base_key_scheme :: string where
  "enrolled_base_key_scheme = ''enrolled-base-key-v1''"

definition enrolled_base_key_contract :: string where
  "enrolled_base_key_contract = ''eidolon.device-foundation.enrolled-base-key-v1''"

record verified_commissioning =
  vc_device_base_id :: string
  vc_scheme :: string
  vc_jti :: "string option"
  vc_expires_at :: "int option"

section \<open>Text and JSON helpers\<close>

definition b64url_decode :: "string \<Rightarrow> byte list option" where
  "b64url_decode value = urlsafe_b64decode (value @ pad_for value)"

text \<open>\<open>s.rsplit(".", 1)\<close> unpacked into two names.\<close>

fun rsplit_dot :: "string \<Rightarrow> (string \<times> string) option" where
  "rsplit_dot [] = None"
| "rsplit_dot (c # cs) =
     (case rsplit_dot cs of
        Some (a, b) \<Rightarrow> Some (c # a, b)
      | None \<Rightarrow> (if c = CHR ''.'' then Some ([], cs) else None))"

text \<open>\<open>s.split(".")\<close>\<close>

fun split_dot :: "string \<Rightarrow> string list" where
  "split_dot [] = [[]]"
| "split_dot (c # cs) =
     (if c = CHR ''.'' then [] # split_dot cs
      else (case split_dot cs of [] \<Rightarrow> [[c]] | p # ps \<Rightarrow> (c # p) # ps))"

definition str_of :: "external \<Rightarrow> json \<Rightarrow> string" where
  "str_of x j = (case j of JStr s \<Rightarrow> s | _ \<Rightarrow> py_str x j)"

text \<open>\<open>int(value)\<close>; \<open>None\<close> is its \<open>TypeError\<close> or \<open>ValueError\<close>.\<close>

fun int_of :: "external \<Rightarrow> json \<Rightarrow> int option" where
  "int_of x (JNum r) = Some (if 0 \<le> r then \<lfloor>r\<rfloor> else \<lceil>r\<rceil>)"
| "int_of x (JBool b) = Some (if b then 1 else 0)"
| "int_of x (JStr s) = py_int x s"
| "int_of x _ = None"

definition dict_has :: "(string \<times> json) list \<Rightarrow> string \<Rightarrow> string \<Rightarrow> bool" where
  "dict_has doc k v = (map_of doc k = Some (JStr v))"

section \<open>Base identity evidence\<close>

definition verified_evidence ::
  "external \<Rightarrow> voucher_contract \<Rightarrow> hardware_evidence \<Rightarrow> string \<Rightarrow> string \<Rightarrow> string option" where
  "verified_evidence x vk evidence device_id op_key =
     (if he_scheme evidence \<noteq> evidence_scheme vk then None
      else case rsplit_dot (he_evidence evidence) of
        None \<Rightarrow> None
      | Some (document_raw, signature) \<Rightarrow>
          (case json_loads x document_raw of
             Some (JObj doc) \<Rightarrow>
               if set (map fst doc) \<noteq> set (evidence_fields vk) then None
               else if document_raw \<noteq> decode_text (rfc8785_dumps x (Json_doc (JObj doc))) then None
               else if \<not> dict_has doc ''device_instance_id'' device_id
                    \<or> \<not> dict_has doc ''operational_public_key'' op_key
                    \<or> \<not> dict_has doc ''profile_id'' (trust_profile_id vk)
                    \<or> \<not> verify_p256_proof x op_key (Json_doc (JObj doc)) signature
                    then None
               else map_option (str_of x) (map_of doc ''device_base_id'')
           | _ \<Rightarrow> None))"

section \<open>Standing: a voucher, or a continuation\<close>

definition voucher_claims_ok ::
  "external \<Rightarrow> voucher_contract \<Rightarrow> (string \<times> json) list \<Rightarrow> string \<Rightarrow> string \<Rightarrow> string \<Rightarrow> bool" where
  "voucher_claims_ok x vk claims_doc base_id owner nonce =
     (set (map fst claims_doc) = set (voucher_claim_names vk)
      \<and> dict_has claims_doc ''purpose'' (voucher_purpose vk)
      \<and> dict_has claims_doc ''owner_domain_id'' owner
      \<and> dict_has claims_doc ''device_base_id'' base_id
      \<and> list_ex (dict_has claims_doc ''base_identity_provenance'') (voucher_provenance vk)
      \<and> dict_has claims_doc ''jti'' nonce)"

text \<open>The signed parts of a voucher: its claims, once signature and header check out.\<close>

definition voucher_signed_claims ::
  "external \<Rightarrow> voucher_contract \<Rightarrow> byte list \<Rightarrow> string \<Rightarrow> (string \<times> json) list option" where
  "voucher_signed_claims x vk signing_key proof =
     (case split_dot proof of
        [p0, p1, p2] \<Rightarrow>
          let signing_input = p0 @ ''.'' @ p1;
              expected = hmac_sha256 x signing_key (encode signing_input)
          in if b64url_decode p2 \<noteq> Some expected then None
             else (case (b64url_decode p0, b64url_decode p1) of
                 (Some h, Some c) \<Rightarrow>
                   (case (json_loads x (decode_text h), json_loads x (decode_text c)) of
                      (Some (JObj header), Some (JObj claims_doc)) \<Rightarrow>
                        if set header \<noteq> set (voucher_header vk) then None else Some claims_doc
                    | _ \<Rightarrow> None)
               | _ \<Rightarrow> None)
      | _ \<Rightarrow> None)"

definition verified_voucher ::
  "external \<Rightarrow> voucher_contract \<Rightarrow> byte list \<Rightarrow> string \<Rightarrow> string \<Rightarrow> string \<Rightarrow> string \<Rightarrow> string \<Rightarrow> int
     \<Rightarrow> exn + verified_commissioning option" where
  "verified_voucher x vk signing_key proof base_id owner nonce op_key now_unix =
     (case voucher_signed_claims x vk signing_key proof of
        None \<Rightarrow> Inr None
      | Some claims_doc \<Rightarrow>
          if \<not> voucher_claims_ok x vk claims_doc base_id owner nonce then Inr None
          else andthen (key_id x op_key) (\<lambda>kid.
            if \<not> dict_has claims_doc ''operational_spki_sha256'' kid then Inr None
            else (case Option.bind (map_of claims_doc ''exp'') (int_of x) of
                None \<Rightarrow> Inr None
              | Some expires_at \<Rightarrow>
                  if expires_at \<le> now_unix then Inr None
                  else Inr (Some \<lparr>vc_device_base_id = base_id, vc_scheme = voucher_scheme,
                                  vc_jti = map_option (str_of x) (map_of claims_doc ''jti''),
                                  vc_expires_at = Some expires_at\<rparr>))))"

definition verified_continuation ::
  "external \<Rightarrow> string \<Rightarrow> string \<Rightarrow> string \<Rightarrow> string \<Rightarrow> string \<Rightarrow> string \<Rightarrow> verified_commissioning option" where
  "verified_continuation x proof base_id device_id owner nonce op_key =
     (let doc = Continuation_proof_doc enrolled_base_key_contract base_id device_id nonce owner
      in if \<not> verify_p256_proof x op_key doc proof then None
         else Some \<lparr>vc_device_base_id = base_id, vc_scheme = enrolled_base_key_scheme,
                    vc_jti = None, vc_expires_at = None\<rparr>)"

definition verified_standing ::
  "external \<Rightarrow> voucher_contract \<Rightarrow> byte list \<Rightarrow> string \<Rightarrow> string \<Rightarrow> string \<Rightarrow> string \<Rightarrow> string \<Rightarrow> string
     \<Rightarrow> int \<Rightarrow> exn + verified_commissioning option" where
  "verified_standing x vk signing_key base_id device_id owner nonce proof op_key now_unix =
     andthen (verified_voucher x vk signing_key proof base_id owner nonce op_key now_unix)
       (\<lambda>v. case v of
          Some _ \<Rightarrow> Inr v
        | None \<Rightarrow> Inr (verified_continuation x proof base_id device_id owner nonce op_key))"

text \<open>
  The two verifiers: \<open>IssuedBaseIdentityVerifier\<close> with its signing key, and
  \<open>RejectingCommissioningProofVerifier\<close> of a Host that has none.
\<close>

datatype commissioning_verifier =
  Issued_base_identity_verifier voucher_contract "byte list"
| Rejecting_verifier

fun verify_commissioning ::
  "external \<Rightarrow> commissioning_verifier \<Rightarrow> string \<Rightarrow> string \<Rightarrow> string \<Rightarrow> string \<Rightarrow> hardware_evidence
     \<Rightarrow> string \<Rightarrow> int \<Rightarrow> exn + verified_commissioning option" where
  "verify_commissioning x (Issued_base_identity_verifier vk signing_key)
       device_id owner nonce proof evidence op_key now_unix =
     (case verified_evidence x vk evidence device_id op_key of
        None \<Rightarrow> Inr None
      | Some base_id \<Rightarrow>
          verified_standing x vk signing_key base_id device_id owner nonce proof op_key now_unix)"
| "verify_commissioning x Rejecting_verifier device_id owner nonce proof evidence op_key now_unix =
     Inr None"

section \<open>Facts\<close>

lemma verified_voucherD:
  assumes "verified_voucher x vk sk proof base owner nonce key now = Inr (Some v)"
  obtains claims_doc kid where
    "voucher_signed_claims x vk sk proof = Some claims_doc"
    "voucher_claims_ok x vk claims_doc base owner nonce" "key_id x key = Inr kid"
    "dict_has claims_doc ''operational_spki_sha256'' kid"
    "vc_scheme v = voucher_scheme" "vc_device_base_id v = base" "vc_jti v = Some nonce"
    "\<exists>e. vc_expires_at v = Some e \<and> now < e"
  using assms
  by (auto simp: verified_voucher_def ok_iff dict_has_def voucher_claims_ok_def str_of_def
      split: option.splits if_splits)

lemma schemes_differ: "voucher_scheme \<noteq> enrolled_base_key_scheme"
  by (simp add: voucher_scheme_def enrolled_base_key_scheme_def)

text \<open>A verified proof is one of the two schemes, and says which.\<close>

lemma verified_standing_cases:
  assumes "verified_standing x vk sk base dev owner nonce proof key now = Inr (Some v)"
  shows "verified_voucher x vk sk proof base owner nonce key now = Inr (Some v) \<or>
    verified_continuation x proof base dev owner nonce key = Some v"
  using assms by (auto simp: verified_standing_def ok_iff split: option.splits)

lemma verified_continuation_scheme:
  "verified_continuation x proof base dev owner nonce key = Some v \<Longrightarrow>
   vc_scheme v = enrolled_base_key_scheme \<and> vc_device_base_id v = base \<and> vc_jti v = None
   \<and> verify_p256_proof x key (Continuation_proof_doc enrolled_base_key_contract base dev nonce owner)
       proof"
  by (auto simp: verified_continuation_def Let_def split: if_splits)

lemma verified_evidence_signed:
  assumes "verified_evidence x vk ev dev key = Some b"
  shows "\<exists>doc sig. verify_p256_proof x key (Json_doc (JObj doc)) sig
    \<and> dict_has doc ''device_instance_id'' dev \<and> dict_has doc ''operational_public_key'' key"
  using assms by (auto simp: verified_evidence_def split: if_splits option.splits prod.splits json.splits)

end
