(* ===== verification/Admission_Proposals.thy ===== *)
theory Admission_Proposals
  imports Admission_Store Commissioning
begin

text \<open>
  The first half of \<open>AdmissionAuthority\<close> (\<open>hub/admission/application.py\<close>): creating,
  expiring, cancelling and deciding a Proposal.

  A handler is \<open>hub_db \<Rightarrow> hub_db \<times> (exn + 'a)\<close>: the committed database and what the caller
  gets.  A transaction is \<open>hub_db \<Rightarrow> exn + 'a \<times> hub_db\<close>, run by \<open>run_tx\<close>, which rolls back on
  an exception.  Handlers that call \<open>expire_due\<close> first take two clock readings, its own
  (\<open>t0\<close>) and the one after it (\<open>now\<close>).
\<close>

section \<open>The authority and its transactions\<close>

record authority =
  au_owner_domain_id :: string
  au_owner_domain_generation :: int
  au_commissioning_proofs :: commissioning_verifier
  au_proposal_ttl :: int
  au_grant_ttl :: int
  au_decide_from_standing :: bool

type_synonym 'a tx = "hub_db \<Rightarrow> exn + 'a \<times> hub_db"
type_synonym 'a handler = "hub_db \<Rightarrow> hub_db \<times> (exn + 'a)"

definition run_tx :: "'a tx \<Rightarrow> 'a handler" where
  "run_tx tx db = (case tx db of Inl e \<Rightarrow> (db, Inl e) | Inr (v, db') \<Rightarrow> (db', Inr v))"

definition guarded :: "exn + unit \<Rightarrow> 'a handler \<Rightarrow> 'a handler" where
  "guarded g k db = (case g of Inl e \<Rightarrow> (db, Inl e) | Inr _ \<Rightarrow> k db)"

lemma guarded_case [code_unfold]:
  "guarded g k = (\<lambda>db. case g of Inl e \<Rightarrow> (db, Inl e) | Inr _ \<Rightarrow> k db)"
  by (simp add: guarded_def fun_eq_iff)

text \<open>The replay check every command makes before it takes the lock.\<close>

definition with_replay ::
  "string \<Rightarrow> string \<Rightarrow> string \<Rightarrow> string \<Rightarrow> command_result handler \<Rightarrow> command_result handler" where
  "with_replay owner ct cid fp k db =
     (case replay_in_session db owner ct cid fp of
        Inl e \<Rightarrow> (db, Inl e)
      | Inr (Some r) \<Rightarrow> (db, Inr r)
      | Inr None \<Rightarrow> k db)"

text \<open>The same check repeated under the lock, inside the transaction.\<close>

definition locked_replay ::
  "string \<Rightarrow> string \<Rightarrow> string \<Rightarrow> string \<Rightarrow> command_result tx \<Rightarrow> command_result tx" where
  "locked_replay owner ct cid fp body db =
     andthen (replay_in_session db owner ct cid fp)
       (\<lambda>r. case r of Some res \<Rightarrow> Inr (res, db) | None \<Rightarrow> body db)"

section \<open>Events\<close>

definition claim_activated_type :: string where
  "claim_activated_type = ''live.eidolon.device.claim-activated.v1''"

definition claim_revoked_type :: string where
  "claim_revoked_type = ''live.eidolon.device.claim-revoked.v1''"

definition admission_source :: string where
  "admission_source = ''urn:eidolon:authority:admission''"

definition event_dataschema :: "string \<Rightarrow> string" where
  "event_dataschema t =
     (if t = claim_activated_type then
        ''https://contracts.eidolon.live/device-foundation/v1/events/claim-activated-data.schema.json''
      else if t = claim_revoked_type then
        ''https://contracts.eidolon.live/device-foundation/v1/events/claim-revoked-data.schema.json''
      else ''https://contracts.eidolon.live/device-foundation/v1/events/schemas.schema.json'')"

definition event_audience :: "string \<Rightarrow> string" where
  "event_audience t =
     (if t \<in> {claim_activated_type, claim_revoked_type} then ''eidolon-claim-consumers''
      else ''eidolon-admission-audit'')"

definition make_event ::
  "string \<Rightarrow> string \<Rightarrow> string \<Rightarrow> string \<Rightarrow> int \<Rightarrow> string \<Rightarrow> string \<Rightarrow> instant \<Rightarrow> event_data \<Rightarrow> admission_event" where
  "make_event event_id event_type subject owner revision command_id correlation_id occurred_at payload =
     \<lparr>ae_id = event_id, ae_type = event_type, ae_subject = subject, ae_time = occurred_at,
      ae_dataschema = event_dataschema event_type, ae_audience = event_audience event_type,
      ae_owner_domain_id = owner, ae_aggregate_revision = revision,
      ae_correlation_id = correlation_id, ae_causation_id = command_id, ae_data = payload\<rparr>"

text \<open>Draw an event id, build the event and put it in the outbox, as each handler does.\<close>

definition publish ::
  "external \<Rightarrow> string \<Rightarrow> string \<Rightarrow> string \<Rightarrow> string \<Rightarrow> int \<Rightarrow> string \<Rightarrow> string \<Rightarrow> instant \<Rightarrow> event_data
     \<Rightarrow> hub_db \<Rightarrow> exn + hub_db" where
  "publish x event_type subject aggregate_id owner revision command_id correlation_id now payload db =
     (case new_id x ''admission-event'' db of (event_id, db1) \<Rightarrow>
        add_outbox event_id event_type aggregate_id revision
          (make_event event_id event_type subject owner revision command_id correlation_id now payload)
          now db1)"

definition set_proposal_state :: "string \<Rightarrow> proposal_state \<Rightarrow> instant \<Rightarrow> hub_db \<Rightarrow> hub_db" where
  "set_proposal_state eid st now =
     update_proposal eid (\<lambda>p. p\<lparr>pr_state := st, pr_revision := pr_revision p + 1,
                                pr_updated_at := now\<rparr>)"

section \<open>Expiry\<close>

definition revoke_grant :: "instant \<Rightarrow> grant_row \<Rightarrow> grant_row" where
  "revoke_grant now g = g\<lparr>gr_revoked_at := Some now\<rparr>"

definition expire_one :: "external \<Rightarrow> instant \<Rightarrow> proposal_row \<Rightarrow> hub_db \<Rightarrow> exn + hub_db" where
  "expire_one x now p db =
     (let eid = pr_enrollment_id p
      in andthen (require_transition (pr_state p) Expired) (\<lambda>_.
         let db1 = set_proposal_state eid Expired now db;
             db2 = (case get_grant_for_enrollment db1 eid of
                      Some g \<Rightarrow> (if gr_revoked_at g = None
                                 then update_grant (gr_grant_id g) (revoke_grant now) db1 else db1)
                    | None \<Rightarrow> db1)
         in publish x ''live.eidolon.device.enrollment-expired.v1'' (''enrollments/'' @ eid) eid
              (pr_requested_owner_domain_id p) (pr_revision p + 1) (''deadline:'' @ eid) eid now
              (Enrollment_data eid) db2))"

fun expire_each :: "external \<Rightarrow> instant \<Rightarrow> proposal_row list \<Rightarrow> hub_db \<Rightarrow> exn + hub_db" where
  "expire_each x now [] db = Inr db"
| "expire_each x now (p # ps) db = andthen (expire_one x now p db) (expire_each x now ps)"

definition expirable_states :: "proposal_state list" where
  "expirable_states = [Pending_review, Approved_awaiting_handoff, Grant_delivered]"

definition expire_due :: "external \<Rightarrow> instant \<Rightarrow> nat tx" where
  "expire_due x now db =
     (let due = list_expirable db expirable_states now
      in andthen (expire_each x now due db) (\<lambda>db'. Inr (length due, db')))"

definition with_expiry :: "external \<Rightarrow> instant \<Rightarrow> 'a handler \<Rightarrow> 'a handler" where
  "with_expiry x t0 k db =
     (case run_tx (expire_due x t0) db of
        (db1, Inl e) \<Rightarrow> (db1, Inl e)
      | (db1, Inr _) \<Rightarrow> k db1)"

section \<open>Cancellation\<close>

definition require_enrollment :: "hub_db \<Rightarrow> string \<Rightarrow> string \<Rightarrow> exn + proposal_row" where
  "require_enrollment db owner eid =
     (case get_proposal db eid of
        Some p \<Rightarrow> (if pr_requested_owner_domain_id p = owner then Inr p
                   else Inl (problem_of ''NOT_FOUND'' ''enrollment not found'' 404 ''missing''))
      | None \<Rightarrow> Inl (problem_of ''NOT_FOUND'' ''enrollment not found'' 404 ''missing''))"

definition cancel_command :: string where
  "cancel_command = ''admission.cancel-enrollment''"

definition cancel_tx ::
  "external \<Rightarrow> instant \<Rightarrow> string \<Rightarrow> string \<Rightarrow> string \<Rightarrow> string \<Rightarrow> actor_context \<Rightarrow> string \<Rightarrow> command_result tx" where
  "cancel_tx x now cid corr eid reason ctx fp =
     (let owner = ctx_owner_domain_id ctx
      in locked_replay owner cancel_command cid fp (\<lambda>db.
         andthen (require_enrollment db owner eid) (\<lambda>p.
         andthen (require_transition (pr_state p) Canceled) (\<lambda>_.
         let db1 = set_proposal_state eid Canceled now db;
             result = \<lparr>cr_command_id = cid, cr_outcome = Committed,
                       cr_body = Cancel_result eid Canceled (pr_revision p + 1),
                       cr_occurred_at = now\<rparr>
         in andthen (save_result owner cancel_command cid fp result now db1) (\<lambda>db2.
            andthen (publish x ''live.eidolon.device.enrollment-canceled.v1'' (''enrollments/'' @ eid)
                       eid owner (pr_revision p + 1) cid corr now (Canceled_data eid reason) db2)
              (\<lambda>db3. Inr (result, db3)))))))"

definition cancel_enrollment ::
  "external \<Rightarrow> instant \<Rightarrow> instant \<Rightarrow> string \<Rightarrow> string \<Rightarrow> string \<Rightarrow> string \<Rightarrow> actor_context
     \<Rightarrow> command_result handler" where
  "cancel_enrollment x t0 now cid corr eid reason ctx =
     guarded (require_scope ctx ''device.claim.approve'')
       (let owner = ctx_owner_domain_id ctx;
            fp = fingerprint x cancel_command owner (Cancel_payload eid reason (actor ctx))
        in with_replay owner cancel_command cid fp
             (with_expiry x t0 (run_tx (cancel_tx x now cid corr eid reason ctx fp))))"

section \<open>Decisions\<close>

definition decided_state :: "verdict \<Rightarrow> proposal_state" where
  "decided_state v = (case v of Approve \<Rightarrow> Approved_awaiting_handoff | Reject \<Rightarrow> Rejected)"

text \<open>The rows an approval writes.\<close>

definition decision_row_for ::
  "proposal_row \<Rightarrow> verdict \<Rightarrow> controller_actor \<Rightarrow> string \<Rightarrow> string \<Rightarrow> manifest_ref \<Rightarrow> string
     \<Rightarrow> instant \<Rightarrow> decision_row" where
  "decision_row_for p v who target_domain target_owner reviewed decision_id now =
     \<lparr>dc_decision_id = decision_id, dc_enrollment_id = pr_enrollment_id p, dc_decision = v,
      dc_actor = who, dc_target_owner_domain_id = target_domain,
      dc_target_business_owner_id = target_owner, dc_reviewed_manifest_ref = reviewed,
      dc_expected_proposal_revision = pr_revision p, dc_decided_at = now\<rparr>"

definition grant_ref :: "authority \<Rightarrow> proposal_row \<Rightarrow> string \<Rightarrow> int \<Rightarrow> device_ref" where
  "grant_ref au p target_domain generation =
     \<lparr>device_instance_id = pr_device_instance_id p, ref_owner_domain_id = target_domain,
      owner_domain_generation = au_owner_domain_generation au,
      claim_generation = generation, trust_epoch = 1\<rparr>"

definition grant_row_for ::
  "authority \<Rightarrow> proposal_row \<Rightarrow> string \<Rightarrow> manifest_ref \<Rightarrow> string \<Rightarrow> string \<Rightarrow> int \<Rightarrow> instant
     \<Rightarrow> grant_row" where
  "grant_row_for au p target_domain reviewed decision_id grant_id generation now =
     (let ref = grant_ref au p target_domain generation
      in \<lparr>gr_grant_id = grant_id, gr_enrollment_id = pr_enrollment_id p,
          gr_decision_id = decision_id, gr_owner_domain_id = target_domain,
          gr_hardware_identity_ref = pr_hardware_identity_ref p,
          gr_claim_generation = claim_generation ref, gr_device_ref = ref,
          gr_manifest_ref = reviewed, gr_handoff_key_id = pr_handoff_key_id p,
          gr_operational_key_id = pr_operational_key_id p,
          gr_grant = \<lparr>cg_grant_id = grant_id, cg_enrollment_id = pr_enrollment_id p,
                      cg_device_ref = ref, cg_manifest_ref = reviewed,
                      cg_approval_decision_id = decision_id,
                      cg_handoff_key_id = pr_handoff_key_id p,
                      cg_operational_key_id = pr_operational_key_id p,
                      cg_issued_at = now, cg_expires_at = now + au_grant_ttl au\<rparr>,
          gr_wire_envelope = None, gr_issued_at = now, gr_expires_at = now + au_grant_ttl au,
          gr_delivered_at = None, gr_revoked_at = None\<rparr>)"

text \<open>The Grant an approval mints, at the generation after every Grant of its lineage.\<close>

definition mint_grant ::
  "external \<Rightarrow> authority \<Rightarrow> proposal_row \<Rightarrow> string \<Rightarrow> manifest_ref \<Rightarrow> string \<Rightarrow> instant \<Rightarrow> hub_db
     \<Rightarrow> exn + string \<times> hub_db" where
  "mint_grant x au p target_domain reviewed decision_id now db =
     (let current = max_claim_generation db target_domain (pr_hardware_identity_ref p)
      in case new_id x ''grant'' db of (grant_id, db1) \<Rightarrow>
         andthen (add_grant
            (grant_row_for au p target_domain reviewed decision_id grant_id (current + 1) now) db1)
           (\<lambda>db2. Inr (grant_id, db2)))"

text \<open>\<open>_decide_in_session\<close>: one immutable Decision and what follows from it.\<close>

definition decide_in_session ::
  "external \<Rightarrow> authority \<Rightarrow> proposal_row \<Rightarrow> verdict \<Rightarrow> controller_actor \<Rightarrow> string \<Rightarrow> string
     \<Rightarrow> manifest_ref \<Rightarrow> string \<Rightarrow> string \<Rightarrow> instant \<Rightarrow> (approval_decision \<times> string option) tx" where
  "decide_in_session x au p v who target_domain target_owner reviewed cid corr now db =
     (let eid = pr_enrollment_id p
      in case new_id x ''decision'' db of (decision_id, db1) \<Rightarrow>
      let decided = \<lparr>ad_decision_id = decision_id, ad_enrollment_id = eid, ad_decision = v,
             ad_actor = who, ad_target_owner_domain_id = target_domain,
             ad_target_business_owner_id = target_owner, ad_reviewed_manifest_ref = reviewed,
             ad_expected_proposal_revision = pr_revision p, ad_decided_at = now\<rparr>
      in andthen (add_decision
            (decision_row_for p v who target_domain target_owner reviewed decision_id now) db1) (\<lambda>db2.
         let db3 = set_proposal_state eid (decided_state v) now db2
         in andthen (case v of
              Reject \<Rightarrow> Inr (None, db3)
            | Approve \<Rightarrow> andthen (mint_grant x au p target_domain reviewed decision_id now db3)
                           (\<lambda>(g, db4). Inr (Some g, db4))) (\<lambda>(grant_id, db4).
            andthen (publish x
               (case v of Approve \<Rightarrow> ''live.eidolon.device.enrollment-approved.v1''
                        | Reject \<Rightarrow> ''live.eidolon.device.enrollment-rejected.v1'')
               (''enrollments/'' @ eid) eid target_domain (pr_revision p + 1) cid corr now
               (Decision_data decision_id v) db4)
              (\<lambda>db5. Inr ((decided, grant_id), db5)))))"

definition decide_command :: string where
  "decide_command = ''admission.decide-enrollment''"

definition proposal_manifest_ref :: "proposal_row \<Rightarrow> manifest_ref" where
  "proposal_manifest_ref p = \<lparr>manifest_id = pr_manifest_id p,
     manifest_revision = pr_manifest_revision p, manifest_digest = pr_manifest_digest p\<rparr>"

definition proposal_expired :: "proposal_row \<Rightarrow> instant \<Rightarrow> bool" where
  "proposal_expired p now = (pr_state p = Expired \<or> pr_expires_at p \<le> now)"

definition expired_problem :: exn where
  "expired_problem = problem_of ''PROPOSAL_EXPIRED'' ''proposal expired'' 410 ''expired''"

definition decide_tx ::
  "external \<Rightarrow> authority \<Rightarrow> instant \<Rightarrow> string \<Rightarrow> string \<Rightarrow> string \<Rightarrow> decision_payload
     \<Rightarrow> actor_context \<Rightarrow> string \<Rightarrow> command_result tx" where
  "decide_tx x au now cid corr eid payload ctx fp =
     (let target = dp_target_owner_domain_id payload
      in locked_replay target decide_command cid fp (\<lambda>db.
         andthen (require_enrollment db (ctx_owner_domain_id ctx) eid) (\<lambda>p.
         andthen (require (\<not> proposal_expired p now) expired_problem) (\<lambda>_.
         andthen (require_transition (pr_state p) (decided_state (dp_decision payload))) (\<lambda>_.
         andthen (require (pr_revision p = dp_expected_proposal_revision payload)
                    (conflict ''REVISION_CONFLICT'' ''proposal revision is stale'')) (\<lambda>_.
         andthen (require (dp_reviewed_manifest_ref payload = proposal_manifest_ref p)
                    (conflict ''REVISION_CONFLICT'' ''reviewed ManifestRef does not match Proposal''))
           (\<lambda>_.
         andthen (decide_in_session x au p (dp_decision payload) (actor ctx) target
                    (dp_target_business_owner_id payload) (dp_reviewed_manifest_ref payload)
                    cid corr now db) (\<lambda>((decision, grant_id), db1).
         let result = \<lparr>cr_command_id = cid, cr_outcome = Committed,
                       cr_body = Decide_result decision grant_id
                                   (ad_expected_proposal_revision decision),
                       cr_occurred_at = now\<rparr>
         in andthen (save_result target decide_command cid fp result now db1)
              (\<lambda>db2. Inr (result, db2))))))))))"

definition decide_enrollment ::
  "external \<Rightarrow> authority \<Rightarrow> instant \<Rightarrow> instant \<Rightarrow> string \<Rightarrow> string \<Rightarrow> string \<Rightarrow> decision_payload
     \<Rightarrow> actor_context \<Rightarrow> command_result handler" where
  "decide_enrollment x au t0 now cid corr eid payload ctx =
     guarded (require_scope ctx ''device.claim.approve'')
    (guarded (require (dp_target_owner_domain_id payload = ctx_owner_domain_id ctx)
       (problem_of ''OWNER_DOMAIN_MISMATCH''
          ''Decision target Owner Domain does not match authorization'' 403 ''forbidden''))
    (guarded (require (dp_target_business_owner_id payload = ctx_business_owner_id ctx)
       (problem_of ''BUSINESS_OWNER_MISMATCH''
          ''Decision business Owner does not match authorization'' 403 ''forbidden''))
       (let target = dp_target_owner_domain_id payload;
            fp = fingerprint x decide_command target (Decide_payload payload eid (actor ctx))
        in with_replay target decide_command cid fp
             (with_expiry x t0 (run_tx (decide_tx x au now cid corr eid payload ctx fp))))))"

section \<open>Standing\<close>

record recorded_standing =
  st_actor :: controller_actor
  st_business_owner_id :: string

text \<open>\<open>_standing_for\<close>: the standing a Proposal arrives with, if any decides it.\<close>

definition standing_row_for ::
  "hub_db \<Rightarrow> verified_commissioning \<Rightarrow> string \<Rightarrow> string \<Rightarrow> standing_row option" where
  "standing_row_for db verified owner key =
     (if vc_scheme verified = voucher_scheme
      then (case vc_jti verified of
              Some jti \<Rightarrow> commissioning_standing db jti
            | None \<Rightarrow> commissioning_standing db ''None'')
      else latest_commissioning_standing_for_key db owner key)"

definition standing_for ::
  "authority \<Rightarrow> hub_db \<Rightarrow> verified_commissioning \<Rightarrow> string \<Rightarrow> string \<Rightarrow> recorded_standing option" where
  "standing_for au db verified owner key =
     (if \<not> au_decide_from_standing au then None
      else case standing_row_for db verified owner key of
        None \<Rightarrow> None
      | Some row \<Rightarrow>
          if cs_owner_domain_id row \<noteq> owner \<or> cs_operational_key_id row \<noteq> key then None
          else (case validate_json (cs_actor row) of
              None \<Rightarrow> None
            | Some who \<Rightarrow>
                if actor_owner_domain_id who \<noteq> owner
                   \<or> ''device.claim.approve'' \<notin> set (granted_scopes who) then None
                else (case controller_withdrawn_at db owner (principal_id who) of
                    Some withdrawn_at \<Rightarrow>
                      if cs_recorded_at row \<le> withdrawn_at then None
                      else Some \<lparr>st_actor = who, st_business_owner_id = cs_business_owner_id row\<rparr>
                  | None \<Rightarrow>
                      Some \<lparr>st_actor = who, st_business_owner_id = cs_business_owner_id row\<rparr>)))"

definition withdraw_controller ::
  "instant \<Rightarrow> string \<Rightarrow> actor_context \<Rightarrow> instant handler" where
  "withdraw_controller now pid ctx =
     guarded (require_scope ctx ''device.claim.approve'')
    (guarded (require (strip pid \<noteq> [] \<and> length pid \<le> 128)
       (problem_of ''INVALID_ARGUMENT'' ''principal_id is required'' 422 ''invalid''))
       (run_tx (\<lambda>db. Inr (record_controller_withdrawal
          \<lparr>cw_owner_domain_id = ctx_owner_domain_id ctx, cw_principal_id = pid,
           cw_withdrawn_at = now, cw_actor = actor ctx\<rparr> db))))"

record base_identity_answer =
  ba_operational_key_id :: string
  ba_device_base_id :: "string option"
  ba_requires_fresh_presence :: bool

definition answer_base_identity :: "hub_db \<Rightarrow> string \<Rightarrow> string \<Rightarrow> base_identity_answer" where
  "answer_base_identity db key owner =
     (case base_identity_for_key db key of
        None \<Rightarrow> \<lparr>ba_operational_key_id = key, ba_device_base_id = None,
                 ba_requires_fresh_presence = False\<rparr>
      | Some row \<Rightarrow> \<lparr>ba_operational_key_id = key,
                 ba_device_base_id =
                   (if bi_owner_domain_id row = owner then Some (bi_device_base_id row) else None),
                 ba_requires_fresh_presence =
                   requires_fresh_presence db owner (bi_hardware_identity_ref row)\<rparr>)"

definition record_commissioning_standing ::
  "instant \<Rightarrow> string \<Rightarrow> string \<Rightarrow> actor_context \<Rightarrow> (base_identity_answer \<times> string) handler" where
  "record_commissioning_standing now jti key ctx =
     guarded (require_scope ctx ''device.claim.approve'')
       (run_tx (\<lambda>db. andthen (store_commissioning_standing
          \<lparr>cs_jti = jti, cs_operational_key_id = key,
           cs_owner_domain_id = ctx_owner_domain_id ctx,
           cs_business_owner_id = ctx_business_owner_id ctx,
           cs_actor = Encoded (actor ctx), cs_recorded_at = now\<rparr> db)
          (\<lambda>(_, db1). Inr ((answer_base_identity db1 key (ctx_owner_domain_id ctx), jti), db1))))"

definition base_identity_for_operational_key ::
  "hub_db \<Rightarrow> string \<Rightarrow> actor_context \<Rightarrow> exn + base_identity_answer" where
  "base_identity_for_operational_key db key ctx =
     andthen (require_scope ctx ''device.read'')
       (\<lambda>_. Inr (answer_base_identity db key (ctx_owner_domain_id ctx)))"

end
