(* ===== verification/Admission_Enrollment.thy ===== *)
theory Admission_Enrollment
  imports Admission_Proposals
begin

text \<open>
  \<open>AdmissionAuthority.create_enrollment\<close> (\<open>hub/admission/application.py\<close>): the checks on
  the request, then the transaction that spends the voucher or demands an issued binding,
  records the Proposal and applies recorded standing.
\<close>

section \<open>Checks before the transaction\<close>

definition create_command :: string where
  "create_command = ''admission.create-enrollment''"

definition invalid_argument :: "string \<Rightarrow> exn" where
  "invalid_argument d = problem_of ''INVALID_ARGUMENT'' d 422 ''invalid''"

definition unauthenticated :: "string \<Rightarrow> exn" where
  "unauthenticated d = problem_of ''UNAUTHENTICATED'' d 401 ''auth''"

text \<open>A \<open>ValueError\<close> inside the guarded derivations becomes INVALID_ARGUMENT.\<close>

definition as_invalid_argument :: "exn + 'a \<Rightarrow> exn + 'a" where
  "as_invalid_argument m = (case m of Inl (Value_error d) \<Rightarrow> Inl (invalid_argument d) | r \<Rightarrow> r)"

definition prefixed_sha256 :: "external \<Rightarrow> string \<Rightarrow> string" where
  "prefixed_sha256 x s = ''sha256:'' @ sha256_hex x s"

text \<open>\<open>int(now.timestamp())\<close>\<close>

definition unix_seconds :: "instant \<Rightarrow> int" where
  "unix_seconds t = (if 0 \<le> t then t div 1000000 else - ((- t) div 1000000))"

record enrollment_keys =
  ek_handoff_key_id :: string
  ek_operational_key_id :: string

definition check_keys :: "external \<Rightarrow> enrollment_payload \<Rightarrow> exn + enrollment_keys" where
  "check_keys x payload =
     andthen (require (prefixed_sha256 x (he_evidence (ep_hardware_identity_evidence payload))
                       = he_evidence_digest (ep_hardware_identity_evidence payload))
                (invalid_argument ''hardware evidence digest mismatch'')) (\<lambda>_.
     andthen (as_invalid_argument (key_id x (ep_handoff_public_key payload))) (\<lambda>hk.
     andthen (as_invalid_argument (key_id x (ep_operational_public_key payload))) (\<lambda>ok.
     andthen (as_invalid_argument (present
                (sdk_derive_device_instance_id x (ep_operational_public_key payload))
                (Value_error ''not a P-256 SPKI''))) (\<lambda>expected.
     andthen (require (ep_device_instance_candidate_id payload = expected)
                (invalid_argument ''device instance candidate is not bound to the operational key''))
       (\<lambda>_. Inr \<lparr>ek_handoff_key_id = hk, ek_operational_key_id = ok\<rparr>)))))"

definition check_commissioning ::
  "external \<Rightarrow> authority \<Rightarrow> instant \<Rightarrow> enrollment_payload \<Rightarrow> exn + verified_commissioning \<times> string" where
  "check_commissioning x au now payload =
     (let proof = ep_commissioning_proof payload
      in andthen (verify_commissioning x (au_commissioning_proofs au)
            (ep_device_instance_candidate_id payload) (ep_requested_owner_domain_id payload)
            (cp_nonce proof) (cp_proof proof) (ep_hardware_identity_evidence payload)
            (ep_operational_public_key payload) (unix_seconds now)) (\<lambda>v.
         andthen (present v (unauthenticated ''commissioning proof is invalid'')) (\<lambda>verified.
         andthen (require (vc_scheme verified \<in> {voucher_scheme, enrolled_base_key_scheme})
                    (unauthenticated ''commissioning proof is invalid'')) (\<lambda>_.
         andthen (require (cp_scheme proof = vc_scheme verified)
                    (unauthenticated ''commissioning proof does not match the scheme it declares''))
           (\<lambda>_.
         andthen (as_invalid_argument (derive_hardware_identity_ref x (vc_device_base_id verified)))
           (\<lambda>identity_ref. Inr (verified, identity_ref)))))))"

text \<open>The canonical Manifest bytes, once the declared digest matches them.\<close>

definition check_manifest :: "external \<Rightarrow> proposed_manifest \<Rightarrow> exn + string" where
  "check_manifest x manifest =
     (let canonical = rfc8785_dumps x (Json_doc (pm_document manifest))
      in andthen (require (pm_digest manifest = ''sha256:'' @ hex (sha256 x canonical))
            (invalid_argument ''ManifestRef digest does not match the canonical Manifest document''))
         (\<lambda>_. Inr (decode_text canonical)))"

definition manifest_ref_of :: "proposed_manifest \<Rightarrow> manifest_ref" where
  "manifest_ref_of m = \<lparr>manifest_id = pm_manifest_id m, manifest_revision = pm_revision m,
     manifest_digest = pm_digest m\<rparr>"

section \<open>The transaction\<close>

text \<open>What a voucher or a continuation has to earn durably.\<close>

definition claim_standing ::
  "verified_commissioning \<Rightarrow> string \<Rightarrow> string \<Rightarrow> string \<Rightarrow> instant \<Rightarrow> hub_db \<Rightarrow> exn + hub_db" where
  "claim_standing verified owner identity_ref key now db =
     (let base = vc_device_base_id verified
      in if vc_scheme verified = voucher_scheme
         then andthen (consume_commissioning_voucher
                \<lparr>cv_jti = (case vc_jti verified of Some j \<Rightarrow> j | None \<Rightarrow> ''None''),
                 cv_device_base_id = base, cv_operational_key_id = key,
                 cv_expires_at = (case vc_expires_at verified of Some e \<Rightarrow> e | None \<Rightarrow> 0) * 1000000,
                 cv_consumed_at = now\<rparr> db) (\<lambda>db1.
              bind_base_identity
                \<lparr>bi_device_base_id = base, bi_owner_domain_id = owner,
                 bi_hardware_identity_ref = identity_ref, bi_operational_key_id = key,
                 bi_provenance = (if take 12 base = ''device-base-'' then ''minted''
                                  else ''derived-from-controller''),
                 bi_bound_at = now\<rparr> db1)
         else andthen (require (case base_identity db base of
                 None \<Rightarrow> False
               | Some bound \<Rightarrow> bi_owner_domain_id bound = owner \<and> bi_operational_key_id bound = key
                             \<and> bi_hardware_identity_ref bound = identity_ref)
                (unauthenticated ''base identity continuation has no matching issued binding'')) (\<lambda>_.
              andthen (require (\<not> requires_fresh_presence db owner identity_ref)
                (problem_of ''FORBIDDEN''
                   ''this Body was rejected or removed and needs a new commissioning''
                   403 ''forbidden'')) (\<lambda>_. Inr db)))"

definition new_proposal ::
  "external \<Rightarrow> authority \<Rightarrow> instant \<Rightarrow> enrollment_payload \<Rightarrow> enrollment_keys \<Rightarrow> string \<Rightarrow> string
     \<Rightarrow> string \<Rightarrow> string \<Rightarrow> proposal_row" where
  "new_proposal x au now payload keys identity_ref mjson eid challenge =
     \<lparr>pr_enrollment_id = eid,
      pr_device_instance_id = ep_device_instance_candidate_id payload,
      pr_hardware_identity_ref = identity_ref,
      pr_requested_owner_domain_id = ep_requested_owner_domain_id payload,
      pr_state = Pending_review, pr_revision = 1,
      pr_hardware_evidence_digest = he_evidence_digest (ep_hardware_identity_evidence payload),
      pr_commissioning_proof_digest =
        prefixed_sha256 x (cp_proof (ep_commissioning_proof payload)),
      pr_manifest_id = pm_manifest_id (ep_manifest payload),
      pr_manifest_revision = pm_revision (ep_manifest payload),
      pr_manifest_digest = pm_digest (ep_manifest payload), pr_manifest_json = mjson,
      pr_handoff_public_key_spki = ep_handoff_public_key payload,
      pr_handoff_key_id = ek_handoff_key_id keys,
      pr_operational_public_key_spki = ep_operational_public_key payload,
      pr_operational_key_id = ek_operational_key_id keys,
      pr_collection_challenge_hash = sha256_hex x challenge,
      pr_created_at = now, pr_expires_at = now + au_proposal_ttl au, pr_updated_at = now\<rparr>"

definition apply_standing ::
  "external \<Rightarrow> authority \<Rightarrow> instant \<Rightarrow> string \<Rightarrow> string \<Rightarrow> proposal_row \<Rightarrow> verified_commissioning
     \<Rightarrow> manifest_ref \<Rightarrow> hub_db \<Rightarrow> exn + hub_db" where
  "apply_standing x au now cid corr p verified mref db =
     (case standing_for au db verified (pr_requested_owner_domain_id p) (pr_operational_key_id p) of
        None \<Rightarrow> Inr db
      | Some standing \<Rightarrow>
          andthen (decide_in_session x au p Approve (st_actor standing)
             (pr_requested_owner_domain_id p) (st_business_owner_id standing) mref
             (cid @ '':standing'') corr now db) (\<lambda>(_, db1). Inr db1))"

definition create_tx ::
  "external \<Rightarrow> authority \<Rightarrow> instant \<Rightarrow> string \<Rightarrow> string \<Rightarrow> enrollment_payload \<Rightarrow> enrollment_keys
     \<Rightarrow> verified_commissioning \<Rightarrow> string \<Rightarrow> string \<Rightarrow> string \<Rightarrow> command_result tx" where
  "create_tx x au now cid corr payload keys verified identity_ref mjson fp =
     (let owner = ep_requested_owner_domain_id payload;
          mref = manifest_ref_of (ep_manifest payload)
      in locked_replay owner create_command cid fp (\<lambda>db.
         case new_id x ''enrollment'' db of (eid, db1) \<Rightarrow>
         let challenge = token_urlsafe x 32 (id_draws db1);
             p = new_proposal x au now payload keys identity_ref mjson eid challenge;
             result = \<lparr>cr_command_id = cid, cr_outcome = Committed,
                       cr_body = Create_result eid 1 Pending_review challenge
                                   (now + au_proposal_ttl au) mref,
                       cr_occurred_at = now\<rparr>
         in andthen (claim_standing verified owner identity_ref (ek_operational_key_id keys) now db1)
              (\<lambda>db2.
            andthen (add_proposal p db2) (\<lambda>db3.
            andthen (save_result owner create_command cid fp result now db3) (\<lambda>db4.
            andthen (publish x ''live.eidolon.device.enrollment-proposal-created.v1''
                       (''enrollments/'' @ eid) eid owner 1 cid corr now
                       (Proposal_created_data eid mref) db4) (\<lambda>db5.
            andthen (apply_standing x au now cid corr p verified mref db5)
              (\<lambda>db6. Inr (result, db6))))))))"

definition create_enrollment ::
  "external \<Rightarrow> authority \<Rightarrow> instant \<Rightarrow> string \<Rightarrow> string \<Rightarrow> enrollment_payload \<Rightarrow> command_result handler" where
  "create_enrollment x au now cid corr payload =
     (let owner = ep_requested_owner_domain_id payload;
          fp = fingerprint x create_command owner (Create_payload payload)
      in guarded (require (owner = au_owner_domain_id au)
           (problem_of ''OWNER_DOMAIN_MISMATCH'' ''requested Owner Domain is not served here''
              403 ''forbidden''))
         (with_replay owner create_command cid fp (\<lambda>db.
            case andthen (check_keys x payload) (\<lambda>keys.
                 andthen (check_commissioning x au now payload) (\<lambda>(verified, identity_ref).
                 andthen (check_manifest x (ep_manifest payload)) (\<lambda>mjson.
                   Inr (keys, verified, identity_ref, mjson)))) of
              Inl e \<Rightarrow> (db, Inl e)
            | Inr (keys, verified, identity_ref, mjson) \<Rightarrow>
                run_tx (create_tx x au now cid corr payload keys verified identity_ref mjson fp) db)))"

end
