(* ===== verification/Admission_Handoff.thy ===== *)
theory Admission_Handoff
  imports Admission_Proposals
begin

text \<open>
  Handing an approved Grant to the device and ending a Claim
  (\<open>AdmissionAuthority.collect_claim_grant\<close>, \<open>ack_claim_grant\<close> and \<open>revoke_claim\<close> of
  \<open>hub/admission/application.py\<close>).
\<close>

section \<open>Collecting the Grant\<close>

definition collect_command :: string where
  "collect_command = ''admission.collect-claim-grant''"

definition claim_revoked_problem :: exn where
  "claim_revoked_problem = conflict ''CLAIM_REVOKED'' ''Claim generation was revoked''"

definition grant_expired_problem :: exn where
  "grant_expired_problem = problem_of ''GRANT_EXPIRED'' ''ClaimGrant expired'' 410 ''expired''"

definition handoff_invalid :: "string \<Rightarrow> exn" where
  "handoff_invalid d = problem_of ''HANDOFF_PROOF_INVALID'' d 403 ''forbidden''"

text \<open>The checks of the collect transaction, in the code's order; the Grant they end at.\<close>

definition collect_checks ::
  "external \<Rightarrow> instant \<Rightarrow> int \<Rightarrow> string \<Rightarrow> string \<Rightarrow> proposal_row \<Rightarrow> hub_db \<Rightarrow> exn + grant_row" where
  "collect_checks x now revision challenge handoff_proof p db =
     (let eid = pr_enrollment_id p; grant = get_grant_for_enrollment db eid
      in andthen (require (pr_state p \<noteq> Claim_revoked) claim_revoked_problem) (\<lambda>_.
         andthen (require (pr_state p \<noteq> Grant_acknowledged) (conflict ''PROPOSAL_TERMINAL''
                    ''Claim is active and the handoff capability is terminal'')) (\<lambda>_.
         andthen (require (\<not> proposal_expired p now) expired_problem) (\<lambda>_.
         andthen (require (case grant of Some g \<Rightarrow> gr_revoked_at g = None | None \<Rightarrow> True)
                    claim_revoked_problem) (\<lambda>_.
         andthen (require (case grant of
                             Some g \<Rightarrow> \<not> (pr_state p = Grant_delivered \<and> gr_wire_envelope g = None)
                           | None \<Rightarrow> True) (conflict ''CONTRACT_UNSUPPORTED''
                    ''pre-PH2-B0 opaque grant cannot be replayed as a canonical wire envelope''))
           (\<lambda>_.
         andthen (present (get_decision_for_enrollment db eid)
                    (conflict ''DECISION_REQUIRED'' ''approved Decision is required'')) (\<lambda>decision.
         andthen (require (pr_state p \<in> {Approved_awaiting_handoff, Grant_delivered})
                    (conflict ''DECISION_REQUIRED'' ''approved Decision is required'')) (\<lambda>_.
         andthen (require (dc_expected_proposal_revision decision = revision)
                    (conflict ''REVISION_CONFLICT'' ''proposal revision is stale'')) (\<lambda>_.
         andthen (require (pr_collection_challenge_hash p = sha256_hex x challenge)
                    (handoff_invalid ''collection challenge is invalid'')) (\<lambda>_.
         andthen (require (verify_p256_proof x (pr_handoff_public_key_spki p)
                             (Collection_proof_doc eid revision challenge) handoff_proof)
                    (handoff_invalid ''handoff key proof is invalid'')) (\<lambda>_.
         andthen (present grant
                    (conflict ''DECISION_REQUIRED'' ''approved ClaimGrant is missing'')) (\<lambda>g.
         andthen (require (now < gr_expires_at g) grant_expired_problem) (\<lambda>_.
         Inr g)))))))))))))"

text \<open>Sealing: the first collection binds the envelope to the Grant and moves the Proposal.\<close>

definition grant_aad ::
  "authority \<Rightarrow> int \<Rightarrow> proposal_row \<Rightarrow> grant_row \<Rightarrow> claim_grant_aad" where
  "grant_aad au revision p g =
     \<lparr>aad_enrollment_id = pr_enrollment_id p, aad_proposal_revision = revision,
      aad_device_instance_id = pr_device_instance_id p,
      aad_hardware_evidence_digest = pr_hardware_evidence_digest p,
      aad_manifest_ref = proposal_manifest_ref p,
      aad_owner_domain_id = pr_requested_owner_domain_id p,
      aad_owner_domain_generation = au_owner_domain_generation au,
      aad_claim_generation = gr_claim_generation g, aad_trust_epoch = 1,
      aad_grant_id = gr_grant_id g\<rparr>"

definition deliver_grant ::
  "external \<Rightarrow> authority \<Rightarrow> nat \<Rightarrow> instant \<Rightarrow> int \<Rightarrow> proposal_row \<Rightarrow> grant_row
     \<Rightarrow> (wire_envelope \<times> instant) tx" where
  "deliver_grant x au ephemeral now revision p g db =
     (case gr_wire_envelope g of
        Some envelope \<Rightarrow>
          andthen (present (gr_delivered_at g) (Type_error ''delivered_at is None''))
            (\<lambda>t. Inr ((envelope, t), db))
      | None \<Rightarrow>
          andthen (seal_claim_grant x ephemeral (pr_handoff_public_key_spki p) (gr_grant g)
                     (grant_aad au revision p g) (pr_handoff_key_id p)) (\<lambda>envelope.
          Inr ((envelope, now),
               set_proposal_state (pr_enrollment_id p) Grant_delivered now
                 (update_grant (gr_grant_id g)
                    (\<lambda>r. r\<lparr>gr_wire_envelope := Some envelope, gr_delivered_at := Some now\<rparr>) db))))"

definition collect_tx ::
  "external \<Rightarrow> authority \<Rightarrow> nat \<Rightarrow> instant \<Rightarrow> string \<Rightarrow> string \<Rightarrow> string \<Rightarrow> int \<Rightarrow> string \<Rightarrow> string
     \<Rightarrow> string \<Rightarrow> command_result tx" where
  "collect_tx x au ephemeral now cid corr eid revision challenge handoff_proof fp =
     (let owner = au_owner_domain_id au
      in locked_replay owner collect_command cid fp (\<lambda>db.
         andthen (require_enrollment db owner eid) (\<lambda>p.
         andthen (collect_checks x now revision challenge handoff_proof p db) (\<lambda>g.
         andthen (deliver_grant x au ephemeral now revision p g db) (\<lambda>((envelope, delivered_at), db1).
         let result = \<lparr>cr_command_id = cid, cr_outcome = Committed,
                       cr_body = Collect_result (gr_grant_id g) envelope (gr_expires_at g)
                                   (gr_decision_id g) revision,
                       cr_occurred_at = delivered_at\<rparr>
         in andthen (save_result owner collect_command cid fp result delivered_at db1) (\<lambda>db2.
            if gr_wire_envelope g \<noteq> None then Inr (result, db2)
            else andthen (publish x ''live.eidolon.device.claim-grant-delivered.v1''
                   (''enrollments/'' @ eid) eid owner (pr_revision p + 1) cid corr delivered_at
                   (Grant_delivered_data (gr_grant_id g) (gr_decision_id g)) db2)
                 (\<lambda>db3. Inr (result, db3))))))))"

definition collect_claim_grant ::
  "external \<Rightarrow> authority \<Rightarrow> nat \<Rightarrow> instant \<Rightarrow> instant \<Rightarrow> string \<Rightarrow> string \<Rightarrow> string \<Rightarrow> int \<Rightarrow> string
     \<Rightarrow> string \<Rightarrow> command_result handler" where
  "collect_claim_grant x au ephemeral t0 now cid corr eid revision challenge handoff_proof =
     (let owner = au_owner_domain_id au;
          fp = fingerprint x collect_command owner
                 (Collect_payload eid revision (sha256_hex x challenge) handoff_proof)
      in with_replay owner collect_command cid fp
           (with_expiry x t0
              (run_tx (collect_tx x au ephemeral now cid corr eid revision challenge
                         handoff_proof fp))))"

section \<open>Acknowledging it\<close>

definition ack_command :: string where
  "ack_command = ''admission.ack-claim-grant''"

text \<open>The checks of the ack transaction: the Proposal and the Grant it is about.\<close>

definition ack_checks ::
  "external \<Rightarrow> instant \<Rightarrow> string \<Rightarrow> string \<Rightarrow> string \<Rightarrow> int \<Rightarrow> int \<Rightarrow> hub_db
     \<Rightarrow> exn + proposal_row \<times> grant_row" where
  "ack_checks x now eid gid op_proof stored_generation stored_epoch db =
     (let missing = problem_of ''NOT_FOUND'' ''ClaimGrant not found'' 404 ''missing''
      in andthen (present (get_proposal db eid) missing) (\<lambda>p.
         andthen (present (get_grant db gid) missing) (\<lambda>g.
         andthen (require (gr_enrollment_id g = eid) missing) (\<lambda>_.
         andthen (require (gr_revoked_at g = None \<and> pr_state p \<noteq> Claim_revoked)
                    claim_revoked_problem) (\<lambda>_.
         andthen (require (now < gr_expires_at g) grant_expired_problem) (\<lambda>_.
         andthen (require_transition (pr_state p) Grant_acknowledged) (\<lambda>_.
         andthen (require ((stored_generation, stored_epoch)
                            = (claim_generation (gr_device_ref g), trust_epoch (gr_device_ref g)))
                    (conflict ''GENERATION_CONFLICT''
                       ''stored Claim generation or trust epoch is stale'')) (\<lambda>_.
         andthen (require (verify_p256_proof x (pr_operational_public_key_spki p)
                             (Ack_proof_doc eid gid (gr_device_ref g)) op_proof)
                    (problem_of ''UNAUTHENTICATED'' ''operational key proof is invalid'' 401 ''auth''))
           (\<lambda>_. Inr (p, g))))))))))"

definition claim_for ::
  "device_ref \<Rightarrow> string \<Rightarrow> grant_row \<Rightarrow> proposal_row \<Rightarrow> claim_state \<Rightarrow> instant option
     \<Rightarrow> instant \<Rightarrow> instant option \<Rightarrow> claim_row" where
  "claim_for ref business g p st activated_at now revoked_at =
     \<lparr>cl_device_instance_id = device_instance_id ref,
      cl_owner_domain_id = ref_owner_domain_id ref, cl_business_owner_id = business,
      cl_hardware_identity_ref = gr_hardware_identity_ref g,
      cl_owner_domain_generation = owner_domain_generation ref,
      cl_claim_generation = claim_generation ref, cl_trust_epoch = trust_epoch ref,
      cl_manifest_ref = gr_manifest_ref g, cl_approval_decision_id = gr_decision_id g,
      cl_operational_public_key_spki = pr_operational_public_key_spki p, cl_state = st,
      cl_revision = 1, cl_activated_at = activated_at, cl_updated_at = now,
      cl_revoked_at = revoked_at\<rparr>"

text \<open>Recording the ACK, activating the Claim and projecting it.\<close>

definition activate_claim ::
  "external \<Rightarrow> instant \<Rightarrow> string \<Rightarrow> proposal_row \<Rightarrow> grant_row \<Rightarrow> (int \<times> string) tx" where
  "activate_claim x now op_proof p g db =
     (let ref = gr_device_ref g
      in andthen (add_grant_ack
            \<lparr>ga_grant_id = gr_grant_id g, ga_enrollment_id = pr_enrollment_id p,
             ga_proof_fingerprint = ''sha256:'' @ sha256_hex x op_proof,
             ga_device_ref = ref, ga_acknowledged_at = now\<rparr> db) (\<lambda>db1.
         andthen (present (get_decision db1 (gr_decision_id g)) (Type_error ''Decision is None''))
           (\<lambda>decision.
         let business = dc_target_business_owner_id decision
         in case upsert_claim (claim_for ref business g p Active (Some now) now None) db1 of
              (revision, db2) \<Rightarrow>
            andthen (project_active_claim x ref business (pr_manifest_id p) (pr_manifest_json p)
                       (pr_manifest_digest p) (pr_manifest_revision p) now db2) (\<lambda>db3.
            Inr ((revision, business), set_proposal_state (pr_enrollment_id p) Grant_acknowledged now db3)))))"

definition ack_tx ::
  "external \<Rightarrow> authority \<Rightarrow> instant \<Rightarrow> string \<Rightarrow> string \<Rightarrow> string \<Rightarrow> string \<Rightarrow> string \<Rightarrow> int \<Rightarrow> int
     \<Rightarrow> string \<Rightarrow> command_result tx" where
  "ack_tx x au now cid corr eid gid op_proof stored_generation stored_epoch fp =
     (let owner = au_owner_domain_id au
      in locked_replay owner ack_command cid fp (\<lambda>db.
         andthen (ack_checks x now eid gid op_proof stored_generation stored_epoch db) (\<lambda>(p, g).
         let ref = gr_device_ref g
         in andthen (activate_claim x now op_proof p g db) (\<lambda>((claim_revision, business), db1).
            let result = \<lparr>cr_command_id = cid, cr_outcome = Committed,
                          cr_body = Ack_result ref Active, cr_occurred_at = now\<rparr>
            in andthen (save_result owner ack_command cid fp result now db1) (\<lambda>db2.
               andthen (publish x ''live.eidolon.device.claim-grant-acknowledged.v1''
                          (''enrollments/'' @ eid) eid (ref_owner_domain_id ref) (pr_revision p + 1)
                          cid corr now (Grant_acknowledged_data gid) db2) (\<lambda>db3.
               andthen (publish x claim_activated_type
                          (''device-instances/'' @ device_instance_id ref) (device_instance_id ref)
                          (ref_owner_domain_id ref) claim_revision cid corr now
                          (Claim_activated_data ref business (gr_manifest_ref g) (gr_decision_id g) now)
                          db3)
                 (\<lambda>db4. Inr (result, db4))))))))"

text \<open>
  \<open>_project_committed_claim\<close>: a projector that fails turns a committed Claim into a
  retryable 503; the projector is whatever the composition installed.
\<close>

definition projection_unavailable :: exn where
  "projection_unavailable = Admission_problem
     \<lparr>code = ''AUTHORITY_UNAVAILABLE'',
      detail = ''Claim committed but public directory projection is unavailable'',
      status = 503, category = ''unavailable'', retryable = True\<rparr>"

definition project_committed_claim ::
  "(string \<Rightarrow> exn + unit) option \<Rightarrow> command_result \<Rightarrow> exn + unit" where
  "project_committed_claim projector result =
     (case projector of
        None \<Rightarrow> Inr ()
      | Some f \<Rightarrow>
          (case cr_body result of
             Ack_result ref _ \<Rightarrow>
               (case f (device_instance_id ref) of
                  Inl _ \<Rightarrow> Inl projection_unavailable
                | Inr _ \<Rightarrow> Inr ())
           | _ \<Rightarrow> Inl projection_unavailable))"

definition then_project ::
  "(hub_db \<Rightarrow> string \<Rightarrow> exn + unit) option \<Rightarrow> command_result handler \<Rightarrow> command_result handler" where
  "then_project projector h db =
     (case h db of
        (db', Inl e) \<Rightarrow> (db', Inl e)
      | (db', Inr r) \<Rightarrow>
          (case project_committed_claim (map_option (\<lambda>f. f db') projector) r of
             Inl e \<Rightarrow> (db', Inl e)
           | Inr _ \<Rightarrow> (db', Inr r)))"

definition ack_claim_grant ::
  "external \<Rightarrow> authority \<Rightarrow> (hub_db \<Rightarrow> string \<Rightarrow> exn + unit) option \<Rightarrow> instant \<Rightarrow> instant
     \<Rightarrow> string \<Rightarrow> string \<Rightarrow> string \<Rightarrow> string \<Rightarrow> string \<Rightarrow> int \<Rightarrow> int \<Rightarrow> command_result handler" where
  "ack_claim_grant x au projector t0 now cid corr eid gid op_proof stored_generation stored_epoch =
     (let owner = au_owner_domain_id au;
          fp = fingerprint x ack_command owner
                 (Ack_payload eid gid op_proof stored_generation stored_epoch)
      in then_project projector
           (with_replay owner ack_command cid fp
              (with_expiry x t0
                 (run_tx (ack_tx x au now cid corr eid gid op_proof stored_generation
                            stored_epoch fp)))))"

section \<open>Revoking a Claim\<close>

definition revoke_command :: string where
  "revoke_command = ''admission.revoke-claim''"

definition claim_not_found :: exn where
  "claim_not_found = problem_of ''NOT_FOUND'' ''Claim not found'' 404 ''missing''"

definition claim_matches_ref :: "claim_row \<Rightarrow> device_ref \<Rightarrow> bool" where
  "claim_matches_ref c ref =
     ((cl_owner_domain_id c, cl_owner_domain_generation c, cl_claim_generation c, cl_trust_epoch c)
      = (ref_owner_domain_id ref, owner_domain_generation ref, claim_generation ref, trust_epoch ref))"

text \<open>Who the Claim, or the Grant that has no Claim yet, belongs to.\<close>

definition revoke_target_owner :: "hub_db \<Rightarrow> claim_row option \<Rightarrow> grant_row option \<Rightarrow> exn + string" where
  "revoke_target_owner db claim grant =
     (case claim of
        Some c \<Rightarrow> Inr (cl_business_owner_id c)
      | None \<Rightarrow>
          andthen (present grant claim_not_found) (\<lambda>g.
          andthen (present (get_decision db (gr_decision_id g)) (Type_error ''Decision is None''))
            (\<lambda>d. Inr (dc_target_business_owner_id d))))"

text \<open>A Grant nobody acknowledged: the Proposal, the Grant and a tombstone Claim.\<close>

definition revoke_unclaimed :: "device_ref \<Rightarrow> instant \<Rightarrow> grant_row \<Rightarrow> hub_db \<Rightarrow> exn + hub_db" where
  "revoke_unclaimed ref now g db =
     andthen (present (get_proposal db (gr_enrollment_id g)) (Type_error ''Proposal is None'')) (\<lambda>p.
     andthen (require_transition (pr_state p) Claim_revoked) (\<lambda>_.
     let db1 = update_grant (gr_grant_id g) (revoke_grant now)
                 (set_proposal_state (gr_enrollment_id g) Claim_revoked now db)
     in andthen (present (get_decision db1 (gr_decision_id g)) (Type_error ''Decision is None''))
          (\<lambda>d. Inr (snd (upsert_claim
             (claim_for ref (dc_target_business_owner_id d) g p Revoked None now (Some now)) db1)))))"

text \<open>A standing Claim: the row turns revoked and the Grant it came from with it.\<close>

definition revoke_standing_claim :: "instant \<Rightarrow> claim_row \<Rightarrow> hub_db \<Rightarrow> hub_db" where
  "revoke_standing_claim now c db =
     (let db1 = update_claim (cl_device_instance_id c)
                  (\<lambda>r. r\<lparr>cl_state := Revoked, cl_revision := cl_revision r + 1,
                         cl_updated_at := now, cl_revoked_at := Some now\<rparr>) db
      in case get_grant_for_decision db1 (cl_approval_decision_id c) of
           Some g \<Rightarrow> update_grant (gr_grant_id g) (revoke_grant now) db1
         | None \<Rightarrow> db1)"

definition revoke_result :: "string \<Rightarrow> device_ref \<Rightarrow> int \<Rightarrow> string option \<Rightarrow> instant \<Rightarrow> command_result" where
  "revoke_result cid ref revision event_id occurred_at =
     \<lparr>cr_command_id = cid, cr_outcome = Committed,
      cr_body = Revoke_result ref revision event_id Device_revoked Revoked,
      cr_occurred_at = occurred_at\<rparr>"

text \<open>The end both paths share: directory row, result and the ClaimRevoked event.\<close>

definition finish_revocation ::
  "external \<Rightarrow> instant \<Rightarrow> string \<Rightarrow> string \<Rightarrow> string \<Rightarrow> device_ref \<Rightarrow> string \<Rightarrow> string \<Rightarrow> int
     \<Rightarrow> command_result tx" where
  "finish_revocation x now owner cid corr ref reason fp revision db =
     (let db1 = project_revoked_claim ref now db
      in case new_id x ''admission-event'' db1 of (event_id, db2) \<Rightarrow>
         let result = revoke_result cid ref revision (Some event_id) now
         in andthen (save_result owner revoke_command cid fp result now db2) (\<lambda>db3.
            andthen (add_outbox event_id claim_revoked_type (device_instance_id ref) revision
                       (make_event event_id claim_revoked_type
                          (''device-instances/'' @ device_instance_id ref) (ref_owner_domain_id ref)
                          revision cid corr now (Claim_revoked_data ref reason now)) now db3)
              (\<lambda>db4. Inr (result, db4))))"

definition revoke_tx ::
  "external \<Rightarrow> instant \<Rightarrow> string \<Rightarrow> string \<Rightarrow> device_ref \<Rightarrow> string \<Rightarrow> actor_context \<Rightarrow> string
     \<Rightarrow> command_result tx" where
  "revoke_tx x now cid corr ref reason ctx fp =
     (let owner = ctx_owner_domain_id ctx
      in locked_replay owner revoke_command cid fp (\<lambda>db.
         let claim = get_claim db (device_instance_id ref);
             grant = get_grant_for_device_ref db ref
         in andthen (revoke_target_owner db claim grant) (\<lambda>business.
            andthen (require (business = ctx_business_owner_id ctx) claim_not_found) (\<lambda>_.
            case claim of
              None \<Rightarrow>
                andthen (present grant claim_not_found) (\<lambda>g.
                andthen (revoke_unclaimed ref now g db)
                  (finish_revocation x now owner cid corr ref reason fp 1))
            | Some c \<Rightarrow>
                andthen (require (claim_matches_ref c ref)
                  (conflict ''GENERATION_CONFLICT'' ''Claim generation is stale'')) (\<lambda>_.
                if cl_state c = Revoked then
                  let occurred_at = (case cl_revoked_at c of Some t \<Rightarrow> t | None \<Rightarrow> cl_updated_at c);
                      result = revoke_result cid ref (cl_revision c) None occurred_at
                  in andthen (save_result owner revoke_command cid fp result occurred_at db)
                       (\<lambda>db1. Inr (result, db1))
                else finish_revocation x now owner cid corr ref reason fp (cl_revision c + 1)
                       (revoke_standing_claim now c db))))))"

definition revoke_claim ::
  "external \<Rightarrow> instant \<Rightarrow> string \<Rightarrow> string \<Rightarrow> device_ref \<Rightarrow> string \<Rightarrow> actor_context
     \<Rightarrow> command_result handler" where
  "revoke_claim x now cid corr ref reason ctx =
     guarded (require_scope ctx ''device.claim.revoke'')
    (guarded (require (ref_owner_domain_id ref = ctx_owner_domain_id ctx)
       (problem_of ''OWNER_DOMAIN_MISMATCH'' ''target DeviceRef is outside authorization''
          403 ''forbidden''))
       (let owner = ctx_owner_domain_id ctx;
            fp = fingerprint x revoke_command owner (Revoke_payload ref reason)
        in with_replay owner revoke_command cid fp
             (run_tx (revoke_tx x now cid corr ref reason ctx fp))))"

end
