(* ===== verification/Admission_Queries.thy ===== *)
theory Admission_Queries
  imports Admission_Enrollment Admission_Handoff
begin

text \<open>
  What Admission answers without changing a Claim (the query half of
  \<open>hub/admission/application.py\<close>): a Claim, the recovery projection of an Enrollment, pages
  of both and the Claim event stream.  A query that first persists due expiries is a handler.
\<close>

section \<open>Views\<close>

record claim_record =
  cv_device_ref :: device_ref
  cv_business_owner_id :: string
  cv_manifest_ref :: manifest_ref
  cv_state :: claim_state
  cv_revision :: int
  cv_updated_at :: instant

record enrollment_proposal =
  pv_enrollment_id :: string
  pv_proposal_revision :: int
  pv_state :: proposal_state
  pv_device_instance_candidate_id :: string
  pv_requested_owner_domain_id :: string
  pv_hardware_evidence_digest :: string
  pv_manifest_ref :: manifest_ref
  pv_handoff_key_id :: string
  pv_created_at :: instant
  pv_expires_at :: instant

datatype delivery_status = Status_delivered | Status_acknowledged

record grant_delivery =
  gd_grant_id :: string
  gd_approval_decision_id :: string
  gd_state :: delivery_status
  gd_delivered_at :: instant
  gd_acknowledged_at :: "instant option"

record recovery_projection =
  rp_commissioning_proof_digest :: string
  rp_proposal :: enrollment_proposal
  rp_approval_decision :: "approval_decision option"
  rp_grant_delivery :: "grant_delivery option"
  rp_claim :: "claim_record option"
  rp_source_revision :: int
  rp_observed_at :: instant

definition claim_ref :: "claim_row \<Rightarrow> device_ref" where
  "claim_ref r = \<lparr>device_instance_id = cl_device_instance_id r,
     ref_owner_domain_id = cl_owner_domain_id r,
     owner_domain_generation = cl_owner_domain_generation r,
     claim_generation = cl_claim_generation r, trust_epoch = cl_trust_epoch r\<rparr>"

definition claim_view :: "claim_row \<Rightarrow> claim_record" where
  "claim_view r = \<lparr>cv_device_ref = claim_ref r, cv_business_owner_id = cl_business_owner_id r,
     cv_manifest_ref = cl_manifest_ref r, cv_state = cl_state r, cv_revision = cl_revision r,
     cv_updated_at = cl_updated_at r\<rparr>"

definition proposal_view :: "proposal_row \<Rightarrow> int \<Rightarrow> enrollment_proposal" where
  "proposal_view r content_revision =
     \<lparr>pv_enrollment_id = pr_enrollment_id r, pv_proposal_revision = content_revision,
      pv_state = pr_state r, pv_device_instance_candidate_id = pr_device_instance_id r,
      pv_requested_owner_domain_id = pr_requested_owner_domain_id r,
      pv_hardware_evidence_digest = pr_hardware_evidence_digest r,
      pv_manifest_ref = proposal_manifest_ref r, pv_handoff_key_id = pr_handoff_key_id r,
      pv_created_at = pr_created_at r, pv_expires_at = pr_expires_at r\<rparr>"

definition decision_view :: "decision_row \<Rightarrow> approval_decision" where
  "decision_view d = \<lparr>ad_decision_id = dc_decision_id d, ad_enrollment_id = dc_enrollment_id d,
     ad_decision = dc_decision d, ad_actor = dc_actor d,
     ad_target_owner_domain_id = dc_target_owner_domain_id d,
     ad_target_business_owner_id = dc_target_business_owner_id d,
     ad_reviewed_manifest_ref = dc_reviewed_manifest_ref d,
     ad_expected_proposal_revision = dc_expected_proposal_revision d,
     ad_decided_at = dc_decided_at d\<rparr>"

section \<open>Recovery projection\<close>

text \<open>The Claim of this Enrollment's own Grant, never a newer or older one of the device.\<close>

definition enrollment_claim :: "hub_db \<Rightarrow> proposal_row \<Rightarrow> claim_row option" where
  "enrollment_claim db p =
     (case get_grant_for_enrollment db (pr_enrollment_id p) of
        None \<Rightarrow> None
      | Some g \<Rightarrow>
          (case get_claim db (pr_device_instance_id p) of
             None \<Rightarrow> None
           | Some c \<Rightarrow>
               if cl_approval_decision_id c \<noteq> gr_decision_id g
                  \<or> cl_claim_generation c \<noteq> gr_claim_generation g
                  \<or> cl_owner_domain_id c \<noteq> gr_owner_domain_id g
               then None else Some c))"

definition grant_delivery_view :: "grant_row \<Rightarrow> grant_ack_row option \<Rightarrow> grant_delivery option" where
  "grant_delivery_view g ack =
     map_option (\<lambda>t. \<lparr>gd_grant_id = gr_grant_id g, gd_approval_decision_id = gr_decision_id g,
        gd_state = (if ack \<noteq> None then Status_acknowledged else Status_delivered),
        gd_delivered_at = t, gd_acknowledged_at = map_option ga_acknowledged_at ack\<rparr>)
       (gr_delivered_at g)"

definition recovery_view :: "instant \<Rightarrow> hub_db \<Rightarrow> proposal_row \<Rightarrow> recovery_projection" where
  "recovery_view observed_at db p =
     (let eid = pr_enrollment_id p;
          decision = get_decision_for_enrollment db eid;
          ack = get_ack_for_enrollment db eid
      in \<lparr>rp_commissioning_proof_digest = pr_commissioning_proof_digest p,
          rp_proposal = proposal_view p
            (case decision of Some d \<Rightarrow> dc_expected_proposal_revision d | None \<Rightarrow> 1),
          rp_approval_decision = map_option decision_view decision,
          rp_grant_delivery =
            Option.bind (get_grant_for_enrollment db eid) (\<lambda>g. grant_delivery_view g ack),
          rp_claim = map_option claim_view (enrollment_claim db p),
          rp_source_revision = pr_revision p, rp_observed_at = observed_at\<rparr>)"

definition is_domain_approver :: "actor_context \<Rightarrow> bool" where
  "is_domain_approver ctx = (''device.claim.approve'' \<in> set (granted_scopes (actor ctx)))"

definition enrollment_not_found :: exn where
  "enrollment_not_found = problem_of ''NOT_FOUND'' ''enrollment not found'' 404 ''missing''"

definition read_enrollment_recovery ::
  "instant \<Rightarrow> string \<Rightarrow> actor_context \<Rightarrow> hub_db \<Rightarrow> exn + recovery_projection" where
  "read_enrollment_recovery now eid ctx db =
     andthen (require_enrollment db (ctx_owner_domain_id ctx) eid) (\<lambda>p.
     let decision = get_decision_for_enrollment db eid
     in andthen (require (decision \<noteq> None \<or> is_domain_approver ctx) enrollment_not_found) (\<lambda>_.
        andthen (require (case decision of
              None \<Rightarrow> True
            | Some d \<Rightarrow> dc_target_business_owner_id d = ctx_business_owner_id ctx
                        \<or> is_domain_approver ctx) enrollment_not_found) (\<lambda>_.
        Inr (recovery_view now db p))))"

definition get_enrollment_recovery ::
  "external \<Rightarrow> instant \<Rightarrow> instant \<Rightarrow> string \<Rightarrow> actor_context \<Rightarrow> recovery_projection handler" where
  "get_enrollment_recovery x t0 now eid ctx =
     guarded (require_scope ctx ''device.read'')
       (with_expiry x t0 (\<lambda>db. (db, read_enrollment_recovery now eid ctx db)))"

section \<open>Pages\<close>

record 'a page =
  pg_items :: "'a list"
  pg_next_cursor :: "(int \<times> string) option"
  pg_observed_at :: instant

text \<open>A full page names its last row as the next cursor.\<close>

definition next_cursor :: "('r \<Rightarrow> int \<times> string) \<Rightarrow> 'r list \<Rightarrow> nat \<Rightarrow> (int \<times> string) option" where
  "next_cursor key rows limit =
     (if length rows = limit \<and> rows \<noteq> [] then Some (key (last rows)) else None)"

definition list_enrollment_recovery ::
  "external \<Rightarrow> instant \<Rightarrow> instant \<Rightarrow> string \<Rightarrow> proposal_state list \<Rightarrow> (int \<times> string) option \<Rightarrow> nat
     \<Rightarrow> actor_context \<Rightarrow> recovery_projection page handler" where
  "list_enrollment_recovery x t0 now owner states cursor limit ctx =
     guarded (require_scope ctx ''device.claim.approve'')
    (guarded (require (owner = ctx_owner_domain_id ctx)
       (problem_of ''NOT_FOUND'' ''enrollments not found'' 404 ''missing''))
       (with_expiry x t0 (\<lambda>db.
          let rows = list_proposals db owner states cursor limit
          in (db, Inr \<lparr>pg_items = map (recovery_view now db) rows,
                       pg_next_cursor = next_cursor proposal_sort_key rows limit,
                       pg_observed_at = now\<rparr>))))"

definition read_claim :: "hub_db \<Rightarrow> string \<Rightarrow> actor_context \<Rightarrow> exn + claim_record" where
  "read_claim db device_id ctx =
     andthen (require_scope ctx ''device.read'') (\<lambda>_.
     (case get_claim db device_id of
        None \<Rightarrow> Inl claim_not_found
      | Some row \<Rightarrow>
          if cl_owner_domain_id row \<noteq> ctx_owner_domain_id ctx
             \<or> cl_business_owner_id row \<noteq> ctx_business_owner_id ctx
          then Inl claim_not_found else Inr (claim_view row)))"

definition list_claims ::
  "instant \<Rightarrow> string \<Rightarrow> claim_state list \<Rightarrow> (int \<times> string) option \<Rightarrow> nat \<Rightarrow> actor_context \<Rightarrow> hub_db
     \<Rightarrow> exn + claim_record page" where
  "list_claims now owner states cursor limit ctx db =
     andthen (require_scope ctx ''device.read'') (\<lambda>_.
     if owner \<noteq> ctx_owner_domain_id ctx
     then Inr \<lparr>pg_items = [], pg_next_cursor = None, pg_observed_at = now\<rparr>
     else let rows = list_claim_rows db owner (ctx_business_owner_id ctx) states cursor limit
          in Inr \<lparr>pg_items = map claim_view rows,
                  pg_next_cursor = next_cursor claim_sort_key rows limit,
                  pg_observed_at = now\<rparr>)"

record claim_event_page =
  ep_requested_after :: int
  ep_events :: "(int \<times> admission_event) list"
  ep_next_position :: int
  ep_high_watermark :: int
  ep_observed_at :: instant

definition read_claim_event_page ::
  "authority \<Rightarrow> instant \<Rightarrow> int \<Rightarrow> nat \<Rightarrow> string \<Rightarrow> hub_db \<Rightarrow> exn + claim_event_page" where
  "read_claim_event_page au now cursor limit owner db =
     andthen (require (owner = au_owner_domain_id au)
       (problem_of ''NOT_FOUND'' ''Claim event stream not found'' 404 ''missing'')) (\<lambda>_.
     andthen (claim_event_rows db cursor limit) (\<lambda>(records, high).
     Inr \<lparr>ep_requested_after = cursor, ep_events = records,
          ep_next_position = (if records \<noteq> [] then fst (last records) else cursor),
          ep_high_watermark = high, ep_observed_at = now\<rparr>))"

end
