(* ===== verification/Admission_Effects.thy ===== *)
theory Admission_Effects
  imports Admission_Queries
begin

text \<open>
  What the transactions of Admission write.  \<open>core\<close> forgets the tables every command
  appends to in the same way (results, outbox, Claim event stream, identifier draws), so
  the effect of a transaction is an equation between cores.
\<close>

section \<open>Core and log\<close>

definition core :: "hub_db \<Rightarrow> hub_db" where
  "core db = db\<lparr>command_results := [], outbox := [], claim_stream := [], stream_seq := 0,
                id_draws := 0\<rparr>"

definition log_of :: "hub_db \<Rightarrow> outbox_row list \<times> stream_row list \<times> int" where
  "log_of db = (outbox db, claim_stream db, stream_seq db)"

named_theorems core_simps \<open>how writes act on the core and on the log\<close>

lemma core_select [core_simps]:
  "base_identities (core db) = base_identities db" "vouchers (core db) = vouchers db"
  "standings (core db) = standings db" "withdrawals (core db) = withdrawals db"
  "proposals (core db) = proposals db" "decisions (core db) = decisions db"
  "grants (core db) = grants db" "grant_acks (core db) = grant_acks db"
  "claims (core db) = claims db" "devices (core db) = devices db"
  "management_events (core db) = management_events db" "revocations (core db) = revocations db"
  "erase_operations (core db) = erase_operations db" "erase_evidence (core db) = erase_evidence db"
  by (simp_all add: core_def)

lemma core_field: "core db = core db' \<Longrightarrow> (\<And>d. f (core d) = f d) \<Longrightarrow> f db = f db'"
  by metis

lemma core_update [core_simps]:
  "core (db\<lparr>command_results := t1\<rparr>) = core db"
  "core (db\<lparr>outbox := t2\<rparr>) = core db"
  "core (db\<lparr>claim_stream := t3\<rparr>) = core db"
  "core (db\<lparr>stream_seq := n\<rparr>) = core db"
  "core (db\<lparr>id_draws := m\<rparr>) = core db"
  by (simp_all add: core_def)

lemma core_proposals: "core (db\<lparr>proposals := t\<rparr>) = (core db)\<lparr>proposals := t\<rparr>"
  and core_decisions: "core (db\<lparr>decisions := u\<rparr>) = (core db)\<lparr>decisions := u\<rparr>"
  and core_grants: "core (db\<lparr>grants := v\<rparr>) = (core db)\<lparr>grants := v\<rparr>"
  and core_acks: "core (db\<lparr>grant_acks := w\<rparr>) = (core db)\<lparr>grant_acks := w\<rparr>"
  and core_claims: "core (db\<lparr>claims := c\<rparr>) = (core db)\<lparr>claims := c\<rparr>"
  and core_devices: "core (db\<lparr>devices := d\<rparr>) = (core db)\<lparr>devices := d\<rparr>"
  and core_base_identities: "core (db\<lparr>base_identities := b\<rparr>) = (core db)\<lparr>base_identities := b\<rparr>"
  and core_vouchers: "core (db\<lparr>vouchers := e\<rparr>) = (core db)\<lparr>vouchers := e\<rparr>"
  and core_standings: "core (db\<lparr>standings := s\<rparr>) = (core db)\<lparr>standings := s\<rparr>"
  and core_withdrawals: "core (db\<lparr>withdrawals := z\<rparr>) = (core db)\<lparr>withdrawals := z\<rparr>"
  by (simp_all add: core_def)

lemmas core_tables = core_proposals core_decisions core_grants core_acks core_claims core_devices
  core_base_identities core_vouchers core_standings core_withdrawals

lemma core_set_proposal_state [core_simps]:
  "core (set_proposal_state e s t db) = set_proposal_state e s t (core db)"
  by (simp add: set_proposal_state_def update_proposal_def core_tables core_simps)

lemma core_update_grant [core_simps]: "core (update_grant g f db) = update_grant g f (core db)"
  by (simp add: update_grant_def core_tables core_simps)

lemma new_id_effect: "new_id x pre db = (i, db') \<Longrightarrow> core db' = core db \<and> log_of db' = log_of db
    \<and> command_results db' = command_results db"
  by (auto simp: new_id_def core_def log_of_def)

lemma save_result_effect:
  "save_result o1 ct cid fp r t db = Inr db' \<Longrightarrow> core db' = core db \<and> log_of db' = log_of db"
  by (auto simp: save_result_def ok_iff core_def log_of_def)

lemma add_outbox_core: "add_outbox eid ty agg rv ev t db = Inr db' \<Longrightarrow> core db' = core db
    \<and> command_results db' = command_results db"
  by (auto simp: add_outbox_def ok_iff core_def split: if_splits)

lemma publish_core: "publish x ty sub agg own rv cid corr t pay db = Inr db' \<Longrightarrow>
   core db' = core db \<and> command_results db' = command_results db"
  by (auto simp: publish_def dest!: add_outbox_core new_id_effect split: prod.splits)

section \<open>Effects of the proposal transactions\<close>

lemma set_proposal_state_fields [simp]:
  "decisions (set_proposal_state e s t db) = decisions db"
  "grants (set_proposal_state e s t db) = grants db"
  "grant_acks (set_proposal_state e s t db) = grant_acks db"
  "claims (set_proposal_state e s t db) = claims db"
  "devices (set_proposal_state e s t db) = devices db"
  "base_identities (set_proposal_state e s t db) = base_identities db"
  "vouchers (set_proposal_state e s t db) = vouchers db"
  "standings (set_proposal_state e s t db) = standings db"
  "withdrawals (set_proposal_state e s t db) = withdrawals db"
  "command_results (set_proposal_state e s t db) = command_results db"
  "outbox (set_proposal_state e s t db) = outbox db"
  "claim_stream (set_proposal_state e s t db) = claim_stream db"
  "stream_seq (set_proposal_state e s t db) = stream_seq db"
  by (simp_all add: set_proposal_state_def update_proposal_def)

lemma update_grant_fields [simp]:
  "decisions (update_grant e f db) = decisions db"
  "proposals (update_grant e f db) = proposals db"
  "grant_acks (update_grant e f db) = grant_acks db"
  "claims (update_grant e f db) = claims db"
  "devices (update_grant e f db) = devices db"
  "base_identities (update_grant e f db) = base_identities db"
  "vouchers (update_grant e f db) = vouchers db"
  "standings (update_grant e f db) = standings db"
  "withdrawals (update_grant e f db) = withdrawals db"
  "command_results (update_grant e f db) = command_results db"
  "outbox (update_grant e f db) = outbox db"
  "claim_stream (update_grant e f db) = claim_stream db"
  "stream_seq (update_grant e f db) = stream_seq db"
  "grants (update_grant e f db) = tupd gr_grant_id e f (grants db)"
  by (simp_all add: update_grant_def)

definition advance :: "proposal_state \<Rightarrow> instant \<Rightarrow> proposal_row \<Rightarrow> proposal_row" where
  "advance s t p = p\<lparr>pr_state := s, pr_revision := pr_revision p + 1, pr_updated_at := t\<rparr>"

lemma advance_simps [simp]:
  "pr_state (advance s t p) = s" "pr_revision (advance s t p) = pr_revision p + 1"
  "pr_enrollment_id (advance s t p) = pr_enrollment_id p"
  "pr_device_instance_id (advance s t p) = pr_device_instance_id p"
  "pr_hardware_identity_ref (advance s t p) = pr_hardware_identity_ref p"
  "pr_requested_owner_domain_id (advance s t p) = pr_requested_owner_domain_id p"
  "pr_operational_key_id (advance s t p) = pr_operational_key_id p"
  "pr_operational_public_key_spki (advance s t p) = pr_operational_public_key_spki p"
  "pr_handoff_key_id (advance s t p) = pr_handoff_key_id p"
  "pr_expires_at (advance s t p) = pr_expires_at p"
  "pr_manifest_id (advance s t p) = pr_manifest_id p"
  "pr_manifest_revision (advance s t p) = pr_manifest_revision p"
  "pr_manifest_digest (advance s t p) = pr_manifest_digest p"
  by (simp_all add: advance_def)

lemma proposals_set_state [simp]:
  "proposals (set_proposal_state e s t db) = tupd pr_enrollment_id e (advance s t) (proposals db)"
  by (simp add: set_proposal_state_def update_proposal_def advance_def [abs_def])

text \<open>The Grant of an expiring Proposal is revoked with it.\<close>

definition expire_effect :: "instant \<Rightarrow> string \<Rightarrow> hub_db \<Rightarrow> hub_db" where
  "expire_effect t eid db =
     (let db1 = set_proposal_state eid Expired t db
      in case get_grant_for_enrollment db eid of
           Some g \<Rightarrow> (if gr_revoked_at g = None then update_grant (gr_grant_id g) (revoke_grant t) db1
                      else db1)
         | None \<Rightarrow> db1)"

lemma get_grant_for_enrollment_state [simp]:
  "get_grant_for_enrollment (set_proposal_state e s t db) i = get_grant_for_enrollment db i"
  by (simp add: get_grant_for_enrollment_def)

lemma get_grant_for_enrollment_core [simp]:
  "get_grant_for_enrollment (core db) i = get_grant_for_enrollment db i"
  by (simp add: get_grant_for_enrollment_def core_simps)

lemma expire_one_effect:
  assumes "expire_one x t p db = Inr db'"
  shows "core db' = expire_effect t (pr_enrollment_id p) (core db)
    \<and> Expired \<in> set (allowed_proposal_transitions (pr_state p))
    \<and> command_results db' = command_results db"
  using assms
  by (auto simp: expire_one_def ok_iff Let_def expire_effect_def core_simps
      split: option.splits if_splits dest!: publish_core)

lemma cancel_tx_effect:
  assumes "cancel_tx x now cid corr eid reason ctx fp db = Inr (r, db')"
  obtains (replayed) "db' = db"
  | (wrote) p where "get_proposal db eid = Some p"
      "pr_requested_owner_domain_id p = ctx_owner_domain_id ctx"
      "pr_state p = Pending_review"
      "core db' = set_proposal_state eid Canceled now (core db)"
proof -
  note a = assms[unfolded cancel_tx_def locked_replay_def Let_def]
  from a consider "db' = db" | p db1 db2 where
      "require_enrollment db (ctx_owner_domain_id ctx) eid = Inr p"
      "Canceled \<in> set (allowed_proposal_transitions (pr_state p))"
      "save_result (ctx_owner_domain_id ctx) cancel_command cid fp r now
         (set_proposal_state eid Canceled now db) = Inr db1"
      "publish x ''live.eidolon.device.enrollment-canceled.v1'' (''enrollments/'' @ eid) eid
         (ctx_owner_domain_id ctx) (pr_revision p + 1) cid corr now (Canceled_data eid reason) db1
         = Inr db2" "db' = db2"
    by (auto simp: ok_iff split: option.splits)
  then show thesis
  proof cases
    case 1
    then show thesis by (rule replayed)
  next
    case (2 p db1 db2)
    show thesis
    proof (rule wrote)
      show "get_proposal db eid = Some p"
        "pr_requested_owner_domain_id p = ctx_owner_domain_id ctx"
        using 2(1) by (auto simp: require_enrollment_def split: option.splits if_splits)
      show "pr_state p = Pending_review"
        using 2(2) by (cases "pr_state p") auto
      show "core db' = set_proposal_state eid Canceled now (core db)"
        using 2(3-5) by (auto simp: core_simps dest!: save_result_effect publish_core)
    qed
  qed
qed

section \<open>Effects of a Decision\<close>

lemma max_generation_state [simp]:
  "max_claim_generation (set_proposal_state e s t db) o1 h = max_claim_generation db o1 h"
  by (simp add: max_claim_generation_def)

lemma max_generation_core [simp]: "max_claim_generation (core db) o1 h = max_claim_generation db o1 h"
  by (simp add: max_claim_generation_def core_simps)

lemma max_generation_cong: "grants db = grants db' \<Longrightarrow>
   max_claim_generation db o1 h = max_claim_generation db' o1 h"
  by (simp add: max_claim_generation_def)

lemma new_id_core: "new_id x pre db = (i, db') \<Longrightarrow> core db' = core db"
  by (simp add: new_id_effect)

definition minted :: "authority \<Rightarrow> proposal_row \<Rightarrow> verdict \<Rightarrow> string \<Rightarrow> manifest_ref \<Rightarrow> string \<Rightarrow> string
    \<Rightarrow> instant \<Rightarrow> hub_db \<Rightarrow> grant_row list" where
  "minted au p v od mref did gid now db =
     (case v of Reject \<Rightarrow> []
      | Approve \<Rightarrow> [grant_row_for au p od mref did gid
          (max_claim_generation db od (pr_hardware_identity_ref p) + 1) now])"

lemma mint_grant_effect:
  assumes "mint_grant x au p od mref did now db = Inr (gid, db')"
  shows "core db' = (core db)\<lparr>grants := grants db @ minted au p Approve od mref did gid now db\<rparr>"
    and "\<forall>g \<in> set (grants db). gr_grant_id g \<noteq> gid \<and> gr_enrollment_id g \<noteq> pr_enrollment_id p
           \<and> gr_decision_id g \<noteq> did"
    and "command_results db' = command_results db"
  using assms
  by (auto simp: mint_grant_def add_grant_def ok_iff Let_def new_id_def core_simps core_tables
      minted_def grant_row_for_def max_claim_generation_def)

lemma decide_in_session_effect:
  assumes "decide_in_session x au p v who od own mref cid corr now db = Inr ((dec, gid), db')"
  obtains did gid' where
    "\<forall>d \<in> set (decisions db). dc_decision_id d \<noteq> did \<and> dc_enrollment_id d \<noteq> pr_enrollment_id p"
    "v = Approve \<longrightarrow> (\<forall>g \<in> set (grants db). gr_grant_id g \<noteq> gid'
       \<and> gr_enrollment_id g \<noteq> pr_enrollment_id p \<and> gr_decision_id g \<noteq> did)"
    "core db' = (set_proposal_state (pr_enrollment_id p) (decided_state v) now (core db))
       \<lparr>decisions := decisions db @ [decision_row_for p v who od own mref did now],
        grants := grants db @ minted au p v od mref did gid' now db\<rparr>"
    "ad_expected_proposal_revision dec = pr_revision p"
    "gid = (case v of Approve \<Rightarrow> Some gid' | Reject \<Rightarrow> None)"
    "command_results db' = command_results db"
proof -
  define did where "did = fresh_id x ''decision'' (id_draws db)"
  define db1 where "db1 = db\<lparr>id_draws := Suc (id_draws db)\<rparr>"
  define D where "D = decision_row_for p v who od own mref did now"
  define db3 where "db3 = set_proposal_state (pr_enrollment_id p) (decided_state v) now
     (db1\<lparr>decisions := decisions db @ [D]\<rparr>)"
  have proj: "dc_decision_id D = did" "dc_enrollment_id D = pr_enrollment_id p"
    by (simp_all add: D_def decision_row_for_def)
  from assms obtain db2 g db4 where
    add: "add_decision D db1 = Inr db2"
    and mint: "(case v of Reject \<Rightarrow> Inr (None, set_proposal_state (pr_enrollment_id p)
          (decided_state v) now db2)
      | Approve \<Rightarrow> andthen (mint_grant x au p od mref did now
            (set_proposal_state (pr_enrollment_id p) (decided_state v) now db2))
          (\<lambda>(g, db4). Inr (Some g, db4))) = Inr (g, db4)"
    and pub: "core db' = core db4" "command_results db' = command_results db4" and "gid = g"
    and rv: "ad_expected_proposal_revision dec = pr_revision p"
    unfolding decide_in_session_def Let_def new_id_def did_def [symmetric] prod.case
      db1_def [symmetric] D_def [symmetric]
    by (auto simp: ok_iff dest!: publish_core)
  from add have fresh: "\<forall>d \<in> set (decisions db). dc_decision_id d \<noteq> did
      \<and> dc_enrollment_id d \<noteq> pr_enrollment_id p"
    and eq: "set_proposal_state (pr_enrollment_id p) (decided_state v) now db2 = db3"
    by (auto simp: add_decision_def ok_iff proj db3_def db1_def)
  note mint = mint [unfolded eq]
  have c3: "core db3 = (set_proposal_state (pr_enrollment_id p) (decided_state v) now (core db))
      \<lparr>decisions := decisions db @ [D]\<rparr>"
    by (simp add: db3_def db1_def core_simps core_tables set_proposal_state_def update_proposal_def)
  have g3: "grants db3 = grants db" by (simp add: db3_def db1_def)
  have r3: "command_results db3 = command_results db" by (simp add: db3_def db1_def)
  show thesis
  proof (cases v)
    case Reject
    with mint c3 pub fresh r3 \<open>gid = g\<close> rv show thesis
      by (intro that [of did]) (auto simp: D_def minted_def set_proposal_state_def
          update_proposal_def core_simps)
  next
    case Approve
    with mint obtain g' where m: "mint_grant x au p od mref did now db3 = Inr (g', db4)" "g = Some g'"
      by (auto simp: ok_iff)
    from mint_grant_effect [OF m(1)] Approve m(2) c3 g3 pub fresh r3 \<open>gid = g\<close> rv show thesis
      by (intro that [of did g']) (auto simp: D_def minted_def max_claim_generation_def)
  qed
qed

text \<open>
  A step that neither reads nor writes the appended tables commutes with forgetting them.
\<close>

definition core_tx :: "('a \<times> hub_db \<Rightarrow> exn + 'b \<times> hub_db) \<Rightarrow> bool" where
  "core_tx f = (\<forall>a db b db'. f (a, db) = Inr (b, db') \<longrightarrow> f (a, core db) = Inr (b, core db'))"

lemma lookups_core [simp]:
  "get_proposal (core db) i = get_proposal db i" "get_grant (core db) i = get_grant db i"
  "get_decision (core db) i = get_decision db i" "get_claim (core db) i = get_claim db i"
  "get_device_row (core db) i = get_device_row db i"
  "get_decision_for_enrollment (core db) i = get_decision_for_enrollment db i"
  "get_ack_for_enrollment (core db) i = get_ack_for_enrollment db i"
  "get_grant_for_decision (core db) i = get_grant_for_decision db i"
  "get_grant_for_device_ref (core db) r = get_grant_for_device_ref db r"
  "base_identity (core db) i = base_identity db i"
  "base_identity_for_key (core db) i = base_identity_for_key db i"
  "requires_fresh_presence (core db) ow hw = requires_fresh_presence db ow hw"
  "commissioning_standing (core db) i = commissioning_standing db i"
  "controller_withdrawn_at (core db) ow i = controller_withdrawn_at db ow i"
  by (simp_all add: get_proposal_def get_grant_def get_decision_def get_claim_def get_device_row_def
      get_decision_for_enrollment_def get_ack_for_enrollment_def get_grant_for_decision_def
      get_grant_for_device_ref_def base_identity_def base_identity_for_key_def
      requires_fresh_presence_def commissioning_standing_def controller_withdrawn_at_def core_simps)

lemma core_update_tables [core_simps]:
  "core (update_claim i f db) = update_claim i f (core db)"
  "core (update_device i h db) = update_device i h (core db)"
  by (simp_all add: update_claim_def update_device_def core_tables core_simps)

lemma core_upsert_claim: "upsert_claim c db = (n, db') \<Longrightarrow> upsert_claim c (core db) = (n, core db')"
  by (auto simp: upsert_claim_def core_simps core_tables Let_def split: option.splits)

lemma project_active_claimD:
  assumes "project_active_claim x ref ow mid mj md mr t db = Inr db'"
  obtains doc where "json_loads x mj = Some (JObj doc)"
  using assms unfolding project_active_claim_def
  by (cases "json_loads x mj"; cases "the (json_loads x mj)") simp_all

lemma core_project_active:
  assumes "project_active_claim x ref ow mid mj md mr t db = Inr db'"
  shows "project_active_claim x ref ow mid mj md mr t (core db) = Inr (core db')"
proof -
  from assms obtain doc where "json_loads x mj = Some (JObj doc)" by (rule project_active_claimD)
  with assms show ?thesis
    by (cases "get_device_row db (device_instance_id ref)")
      (auto simp: project_active_claim_def Let_def core_simps core_tables)
qed

lemma core_project_revoked [core_simps]:
  "core (project_revoked_claim ref t db) = project_revoked_claim ref t (core db)"
  by (simp add: project_revoked_claim_def core_simps split: option.splits)

section \<open>Effects of the handoff\<close>

definition deliver_effect :: "instant \<Rightarrow> wire_envelope \<Rightarrow> proposal_row \<Rightarrow> grant_row \<Rightarrow> hub_db \<Rightarrow> hub_db" where
  "deliver_effect now env p g db =
     set_proposal_state (pr_enrollment_id p) Grant_delivered now
       (update_grant (gr_grant_id g)
          (\<lambda>r. r\<lparr>gr_wire_envelope := Some env, gr_delivered_at := Some now\<rparr>) db)"

lemma collect_checksD:
  assumes "collect_checks x now n ch pf p db = Inr g"
  shows "get_grant_for_enrollment db (pr_enrollment_id p) = Some g"
    and "gr_revoked_at g = None" and "now < gr_expires_at g" and "\<not> proposal_expired p now"
    and "pr_state p \<in> {Approved_awaiting_handoff, Grant_delivered}"
    and "pr_state p = Grant_delivered \<Longrightarrow> gr_wire_envelope g \<noteq> None"
    and "pr_collection_challenge_hash p = sha256_hex x ch"
    and "verify_p256_proof x (pr_handoff_public_key_spki p)
           (Collection_proof_doc (pr_enrollment_id p) n ch) pf"
    and "\<exists>d. get_decision_for_enrollment db (pr_enrollment_id p) = Some d
           \<and> dc_expected_proposal_revision d = n"
  using assms by (auto simp: collect_checks_def Let_def ok_iff)

text \<open>The envelope is the Grant of the Proposal, sealed to its handoff key with the approved content as AAD.\<close>

definition sealed_for ::
  "external \<Rightarrow> authority \<Rightarrow> hub_db \<Rightarrow> proposal_row \<Rightarrow> grant_row \<Rightarrow> wire_envelope \<Rightarrow> bool" where
  "sealed_for x au c p g env = (\<exists>d eph. get_decision_for_enrollment c (pr_enrollment_id p) = Some d
     \<and> seal_claim_grant x eph (pr_handoff_public_key_spki p) (gr_grant g)
         (grant_aad au (dc_expected_proposal_revision d) p g) (pr_handoff_key_id p) = Inr env)"

lemma collect_tx_effect:
  assumes "collect_tx x au eph now cid corr eid n ch pf fp db = Inr (r, db')"
  obtains (same) "core db' = core db"
  | (sealed) p g env where "get_proposal db eid = Some p"
      "pr_requested_owner_domain_id p = au_owner_domain_id au"
      "collect_checks x now n ch pf p db = Inr g" "gr_wire_envelope g = None"
      "core db' = deliver_effect now env p g (core db)" "sealed_for x au (core db) p g env"
proof -
  from assms[unfolded collect_tx_def locked_replay_def Let_def]
  consider "db' = db" | p g env t db1 db2 where
      "require_enrollment db (au_owner_domain_id au) eid = Inr p"
      "collect_checks x now n ch pf p db = Inr g"
      "deliver_grant x au eph now n p g db = Inr ((env, t), db1)"
      "core db2 = core db1"
      "if gr_wire_envelope g \<noteq> None then db' = db2 else core db' = core db2"
    by (auto simp: ok_iff split: option.splits if_splits dest!: save_result_effect publish_core)
  then show thesis
  proof cases
    case 1
    then show thesis by (simp add: same)
  next
    case (2 p g env t db1 db2)
    show thesis
    proof (cases "gr_wire_envelope g")
      case None
      with 2(3) have "core db1 = deliver_effect now env p g (core db)"
        and seal: "seal_claim_grant x eph (pr_handoff_public_key_spki p) (gr_grant g)
          (grant_aad au n p g) (pr_handoff_key_id p) = Inr env"
        by (auto simp: deliver_grant_def ok_iff deliver_effect_def core_simps)
      moreover have "sealed_for x au (core db) p g env"
        using collect_checksD(9) [OF 2(2)] seal
        by (auto simp: sealed_for_def get_decision_for_enrollment_def core_simps)
      ultimately show thesis using 2 None
        by (intro sealed [of p g env]) (auto simp: require_enrollment_def split: option.splits if_splits)
    next
      case (Some e)
      with 2 show thesis by (intro same) (auto simp: deliver_grant_def ok_iff)
    qed
  qed
qed

lemma ack_checksD:
  assumes "ack_checks x now eid gid pf n ep db = Inr (p, g)"
  shows "get_proposal db eid = Some p" and "get_grant db gid = Some g"
    and "gr_enrollment_id g = eid" and "gr_revoked_at g = None" and "now < gr_expires_at g"
    and "pr_state p = Grant_delivered"
    and "n = claim_generation (gr_device_ref g)" and "ep = trust_epoch (gr_device_ref g)"
    and "verify_p256_proof x (pr_operational_public_key_spki p)
           (Ack_proof_doc eid gid (gr_device_ref g)) pf"
  using assms
  by (auto simp: ack_checks_def Let_def ok_iff require_transition_def split: if_splits)
     (cases "pr_state p"; auto)+

lemma core_add_ack: "add_grant_ack r db = Inr db' \<Longrightarrow> add_grant_ack r (core db) = Inr (core db')"
  by (auto simp: add_grant_ack_def ok_iff core_tables core_simps)

lemma activate_claimD:
  assumes "activate_claim x now pf p g db = Inr (v, db')"
  obtains db1 d n db2 db3 where
    "add_grant_ack \<lparr>ga_grant_id = gr_grant_id g, ga_enrollment_id = pr_enrollment_id p,
       ga_proof_fingerprint = ''sha256:'' @ sha256_hex x pf, ga_device_ref = gr_device_ref g,
       ga_acknowledged_at = now\<rparr> db = Inr db1"
    "get_decision db1 (gr_decision_id g) = Some d"
    "upsert_claim (claim_for (gr_device_ref g) (dc_target_business_owner_id d) g p Active (Some now)
       now None) db1 = (n, db2)"
    "project_active_claim x (gr_device_ref g) (dc_target_business_owner_id d) (pr_manifest_id p)
       (pr_manifest_json p) (pr_manifest_digest p) (pr_manifest_revision p) now db2 = Inr db3"
    "v = (n, dc_target_business_owner_id d)"
    "db' = set_proposal_state (pr_enrollment_id p) Grant_acknowledged now db3"
proof -
  let ?ack = "\<lparr>ga_grant_id = gr_grant_id g, ga_enrollment_id = pr_enrollment_id p,
       ga_proof_fingerprint = ''sha256:'' @ sha256_hex x pf, ga_device_ref = gr_device_ref g,
       ga_acknowledged_at = now\<rparr>"
  from assms obtain db1 where 1: "add_grant_ack ?ack db = Inr db1"
    by (cases "add_grant_ack ?ack db") (simp_all add: activate_claim_def Let_def)
  with assms obtain d where 2: "get_decision db1 (gr_decision_id g) = Some d"
    by (cases "get_decision db1 (gr_decision_id g)") (simp_all add: activate_claim_def Let_def)
  let ?c = "claim_for (gr_device_ref g) (dc_target_business_owner_id d) g p Active (Some now) now None"
  obtain n db2 where 3: "upsert_claim ?c db1 = (n, db2)" by (cases "upsert_claim ?c db1")
  let ?m = "project_active_claim x (gr_device_ref g) (dc_target_business_owner_id d)
    (pr_manifest_id p) (pr_manifest_json p) (pr_manifest_digest p) (pr_manifest_revision p) now db2"
  from assms 1 2 3 obtain db3 where 4: "?m = Inr db3"
    by (cases ?m) (simp_all add: activate_claim_def Let_def)
  from assms 1 2 3 4 show thesis by (intro that) (auto simp: activate_claim_def Let_def)
qed

lemma core_activate:
  assumes "activate_claim x now pf p g db = Inr (v, db')"
  shows "activate_claim x now pf p g (core db) = Inr (v, core db')"
  using assms
proof (rule activate_claimD)
  fix db1 d n db2 db3
  assume a: "add_grant_ack \<lparr>ga_grant_id = gr_grant_id g, ga_enrollment_id = pr_enrollment_id p,
       ga_proof_fingerprint = ''sha256:'' @ sha256_hex x pf, ga_device_ref = gr_device_ref g,
       ga_acknowledged_at = now\<rparr> db = Inr db1"
    "get_decision db1 (gr_decision_id g) = Some d"
    "upsert_claim (claim_for (gr_device_ref g) (dc_target_business_owner_id d) g p Active (Some now)
       now None) db1 = (n, db2)"
    "project_active_claim x (gr_device_ref g) (dc_target_business_owner_id d) (pr_manifest_id p)
       (pr_manifest_json p) (pr_manifest_digest p) (pr_manifest_revision p) now db2 = Inr db3"
    "v = (n, dc_target_business_owner_id d)"
    "db' = set_proposal_state (pr_enrollment_id p) Grant_acknowledged now db3"
  show ?thesis
    unfolding activate_claim_def Let_def core_add_ack [OF a(1)] andthen.simps
    by (simp add: a(2) core_upsert_claim [OF a(3)] core_project_active [OF a(4)] a(5,6) core_simps)
qed

lemma ack_tx_effect:
  assumes "ack_tx x au now cid corr eid gid pf n ep fp db = Inr (r, db')"
  obtains (same) "core db' = core db"
  | (activated) p g v where "ack_checks x now eid gid pf n ep db = Inr (p, g)"
      "activate_claim x now pf p g (core db) = Inr (v, core db')"
proof -
  from assms[unfolded ack_tx_def locked_replay_def Let_def]
  consider "db' = db" | p g v db1 where
      "ack_checks x now eid gid pf n ep db = Inr (p, g)"
      "activate_claim x now pf p g db = Inr (v, db1)" "core db' = core db1"
    by (auto simp: ok_iff split: option.splits if_splits prod.splits
        dest!: save_result_effect publish_core)
  then show thesis
  proof cases
    case 1
    then show thesis by (simp add: same)
  next
    case (2 p g v db1)
    from core_activate [OF 2(2)] 2 show thesis by (intro activated) simp_all
  qed
qed

section \<open>Effects of a revocation\<close>

lemma core_revoke_standing [core_simps]:
  "core (revoke_standing_claim t c db) = revoke_standing_claim t c (core db)"
  by (simp add: revoke_standing_claim_def Let_def core_simps
      flip: core_update_tables(1) split: option.splits)

lemma core_revoke_unclaimed:
  assumes "revoke_unclaimed ref t g db = Inr db'"
  shows "revoke_unclaimed ref t g (core db) = Inr (core db')"
proof -
  let ?db1 = "update_grant (gr_grant_id g) (revoke_grant t)
                (set_proposal_state (gr_enrollment_id g) Claim_revoked t db)"
  from assms obtain p d where g: "get_proposal db (gr_enrollment_id g) = Some p"
      "require_transition (pr_state p) Claim_revoked = Inr ()"
      "get_decision ?db1 (gr_decision_id g) = Some d"
    and db': "db' = snd (upsert_claim (claim_for ref (dc_target_business_owner_id d) g p Revoked
                None t (Some t)) ?db1)"
    unfolding revoke_unclaimed_def Let_def by (auto simp: ok_iff)
  obtain n db2 where u: "upsert_claim (claim_for ref (dc_target_business_owner_id d) g p Revoked
                None t (Some t)) ?db1 = (n, db2)"
    by (cases "upsert_claim (claim_for ref (dc_target_business_owner_id d) g p Revoked
                None t (Some t)) ?db1")
  from core_upsert_claim [OF u] g(3) show ?thesis
    unfolding revoke_unclaimed_def Let_def
    by (simp add: g(1,2) db' u core_simps flip: core_set_proposal_state core_update_grant)
qed

lemma finish_revocation_effect:
  "finish_revocation x now ow cid corr ref rs fp n db = Inr (r, db') \<Longrightarrow>
   core db' = project_revoked_claim ref now (core db)"
  by (auto simp: finish_revocation_def Let_def ok_iff core_simps split: prod.splits
      dest!: save_result_effect add_outbox_core new_id_core)

lemma revoke_tx_effect:
  assumes "revoke_tx x now cid corr ref rs ctx fp db = Inr (r, db')"
  obtains (same) "core db' = core db"
  | (unclaimed) g c1 where "get_claim db (device_instance_id ref) = None"
      "get_grant_for_device_ref db ref = Some g"
      "revoke_unclaimed ref now g (core db) = Inr c1"
      "core db' = project_revoked_claim ref now c1"
  | (standing) c where "get_claim db (device_instance_id ref) = Some c"
      "claim_matches_ref c ref" "cl_state c \<noteq> Revoked"
      "cl_business_owner_id c = ctx_business_owner_id ctx"
      "core db' = project_revoked_claim ref now (revoke_standing_claim now c (core db))"
proof -
  from assms[unfolded revoke_tx_def locked_replay_def Let_def]
  consider "core db' = core db" | g db1 where
      "get_claim db (device_instance_id ref) = None" "get_grant_for_device_ref db ref = Some g"
      "revoke_unclaimed ref now g db = Inr db1"
      "core db' = project_revoked_claim ref now (core db1)"
    | c where "get_claim db (device_instance_id ref) = Some c" "claim_matches_ref c ref"
      "cl_state c \<noteq> Revoked" "cl_business_owner_id c = ctx_business_owner_id ctx"
      "core db' = project_revoked_claim ref now (core (revoke_standing_claim now c db))"
    by (auto simp: ok_iff revoke_target_owner_def split: option.splits if_splits
        dest!: save_result_effect finish_revocation_effect)
  then show thesis
  proof cases
    case 1
    then show thesis by (rule same)
  next
    case (2 g db1)
    from core_revoke_unclaimed [OF 2(3)] 2 show thesis by (intro unclaimed) simp_all
  next
    case (3 c)
    then show thesis by (intro standing) (simp_all add: core_simps)
  qed
qed

section \<open>Effects of a Decision and of a creation\<close>

lemma require_enrollmentD:
  assumes "require_enrollment db ow eid = Inr p"
  shows "get_proposal db eid = Some p" and "pr_requested_owner_domain_id p = ow"
    and "pr_enrollment_id p = eid"
  using assms
  by (auto simp: require_enrollment_def get_proposal_def split: option.splits if_splits
      dest: tget_SomeD)

lemma decide_tx_effect:
  assumes "decide_tx x au now cid corr eid payload ctx fp db = Inr (r, db')"
  obtains (same) "core db' = core db"
  | (decided) p out db1 where "get_proposal db eid = Some p"
      "pr_requested_owner_domain_id p = ctx_owner_domain_id ctx" "\<not> proposal_expired p now"
      "pr_state p = Pending_review" "pr_revision p = dp_expected_proposal_revision payload"
      "dp_reviewed_manifest_ref payload = proposal_manifest_ref p"
      "decide_in_session x au p (dp_decision payload) (actor ctx) (dp_target_owner_domain_id payload)
         (dp_target_business_owner_id payload) (dp_reviewed_manifest_ref payload) cid corr now db
       = Inr (out, db1)" "core db' = core db1"
proof -
  from assms[unfolded decide_tx_def locked_replay_def Let_def]
  consider "db' = db" | p out db1 where
      "require_enrollment db (ctx_owner_domain_id ctx) eid = Inr p" "\<not> proposal_expired p now"
      "decided_state (dp_decision payload) \<in> set (allowed_proposal_transitions (pr_state p))"
      "pr_revision p = dp_expected_proposal_revision payload"
      "dp_reviewed_manifest_ref payload = proposal_manifest_ref p"
      "decide_in_session x au p (dp_decision payload) (actor ctx) (dp_target_owner_domain_id payload)
         (dp_target_business_owner_id payload) (dp_reviewed_manifest_ref payload) cid corr now db
       = Inr (out, db1)" "core db' = core db1"
    by (auto simp: ok_iff split: option.splits dest!: save_result_effect)
  then show thesis
  proof cases
    case 1
    then show thesis by (simp add: same)
  next
    case (2 p out db1)
    from 2(3) have "pr_state p = Pending_review"
      by (cases "pr_state p"; cases "dp_decision payload") (simp_all add: decided_state_def)
    with 2 show thesis by (intro decided) (auto dest: require_enrollmentD)
  qed
qed

lemma core_bind: "bind_base_identity b db = Inr db' \<Longrightarrow> bind_base_identity b (core db) = Inr (core db')"
  by (auto simp: bind_base_identity_def ok_iff core_tables core_simps split: option.splits if_splits)

lemma core_consume: "consume_commissioning_voucher v db = Inr db' \<Longrightarrow>
   consume_commissioning_voucher v (core db) = Inr (core db')"
  by (auto simp: consume_commissioning_voucher_def core_tables core_simps split: option.splits)

lemma core_claim_standing:
  assumes "claim_standing v ow hw key t db = Inr db'"
  shows "claim_standing v ow hw key t (core db) = Inr (core db')"
proof (cases "vc_scheme v = voucher_scheme")
  case True
  with assms obtain vr br db1 where r: "consume_commissioning_voucher vr db = Inr db1"
      "bind_base_identity br db1 = Inr db'"
      "claim_standing v ow hw key t (core db)
         = andthen (consume_commissioning_voucher vr (core db)) (bind_base_identity br)"
    unfolding claim_standing_def Let_def andthen_ok if_P [OF True] by blast
  from core_consume [OF r(1)] core_bind [OF r(2)] r(3) show ?thesis by simp
next
  case False
  with assms show ?thesis unfolding claim_standing_def Let_def if_not_P [OF False]
    by (auto simp: ok_iff)
qed

lemma standing_for_core [simp]: "standing_for au (core db) v ow key = standing_for au db v ow key"
proof -
  have "commissioning_standing (core db) = commissioning_standing db"
      "controller_withdrawn_at (core db) = controller_withdrawn_at db"
    by (intro ext; simp)+
  then show ?thesis
    by (simp only: standing_for_def standing_row_for_def latest_commissioning_standing_for_key_def
        core_select)
qed

lemma locked_replay_cases:
  assumes "locked_replay ow ct cid fp body db = Inr (r, db')"
  obtains (replay) "replay_in_session db ow ct cid fp = Inr (Some r)" "db' = db"
  | (new) "replay_in_session db ow ct cid fp = Inr None" "body db = Inr (r, db')"
proof (cases "replay_in_session db ow ct cid fp")
  case (Inr m)
  with assms show thesis
    by (cases m) (simp_all add: locked_replay_def replay new)
qed (use assms in \<open>simp add: locked_replay_def\<close>)

lemma create_tx_effect:
  assumes "create_tx x au now cid corr payload keys v hw mj fp db = Inr (r, db')"
  obtains (same) "db' = db"
      "replay_in_session db (ep_requested_owner_domain_id payload) create_command cid fp = Inr (Some r)"
  | (created) eid ch p c1 db5 where
      "p = new_proposal x au now payload keys hw mj eid ch"
      "claim_standing v (ep_requested_owner_domain_id payload) hw (ek_operational_key_id keys) now
         (core db) = Inr c1"
      "matches_identity_ref hw" "\<forall>q \<in> set (proposals c1). pr_enrollment_id q \<noteq> eid"
      "core db5 = c1\<lparr>proposals := proposals c1 @ [p]\<rparr>"
      "apply_standing x au now cid corr p v (manifest_ref_of (ep_manifest payload)) db5 = Inr db'"
proof -
  consider "db' = db"
      "replay_in_session db (ep_requested_owner_domain_id payload) create_command cid fp = Inr (Some r)"
    | eid db1 ch p db2 db3 db4 db5 where
      "new_id x ''enrollment'' db = (eid, db1)" "p = new_proposal x au now payload keys hw mj eid ch"
      "claim_standing v (ep_requested_owner_domain_id payload) hw (ek_operational_key_id keys) now db1
         = Inr db2"
      "add_proposal p db2 = Inr db3" "core db4 = core db3" "core db5 = core db4"
      "apply_standing x au now cid corr p v (manifest_ref_of (ep_manifest payload)) db5 = Inr db'"
  proof -
    from assms show thesis unfolding create_tx_def Let_def
    proof (cases rule: locked_replay_cases)
      case replay
      then show thesis by (simp add: that(1))
    next
      case new
      then show thesis
        by (auto simp: ok_iff split: prod.splits dest!: save_result_effect publish_core intro: that(2))
    qed
  qed
  then show thesis
  proof cases
    case 1
    then show thesis by (rule same)
  next
    case (2 eid db1 ch p db2 db3 db4 db5)
    show thesis
    proof (rule created [OF 2(2) _ _ _ _ 2(7)])
      show "claim_standing v (ep_requested_owner_domain_id payload) hw (ek_operational_key_id keys) now
         (core db) = Inr (core db2)"
        using core_claim_standing [OF 2(3)] new_id_core [OF 2(1)] by simp
      show "matches_identity_ref hw" "\<forall>q \<in> set (proposals (core db2)). pr_enrollment_id q \<noteq> eid"
        "core db5 = (core db2)\<lparr>proposals := proposals (core db2) @ [p]\<rparr>"
        using 2(2,4-6)
        by (auto simp: add_proposal_def insert_proposal_row_def ok_iff core_simps core_tables
            new_proposal_def require_derived_hardware_identity_ref_def split: if_splits)
    qed
  qed
qed

end
