(* ===== verification/Admission_Lifecycle.thy ===== *)
theory Admission_Lifecycle
  imports Admission_Effects
begin

text \<open>
  The life of an Enrollment as an abstract step relation on cores: one rule per thing a
  transaction of Admission can commit.  Every command of the authority is then shown to
  commit a sequence of these steps and nothing else, so an invariant of the relation is
  an invariant of the running authority.
\<close>

section \<open>Keys of the tables\<close>

definition proposal_keys :: "hub_db \<Rightarrow> bool" where
  "proposal_keys c = distinct (map pr_enrollment_id (proposals c))"

definition decision_keys :: "hub_db \<Rightarrow> bool" where
  "decision_keys c = (distinct (map dc_decision_id (decisions c))
     \<and> distinct (map dc_enrollment_id (decisions c)))"

definition grant_keys :: "hub_db \<Rightarrow> bool" where
  "grant_keys c = (distinct (map gr_grant_id (grants c)) \<and> distinct (map gr_enrollment_id (grants c))
     \<and> distinct (map gr_decision_id (grants c)))"

definition ack_keys :: "hub_db \<Rightarrow> bool" where
  "ack_keys c = (distinct (map ga_grant_id (grant_acks c))
     \<and> distinct (map ga_enrollment_id (grant_acks c)))"

definition claim_keys :: "hub_db \<Rightarrow> bool" where
  "claim_keys c = (distinct (map cl_device_instance_id (claims c))
     \<and> distinct (map dv_device_id (devices c)))"

definition commissioning_keys :: "hub_db \<Rightarrow> bool" where
  "commissioning_keys c = (distinct (map bi_device_base_id (base_identities c))
     \<and> distinct (map bi_operational_key_id (base_identities c)) \<and> distinct (map cv_jti (vouchers c)))"

definition keys_ok :: "hub_db \<Rightarrow> bool" where
  "keys_ok c = (proposal_keys c \<and> decision_keys c \<and> grant_keys c \<and> ack_keys c \<and> claim_keys c
     \<and> commissioning_keys c)"

lemmas keys_defs = keys_ok_def proposal_keys_def decision_keys_def grant_keys_def ack_keys_def
  claim_keys_def commissioning_keys_def

section \<open>The step relation\<close>

definition decide_effect ::
  "authority \<Rightarrow> proposal_row \<Rightarrow> verdict \<Rightarrow> controller_actor \<Rightarrow> string \<Rightarrow> string \<Rightarrow> string \<Rightarrow> instant
     \<Rightarrow> hub_db \<Rightarrow> hub_db" where
  "decide_effect au p v who business did gid t c =
     (let owner = pr_requested_owner_domain_id p; reviewed = proposal_manifest_ref p
      in (set_proposal_state (pr_enrollment_id p) (decided_state v) t c)
           \<lparr>decisions := decisions c @ [decision_row_for p v who owner business reviewed did t],
            grants := grants c @ minted au p v owner reviewed did gid t c\<rparr>)"

inductive lifecycle_step :: "external \<Rightarrow> authority \<Rightarrow> hub_db \<Rightarrow> hub_db \<Rightarrow> bool"
  for x :: external and au :: authority where
  Create: "\<lbrakk>claim_standing v (au_owner_domain_id au) (pr_hardware_identity_ref p)
              (pr_operational_key_id p) t c = Inr c1;
            derive_hardware_identity_ref x (vc_device_base_id v) = Inr (pr_hardware_identity_ref p);
            key_id x (pr_operational_public_key_spki p) = Inr (pr_operational_key_id p);
            sdk_derive_device_instance_id x (pr_operational_public_key_spki p)
              = Some (pr_device_instance_id p);
            pr_requested_owner_domain_id p = au_owner_domain_id au;
            pr_state p = Pending_review; pr_revision p = 1;
            \<forall>q \<in> set (proposals c). pr_enrollment_id q \<noteq> pr_enrollment_id p\<rbrakk>
    \<Longrightarrow> lifecycle_step x au c (c1\<lparr>proposals := proposals c1 @ [p]\<rparr>)"
| Decide: "\<lbrakk>p \<in> set (proposals c); pr_state p = Pending_review;
            ''device.claim.approve'' \<in> set (granted_scopes who);
            actor_owner_domain_id who = pr_requested_owner_domain_id p;
            \<forall>d \<in> set (decisions c). dc_decision_id d \<noteq> did \<and> dc_enrollment_id d \<noteq> pr_enrollment_id p;
            v = Approve \<longrightarrow> (\<forall>g \<in> set (grants c). gr_grant_id g \<noteq> gid
              \<and> gr_enrollment_id g \<noteq> pr_enrollment_id p \<and> gr_decision_id g \<noteq> did)\<rbrakk>
    \<Longrightarrow> lifecycle_step x au c (decide_effect au p v who business did gid t c)"
| Cancel: "\<lbrakk>p \<in> set (proposals c); pr_state p = Pending_review\<rbrakk>
    \<Longrightarrow> lifecycle_step x au c (set_proposal_state (pr_enrollment_id p) Canceled t c)"
| Expire: "\<lbrakk>p \<in> set (proposals c); Expired \<in> set (allowed_proposal_transitions (pr_state p));
            pr_expires_at p \<le> t\<rbrakk>
    \<Longrightarrow> lifecycle_step x au c (expire_effect t (pr_enrollment_id p) c)"
| Deliver: "\<lbrakk>p \<in> set (proposals c); g \<in> set (grants c); gr_enrollment_id g = pr_enrollment_id p;
            pr_state p = Approved_awaiting_handoff; gr_revoked_at g = None;
            gr_wire_envelope g = None; t < gr_expires_at g; sealed_for x au c p g env\<rbrakk>
    \<Longrightarrow> lifecycle_step x au c (deliver_effect t env p g c)"
| Acknowledge: "\<lbrakk>p \<in> set (proposals c); g \<in> set (grants c);
            gr_enrollment_id g = pr_enrollment_id p; pr_state p = Grant_delivered;
            gr_revoked_at g = None; t < gr_expires_at g;
            verify_p256_proof x (pr_operational_public_key_spki p)
              (Ack_proof_doc (pr_enrollment_id p) (gr_grant_id g) (gr_device_ref g)) proof_text;
            activate_claim x t proof_text p g c = Inr (w, c')\<rbrakk>
    \<Longrightarrow> lifecycle_step x au c c'"
| Revoke_unclaimed: "\<lbrakk>get_claim c (device_instance_id ref) = None; g \<in> set (grants c);
            gr_device_ref g = ref; revoke_unclaimed ref t g c = Inr c1\<rbrakk>
    \<Longrightarrow> lifecycle_step x au c (project_revoked_claim ref t c1)"
| Revoke_standing: "\<lbrakk>r \<in> set (claims c); device_instance_id ref = cl_device_instance_id r;
            claim_matches_ref r ref; cl_state r \<noteq> Revoked\<rbrakk>
    \<Longrightarrow> lifecycle_step x au c (project_revoked_claim ref t (revoke_standing_claim t r c))"
| Record_standing: "lifecycle_step x au c (c\<lparr>standings := standings c @ [s]\<rparr>)"
| Withdraw: "lifecycle_step x au c (snd (record_controller_withdrawal w c))"

abbreviation lifecycle :: "external \<Rightarrow> authority \<Rightarrow> hub_db \<Rightarrow> hub_db \<Rightarrow> bool" where
  "lifecycle x au \<equiv> (lifecycle_step x au)\<^sup>*\<^sup>*"

section \<open>What a Claim write does to the tables\<close>

lemma upsert_claim_fields [simp]:
  "proposals (snd (upsert_claim r db)) = proposals db" "decisions (snd (upsert_claim r db)) = decisions db"
  "grants (snd (upsert_claim r db)) = grants db" "grant_acks (snd (upsert_claim r db)) = grant_acks db"
  "devices (snd (upsert_claim r db)) = devices db" "vouchers (snd (upsert_claim r db)) = vouchers db"
  "base_identities (snd (upsert_claim r db)) = base_identities db"
  "withdrawals (snd (upsert_claim r db)) = withdrawals db" "standings (snd (upsert_claim r db)) = standings db"
  by (simp_all add: upsert_claim_def Let_def update_claim_def split: option.splits)

lemma upsert_claim_set:
  assumes "distinct (map cl_device_instance_id (claims db))"
  shows "set (claims (snd (upsert_claim r db)))
         = {c \<in> set (claims db). cl_device_instance_id c \<noteq> cl_device_instance_id r}
           \<union> {r\<lparr>cl_revision := fst (upsert_claim r db)\<rparr>}"
    and "distinct (map cl_device_instance_id (claims (snd (upsert_claim r db))))"
proof (atomize (full), cases "get_claim db (cl_device_instance_id r)")
  case None
  then have "cl_device_instance_id r \<notin> cl_device_instance_id ` set (claims db)"
    by (simp add: get_claim_def tget_None_iff)
  then have "{c \<in> set (claims db). cl_device_instance_id c \<noteq> cl_device_instance_id r} = set (claims db)"
    "cl_device_instance_id r \<notin> cl_device_instance_id ` set (claims db)"
    by (auto simp: image_iff)
  with assms None show "set (claims (snd (upsert_claim r db)))
         = {c \<in> set (claims db). cl_device_instance_id c \<noteq> cl_device_instance_id r}
           \<union> {r\<lparr>cl_revision := fst (upsert_claim r db)\<rparr>}
    \<and> distinct (map cl_device_instance_id (claims (snd (upsert_claim r db))))"
    by (auto simp: upsert_claim_def)
next
  case (Some e)
  then have e: "e \<in> set (claims db)" "cl_device_instance_id e = cl_device_instance_id r"
    by (auto simp: get_claim_def dest: tget_SomeD)
  have "map cl_device_instance_id (tupd cl_device_instance_id (cl_device_instance_id r)
      (\<lambda>_. r\<lparr>cl_revision := cl_revision e + 1\<rparr>) (claims db))
      = map cl_device_instance_id (claims db)"
    by (simp add: tupd_def)
  with assms Some e show "set (claims (snd (upsert_claim r db)))
         = {c \<in> set (claims db). cl_device_instance_id c \<noteq> cl_device_instance_id r}
           \<union> {r\<lparr>cl_revision := fst (upsert_claim r db)\<rparr>}
    \<and> distinct (map cl_device_instance_id (claims (snd (upsert_claim r db))))"
    by (auto simp: upsert_claim_def Let_def update_claim_def set_tupd)
qed

lemma project_active_fields:
  assumes "project_active_claim x ref ow mid mj md mr t db = Inr db'"
  shows "proposals db' = proposals db" "decisions db' = decisions db" "grants db' = grants db"
    "grant_acks db' = grant_acks db" "claims db' = claims db" "vouchers db' = vouchers db"
    "base_identities db' = base_identities db" "withdrawals db' = withdrawals db"
    "standings db' = standings db"
proof -
  from assms obtain doc where "json_loads x mj = Some (JObj doc)" by (rule project_active_claimD)
  with assms show "proposals db' = proposals db" "decisions db' = decisions db"
    "grants db' = grants db" "grant_acks db' = grant_acks db" "claims db' = claims db"
    "vouchers db' = vouchers db" "base_identities db' = base_identities db"
    "withdrawals db' = withdrawals db" "standings db' = standings db"
    by (auto simp: project_active_claim_def Let_def update_device_def split: option.splits)
qed

definition directory_row :: "device_ref \<Rightarrow> string \<Rightarrow> device_row \<Rightarrow> bool" where
  "directory_row ref ow r = (dv_device_id r = device_instance_id ref
     \<and> dv_owner_domain_generation r = owner_domain_generation ref
     \<and> dv_claim_generation r = claim_generation ref \<and> dv_trust_epoch r = trust_epoch ref
     \<and> dv_owner_id r = Some ow \<and> dv_lifecycle_state r = Device_approved)"

lemma project_active_devices:
  assumes "project_active_claim x ref ow mid mj md mr t db = Inr db'"
    and keys: "distinct (map dv_device_id (devices db))"
  obtains r where "directory_row ref ow r"
    "set (devices db') = {d \<in> set (devices db). dv_device_id d \<noteq> device_instance_id ref} \<union> {r}"
    "distinct (map dv_device_id (devices db'))"
proof -
  from assms(1) obtain doc where doc: "json_loads x mj = Some (JObj doc)"
    by (rule project_active_claimD)
  show thesis
  proof (cases "get_device_row db (device_instance_id ref)")
    case None
    then have new: "device_instance_id ref \<notin> dv_device_id ` set (devices db)"
      by (simp add: get_device_row_def tget_None_iff)
    have "directory_row ref ow (last (devices db')) \<and> devices db' = devices db @ [last (devices db')]"
      using assms(1) doc None by (auto simp: project_active_claim_def Let_def directory_row_def)
    then obtain r where r: "directory_row ref ow r" "devices db' = devices db @ [r]" by blast
    from new have "{d \<in> set (devices db). dv_device_id d \<noteq> device_instance_id ref} = set (devices db)"
      by (auto simp: image_iff)
    with r new keys show thesis by (intro that [OF r(1)]) (auto simp: directory_row_def image_iff)
  next
    case (Some e)
    then have e: "e \<in> set (devices db)" "dv_device_id e = device_instance_id ref"
      by (auto simp: get_device_row_def dest: tget_SomeD)
    let ?f = "\<lambda>r. r\<lparr>dv_manifest_id := mid, dv_manifest_json := mj, dv_manifest_revision := md,
       dv_manifest_declared_revision := mr, dv_enrolled_at := t, dv_updated_at := t,
       dv_owner_domain_generation := owner_domain_generation ref,
       dv_claim_generation := claim_generation ref, dv_trust_epoch := trust_epoch ref,
       dv_aggregate_revision := dv_aggregate_revision r + 1, dv_owner_id := Some ow,
       dv_lifecycle_state := Device_approved, dv_last_management_request_id := [],
       dv_last_management_fingerprint := []\<rparr>"
    from assms(1) doc Some have f1: "devices db' = tupd dv_device_id (device_instance_id ref) ?f (devices db)"
      by (auto simp: project_active_claim_def Let_def update_device_def)
    obtain f where
      f: "devices db' = tupd dv_device_id (device_instance_id ref) f (devices db)"
        "\<And>r. dv_device_id (f r) = dv_device_id r"
        "\<And>r. dv_device_id r = device_instance_id ref \<Longrightarrow> directory_row ref ow (f r)"
      by (rule that [OF f1]) (simp_all add: directory_row_def)
    show thesis
    proof (rule that [of "f e"])
      show "directory_row ref ow (f e)" using f(3) e(2) by simp
      show "set (devices db') = {d \<in> set (devices db). dv_device_id d \<noteq> device_instance_id ref} \<union> {f e}"
      proof -
        have "{k \<in> set (devices db). dv_device_id k = device_instance_id ref} = {e}"
          by (rule key_singleton [OF keys e])
        then show ?thesis by (simp add: f(1) set_tupd)
      qed
      show "distinct (map dv_device_id (devices db'))" using keys by (simp add: f(1,2) map_tupd)
    qed
  qed
qed

lemma project_revoked_fields [simp]:
  "proposals (project_revoked_claim ref t db) = proposals db"
  "decisions (project_revoked_claim ref t db) = decisions db"
  "grants (project_revoked_claim ref t db) = grants db"
  "grant_acks (project_revoked_claim ref t db) = grant_acks db"
  "claims (project_revoked_claim ref t db) = claims db"
  "vouchers (project_revoked_claim ref t db) = vouchers db"
  "base_identities (project_revoked_claim ref t db) = base_identities db"
  "withdrawals (project_revoked_claim ref t db) = withdrawals db"
  "standings (project_revoked_claim ref t db) = standings db"
  by (auto simp: project_revoked_claim_def update_device_def split: option.splits)

section \<open>What an acknowledgement commits\<close>

definition activated_row :: "instant \<Rightarrow> int \<Rightarrow> string \<Rightarrow> proposal_row \<Rightarrow> grant_row \<Rightarrow> claim_row" where
  "activated_row t n business p g =
     (claim_for (gr_device_ref g) business g p Active (Some t) t None)\<lparr>cl_revision := n\<rparr>"

lemma activate_effect:
  assumes "activate_claim x t pf p g c = Inr (w, c')" and keys: "claim_keys c"
  obtains d n r a where "get_decision c (gr_decision_id g) = Some d"
    "proposals c' = tupd pr_enrollment_id (pr_enrollment_id p) (advance Grant_acknowledged t) (proposals c)"
    "decisions c' = decisions c" "grants c' = grants c"
    "base_identities c' = base_identities c" "vouchers c' = vouchers c"
    "grant_acks c' = grant_acks c @ [a]" "ga_grant_id a = gr_grant_id g"
    "ga_enrollment_id a = pr_enrollment_id p" "ga_device_ref a = gr_device_ref g"
    "\<forall>b \<in> set (grant_acks c). ga_grant_id b \<noteq> gr_grant_id g \<and> ga_enrollment_id b \<noteq> pr_enrollment_id p"
    "set (claims c') = {k \<in> set (claims c). cl_device_instance_id k \<noteq> device_instance_id (gr_device_ref g)}
       \<union> {activated_row t n (dc_target_business_owner_id d) p g}"
    "set (devices c') = {k \<in> set (devices c). dv_device_id k \<noteq> device_instance_id (gr_device_ref g)} \<union> {r}"
    "directory_row (gr_device_ref g) (dc_target_business_owner_id d) r" "claim_keys c'"
proof -
  let ?ack = "\<lparr>ga_grant_id = gr_grant_id g, ga_enrollment_id = pr_enrollment_id p,
       ga_proof_fingerprint = ''sha256:'' @ sha256_hex x pf, ga_device_ref = gr_device_ref g,
       ga_acknowledged_at = t\<rparr>"
  from assms(1) obtain db1 d n db2 db3 where s: "add_grant_ack ?ack c = Inr db1"
    "get_decision db1 (gr_decision_id g) = Some d"
    "upsert_claim (claim_for (gr_device_ref g) (dc_target_business_owner_id d) g p Active (Some t)
       t None) db1 = (n, db2)"
    "project_active_claim x (gr_device_ref g) (dc_target_business_owner_id d) (pr_manifest_id p)
       (pr_manifest_json p) (pr_manifest_digest p) (pr_manifest_revision p) t db2 = Inr db3"
    "c' = set_proposal_state (pr_enrollment_id p) Grant_acknowledged t db3"
    by (rule activate_claimD)
  let ?row = "claim_for (gr_device_ref g) (dc_target_business_owner_id d) g p Active (Some t) t None"
  from s(1) have a: "db1 = c\<lparr>grant_acks := grant_acks c @ [?ack]\<rparr>"
    "\<forall>b \<in> set (grant_acks c). ga_grant_id b \<noteq> gr_grant_id g \<and> ga_enrollment_id b \<noteq> pr_enrollment_id p"
    by (auto simp: add_grant_ack_def ok_iff)
  have db2: "db2 = snd (upsert_claim ?row db1)" "n = fst (upsert_claim ?row db1)"
    using s(3) by simp_all
  have k1: "distinct (map cl_device_instance_id (claims db1))" "distinct (map dv_device_id (devices db2))"
    using keys a(1) db2(1) by (simp_all add: claim_keys_def)
  have id: "cl_device_instance_id ?row = device_instance_id (gr_device_ref g)"
    by (simp add: claim_for_def)
  note up = upsert_claim_set [OF k1(1), of ?row, folded db2, unfolded id]
  note fs = project_active_fields [OF s(4)]
  from project_active_devices [OF s(4) k1(2)] obtain r where
    r: "directory_row (gr_device_ref g) (dc_target_business_owner_id d) r"
    "set (devices db3) = {k \<in> set (devices db2). dv_device_id k \<noteq> device_instance_id (gr_device_ref g)} \<union> {r}"
    "distinct (map dv_device_id (devices db3))" .
  show thesis
  proof (rule that [of d ?ack n r])
    show "claim_keys c'" using up(2) r(3) by (simp add: claim_keys_def s(5) fs)
    show "set (claims c') = {k \<in> set (claims c). cl_device_instance_id k \<noteq> device_instance_id (gr_device_ref g)}
       \<union> {activated_row t n (dc_target_business_owner_id d) p g}"
      using up(1) a(1) by (simp add: s(5) fs activated_row_def)
  qed (use s(2) a r in \<open>simp_all add: s(5) fs db2(1) get_decision_def\<close>)
qed

section \<open>Steps keep the keys\<close>

lemma keys_set_state: "keys_ok c \<Longrightarrow> keys_ok (set_proposal_state e s t c)"
  by (simp add: keys_defs map_tupd)

lemma keys_update_grant: "keys_ok c \<Longrightarrow>
    (\<And>r. gr_grant_id (f r) = gr_grant_id r \<and> gr_enrollment_id (f r) = gr_enrollment_id r
       \<and> gr_decision_id (f r) = gr_decision_id r) \<Longrightarrow> keys_ok (update_grant i f c)"
  by (simp add: keys_defs map_tupd)

lemma keys_fields: "keys_ok c \<Longrightarrow> proposals c' = proposals c \<Longrightarrow> decisions c' = decisions c \<Longrightarrow>
    grants c' = grants c \<Longrightarrow> grant_acks c' = grant_acks c \<Longrightarrow> claim_keys c' \<Longrightarrow>
    commissioning_keys c' \<Longrightarrow> keys_ok c'"
  by (simp add: keys_defs)

lemma revoke_grant_simps [simp]:
  "gr_grant_id (revoke_grant t g) = gr_grant_id g" "gr_enrollment_id (revoke_grant t g) = gr_enrollment_id g"
  "gr_decision_id (revoke_grant t g) = gr_decision_id g" "gr_revoked_at (revoke_grant t g) = Some t"
  "gr_owner_domain_id (revoke_grant t g) = gr_owner_domain_id g"
  "gr_hardware_identity_ref (revoke_grant t g) = gr_hardware_identity_ref g"
  "gr_claim_generation (revoke_grant t g) = gr_claim_generation g"
  "gr_device_ref (revoke_grant t g) = gr_device_ref g"
  "gr_manifest_ref (revoke_grant t g) = gr_manifest_ref g"
  "gr_operational_key_id (revoke_grant t g) = gr_operational_key_id g"
  "gr_wire_envelope (revoke_grant t g) = gr_wire_envelope g"
  "gr_delivered_at (revoke_grant t g) = gr_delivered_at g"
  "gr_expires_at (revoke_grant t g) = gr_expires_at g"
  by (simp_all add: revoke_grant_def)

lemma keys_expire: "keys_ok c \<Longrightarrow> keys_ok (expire_effect t e c)"
  by (auto simp: expire_effect_def Let_def keys_set_state keys_update_grant split: option.splits)

lemma claim_standing_cases:
  assumes "claim_standing v ow hw key t db = Inr db'"
  obtains (voucher) vr db1 br where "vc_scheme v = voucher_scheme"
      "consume_commissioning_voucher vr db = Inr db1" "bind_base_identity br db1 = Inr db'"
      "bi_device_base_id br = vc_device_base_id v" "bi_owner_domain_id br = ow"
      "bi_hardware_identity_ref br = hw" "bi_operational_key_id br = key"
  | (continuation) b where "vc_scheme v \<noteq> voucher_scheme" "db' = db"
      "base_identity db (vc_device_base_id v) = Some b" "bi_owner_domain_id b = ow"
      "bi_operational_key_id b = key" "bi_hardware_identity_ref b = hw"
      "\<not> requires_fresh_presence db ow hw"
proof (cases "vc_scheme v = voucher_scheme")
  case True
  from assms[unfolded claim_standing_def Let_def if_P [OF True] andthen_ok] obtain vr db1 br where
    "consume_commissioning_voucher vr db = Inr db1" "bind_base_identity br db1 = Inr db'"
    "bi_device_base_id br = vc_device_base_id v" "bi_owner_domain_id br = ow"
    "bi_hardware_identity_ref br = hw" "bi_operational_key_id br = key"
    by (metis base_identity_row.select_convs(1-4))
  with True show thesis by (rule voucher)
next
  case False
  with assms show thesis unfolding claim_standing_def Let_def if_not_P [OF False]
    by (auto simp: ok_iff split: option.splits intro: continuation)
qed

lemma bind_base_identity_cases:
  assumes "bind_base_identity b db = Inr db'"
  obtains (known) e where "base_identity db (bi_device_base_id b) = Some e"
      "bi_operational_key_id e = bi_operational_key_id b" "db' = db"
  | (new) "base_identity db (bi_device_base_id b) = None"
      "base_identity_for_key db (bi_operational_key_id b) = None"
      "db' = db\<lparr>base_identities := base_identities db @ [b]\<rparr>"
  using assms by (auto simp: bind_base_identity_def ok_iff split: option.splits if_splits)

lemma consume_voucher_cases:
  assumes "consume_commissioning_voucher v db = Inr db'"
  shows "cv_jti v \<notin> cv_jti ` set (vouchers db)" and "db' = db\<lparr>vouchers := vouchers db @ [v]\<rparr>"
  using assms by (auto simp: consume_commissioning_voucher_def tget_None_iff split: option.splits)

lemma claim_standing_frame:
  assumes "claim_standing v ow hw key t db = Inr db'"
  shows "proposals db' = proposals db" "decisions db' = decisions db" "grants db' = grants db"
    "grant_acks db' = grant_acks db" "claims db' = claims db" "devices db' = devices db"
  by (rule claim_standing_cases [OF assms];
      auto elim!: bind_base_identity_cases dest!: consume_voucher_cases(2))+

lemma claim_standing_keys:
  assumes "claim_standing v ow hw key t db = Inr db'" "commissioning_keys db"
  shows "commissioning_keys db'"
  using assms(1)
proof (cases rule: claim_standing_cases)
  case (voucher vr db1 br)
  from consume_voucher_cases [OF voucher(2)] assms(2) have k: "commissioning_keys db1"
    by (auto simp: commissioning_keys_def)
  from voucher(3) show ?thesis
  proof (cases rule: bind_base_identity_cases)
    case new
    then have "bi_device_base_id br \<notin> bi_device_base_id ` set (base_identities db1)"
      "bi_operational_key_id br \<notin> bi_operational_key_id ` set (base_identities db1)"
      by (simp_all add: base_identity_def base_identity_for_key_def tget_None_iff)
    with k new(3) show ?thesis by (simp add: commissioning_keys_def)
  qed (use k in simp)
qed (use assms in simp)

lemma claim_keys_fields: "claims c' = claims c \<Longrightarrow> devices c' = devices c \<Longrightarrow> claim_keys c' = claim_keys c"
  by (simp add: claim_keys_def)

lemma commissioning_keys_fields: "base_identities c' = base_identities c \<Longrightarrow>
    vouchers c' = vouchers c \<Longrightarrow> commissioning_keys c' = commissioning_keys c"
  by (simp add: commissioning_keys_def)

lemma project_revoked_keys: "claim_keys c \<Longrightarrow> claim_keys (project_revoked_claim ref t c)"
  by (auto simp: project_revoked_claim_def claim_keys_def update_device_def map_tupd
      split: option.splits)

lemma keys_project_revoked: "keys_ok c \<Longrightarrow> keys_ok (project_revoked_claim ref t c)"
  by (rule keys_fields) (simp_all add: project_revoked_keys keys_ok_def commissioning_keys_def)

lemma keys_revoke_standing: "keys_ok c \<Longrightarrow> keys_ok (revoke_standing_claim t r c)"
  by (auto simp: revoke_standing_claim_def Let_def update_claim_def map_tupd keys_defs
      split: option.splits)

lemma revoke_unclaimedD:
  assumes "revoke_unclaimed ref t g c = Inr c'"
  obtains p d c1 where "get_proposal c (gr_enrollment_id g) = Some p"
    "Claim_revoked \<in> set (allowed_proposal_transitions (pr_state p))"
    "get_decision c (gr_decision_id g) = Some d"
    "c1 = update_grant (gr_grant_id g) (revoke_grant t)
            (set_proposal_state (gr_enrollment_id g) Claim_revoked t c)"
    "c' = snd (upsert_claim (claim_for ref (dc_target_business_owner_id d) g p Revoked None t
            (Some t)) c1)"
  using assms unfolding revoke_unclaimed_def Let_def by (auto simp: ok_iff get_decision_def)

lemma keys_revoke_unclaimed:
  assumes "revoke_unclaimed ref t g c = Inr c'" "keys_ok c"
  shows "keys_ok c'"
  using assms(1)
proof (rule revoke_unclaimedD)
  fix p d c1
  assume c1: "c1 = update_grant (gr_grant_id g) (revoke_grant t)
            (set_proposal_state (gr_enrollment_id g) Claim_revoked t c)"
    and c': "c' = snd (upsert_claim (claim_for ref (dc_target_business_owner_id d) g p Revoked None t
            (Some t)) c1)"
  have k: "keys_ok c1" using assms(2) by (simp add: c1 keys_set_state keys_update_grant)
  then have "distinct (map cl_device_instance_id (claims c1))" by (simp add: keys_defs)
  from upsert_claim_set(2) [OF this] k show "keys_ok c'" by (simp add: c' keys_defs)
qed

lemma step_keys: "lifecycle_step x au c c' \<Longrightarrow> keys_ok c \<Longrightarrow> keys_ok c'"
proof (induction rule: lifecycle_step.induct)
  case (Create v p t c c1)
  then show ?case
    using claim_standing_frame [OF Create(1)] claim_standing_keys [OF Create(1)]
    by (auto simp: keys_defs)
next
  case (Decide p c who did v gid business t)
  then show ?case
    by (auto simp: decide_effect_def Let_def keys_defs map_tupd minted_def decision_row_for_def
        grant_row_for_def split: verdict.splits)
next
  case (Deliver p c g t env)
  then show ?case by (simp add: deliver_effect_def keys_set_state keys_update_grant)
next
  case (Acknowledge p c g t proof_text w c')
  from Acknowledge(9) have k: "claim_keys c" by (simp add: keys_ok_def)
  from Acknowledge(8) k show ?case
    by (rule activate_effect) (use Acknowledge(9) in \<open>auto simp: keys_defs map_tupd\<close>)
next
  case (Withdraw c w)
  then show ?case by (simp add: record_controller_withdrawal_def keys_defs split: option.splits)
next
  case (Record_standing c s)
  then show ?case by (simp add: keys_defs)
next
  case (Revoke_unclaimed c ref g t c1)
  then show ?case by (simp add: keys_project_revoked keys_revoke_unclaimed)
qed (simp_all add: keys_set_state keys_expire keys_project_revoked keys_revoke_standing)

lemma lifecycle_keys: "lifecycle x au c c' \<Longrightarrow> keys_ok c \<Longrightarrow> keys_ok c'"
  by (induction rule: rtranclp_induct) (auto intro: step_keys)

end
