(* ===== verification/Admission_Handlers.thy ===== *)
theory Admission_Handlers
  imports Admission_Enrollment Admission_Handoff Admission_Queries
begin

text \<open>
  The commands and queries of the authority as one datatype and their execution on the
  database.  The locale \<open>transactional\<close> is the interface between handlers and
  transactions: a transitive relation that every transaction obeys is obeyed by
  every request and every sequence of requests.
\<close>

section \<open>Requests\<close>

text \<open>
  A request with an \<open>ActorContext\<close> carries what the context is built from; \<open>as_actor\<close>
  builds it with the constructor's check, as the HTTP layer does.
\<close>

record caller =
  ca_actor :: controller_actor
  ca_owner_domain_id :: string
  ca_business_owner_id :: string

datatype request =
  Create_enrollment instant string string enrollment_payload
| Cancel_enrollment instant instant string string string string caller
| Decide_enrollment instant instant string string string decision_payload caller
| Collect_claim_grant nat instant instant string string string int string string
| Ack_claim_grant instant instant string string string string string int int
| Revoke_claim instant string string device_ref string caller
| Withdraw_controller instant string caller
| Record_standing instant string string caller
| Expire_due instant
| Get_enrollment_recovery instant instant string caller
| List_enrollment_recovery instant instant string "proposal_state list" "(int \<times> string) option" nat caller
| Mark_published string instant
| Record_publish_failure string string

definition as_actor :: "caller \<Rightarrow> (actor_context \<Rightarrow> 'a handler) \<Rightarrow> 'a handler" where
  "as_actor who h db =
     (case actor_context_new (ca_actor who) (ca_owner_domain_id who) (ca_business_owner_id who) of
        Inl e \<Rightarrow> (db, Inl e)
      | Inr ctx \<Rightarrow> h ctx db)"

type_synonym projector = "(hub_db \<Rightarrow> string \<Rightarrow> exn + unit) option"

fun execute :: "external \<Rightarrow> authority \<Rightarrow> projector \<Rightarrow> request \<Rightarrow> hub_db \<Rightarrow> hub_db" where
  "execute x au pj (Create_enrollment t cid corr payload) db =
     fst (create_enrollment x au t cid corr payload db)"
| "execute x au pj (Cancel_enrollment t0 t cid corr eid reason who) db =
     fst (as_actor who (cancel_enrollment x t0 t cid corr eid reason) db)"
| "execute x au pj (Decide_enrollment t0 t cid corr eid payload who) db =
     fst (as_actor who (decide_enrollment x au t0 t cid corr eid payload) db)"
| "execute x au pj (Collect_claim_grant eph t0 t cid corr eid n challenge pf) db =
     fst (collect_claim_grant x au eph t0 t cid corr eid n challenge pf db)"
| "execute x au pj (Ack_claim_grant t0 t cid corr eid gid pf n ep) db =
     fst (ack_claim_grant x au pj t0 t cid corr eid gid pf n ep db)"
| "execute x au pj (Revoke_claim t cid corr ref reason who) db =
     fst (as_actor who (revoke_claim x t cid corr ref reason) db)"
| "execute x au pj (Withdraw_controller t pid who) db =
     fst (as_actor who (withdraw_controller t pid) db)"
| "execute x au pj (Record_standing t jti key who) db =
     fst (as_actor who (record_commissioning_standing t jti key) db)"
| "execute x au pj (Expire_due t) db = fst (run_tx (expire_due x t) db)"
| "execute x au pj (Get_enrollment_recovery t0 t eid who) db =
     fst (as_actor who (get_enrollment_recovery x t0 t eid) db)"
| "execute x au pj (List_enrollment_recovery t0 t owner states cur limit who) db =
     fst (as_actor who (list_enrollment_recovery x t0 t owner states cur limit) db)"
| "execute x au pj (Mark_published i t) db =
     (case mark_published i t db of Inl _ \<Rightarrow> db | Inr db' \<Rightarrow> db')"
| "execute x au pj (Record_publish_failure i e) db = record_publish_failure i e db"

definition run :: "external \<Rightarrow> authority \<Rightarrow> projector \<Rightarrow> request list \<Rightarrow> hub_db" where
  "run x au pj rs = fold (execute x au pj) rs empty_db"

section \<open>Handlers and their transactions\<close>

locale transactional =
  fixes x :: external and au :: authority and R :: "hub_db \<Rightarrow> hub_db \<Rightarrow> bool"
  assumes same: "R db db"
    and through: "R a b \<Longrightarrow> R b c \<Longrightarrow> R a c"
    and expiry: "expire_due x t db = Inr (n, db') \<Longrightarrow> R db db'"
    and create: "check_keys x pl = Inr keys \<Longrightarrow> check_commissioning x au t pl = Inr (v, hw) \<Longrightarrow>
      ep_requested_owner_domain_id pl = au_owner_domain_id au \<Longrightarrow>
      create_tx x au t cid corr pl keys v hw mj fp db = Inr (r, db') \<Longrightarrow> R db db'"
    and cancel: "cancel_tx x t cid corr eid reason ctx fp db = Inr (r, db') \<Longrightarrow> R db db'"
    and decide: "''device.claim.approve'' \<in> set (granted_scopes (actor ctx)) \<Longrightarrow>
      actor_owner_domain_id (actor ctx) = ctx_owner_domain_id ctx \<Longrightarrow>
      dp_target_owner_domain_id dp = ctx_owner_domain_id ctx \<Longrightarrow>
      decide_tx x au t cid corr eid dp ctx fp db = Inr (r, db') \<Longrightarrow> R db db'"
    and collect: "collect_tx x au eph t cid corr eid revision ch pf fp db = Inr (r, db') \<Longrightarrow> R db db'"
    and ack: "ack_tx x au t cid corr eid gid pf gen ep fp db = Inr (r, db') \<Longrightarrow> R db db'"
    and revoke: "revoke_tx x t cid corr ref reason ctx fp db = Inr (r, db') \<Longrightarrow> R db db'"
    and withdraw: "R db (snd (record_controller_withdrawal w db))"
    and standing: "store_commissioning_standing s db = Inr (recorded, db') \<Longrightarrow> R db db'"
    and published: "mark_published i t db = Inr db' \<Longrightarrow> R db db'"
    and unpublished: "R db (record_publish_failure i e db)"
begin

definition obeys :: "'a handler \<Rightarrow> bool" where
  "obeys h = (\<forall>db. R db (fst (h db)))"

lemma obeysD: "obeys h \<Longrightarrow> R db (fst (h db))"
  by (simp add: obeys_def)

lemma run_tx_obeys:
  assumes "\<And>db v db'. f db = Inr (v, db') \<Longrightarrow> R db db'"
  shows "obeys (run_tx f)"
  unfolding obeys_def
proof
  fix db show "R db (fst (run_tx f db))"
    using assms [of db] by (cases "f db") (auto simp: run_tx_def same)
qed

lemma guarded_obeys: "(g = Inr () \<Longrightarrow> obeys h) \<Longrightarrow> obeys (guarded g h)"
  by (cases g) (auto simp: obeys_def guarded_def same)

lemma with_replay_obeys: "obeys h \<Longrightarrow> obeys (with_replay ow ct cid fp h)"
  by (auto simp: obeys_def with_replay_def same split: sum.splits option.splits)

lemma then_project_obeys: "obeys h \<Longrightarrow> obeys (then_project pj h)"
  unfolding obeys_def then_project_def by (auto split: prod.splits sum.splits) (metis fst_conv)+

lemma as_actor_obeys:
  "(\<And>ctx. actor_owner_domain_id (actor ctx) = ctx_owner_domain_id ctx \<Longrightarrow> obeys (h ctx)) \<Longrightarrow>
   obeys (as_actor who h)"
  by (auto simp: obeys_def as_actor_def actor_context_new_def same split: sum.splits if_splits)

lemma const_obeys: "obeys (\<lambda>db. (db, f db))"
  by (simp add: obeys_def same)

lemma expiry_obeys: "obeys (run_tx (expire_due x t))"
  by (rule run_tx_obeys) (rule expiry)

lemma with_expiry_obeys:
  assumes "obeys h"
  shows "obeys (with_expiry x t h)"
  unfolding obeys_def
proof
  fix db
  obtain db1 r where e: "run_tx (expire_due x t) db = (db1, r)" by (cases "run_tx (expire_due x t) db")
  with obeysD [OF expiry_obeys, of db t] have "R db db1" by simp
  moreover from this obeysD [OF assms, of db1] have "R db (fst (h db1))" by (rule through)
  ultimately show "R db (fst (with_expiry x t h db))"
    by (simp add: with_expiry_def e split: sum.splits)
qed

lemma create_obeys: "obeys (create_enrollment x au t cid corr pl)"
proof -
  let ?checks = "andthen (check_keys x pl) (\<lambda>keys. andthen (check_commissioning x au t pl)
     (\<lambda>(v, hw). andthen (check_manifest x (ep_manifest pl)) (\<lambda>mj. Inr (keys, v, hw, mj))))"
  let ?fp = "fingerprint x create_command (ep_requested_owner_domain_id pl) (Create_payload pl)"
  have "obeys (\<lambda>db. case ?checks of Inl e \<Rightarrow> (db, Inl e)
      | Inr (keys, v, hw, mj) \<Rightarrow> run_tx (create_tx x au t cid corr pl keys v hw mj ?fp) db)"
    if owner: "ep_requested_owner_domain_id pl = au_owner_domain_id au"
  proof (cases ?checks)
    case (Inl e)
    then show ?thesis by (simp add: const_obeys)
  next
    case (Inr w)
    obtain keys v hw mj where w: "w = (keys, v, hw, mj)" by (cases w)
    from Inr w have c: "check_keys x pl = Inr keys" "check_commissioning x au t pl = Inr (v, hw)"
      by (auto simp: ok_iff)
    have "obeys (run_tx (create_tx x au t cid corr pl keys v hw mj ?fp))"
      by (rule run_tx_obeys) (rule create [OF c owner])
    then show ?thesis unfolding Inr w by simp
  qed
  then show ?thesis
    unfolding create_enrollment_def Let_def
    by (intro guarded_obeys with_replay_obeys) (simp add: require_ok)
qed

lemma decide_obeys:
  assumes "actor_owner_domain_id (actor ctx) = ctx_owner_domain_id ctx"
  shows "obeys (decide_enrollment x au t0 t cid corr eid dp ctx)"
  unfolding decide_enrollment_def Let_def
proof (intro guarded_obeys with_replay_obeys with_expiry_obeys run_tx_obeys)
  fix db v db'
  assume "require_scope ctx ''device.claim.approve'' = Inr ()"
    "require (dp_target_owner_domain_id dp = ctx_owner_domain_id ctx)
       (problem_of ''OWNER_DOMAIN_MISMATCH''
          ''Decision target Owner Domain does not match authorization'' 403 ''forbidden'') = Inr ()"
    and d: "decide_tx x au t cid corr eid dp ctx (fingerprint x decide_command
       (dp_target_owner_domain_id dp) (Decide_payload dp eid (actor ctx))) db = Inr (v, db')"
  then have "''device.claim.approve'' \<in> set (granted_scopes (actor ctx))"
    "dp_target_owner_domain_id dp = ctx_owner_domain_id ctx"
    by (simp_all add: require_scope_ok require_ok)
  with assms d show "R db db'" by (intro decide)
qed

lemma standing_obeys: "obeys (record_commissioning_standing t jti key ctx)"
  unfolding record_commissioning_standing_def
  by (intro guarded_obeys run_tx_obeys) (auto simp: ok_iff dest: standing)

lemma withdraw_obeys: "obeys (withdraw_controller t pid ctx)"
  unfolding withdraw_controller_def
proof (intro guarded_obeys run_tx_obeys)
  fix db v db' and w :: withdrawal_row
  assume "Inr (record_controller_withdrawal w db) = (Inr (v, db') :: exn + instant \<times> hub_db)"
  with withdraw [of db w] show "R db db'" by (simp add: prod_eq_iff)
qed

lemma tx_obeys:
  "obeys (run_tx (cancel_tx x t cid corr eid reason ctx fp))"
  "obeys (run_tx (collect_tx x au eph t cid corr eid rv ch pf fp))"
  "obeys (run_tx (ack_tx x au t cid corr eid gid pf gen ep fp))"
  "obeys (run_tx (revoke_tx x t cid corr ref reason ctx fp))"
  by (rule run_tx_obeys, erule cancel collect ack revoke)+

lemmas handlers_obey = tx_obeys create_obeys decide_obeys standing_obeys withdraw_obeys
  expiry_obeys const_obeys

lemma execute_related: "R db (execute x au pj rq db)"
proof (cases rq)
  case (Mark_published i t)
  then show ?thesis by (auto intro: published same split: sum.splits)
next
  case (Record_publish_failure i e)
  then show ?thesis by (simp add: unpublished)
qed (auto simp: cancel_enrollment_def collect_claim_grant_def ack_claim_grant_def revoke_claim_def
    get_enrollment_recovery_def list_enrollment_recovery_def Let_def
    intro!: obeysD handlers_obey as_actor_obeys guarded_obeys with_replay_obeys
      with_expiry_obeys then_project_obeys)

lemma served_related: "R db (fold (execute x au pj) rs db)"
proof (induction rs arbitrary: db)
  case (Cons rq rs)
  from through [OF execute_related Cons] show ?case by simp
qed (simp add: same)

lemma run_related: "R (run x au pj rs) (run x au pj (rs @ rs'))"
  using served_related [of "run x au pj rs" pj rs'] by (simp add: run_def)

end

end
