(* ===== verification/Admission_Commands.thy ===== *)
theory Admission_Commands
  imports Admission_Lifecycle Admission_Handlers
begin

text \<open>
  The refinement: whatever a request commits, the core of the database moved by steps of
  the lifecycle relation.  Each transaction is shown to take such steps; the locale
  \<open>transactional\<close> carries the fact to handlers and runs.
\<close>

section \<open>What a transaction commits\<close>

definition tx_commits :: "external \<Rightarrow> authority \<Rightarrow> 'a tx \<Rightarrow> bool" where
  "tx_commits x au f = (\<forall>db v db'. keys_ok (core db) \<longrightarrow> f db = Inr (v, db') \<longrightarrow>
     lifecycle x au (core db) (core db'))"

section \<open>Expiry\<close>

lemma expire_effect_keeps:
  "q \<in> set (proposals c) \<Longrightarrow> pr_enrollment_id q \<noteq> e \<Longrightarrow> q \<in> set (proposals (expire_effect t e c))"
  by (auto simp: expire_effect_def Let_def set_tupd split: option.splits)

lemma expire_each_commits:
  assumes "expire_each x t ps db = Inr db'" "set ps \<subseteq> set (proposals db)"
    "distinct (map pr_enrollment_id ps)" "\<forall>p \<in> set ps. pr_expires_at p \<le> t"
  shows "lifecycle x au (core db) (core db')"
  using assms
proof (induction ps arbitrary: db)
  case (Cons p ps)
  then obtain db1 where 1: "expire_one x t p db = Inr db1" and 2: "expire_each x t ps db1 = Inr db'"
    by (auto simp: ok_iff)
  from expire_one_effect [OF 1] have e: "core db1 = expire_effect t (pr_enrollment_id p) (core db)"
    "Expired \<in> set (allowed_proposal_transitions (pr_state p))" by auto
  have "lifecycle_step x au (core db) (core db1)"
    unfolding e(1) using Cons.prems e(2) by (intro Expire) (auto simp: core_simps)
  moreover have "set ps \<subseteq> set (proposals db1)"
  proof
    fix q assume "q \<in> set ps"
    with Cons.prems have "q \<in> set (proposals (core db))" "pr_enrollment_id q \<noteq> pr_enrollment_id p"
      by (auto simp: core_simps image_iff)
    from expire_effect_keeps [OF this, of t] show "q \<in> set (proposals db1)"
      by (simp add: core_simps flip: e(1))
  qed
  with Cons.IH [OF 2] Cons.prems have "lifecycle x au (core db1) (core db')" by simp
  ultimately show ?case by (rule converse_rtranclp_into_rtranclp)
qed simp

lemma list_expirable_props:
  assumes "proposal_keys db"
  shows "set (list_expirable db ss t) \<subseteq> set (proposals db)"
    and "distinct (map pr_enrollment_id (list_expirable db ss t))"
    and "\<forall>p \<in> set (list_expirable db ss t). pr_expires_at p \<le> t"
  using assms
  by (auto simp: list_expirable_def order_by_def proposal_keys_def distinct_map inj_on_def)

lemma expire_due_commits: "tx_commits x au (expire_due x t)"
  unfolding tx_commits_def
proof (intro allI impI)
  fix db n db'
  assume "keys_ok (core db)" and e: "expire_due x t db = Inr (n, db')"
  then have k: "proposal_keys db" by (simp add: keys_ok_def proposal_keys_def core_simps)
  from e have "expire_each x t (list_expirable db expirable_states t) db = Inr db'"
    by (auto simp: expire_due_def Let_def ok_iff)
  from expire_each_commits [OF this list_expirable_props [OF k]]
  show "lifecycle x au (core db) (core db')" .
qed

section \<open>Each command\<close>

lemma get_proposal_mem: "get_proposal db i = Some p \<Longrightarrow> p \<in> set (proposals (core db))"
  by (auto simp: get_proposal_def core_simps dest: tget_SomeD)

lemma cancel_commits: "tx_commits x au (cancel_tx x t cid corr eid reason ctx fp)"
  unfolding tx_commits_def
proof (intro allI impI)
  fix db r db'
  assume "cancel_tx x t cid corr eid reason ctx fp db = Inr (r, db')"
  then show "lifecycle x au (core db) (core db')"
  proof (cases rule: cancel_tx_effect)
    case (wrote p)
    then have "pr_enrollment_id p = eid" by (auto simp: get_proposal_def dest: tget_SomeD)
    with wrote lifecycle_step.Cancel [of p "core db" x au t] show ?thesis
      by (auto dest: get_proposal_mem)
  qed simp
qed

lemma decide_in_session_step:
  assumes "decide_in_session x au p v who od own mref cid corr t db = Inr (out, db')"
    and "p \<in> set (proposals (core db))" "pr_state p = Pending_review"
    and "''device.claim.approve'' \<in> set (granted_scopes who)" "actor_owner_domain_id who = od"
    and od: "od = pr_requested_owner_domain_id p" and mref: "mref = proposal_manifest_ref p"
  shows "lifecycle_step x au (core db) (core db')"
proof -
  obtain dec gid where out: "out = (dec, gid)" by (cases out)
  from assms(1)[unfolded out] obtain did gid' where e:
    "\<forall>d \<in> set (decisions db). dc_decision_id d \<noteq> did \<and> dc_enrollment_id d \<noteq> pr_enrollment_id p"
    "v = Approve \<longrightarrow> (\<forall>g \<in> set (grants db). gr_grant_id g \<noteq> gid'
       \<and> gr_enrollment_id g \<noteq> pr_enrollment_id p \<and> gr_decision_id g \<noteq> did)"
    "core db' = (set_proposal_state (pr_enrollment_id p) (decided_state v) t (core db))
       \<lparr>decisions := decisions db @ [decision_row_for p v who od own mref did t],
        grants := grants db @ minted au p v od mref did gid' t db\<rparr>"
    "ad_expected_proposal_revision dec = pr_revision p"
    "gid = (case v of Approve \<Rightarrow> Some gid' | Reject \<Rightarrow> None)"
    "command_results db' = command_results db"
    by (rule decide_in_session_effect)
  have "core db' = decide_effect au p v who own did gid' t (core db)"
    by (cases v) (simp_all add: e(3) decide_effect_def Let_def od mref minted_def core_simps)
  moreover have "lifecycle_step x au (core db) (decide_effect au p v who own did gid' t (core db))"
    by (rule Decide) (use assms e(1,2) in \<open>simp_all add: core_simps\<close>)
  ultimately show ?thesis by simp
qed

lemma decide_commits:
  assumes "''device.claim.approve'' \<in> set (granted_scopes (actor ctx))"
    "actor_owner_domain_id (actor ctx) = ctx_owner_domain_id ctx"
    "dp_target_owner_domain_id payload = ctx_owner_domain_id ctx"
  shows "tx_commits x au (decide_tx x au t cid corr eid payload ctx fp)"
  unfolding tx_commits_def
proof (intro allI impI)
  fix db r db'
  assume "decide_tx x au t cid corr eid payload ctx fp db = Inr (r, db')"
  then show "lifecycle x au (core db) (core db')"
  proof (cases rule: decide_tx_effect)
    case (decided p out db1)
    have "lifecycle_step x au (core db) (core db1)"
      by (rule decide_in_session_step [OF decided(7)])
        (use decided(1-6) assms in \<open>simp_all add: get_proposal_mem\<close>)
    then show ?thesis by (simp add: decided(8))
  qed simp
qed

lemma collect_commits: "tx_commits x au (collect_tx x au eph t cid corr eid n ch pf fp)"
  unfolding tx_commits_def
proof (intro allI impI)
  fix db r db'
  assume "collect_tx x au eph t cid corr eid n ch pf fp db = Inr (r, db')"
  then show "lifecycle x au (core db) (core db')"
  proof (cases rule: collect_tx_effect)
    case (sealed p g env)
    note c = collect_checksD [OF sealed(3)]
    from c(1) have g: "g \<in> set (grants (core db))" "gr_enrollment_id g = pr_enrollment_id p"
      by (auto simp: get_grant_for_enrollment_def core_simps dest: tget_SomeD)
    have "lifecycle_step x au (core db) (deliver_effect t env p g (core db))"
      by (rule Deliver [OF get_proposal_mem [OF sealed(1)] g])
        (use c(2,3,5,6) sealed(4,6) in auto)
    then show ?thesis by (simp add: sealed(5))
  qed simp
qed

lemma ack_commits: "tx_commits x au (ack_tx x au t cid corr eid gid pf n ep fp)"
  unfolding tx_commits_def
proof (intro allI impI)
  fix db r db'
  assume "ack_tx x au t cid corr eid gid pf n ep fp db = Inr (r, db')"
  then show "lifecycle x au (core db) (core db')"
  proof (cases rule: ack_tx_effect)
    case (activated p g v)
    note c = ack_checksD [OF activated(1)]
    from c(1,2) have ids: "pr_enrollment_id p = eid" "gr_grant_id g = gid"
      and g: "g \<in> set (grants (core db))"
      by (auto simp: get_proposal_def get_grant_def core_simps dest: tget_SomeD)
    have "lifecycle_step x au (core db) (core db')"
      by (rule Acknowledge [OF get_proposal_mem [OF c(1)] g _ c(6,4,5) _ activated(2)])
        (use c(3,9) ids in auto)
    then show ?thesis by simp
  qed simp
qed

lemma revoke_commits: "tx_commits x au (revoke_tx x t cid corr ref reason ctx fp)"
  unfolding tx_commits_def
proof (intro allI impI)
  fix db r db'
  assume "revoke_tx x t cid corr ref reason ctx fp db = Inr (r, db')"
  then show "lifecycle x au (core db) (core db')"
  proof (cases rule: revoke_tx_effect)
    case (unclaimed g c1)
    from unclaimed(2) have g: "g \<in> set (grants (core db))" "gr_device_ref g = ref"
      by (auto simp: get_grant_for_device_ref_def core_simps dest: tget_SomeD)
    have "lifecycle_step x au (core db) (project_revoked_claim ref t c1)"
      by (rule Revoke_unclaimed [OF _ g unclaimed(3)]) (simp add: unclaimed(1))
    then show ?thesis by (simp add: unclaimed(4))
  next
    case (standing c)
    from standing(1) have "c \<in> set (claims (core db))" "device_instance_id ref = cl_device_instance_id c"
      by (auto simp: get_claim_def core_simps dest: tget_SomeD)
    from lifecycle_step.Revoke_standing [OF this standing(2,3)] show ?thesis
      by (auto simp: standing(5))
  qed simp
qed

lemma new_proposal_fields [simp]:
  "pr_enrollment_id (new_proposal x au t payload keys hw mj eid ch) = eid"
  "pr_hardware_identity_ref (new_proposal x au t payload keys hw mj eid ch) = hw"
  "pr_operational_key_id (new_proposal x au t payload keys hw mj eid ch) = ek_operational_key_id keys"
  "pr_operational_public_key_spki (new_proposal x au t payload keys hw mj eid ch)
     = ep_operational_public_key payload"
  "pr_device_instance_id (new_proposal x au t payload keys hw mj eid ch)
     = ep_device_instance_candidate_id payload"
  "pr_requested_owner_domain_id (new_proposal x au t payload keys hw mj eid ch)
     = ep_requested_owner_domain_id payload"
  "pr_state (new_proposal x au t payload keys hw mj eid ch) = Pending_review"
  "pr_revision (new_proposal x au t payload keys hw mj eid ch) = 1"
  "proposal_manifest_ref (new_proposal x au t payload keys hw mj eid ch)
     = manifest_ref_of (ep_manifest payload)"
  by (simp_all add: new_proposal_def proposal_manifest_ref_def manifest_ref_of_def)

lemma last_ordered_mem: "order_by k t = rs @ [r] \<Longrightarrow> r \<in> set t"
  by (metis last_in_set last_snoc set_order_by snoc_eq_iff_butlast)

lemma standing_row_mem: "standing_row_for db v ow key = Some row \<Longrightarrow> row \<in> set (standings db)"
  by (auto simp: standing_row_for_def commissioning_standing_def
      latest_commissioning_standing_for_key_def
      split: if_splits option.splits list.splits dest!: tget_SomeD last_ordered_mem)

lemma standing_forD:
  assumes "standing_for au db v ow key = Some s"
  shows "''device.claim.approve'' \<in> set (granted_scopes (st_actor s))"
    and "actor_owner_domain_id (st_actor s) = ow" and "au_decide_from_standing au"
    and "\<exists>row \<in> set (standings db). cs_actor row = Encoded (st_actor s)
           \<and> cs_operational_key_id row = key \<and> cs_owner_domain_id row = ow
           \<and> cs_business_owner_id row = st_business_owner_id s
           \<and> (\<forall>w. controller_withdrawn_at db ow (principal_id (st_actor s)) = Some w
                 \<longrightarrow> w < cs_recorded_at row)"
proof -
  from assms show d: "au_decide_from_standing au"
    unfolding standing_for_def by (simp split: if_splits)
  from assms d obtain row where row: "standing_row_for db v ow key = Some row"
    unfolding standing_for_def by (cases "standing_row_for db v ow key") simp_all
  from assms d row obtain who where who: "validate_json (cs_actor row) = Some who"
      "cs_owner_domain_id row = ow" "cs_operational_key_id row = key"
    unfolding standing_for_def
    by (cases "validate_json (cs_actor row)") (simp_all split: if_splits)
  from assms d row who have act: "actor_owner_domain_id who = ow"
      "''device.claim.approve'' \<in> set (granted_scopes who)"
    unfolding standing_for_def by (simp_all split: if_splits)
  from assms d row who act have s: "s = \<lparr>st_actor = who, st_business_owner_id = cs_business_owner_id row\<rparr>"
      "\<forall>w. controller_withdrawn_at db ow (principal_id who) = Some w \<longrightarrow> w < cs_recorded_at row"
    unfolding standing_for_def by (simp_all split: if_splits option.splits)
  from s act show "''device.claim.approve'' \<in> set (granted_scopes (st_actor s))"
    "actor_owner_domain_id (st_actor s) = ow" by simp_all
  from s who standing_row_mem [OF row] show "\<exists>row \<in> set (standings db). cs_actor row = Encoded (st_actor s)
           \<and> cs_operational_key_id row = key \<and> cs_owner_domain_id row = ow
           \<and> cs_business_owner_id row = st_business_owner_id s
           \<and> (\<forall>w. controller_withdrawn_at db ow (principal_id (st_actor s)) = Some w
                 \<longrightarrow> w < cs_recorded_at row)"
    by (cases "cs_actor row") auto
qed

lemma apply_standing_commits:
  assumes "apply_standing x au t cid corr p v mref db = Inr db'"
    and p: "p \<in> set (proposals (core db))" "pr_state p = Pending_review"
    and mref: "mref = proposal_manifest_ref p"
  shows "lifecycle x au (core db) (core db')"
proof (cases "standing_for au db v (pr_requested_owner_domain_id p) (pr_operational_key_id p)")
  case None
  with assms(1) show ?thesis by (simp add: apply_standing_def)
next
  case (Some s)
  with assms(1) obtain out where d: "decide_in_session x au p Approve (st_actor s)
      (pr_requested_owner_domain_id p) (st_business_owner_id s) mref (cid @ '':standing'') corr t db
      = Inr (out, db')"
    by (auto simp: apply_standing_def ok_iff)
  note sd = standing_forD [OF Some]
  have "lifecycle_step x au (core db) (core db')"
    by (rule decide_in_session_step [OF d p sd(1,2) refl mref])
  then show ?thesis by simp
qed

lemma create_commits:
  assumes keys: "check_keys x payload = Inr keys"
    and proof_ok: "check_commissioning x au t payload = Inr (v, hw)"
    and owner: "ep_requested_owner_domain_id payload = au_owner_domain_id au"
  shows "tx_commits x au (create_tx x au t cid corr payload keys v hw mj fp)"
  unfolding tx_commits_def
proof (intro allI impI)
  fix db r db'
  assume "create_tx x au t cid corr payload keys v hw mj fp db = Inr (r, db')"
  then show "lifecycle x au (core db) (core db')"
  proof (cases rule: create_tx_effect)
    case (created eid ch p c1 db5)
    have "key_id x (ep_operational_public_key payload) = Inr (ek_operational_key_id keys)"
      "sdk_derive_device_instance_id x (ep_operational_public_key payload)
         = Some (ep_device_instance_candidate_id payload)"
      using keys
      by (auto simp: check_keys_def as_invalid_argument_def ok_iff present_def
          split: sum.splits exn.splits option.splits)
    moreover have "derive_hardware_identity_ref x (vc_device_base_id v) = Inr hw"
      using proof_ok
      by (auto simp: check_commissioning_def Let_def as_invalid_argument_def ok_iff
          split: sum.splits exn.splits)
    moreover have "proposals c1 = proposals (core db)"
      using claim_standing_frame [OF created(2)] by simp
    ultimately have "lifecycle_step x au (core db) (core db5)"
      unfolding created(5) using created(2,4) owner
      by (intro Create [where v = v and t = t]) (simp_all add: created(1))
    moreover have "lifecycle x au (core db5) (core db')"
      by (rule apply_standing_commits [OF created(6)])
        (simp_all add: created(1,5) core_simps)
    ultimately show ?thesis by (rule converse_rtranclp_into_rtranclp)
  qed simp
qed

section \<open>Every request\<close>

lemma core_withdrawal:
  "core (snd (record_controller_withdrawal w db)) = snd (record_controller_withdrawal w (core db))"
  by (auto simp: record_controller_withdrawal_def core_simps core_tables split: option.splits)

lemma store_standing_core:
  "store_commissioning_standing s db = Inr (b, db') \<Longrightarrow>
   core db' = core db \<or> core db' = (core db)\<lparr>standings := standings (core db) @ [s]\<rparr>"
  by (auto simp: store_commissioning_standing_def core_simps core_tables
      split: option.splits if_splits)

lemma lifecycle_standing: "lifecycle x au c (c\<lparr>standings := standings c @ [s]\<rparr>)"
  by (rule r_into_rtranclp, rule lifecycle_step.Record_standing)

lemma outbox_core:
  "mark_published i t db = Inr db' \<Longrightarrow> core db' = core db"
  "core (record_publish_failure i e db) = core db"
  by (auto simp: mark_published_def record_publish_failure_def core_simps
      split: option.splits if_splits)

definition core_moves :: "external \<Rightarrow> authority \<Rightarrow> hub_db \<Rightarrow> hub_db \<Rightarrow> bool" where
  "core_moves x au db db' = (keys_ok (core db) \<longrightarrow> lifecycle x au (core db) (core db'))"

lemma tx_core_moves: "tx_commits x au f \<Longrightarrow> f db = Inr (v, db') \<Longrightarrow> core_moves x au db db'"
  by (simp add: tx_commits_def core_moves_def)

interpretation core_run: transactional x au "core_moves x au" for x au
proof unfold_locales
  fix a b c assume "core_moves x au a b" "core_moves x au b c"
  then show "core_moves x au a c"
    unfolding core_moves_def by (meson lifecycle_keys rtranclp_trans)
next
  fix db w
  have "lifecycle_step x au (core db) (core (snd (record_controller_withdrawal w db)))"
    unfolding core_withdrawal by (rule lifecycle_step.Withdraw)
  then show "core_moves x au db (snd (record_controller_withdrawal w db))"
    unfolding core_moves_def by (intro impI r_into_rtranclp)
next
  fix s db b db' assume "store_commissioning_standing s db = Inr (b, db')"
  then show "core_moves x au db db'"
    by (auto simp: core_moves_def lifecycle_standing dest!: store_standing_core)
qed (auto simp: core_moves_def outbox_core dest: outbox_core(1)
    intro: tx_core_moves [unfolded core_moves_def, THEN mp] expire_due_commits create_commits cancel_commits
      decide_commits collect_commits ack_commits revoke_commits)

lemma execute_commits:
  assumes "keys_ok (core db)"
  shows "lifecycle x au (core db) (core (execute x au pj rq db))"
  using core_run.execute_related assms by (simp add: core_moves_def)

lemma keys_empty: "keys_ok (core empty_db)"
  by (simp add: keys_defs empty_db_def core_simps)

text \<open>Any predicate of cores that holds initially and under every step holds of every run.\<close>

lemma run_lifecycle: "lifecycle x au (core empty_db) (core (run x au pj rs))"
proof (induction rs rule: rev_induct)
  case (snoc rq rs)
  have "keys_ok (core (run x au pj rs))" by (rule lifecycle_keys [OF snoc keys_empty])
  from execute_commits [OF this] snoc show ?case
    by (auto simp: run_def intro: rtranclp_trans)
qed (simp add: run_def)

lemma run_invariant:
  assumes "P (core empty_db)"
    and "\<And>c c'. lifecycle_step x au c c' \<Longrightarrow> keys_ok c \<Longrightarrow> P c \<Longrightarrow> P c'"
  shows "P (core (run x au pj rs))"
proof -
  have "keys_ok c \<and> P c" if "lifecycle x au (core empty_db) c" for c
    using that
    by (induction rule: rtranclp_induct) (auto intro: assms step_keys keys_empty)
  with run_lifecycle show ?thesis by blast
qed

end
