(* ===== verification/Admission_Invariants.thy ===== *)
theory Admission_Invariants
  imports Admission_Commands
begin

text \<open>
  What holds of every database a run of the authority reaches: which content is immutable,
  which transitions rows make, and how Proposals, Decisions, Grants, acknowledgements,
  Claims and the device directory agree with each other.
\<close>

section \<open>How rows evolve\<close>

definition same_proposal :: "proposal_row \<Rightarrow> proposal_row \<Rightarrow> bool" where
  "same_proposal p q = (q = p\<lparr>pr_state := pr_state q, pr_revision := pr_revision q,
                              pr_updated_at := pr_updated_at q\<rparr>)"

definition same_grant :: "grant_row \<Rightarrow> grant_row \<Rightarrow> bool" where
  "same_grant g h = (h = g\<lparr>gr_wire_envelope := gr_wire_envelope h,
                           gr_delivered_at := gr_delivered_at h, gr_revoked_at := gr_revoked_at h\<rparr>)"

lemma same_proposalD:
  assumes "same_proposal p q"
  shows "pr_enrollment_id q = pr_enrollment_id p" "pr_device_instance_id q = pr_device_instance_id p"
    "pr_hardware_identity_ref q = pr_hardware_identity_ref p"
    "pr_requested_owner_domain_id q = pr_requested_owner_domain_id p"
    "pr_operational_key_id q = pr_operational_key_id p"
    "pr_operational_public_key_spki q = pr_operational_public_key_spki p"
    "proposal_manifest_ref q = proposal_manifest_ref p" "pr_expires_at q = pr_expires_at p"
    "pr_handoff_key_id q = pr_handoff_key_id p"
    "pr_handoff_public_key_spki q = pr_handoff_public_key_spki p"
    "pr_hardware_evidence_digest q = pr_hardware_evidence_digest p"
proof -
  from assms obtain s n t where "q = p\<lparr>pr_state := s, pr_revision := n, pr_updated_at := t\<rparr>"
    unfolding same_proposal_def by blast
  then show "pr_enrollment_id q = pr_enrollment_id p" "pr_device_instance_id q = pr_device_instance_id p"
    "pr_hardware_identity_ref q = pr_hardware_identity_ref p"
    "pr_requested_owner_domain_id q = pr_requested_owner_domain_id p"
    "pr_operational_key_id q = pr_operational_key_id p"
    "pr_operational_public_key_spki q = pr_operational_public_key_spki p"
    "proposal_manifest_ref q = proposal_manifest_ref p" "pr_expires_at q = pr_expires_at p"
    "pr_handoff_key_id q = pr_handoff_key_id p"
    "pr_handoff_public_key_spki q = pr_handoff_public_key_spki p"
    "pr_hardware_evidence_digest q = pr_hardware_evidence_digest p"
    by (simp_all add: proposal_manifest_ref_def)
qed

lemma same_grantD:
  assumes "same_grant g h"
  shows "gr_grant_id h = gr_grant_id g" "gr_enrollment_id h = gr_enrollment_id g"
    "gr_decision_id h = gr_decision_id g" "gr_owner_domain_id h = gr_owner_domain_id g"
    "gr_hardware_identity_ref h = gr_hardware_identity_ref g"
    "gr_claim_generation h = gr_claim_generation g" "gr_device_ref h = gr_device_ref g"
    "gr_manifest_ref h = gr_manifest_ref g" "gr_expires_at h = gr_expires_at g"
    "gr_operational_key_id h = gr_operational_key_id g" "gr_grant h = gr_grant g"
proof -
  from assms obtain e d r where "h = g\<lparr>gr_wire_envelope := e, gr_delivered_at := d, gr_revoked_at := r\<rparr>"
    unfolding same_grant_def by blast
  then show "gr_grant_id h = gr_grant_id g" "gr_enrollment_id h = gr_enrollment_id g"
    "gr_decision_id h = gr_decision_id g" "gr_owner_domain_id h = gr_owner_domain_id g"
    "gr_hardware_identity_ref h = gr_hardware_identity_ref g"
    "gr_claim_generation h = gr_claim_generation g" "gr_device_ref h = gr_device_ref g"
    "gr_manifest_ref h = gr_manifest_ref g" "gr_expires_at h = gr_expires_at g"
    "gr_operational_key_id h = gr_operational_key_id g" "gr_grant h = gr_grant g"
    by simp_all
qed

definition proposal_moves :: "proposal_row \<Rightarrow> proposal_row \<Rightarrow> bool" where
  "proposal_moves p q = (q = p \<or> same_proposal p q \<and> pr_revision q = pr_revision p + 1
     \<and> pr_state q \<in> set (allowed_proposal_transitions (pr_state p)))"

definition grant_moves :: "grant_row \<Rightarrow> grant_row \<Rightarrow> bool" where
  "grant_moves g h = (same_grant g h \<and> (gr_revoked_at g \<noteq> None \<longrightarrow> gr_revoked_at h \<noteq> None)
     \<and> (gr_wire_envelope g \<noteq> None \<longrightarrow> gr_wire_envelope h = gr_wire_envelope g
          \<and> gr_delivered_at h = gr_delivered_at g))"

lemma same_proposal_refl [simp]: "same_proposal p p"
  by (simp add: same_proposal_def)

lemma same_grant_refl [simp]: "same_grant g g"
  by (simp add: same_grant_def)

lemma moves_refl [simp]: "proposal_moves p p" "grant_moves g g"
  by (simp_all add: proposal_moves_def grant_moves_def)

lemma same_proposal_advance [simp]: "same_proposal p (advance s t p)"
  by (simp add: same_proposal_def advance_def)

lemma proposal_moves_same: "proposal_moves p q \<Longrightarrow> same_proposal p q"
  by (auto simp: proposal_moves_def)

lemma grant_moves_same: "grant_moves g h \<Longrightarrow> same_grant g h"
  by (simp add: grant_moves_def)

lemma grant_moves_revoke [simp]: "grant_moves g (revoke_grant t g)"
  by (simp add: grant_moves_def same_grant_def revoke_grant_def)

section \<open>What the Grant table becomes\<close>

lemma tupd_grant_by_enrollment:
  "grant_keys c \<Longrightarrow> g \<in> set (grants c) \<Longrightarrow>
   tupd gr_grant_id (gr_grant_id g) f (grants c)
     = map (\<lambda>r. if gr_enrollment_id r = gr_enrollment_id g then f r else r) (grants c)"
  by (auto simp: tupd_def grant_keys_def dest: distinct_key_eq [of gr_grant_id]
      distinct_key_eq [of gr_enrollment_id])

lemma tupd_grant_by_decision:
  "grant_keys c \<Longrightarrow> g \<in> set (grants c) \<Longrightarrow>
   tupd gr_grant_id (gr_grant_id g) f (grants c)
     = map (\<lambda>r. if gr_decision_id r = gr_decision_id g then f r else r) (grants c)"
  by (auto simp: tupd_def grant_keys_def dest: distinct_key_eq [of gr_grant_id]
      distinct_key_eq [of gr_decision_id])

lemma expire_effect_grants:
  assumes "grant_keys c"
  shows "grants (expire_effect t e c) = map (\<lambda>g. if gr_enrollment_id g = e \<and> gr_revoked_at g = None
           then revoke_grant t g else g) (grants c)"
proof (cases "get_grant_for_enrollment c e")
  case None
  then have "\<forall>g \<in> set (grants c). gr_enrollment_id g \<noteq> e"
    by (auto simp: get_grant_for_enrollment_def tget_None_iff image_iff)
  with None show ?thesis by (auto simp: expire_effect_def intro: map_idI [symmetric])
next
  case (Some g)
  then have g: "g \<in> set (grants c)" "gr_enrollment_id g = e"
    by (auto simp: get_grant_for_enrollment_def dest: tget_SomeD)
  have u: "r = g" if "r \<in> set (grants c)" "gr_enrollment_id r = e" for r
    using assms g that by (auto simp: grant_keys_def dest: distinct_key_eq [of gr_enrollment_id])
  have "grants (expire_effect t e c) = (if gr_revoked_at g = None
      then map (\<lambda>r. if gr_enrollment_id r = e then revoke_grant t r else r) (grants c) else grants c)"
    using assms g Some
    by (simp add: expire_effect_def Let_def tupd_grant_by_enrollment)
  also have "\<dots> = map (\<lambda>g. if gr_enrollment_id g = e \<and> gr_revoked_at g = None
           then revoke_grant t g else g) (grants c)"
    using u by (auto intro!: map_cong map_idI [symmetric])
  finally show ?thesis .
qed

lemma expire_effect_fields [simp]:
  "proposals (expire_effect t e c) = tupd pr_enrollment_id e (advance Expired t) (proposals c)"
  "decisions (expire_effect t e c) = decisions c" "grant_acks (expire_effect t e c) = grant_acks c"
  "claims (expire_effect t e c) = claims c" "devices (expire_effect t e c) = devices c"
  "base_identities (expire_effect t e c) = base_identities c"
  "vouchers (expire_effect t e c) = vouchers c"
  by (simp_all add: expire_effect_def Let_def split: option.splits)

lemma deliver_effect_fields [simp]:
  "proposals (deliver_effect t env p g c)
     = tupd pr_enrollment_id (pr_enrollment_id p) (advance Grant_delivered t) (proposals c)"
  "decisions (deliver_effect t env p g c) = decisions c"
  "grant_acks (deliver_effect t env p g c) = grant_acks c"
  "claims (deliver_effect t env p g c) = claims c" "devices (deliver_effect t env p g c) = devices c"
  "base_identities (deliver_effect t env p g c) = base_identities c"
  "vouchers (deliver_effect t env p g c) = vouchers c"
  by (simp_all add: deliver_effect_def)

definition sealed :: "wire_envelope \<Rightarrow> instant \<Rightarrow> grant_row \<Rightarrow> grant_row" where
  "sealed env t g = g\<lparr>gr_wire_envelope := Some env, gr_delivered_at := Some t\<rparr>"

lemma deliver_effect_grants:
  "grant_keys c \<Longrightarrow> g \<in> set (grants c) \<Longrightarrow> grants (deliver_effect t env p g c)
     = map (\<lambda>r. if gr_enrollment_id r = gr_enrollment_id g then sealed env t r else r) (grants c)"
  by (simp add: deliver_effect_def tupd_grant_by_enrollment sealed_def)

lemma revoke_standing_fields [simp]:
  "proposals (revoke_standing_claim t r c) = proposals c"
  "decisions (revoke_standing_claim t r c) = decisions c"
  "grant_acks (revoke_standing_claim t r c) = grant_acks c"
  "devices (revoke_standing_claim t r c) = devices c"
  "base_identities (revoke_standing_claim t r c) = base_identities c"
  "vouchers (revoke_standing_claim t r c) = vouchers c"
  "claims (revoke_standing_claim t r c) = tupd cl_device_instance_id (cl_device_instance_id r)
     (\<lambda>r. r\<lparr>cl_state := Revoked, cl_revision := cl_revision r + 1,
            cl_updated_at := t, cl_revoked_at := Some t\<rparr>) (claims c)"
  by (simp_all add: revoke_standing_claim_def Let_def update_claim_def split: option.splits)

lemma revoke_standing_grants:
  assumes "grant_keys c"
  shows "grants (revoke_standing_claim t r c)
     = map (\<lambda>g. if gr_decision_id g = cl_approval_decision_id r then revoke_grant t g else g) (grants c)"
proof (cases "get_grant_for_decision c (cl_approval_decision_id r)")
  case None
  then have "\<forall>g \<in> set (grants c). gr_decision_id g \<noteq> cl_approval_decision_id r"
    by (auto simp: get_grant_for_decision_def tget_None_iff image_iff)
  with None show ?thesis
    by (auto simp: revoke_standing_claim_def Let_def update_claim_def get_grant_for_decision_def
        intro: map_idI [symmetric])
next
  case (Some g)
  then have "g \<in> set (grants c)" "gr_decision_id g = cl_approval_decision_id r"
    by (auto simp: get_grant_for_decision_def dest: tget_SomeD)
  with assms Some show ?thesis
    by (simp add: revoke_standing_claim_def Let_def update_claim_def get_grant_for_decision_def
        tupd_grant_by_decision)
qed

lemma revoke_unclaimed_effect:
  assumes "revoke_unclaimed ref t g c = Inr c'" "grant_keys c" "g \<in> set (grants c)"
    and "distinct (map cl_device_instance_id (claims c))"
  obtains p d n where "get_proposal c (gr_enrollment_id g) = Some p"
    "Claim_revoked \<in> set (allowed_proposal_transitions (pr_state p))"
    "get_decision c (gr_decision_id g) = Some d"
    "proposals c' = tupd pr_enrollment_id (gr_enrollment_id g) (advance Claim_revoked t) (proposals c)"
    "grants c' = map (\<lambda>r. if gr_enrollment_id r = gr_enrollment_id g then revoke_grant t r else r) (grants c)"
    "decisions c' = decisions c" "grant_acks c' = grant_acks c" "devices c' = devices c"
    "base_identities c' = base_identities c" "vouchers c' = vouchers c"
    "set (claims c') = {k \<in> set (claims c). cl_device_instance_id k \<noteq> device_instance_id ref}
       \<union> {(claim_for ref (dc_target_business_owner_id d) g p Revoked None t (Some t))\<lparr>cl_revision := n\<rparr>}"
  using assms(1)
proof (rule revoke_unclaimedD)
  fix p d c1
  assume a: "get_proposal c (gr_enrollment_id g) = Some p"
    "Claim_revoked \<in> set (allowed_proposal_transitions (pr_state p))"
    "get_decision c (gr_decision_id g) = Some d"
    and c1: "c1 = update_grant (gr_grant_id g) (revoke_grant t)
            (set_proposal_state (gr_enrollment_id g) Claim_revoked t c)"
    and c': "c' = snd (upsert_claim (claim_for ref (dc_target_business_owner_id d) g p Revoked None t
            (Some t)) c1)"
  have k: "distinct (map cl_device_instance_id (claims c1))" using assms(4) by (simp add: c1)
  show thesis
    by (rule that [OF a], unfold c')
      (use assms(2,3) upsert_claim_set(1) [OF k] in
        \<open>simp_all add: c1 tupd_grant_by_enrollment claim_for_def\<close>)
qed

section \<open>What a step does to Proposals, Decisions and Grants\<close>

lemma advance_moves:
  assumes "proposal_keys c" "p \<in> set (proposals c)" "s \<in> set (allowed_proposal_transitions (pr_state p))"
  shows "\<forall>q \<in> set (proposals c). proposal_moves q
           (if pr_enrollment_id q = pr_enrollment_id p then advance s t q else q)"
  using assms by (auto simp: proposal_moves_def proposal_keys_def dest: distinct_key_eq)

lemma get_proposalD:
  "get_proposal c e = Some p \<Longrightarrow> p \<in> set (proposals c) \<and> pr_enrollment_id p = e"
  by (auto simp: get_proposal_def dest: tget_SomeD)

lemma deciding_moves:
  "pr_state p = Pending_review \<Longrightarrow> decided_state v \<in> set (allowed_proposal_transitions (pr_state p))"
  by (cases v) (simp_all add: decided_state_def)

lemma withdrawal_fields [simp]:
  "proposals (snd (record_controller_withdrawal w c)) = proposals c"
  "decisions (snd (record_controller_withdrawal w c)) = decisions c"
  "grants (snd (record_controller_withdrawal w c)) = grants c"
  "grant_acks (snd (record_controller_withdrawal w c)) = grant_acks c"
  "claims (snd (record_controller_withdrawal w c)) = claims c"
  "devices (snd (record_controller_withdrawal w c)) = devices c"
  "base_identities (snd (record_controller_withdrawal w c)) = base_identities c"
  "vouchers (snd (record_controller_withdrawal w c)) = vouchers c"
  by (simp_all add: record_controller_withdrawal_def split: option.splits)

lemma decide_effect_fields [simp]:
  "proposals (decide_effect au p v who bus did gid t c)
     = tupd pr_enrollment_id (pr_enrollment_id p) (advance (decided_state v) t) (proposals c)"
  "decisions (decide_effect au p v who bus did gid t c)
     = decisions c @ [decision_row_for p v who (pr_requested_owner_domain_id p) bus
                        (proposal_manifest_ref p) did t]"
  "grants (decide_effect au p v who bus did gid t c)
     = grants c @ minted au p v (pr_requested_owner_domain_id p) (proposal_manifest_ref p) did gid t c"
  "grant_acks (decide_effect au p v who bus did gid t c) = grant_acks c"
  "claims (decide_effect au p v who bus did gid t c) = claims c"
  "devices (decide_effect au p v who bus did gid t c) = devices c"
  "base_identities (decide_effect au p v who bus did gid t c) = base_identities c"
  "vouchers (decide_effect au p v who bus did gid t c) = vouchers c"
  by (simp_all add: decide_effect_def Let_def)

lemma step_proposals:
  assumes "lifecycle_step x au c c'" "keys_ok c"
  obtains f new where "proposals c' = map f (proposals c) @ new"
    "\<forall>p \<in> set (proposals c). proposal_moves p (f p)"
    "\<forall>p \<in> set new. pr_state p = Pending_review \<and> pr_revision p = 1"
proof -
  note result = that
  have k: "proposal_keys c" "claim_keys c" "grant_keys c"
    and k': "distinct (map cl_device_instance_id (claims c))"
    using assms(2) by (simp_all add: keys_ok_def claim_keys_def)
  have advanced: thesis if "p \<in> set (proposals c)" "s \<in> set (allowed_proposal_transitions (pr_state p))"
      "proposals c' = tupd pr_enrollment_id (pr_enrollment_id p) (advance s t) (proposals c)" for p s t
    using advance_moves [OF k(1) that(1,2), of t] that(3) by (intro result) (auto simp: tupd_def)
  have kept: thesis if "proposals c' = proposals c"
    using that by (intro result [of "\<lambda>p. p" "[]"]) auto
  from assms(1) show thesis
  proof cases
    case (Create v p t c1)
    with claim_standing_frame [OF Create(2)] show thesis
      by (intro that [of "\<lambda>p. p" "[p]"]) auto
  next
    case (Decide p who did v gid business t)
    show thesis
      by (rule advanced [OF Decide(2) deciding_moves [OF Decide(3)]]) (simp add: Decide(1))
  next
    case (Cancel p t)
    then show thesis by (intro advanced [of p Canceled t]) auto
  next
    case (Expire p t)
    then show thesis by (intro advanced [of p Expired t]) auto
  next
    case (Deliver p g t env)
    then show thesis by (intro advanced [of p Grant_delivered t]) auto
  next
    case (Acknowledge p g t proof_text w)
    from activate_effect [OF Acknowledge(8) k(2)] obtain n where
      "proposals c' = tupd pr_enrollment_id (pr_enrollment_id p) (advance Grant_acknowledged t) (proposals c)"
      by metis
    with Acknowledge show thesis by (intro advanced [of p Grant_acknowledged t]) auto
  next
    case (Revoke_unclaimed ref g t c1)
    from revoke_unclaimed_effect [OF Revoke_unclaimed(5) k(3) Revoke_unclaimed(3) k'] obtain p where
      "get_proposal c (gr_enrollment_id g) = Some p"
      "Claim_revoked \<in> set (allowed_proposal_transitions (pr_state p))"
      "proposals c1 = tupd pr_enrollment_id (gr_enrollment_id g) (advance Claim_revoked t) (proposals c)"
      by metis
    with Revoke_unclaimed(1) show thesis
      by (intro advanced [of p Claim_revoked t]) (auto dest: get_proposalD)
  qed (auto intro: kept)
qed

lemma step_decisions:
  assumes "lifecycle_step x au c c'" "keys_ok c"
  obtains new where "decisions c' = decisions c @ new"
proof -
  have k: "claim_keys c" "grant_keys c" "distinct (map cl_device_instance_id (claims c))"
    using assms(2) by (simp_all add: keys_ok_def claim_keys_def)
  from assms(1) show thesis
  proof cases
    case (Create v p t c1)
    with claim_standing_frame [OF Create(2)] show thesis by (intro that [of "[]"]) auto
  next
    case (Acknowledge p g t proof_text w)
    from activate_effect [OF Acknowledge(8) k(1)] have "decisions c' = decisions c" by metis
    then show thesis by (intro that [of "[]"]) auto
  next
    case (Revoke_unclaimed ref g t c1)
    from revoke_unclaimed_effect [OF Revoke_unclaimed(5) k(2) Revoke_unclaimed(3) k(3)]
    have "decisions c1 = decisions c" by metis
    with Revoke_unclaimed(1) show thesis by (intro that [of "[]"]) auto
  qed (auto intro: that)
qed

lemma step_grants:
  assumes "lifecycle_step x au c c'" "keys_ok c"
  obtains (mapped) h where "grants c' = map h (grants c)" "\<forall>g \<in> set (grants c). grant_moves g (h g)"
  | (minted) p who bus did gid t where "c' = decide_effect au p Approve who bus did gid t c"
    "p \<in> set (proposals c)"
proof -
  have k: "claim_keys c" "grant_keys c" "distinct (map cl_device_instance_id (claims c))"
    using assms(2) by (simp_all add: keys_ok_def claim_keys_def)
  have kept: thesis if "grants c' = grants c"
    using that by (intro mapped [of "\<lambda>g. g"]) auto
  from assms(1) show thesis
  proof cases
    case (Create v p t c1)
    with claim_standing_frame [OF Create(2)] show thesis by (intro kept) auto
  next
    case (Decide p who did v gid business t)
    show thesis
    proof (cases v)
      case Approve
      with Decide(1,2) show thesis by (intro minted) auto
    next
      case Reject
      with Decide show thesis by (intro kept) (auto simp: minted_def)
    qed
  next
    case (Expire p t)
    show thesis
      by (rule mapped [OF expire_effect_grants [OF k(2), of t "pr_enrollment_id p", folded Expire(1)]]) auto
  next
    case (Deliver p g t env)
    have "grant_moves r (if gr_enrollment_id r = gr_enrollment_id g then sealed env t r else r)"
      if "r \<in> set (grants c)" for r
    proof (cases "gr_enrollment_id r = gr_enrollment_id g")
      case True
      with Deliver(3) k(2) that have "r = g"
        unfolding grant_keys_def by (blast dest: distinct_key_eq [of gr_enrollment_id])
      with Deliver(7) show ?thesis by (simp add: grant_moves_def same_grant_def sealed_def)
    qed simp
    then show thesis
      by (intro mapped [OF deliver_effect_grants [OF k(2) Deliver(3), of t env p, folded Deliver(1)]]) auto
  next
    case (Acknowledge p g t proof_text w)
    from activate_effect [OF Acknowledge(8) k(1)] have "grants c' = grants c" by metis
    then show thesis by (rule kept)
  next
    case (Revoke_unclaimed ref g t c1)
    from revoke_unclaimed_effect [OF Revoke_unclaimed(5) k(2) Revoke_unclaimed(3) k(3)]
    have "grants c1 = map (\<lambda>r. if gr_enrollment_id r = gr_enrollment_id g then revoke_grant t r else r) (grants c)"
      by metis
    then have "grants c' = map (\<lambda>r. if gr_enrollment_id r = gr_enrollment_id g then revoke_grant t r else r) (grants c)"
      using Revoke_unclaimed(1) by simp
    then show thesis by (rule mapped) auto
  next
    case (Revoke_standing r ref t)
    have "grants c' = grants (revoke_standing_claim t r c)" using Revoke_standing(1) by simp
    also note revoke_standing_grants [OF k(2)]
    finally show thesis by (rule mapped) auto
  qed (auto intro: kept)
qed

end
