(* ===== verification/Admission_Agreement.thy ===== *)
theory Admission_Agreement
  imports Admission_Invariants
begin

text \<open>
  The agreement between the tables of Admission, as one invariant of the lifecycle
  relation: where every Grant comes from, that no lineage uses a generation twice, which
  Decision, Grant and acknowledgement a Proposal has in each state, what an Active or
  Revoked Claim rests on, and that the device directory says what the Claims say.
\<close>

section \<open>The invariant\<close>

definition grant_origin :: "authority \<Rightarrow> hub_db \<Rightarrow> grant_row \<Rightarrow> bool" where
  "grant_origin au c g =
     ((\<exists>p \<in> set (proposals c). pr_enrollment_id p = gr_enrollment_id g
         \<and> gr_hardware_identity_ref g = pr_hardware_identity_ref p
         \<and> gr_owner_domain_id g = pr_requested_owner_domain_id p
         \<and> gr_operational_key_id g = pr_operational_key_id p
         \<and> gr_manifest_ref g = proposal_manifest_ref p
         \<and> gr_device_ref g = grant_ref au p (gr_owner_domain_id g) (gr_claim_generation g))
      \<and> (\<exists>d \<in> set (decisions c). dc_decision_id d = gr_decision_id g
         \<and> dc_enrollment_id d = gr_enrollment_id g \<and> dc_decision d = Approve
         \<and> dc_target_owner_domain_id d = gr_owner_domain_id g)
      \<and> 1 \<le> gr_claim_generation g)"

definition grants_ok :: "authority \<Rightarrow> hub_db \<Rightarrow> bool" where
  "grants_ok au c = (\<forall>g \<in> set (grants c). grant_origin au c g)"

definition lineage_ok :: "hub_db \<Rightarrow> bool" where
  "lineage_ok c = (\<forall>g \<in> set (grants c). \<forall>h \<in> set (grants c).
     gr_owner_domain_id g = gr_owner_domain_id h
     \<and> gr_hardware_identity_ref g = gr_hardware_identity_ref h
     \<and> gr_claim_generation g = gr_claim_generation h \<longrightarrow> g = h)"

definition decision_origin :: "hub_db \<Rightarrow> decision_row \<Rightarrow> bool" where
  "decision_origin c d =
     (''device.claim.approve'' \<in> set (granted_scopes (dc_actor d))
      \<and> actor_owner_domain_id (dc_actor d) = dc_target_owner_domain_id d
      \<and> (\<exists>p \<in> set (proposals c). pr_enrollment_id p = dc_enrollment_id d
           \<and> pr_requested_owner_domain_id p = dc_target_owner_domain_id d
           \<and> proposal_manifest_ref p = dc_reviewed_manifest_ref d))"

definition decisions_ok :: "hub_db \<Rightarrow> bool" where
  "decisions_ok c = (\<forall>d \<in> set (decisions c). decision_origin c d)"

definition acks_ok :: "hub_db \<Rightarrow> bool" where
  "acks_ok c = (\<forall>a \<in> set (grant_acks c). \<exists>g \<in> set (grants c). gr_grant_id g = ga_grant_id a
     \<and> gr_enrollment_id g = ga_enrollment_id a \<and> gr_device_ref g = ga_device_ref a)"

fun approved :: "decision_row option \<Rightarrow> grant_row option \<Rightarrow> (grant_row \<Rightarrow> bool) \<Rightarrow> bool" where
  "approved (Some d) (Some g) P
     = (dc_decision d = Approve \<and> gr_decision_id g = dc_decision_id d \<and> P g)"
| "approved _ _ P = False"

text \<open>The Decision, the Grant and the acknowledgement a Proposal has in each state.\<close>

fun phase_ok ::
  "proposal_state \<Rightarrow> decision_row option \<Rightarrow> grant_row option \<Rightarrow> grant_ack_row option \<Rightarrow> bool" where
  "phase_ok Pending_review d g a = (d = None \<and> g = None \<and> a = None)"
| "phase_ok Canceled d g a = (d = None \<and> g = None \<and> a = None)"
| "phase_ok Rejected d g a = (map_option dc_decision d = Some Reject \<and> g = None \<and> a = None)"
| "phase_ok Approved_awaiting_handoff d g a =
     (approved d g (\<lambda>g. gr_revoked_at g = None \<and> gr_wire_envelope g = None \<and> gr_delivered_at g = None)
      \<and> a = None)"
| "phase_ok Grant_delivered d g a =
     (approved d g (\<lambda>g. gr_revoked_at g = None \<and> gr_wire_envelope g \<noteq> None \<and> gr_delivered_at g \<noteq> None)
      \<and> a = None)"
| "phase_ok Grant_acknowledged d g a =
     approved d g (\<lambda>g. gr_wire_envelope g \<noteq> None \<and> gr_delivered_at g \<noteq> None
        \<and> map_option ga_grant_id a = Some (gr_grant_id g))"
| "phase_ok Expired d g a =
     (a = None \<and> (d = None \<and> g = None \<or> approved d g (\<lambda>g. gr_revoked_at g \<noteq> None)))"
| "phase_ok Claim_revoked d g a = (a = None \<and> approved d g (\<lambda>g. gr_revoked_at g \<noteq> None))"

definition phases_ok :: "hub_db \<Rightarrow> bool" where
  "phases_ok c = (\<forall>p \<in> set (proposals c). phase_ok (pr_state p)
     (get_decision_for_enrollment c (pr_enrollment_id p))
     (get_grant_for_enrollment c (pr_enrollment_id p))
     (get_ack_for_enrollment c (pr_enrollment_id p)))"

definition claim_of :: "hub_db \<Rightarrow> claim_row \<Rightarrow> grant_row \<Rightarrow> bool" where
  "claim_of c r g =
     (claim_ref r = gr_device_ref g \<and> cl_hardware_identity_ref r = gr_hardware_identity_ref g
      \<and> cl_approval_decision_id r = gr_decision_id g \<and> cl_manifest_ref r = gr_manifest_ref g
      \<and> (\<exists>d \<in> set (decisions c). dc_decision_id d = gr_decision_id g
           \<and> dc_target_business_owner_id d = cl_business_owner_id r)
      \<and> (case cl_state r of
           Active \<Rightarrow> gr_revoked_at g = None
             \<and> (\<exists>a \<in> set (grant_acks c). ga_grant_id a = gr_grant_id g)
         | Suspended \<Rightarrow> False
         | Revoked \<Rightarrow> gr_revoked_at g \<noteq> None \<and> cl_revoked_at r \<noteq> None))"

definition claims_ok :: "hub_db \<Rightarrow> bool" where
  "claims_ok c = (\<forall>r \<in> set (claims c). \<exists>g \<in> set (grants c). claim_of c r g)"

definition lists_claim :: "device_row \<Rightarrow> claim_row \<Rightarrow> bool" where
  "lists_claim d r =
     (cl_device_instance_id r = dv_device_id d
      \<and> cl_owner_domain_generation r = dv_owner_domain_generation d
      \<and> cl_claim_generation r = dv_claim_generation d \<and> cl_trust_epoch r = dv_trust_epoch d
      \<and> dv_owner_id d = Some (cl_business_owner_id r)
      \<and> (dv_lifecycle_state d = Device_approved \<longleftrightarrow> cl_state r = Active))"

definition directory_ok :: "hub_db \<Rightarrow> bool" where
  "directory_ok c =
     ((\<forall>d \<in> set (devices c). \<exists>r \<in> set (claims c). lists_claim d r)
      \<and> (\<forall>r \<in> set (claims c). cl_state r = Active \<longrightarrow>
           (\<exists>d \<in> set (devices c). dv_device_id d = cl_device_instance_id r)))"

definition identity_ok :: "external \<Rightarrow> authority \<Rightarrow> hub_db \<Rightarrow> bool" where
  "identity_ok x au c =
     ((\<forall>b \<in> set (base_identities c).
         derive_hardware_identity_ref x (bi_device_base_id b) = Inr (bi_hardware_identity_ref b)
         \<and> bi_owner_domain_id b = au_owner_domain_id au)
      \<and> (\<forall>p \<in> set (proposals c).
         pr_requested_owner_domain_id p = au_owner_domain_id au
         \<and> key_id x (pr_operational_public_key_spki p) = Inr (pr_operational_key_id p)
         \<and> sdk_derive_device_instance_id x (pr_operational_public_key_spki p)
             = Some (pr_device_instance_id p)
         \<and> (\<exists>b \<in> set (base_identities c). bi_operational_key_id b = pr_operational_key_id p
              \<and> bi_hardware_identity_ref b = pr_hardware_identity_ref p)))"

definition admission_ok :: "external \<Rightarrow> authority \<Rightarrow> hub_db \<Rightarrow> bool" where
  "admission_ok x au c = (grants_ok au c \<and> lineage_ok c \<and> decisions_ok c \<and> acks_ok c
     \<and> phases_ok c \<and> claims_ok c \<and> directory_ok c \<and> identity_ok x au c)"

section \<open>What a step cannot take away\<close>

definition kept :: "hub_db \<Rightarrow> hub_db \<Rightarrow> bool" where
  "kept c c' = ((\<forall>p \<in> set (proposals c). \<exists>q \<in> set (proposals c'). same_proposal p q)
     \<and> (\<forall>g \<in> set (grants c). \<exists>h \<in> set (grants c'). grant_moves g h)
     \<and> set (decisions c) \<subseteq> set (decisions c'))"

lemma step_kept:
  assumes "lifecycle_step x au c c'" "keys_ok c"
  shows "kept c c'"
proof -
  obtain f new where "proposals c' = map f (proposals c) @ new"
    "\<forall>p \<in> set (proposals c). proposal_moves p (f p)"
    by (rule step_proposals [OF assms])
  moreover have "\<forall>g \<in> set (grants c). \<exists>h \<in> set (grants c'). grant_moves g h"
    by (rule step_grants [OF assms]) (auto intro: moves_refl)
  moreover obtain newd where "decisions c' = decisions c @ newd" by (rule step_decisions [OF assms])
  ultimately show ?thesis
    unfolding kept_def by (auto intro: proposal_moves_same)
qed

lemma origin_kept:
  assumes "grant_origin au c g" "kept c c'" "same_grant g h"
  shows "grant_origin au c' h"
proof -
  from assms(1) obtain p d where p: "p \<in> set (proposals c)" "pr_enrollment_id p = gr_enrollment_id g"
      "gr_hardware_identity_ref g = pr_hardware_identity_ref p"
      "gr_owner_domain_id g = pr_requested_owner_domain_id p"
      "gr_operational_key_id g = pr_operational_key_id p"
      "gr_manifest_ref g = proposal_manifest_ref p"
      "gr_device_ref g = grant_ref au p (gr_owner_domain_id g) (gr_claim_generation g)"
    and d: "d \<in> set (decisions c)" "dc_decision_id d = gr_decision_id g"
      "dc_enrollment_id d = gr_enrollment_id g" "dc_decision d = Approve"
      "dc_target_owner_domain_id d = gr_owner_domain_id g" and "1 \<le> gr_claim_generation g"
    unfolding grant_origin_def by blast
  moreover from p(1) assms(2) obtain q where "q \<in> set (proposals c')" "same_proposal p q"
    unfolding kept_def by blast
  moreover from d(1) assms(2) have "d \<in> set (decisions c')" unfolding kept_def by blast
  ultimately show ?thesis
    unfolding grant_origin_def
    by (auto simp: same_grantD [OF assms(3)] same_proposalD grant_ref_def
        intro!: bexI [of _ q] bexI [of _ d])
qed

lemma minted_fields:
  assumes "g \<in> set (minted au p v od mref did gid t c)"
  shows "v = Approve" "gr_grant_id g = gid" "gr_enrollment_id g = pr_enrollment_id p"
    "gr_decision_id g = did" "gr_owner_domain_id g = od"
    "gr_hardware_identity_ref g = pr_hardware_identity_ref p"
    "gr_operational_key_id g = pr_operational_key_id p" "gr_manifest_ref g = mref"
    "gr_claim_generation g = max_claim_generation c od (pr_hardware_identity_ref p) + 1"
    "gr_device_ref g = grant_ref au p od (gr_claim_generation g)"
    "gr_wire_envelope g = None" "gr_delivered_at g = None" "gr_revoked_at g = None"
  using assms
  by (auto simp: minted_def grant_row_for_def Let_def grant_ref_def split: verdict.splits)

section \<open>Grants and Decisions\<close>

lemma max_generation_nonneg: "grants_ok au c \<Longrightarrow> 0 \<le> max_claim_generation c od hw"
  by (fastforce simp: max_claim_generation_def grants_ok_def grant_origin_def intro!: sql_max_0)

lemma max_generation_ge:
  "g \<in> set (grants c) \<Longrightarrow> gr_claim_generation g
     \<le> max_claim_generation c (gr_owner_domain_id g) (gr_hardware_identity_ref g)"
  unfolding max_claim_generation_def by (rule sql_max_ge) auto

lemma minted_origin:
  assumes "grants_ok au c" "p \<in> set (proposals c)"
    and "g \<in> set (minted au p v (pr_requested_owner_domain_id p) (proposal_manifest_ref p) did gid t c)"
  shows "grant_origin au (decide_effect au p v who bus did gid t c) g"
proof -
  let ?c = "decide_effect au p v who bus did gid t c"
  let ?p = "advance (decided_state v) t p"
  let ?d = "decision_row_for p v who (pr_requested_owner_domain_id p) bus (proposal_manifest_ref p) did t"
  note m = minted_fields [OF assms(3)]
  have "?p \<in> set (proposals ?c)" using assms(2) by (auto simp: set_tupd)
  then have "\<exists>q \<in> set (proposals ?c). pr_enrollment_id q = gr_enrollment_id g
         \<and> gr_hardware_identity_ref g = pr_hardware_identity_ref q
         \<and> gr_owner_domain_id g = pr_requested_owner_domain_id q
         \<and> gr_operational_key_id g = pr_operational_key_id q
         \<and> gr_manifest_ref g = proposal_manifest_ref q
         \<and> gr_device_ref g = grant_ref au q (gr_owner_domain_id g) (gr_claim_generation g)"
    by (rule rev_bexI) (use m in \<open>simp add: proposal_manifest_ref_def grant_ref_def\<close>)
  moreover have "?d \<in> set (decisions ?c)" by simp
  then have "\<exists>d \<in> set (decisions ?c). dc_decision_id d = gr_decision_id g
         \<and> dc_enrollment_id d = gr_enrollment_id g \<and> dc_decision d = Approve
         \<and> dc_target_owner_domain_id d = gr_owner_domain_id g"
    by (rule rev_bexI) (use m in \<open>simp add: decision_row_for_def\<close>)
  moreover have "1 \<le> gr_claim_generation g"
    using max_generation_nonneg [OF assms(1)] by (simp add: m(9))
  ultimately show ?thesis unfolding grant_origin_def by blast
qed

lemma grants_ok_step:
  assumes s: "lifecycle_step x au c c'" and k: "keys_ok c" and ok: "grants_ok au c"
  shows "grants_ok au c'"
  using s k
proof (cases rule: step_grants)
  case (mapped h)
  with ok step_kept [OF s k] show ?thesis
    by (auto simp: grants_ok_def intro: origin_kept grant_moves_same)
next
  case (minted p who bus did gid t)
  have "grant_origin au c' r" if "r \<in> set (grants c)" for r
    using that ok step_kept [OF s k] by (auto simp: grants_ok_def intro: origin_kept)
  with minted_origin [OF ok minted(2)] show ?thesis
    unfolding grants_ok_def minted(1) by auto
qed

lemma lineage_ok_step:
  assumes s: "lifecycle_step x au c c'" and k: "keys_ok c" and ok: "lineage_ok c"
  shows "lineage_ok c'"
  using s k
proof (cases rule: step_grants)
  case (mapped h)
  then have "same_grant g (h g)" if "g \<in> set (grants c)" for g
    using that by (simp add: grant_moves_same)
  from same_grantD [OF this] ok mapped(1) show ?thesis
    unfolding lineage_ok_def by auto
next
  case (minted p who bus did gid t)
  have "gr_claim_generation g \<noteq> gr_claim_generation h"
    if "g \<in> set (grants c)" "h \<in> set (minted au p Approve (pr_requested_owner_domain_id p)
         (proposal_manifest_ref p) did gid t c)"
      "gr_owner_domain_id g = gr_owner_domain_id h"
      "gr_hardware_identity_ref g = gr_hardware_identity_ref h" for g h
    using max_generation_ge [OF that(1)] minted_fields [OF that(2)] that(3,4) by auto
  moreover have "g = h" if "g \<in> set (minted au p Approve od mref did gid t c)"
      "h \<in> set (minted au p Approve od mref did gid t c)" for g h od mref
    using that by (simp add: minted_def)
  ultimately show ?thesis
    using ok unfolding lineage_ok_def minted(1) decide_effect_fields set_append
    by (metis UnE)
qed

lemma decisions_ok_step:
  assumes s: "lifecycle_step x au c c'" and k: "keys_ok c" and ok: "decisions_ok c"
  shows "decisions_ok c'"
proof -
  have old: "decision_origin c' d" if d: "d \<in> set (decisions c)" for d
  proof -
    from d ok have o1: "decision_origin c d" by (simp add: decisions_ok_def)
    then obtain p where p: "p \<in> set (proposals c)" "pr_enrollment_id p = dc_enrollment_id d"
        "pr_requested_owner_domain_id p = dc_target_owner_domain_id d"
        "proposal_manifest_ref p = dc_reviewed_manifest_ref d"
      unfolding decision_origin_def by blast
    with step_kept [OF s k] obtain q where q: "q \<in> set (proposals c')" "same_proposal p q"
      unfolding kept_def by blast
    have "\<exists>p \<in> set (proposals c'). pr_enrollment_id p = dc_enrollment_id d
           \<and> pr_requested_owner_domain_id p = dc_target_owner_domain_id d
           \<and> proposal_manifest_ref p = dc_reviewed_manifest_ref d"
      by (rule bexI [OF _ q(1)]) (simp add: same_proposalD [OF q(2)] p(2-4))
    with o1 show ?thesis unfolding decision_origin_def by blast
  qed
  have unchanged: "decisions_ok c'" if "decisions c' = decisions c"
    using old that by (simp add: decisions_ok_def)
  from s show ?thesis
  proof cases
    case (Decide p who did v gid business t)
    let ?d = "decision_row_for p v who (pr_requested_owner_domain_id p) business (proposal_manifest_ref p) did t"
    let ?p = "advance (decided_state v) t p"
    have "?p \<in> set (proposals c')" using Decide(1,2) by (auto simp: set_tupd)
    then have "\<exists>q \<in> set (proposals c'). pr_enrollment_id q = dc_enrollment_id ?d
          \<and> pr_requested_owner_domain_id q = dc_target_owner_domain_id ?d
          \<and> proposal_manifest_ref q = dc_reviewed_manifest_ref ?d"
      by (rule rev_bexI) (simp add: decision_row_for_def proposal_manifest_ref_def)
    with Decide(4,5) have "decision_origin c' ?d"
      by (simp add: decision_origin_def decision_row_for_def)
    moreover have "set (decisions c') = insert ?d (set (decisions c))" using Decide(1) by simp
    ultimately show ?thesis using old by (simp add: decisions_ok_def)
  next
    case (Create v p t c1)
    with claim_standing_frame [OF Create(2)] show ?thesis by (intro unchanged) simp
  next
    case (Acknowledge p g t proof_text w)
    from k have "claim_keys c" by (simp add: keys_ok_def)
    from activate_effect [OF Acknowledge(8) this] have "decisions c' = decisions c" by metis
    then show ?thesis by (rule unchanged)
  next
    case (Revoke_unclaimed ref g t c1)
    from k have "grant_keys c" "distinct (map cl_device_instance_id (claims c))"
      by (simp_all add: keys_ok_def claim_keys_def)
    from revoke_unclaimed_effect [OF Revoke_unclaimed(5) this(1) Revoke_unclaimed(3) this(2)]
    have "decisions c1 = decisions c" by metis
    then show ?thesis using Revoke_unclaimed(1) by (intro unchanged) simp
  qed (rule unchanged, simp)+
qed

section \<open>Acknowledgements\<close>

lemma acks_ok_step:
  assumes s: "lifecycle_step x au c c'" and k: "keys_ok c" and ok: "acks_ok c"
  shows "acks_ok c'"
proof -
  have moved: "\<exists>h \<in> set (grants c'). gr_grant_id h = ga_grant_id a
      \<and> gr_enrollment_id h = ga_enrollment_id a \<and> gr_device_ref h = ga_device_ref a"
    if "g \<in> set (grants c)" "gr_grant_id g = ga_grant_id a" "gr_enrollment_id g = ga_enrollment_id a"
      "gr_device_ref g = ga_device_ref a" for g a
  proof -
    from that(1) step_kept [OF s k] obtain h where h: "h \<in> set (grants c')" "grant_moves g h"
      unfolding kept_def by blast
    from same_grantD [OF grant_moves_same [OF h(2)]] that(2-4) show ?thesis
      by (intro bexI [OF _ h(1)]) simp
  qed
  have old: "\<exists>h \<in> set (grants c'). gr_grant_id h = ga_grant_id a
      \<and> gr_enrollment_id h = ga_enrollment_id a \<and> gr_device_ref h = ga_device_ref a"
    if "a \<in> set (grant_acks c)" for a
    using that ok moved unfolding acks_ok_def by blast
  have unchanged: "acks_ok c'" if "grant_acks c' = grant_acks c"
    using old that by (simp add: acks_ok_def)
  have keys: "claim_keys c" "grant_keys c" "distinct (map cl_device_instance_id (claims c))"
    using k by (simp_all add: keys_ok_def claim_keys_def)
  from s show ?thesis
  proof cases
    case (Create v p t c1)
    with claim_standing_frame [OF Create(2)] show ?thesis by (intro unchanged) simp
  next
    case (Acknowledge p g t proof_text w)
    obtain a where "grant_acks c' = grant_acks c @ [a]" "ga_grant_id a = gr_grant_id g"
      "ga_enrollment_id a = pr_enrollment_id p" "ga_device_ref a = gr_device_ref g"
      by (rule activate_effect [OF Acknowledge(8) keys(1)]) (rule that)
    with moved [OF Acknowledge(2), of a] Acknowledge(3) old show ?thesis
      by (simp add: acks_ok_def)
  next
    case (Revoke_unclaimed ref g t c1)
    from revoke_unclaimed_effect [OF Revoke_unclaimed(5) keys(2) Revoke_unclaimed(3) keys(3)]
    have "grant_acks c1 = grant_acks c" by metis
    then show ?thesis using Revoke_unclaimed(1) by (intro unchanged) simp
  qed (rule unchanged, simp)+
qed

section \<open>Phases\<close>

lemma ack_phase: "phase_ok s d g (Some a) \<Longrightarrow> s = Grant_acknowledged"
  by (cases s) auto

definition lookups :: "hub_db \<Rightarrow> string
    \<Rightarrow> decision_row option \<times> grant_row option \<times> grant_ack_row option" where
  "lookups c e = (get_decision_for_enrollment c e, get_grant_for_enrollment c e,
     get_ack_for_enrollment c e)"

definition in_phase :: "proposal_state
    \<Rightarrow> decision_row option \<times> grant_row option \<times> grant_ack_row option \<Rightarrow> bool" where
  "in_phase s w = (case w of (d, g, a) \<Rightarrow> phase_ok s d g a)"

lemma phases_ok_iff:
  "phases_ok c \<longleftrightarrow> (\<forall>p \<in> set (proposals c). in_phase (pr_state p) (lookups c (pr_enrollment_id p)))"
  by (simp add: phases_ok_def in_phase_def lookups_def)

lemma phases_advance:
  assumes "phases_ok c" "proposal_keys c" "p \<in> set (proposals c)"
    and "proposals c' = tupd pr_enrollment_id (pr_enrollment_id p) (advance s t) (proposals c)"
    and "\<And>e. e \<noteq> pr_enrollment_id p \<Longrightarrow> lookups c' e = lookups c e"
    and "in_phase s (lookups c' (pr_enrollment_id p))"
  shows "phases_ok c'"
  using assms(1,5,6) unfolding phases_ok_iff assms(4)
  by (auto elim!: in_set_tupdE)

lemma phases_same: "phases_ok c \<Longrightarrow> proposals c' = proposals c \<Longrightarrow> (\<And>e. lookups c' e = lookups c e)
    \<Longrightarrow> phases_ok c'"
  by (simp add: phases_ok_iff)

lemma lookups_same: "decisions c' = decisions c \<Longrightarrow> grants c' = grants c \<Longrightarrow>
    grant_acks c' = grant_acks c \<Longrightarrow> lookups c' e = lookups c e"
  by (simp add: lookups_def get_decision_for_enrollment_def get_grant_for_enrollment_def
      get_ack_for_enrollment_def)

lemma tget_map: "(\<And>r. key (h r) = key r) \<Longrightarrow> tget key k (map h t) = map_option h (tget key k t)"
  by (induction t) (auto simp: tget_Cons)

text \<open>A change confined to the Grant of one Enrollment.\<close>

lemma lookups_grant:
  assumes "grants c' = map (\<lambda>r. if gr_enrollment_id r = e \<and> P r then f r else r) (grants c)"
    and "\<And>r. gr_enrollment_id (f r) = gr_enrollment_id r"
    and "decisions c' = decisions c" "grant_acks c' = grant_acks c"
  shows "lookups c' i = (if i = e then
      (get_decision_for_enrollment c e,
       map_option (\<lambda>r. if P r then f r else r) (get_grant_for_enrollment c e),
       get_ack_for_enrollment c e) else lookups c i)"
proof -
  have "get_grant_for_enrollment c' i
      = map_option (\<lambda>r. if gr_enrollment_id r = e \<and> P r then f r else r) (get_grant_for_enrollment c i)"
    unfolding get_grant_for_enrollment_def assms(1) by (rule tget_map) (simp add: assms(2))
  moreover have "gr_enrollment_id r = i" if "get_grant_for_enrollment c i = Some r" for r
    using that by (auto simp: get_grant_for_enrollment_def dest: tget_SomeD)
  ultimately show ?thesis
    by (cases "get_grant_for_enrollment c i")
      (auto simp: lookups_def assms(3,4) get_decision_for_enrollment_def get_ack_for_enrollment_def)
qed

lemma fresh_lookups:
  assumes "decisions_ok c" "grants_ok au c" "acks_ok c" "\<forall>q \<in> set (proposals c). pr_enrollment_id q \<noteq> e"
  shows "lookups c e = (None, None, None)"
proof -
  have g: "gr_enrollment_id g \<noteq> e" if "g \<in> set (grants c)" for g
    using assms(2,4) that unfolding grants_ok_def grant_origin_def by metis
  moreover have "dc_enrollment_id d \<noteq> e" if "d \<in> set (decisions c)" for d
    using assms(1,4) that unfolding decisions_ok_def decision_origin_def by metis
  moreover have "ga_enrollment_id a \<noteq> e" if "a \<in> set (grant_acks c)" for a
    using assms(3) g that unfolding acks_ok_def by metis
  ultimately show ?thesis
    by (auto simp: lookups_def get_decision_for_enrollment_def get_grant_for_enrollment_def
        get_ack_for_enrollment_def tget_None_iff)
qed

lemma lookups_decide:
  assumes "\<forall>d \<in> set (decisions c). dc_enrollment_id d \<noteq> pr_enrollment_id p"
    and "v = Approve \<longrightarrow> (\<forall>g \<in> set (grants c). gr_enrollment_id g \<noteq> pr_enrollment_id p)"
    and "get_grant_for_enrollment c (pr_enrollment_id p) = None"
  shows "lookups (decide_effect au p v who bus did gid t c) i = (if i = pr_enrollment_id p then
      (Some (decision_row_for p v who (pr_requested_owner_domain_id p) bus (proposal_manifest_ref p) did t),
       (case v of Reject \<Rightarrow> None | Approve \<Rightarrow> Some (grant_row_for au p (pr_requested_owner_domain_id p)
          (proposal_manifest_ref p) did gid (max_claim_generation c (pr_requested_owner_domain_id p)
            (pr_hardware_identity_ref p) + 1) t)),
       get_ack_for_enrollment c i) else lookups c i)"
proof -
  let ?d = "decision_row_for p v who (pr_requested_owner_domain_id p) bus (proposal_manifest_ref p) did t"
  have d: "tget dc_enrollment_id i (decisions c @ [?d])
      = (if i = pr_enrollment_id p then Some ?d else tget dc_enrollment_id i (decisions c))"
    using assms(1) by (subst tget_snoc) (auto simp: decision_row_for_def)
  show ?thesis
  proof (cases v)
    case Reject
    with assms(3) show ?thesis
      by (auto simp: lookups_def get_decision_for_enrollment_def get_grant_for_enrollment_def
          get_ack_for_enrollment_def minted_def d [unfolded Reject])
  next
    case Approve
    let ?g = "grant_row_for au p (pr_requested_owner_domain_id p) (proposal_manifest_ref p) did gid
      (max_claim_generation c (pr_requested_owner_domain_id p) (pr_hardware_identity_ref p) + 1) t"
    have "tget gr_enrollment_id i (grants c @ [?g])
        = (if i = pr_enrollment_id p then Some ?g else tget gr_enrollment_id i (grants c))"
      using assms(2) Approve by (subst tget_snoc) (auto simp: grant_row_for_def Let_def)
    with Approve show ?thesis
      by (auto simp: lookups_def get_decision_for_enrollment_def get_grant_for_enrollment_def
          get_ack_for_enrollment_def minted_def d [unfolded Approve])
  qed
qed

lemma in_phase_now: "phases_ok c \<Longrightarrow> p \<in> set (proposals c) \<Longrightarrow>
    in_phase (pr_state p) (lookups c (pr_enrollment_id p))"
  by (simp add: phases_ok_iff)

lemma in_phase_decided:
  "in_phase (decided_state v) (Some (decision_row_for p v who od bus mref did t),
     (case v of Reject \<Rightarrow> None | Approve \<Rightarrow> Some (grant_row_for au p od mref did gid n t)), None)"
  by (cases v) (simp_all add: in_phase_def decided_state_def decision_row_for_def grant_row_for_def Let_def)

lemma in_phase_expired:
  assumes "in_phase s (d, g, a)" "Expired \<in> set (allowed_proposal_transitions s)"
  shows "in_phase Expired (d, map_option (\<lambda>r. if gr_revoked_at r = None then revoke_grant t r else r) g, a)"
  using assms by (cases s; cases d; cases g) (auto simp: in_phase_def)

lemma in_phase_claim_revoked:
  assumes "in_phase s (d, g, a)" "Claim_revoked \<in> set (allowed_proposal_transitions s)"
  shows "in_phase Claim_revoked (d, map_option (revoke_grant t) g, a)"
  using assms by (cases s; cases d; cases g) (auto simp: in_phase_def)

lemma in_phase_delivered:
  "in_phase Approved_awaiting_handoff (d, g, a) \<Longrightarrow> in_phase Grant_delivered (d, map_option (sealed env t) g, a)"
  by (cases d; cases g) (auto simp: in_phase_def sealed_def)

lemma in_phase_acknowledged:
  "in_phase Grant_delivered (d, Some g, a0) \<Longrightarrow> ga_grant_id a = gr_grant_id g \<Longrightarrow>
   in_phase Grant_acknowledged (d, Some g, Some a)"
  by (cases d) (auto simp: in_phase_def)

lemma grant_lookup:
  "grant_keys c \<Longrightarrow> g \<in> set (grants c) \<Longrightarrow> get_grant_for_enrollment c (gr_enrollment_id g) = Some g"
  unfolding get_grant_for_enrollment_def grant_keys_def by (simp add: tget_mem)

lemma ack_lookup:
  "ack_keys c \<Longrightarrow> a \<in> set (grant_acks c) \<Longrightarrow> get_ack_for_enrollment c (ga_enrollment_id a) = Some a"
  unfolding get_ack_for_enrollment_def ack_keys_def by (simp add: tget_mem)

text \<open>The Proposal behind the Grant of an Active Claim has been acknowledged.\<close>

lemma active_phase:
  assumes "claims_ok c" "acks_ok c" "phases_ok c" "grant_keys c" "ack_keys c"
    and "r \<in> set (claims c)" "cl_state r \<noteq> Revoked"
    and "g \<in> set (grants c)" "gr_decision_id g = cl_approval_decision_id r"
    and "p \<in> set (proposals c)" "pr_enrollment_id p = gr_enrollment_id g"
  shows "pr_state p = Grant_acknowledged"
proof -
  from assms(1,6) obtain k where k: "k \<in> set (grants c)" "claim_of c r k"
    unfolding claims_ok_def by blast
  with assms(4,8,9) have kg: "k = g"
    by (auto simp: claim_of_def grant_keys_def dest: distinct_key_eq [of gr_decision_id])
  from k(2) assms(7) obtain a where a: "a \<in> set (grant_acks c)" "ga_grant_id a = gr_grant_id g"
    unfolding claim_of_def kg by (cases "cl_state r") auto
  from a(1) assms(2) obtain m where m: "m \<in> set (grants c)" "gr_grant_id m = ga_grant_id a"
      "gr_enrollment_id m = ga_enrollment_id a"
    unfolding acks_ok_def by blast
  with assms(4,8) a(2) have "m = g" by (auto simp: grant_keys_def dest: distinct_key_eq [of gr_grant_id])
  with m(3) assms(11) ack_lookup [OF assms(5) a(1)]
  have "get_ack_for_enrollment c (pr_enrollment_id p) = Some a" by simp
  with in_phase_now [OF assms(3,10)] show ?thesis
    by (auto simp: in_phase_def lookups_def dest: ack_phase)
qed

lemma revoke_standing_phases:
  assumes "claims_ok c" "acks_ok c" "phases_ok c" "grant_keys c" "ack_keys c"
    and "r \<in> set (claims c)" "cl_state r \<noteq> Revoked"
    and c': "proposals c' = proposals c" "decisions c' = decisions c" "grant_acks c' = grant_acks c"
      "grants c' = map (\<lambda>g. if gr_decision_id g = cl_approval_decision_id r then revoke_grant t g else g) (grants c)"
  shows "phases_ok c'"
  unfolding phases_ok_iff c'(1)
proof
  fix p assume p: "p \<in> set (proposals c)"
  let ?e = "pr_enrollment_id p"
  have g': "get_grant_for_enrollment c' ?e = map_option
      (\<lambda>g. if gr_decision_id g = cl_approval_decision_id r then revoke_grant t g else g)
      (get_grant_for_enrollment c ?e)"
    unfolding get_grant_for_enrollment_def c'(4) by (rule tget_map) simp
  have same: "get_decision_for_enrollment c' ?e = get_decision_for_enrollment c ?e"
    "get_ack_for_enrollment c' ?e = get_ack_for_enrollment c ?e"
    by (simp_all add: get_decision_for_enrollment_def get_ack_for_enrollment_def c')
  note now = in_phase_now [OF assms(3) p]
  show "in_phase (pr_state p) (lookups c' ?e)"
  proof (cases "get_grant_for_enrollment c ?e")
    case None
    with now show ?thesis by (simp add: lookups_def g' same)
  next
    case (Some g)
    then have g: "g \<in> set (grants c)" "?e = gr_enrollment_id g"
      by (auto simp: get_grant_for_enrollment_def dest: tget_SomeD)
    show ?thesis
    proof (cases "gr_decision_id g = cl_approval_decision_id r")
      case True
      from active_phase [OF assms(1-7) g(1) True p g(2)] now Some True show ?thesis
        by (cases "get_decision_for_enrollment c ?e") (auto simp: lookups_def g' same in_phase_def)
    next
      case False
      with now Some show ?thesis by (simp add: lookups_def g' same)
    qed
  qed
qed

lemma phases_ok_step:
  assumes s: "lifecycle_step x au c c'" and k: "keys_ok c" and ok: "admission_ok x au c"
  shows "phases_ok c'"
proof -
  have keys: "proposal_keys c" "claim_keys c" "grant_keys c" "ack_keys c"
      "distinct (map cl_device_instance_id (claims c))"
    using k by (simp_all add: keys_ok_def claim_keys_def)
  have ph: "phases_ok c" and others: "decisions_ok c" "grants_ok au c" "acks_ok c" "claims_ok c"
    using ok by (simp_all add: admission_ok_def)
  have unchanged: "phases_ok c'" if "proposals c' = proposals c" "decisions c' = decisions c"
      "grants c' = grants c" "grant_acks c' = grant_acks c"
    using phases_same [OF ph that(1)] lookups_same [OF that(2-4)] .
  from s show ?thesis
  proof cases
    case (Create v p t c1)
    note f = claim_standing_frame [OF Create(2)]
    have l: "lookups c' e = lookups c e" for e by (rule lookups_same) (simp_all add: Create(1) f)
    have "in_phase (pr_state p) (lookups c (pr_enrollment_id p))"
      using fresh_lookups [OF others(1-3) Create(9)] Create(7) by (simp add: in_phase_def)
    moreover have "proposals c' = proposals c @ [p]" by (simp add: Create(1) f)
    ultimately show ?thesis using ph by (auto simp: phases_ok_iff l)
  next
    case (Decide p who did v gid business t)
    have now: "in_phase Pending_review (lookups c (pr_enrollment_id p))"
      using in_phase_now [OF ph Decide(2)] Decide(3) by simp
    then have none: "get_grant_for_enrollment c (pr_enrollment_id p) = None"
        "get_ack_for_enrollment c (pr_enrollment_id p) = None"
      by (simp_all add: in_phase_def lookups_def)
    have l: "lookups c' i = (if i = pr_enrollment_id p then
      (Some (decision_row_for p v who (pr_requested_owner_domain_id p) business (proposal_manifest_ref p) did t),
       (case v of Reject \<Rightarrow> None | Approve \<Rightarrow> Some (grant_row_for au p (pr_requested_owner_domain_id p)
          (proposal_manifest_ref p) did gid (max_claim_generation c (pr_requested_owner_domain_id p)
            (pr_hardware_identity_ref p) + 1) t)),
       get_ack_for_enrollment c i) else lookups c i)" for i
      unfolding Decide(1) by (rule lookups_decide [OF _ _ none(1)]) (use Decide(6,7) in auto)
    show ?thesis
      by (rule phases_advance [OF ph keys(1) Decide(2), of _ "decided_state v" t])
        (simp_all add: Decide(1) l [unfolded Decide(1)] none(2) in_phase_decided)
  next
    case (Cancel p t)
    have l: "lookups c' e = lookups c e" for e by (rule lookups_same) (simp_all add: Cancel(1))
    have "in_phase Canceled (lookups c (pr_enrollment_id p))"
      using in_phase_now [OF ph Cancel(2)] Cancel(3) by (simp add: in_phase_def lookups_def)
    then show ?thesis
      by (intro phases_advance [OF ph keys(1) Cancel(2), of _ Canceled t]) (simp_all add: l, simp add: Cancel(1))
  next
    case (Expire p t)
    have l: "lookups c' i = (if i = pr_enrollment_id p then
      (get_decision_for_enrollment c (pr_enrollment_id p),
       map_option (\<lambda>r. if gr_revoked_at r = None then revoke_grant t r else r)
         (get_grant_for_enrollment c (pr_enrollment_id p)),
       get_ack_for_enrollment c (pr_enrollment_id p)) else lookups c i)" for i
      unfolding Expire(1)
      by (rule lookups_grant [OF expire_effect_grants [OF keys(3)]]) simp_all
    show ?thesis
      by (rule phases_advance [OF ph keys(1) Expire(2), of _ Expired t])
        (use in_phase_expired [OF in_phase_now [OF ph Expire(2), unfolded lookups_def] Expire(3)] in
          \<open>simp_all add: l\<close>, simp add: Expire(1))
  next
    case (Deliver p g t env)
    have l: "lookups c' i = (if i = gr_enrollment_id g then
      (get_decision_for_enrollment c (gr_enrollment_id g),
       map_option (\<lambda>r. if True then sealed env t r else r) (get_grant_for_enrollment c (gr_enrollment_id g)),
       get_ack_for_enrollment c (gr_enrollment_id g)) else lookups c i)" for i
      unfolding Deliver(1)
      by (rule lookups_grant) (simp_all add: deliver_effect_grants [OF keys(3) Deliver(3)] sealed_def)
    show ?thesis
      by (rule phases_advance [OF ph keys(1) Deliver(2), of _ Grant_delivered t])
        (use in_phase_delivered [OF in_phase_now [OF ph Deliver(2), unfolded lookups_def Deliver(5)]] Deliver(4) in
          \<open>simp_all add: l\<close>, simp add: Deliver(1))
  next
    case (Acknowledge p g t proof_text w)
    obtain a where a: "proposals c' = tupd pr_enrollment_id (pr_enrollment_id p) (advance Grant_acknowledged t) (proposals c)"
      "decisions c' = decisions c" "grants c' = grants c" "grant_acks c' = grant_acks c @ [a]"
      "ga_grant_id a = gr_grant_id g" "ga_enrollment_id a = pr_enrollment_id p"
      "\<forall>b \<in> set (grant_acks c). ga_grant_id b \<noteq> gr_grant_id g \<and> ga_enrollment_id b \<noteq> pr_enrollment_id p"
      by (rule activate_effect [OF Acknowledge(8) keys(2)]) (rule that)
    have l: "lookups c' i = (if i = pr_enrollment_id p then
      (get_decision_for_enrollment c i, get_grant_for_enrollment c i, Some a) else lookups c i)" for i
    proof -
      have "tget ga_enrollment_id i (grant_acks c @ [a])
          = (if i = pr_enrollment_id p then Some a else tget ga_enrollment_id i (grant_acks c))"
        using a(6,7) by (subst tget_snoc) auto
      then show ?thesis
        by (simp add: lookups_def get_decision_for_enrollment_def get_grant_for_enrollment_def
            get_ack_for_enrollment_def a(2-4))
    qed
    have "get_grant_for_enrollment c (pr_enrollment_id p) = Some g"
      using grant_lookup [OF keys(3) Acknowledge(2)] Acknowledge(3) by simp
    with in_phase_now [OF ph Acknowledge(1), unfolded lookups_def Acknowledge(4)]
    have "in_phase Grant_acknowledged (lookups c' (pr_enrollment_id p))"
      by (simp add: l in_phase_acknowledged a(5))
    then show ?thesis
      by (rule phases_advance [OF ph keys(1) Acknowledge(1) a(1), rotated]) (simp add: l)
  next
    case (Revoke_unclaimed ref g t c1)
    obtain p where e: "get_proposal c (gr_enrollment_id g) = Some p"
      "Claim_revoked \<in> set (allowed_proposal_transitions (pr_state p))"
      "proposals c1 = tupd pr_enrollment_id (gr_enrollment_id g) (advance Claim_revoked t) (proposals c)"
      "grants c1 = map (\<lambda>r. if gr_enrollment_id r = gr_enrollment_id g then revoke_grant t r else r) (grants c)"
      "decisions c1 = decisions c" "grant_acks c1 = grant_acks c"
      by (rule revoke_unclaimed_effect [OF Revoke_unclaimed(5) keys(3) Revoke_unclaimed(3) keys(5)])
        (rule that)
    from e(1) have p: "p \<in> set (proposals c)" "pr_enrollment_id p = gr_enrollment_id g"
      by (auto dest: get_proposalD)
    have l: "lookups c' i = (if i = gr_enrollment_id g then
      (get_decision_for_enrollment c (gr_enrollment_id g),
       map_option (\<lambda>r. if True then revoke_grant t r else r) (get_grant_for_enrollment c (gr_enrollment_id g)),
       get_ack_for_enrollment c (gr_enrollment_id g)) else lookups c i)" for i
      unfolding Revoke_unclaimed(1) by (rule lookups_grant) (simp_all add: e(4-6))
    show ?thesis
      by (rule phases_advance [OF ph keys(1) p(1), of _ Claim_revoked t])
        (use in_phase_claim_revoked [OF in_phase_now [OF ph p(1), unfolded lookups_def] e(2)] p(2) in
          \<open>simp_all add: l\<close>, simp add: Revoke_unclaimed(1) e(3))
  next
    case (Revoke_standing r ref t)
    show ?thesis
      by (rule revoke_standing_phases [OF others(4,3) ph keys(3,4) Revoke_standing(2,5), of _ t])
        (simp_all add: Revoke_standing(1) revoke_standing_grants [OF keys(3)])
  qed (rule unchanged; simp)+
qed

section \<open>Claims\<close>

lemma claim_of_moves:
  assumes "claim_of c r g" "grant_moves g h" "cl_state r = Active \<Longrightarrow> gr_revoked_at h = None"
    and "set (decisions c) \<subseteq> set (decisions c')" "set (grant_acks c) \<subseteq> set (grant_acks c')"
  shows "claim_of c' r h"
  using assms(1) same_grantD [OF grant_moves_same [OF assms(2)]] assms(2-5)
  unfolding claim_of_def grant_moves_def by (cases "cl_state r") auto

text \<open>Grants of Claims survive a change of the Grants outside acknowledged Enrollments.\<close>

lemma claims_mapped:
  assumes ok: "claims_ok c" and r: "r \<in> set (claims c)"
    and g': "grants c' = map h (grants c)" "\<forall>g \<in> set (grants c). grant_moves g (h g)"
    and live: "\<And>g. g \<in> set (grants c) \<Longrightarrow> gr_decision_id g = cl_approval_decision_id r \<Longrightarrow>
      cl_state r = Active \<Longrightarrow> gr_revoked_at (h g) = gr_revoked_at g"
    and sub: "set (decisions c) \<subseteq> set (decisions c')" "set (grant_acks c) \<subseteq> set (grant_acks c')"
  shows "\<exists>g \<in> set (grants c'). claim_of c' r g"
proof -
  from ok r obtain g where g: "g \<in> set (grants c)" "claim_of c r g" unfolding claims_ok_def by blast
  have "gr_revoked_at (h g) = None" if "cl_state r = Active"
    using live [OF g(1) _ that] g(2) that by (simp add: claim_of_def)
  from claim_of_moves [OF g(2) _ this sub] g(1) g' show ?thesis by auto
qed

lemma unacknowledged:
  assumes "admission_ok x au c" "keys_ok c" "r \<in> set (claims c)" "cl_state r = Active"
    and "g \<in> set (grants c)" "gr_decision_id g = cl_approval_decision_id r"
    and "p \<in> set (proposals c)" "pr_state p \<noteq> Grant_acknowledged"
  shows "gr_enrollment_id g \<noteq> pr_enrollment_id p"
  using active_phase [of c r g p] assms by (auto simp: admission_ok_def keys_ok_def)

lemma claim_ref_eq: "claim_ref r = claim_ref k \<Longrightarrow> cl_device_instance_id r = cl_device_instance_id k"
  by (simp add: claim_ref_def)

lemma device_ref_eta:
  "\<lparr>device_instance_id = device_instance_id ref, ref_owner_domain_id = ref_owner_domain_id ref,
    owner_domain_generation = owner_domain_generation ref, claim_generation = claim_generation ref,
    trust_epoch = trust_epoch ref\<rparr> = (ref :: device_ref)"
  by simp

lemma claim_of_new:
  assumes "get_decision c (gr_decision_id g) = Some d" "decisions c' = decisions c" "same_grant g h"
    and "case st of Active \<Rightarrow> gr_revoked_at h = None
           \<and> (\<exists>a \<in> set (grant_acks c'). ga_grant_id a = gr_grant_id h)
         | Suspended \<Rightarrow> False | Revoked \<Rightarrow> gr_revoked_at h \<noteq> None \<and> rt \<noteq> None"
  shows "claim_of c' ((claim_for (gr_device_ref g) (dc_target_business_owner_id d) g p st ta t rt)
           \<lparr>cl_revision := n\<rparr>) h"
proof -
  from assms(1) have "d \<in> set (decisions c)" "dc_decision_id d = gr_decision_id g"
    by (auto simp: get_decision_def dest: tget_SomeD)
  with assms(2-4) show ?thesis
    by (cases st) (auto simp: claim_of_def claim_for_def claim_ref_def same_grantD intro!: bexI [of _ d])
qed

lemma expirable_not_acknowledged:
  "Expired \<in> set (allowed_proposal_transitions s) \<Longrightarrow> s \<noteq> Grant_acknowledged"
  "Claim_revoked \<in> set (allowed_proposal_transitions s) \<Longrightarrow> s \<noteq> Grant_acknowledged"
  by auto

lemma claims_ok_step:
  assumes s: "lifecycle_step x au c c'" and k: "keys_ok c" and ok: "admission_ok x au c"
  shows "claims_ok c'"
proof -
  have keys: "claim_keys c" "grant_keys c" "distinct (map cl_device_instance_id (claims c))"
    using k by (simp_all add: keys_ok_def claim_keys_def)
  have cl: "claims_ok c" using ok by (simp add: admission_ok_def)
  have unchanged: "claims_ok c'" if "claims c' = claims c" "grants c' = map (\<lambda>g. g) (grants c)"
      "set (decisions c) \<subseteq> set (decisions c')" "grant_acks c' = grant_acks c"
    unfolding claims_ok_def that(1) by (intro ballI claims_mapped [OF cl _ that(2)]) (simp_all add: that)
  from s show ?thesis
  proof cases
    case (Create v p t c1)
    from claim_standing_frame [OF Create(2)] show ?thesis by (intro unchanged) (simp_all add: Create(1))
  next
    case (Decide p who did v gid business t)
    have "claim_of c' r g" if "claim_of c r g" for r g
      using that unfolding Decide(1) by (cases "cl_state r") (auto simp: claim_of_def)
    then show ?thesis using cl unfolding claims_ok_def by (force simp: Decide(1))
  next
    case (Expire p t)
    show ?thesis unfolding claims_ok_def
    proof
      fix r assume "r \<in> set (claims c')"
      then have r: "r \<in> set (claims c)" by (simp add: Expire(1))
      show "\<exists>g \<in> set (grants c'). claim_of c' r g"
        by (rule claims_mapped [OF cl r expire_effect_grants [OF keys(2), of t "pr_enrollment_id p", folded Expire(1)]])
          (use unacknowledged [OF ok k r _ _ _ Expire(2) expirable_not_acknowledged(1) [OF Expire(3)]] in
            \<open>auto simp: Expire(1)\<close>)
    qed
  next
    case (Deliver p g t env)
    note gs = deliver_effect_grants [OF keys(2) Deliver(3), of t env p, folded Deliver(1)]
    have m: "\<forall>r \<in> set (grants c). grant_moves r (if gr_enrollment_id r = gr_enrollment_id g then sealed env t r else r)"
    proof
      fix r assume r: "r \<in> set (grants c)"
      show "grant_moves r (if gr_enrollment_id r = gr_enrollment_id g then sealed env t r else r)"
      proof (cases "gr_enrollment_id r = gr_enrollment_id g")
        case True
        with Deliver(3) keys(2) r have "r = g"
          unfolding grant_keys_def by (blast dest: distinct_key_eq [of gr_enrollment_id])
        with Deliver(7) show ?thesis by (simp add: grant_moves_def same_grant_def sealed_def)
      qed simp
    qed
    show ?thesis unfolding claims_ok_def
      by (intro ballI claims_mapped [OF cl _ gs m]) (simp_all add: Deliver(1) sealed_def)
  next
    case (Acknowledge p g t proof_text w)
    obtain d n a where e:
      "get_decision c (gr_decision_id g) = Some d" "decisions c' = decisions c" "grants c' = grants c"
      "grant_acks c' = grant_acks c @ [a]" "ga_grant_id a = gr_grant_id g"
      "set (claims c') = {k \<in> set (claims c). cl_device_instance_id k \<noteq> device_instance_id (gr_device_ref g)}
        \<union> {activated_row t n (dc_target_business_owner_id d) p g}"
      by (rule activate_effect [OF Acknowledge(8) keys(1)]) (rule that)
    have "claim_of c' (activated_row t n (dc_target_business_owner_id d) p g) g"
      unfolding activated_row_def
      by (rule claim_of_new [OF e(1,2)]) (simp_all add: Acknowledge(5) e(4,5))
    moreover have "\<exists>g \<in> set (grants c'). claim_of c' r g" if "r \<in> set (claims c)" for r
      by (rule claims_mapped [OF cl that, of c' "\<lambda>g. g"]) (auto simp: e)
    ultimately show ?thesis using Acknowledge(2) by (auto simp: claims_ok_def e(6) e(3))
  next
    case (Revoke_unclaimed ref g t c1)
    obtain p d n where e: "get_proposal c (gr_enrollment_id g) = Some p"
      "Claim_revoked \<in> set (allowed_proposal_transitions (pr_state p))"
      "get_decision c (gr_decision_id g) = Some d"
      "grants c1 = map (\<lambda>r. if gr_enrollment_id r = gr_enrollment_id g then revoke_grant t r else r) (grants c)"
      "decisions c1 = decisions c" "grant_acks c1 = grant_acks c"
      "set (claims c1) = {k \<in> set (claims c). cl_device_instance_id k \<noteq> device_instance_id ref}
       \<union> {(claim_for ref (dc_target_business_owner_id d) g p Revoked None t (Some t))\<lparr>cl_revision := n\<rparr>}"
      by (rule revoke_unclaimed_effect [OF Revoke_unclaimed(5) keys(2) Revoke_unclaimed(3) keys(3)])
        (rule that)
    from e(1) have p: "p \<in> set (proposals c)" "pr_enrollment_id p = gr_enrollment_id g"
      by (auto dest: get_proposalD)
    have gs: "grants c' = map (\<lambda>r. if gr_enrollment_id r = gr_enrollment_id g then revoke_grant t r else r) (grants c)"
      by (simp add: Revoke_unclaimed(1) e(4))
    have old: "\<exists>g \<in> set (grants c'). claim_of c' r g" if r: "r \<in> set (claims c)" for r
      by (rule claims_mapped [OF cl r gs])
        (use unacknowledged [OF ok k r _ _ _ p(1) expirable_not_acknowledged(2) [OF e(2)]] p(2) in
          \<open>auto simp: Revoke_unclaimed(1) e(5,6)\<close>)
    have new: "claim_of c' ((claim_for ref (dc_target_business_owner_id d) g p Revoked None t (Some t))
        \<lparr>cl_revision := n\<rparr>) (revoke_grant t g)"
      unfolding Revoke_unclaimed(4) [symmetric]
      by (rule claim_of_new [OF e(3)])
        (simp_all add: Revoke_unclaimed(1) e(5) grant_moves_same)
    have "revoke_grant t g \<in> set (grants c')" using Revoke_unclaimed(3) by (auto simp: gs)
    moreover have "set (claims c') = set (claims c1)" by (simp add: Revoke_unclaimed(1))
    ultimately show ?thesis using old new by (auto simp: claims_ok_def e(7))
  next
    case (Revoke_standing r ref t)
    let ?h = "\<lambda>g. if gr_decision_id g = cl_approval_decision_id r then revoke_grant t g else g"
    let ?f = "\<lambda>r. r\<lparr>cl_state := Revoked, cl_revision := cl_revision r + 1,
            cl_updated_at := t, cl_revoked_at := Some t\<rparr>"
    have gs: "grants c' = map ?h (grants c)"
      by (simp add: Revoke_standing(1) revoke_standing_grants [OF keys(2)])
    have cs: "claims c' = tupd cl_device_instance_id (cl_device_instance_id r) ?f (claims c)"
      by (simp add: Revoke_standing(1))
    have ds: "decisions c' = decisions c" "grant_acks c' = grant_acks c"
      by (simp_all add: Revoke_standing(1))
    have mem: "?h g \<in> set (grants c')" if "g \<in> set (grants c)" for g using that by (auto simp: gs)
    show ?thesis unfolding claims_ok_def
    proof
      fix q assume "q \<in> set (claims c')"
      then show "\<exists>g \<in> set (grants c'). claim_of c' q g"
        unfolding cs
      proof (cases rule: in_set_tupdE)
        case other
        from cl other(1) obtain g where g: "g \<in> set (grants c)" "claim_of c q g"
          unfolding claims_ok_def by blast
        from cl Revoke_standing(2) obtain g0 where g0: "g0 \<in> set (grants c)" "claim_of c r g0"
          unfolding claims_ok_def by blast
        have "gr_decision_id g \<noteq> cl_approval_decision_id r"
        proof
          assume "gr_decision_id g = cl_approval_decision_id r"
          with g0 g(1) keys(2) have "g0 = g"
            by (auto simp: claim_of_def grant_keys_def dest: distinct_key_eq [of gr_decision_id])
          with g(2) g0(2) have "claim_ref q = claim_ref r" by (simp add: claim_of_def)
          with other(2) show False by (auto dest: claim_ref_eq)
        qed
        then have "claim_of c' q (?h g)"
          using g(2) ds by (cases "cl_state q") (simp_all add: claim_of_def)
        with mem [OF g(1)] show ?thesis by (rule rev_bexI)
      next
        case (hit s)
        from cl hit(1) obtain g where g: "g \<in> set (grants c)" "claim_of c s g"
          unfolding claims_ok_def by blast
        have "s = r" using keys(3) hit(1,2) Revoke_standing(2) by (auto dest: distinct_key_eq)
        with g(2) ds hit(3) have "claim_of c' q (?h g)"
          by (auto simp: claim_of_def claim_ref_def)
        with mem [OF g(1)] show ?thesis by (rule rev_bexI)
      qed
    qed
  qed (rule unchanged; simp)+
qed

section \<open>The directory\<close>

lemma directory_unchanged: "directory_ok c \<Longrightarrow> claims c' = claims c \<Longrightarrow> devices c' = devices c \<Longrightarrow> directory_ok c'"
  by (simp add: directory_ok_def)

lemma directory_ok_step:
  assumes s: "lifecycle_step x au c c'" and k: "keys_ok c" and ok: "admission_ok x au c"
  shows "directory_ok c'"
proof -
  have keys: "claim_keys c" "grant_keys c" "distinct (map cl_device_instance_id (claims c))"
      "distinct (map dv_device_id (devices c))"
    using k by (simp_all add: keys_ok_def claim_keys_def)
  have dir: "directory_ok c" and cl: "claims_ok c" using ok by (simp_all add: admission_ok_def)
  have listed: "\<exists>r \<in> set (claims c). lists_claim d r" if "d \<in> set (devices c)" for d
    using dir that by (simp add: directory_ok_def)
  note unchanged = directory_unchanged [OF dir]
  from s show ?thesis
  proof cases
    case (Create v p t c1)
    from claim_standing_frame [OF Create(2)] show ?thesis by (intro unchanged) (simp_all add: Create(1))
  next
    case (Acknowledge p g t proof_text w)
    let ?i = "device_instance_id (gr_device_ref g)"
    obtain d n r where e0: "get_decision c (gr_decision_id g) = Some d" and e:
      "set (claims c') = {k \<in> set (claims c). cl_device_instance_id k \<noteq> ?i}
        \<union> {activated_row t n (dc_target_business_owner_id d) p g}"
      "set (devices c') = {k \<in> set (devices c). dv_device_id k \<noteq> ?i} \<union> {r}"
      "directory_row (gr_device_ref g) (dc_target_business_owner_id d) r"
      by (rule activate_effect [OF Acknowledge(8) keys(1)]) (rule that)
    have new: "lists_claim r (activated_row t n (dc_target_business_owner_id d) p g)"
      using e(3) by (simp add: lists_claim_def activated_row_def claim_for_def directory_row_def)
    show ?thesis unfolding directory_ok_def
    proof (intro conjI ballI impI)
      fix k assume k: "k \<in> set (devices c')"
      show "\<exists>q \<in> set (claims c'). lists_claim k q"
      proof (cases "k = r")
        case True
        with new e(1) show ?thesis by auto
      next
        case False
        with k e(2) have "k \<in> set (devices c)" "dv_device_id k \<noteq> ?i" by auto
        with listed [of k] e(1) show ?thesis by (auto simp: lists_claim_def)
      qed
    next
      fix q assume q: "q \<in> set (claims c')" "cl_state q = Active"
      show "\<exists>k \<in> set (devices c'). dv_device_id k = cl_device_instance_id q"
      proof (cases "cl_device_instance_id q = ?i")
        case True
        with e(2,3) show ?thesis by (auto simp: directory_row_def)
      next
        case False
        with q e(1) have "q \<in> set (claims c)" by (auto simp: activated_row_def claim_for_def)
        with q dir False e(2) show ?thesis by (fastforce simp: directory_ok_def)
      qed
    qed
  next
    case (Revoke_unclaimed ref g t c1)
    obtain p d n where e0: "get_proposal c (gr_enrollment_id g) = Some p"
      "get_decision c (gr_decision_id g) = Some d" and e: "devices c1 = devices c"
      "set (claims c1) = {k \<in> set (claims c). cl_device_instance_id k \<noteq> device_instance_id ref}
       \<union> {(claim_for ref (dc_target_business_owner_id d) g p Revoked None t (Some t))\<lparr>cl_revision := n\<rparr>}"
      by (rule revoke_unclaimed_effect [OF Revoke_unclaimed(5) keys(2) Revoke_unclaimed(3) keys(3)])
        (rule that)
    have absent: "cl_device_instance_id q \<noteq> device_instance_id ref" if "q \<in> set (claims c)" for q
      using Revoke_unclaimed(2) that by (auto simp: get_claim_def tget_None_iff image_iff)
    have "dv_device_id k \<noteq> device_instance_id ref" if "k \<in> set (devices c)" for k
      using listed [OF that] absent by (auto simp: lists_claim_def)
    then have "get_device_row c1 (device_instance_id ref) = None"
      by (force simp: get_device_row_def tget_None_iff e(1))
    then have c': "c' = c1" by (simp add: Revoke_unclaimed(1) project_revoked_claim_def)
    have cs: "set (claims c1) = set (claims c)
        \<union> {(claim_for ref (dc_target_business_owner_id d) g p Revoked None t (Some t))\<lparr>cl_revision := n\<rparr>}"
      using e(2) absent by auto
    show ?thesis
      using dir unfolding directory_ok_def c' cs e(1) by (auto simp: claim_for_def)
  next
    case (Revoke_standing r ref t)
    let ?f = "\<lambda>r. r\<lparr>cl_state := Revoked, cl_revision := cl_revision r + 1,
            cl_updated_at := t, cl_revoked_at := Some t\<rparr>"
    let ?i = "cl_device_instance_id r"
    have act: "cl_state r = Active"
      using cl Revoke_standing(2,5) by (cases "cl_state r") (auto simp: claims_ok_def claim_of_def)
    have cs: "set (claims c') = {q \<in> set (claims c). cl_device_instance_id q \<noteq> ?i} \<union> {?f r}"
    proof -
      have "{q \<in> set (claims c). cl_device_instance_id q = ?i} = {r}"
        by (rule key_singleton [OF keys(3) Revoke_standing(2) refl])
      then show ?thesis by (simp add: Revoke_standing(1) set_tupd)
    qed
    from dir act Revoke_standing(2) obtain k where k: "k \<in> set (devices c)" "dv_device_id k = ?i"
      unfolding directory_ok_def by blast
    from listed [OF k(1)] obtain q where q: "q \<in> set (claims c)" "lists_claim k q" by blast
    with k(2) Revoke_standing(2) keys(3) have "q = r"
      by (auto simp: lists_claim_def dest: distinct_key_eq)
    with q(2) have lk: "lists_claim k r" by simp
    define m where "m = k\<lparr>dv_lifecycle_state := Device_revoked, dv_updated_at := t,
      dv_aggregate_revision := dv_aggregate_revision k + 1\<rparr>"
    have row: "get_device_row (revoke_standing_claim t r c) ?i = Some k"
      using k keys(4) by (simp add: get_device_row_def tget_iff)
    have ds: "set (devices c') = {d \<in> set (devices c). dv_device_id d \<noteq> ?i} \<union> {m}"
      using lk Revoke_standing(3,4) row
      by (simp add: Revoke_standing(1) project_revoked_claim_def lists_claim_def claim_matches_ref_def
          update_device_def set_tupd key_singleton [OF keys(4) k(1) refl] m_def)
    show ?thesis unfolding directory_ok_def
    proof (intro conjI ballI impI)
      fix d assume d: "d \<in> set (devices c')"
      show "\<exists>q \<in> set (claims c'). lists_claim d q"
      proof (cases "d = m")
        case True
        have "lists_claim m (?f r)" using lk by (simp add: lists_claim_def m_def)
        with True cs show ?thesis by auto
      next
        case False
        with d ds have "d \<in> set (devices c)" "dv_device_id d \<noteq> ?i" by auto
        with listed [of d] cs show ?thesis by (auto simp: lists_claim_def)
      qed
    next
      fix q assume "q \<in> set (claims c')" "cl_state q = Active"
      with cs have "q \<in> set (claims c)" "cl_device_instance_id q \<noteq> ?i" "cl_state q = Active" by auto
      with dir ds show "\<exists>d \<in> set (devices c'). dv_device_id d = cl_device_instance_id q"
        by (fastforce simp: directory_ok_def)
    qed
  qed (rule unchanged; simp)+
qed

section \<open>Commissioned identities\<close>

lemma bound_identity:
  assumes "claim_standing v ow hw key t c = Inr c'"
    and ok: "\<And>b. b \<in> set (base_identities c) \<Longrightarrow>
      derive_hardware_identity_ref x (bi_device_base_id b) = Inr (bi_hardware_identity_ref b)
      \<and> bi_owner_domain_id b = ow"
    and hw: "derive_hardware_identity_ref x (vc_device_base_id v) = Inr hw"
  shows "(\<forall>b \<in> set (base_identities c').
      derive_hardware_identity_ref x (bi_device_base_id b) = Inr (bi_hardware_identity_ref b)
      \<and> bi_owner_domain_id b = ow)
    \<and> set (base_identities c) \<subseteq> set (base_identities c')
    \<and> (\<exists>b \<in> set (base_identities c'). bi_operational_key_id b = key \<and> bi_hardware_identity_ref b = hw)"
  using assms(1)
proof (cases rule: claim_standing_cases)
  case (voucher vr c1 br)
  have same: "base_identities c1 = base_identities c"
    using consume_voucher_cases(2) [OF voucher(2)] by simp
  from voucher(3) show ?thesis
  proof (cases rule: bind_base_identity_cases)
    case (known e)
    then have "e \<in> set (base_identities c)" "bi_device_base_id e = vc_device_base_id v"
      using voucher(4) same by (auto simp: base_identity_def dest: tget_SomeD)
    with ok [of e] hw known(2,3) voucher(7) show ?thesis using ok same by (auto intro!: bexI [of _ e])
  next
    case new
    with ok hw voucher(4-7) show ?thesis by (auto simp: same)
  qed
next
  case (continuation b)
  then have "b \<in> set (base_identities c)" by (auto simp: base_identity_def dest: tget_SomeD)
  with continuation ok show ?thesis by auto
qed

lemma identity_ok_step:
  assumes s: "lifecycle_step x au c c'" and k: "keys_ok c" and ok: "identity_ok x au c"
  shows "identity_ok x au c'"
proof -
  have keys: "claim_keys c" "grant_keys c" "distinct (map cl_device_instance_id (claims c))"
    using k by (simp_all add: keys_ok_def claim_keys_def)
  have moved: "identity_ok x au c'" if b: "base_identities c' = base_identities c"
      and ps: "proposals c' = map f (proposals c)" "\<forall>p \<in> set (proposals c). proposal_moves p (f p)" for f
  proof -
    have "same_proposal p (f p)" if "p \<in> set (proposals c)" for p
      using that ps(2) by (simp add: proposal_moves_same)
    from same_proposalD [OF this] ok b ps(1) show ?thesis by (auto simp: identity_ok_def)
  qed
  obtain f new where pr: "proposals c' = map f (proposals c) @ new"
      "\<forall>p \<in> set (proposals c). proposal_moves p (f p)"
    by (rule step_proposals [OF s k])
  have frame: "identity_ok x au c'" if "base_identities c' = base_identities c"
      "length (proposals c') = length (proposals c)"
    using moved [OF that(1) _ pr(2)] pr(1) that(2) by simp
  from s show ?thesis
  proof cases
    case (Create v p t c1)
    note f = claim_standing_frame [OF Create(2)]
    have "(\<forall>b \<in> set (base_identities c1).
        derive_hardware_identity_ref x (bi_device_base_id b) = Inr (bi_hardware_identity_ref b)
        \<and> bi_owner_domain_id b = au_owner_domain_id au)
      \<and> set (base_identities c) \<subseteq> set (base_identities c1)
      \<and> (\<exists>b \<in> set (base_identities c1). bi_operational_key_id b = pr_operational_key_id p
           \<and> bi_hardware_identity_ref b = pr_hardware_identity_ref p)"
      by (rule bound_identity [OF Create(2) _ Create(3)]) (use ok in \<open>simp add: identity_ok_def\<close>)
    with ok Create(1,4-6) f(1) show ?thesis by (fastforce simp: identity_ok_def)
  next
    case (Acknowledge p g t proof_text w)
    have "base_identities c' = base_identities c" "length (proposals c') = length (proposals c)"
      by (rule activate_effect [OF Acknowledge(8) keys(1)], simp)+
    then show ?thesis by (rule frame)
  next
    case (Revoke_unclaimed ref g t c1)
    have "base_identities c1 = base_identities c" "length (proposals c1) = length (proposals c)"
      by (rule revoke_unclaimed_effect [OF Revoke_unclaimed(5) keys(2) Revoke_unclaimed(3) keys(3)], simp)+
    then show ?thesis by (intro frame) (simp_all add: Revoke_unclaimed(1))
  qed (rule frame; simp)+
qed

section \<open>The whole invariant\<close>

lemma admission_ok_step:
  assumes "lifecycle_step x au c c'" "keys_ok c" "admission_ok x au c"
  shows "admission_ok x au c'"
  using assms grants_ok_step [OF assms(1,2)] lineage_ok_step [OF assms(1,2)]
    decisions_ok_step [OF assms(1,2)] acks_ok_step [OF assms(1,2)] phases_ok_step [OF assms]
    claims_ok_step [OF assms] directory_ok_step [OF assms] identity_ok_step [OF assms(1,2)]
  by (simp add: admission_ok_def)

lemma admission_ok_empty: "admission_ok x au (core empty_db)"
  by (simp add: admission_ok_def grants_ok_def lineage_ok_def decisions_ok_def acks_ok_def
      phases_ok_def claims_ok_def directory_ok_def identity_ok_def empty_db_def core_simps)

lemma admission_ok_run: "admission_ok x au (core (run x au pj rs))"
  by (rule run_invariant [where P = "admission_ok x au"]) (fact admission_ok_empty, rule admission_ok_step)

lemma keys_ok_run: "keys_ok (core (run x au pj rs))"
  by (rule run_invariant [where P = keys_ok]) (fact keys_empty, rule step_keys)

end
