(* ===== verification/Scenario.thy ===== *)
theory Scenario
  imports Admission_Agreement
begin

text \<open>
  One worked Enrollment, used where a property has to be seen to apply: a Host with a
  voucher signing key, a device that presents a voucher and a Controller that decides it.
  The functions outside the repository are replaced by small concrete ones.
\<close>

definition voucher_doc :: "(string \<times> json) list" where
  "voucher_doc =
     [(''purpose'', JStr ''p''), (''owner_domain_id'', JStr ''o''), (''device_base_id'', JStr ''b''),
      (''base_identity_provenance'', JStr ''m''), (''jti'', JStr ''n''),
      (''operational_spki_sha256'', JStr ''k''), (''exp'', JStr ''9'')]"

definition evidence_doc :: "(string \<times> json) list" where
  "evidence_doc =
     [(''device_instance_id'', JStr ''d''), (''operational_public_key'', JStr ''AAAA''),
      (''profile_id'', JStr ''t''), (''device_base_id'', JStr ''b'')]"

definition small_contract :: voucher_contract where
  "small_contract = \<lparr>evidence_scheme = ''e'', evidence_fields = map fst evidence_doc,
     trust_profile_id = ''t'', voucher_header = voucher_doc,
     voucher_claim_names = map fst voucher_doc, voucher_purpose = ''p'', voucher_provenance = [''m'']\<rparr>"

definition small_world :: external where
  "small_world = \<lparr>sha256 = (\<lambda>bs. if bs = [115] then replicate 32 1 else replicate 32 0),
     hmac_sha256 = (\<lambda>k m. []),
     rfc8785_dumps =
       (\<lambda>d. case d of Command_doc _ _ (Revoke_payload _ reason) \<Rightarrow> encode reason | _ \<Rightarrow> [101]),
     json_loads = (\<lambda>s. if s = [] then Some (JObj voucher_doc) else Some (JObj evidence_doc)),
     load_der_public_key = (\<lambda>der. Some (P256_key [])), ecdsa_verify = (\<lambda>k r s m. True),
     ecdh = (\<lambda>n k. []), public_point = (\<lambda>n. []), aesgcm_encrypt = (\<lambda>k n p a. []),
     sdk_operational_key_id = (\<lambda>s. Some ''k''),
     sdk_derive_device_instance_id = (\<lambda>s. Some ''d''),
     py_str = (\<lambda>j. []), py_int = (\<lambda>s. Some 9),
     fresh_id = (\<lambda>pre n. replicate (Suc n) (CHR ''i'')), token_urlsafe = (\<lambda>n k. ''c'')\<rparr>"

definition small_authority :: authority where
  "small_authority = \<lparr>au_owner_domain_id = ''o'', au_owner_domain_generation = 1,
     au_commissioning_proofs = Issued_base_identity_verifier small_contract [],
     au_proposal_ttl = 900, au_grant_ttl = 600, au_decide_from_standing = True\<rparr>"

definition zero_digest :: string where
  "zero_digest = ''sha256:'' @ replicate 64 (CHR ''0'')"

definition signature_text :: string where
  "signature_text = replicate 86 (CHR ''A'')"

definition small_payload :: enrollment_payload where
  "small_payload = \<lparr>ep_requested_owner_domain_id = ''o'',
     ep_hardware_identity_evidence = \<lparr>he_scheme = ''e'',
        he_evidence = ''e.'' @ signature_text, he_evidence_digest = zero_digest\<rparr>,
     ep_handoff_public_key = [], ep_operational_public_key = ''AAAA'',
     ep_device_instance_candidate_id = ''d'',
     ep_commissioning_proof = \<lparr>cp_scheme = voucher_scheme, cp_nonce = ''n'', cp_proof = ''..''\<rparr>,
     ep_manifest = \<lparr>pm_manifest_id = ''m'', pm_revision = 1, pm_digest = zero_digest, pm_document = JObj []\<rparr>\<rparr>"

definition owner_controller :: caller where
  "owner_controller = \<lparr>ca_actor = \<lparr>principal_id = ''q'', actor_owner_domain_id = ''o'',
       granted_scopes = [''device.claim.approve'', ''device.claim.revoke'', ''device.read'']\<rparr>,
     ca_owner_domain_id = ''o'', ca_business_owner_id = ''u''\<rparr>"

definition small_decision :: decision_payload where
  "small_decision = \<lparr>dp_target_owner_domain_id = ''o'', dp_target_business_owner_id = ''u'',
     dp_decision = Approve, dp_expected_proposal_revision = 1,
     dp_reviewed_manifest_ref =
       \<lparr>manifest_id = ''m'', manifest_revision = 1, manifest_digest = zero_digest\<rparr>\<rparr>"

definition device_d :: device_ref where
  "device_d = \<lparr>device_instance_id = ''d'', ref_owner_domain_id = ''o'', owner_domain_generation = 1,
     claim_generation = 1, trust_epoch = 1\<rparr>"

definition proposal_id :: string where
  "proposal_id = ''i''"

definition small_create :: request where
  "small_create = Create_enrollment 1 ''1'' [] small_payload"

definition small_decide :: request where
  "small_decide = Decide_enrollment 2 2 ''2'' [] proposal_id small_decision owner_controller"

definition small_collect :: request where
  "small_collect = Collect_claim_grant 0 3 3 ''3'' [] proposal_id 1 ''c'' signature_text"

definition small_ack :: request where
  "small_ack = Ack_claim_grant 4 4 ''4'' [] proposal_id ''iiii'' signature_text 1 1"

definition small_revoke :: request where
  "small_revoke = Revoke_claim 5 ''5'' [] device_d ''r'' owner_controller"

text \<open>The same device proposing again, as a continuation, while the first Grant is out.\<close>

definition second_payload :: enrollment_payload where
  "second_payload = small_payload\<lparr>ep_commissioning_proof :=
     \<lparr>cp_scheme = enrolled_base_key_scheme, cp_nonce = ''z'', cp_proof = signature_text\<rparr>\<rparr>"

definition second_enrollment :: "request list" where
  "second_enrollment =
     [Create_enrollment 4 ''6'' [] second_payload,
      Decide_enrollment 5 5 ''7'' [] ''iiiiiii'' small_decision owner_controller,
      Collect_claim_grant 0 6 6 ''8'' [] ''iiiiiii'' 1 ''c'' signature_text,
      Ack_claim_grant 7 7 ''9'' [] ''iiiiiii'' ''iiiiiiiiii'' signature_text 2 1]"

definition second_revoke :: request where
  "second_revoke = Revoke_claim 8 ''A'' [] (device_d\<lparr>claim_generation := 2\<rparr>) ''r'' owner_controller"

definition late_ack :: request where
  "late_ack = Ack_claim_grant 9 9 ''4'' [] proposal_id ''iiii'' signature_text 1 1"

abbreviation small_run :: "request list \<Rightarrow> hub_db" where
  "small_run \<equiv> run small_world small_authority None"

section \<open>What the worked runs end in\<close>

definition delivered_run :: "request list" where
  "delivered_run = [small_create, small_decide, small_collect]"

definition acked_run :: "request list" where
  "acked_run = delivered_run @ [small_ack]"

definition summary :: "hub_db \<Rightarrow> (proposal_state list \<times> (claim_state \<times> int) list) \<times> int list \<times> lifecycle_state list" where
  "summary db = ((map pr_state (proposals db), map (\<lambda>r. (cl_state r, cl_claim_generation r)) (claims db)),
     map gr_claim_generation (grants db), map dv_lifecycle_state (devices db))"

lemma acked_summary: "summary (small_run acked_run)
    = (([Grant_acknowledged], [(Active, 1)]), [1], [Device_approved])"
  by code_simp

lemma delivered_summary: "summary (small_run delivered_run) = (([Grant_delivered], []), [1], [])"
  by code_simp

definition outcome_of :: "hub_db \<times> (exn + command_result) \<Rightarrow> outcome option" where
  "outcome_of w = (case snd w of Inl _ \<Rightarrow> None | Inr r \<Rightarrow> Some (cr_outcome r))"

lemma outcome_ofD: "outcome_of w = Some c \<Longrightarrow> \<exists>r. w = (fst w, Inr r) \<and> cr_outcome r = c"
  by (cases w) (auto simp: outcome_of_def split: sum.splits)

lemma create_committed:
  "outcome_of (create_enrollment small_world small_authority 1 ''1'' [] small_payload empty_db) = Some Committed"
  by code_simp

lemma revoke_committed:
  "outcome_of (as_actor owner_controller (revoke_claim small_world 5 ''5'' [] device_d ''r'')
     (small_run acked_run)) = Some Committed"
  by code_simp

end
