(* ===== verification/Admission_Properties.thy ===== *)
theory Admission_Properties
  imports Scenario
begin

text \<open>
  What the invariants of the lifecycle relation say of every database the authority
  reaches, in terms of the rows themselves.
\<close>

section \<open>Reading the invariant\<close>

lemma run_ok:
  "grants_ok au (core (run x au pj rs))" "lineage_ok (core (run x au pj rs))"
  "decisions_ok (core (run x au pj rs))" "acks_ok (core (run x au pj rs))"
  "phases_ok (core (run x au pj rs))" "claims_ok (core (run x au pj rs))"
  "directory_ok (core (run x au pj rs))" "identity_ok x au (core (run x au pj rs))"
  using admission_ok_run [of x au pj rs] by (simp_all add: admission_ok_def)

lemma run_keys:
  "distinct (map pr_enrollment_id (proposals (run x au pj rs)))"
  "distinct (map gr_grant_id (grants (run x au pj rs)))"
  "distinct (map gr_enrollment_id (grants (run x au pj rs)))"
  "distinct (map cl_device_instance_id (claims (run x au pj rs)))"
  "distinct (map bi_operational_key_id (base_identities (run x au pj rs)))"
  "distinct (map bi_device_base_id (base_identities (run x au pj rs)))"
  "distinct (map cv_jti (vouchers (run x au pj rs)))"
  using keys_ok_run [of x au pj rs] by (simp_all add: keys_defs core_simps)

section \<open>Claims\<close>

text \<open>
  C1: an Active Claim is never more than what was approved: its Enrollment was decided
  with Approve by a Controller of the Owner Domain that holds the approval scope, for the
  business Owner the Claim names; the Grant of that Decision is the Claim's own, delivered,
  unrevoked and acknowledged; and the Claim's DeviceRef is the one that Grant was issued for.
\<close>

theorem active_claim_is_approved:
  assumes "r \<in> set (claims (run x au pj rs))" "cl_state r = Active"
  shows "\<exists>p \<in> set (proposals (run x au pj rs)). \<exists>d \<in> set (decisions (run x au pj rs)).
    \<exists>g \<in> set (grants (run x au pj rs)). \<exists>a \<in> set (grant_acks (run x au pj rs)).
      pr_device_instance_id p = cl_device_instance_id r \<and> pr_state p = Grant_acknowledged
      \<and> dc_enrollment_id d = pr_enrollment_id p \<and> dc_decision d = Approve
      \<and> ''device.claim.approve'' \<in> set (granted_scopes (dc_actor d))
      \<and> actor_owner_domain_id (dc_actor d) = cl_owner_domain_id r
      \<and> dc_target_business_owner_id d = cl_business_owner_id r
      \<and> gr_decision_id g = dc_decision_id d \<and> gr_enrollment_id g = pr_enrollment_id p
      \<and> gr_device_ref g = claim_ref r \<and> gr_revoked_at g = None \<and> gr_delivered_at g \<noteq> None
      \<and> ga_grant_id a = gr_grant_id g"
proof -
  let ?db = "run x au pj rs"
  note ok = run_ok [where x = x and au = au and pj = pj and rs = rs]
  from ok(6) assms(1) obtain g where g: "g \<in> set (grants ?db)" "claim_of (core ?db) r g"
    unfolding claims_ok_def core_select by blast
  from ok(1) g(1) have o1: "grant_origin au (core ?db) g" by (simp add: grants_ok_def core_simps)
  from o1 obtain p where p: "p \<in> set (proposals ?db)" "pr_enrollment_id p = gr_enrollment_id g"
      "gr_device_ref g = grant_ref au p (gr_owner_domain_id g) (gr_claim_generation g)"
    unfolding grant_origin_def core_select by blast
  from o1 obtain d where d: "d \<in> set (decisions ?db)" "dc_decision_id d = gr_decision_id g"
      "dc_enrollment_id d = gr_enrollment_id g" "dc_decision d = Approve"
      "dc_target_owner_domain_id d = gr_owner_domain_id g"
    unfolding grant_origin_def core_select by blast
  from g(2) obtain a e where c: "claim_ref r = gr_device_ref g"
      "cl_approval_decision_id r = gr_decision_id g" "gr_revoked_at g = None"
      "a \<in> set (grant_acks ?db)" "ga_grant_id a = gr_grant_id g"
      "e \<in> set (decisions ?db)" "dc_decision_id e = gr_decision_id g"
      "dc_target_business_owner_id e = cl_business_owner_id r"
    using assms(2) unfolding claim_of_def by (auto simp: core_simps)
  have "distinct (map dc_decision_id (decisions ?db))"
    using keys_ok_run [of x au pj rs] by (simp add: keys_defs core_simps)
  with d(1,2) c(6,7) have de: "e = d" by (auto dest: distinct_key_eq)
  have st: "pr_state p = Grant_acknowledged"
    using active_phase [of "core ?db" r g p] ok keys_ok_run [of x au pj rs] assms g(1) c(2) p(1,2)
    by (simp add: keys_ok_def core_simps)
  have "grant_keys (core ?db)" using keys_ok_run [of x au pj rs] by (simp add: keys_ok_def)
  from grant_lookup [OF this] g(1) p(2)
  have lk: "get_grant_for_enrollment (core ?db) (pr_enrollment_id p) = Some g" by (simp add: core_simps)
  from in_phase_now [OF ok(5)] p(1) have "in_phase (pr_state p) (lookups (core ?db) (pr_enrollment_id p))"
    by (simp add: core_simps)
  with st lk have dl: "gr_delivered_at g \<noteq> None"
    unfolding in_phase_def lookups_def
    by (cases "get_decision_for_enrollment (core ?db) (pr_enrollment_id p)") auto
  from ok(3) d(1) have sc: "''device.claim.approve'' \<in> set (granted_scopes (dc_actor d))"
      "actor_owner_domain_id (dc_actor d) = gr_owner_domain_id g"
    using d(5) by (simp_all add: decisions_ok_def decision_origin_def core_simps)
  have r1: "pr_device_instance_id p = cl_device_instance_id r" "gr_owner_domain_id g = cl_owner_domain_id r"
    using c(1) p(3) by (auto simp: claim_ref_def grant_ref_def)
  show ?thesis
    by (rule bexI [OF _ p(1)], rule bexI [OF _ d(1)], rule bexI [OF _ g(1)], rule bexI [OF _ c(4)])
      (simp add: r1 st d(2-4) p(2) sc c(3,5) c(8) [unfolded de] dl c(1) flip: r1(2))
qed

lemma acked_has_claim:
  "claims (small_run acked_run) \<noteq> [] \<and> cl_state (hd (claims (small_run acked_run))) = Active"
  using acked_summary by (auto simp: summary_def)

theorem active_claim_is_approved_witness:
  "cl_state (hd (claims (small_run acked_run))) = Active
   \<and> (\<exists>p \<in> set (proposals (small_run acked_run)). pr_state p = Grant_acknowledged)"
proof -
  have h: "hd (claims (small_run acked_run)) \<in> set (claims (small_run acked_run))"
    using acked_has_claim by simp
  from active_claim_is_approved [OF h conjunct2 [OF acked_has_claim]] acked_has_claim
  show ?thesis by blast
qed

section \<open>Generations\<close>

definition before_in_lineage :: "grant_row \<Rightarrow> grant_row \<Rightarrow> bool" where
  "before_in_lineage g h =
     (if gr_owner_domain_id g = gr_owner_domain_id h
         \<and> gr_hardware_identity_ref g = gr_hardware_identity_ref h
      then gr_claim_generation g < gr_claim_generation h else True)"

lemma before_same: "same_grant g g' \<Longrightarrow> same_grant h h' \<Longrightarrow> before_in_lineage g' h' = before_in_lineage g h"
  by (simp add: before_in_lineage_def same_grantD)

lemma minted_later:
  "g \<in> set (grants c) \<Longrightarrow> h \<in> set (minted au p v od mref did gid t c) \<Longrightarrow> before_in_lineage g h"
  using max_generation_ge [of g c] minted_fields [of h au p v od mref did gid t c]
  by (auto simp: before_in_lineage_def)

lemma lineage_sorted_step:
  assumes s: "lifecycle_step x au c c'" and k: "keys_ok c" and ok: "sorted_wrt before_in_lineage (grants c)"
  shows "sorted_wrt before_in_lineage (grants c')"
  using s k
proof (cases rule: step_grants)
  case (mapped h)
  have "sorted_wrt (\<lambda>a b. before_in_lineage (h a) (h b)) (grants c)"
  proof (rule sorted_wrt_mono_rel [OF _ ok])
    fix a b assume "a \<in> set (grants c)" "b \<in> set (grants c)" "before_in_lineage a b"
    with mapped(2) show "before_in_lineage (h a) (h b)"
      by (simp add: before_same [OF grant_moves_same [of a "h a"] grant_moves_same [of b "h b"]])
  qed
  with mapped(1) show ?thesis by (simp add: sorted_wrt_map)
next
  case (minted p who bus did gid t)
  with ok show ?thesis
    by (auto simp: sorted_wrt_append minted_later) (simp add: minted_def)
qed

text \<open>
  C2: generations are minted strictly upward. Of two Grants of one Owner Domain and one
  hardware identity, the later one has the greater Claim generation, so no two Grants of a
  lineage ever share a generation.
\<close>

theorem generations_increase:
  "sorted_wrt before_in_lineage (grants (run x au pj rs))"
proof -
  have "sorted_wrt before_in_lineage (grants (core (run x au pj rs)))"
    by (rule run_invariant [where P = "\<lambda>c. sorted_wrt before_in_lineage (grants c)"])
      (simp add: empty_db_def core_simps, rule lineage_sorted_step)
  then show ?thesis by (simp add: core_simps)
qed

text \<open>
  A DeviceRef names one Grant, provided the SDK derives different device instance ids
  for keys with different key ids (the instance id is a function of the key id).
\<close>

theorem device_refs_unique:
  assumes sdk: "\<And>s t. sdk_derive_device_instance_id x s \<noteq> None \<Longrightarrow>
      sdk_derive_device_instance_id x s = sdk_derive_device_instance_id x t \<Longrightarrow>
      sdk_operational_key_id x s = sdk_operational_key_id x t"
  shows "distinct (map gr_device_ref (grants (run x au pj rs)))"
proof -
  let ?db = "run x au pj rs"
  have "g = h" if g: "g \<in> set (grants ?db)" and h: "h \<in> set (grants ?db)"
      and eq: "gr_device_ref g = gr_device_ref h" for g h
  proof -
    have o1: "grant_origin au (core ?db) g" "grant_origin au (core ?db) h"
      using run_ok(1) [of au x pj rs] g h by (simp_all add: grants_ok_def core_simps)
    obtain p where p: "p \<in> set (proposals ?db)" "gr_hardware_identity_ref g = pr_hardware_identity_ref p"
        "gr_device_ref g = grant_ref au p (gr_owner_domain_id g) (gr_claim_generation g)"
      using o1(1) unfolding grant_origin_def core_select by blast
    obtain q where q: "q \<in> set (proposals ?db)" "gr_hardware_identity_ref h = pr_hardware_identity_ref q"
        "gr_device_ref h = grant_ref au q (gr_owner_domain_id h) (gr_claim_generation h)"
      using o1(2) unfolding grant_origin_def core_select by blast
    have same: "pr_device_instance_id p = pr_device_instance_id q"
        "gr_owner_domain_id g = gr_owner_domain_id h" "gr_claim_generation g = gr_claim_generation h"
      using eq p(3) q(3) by (simp_all add: grant_ref_def)
    have id: "identity_ok x au (core ?db)" by (rule run_ok(8))
    then have "key_id x (pr_operational_public_key_spki p) = Inr (pr_operational_key_id p)"
        "key_id x (pr_operational_public_key_spki q) = Inr (pr_operational_key_id q)"
        "sdk_derive_device_instance_id x (pr_operational_public_key_spki p) = Some (pr_device_instance_id p)"
        "sdk_derive_device_instance_id x (pr_operational_public_key_spki q) = Some (pr_device_instance_id q)"
      using p(1) q(1) by (simp_all add: identity_ok_def core_simps)
    with same(1) sdk [of "pr_operational_public_key_spki p" "pr_operational_public_key_spki q"]
    have "pr_operational_key_id p = pr_operational_key_id q"
      by (simp add: key_id_def present_def split: option.splits)
    moreover obtain b c where b: "b \<in> set (base_identities ?db)" "bi_operational_key_id b = pr_operational_key_id p"
        "bi_hardware_identity_ref b = pr_hardware_identity_ref p"
      and c: "c \<in> set (base_identities ?db)" "bi_operational_key_id c = pr_operational_key_id q"
        "bi_hardware_identity_ref c = pr_hardware_identity_ref q"
      using id p(1) q(1) unfolding identity_ok_def core_select by blast
    ultimately have "b = c" using distinct_key_eq [OF run_keys(5) b(1) c(1)] by simp
    with b c p(2) q(2) same(2,3) run_ok(2) [of x au pj rs] g h show ?thesis
      by (simp add: lineage_ok_def core_simps)
  qed
  with run_keys(2) [of x au pj rs] show ?thesis
    unfolding distinct_map by (auto intro!: inj_onI)
qed

theorem device_refs_unique_witness:
  "distinct (map gr_device_ref (grants (small_run acked_run))) \<and> grants (small_run acked_run) \<noteq> []"
proof
  show "distinct (map gr_device_ref (grants (small_run acked_run)))"
    by (rule device_refs_unique) (simp add: small_world_def)
  show "grants (small_run acked_run) \<noteq> []" using acked_summary by (auto simp: summary_def)
qed

section \<open>Proposals over time\<close>

definition proposal_transition :: "proposal_state \<Rightarrow> proposal_state \<Rightarrow> bool" where
  "proposal_transition s t = (t \<in> set (allowed_proposal_transitions s))"

definition proposal_history :: "proposal_row \<Rightarrow> proposal_row \<Rightarrow> bool" where
  "proposal_history p q = (same_proposal p q \<and> pr_revision p \<le> pr_revision q
     \<and> proposal_transition\<^sup>*\<^sup>* (pr_state p) (pr_state q)
     \<and> (if pr_state p \<in> set terminal_proposal_states \<or> pr_revision q = pr_revision p
         then q = p else True))"

lemma same_proposal_trans:
  assumes "same_proposal p q" "same_proposal q r"
  shows "same_proposal p r"
proof -
  from assms(1) obtain s n t where q: "q = p\<lparr>pr_state := s, pr_revision := n, pr_updated_at := t\<rparr>"
    unfolding same_proposal_def by blast
  from assms(2) obtain s' n' t' where "r = q\<lparr>pr_state := s', pr_revision := n', pr_updated_at := t'\<rparr>"
    unfolding same_proposal_def by blast
  with q show ?thesis by (simp add: same_proposal_def)
qed

lemma history_step:
  assumes h: "proposal_history p q" and m: "proposal_moves q r"
  shows "proposal_history p r"
proof (cases "r = q")
  case False
  with m have r: "same_proposal q r" "pr_revision r = pr_revision q + 1"
      "proposal_transition (pr_state q) (pr_state r)"
    by (auto simp: proposal_moves_def proposal_transition_def)
  have "pr_state p \<notin> set terminal_proposal_states"
  proof
    assume t: "pr_state p \<in> set terminal_proposal_states"
    with h have "q = p" by (simp add: proposal_history_def)
    with t r(3) show False by (cases "pr_state p") (auto simp: terminal_proposal_states_def proposal_transition_def)
  qed
  with h r show ?thesis
    by (auto simp: proposal_history_def intro: same_proposal_trans rtranclp.rtrancl_into_rtrancl)
qed (use h in simp)

lemma history_refl: "proposal_history p p"
  by (simp add: proposal_history_def)

lemma lifecycle_history:
  assumes "lifecycle x au c c'" "keys_ok c" "p \<in> set (proposals c)"
  shows "\<exists>q \<in> set (proposals c'). proposal_history p q"
  using assms(1)
proof (induction rule: rtranclp_induct)
  case base
  then show ?case using assms(3) history_refl by blast
next
  case (step d e)
  then obtain q where q: "q \<in> set (proposals d)" "proposal_history p q" by blast
  obtain f new where f: "proposals e = map f (proposals d) @ new"
      "\<forall>p \<in> set (proposals d). proposal_moves p (f p)"
    by (rule step_proposals [OF step(2) lifecycle_keys [OF step(1) assms(2)]])
  from history_step [OF q(2)] f(2) q(1) have "proposal_history p (f q)" by blast
  with f(1) q(1) show ?case by auto
qed

lemma run_append: "lifecycle x au (core (run x au pj rs)) (core (run x au pj (rs @ rs')))"
proof (induction rs' rule: rev_induct)
  case (snoc r rs')
  from execute_commits [OF keys_ok_run, of x au x au pj "rs @ rs'" pj r] snoc
  show ?case by (auto simp: run_def intro: rtranclp_trans)
qed simp

text \<open>
  C3: the content of a Proposal is immutable. Whatever requests follow, the Enrollment is
  still there with every field but state, revision and update time as it was; its state
  moved along allowed transitions, its revision only grew, and a Proposal in a terminal
  state, or whose revision did not change, is the very same row.
\<close>

theorem proposal_content_immutable:
  assumes "p \<in> set (proposals (run x au pj rs))"
  shows "\<exists>q \<in> set (proposals (run x au pj (rs @ rs'))). proposal_history p q"
  using lifecycle_history [OF run_append keys_ok_run, of p x au pj rs rs'] assms
  by (simp add: core_simps)

lemma delivered_has_proposal:
  "proposals (small_run delivered_run) \<noteq> [] \<and> pr_state (hd (proposals (small_run delivered_run))) = Grant_delivered"
  using delivered_summary by (auto simp: summary_def)

theorem proposal_content_immutable_witness:
  "\<exists>q \<in> set (proposals (small_run acked_run)).
     proposal_history (hd (proposals (small_run delivered_run))) q"
  unfolding acked_run_def
  by (rule proposal_content_immutable) (use delivered_has_proposal in simp)

text \<open>
  C4: the tables agree with the state of a Proposal: before a Decision there is neither
  Decision nor Grant, a rejected Enrollment has no Grant, an approved one has the unsealed
  Grant of its Decision, a delivered one its sealed envelope, an acknowledged one its ACK,
  and the Grant of an expired or revoked one is itself revoked.
\<close>

theorem proposal_phase:
  assumes "p \<in> set (proposals (run x au pj rs))"
  shows "phase_ok (pr_state p)
    (get_decision_for_enrollment (run x au pj rs) (pr_enrollment_id p))
    (get_grant_for_enrollment (run x au pj rs) (pr_enrollment_id p))
    (get_ack_for_enrollment (run x au pj rs) (pr_enrollment_id p))"
  using run_ok(5) [where x = x and au = au and pj = pj and rs = rs] assms
  by (simp add: phases_ok_def core_simps)

theorem proposal_phase_witness:
  "phase_ok Grant_delivered
    (get_decision_for_enrollment (small_run delivered_run) (pr_enrollment_id (hd (proposals (small_run delivered_run)))))
    (get_grant_for_enrollment (small_run delivered_run) (pr_enrollment_id (hd (proposals (small_run delivered_run)))))
    (get_ack_for_enrollment (small_run delivered_run) (pr_enrollment_id (hd (proposals (small_run delivered_run)))))"
  using proposal_phase [of "hd (proposals (small_run delivered_run))" small_world small_authority None delivered_run]
    delivered_has_proposal by simp

end
