(* ===== verification/Admission_Replay.thy ===== *)
theory Admission_Replay
  imports Scenario
begin

text \<open>
  Idempotency.  Every command stores its result under its command id and fingerprint, and
  a command whose id is known never runs again: the same content is answered with the
  stored result, different content with a conflict.  The contract is a locale, proved once
  and interpreted on the six commands.
\<close>

section \<open>The contract\<close>

locale idempotent_command =
  fixes handle :: "'a \<Rightarrow> 'clock \<Rightarrow> command_result handler"
    and owner_of :: "'a \<Rightarrow> string" and command_type :: "'a \<Rightarrow> string"
    and id_of :: "'a \<Rightarrow> string" and print_of :: "'a \<Rightarrow> string"
    and admitted :: "'a \<Rightarrow> bool"
    and later :: "hub_db \<Rightarrow> hub_db \<Rightarrow> bool"
  assumes replayed: "admitted a \<Longrightarrow>
      replay_in_session db (owner_of a) (command_type a) (id_of a) (print_of a) = Inr (Some r) \<Longrightarrow>
      handle a c db = (db, Inr r)"
    and clashes: "admitted a \<Longrightarrow>
      replay_in_session db (owner_of a) (command_type a) (id_of a) (print_of a) = Inl e \<Longrightarrow>
      handle a c db = (db, Inl e)"
    and saved: "handle a c db = (db', Inr r) \<Longrightarrow> cr_outcome r = Committed \<Longrightarrow>
      admitted a \<and> replay_in_session db' (owner_of a) (command_type a) (id_of a) (print_of a)
        = Inr (Some (r\<lparr>cr_outcome := Replayed\<rparr>))"
    and lasting: "later db db' \<Longrightarrow>
      replay_in_session db ow ct cid fp = Inr (Some r) \<Longrightarrow> replay_in_session db' ow ct cid fp = Inr (Some r)"
begin

lemma repeated:
  assumes "handle a c db = (db', Inr r)" "cr_outcome r = Committed" "later db' db''"
  shows "handle a c' db'' = (db'', Inr (r\<lparr>cr_outcome := Replayed\<rparr>))"
  using saved [OF assms(1,2)] lasting [OF assms(3)] by (blast intro: replayed)

text \<open>Reusing the id for other content of the same command type is refused.\<close>

lemma reused:
  assumes first: "handle a c db = (db', Inr r)" "cr_outcome r = Committed" and "later db' db''"
    and b: "admitted b" "owner_of b = owner_of a" "command_type b = command_type a"
      "id_of b = id_of a" "print_of b \<noteq> print_of a"
  shows "handle b c' db'' = (db'', Inl (conflict ''IDEMPOTENCY_CONFLICT''
           ''command_id was reused with different canonical payload''))"
proof (rule clashes [OF b(1)])
  have "replay_in_session db'' (owner_of a) (command_type a) (id_of a) (print_of a)
      = Inr (Some (r\<lparr>cr_outcome := Replayed\<rparr>))"
    using saved [OF first] lasting [OF assms(3)] by blast
  then show "replay_in_session db'' (owner_of b) (command_type b) (id_of b) (print_of b) =
      Inl (conflict ''IDEMPOTENCY_CONFLICT'' ''command_id was reused with different canonical payload'')"
    using b(2-5) by (auto simp: replay_in_session_def split: option.splits if_splits)
qed

end

section \<open>Results are only ever added\<close>

definition results_kept :: "hub_db \<Rightarrow> hub_db \<Rightarrow> bool" where
  "results_kept db db' =
     (take (length (command_results db)) (command_results db') = command_results db)"

lemma results_kept_iff: "results_kept db db' \<longleftrightarrow> (\<exists>t. command_results db' = command_results db @ t)"
  by (metis append_eq_conv_conj append_take_drop_id results_kept_def)

lemma results_kept_refl [simp]: "results_kept db db"
  by (simp add: results_kept_def)

lemma results_kept_trans: "results_kept a b \<Longrightarrow> results_kept b c \<Longrightarrow> results_kept a c"
  by (auto simp: results_kept_iff)

lemma results_same: "command_results db' = command_results db \<Longrightarrow> results_kept db db'"
  by (simp add: results_kept_def)

lemma replay_kept:
  assumes "results_kept db db'" "replay_in_session db ow ct cid fp = Inr (Some r)"
  shows "replay_in_session db' ow ct cid fp = Inr (Some r)"
  using assms
  by (auto simp: results_kept_iff replay_in_session_def tget_append split: option.splits if_splits)

lemma save_result_replay:
  assumes "save_result ow ct cid fp r t db = Inr db'"
  shows "replay_in_session db' ow ct cid fp = Inr (Some (r\<lparr>cr_outcome := Replayed\<rparr>))"
    and "results_kept db db'"
proof -
  let ?row = "\<lparr>rs_owner_domain_id = ow, rs_command_type = ct, rs_command_id = cid,
    rs_fingerprint = fp, rs_result = r, rs_occurred_at = t\<rparr>"
  from assms have d: "\<forall>a \<in> set (command_results db). result_key ?row \<noteq> result_key a"
    "db' = db\<lparr>command_results := command_results db @ [?row]\<rparr>"
    by (auto simp: save_result_def ok_iff)
  then have "tget result_key (ow, ct, cid) (command_results db) = None"
    by (auto simp: tget_None_iff result_key_def image_iff)
  with d(2) show "replay_in_session db' ow ct cid fp = Inr (Some (r\<lparr>cr_outcome := Replayed\<rparr>))"
    by (simp add: replay_in_session_def tget_append tget_Cons result_key_def)
  from d(2) show "results_kept db db'" by (simp add: results_kept_iff)
qed

section \<open>What the transactions do to the results\<close>

definition stores :: "string \<Rightarrow> string \<Rightarrow> string \<Rightarrow> string \<Rightarrow> command_result tx \<Rightarrow> bool" where
  "stores ow ct cid fp f = (\<forall>db r db'. f db = Inr (r, db') \<longrightarrow> results_kept db db'
     \<and> (cr_outcome r = Committed \<longrightarrow>
          replay_in_session db' ow ct cid fp = Inr (Some (r\<lparr>cr_outcome := Replayed\<rparr>))))"

lemma replay_cong: "command_results db' = command_results db \<Longrightarrow>
    replay_in_session db' ow ct cid fp = replay_in_session db ow ct cid fp"
  by (simp add: replay_in_session_def)

lemma replay_outcome: "replay_in_session db ow ct cid fp = Inr (Some r) \<Longrightarrow> cr_outcome r = Replayed"
  by (auto simp: replay_in_session_def split: option.splits if_splits)

text \<open>A transaction that writes its tables, saves the result and then only publishes.\<close>

definition saved_via :: "string \<Rightarrow> string \<Rightarrow> string \<Rightarrow> string \<Rightarrow> command_result \<Rightarrow> hub_db \<Rightarrow> hub_db \<Rightarrow> bool" where
  "saved_via ow ct cid fp r db db' = (\<exists>db1 db2 t. command_results db1 = command_results db
      \<and> save_result ow ct cid fp r t db1 = Inr db2 \<and> command_results db' = command_results db2)"

lemma saved_viaI: "save_result ow ct cid fp r t db1 = Inr db2 \<Longrightarrow>
    command_results db1 = command_results db \<Longrightarrow> command_results db' = command_results db2 \<Longrightarrow>
    saved_via ow ct cid fp r db db'"
  by (auto simp: saved_via_def)

lemma stores_rule:
  assumes "\<And>db r db'. f db = Inr (r, db') \<Longrightarrow> saved_via ow ct cid fp r db db'"
  shows "stores ow ct cid fp (locked_replay ow ct cid fp f)"
  unfolding stores_def
proof (intro allI impI)
  fix db r db'
  assume l: "locked_replay ow ct cid fp f db = Inr (r, db')"
  consider (known) "replay_in_session db ow ct cid fp = Inr (Some r)" "db' = db"
    | (new) "replay_in_session db ow ct cid fp = Inr None" "f db = Inr (r, db')"
  proof (cases "replay_in_session db ow ct cid fp")
    case (Inr w)
    show thesis
    proof (cases w)
      case None
      show thesis by (rule that(2)) (use l Inr None in \<open>simp_all add: locked_replay_def\<close>)
    next
      case (Some res)
      show thesis by (rule that(1)) (use l Inr Some in \<open>simp_all add: locked_replay_def\<close>)
    qed
  qed (use l in \<open>simp add: locked_replay_def\<close>)
  then show "results_kept db db' \<and> (cr_outcome r = Committed \<longrightarrow>
      replay_in_session db' ow ct cid fp = Inr (Some (r\<lparr>cr_outcome := Replayed\<rparr>)))"
  proof cases
    case known
    then show ?thesis by (auto dest: replay_outcome)
  next
    case new
    from assms [OF new(2)] obtain db1 db2 t where w: "command_results db1 = command_results db"
        "save_result ow ct cid fp r t db1 = Inr db2" "command_results db' = command_results db2"
      unfolding saved_via_def by blast
    from save_result_replay [OF w(2)] w(1,3) show ?thesis
      using replay_cong [OF w(3)] by (auto simp: results_kept_def)
  qed
qed

lemma publish_results: "publish x ty sub agg own rv cid corr t pay db = Inr db' \<Longrightarrow>
    command_results db' = command_results db"
  by (simp add: publish_core)

lemma upsert_results [simp]: "command_results (snd (upsert_claim c db)) = command_results db"
  by (simp add: upsert_claim_def Let_def update_claim_def split: option.splits)

lemma update_results [simp]:
  "command_results (update_claim i f db) = command_results db"
  "command_results (update_device i g db) = command_results db"
  by (simp_all add: update_claim_def update_device_def)

lemma project_results:
  "project_active_claim x ref ow mid mj md mr t db = Inr db' \<Longrightarrow> command_results db' = command_results db"
  "command_results (project_revoked_claim ref t db) = command_results db"
proof -
  assume a: "project_active_claim x ref ow mid mj md mr t db = Inr db'"
  then obtain doc where "json_loads x mj = Some (JObj doc)" by (rule project_active_claimD)
  with a show "command_results db' = command_results db"
    by (auto simp: project_active_claim_def Let_def split: option.splits)
qed (simp add: project_revoked_claim_def split: option.splits)

lemma activate_results:
  assumes "activate_claim x t pf p g db = Inr (v, db')"
  shows "command_results db' = command_results db"
  using assms
proof (rule activate_claimD)
  fix db1 d n db2 db3
  assume a: "add_grant_ack \<lparr>ga_grant_id = gr_grant_id g, ga_enrollment_id = pr_enrollment_id p,
       ga_proof_fingerprint = ''sha256:'' @ sha256_hex x pf, ga_device_ref = gr_device_ref g,
       ga_acknowledged_at = t\<rparr> db = Inr db1"
    "upsert_claim (claim_for (gr_device_ref g) (dc_target_business_owner_id d) g p Active (Some t)
       t None) db1 = (n, db2)"
    "project_active_claim x (gr_device_ref g) (dc_target_business_owner_id d) (pr_manifest_id p)
       (pr_manifest_json p) (pr_manifest_digest p) (pr_manifest_revision p) t db2 = Inr db3"
    "db' = set_proposal_state (pr_enrollment_id p) Grant_acknowledged t db3"
  have "command_results db1 = command_results db" using a(1) by (auto simp: add_grant_ack_def ok_iff)
  moreover have "command_results db2 = command_results db1" using a(2) upsert_results by (metis snd_conv)
  ultimately show ?thesis using project_results(1) [OF a(3)] a(4) by simp
qed

lemma revoke_standing_results [simp]:
  "command_results (revoke_standing_claim t c db) = command_results db"
  by (simp add: revoke_standing_claim_def Let_def split: option.splits)

lemma revoke_unclaimed_results:
  "revoke_unclaimed ref t g db = Inr db' \<Longrightarrow> command_results db' = command_results db"
  by (auto simp: revoke_unclaimed_def Let_def ok_iff)

lemma claim_standing_results:
  "claim_standing v ow hw key t db = Inr db' \<Longrightarrow> command_results db' = command_results db"
  by (erule claim_standing_cases; auto elim!: bind_base_identity_cases dest!: consume_voucher_cases(2))

lemma new_id_results: "new_id x pre db = (i, db') \<Longrightarrow> command_results db' = command_results db"
  by (simp add: new_id_effect)

lemma decide_results:
  assumes "decide_in_session x au p v who od own mref cid corr now db = Inr (out, db')"
  shows "command_results db' = command_results db"
proof -
  obtain dec gid where "out = (dec, gid)" by (cases out)
  with assms show ?thesis by (auto elim: decide_in_session_effect)
qed

lemma apply_standing_results:
  "apply_standing x au t cid corr p v mref db = Inr db' \<Longrightarrow> command_results db' = command_results db"
  by (auto simp: apply_standing_def ok_iff split: option.splits dest!: decide_results)

lemma expire_each_results: "expire_each x t ps db = Inr db' \<Longrightarrow> command_results db' = command_results db"
  by (induction ps arbitrary: db) (auto simp: ok_iff dest!: expire_one_effect)

lemma expire_due_results: "expire_due x t db = Inr (n, db') \<Longrightarrow> command_results db' = command_results db"
  by (auto simp: expire_due_def Let_def ok_iff dest: expire_each_results)

section \<open>The six commands store their result\<close>

lemma cancel_stores:
  "stores (ctx_owner_domain_id ctx) cancel_command cid fp (cancel_tx x now cid corr eid reason ctx fp)"
  unfolding cancel_tx_def Let_def
  by (rule stores_rule) (auto simp: ok_iff intro: saved_viaI dest!: publish_results)

lemma decide_stores:
  "stores (dp_target_owner_domain_id payload) decide_command cid fp
     (decide_tx x au now cid corr eid payload ctx fp)"
  unfolding decide_tx_def Let_def
  by (rule stores_rule) (auto simp: ok_iff intro: saved_viaI dest!: decide_results)

lemma deliver_results:
  "deliver_grant x au eph now n p g db = Inr (v, db') \<Longrightarrow> command_results db' = command_results db"
  by (auto simp: deliver_grant_def ok_iff split: option.splits)

lemma collect_stores:
  "stores (au_owner_domain_id au) collect_command cid fp
     (collect_tx x au eph now cid corr eid n ch pf fp)"
  unfolding collect_tx_def Let_def
  by (rule stores_rule)
    (auto simp: ok_iff intro: saved_viaI dest!: deliver_results publish_results split: if_splits)

lemma ack_stores:
  "stores (au_owner_domain_id au) ack_command cid fp (ack_tx x au now cid corr eid gid pf n ep fp)"
  unfolding ack_tx_def Let_def
  by (rule stores_rule)
    (auto simp: ok_iff intro: saved_viaI dest!: activate_results publish_results)

lemma finish_saved:
  "finish_revocation x now ow cid corr ref rs fp n db = Inr (r, db') \<Longrightarrow>
   saved_via ow revoke_command cid fp r db db'"
  by (auto simp: finish_revocation_def Let_def ok_iff project_results(2) intro!: saved_viaI
      dest!: add_outbox_core new_id_results split: prod.splits)

lemma saved_via_from: "saved_via ow ct cid fp r db1 db' \<Longrightarrow> command_results db1 = command_results db \<Longrightarrow>
    saved_via ow ct cid fp r db db'"
  by (simp add: saved_via_def)

lemma revoke_stores:
  "stores (ctx_owner_domain_id ctx) revoke_command cid fp (revoke_tx x now cid corr ref reason ctx fp)"
  unfolding revoke_tx_def Let_def
  by (rule stores_rule)
    (auto simp: ok_iff split: option.splits if_splits dest!: finish_saved revoke_unclaimed_results
      intro: saved_viaI saved_via_from)

lemma create_stores:
  "stores (ep_requested_owner_domain_id payload) create_command cid fp
     (create_tx x au now cid corr payload keys v hw mj fp)"
  unfolding create_tx_def Let_def
  by (rule stores_rule)
    (auto simp: ok_iff add_proposal_def insert_proposal_row_def intro: saved_viaI split: prod.splits
      dest!: claim_standing_results apply_standing_results publish_results new_id_results)

section \<open>Handlers\<close>

definition handler_stores :: "string \<Rightarrow> string \<Rightarrow> string \<Rightarrow> string \<Rightarrow> command_result handler \<Rightarrow> bool" where
  "handler_stores ow ct cid fp h = (\<forall>db r db'. h db = (db', Inr r) \<longrightarrow> cr_outcome r = Committed \<longrightarrow>
     replay_in_session db' ow ct cid fp = Inr (Some (r\<lparr>cr_outcome := Replayed\<rparr>)))"

lemma run_tx_stores:
  assumes "stores ow ct cid fp f"
  shows "handler_stores ow ct cid fp (run_tx f)"
  using assms
  by (auto simp: stores_def handler_stores_def run_tx_def split: sum.splits)

lemma with_expiry_stores:
  "handler_stores ow ct cid fp h \<Longrightarrow> handler_stores ow ct cid fp (with_expiry x t h)"
  by (auto simp: handler_stores_def with_expiry_def split: prod.splits sum.splits)

lemma with_replay_stores:
  assumes "handler_stores ow ct cid fp h"
  shows "handler_stores ow ct cid fp (with_replay ow ct cid fp h)"
  using assms
  by (auto simp: handler_stores_def with_replay_def split: sum.splits option.splits dest: replay_outcome)

lemma guarded_stores: "(g = Inr () \<Longrightarrow> handler_stores ow ct cid fp h) \<Longrightarrow> handler_stores ow ct cid fp (guarded g h)"
  by (auto simp: handler_stores_def guarded_def split: sum.splits)

lemma then_project_None: "then_project None h = h"
  by (rule ext) (simp add: then_project_def project_committed_claim_def split: prod.splits sum.splits)

lemma stores_kept: "stores ow ct cid fp f \<Longrightarrow> f db = Inr (r, db') \<Longrightarrow> results_kept db db'"
  by (simp add: stores_def)

interpretation results: transactional x au results_kept for x au
proof unfold_locales
  fix w db show "results_kept db (snd (record_controller_withdrawal w db))"
    by (rule results_same) (auto simp: record_controller_withdrawal_def split: option.splits)
next
  fix s db b db' assume "store_commissioning_standing s db = Inr (b, db')"
  then show "results_kept db db'"
    by (intro results_same) (auto simp: store_commissioning_standing_def split: option.splits if_splits)
next
  fix i t db db' assume "mark_published i t db = Inr db'"
  then show "results_kept db db'"
    by (intro results_same) (auto simp: mark_published_def split: option.splits if_splits)
next
  fix i e db show "results_kept db (record_publish_failure i e db)"
    by (rule results_same) (auto simp: record_publish_failure_def split: option.splits)
qed (auto intro: results_kept_trans results_same expire_due_results stores_kept [OF create_stores]
    stores_kept [OF cancel_stores] stores_kept [OF decide_stores] stores_kept [OF collect_stores]
    stores_kept [OF ack_stores] stores_kept [OF revoke_stores])

section \<open>The commands as one family\<close>

text \<open>
  \<open>respond\<close> is what the caller of a command gets, with no directory projector installed.
  A command sent again has the same content and later clock readings (\<open>retimed\<close>).
\<close>

fun respond :: "external \<Rightarrow> authority \<Rightarrow> request \<Rightarrow> command_result handler" where
  "respond x au (Create_enrollment t cid corr payload) = create_enrollment x au t cid corr payload"
| "respond x au (Cancel_enrollment t0 t cid corr eid reason who) =
     as_actor who (cancel_enrollment x t0 t cid corr eid reason)"
| "respond x au (Decide_enrollment t0 t cid corr eid payload who) =
     as_actor who (decide_enrollment x au t0 t cid corr eid payload)"
| "respond x au (Collect_claim_grant eph t0 t cid corr eid n challenge pf) =
     collect_claim_grant x au eph t0 t cid corr eid n challenge pf"
| "respond x au (Ack_claim_grant t0 t cid corr eid gid pf n ep) =
     ack_claim_grant x au None t0 t cid corr eid gid pf n ep"
| "respond x au (Revoke_claim t cid corr ref reason who) =
     as_actor who (revoke_claim x t cid corr ref reason)"
| "respond x au _ = (\<lambda>db. (db, Inl (Type_error ''not a command'')))"

fun retimed :: "instant \<times> instant \<times> nat \<Rightarrow> request \<Rightarrow> request" where
  "retimed (t0, t, n) (Create_enrollment _ cid corr payload) = Create_enrollment t cid corr payload"
| "retimed (t0, t, n) (Cancel_enrollment _ _ cid corr eid reason who) =
     Cancel_enrollment t0 t cid corr eid reason who"
| "retimed (t0, t, n) (Decide_enrollment _ _ cid corr eid payload who) =
     Decide_enrollment t0 t cid corr eid payload who"
| "retimed (t0, t, n) (Collect_claim_grant _ _ _ cid corr eid rv challenge pf) =
     Collect_claim_grant n t0 t cid corr eid rv challenge pf"
| "retimed (t0, t, n) (Ack_claim_grant _ _ cid corr eid gid pf g ep) =
     Ack_claim_grant t0 t cid corr eid gid pf g ep"
| "retimed (t0, t, n) (Revoke_claim _ cid corr ref reason who) =
     Revoke_claim t cid corr ref reason who"
| "retimed _ rq = rq"

fun command_owner :: "authority \<Rightarrow> request \<Rightarrow> string" where
  "command_owner au (Create_enrollment _ _ _ payload) = ep_requested_owner_domain_id payload"
| "command_owner au (Cancel_enrollment _ _ _ _ _ _ who) = ca_owner_domain_id who"
| "command_owner au (Decide_enrollment _ _ _ _ _ payload _) = dp_target_owner_domain_id payload"
| "command_owner au (Revoke_claim _ _ _ _ _ who) = ca_owner_domain_id who"
| "command_owner au _ = au_owner_domain_id au"

fun command_type_of :: "request \<Rightarrow> string" where
  "command_type_of (Create_enrollment _ _ _ _) = create_command"
| "command_type_of (Cancel_enrollment _ _ _ _ _ _ _) = cancel_command"
| "command_type_of (Decide_enrollment _ _ _ _ _ _ _) = decide_command"
| "command_type_of (Collect_claim_grant _ _ _ _ _ _ _ _ _) = collect_command"
| "command_type_of (Ack_claim_grant _ _ _ _ _ _ _ _ _) = ack_command"
| "command_type_of (Revoke_claim _ _ _ _ _ _) = revoke_command"
| "command_type_of _ = []"

fun command_id_of :: "request \<Rightarrow> string" where
  "command_id_of (Create_enrollment _ cid _ _) = cid"
| "command_id_of (Cancel_enrollment _ _ cid _ _ _ _) = cid"
| "command_id_of (Decide_enrollment _ _ cid _ _ _ _) = cid"
| "command_id_of (Collect_claim_grant _ _ _ cid _ _ _ _ _) = cid"
| "command_id_of (Ack_claim_grant _ _ cid _ _ _ _ _ _) = cid"
| "command_id_of (Revoke_claim _ cid _ _ _ _) = cid"
| "command_id_of _ = []"

fun command_content :: "external \<Rightarrow> request \<Rightarrow> command_payload option" where
  "command_content x (Create_enrollment _ _ _ payload) = Some (Create_payload payload)"
| "command_content x (Cancel_enrollment _ _ _ _ eid reason who) =
     Some (Cancel_payload eid reason (ca_actor who))"
| "command_content x (Decide_enrollment _ _ _ _ eid payload who) =
     Some (Decide_payload payload eid (ca_actor who))"
| "command_content x (Collect_claim_grant _ _ _ _ _ eid rv challenge pf) =
     Some (Collect_payload eid rv (sha256_hex x challenge) pf)"
| "command_content x (Ack_claim_grant _ _ _ _ eid gid pf g ep) = Some (Ack_payload eid gid pf g ep)"
| "command_content x (Revoke_claim _ _ _ ref reason _) = Some (Revoke_payload ref reason)"
| "command_content x _ = None"

definition command_print :: "external \<Rightarrow> authority \<Rightarrow> request \<Rightarrow> string" where
  "command_print x au rq =
     (case command_content x rq of
        Some content \<Rightarrow> fingerprint x (command_type_of rq) (command_owner au rq) content
      | None \<Rightarrow> [])"

definition caller_ok :: "caller \<Rightarrow> string \<Rightarrow> bool" where
  "caller_ok who sc = (actor_owner_domain_id (ca_actor who) = ca_owner_domain_id who
     \<and> sc \<in> set (granted_scopes (ca_actor who)))"

fun command_admitted :: "authority \<Rightarrow> request \<Rightarrow> bool" where
  "command_admitted au (Create_enrollment _ _ _ payload) =
     (ep_requested_owner_domain_id payload = au_owner_domain_id au)"
| "command_admitted au (Cancel_enrollment _ _ _ _ _ _ who) = caller_ok who ''device.claim.approve''"
| "command_admitted au (Decide_enrollment _ _ _ _ _ payload who) =
     (caller_ok who ''device.claim.approve''
      \<and> dp_target_owner_domain_id payload = ca_owner_domain_id who
      \<and> dp_target_business_owner_id payload = ca_business_owner_id who)"
| "command_admitted au (Collect_claim_grant _ _ _ _ _ _ _ _ _) = True"
| "command_admitted au (Ack_claim_grant _ _ _ _ _ _ _ _ _) = True"
| "command_admitted au (Revoke_claim _ _ _ ref _ who) =
     (caller_ok who ''device.claim.revoke'' \<and> ref_owner_domain_id ref = ca_owner_domain_id who)"
| "command_admitted au _ = False"

text \<open>Every command is its guards, then the replay check, then its own work.\<close>

definition command_shape :: "external \<Rightarrow> authority \<Rightarrow> request \<Rightarrow> command_result handler \<Rightarrow> command_result handler \<Rightarrow> bool" where
  "command_shape x au rq h k = ((command_admitted au rq \<longrightarrow> h = with_replay (command_owner au rq)
       (command_type_of rq) (command_id_of rq) (command_print x au rq) k)
     \<and> (\<not> command_admitted au rq \<longrightarrow> (\<forall>db. \<exists>e. h db = (db, Inl e)))
     \<and> handler_stores (command_owner au rq) (command_type_of rq) (command_id_of rq) (command_print x au rq) k)"

definition context_of :: "caller \<Rightarrow> actor_context" where
  "context_of who = \<lparr>actor = ca_actor who, ctx_owner_domain_id = ca_owner_domain_id who,
     ctx_business_owner_id = ca_business_owner_id who\<rparr>"

lemma as_actor_simps:
  "actor_owner_domain_id (ca_actor who) = ca_owner_domain_id who \<Longrightarrow> as_actor who h db = h (context_of who) db"
  "actor_owner_domain_id (ca_actor who) \<noteq> ca_owner_domain_id who \<Longrightarrow> \<exists>e. as_actor who h db = (db, Inl e)"
  by (auto simp: as_actor_def actor_context_new_def context_of_def)

lemma shape_caller:
  assumes "command_admitted au rq \<longrightarrow> caller_ok who sc"
    and "actor_owner_domain_id (ca_actor who) = ca_owner_domain_id who \<Longrightarrow>
      command_shape x au rq (h (context_of who)) k"
    and "actor_owner_domain_id (ca_actor who) \<noteq> ca_owner_domain_id who \<Longrightarrow>
      handler_stores (command_owner au rq) (command_type_of rq) (command_id_of rq) (command_print x au rq) k"
  shows "command_shape x au rq (as_actor who h) k"
proof (cases "actor_owner_domain_id (ca_actor who) = ca_owner_domain_id who")
  case True
  then have "as_actor who h = h (context_of who)" by (simp add: as_actor_simps fun_eq_iff)
  with assms(2) True show ?thesis by simp
next
  case False
  have "\<exists>e. as_actor who h db = (db, Inl e)" for db by (rule as_actor_simps(2) [OF False])
  with assms(1,3) False show ?thesis by (simp add: command_shape_def caller_ok_def)
qed

lemma handler_stores_const: "(\<And>db. \<exists>e. h db = (db, Inl e)) \<Longrightarrow> handler_stores ow ct cid fp h"
  by (metis Inl_Inr_False handler_stores_def prod.inject)

lemma create_shape: "\<exists>k. command_shape x au (Create_enrollment t cid corr payload)
    (respond x au (Create_enrollment t cid corr payload)) k"
proof -
  let ?checks = "andthen (check_keys x payload) (\<lambda>keys.
                 andthen (check_commissioning x au t payload) (\<lambda>(verified, identity_ref).
                 andthen (check_manifest x (ep_manifest payload)) (\<lambda>mjson.
                   Inr (keys, verified, identity_ref, mjson))))"
  let ?ow = "ep_requested_owner_domain_id payload"
  let ?fp = "fingerprint x create_command ?ow (Create_payload payload)"
  let ?k = "\<lambda>db. case ?checks of Inl e \<Rightarrow> (db, Inl e)
      | Inr (keys, v, hw, mj) \<Rightarrow> run_tx (create_tx x au t cid corr payload keys v hw mj ?fp) db"
  have "handler_stores ?ow create_command cid ?fp ?k"
  proof (cases ?checks)
    case (Inl e)
    then show ?thesis by (simp add: handler_stores_def)
  next
    case (Inr w)
    obtain keys v hw mj where "w = (keys, v, hw, mj)" by (cases w)
    with Inr run_tx_stores [OF create_stores] show ?thesis by simp
  qed
  then have "command_shape x au (Create_enrollment t cid corr payload)
    (respond x au (Create_enrollment t cid corr payload)) ?k"
    by (auto simp: command_shape_def command_print_def create_enrollment_def Let_def guarded_def
        require_def fun_eq_iff)
  then show ?thesis by blast
qed

lemma cancel_shape: "\<exists>k. command_shape x au (Cancel_enrollment t0 t cid corr eid reason who)
    (respond x au (Cancel_enrollment t0 t cid corr eid reason who)) k"
proof -
  let ?fp = "fingerprint x cancel_command (ca_owner_domain_id who) (Cancel_payload eid reason (ca_actor who))"
  let ?k = "with_expiry x t0 (run_tx (cancel_tx x t cid corr eid reason (context_of who) ?fp))"
  have st: "handler_stores (ca_owner_domain_id who) cancel_command cid ?fp ?k"
    using with_expiry_stores [OF run_tx_stores [OF cancel_stores [of "context_of who"]]]
    by (simp add: context_of_def)
  have "command_shape x au (Cancel_enrollment t0 t cid corr eid reason who)
    (as_actor who (cancel_enrollment x t0 t cid corr eid reason)) ?k"
  proof (rule shape_caller [where sc = "''device.claim.approve''"])
    assume d: "actor_owner_domain_id (ca_actor who) = ca_owner_domain_id who"
    show "command_shape x au (Cancel_enrollment t0 t cid corr eid reason who)
      (cancel_enrollment x t0 t cid corr eid reason (context_of who)) ?k"
      using st d
      by (auto simp: command_shape_def command_print_def cancel_enrollment_def Let_def guarded_def
          require_scope_def require_def caller_ok_def context_of_def fun_eq_iff)
  qed (use st in \<open>simp_all add: command_print_def\<close>)
  then show ?thesis by auto
qed

lemma decide_shape: "\<exists>k. command_shape x au (Decide_enrollment t0 t cid corr eid payload who)
    (respond x au (Decide_enrollment t0 t cid corr eid payload who)) k"
proof -
  let ?ow = "dp_target_owner_domain_id payload"
  let ?fp = "fingerprint x decide_command ?ow (Decide_payload payload eid (ca_actor who))"
  let ?k = "with_expiry x t0 (run_tx (decide_tx x au t cid corr eid payload (context_of who) ?fp))"
  have st: "handler_stores ?ow decide_command cid ?fp ?k"
    by (rule with_expiry_stores [OF run_tx_stores [OF decide_stores]])
  have "command_shape x au (Decide_enrollment t0 t cid corr eid payload who)
    (as_actor who (decide_enrollment x au t0 t cid corr eid payload)) ?k"
  proof (rule shape_caller [where sc = "''device.claim.approve''"])
    assume d: "actor_owner_domain_id (ca_actor who) = ca_owner_domain_id who"
    show "command_shape x au (Decide_enrollment t0 t cid corr eid payload who)
      (decide_enrollment x au t0 t cid corr eid payload (context_of who)) ?k"
      using st d
      by (auto simp: command_shape_def command_print_def decide_enrollment_def Let_def guarded_def
          require_scope_def require_def caller_ok_def context_of_def fun_eq_iff)
  qed (use st in \<open>simp_all add: command_print_def\<close>)
  then show ?thesis by auto
qed

lemma revoke_shape: "\<exists>k. command_shape x au (Revoke_claim t cid corr ref reason who)
    (respond x au (Revoke_claim t cid corr ref reason who)) k"
proof -
  let ?fp = "fingerprint x revoke_command (ca_owner_domain_id who) (Revoke_payload ref reason)"
  let ?k = "run_tx (revoke_tx x t cid corr ref reason (context_of who) ?fp)"
  have st: "handler_stores (ca_owner_domain_id who) revoke_command cid ?fp ?k"
    using run_tx_stores [OF revoke_stores [of "context_of who"]] by (simp add: context_of_def)
  have "command_shape x au (Revoke_claim t cid corr ref reason who)
    (as_actor who (revoke_claim x t cid corr ref reason)) ?k"
  proof (rule shape_caller [where sc = "''device.claim.revoke''"])
    assume d: "actor_owner_domain_id (ca_actor who) = ca_owner_domain_id who"
    show "command_shape x au (Revoke_claim t cid corr ref reason who)
      (revoke_claim x t cid corr ref reason (context_of who)) ?k"
      using st d
      by (auto simp: command_shape_def command_print_def revoke_claim_def Let_def guarded_def
          require_scope_def require_def caller_ok_def context_of_def fun_eq_iff)
  qed (use st in \<open>simp_all add: command_print_def\<close>)
  then show ?thesis by auto
qed

lemma collect_shape: "\<exists>k. command_shape x au (Collect_claim_grant eph t0 t cid corr eid n ch pf)
    (respond x au (Collect_claim_grant eph t0 t cid corr eid n ch pf)) k"
  using with_expiry_stores [OF run_tx_stores [OF collect_stores]]
  by (auto simp: command_shape_def command_print_def collect_claim_grant_def Let_def intro!: exI)

lemma ack_shape: "\<exists>k. command_shape x au (Ack_claim_grant t0 t cid corr eid gid pf n ep)
    (respond x au (Ack_claim_grant t0 t cid corr eid gid pf n ep)) k"
  using with_expiry_stores [OF run_tx_stores [OF ack_stores]]
  by (auto simp: command_shape_def command_print_def ack_claim_grant_def Let_def then_project_None
      intro!: exI)

lemma other_shape:
  assumes "command_content x rq = None"
  shows "\<exists>k. command_shape x au rq (respond x au rq) k"
proof -
  have "command_shape x au rq (respond x au rq) (\<lambda>db. (db, Inl Integrity_error))"
    using assms by (cases rq) (auto simp: command_shape_def intro: handler_stores_const)
  then show ?thesis by blast
qed

lemma respond_shape: "\<exists>k. command_shape x au rq (respond x au rq) k"
proof (cases rq)
  case Create_enrollment
  then show ?thesis using create_shape by blast
next
  case Cancel_enrollment
  then show ?thesis using cancel_shape by blast
next
  case Decide_enrollment
  then show ?thesis using decide_shape by blast
next
  case Collect_claim_grant
  then show ?thesis using collect_shape by blast
next
  case Ack_claim_grant
  then show ?thesis using ack_shape by blast
next
  case Revoke_claim
  then show ?thesis using revoke_shape by blast
qed (rule other_shape, simp)+

lemma retimed_same [simp]:
  "command_owner au (retimed c rq) = command_owner au rq"
  "command_type_of (retimed c rq) = command_type_of rq"
  "command_id_of (retimed c rq) = command_id_of rq"
  "command_print x au (retimed c rq) = command_print x au rq"
  "command_admitted au (retimed c rq) = command_admitted au rq"
  by (cases c; cases rq; simp add: command_print_def)+

interpretation commands: idempotent_command
  "\<lambda>(x :: external, au, rq) c. respond x au (retimed c rq)"
  "\<lambda>(x :: external, au, rq). command_owner au rq"
  "\<lambda>(x :: external, au :: authority, rq). command_type_of rq"
  "\<lambda>(x :: external, au :: authority, rq). command_id_of rq"
  "\<lambda>(x :: external, au, rq). command_print x au rq"
  "\<lambda>(x :: external, au, rq). command_admitted au rq" results_kept
proof (unfold_locales, goal_cases)
  case (1 a db r c)
  obtain x au rq where a: "a = (x, au, rq)" by (cases a)
  obtain k where "command_shape x au (retimed c rq) (respond x au (retimed c rq)) k"
    using respond_shape by blast
  with 1 show ?case by (simp add: a command_shape_def with_replay_def)
next
  case (2 a db e c)
  obtain x au rq where a: "a = (x, au, rq)" by (cases a)
  obtain k where "command_shape x au (retimed c rq) (respond x au (retimed c rq)) k"
    using respond_shape by blast
  with 2 show ?case by (simp add: a command_shape_def with_replay_def)
next
  case (3 a c db db' r)
  obtain x au rq where a: "a = (x, au, rq)" by (cases a)
  obtain k where k: "command_shape x au (retimed c rq) (respond x au (retimed c rq)) k"
    using respond_shape by blast
  have "command_admitted au rq"
  proof (rule ccontr)
    assume "\<not> command_admitted au rq"
    with k obtain e where "respond x au (retimed c rq) db = (db, Inl e)"
      by (auto simp: command_shape_def)
    with 3(1) show False by (simp add: a)
  qed
  with k 3 with_replay_stores [of "command_owner au rq" "command_type_of rq" "command_id_of rq"
      "command_print x au rq" k]
  show ?case by (simp add: a command_shape_def handler_stores_def)
next
  case (4 db db' ow ct cid fp r)
  then show ?case by (rule replay_kept)
qed

section \<open>Properties\<close>

lemma retimed_self: "\<exists>c. retimed c rq = rq"
proof (cases rq)
  case (Create_enrollment t cid corr payload)
  then show ?thesis by (intro exI [of _ "(0, t, 0)"]) simp
next
  case (Cancel_enrollment t0 t cid corr eid reason who)
  then show ?thesis by (intro exI [of _ "(t0, t, 0)"]) simp
next
  case (Decide_enrollment t0 t cid corr eid payload who)
  then show ?thesis by (intro exI [of _ "(t0, t, 0)"]) simp
next
  case (Collect_claim_grant n t0 t cid corr eid rv ch pf)
  then show ?thesis by (intro exI [of _ "(t0, t, n)"]) simp
next
  case (Ack_claim_grant t0 t cid corr eid gid pf g ep)
  then show ?thesis by (intro exI [of _ "(t0, t, 0)"]) simp
next
  case (Revoke_claim t cid corr ref reason who)
  then show ?thesis by (intro exI [of _ "(0, t, 0)"]) simp
qed (simp_all)

text \<open>
  C5: a committed command is idempotent for good. Whatever requests were served since, and
  whatever the clock or the ephemeral key drawn then, the same command sent again changes
  nothing and is answered with the stored result, marked as replayed.
\<close>

theorem command_replayed:
  assumes "respond x au rq db = (db', Inr r)" "cr_outcome r = Committed"
    and "later = fold (execute x au pj) rs db'"
  shows "respond x au (retimed c rq) later = (later, Inr (r\<lparr>cr_outcome := Replayed\<rparr>))"
proof -
  obtain c0 where "retimed c0 rq = rq" using retimed_self by blast
  with assms(1) have "respond x au (retimed c0 rq) db = (db', Inr r)" by simp
  with commands.repeated [of "(x, au, rq)" c0 db db' r later c] assms(2,3) results.served_related
  show ?thesis by simp
qed

theorem command_replayed_witness:
  "\<exists>r. respond small_world small_authority (retimed (40, 50, 7) small_create) (small_run acked_run)
     = (small_run acked_run, Inr (r\<lparr>cr_outcome := Replayed\<rparr>))"
proof -
  let ?w = "create_enrollment small_world small_authority 1 ''1'' [] small_payload empty_db"
  from outcome_ofD [OF create_committed] obtain r where r: "?w = (fst ?w, Inr r)" "cr_outcome r = Committed"
    by blast
  have "small_run acked_run = fold (execute small_world small_authority None)
      [small_decide, small_collect, small_ack] (fst ?w)"
    by (simp add: run_def acked_run_def delivered_run_def small_create_def)
  from command_replayed [OF _ r(2) this, of small_create empty_db "(40, 50, 7)"] r(1)
  show ?thesis by (auto simp: small_create_def)
qed

text \<open>
  C6: a command id is bound to its content. Once a command committed, another admitted
  command of the same type, Owner Domain and id but different content is refused with
  IDEMPOTENCY_CONFLICT and changes nothing, at any later time.
\<close>

theorem command_id_bound:
  assumes "respond x au rq db = (db', Inr r)" "cr_outcome r = Committed"
    and "later = fold (execute x au pj) rs db'"
    and "command_admitted au rq'" "command_owner au rq' = command_owner au rq"
      "command_type_of rq' = command_type_of rq" "command_id_of rq' = command_id_of rq"
      "command_print x au rq' \<noteq> command_print x au rq"
  shows "respond x au rq' later = (later, Inl (conflict ''IDEMPOTENCY_CONFLICT''
           ''command_id was reused with different canonical payload''))"
proof -
  obtain c0 c1 where c: "retimed c0 rq = rq" "retimed c1 rq' = rq'" using retimed_self by blast
  with assms(1) have "respond x au (retimed c0 rq) db = (db', Inr r)" by simp
  with commands.reused [of "(x, au, rq)" c0 db db' r later "(x, au, rq')" c1] assms c(2) results.served_related
  show ?thesis by simp
qed

theorem command_id_bound_witness:
  "snd (respond small_world small_authority (Revoke_claim 9 ''5'' [] device_d ''s'' owner_controller)
     (small_run (acked_run @ [small_revoke])))
     = Inl (conflict ''IDEMPOTENCY_CONFLICT'' ''command_id was reused with different canonical payload'')"
proof -
  let ?w = "as_actor owner_controller (revoke_claim small_world 5 ''5'' [] device_d ''r'') (small_run acked_run)"
  let ?rq' = "Revoke_claim 9 ''5'' [] device_d ''s'' owner_controller"
  from outcome_ofD [OF revoke_committed] obtain r where r: "?w = (fst ?w, Inr r)" "cr_outcome r = Committed"
    by blast
  have e: "small_run (acked_run @ [small_revoke]) = fold (execute small_world small_authority None) [] (fst ?w)"
    by (simp add: run_def small_revoke_def)
  have p: "command_admitted small_authority ?rq'" "command_owner small_authority ?rq' = command_owner small_authority small_revoke"
    "command_type_of ?rq' = command_type_of small_revoke" "command_id_of ?rq' = command_id_of small_revoke"
    "command_print small_world small_authority ?rq' \<noteq> command_print small_world small_authority small_revoke"
    by code_simp+
  have "respond small_world small_authority small_revoke (small_run acked_run) = (fst ?w, Inr r)"
    using r(1) by (simp add: small_revoke_def)
  from command_id_bound [OF this r(2) e p] show ?thesis by simp
qed

end
