(* ===== verification/Admission_Standing.thy ===== *)
theory Admission_Standing
  imports Admission_Properties
begin

text \<open>
  What an Enrollment has to bring: the voucher that is spent once, the recorded standing
  that decides a Proposal on arrival, the withdrawal that takes a Controller's standing
  away, and the Body that was refused and has to be commissioned anew.
\<close>

section \<open>Commissioning facts only accumulate\<close>

definition spent_jtis :: "hub_db \<Rightarrow> string set" where
  "spent_jtis c = cv_jti ` set (vouchers c)"

definition withdrawn_since :: "hub_db \<Rightarrow> string \<Rightarrow> string \<Rightarrow> instant \<Rightarrow> bool" where
  "withdrawn_since c owner pid t = (\<exists>w. controller_withdrawn_at c owner pid = Some w \<and> t \<le> w)"

definition facts_kept :: "hub_db \<Rightarrow> hub_db \<Rightarrow> bool" where
  "facts_kept c c' = (spent_jtis c \<subseteq> spent_jtis c'
     \<and> (\<forall>owner pid t. withdrawn_since c owner pid t \<longrightarrow> withdrawn_since c' owner pid t))"

lemma facts_kept_refl [simp]: "facts_kept c c"
  by (simp add: facts_kept_def)

lemma facts_kept_trans: "facts_kept a b \<Longrightarrow> facts_kept b c \<Longrightarrow> facts_kept a c"
  by (auto simp: facts_kept_def)

lemma facts_kept_same: "vouchers c' = vouchers c \<Longrightarrow> withdrawals c' = withdrawals c \<Longrightarrow> facts_kept c c'"
  by (simp add: facts_kept_def spent_jtis_def withdrawn_since_def controller_withdrawn_at_def)

lemma withdrawal_kept: "facts_kept c (snd (record_controller_withdrawal w c))"
proof (cases "tget withdrawal_key (withdrawal_key w) (withdrawals c)")
  case None
  then show ?thesis
    by (auto simp: record_controller_withdrawal_def facts_kept_def spent_jtis_def
        withdrawn_since_def controller_withdrawn_at_def tget_append)
next
  case (Some e)
  define f :: "withdrawal_row \<Rightarrow> withdrawal_row" where "f r = r\<lparr>cw_withdrawn_at := cw_withdrawn_at w, cw_actor := cw_actor w\<rparr>" for r
  have key: "withdrawal_key (f r) = withdrawal_key r" for r
    by (simp add: f_def withdrawal_key_def)
  have "withdrawn_since (c\<lparr>withdrawals := tupd withdrawal_key (withdrawal_key w) f (withdrawals c)\<rparr>) ow pid t"
    if "withdrawn_since c ow pid t" "cw_withdrawn_at e < cw_withdrawn_at w" for ow pid t
    using that Some
    by (auto simp: withdrawn_since_def controller_withdrawn_at_def tget_tupd [of withdrawal_key f, OF key])
      (simp add: f_def)
  with Some show ?thesis
    by (auto simp: record_controller_withdrawal_def facts_kept_def spent_jtis_def f_def [abs_def])
qed

lemma claim_standing_facts:
  assumes "claim_standing v ow hw key t db = Inr db'"
  shows "facts_kept db db'" and "standings db' = standings db"
    and "withdrawals db' = withdrawals db"
  by (rule claim_standing_cases [OF assms];
      auto simp: facts_kept_def spent_jtis_def withdrawn_since_def controller_withdrawn_at_def
        elim!: bind_base_identity_cases dest!: consume_voucher_cases(2))+

lemma activate_facts:
  assumes "activate_claim x t pf p g db = Inr (v, db')"
  shows "vouchers db' = vouchers db" "withdrawals db' = withdrawals db"
  using assms
proof (atomize (full), rule activate_claimD, intro conjI)
  fix db1 d n db2 db3
  assume a: "add_grant_ack \<lparr>ga_grant_id = gr_grant_id g, ga_enrollment_id = pr_enrollment_id p,
       ga_proof_fingerprint = ''sha256:'' @ sha256_hex x pf, ga_device_ref = gr_device_ref g,
       ga_acknowledged_at = t\<rparr> db = Inr db1"
    and u: "upsert_claim (claim_for (gr_device_ref g) (dc_target_business_owner_id d) g p Active
       (Some t) t None) db1 = (n, db2)"
    and pr: "project_active_claim x (gr_device_ref g) (dc_target_business_owner_id d) (pr_manifest_id p)
       (pr_manifest_json p) (pr_manifest_digest p) (pr_manifest_revision p) t db2 = Inr db3"
    and db': "db' = set_proposal_state (pr_enrollment_id p) Grant_acknowledged t db3"
  have db2: "db2 = snd (upsert_claim (claim_for (gr_device_ref g) (dc_target_business_owner_id d) g p
      Active (Some t) t None) db1)" using u by simp
  note fs = project_active_fields [OF pr]
  show "vouchers db' = vouchers db" "withdrawals db' = withdrawals db"
    using a by (auto simp: db' fs db2 add_grant_ack_def ok_iff)
qed

lemma step_facts:
  assumes "lifecycle_step x au c c'"
  shows "facts_kept c c'"
  using assms
proof cases
  case (Create v p t c1)
  have "facts_kept c1 c'" by (rule facts_kept_same) (simp_all add: Create(1))
  with claim_standing_facts(1) [OF Create(2)] show ?thesis by (rule facts_kept_trans)
next
  case (Withdraw w)
  then show ?thesis by (simp add: withdrawal_kept)
next
  case (Acknowledge p g t pt w)
  then show ?thesis by (intro facts_kept_same) (auto dest: activate_facts)
next
  case (Revoke_unclaimed ref g t c1)
  from Revoke_unclaimed(5) show ?thesis unfolding Revoke_unclaimed(1)
    by (auto elim!: revoke_unclaimedD intro!: facts_kept_same)
qed (simp_all add: facts_kept_same decide_effect_def expire_effect_def deliver_effect_def
      revoke_standing_claim_def Let_def update_claim_def split: option.splits)

lemma lifecycle_facts: "lifecycle x au c c' \<Longrightarrow> facts_kept c c'"
  by (induction rule: rtranclp_induct) (auto dest: step_facts intro: facts_kept_trans)

lemma run_facts: "facts_kept (run x au pj rs) (run x au pj (rs @ rs'))"
  using lifecycle_facts [OF run_append, of x au pj rs rs']
  by (simp add: facts_kept_def spent_jtis_def withdrawn_since_def core_simps)

section \<open>An Enrollment whose checks pass\<close>

definition create_print :: "external \<Rightarrow> enrollment_payload \<Rightarrow> string" where
  "create_print x pl = fingerprint x create_command (ep_requested_owner_domain_id pl) (Create_payload pl)"

definition checks_pass ::
  "external \<Rightarrow> authority \<Rightarrow> instant \<Rightarrow> enrollment_payload \<Rightarrow> enrollment_keys
     \<Rightarrow> verified_commissioning \<Rightarrow> string \<Rightarrow> bool" where
  "checks_pass x au t pl keys v hw =
     (ep_requested_owner_domain_id pl = au_owner_domain_id au
      \<and> check_keys x pl = Inr keys \<and> check_commissioning x au t pl = Inr (v, hw)
      \<and> (\<exists>mj. check_manifest x (ep_manifest pl) = Inr mj))"

lemma create_refused:
  assumes ok: "checks_pass x au t pl keys v hw"
    and new: "replay_in_session db (ep_requested_owner_domain_id pl) create_command cid
          (create_print x pl) = Inr None"
    and refused: "\<And>db1. core db1 = core db \<Longrightarrow>
          claim_standing v (ep_requested_owner_domain_id pl) hw (ek_operational_key_id keys) t db1 = Inl e"
  shows "create_enrollment x au t cid corr pl db = (db, Inl e)"
proof -
  from ok obtain mj where c: "ep_requested_owner_domain_id pl = au_owner_domain_id au"
    "check_keys x pl = Inr keys" "check_commissioning x au t pl = Inr (v, hw)"
    "check_manifest x (ep_manifest pl) = Inr mj" by (auto simp: checks_pass_def)
  let ?fp = "create_print x pl"
  obtain eid db1 where n: "new_id x ''enrollment'' db = (eid, db1)" by (cases "new_id x ''enrollment'' db")
  from refused [OF new_id_core [OF n]]
  have "create_tx x au t cid corr pl keys v hw mj ?fp db = Inl e"
    by (simp add: create_tx_def locked_replay_def new n Let_def)
  with new c show ?thesis
    by (simp add: create_enrollment_def guarded_def with_replay_def run_tx_def Let_def
        create_print_def)
qed

lemma create_accepted:
  assumes "create_enrollment x au t cid corr pl db = (db', Inr r)"
  obtains (replayed) "db' = db" "cr_outcome r = Replayed"
  | (created) keys v hw eid ch p c1 db5 where
      "checks_pass x au t pl keys v hw" "p = new_proposal x au t pl keys hw (decode_text
         (rfc8785_dumps x (Json_doc (pm_document (ep_manifest pl))))) eid ch"
      "claim_standing v (au_owner_domain_id au) hw (ek_operational_key_id keys) t (core db) = Inr c1"
      "core db5 = c1\<lparr>proposals := proposals c1 @ [p]\<rparr>"
      "apply_standing x au t cid corr p v (manifest_ref_of (ep_manifest pl)) db5 = Inr db'"
proof -
  let ?ow = "ep_requested_owner_domain_id pl" and ?fp = "create_print x pl"
  from assms have ow: "?ow = au_owner_domain_id au"
    by (auto simp: create_enrollment_def guarded_def require_def Let_def split: if_splits)
  then have fp: "fingerprint x create_command (au_owner_domain_id au) (Create_payload pl) = ?fp"
    by (simp add: create_print_def)
  show thesis
  proof (cases "replay_in_session db ?ow create_command cid ?fp")
    case (Inl e)
    with assms ow show thesis
      by (simp add: create_enrollment_def guarded_def with_replay_def Let_def fp)
  next
    case (Inr m)
    show thesis
    proof (cases m)
      case (Some r')
      with Inr assms ow have "r' = r" "db' = db"
        by (simp_all add: create_enrollment_def guarded_def with_replay_def Let_def fp)
      moreover from Inr Some have "cr_outcome r' = Replayed"
        by (auto simp: replay_in_session_def split: option.splits if_splits)
      ultimately show thesis using replayed by simp
    next
      case None
      let ?body = "andthen (check_keys x pl) (\<lambda>keys. andthen (check_commissioning x au t pl)
         (\<lambda>(v, hw). andthen (check_manifest x (ep_manifest pl)) (\<lambda>mj. Inr (keys, v, hw, mj))))"
      from assms [unfolded create_enrollment_def Let_def ow fp guarded_def with_replay_def] Inr None
      have run: "(case ?body of Inl e \<Rightarrow> (db, Inl e)
          | Inr (keys, v, hw, mj) \<Rightarrow> run_tx (create_tx x au t cid corr pl keys v hw mj ?fp) db) = (db', Inr r)"
        by (simp add: ow)
      then obtain keys v hw mj where b: "?body = Inr (keys, v, hw, mj)" by (cases ?body) auto
      then have c: "check_keys x pl = Inr keys" "check_commissioning x au t pl = Inr (v, hw)"
          "check_manifest x (ep_manifest pl) = Inr mj" by (auto simp: ok_iff)
      from run b have "create_tx x au t cid corr pl keys v hw mj ?fp db = Inr (r, db')"
        by (auto simp: run_tx_def split: sum.splits prod.splits)
      then show thesis
      proof (cases rule: create_tx_effect)
        case (created eid ch p c1 db5)
        from c(3) have "mj = decode_text (rfc8785_dumps x (Json_doc (pm_document (ep_manifest pl))))"
          by (simp add: check_manifest_def Let_def ok_iff)
        with c ow created show thesis by (intro that(2)) (auto simp: checks_pass_def)
      qed (simp add: Inr None)
    qed
  qed
qed

text \<open>The checks of the worked Enrollment pass, with its voucher and as a continuation.\<close>

definition small_keys :: enrollment_keys where
  "small_keys = \<lparr>ek_handoff_key_id = ''k'', ek_operational_key_id = ''k''\<rparr>"

definition small_voucher :: verified_commissioning where
  "small_voucher = \<lparr>vc_device_base_id = ''b'', vc_scheme = voucher_scheme, vc_jti = Some ''n'',
     vc_expires_at = Some 9\<rparr>"

definition small_continuation :: verified_commissioning where
  "small_continuation = \<lparr>vc_device_base_id = ''b'', vc_scheme = enrolled_base_key_scheme,
     vc_jti = None, vc_expires_at = None\<rparr>"

lemma small_continuation_fields: "vc_scheme small_continuation = enrolled_base_key_scheme"
  "vc_device_base_id small_continuation = ''b''"
  by (simp_all add: small_continuation_def)

definition small_identity :: string where
  "small_identity = ''hardware-'' @ replicate 64 (CHR ''0'')"

lemma small_checked:
  "check_keys small_world small_payload = Inr small_keys"
  "check_keys small_world second_payload = Inr small_keys"
  "check_commissioning small_world small_authority 1 small_payload = Inr (small_voucher, small_identity)"
  "check_commissioning small_world small_authority 4 second_payload
     = Inr (small_continuation, small_identity)"
  "check_manifest small_world (ep_manifest small_payload) = Inr ''e''"
  "check_manifest small_world (ep_manifest second_payload) = Inr ''e''"
  "ep_requested_owner_domain_id small_payload = au_owner_domain_id small_authority"
  "ep_requested_owner_domain_id second_payload = au_owner_domain_id small_authority"
  by code_simp+

lemma small_checks:
  "checks_pass small_world small_authority 1 small_payload small_keys small_voucher small_identity"
  "checks_pass small_world small_authority 4 second_payload small_keys small_continuation small_identity"
  unfolding checks_pass_def small_checked by simp_all

section \<open>Vouchers\<close>

lemma voucher_clash:
  assumes "vc_scheme v = voucher_scheme" "vc_jti v = Some j" "j \<in> spent_jtis db"
  shows "claim_standing v ow hw key t db
    = Inl (unauthenticated ''commissioning voucher was already used'')"
proof -
  from assms(3) have "tget cv_jti j (vouchers db) \<noteq> None"
    by (simp add: tget_None_iff spent_jtis_def)
  with assms(1,2) show ?thesis
    by (auto simp: claim_standing_def consume_commissioning_voucher_def unauthenticated_def Let_def)
qed

lemma voucher_spent:
  assumes "claim_standing v ow hw key t db = Inr db'" "vc_scheme v = voucher_scheme" "vc_jti v = Some j"
  shows "j \<in> spent_jtis db'"
  using assms
  by (auto simp: claim_standing_def Let_def ok_iff spent_jtis_def
      dest!: consume_voucher_cases(2) elim!: bind_base_identity_cases)

text \<open>
  C7: a voucher is spent once. Once a create with its jti committed, every later Enrollment
  that passes all checks with a voucher of the same jti is refused as UNAUTHENTICATED and
  changes nothing.
\<close>

theorem voucher_spent_once:
  assumes "create_enrollment x au t cid corr pl (run x au pj rs) = (db', Inr r)" "cr_outcome r = Committed"
    and "check_commissioning x au t pl = Inr (v, hw)" "vc_scheme v = voucher_scheme" "vc_jti v = Some j"
    and "later = run x au pj (rs @ Create_enrollment t cid corr pl # rs')"
    and "checks_pass x au t' pl' keys v' hw'" "vc_scheme v' = voucher_scheme" "vc_jti v' = Some j"
    and "replay_in_session later (ep_requested_owner_domain_id pl') create_command cid'
           (create_print x pl') = Inr None"
  shows "create_enrollment x au t' cid' corr' pl' later
    = (later, Inl (unauthenticated ''commissioning voucher was already used''))"
proof -
  let ?rs = "rs @ [Create_enrollment t cid corr pl]"
  have db': "run x au pj ?rs = db'" using assms(1) by (simp add: run_def)
  from assms(1) have "j \<in> spent_jtis (core db')"
  proof (cases rule: create_accepted)
    case (created keys v1 hw1 eid ch p c1 db5)
    from created(1) assms(3) have "v1 = v" by (simp add: checks_pass_def)
    with voucher_spent [OF created(3)] assms(4,5) have "j \<in> spent_jtis (core db5)"
      by (simp add: created(4) spent_jtis_def)
    moreover have "lifecycle x au (core db5) (core db')"
      by (rule apply_standing_commits [OF created(5)]) (simp_all add: created(2,4) core_simps)
    ultimately show ?thesis by (meson facts_kept_def lifecycle_facts subsetD)
  qed (use assms(2) in simp)
  then have "j \<in> spent_jtis later"
    using run_facts [of x au pj ?rs rs'] unfolding db' assms(6)
    by (auto simp: facts_kept_def spent_jtis_def core_simps)
  have "j \<in> spent_jtis db1" if "core db1 = core later" for db1
    using \<open>j \<in> spent_jtis later\<close> core_field [OF that, of vouchers]
    by (simp add: spent_jtis_def core_simps)
  then show ?thesis
    by (intro create_refused [OF assms(7,10)] voucher_clash [OF assms(8,9)])
qed

lemma voucher_command_new: "replay_in_session (small_run [small_create])
    (ep_requested_owner_domain_id small_payload) create_command ''9'' (create_print small_world small_payload)
  = Inr None"
  by code_simp

theorem voucher_spent_once_witness:
  "create_enrollment small_world small_authority 1 ''9'' [] small_payload (small_run [small_create])
    = (small_run [small_create],
       Inl (unauthenticated ''commissioning voucher was already used''))"
proof -
  have "small_run [] = empty_db" by (simp add: run_def)
  with outcome_ofD [OF create_committed] obtain db' r where
    "create_enrollment small_world small_authority 1 ''1'' [] small_payload (small_run []) = (db', Inr r)"
    "cr_outcome r = Committed" by metis
  then show ?thesis
    by (rule voucher_spent_once [where rs' = "[]", OF _ _ small_checked(3) _ _ _ small_checks(1) _ _
          voucher_command_new])
      (simp_all add: small_voucher_def small_create_def)
qed

section \<open>Recorded standing\<close>

lemma standing_decision:
  assumes "create_enrollment x au t cid corr pl db = (db', Inr r)"
    and "d \<in> set (decisions db')" "d \<notin> set (decisions db)"
  shows "dc_decision d = Approve \<and> au_decide_from_standing au
    \<and> ''device.claim.approve'' \<in> set (granted_scopes (dc_actor d))
    \<and> (\<exists>row \<in> set (standings db). cs_actor row = Encoded (dc_actor d)
         \<and> key_id x (ep_operational_public_key pl) = Inr (cs_operational_key_id row)
         \<and> cs_owner_domain_id row = au_owner_domain_id au
         \<and> cs_business_owner_id row = dc_target_business_owner_id d
         \<and> (\<forall>w. controller_withdrawn_at db (au_owner_domain_id au) (principal_id (dc_actor d)) = Some w
              \<longrightarrow> w < cs_recorded_at row))"
  using assms(1)
proof (cases rule: create_accepted)
  case replayed
  with assms(2,3) show ?thesis by simp
next
  case (created keys v hw eid ch p c1 db5)
  let ?ow = "au_owner_domain_id au" and ?key = "ek_operational_key_id keys"
  from created(1) have k: "key_id x (ep_operational_public_key pl) = Inr ?key"
    by (auto simp: checks_pass_def check_keys_def as_invalid_argument_def ok_iff present_def
        split: sum.splits exn.splits option.splits)
  from created(1,2) have p: "pr_requested_owner_domain_id p = ?ow" "pr_operational_key_id p = ?key"
    by (simp_all add: checks_pass_def)
  have c5: "standings (core db5) = standings db" "withdrawals (core db5) = withdrawals db"
      "decisions (core db5) = decisions db"
    using claim_standing_facts(2,3) [OF created(3)] claim_standing_frame(2) [OF created(3)]
    by (simp_all add: created(4) core_simps)
  show ?thesis
  proof (cases "standing_for au db5 v ?ow ?key")
    case None
    with created(5) p have "db' = db5" by (simp add: apply_standing_def)
    with c5(3) assms(2,3) show ?thesis by (simp add: core_simps)
  next
    case (Some s)
    with created(5) p obtain out where dec: "decide_in_session x au p Approve (st_actor s) ?ow
        (st_business_owner_id s) (manifest_ref_of (ep_manifest pl)) (cid @ '':standing'') corr t db5
        = Inr (out, db')" by (auto simp: apply_standing_def ok_iff)
    obtain did where "decisions (core db') = decisions db5 @ [decision_row_for p Approve (st_actor s) ?ow
        (st_business_owner_id s) (manifest_ref_of (ep_manifest pl)) did t]"
      using dec by (cases out) (auto elim!: decide_in_session_effect)
    with c5(3) assms(2,3) have d: "dc_actor d = st_actor s" "dc_decision d = Approve"
        "dc_target_business_owner_id d = st_business_owner_id s"
      by (auto simp: core_simps decision_row_for_def)
    from standing_forD [OF Some] c5(1,2) k show ?thesis
      unfolding d controller_withdrawn_at_def by (auto simp: core_simps)
  qed
qed

text \<open>
  C8: an Enrollment decides itself only within the standing its Controller recorded. A
  Decision made while serving a create is an approval by the actor of a standing recorded
  for this operational key and Owner Domain, for the business Owner recorded with it, with
  the approval scope, and recorded after any withdrawal of that Controller.
\<close>

theorem standing_decides_within_limits:
  assumes "create_enrollment x au t cid corr pl db = (db', Inr r)"
    and "d \<in> set (decisions db')" "d \<notin> set (decisions db)"
  shows "dc_decision d = Approve \<and> au_decide_from_standing au
    \<and> ''device.claim.approve'' \<in> set (granted_scopes (dc_actor d))
    \<and> (\<exists>row \<in> set (standings db). cs_actor row = Encoded (dc_actor d)
         \<and> key_id x (ep_operational_public_key pl) = Inr (cs_operational_key_id row)
         \<and> cs_owner_domain_id row = au_owner_domain_id au
         \<and> cs_business_owner_id row = dc_target_business_owner_id d
         \<and> (\<forall>w. controller_withdrawn_at db (au_owner_domain_id au) (principal_id (dc_actor d)) = Some w
              \<longrightarrow> w < cs_recorded_at row))"
  by (rule standing_decision [OF assms])

definition standing_run :: "request list" where
  "standing_run = [Record_standing 0 ''n'' ''k'' owner_controller]"

definition decided_actors :: "hub_db \<times> (exn + command_result) \<Rightarrow> (bool \<times> string list) \<times> nat" where
  "decided_actors w = ((case snd w of Inl _ \<Rightarrow> False | Inr _ \<Rightarrow> True,
     map (\<lambda>d. principal_id (dc_actor d)) (decisions (fst w))), length (decisions (fst w)))"

lemma standing_decided:
  "decided_actors (create_enrollment small_world small_authority 1 ''1'' [] small_payload
     (small_run standing_run)) = ((True, [''q'']), 1)"
  "decisions (small_run standing_run) = []"
  by code_simp+

lemma decided_actorsD: "decided_actors w = ((True, [a]), 1) \<Longrightarrow>
    \<exists>db' r d. w = (db', Inr r) \<and> d \<in> set (decisions db') \<and> principal_id (dc_actor d) = a"
  by (cases w) (auto simp: decided_actors_def split: sum.splits)

theorem standing_decides_within_limits_witness:
  "\<exists>db' r d. create_enrollment small_world small_authority 1 ''1'' [] small_payload
       (small_run standing_run) = (db', Inr r)
     \<and> d \<in> set (decisions db') \<and> dc_decision d = Approve
     \<and> (\<exists>row \<in> set (standings (small_run standing_run)). cs_actor row = Encoded (dc_actor d))"
proof -
  from decided_actorsD [OF standing_decided(1)] obtain db' r d where
    c: "create_enrollment small_world small_authority 1 ''1'' [] small_payload (small_run standing_run)
        = (db', Inr r)" "d \<in> set (decisions db')" by blast
  from standing_decides_within_limits [OF c] standing_decided(2) c show ?thesis by auto
qed

text \<open>
  A withdrawn Controller's earlier standing decides nothing. After a withdrawal at
  t was accepted, a Decision that a later create makes in that Controller's name rests
  on standing recorded after t.
\<close>

theorem withdrawn_controller_decides_nothing:
  assumes "as_actor who (withdraw_controller t pid) (run x au pj rs) = (db0, Inr w)"
    and "ca_owner_domain_id who = au_owner_domain_id au"
    and "later = run x au pj (rs @ Withdraw_controller t pid who # rs')"
    and "create_enrollment x au t' cid corr pl later = (db', Inr r)"
    and "d \<in> set (decisions db')" "d \<notin> set (decisions later)" "principal_id (dc_actor d) = pid"
  shows "\<exists>row \<in> set (standings later). cs_actor row = Encoded (dc_actor d) \<and> t < cs_recorded_at row"
proof -
  let ?rs = "rs @ [Withdraw_controller t pid who]" and ?ow = "au_owner_domain_id au"
  have db0: "run x au pj ?rs = db0" using assms(1) by (simp add: run_def)
  define u where "u = \<lparr>cw_owner_domain_id = ?ow, cw_principal_id = pid, cw_withdrawn_at = t,
      cw_actor = ca_actor who\<rparr>"
  from assms(1,2) have u: "db0 = snd (record_controller_withdrawal u (run x au pj rs))"
      "withdrawal_key u = (?ow, pid)" "cw_withdrawn_at u = t"
    by (auto simp: u_def as_actor_def withdraw_controller_def actor_context_new_def guarded_def run_tx_def
        withdrawal_key_def split: sum.splits prod.splits if_splits)
  have "withdrawn_since db0 ?ow pid t"
    unfolding u(1) withdrawn_since_def controller_withdrawn_at_def
    using u(2,3)
    by (auto simp: record_controller_withdrawal_def tget_append tget_Cons tget_tupd withdrawal_key_def
        split: option.splits)
  then have "withdrawn_since later ?ow pid t"
    using run_facts [of x au pj ?rs rs'] unfolding db0 assms(3) by (simp add: facts_kept_def)
  then obtain w' where w': "controller_withdrawn_at later ?ow pid = Some w'" "t \<le> w'"
    by (auto simp: withdrawn_since_def)
  from standing_decision [OF assms(4-6)] obtain row where "row \<in> set (standings later)"
      "cs_actor row = Encoded (dc_actor d)"
      "\<forall>w. controller_withdrawn_at later ?ow pid = Some w \<longrightarrow> w < cs_recorded_at row"
    unfolding assms(7) by blast
  with w' show ?thesis by force
qed

definition returned_standing :: "request list" where
  "returned_standing = [Record_standing 1 ''n'' ''k'' owner_controller]"

abbreviation returned_run :: "request list" where
  "returned_run \<equiv> Withdraw_controller 0 ''q'' owner_controller # returned_standing"

lemma returned_decided:
  "decided_actors (create_enrollment small_world small_authority 1 ''1'' [] small_payload
     (small_run returned_run)) = ((True, [''q'']), 1)"
  "decisions (small_run returned_run) = []"
  "snd (as_actor owner_controller (withdraw_controller 0 ''q'') empty_db) = Inr 0"
  by code_simp+

theorem withdrawn_controller_decides_nothing_witness:
  "\<exists>row \<in> set (standings (small_run returned_run)). 0 < cs_recorded_at row"
proof -
  from decided_actorsD [OF returned_decided(1)] obtain db' r d where
    c: "create_enrollment small_world small_authority 1 ''1'' [] small_payload (small_run returned_run)
        = (db', Inr r)" "d \<in> set (decisions db')" "principal_id (dc_actor d) = ''q''" by blast
  have "small_run [] = empty_db" by (simp add: run_def)
  with returned_decided(3) obtain db0 where
    w: "as_actor owner_controller (withdraw_controller 0 ''q'') (small_run []) = (db0, Inr 0)"
    by (metis prod.collapse)
  from withdrawn_controller_decides_nothing [OF w _ _ c(1,2) _ c(3), of returned_standing]
    returned_decided(2) show ?thesis
    by (auto simp: owner_controller_def small_authority_def)
qed

section \<open>A Body that was refused\<close>

definition bound_as :: "hub_db \<Rightarrow> string \<Rightarrow> string \<Rightarrow> string \<Rightarrow> string \<Rightarrow> bool" where
  "bound_as db base owner key hw =
     (case base_identity db base of
        None \<Rightarrow> False
      | Some b \<Rightarrow> bi_owner_domain_id b = owner \<and> bi_operational_key_id b = key
                \<and> bi_hardware_identity_ref b = hw)"

definition fresh_presence_problem :: exn where
  "fresh_presence_problem = problem_of ''FORBIDDEN''
     ''this Body was rejected or removed and needs a new commissioning'' 403 ''forbidden''"

lemma continuation_refused:
  assumes "vc_scheme v \<noteq> voucher_scheme" "requires_fresh_presence db owner hw"
  shows "claim_standing v owner hw key t db
    = Inl (if bound_as db (vc_device_base_id v) owner key hw then fresh_presence_problem
           else unauthenticated ''base identity continuation has no matching issued binding'')"
  unfolding claim_standing_def Let_def if_not_P [OF assms(1)] bound_as_def [symmetric]
    fresh_presence_problem_def
  by (cases "bound_as db (vc_device_base_id v) owner key hw") (simp_all only: require_simps andthen.simps
      assms(2) if_True if_False not_True_eq_False)

text \<open>
  A rejected Body has to be commissioned anew. Once an Enrollment of a hardware
  identity was rejected, an Enrollment of the same identity that brings a continuation
  instead of a voucher is refused at any later time and changes nothing: with FORBIDDEN
  where the continuation matches the issued binding, with UNAUTHENTICATED where it does not.
\<close>

theorem rejected_body_needs_commissioning:
  assumes "p \<in> set (proposals (run x au pj rs))" "pr_state p = Rejected"
    and "later = run x au pj (rs @ rs')"
    and "checks_pass x au t pl keys v (pr_hardware_identity_ref p)"
    and "vc_scheme v = enrolled_base_key_scheme"
    and "replay_in_session later (ep_requested_owner_domain_id pl) create_command cid
           (create_print x pl) = Inr None"
  shows "create_enrollment x au t cid corr pl later = (later, Inl
      (if bound_as later (vc_device_base_id v) (au_owner_domain_id au)
            (ek_operational_key_id keys) (pr_hardware_identity_ref p)
       then fresh_presence_problem
       else unauthenticated ''base identity continuation has no matching issued binding''))"
proof -
  from lifecycle_history [OF run_append keys_ok_run, of p x au pj rs rs'] assms(1-3)
  have p: "p \<in> set (proposals later)"
    by (auto simp: core_simps proposal_history_def terminal_proposal_states_def)
  have ow: "pr_requested_owner_domain_id p = au_owner_domain_id au"
    using run_ok(8) [of x au pj rs] assms(1) by (auto simp: identity_ok_def core_simps)
  have fresh: "requires_fresh_presence later (au_owner_domain_id au) (pr_hardware_identity_ref p)"
    using p ow assms(2) by (auto simp: requires_fresh_presence_def list_ex_iff)
  have ow': "ep_requested_owner_domain_id pl = au_owner_domain_id au"
    using assms(4) by (simp add: checks_pass_def)
  have scheme: "vc_scheme v \<noteq> voucher_scheme"
    using assms(5) by (simp add: enrolled_base_key_scheme_def voucher_scheme_def)
  show ?thesis
  proof (rule create_refused [OF assms(4,6)])
    fix db1 assume c: "core db1 = core later"
    have same: "bound_as db1 = bound_as later"
        "requires_fresh_presence db1 = requires_fresh_presence later"
      using core_field [OF c, of base_identities] core_field [OF c, of proposals]
        core_field [OF c, of claims]
      by (intro ext; simp add: bound_as_def base_identity_def requires_fresh_presence_def core_simps)+
    then show "claim_standing v (ep_requested_owner_domain_id pl) (pr_hardware_identity_ref p)
        (ek_operational_key_id keys) t db1
      = Inl (if bound_as later (vc_device_base_id v) (au_owner_domain_id au)
            (ek_operational_key_id keys) (pr_hardware_identity_ref p)
       then fresh_presence_problem
       else unauthenticated ''base identity continuation has no matching issued binding'')"
      using continuation_refused [OF scheme, of db1 "au_owner_domain_id au"] fresh
      by (simp add: ow')
  qed
qed

definition rejected_run :: "request list" where
  "rejected_run = [small_create, Decide_enrollment 2 2 ''2'' [] proposal_id
     (small_decision\<lparr>dp_decision := Reject\<rparr>) owner_controller]"

lemma rejected_rows:
  "list_ex (\<lambda>p. pr_state p = Rejected \<and> pr_hardware_identity_ref p = small_identity)
     (proposals (small_run rejected_run))"
  "replay_in_session (small_run rejected_run) (ep_requested_owner_domain_id second_payload)
     create_command ''6'' (create_print small_world second_payload) = Inr None"
  "bound_as (small_run rejected_run) ''b'' ''o'' ''k'' small_identity"
  by code_simp+

theorem rejected_body_needs_commissioning_witness:
  "create_enrollment small_world small_authority 4 ''6'' [] second_payload (small_run rejected_run)
    = (small_run rejected_run, Inl fresh_presence_problem)"
proof -
  from rejected_rows(1) obtain p where p: "p \<in> set (proposals (small_run rejected_run))"
      "pr_state p = Rejected" "pr_hardware_identity_ref p = small_identity"
    by (auto simp: list_ex_iff)
  have "create_enrollment small_world small_authority 4 ''6'' [] second_payload (small_run rejected_run)
    = (small_run rejected_run, Inl (if bound_as (small_run rejected_run)
         (vc_device_base_id small_continuation) (au_owner_domain_id small_authority)
         (ek_operational_key_id small_keys) (pr_hardware_identity_ref p)
       then fresh_presence_problem
       else unauthenticated ''base identity continuation has no matching issued binding''))"
    by (rule rejected_body_needs_commissioning [where rs' = "[]", OF p(1,2)])
      (simp_all add: p(3) small_checks(2) rejected_rows(2) small_continuation_fields)
  with rejected_rows(3) show ?thesis
    by (simp add: p(3) small_continuation_fields small_authority_def small_keys_def)
qed

end
