(* ===== verification/Paging.thy ===== *)
theory Paging
  imports Admission_Queries Admission_Lifecycle
begin

text \<open>
  Keyset pagination as a contract: a listing that orders its rows by a key no two of them
  share, returns at most \<open>limit\<close> rows after the cursor, and names the last row of a full
  page as the next cursor.  A client that follows the cursors over an unchanged database
  reads every row once, in order, and stops.
\<close>

section \<open>The client's walk\<close>

fun walk :: "('r \<Rightarrow> int \<times> string) \<Rightarrow> ((int \<times> string) option \<Rightarrow> 'r list) \<Rightarrow> nat \<Rightarrow> nat
    \<Rightarrow> (int \<times> string) option \<Rightarrow> 'r list option" where
  "walk key pg limit 0 c = None"
| "walk key pg limit (Suc fuel) c =
     (case next_cursor key (pg c) limit of
        None \<Rightarrow> Some (pg c)
      | Some c' \<Rightarrow> map_option (append (pg c)) (walk key pg limit fuel (Some c')))"

fun client_pages :: "((int \<times> string) option \<Rightarrow> exn + 'v page) \<Rightarrow> nat \<Rightarrow> (int \<times> string) option
    \<Rightarrow> 'v list option" where
  "client_pages query 0 c = None"
| "client_pages query (Suc fuel) c =
     (case query c of
        Inl _ \<Rightarrow> None
      | Inr pg \<Rightarrow>
          (case pg_next_cursor pg of
             None \<Rightarrow> Some (pg_items pg)
           | Some c' \<Rightarrow> map_option (append (pg_items pg)) (client_pages query fuel (Some c'))))"

lemma client_walk:
  assumes "\<And>c. query c = Inr \<lparr>pg_items = map view (pg c), pg_next_cursor = next_cursor key (pg c) limit,
      pg_observed_at = now\<rparr>"
  shows "client_pages query fuel c = map_option (map view) (walk key pg limit fuel c)"
  by (induction fuel arbitrary: c)
    (auto simp: assms option.map_comp comp_def split: option.splits)

section \<open>The listing's contract\<close>

definition strictly_by :: "('r \<Rightarrow> 'k::linorder) \<Rightarrow> 'r list \<Rightarrow> bool" where
  "strictly_by key t = sorted_wrt (\<lambda>a b. key a < key b) t"

lemma strictly_order_by:
  assumes "distinct (map key t)"
  shows "strictly_by key (order_by key t)"
proof -
  have "distinct (map key (order_by key t))"
    using assms unfolding order_by_def distinct_map by (auto simp: distinct_map)
  with sorted_order_by [of key t] have "sorted_wrt (<) (map key (order_by key t))"
    by (simp add: strict_sorted_iff)
  then show ?thesis by (simp add: strictly_by_def sorted_wrt_map)
qed

lemma after_last:
  assumes "strictly_by key (pre @ suf)" "pre \<noteq> []"
  shows "filter (\<lambda>r. key (last pre) < key r) (pre @ suf) = suf"
proof -
  from assms(1) have pre: "strictly_by key pre" and suf: "\<forall>r \<in> set suf. key (last pre) < key r"
    using assms(2) by (auto simp: strictly_by_def sorted_wrt_append)
  from pre have "\<not> key (last pre) < key r" if "r \<in> set pre" for r
  proof (cases "r = last pre")
    case False
    with that assms(2) have "r \<in> set (butlast pre)"
      by (metis append_butlast_last_id rotate1.simps(2) set_ConsD set_rotate1)
    with pre assms(2) have "key r < key (last pre)"
      unfolding strictly_by_def by (metis append_butlast_last_id list.set_intros(1) sorted_wrt_append)
    then show ?thesis by simp
  qed simp
  then have "filter (\<lambda>r. key (last pre) < key r) pre = []" by (simp add: filter_empty_conv)
  with suf show ?thesis by (simp add: filter_id_conv)
qed

locale keyset_listing =
  fixes key :: "'r \<Rightarrow> int \<times> string" and rows :: "'q \<Rightarrow> hub_db \<Rightarrow> 'r list"
    and listing :: "'q \<Rightarrow> hub_db \<Rightarrow> (int \<times> string) option \<Rightarrow> nat \<Rightarrow> 'r list"
  assumes answers: "listing q db c n = take n (order_by key (after_cursor key c (rows q db)))"
    and keyed: "keys_ok db \<Longrightarrow> distinct (map key (rows q db))"
begin

lemma ordered_after: "order_by key (after_cursor key (Some k) (rows q db))
    = filter (\<lambda>r. k < key r) (order_by key (rows q db))"
  by (simp add: after_cursor_def order_by_def filter_sort)

lemma walk_suffix:
  assumes "keys_ok db" "0 < n" "order_by key (rows q db) = pre @ suf" "length suf < fuel"
    and "c = (if pre = [] then None else Some (key (last pre)))"
  shows "walk key (\<lambda>c. listing q db c n) n fuel c = Some suf"
  using assms(3-)
proof (induction fuel arbitrary: pre suf c)
  case (Suc fuel)
  have strict: "strictly_by key (pre @ suf)"
    using strictly_order_by [OF keyed [OF assms(1)], of q] Suc.prems(1) by simp
  have page: "listing q db c n = take n suf"
  proof (cases "pre = []")
    case True
    with Suc.prems show ?thesis by (simp add: answers after_cursor_def)
  next
    case False
    then have "order_by key (after_cursor key c (rows q db)) = suf"
      by (simp only: Suc.prems(1,3) if_False ordered_after after_last [OF strict False])
    then show ?thesis by (simp add: answers)
  qed
  show ?case
  proof (cases "n \<le> length suf")
    case True
    then have next_page: "next_cursor key (take n suf) n = Some (key (last (take n suf)))"
      using assms(2) by (auto simp: next_cursor_def)
    have "walk key (\<lambda>c. listing q db c n) n fuel (Some (key (last (take n suf)))) = Some (drop n suf)"
    proof (rule Suc.IH [of "pre @ take n suf"])
      show "length (drop n suf) < fuel" using True assms(2) Suc.prems(2) by auto
    qed (use True assms(2) Suc.prems(1) in \<open>auto simp: last_append\<close>)
    then show ?thesis by (simp add: page next_page)
  next
    case False
    then have "next_cursor key suf n = None" by (auto simp: next_cursor_def)
    with False show ?thesis by (simp add: page)
  qed
qed simp

lemma walk_complete:
  assumes "keys_ok db" "0 < n" "length (rows q db) < fuel"
  shows "walk key (\<lambda>c. listing q db c n) n fuel None = Some (order_by key (rows q db))"
  by (rule walk_suffix [OF assms(1,2), where pre = "[]"]) (use assms(3) in \<open>simp_all add: order_by_def\<close>)

end

section \<open>The two listings of Admission\<close>

definition listed_proposals :: "string \<times> proposal_state list \<Rightarrow> hub_db \<Rightarrow> proposal_row list" where
  "listed_proposals q db = (case q of (owner, states) \<Rightarrow>
     filter (\<lambda>r. pr_requested_owner_domain_id r = owner \<and> pr_state r \<in> set states) (proposals db))"

definition listed_claims :: "string \<times> string \<times> claim_state list \<Rightarrow> hub_db \<Rightarrow> claim_row list" where
  "listed_claims q db = (case q of (owner, business, states) \<Rightarrow>
     filter (\<lambda>r. cl_owner_domain_id r = owner \<and> cl_business_owner_id r = business
        \<and> cl_state r \<in> set states) (claims db))"

lemma distinct_second: "distinct (map f t) \<Longrightarrow> distinct (map (\<lambda>r. (g r, f r)) (filter P t))"
  by (induction t) auto

interpretation proposal_listing: keyset_listing proposal_sort_key listed_proposals
    "\<lambda>q db c n. list_proposals db (fst q) (snd q) c n"
  by unfold_locales
    (simp_all add: list_proposals_def listed_proposals_def split_beta keys_defs
      proposal_sort_key_def [abs_def] distinct_second)

interpretation claim_listing: keyset_listing claim_sort_key listed_claims
    "\<lambda>q db c n. list_claim_rows db (fst q) (fst (snd q)) (snd (snd q)) c n"
  by unfold_locales
    (simp_all add: list_claim_rows_def listed_claims_def split_beta keys_defs
      claim_sort_key_def [abs_def] distinct_second)

end
