(* ===== verification/Claim_Stream.thy ===== *)
theory Claim_Stream
  imports Scenario
begin

text \<open>
  The durable Claim event stream (\<open>add_outbox\<close> and \<open>claim_event_page\<close> of
  \<open>hub/admission/persistence.py\<close>) as a changelog of the Claims: every transaction either
  leaves Claims and stream alone or moves one Claim by one revision and appends the event
  that says so.
\<close>

section \<open>One transaction\<close>

definition claim_log :: "hub_db \<Rightarrow> claim_row list \<times> stream_row list \<times> int" where
  "claim_log db = (claims db, claim_stream db, stream_seq db)"

text \<open>\<open>event["data"]["device_ref"]\<close>.\<close>

definition event_ref :: "event_data \<Rightarrow> device_ref option" where
  "event_ref d =
     (case d of
        Claim_activated_data r _ _ _ _ \<Rightarrow> Some r
      | Claim_revoked_data r _ _ \<Rightarrow> Some r
      | _ \<Rightarrow> None)"

definition announcement :: "string \<Rightarrow> claim_row \<Rightarrow> stream_row \<Rightarrow> bool" where
  "announcement dev row ev =
     (ae_subject (se_event ev) = ''device-instances/'' @ dev
      \<and> ae_aggregate_revision (se_event ev) = cl_revision row
      \<and> se_owner_domain_id ev = cl_owner_domain_id row
      \<and> map_option device_instance_id (event_ref (ae_data (se_event ev))) = Some dev
      \<and> (cl_state row = Active \<and> se_event_type ev = claim_activated_type
         \<or> cl_state row = Revoked \<and> se_event_type ev = claim_revoked_type))"

definition next_revision :: "hub_db \<Rightarrow> string \<Rightarrow> int" where
  "next_revision db dev = (case get_claim db dev of None \<Rightarrow> 1 | Some r \<Rightarrow> cl_revision r + 1)"

text \<open>The Claim of one device moved by one revision, every other Claim as it was.\<close>

definition claim_moves :: "hub_db \<Rightarrow> string \<Rightarrow> claim_row \<Rightarrow> hub_db \<Rightarrow> bool" where
  "claim_moves db dev row db' =
     (get_claim db' dev = Some row \<and> cl_revision row = next_revision db dev
      \<and> (\<forall>e. e \<noteq> dev \<longrightarrow> get_claim db' e = get_claim db e))"

definition announces :: "hub_db \<Rightarrow> hub_db \<Rightarrow> bool" where
  "announces db db' = (\<exists>dev row ev. claim_moves db dev row db'
     \<and> claim_stream db' = claim_stream db @ [ev] \<and> stream_seq db' = stream_seq db + 1
     \<and> se_stream_position ev = stream_seq db + 1 \<and> announcement dev row ev)"

definition log_step :: "hub_db \<Rightarrow> hub_db \<Rightarrow> bool" where
  "log_step db db' = (claim_log db' = claim_log db \<or> announces db db')"

abbreviation log_steps :: "hub_db \<Rightarrow> hub_db \<Rightarrow> bool" where
  "log_steps \<equiv> log_step\<^sup>*\<^sup>*"

lemma quietI: "claim_log db' = claim_log db \<Longrightarrow> log_steps db db'"
  by (auto simp: log_step_def)

lemma announcedI: "announces db db' \<Longrightarrow> log_steps db db'"
  by (auto simp: log_step_def)

section \<open>What each statement does to the log\<close>

named_theorems quiet \<open>statements that leave Claims and stream alone\<close>

lemma quiet_updates [simp]:
  "claim_log (update_grant g f db) = claim_log db"
  "claim_log (set_proposal_state e s t db) = claim_log db"
  "claim_log (project_revoked_claim ref t db) = claim_log db"
  by (auto simp: claim_log_def project_revoked_claim_def update_device_def split: option.splits)

lemma quiet_new_id [quiet]: "new_id x pre db = (i, db') \<Longrightarrow> claim_log db' = claim_log db"
  by (auto simp: new_id_def claim_log_def)

lemma quiet_save [quiet]: "save_result ow ct cid fp r t db = Inr db' \<Longrightarrow> claim_log db' = claim_log db"
  by (auto simp: save_result_def ok_iff claim_log_def)

lemma quiet_outbox: "add_outbox eid ty agg rv ev t db = Inr db' \<Longrightarrow> \<not> is_claim_stream_event ty \<Longrightarrow>
    claim_log db' = claim_log db"
  by (auto simp: add_outbox_def ok_iff claim_log_def)

lemma quiet_publish: "publish x ty sub agg own rv cid corr t pay db = Inr db' \<Longrightarrow>
    \<not> is_claim_stream_event ty \<Longrightarrow> claim_log db' = claim_log db"
  by (auto simp: publish_def dest!: quiet_outbox quiet_new_id split: prod.splits)

lemma enrollment_events [simp]:
  "\<not> is_claim_stream_event ''live.eidolon.device.enrollment-expired.v1''"
  "\<not> is_claim_stream_event ''live.eidolon.device.enrollment-canceled.v1''"
  "\<not> is_claim_stream_event ''live.eidolon.device.enrollment-approved.v1''"
  "\<not> is_claim_stream_event ''live.eidolon.device.enrollment-rejected.v1''"
  "\<not> is_claim_stream_event ''live.eidolon.device.enrollment-proposal-created.v1''"
  "\<not> is_claim_stream_event ''live.eidolon.device.claim-grant-delivered.v1''"
  "\<not> is_claim_stream_event ''live.eidolon.device.claim-grant-acknowledged.v1''"
  by (simp_all add: is_claim_stream_event_def)

lemma quiet_adds [quiet]:
  "add_proposal p db = Inr db' \<Longrightarrow> claim_log db' = claim_log db"
  "add_decision d db = Inr db' \<Longrightarrow> claim_log db' = claim_log db"
  "add_grant g db = Inr db' \<Longrightarrow> claim_log db' = claim_log db"
  "add_grant_ack a db = Inr db' \<Longrightarrow> claim_log db' = claim_log db"
  by (auto simp: add_proposal_def insert_proposal_row_def add_decision_def add_grant_def
      add_grant_ack_def ok_iff claim_log_def)

lemma quiet_mint [quiet]: "mint_grant x au p od mref did t db = Inr (g, db') \<Longrightarrow> claim_log db' = claim_log db"
  by (auto simp: mint_grant_def ok_iff Let_def dest!: quiet split: prod.splits)

lemma quiet_decide [quiet]:
  assumes "decide_in_session x au p v who od own mref cid corr t db = Inr (out, db')"
  shows "claim_log db' = claim_log db"
  using assms unfolding decide_in_session_def Let_def
  by (cases v) (auto simp: ok_iff dest!: quiet quiet_publish split: prod.splits)

lemma quiet_apply [quiet]: "apply_standing x au t cid corr p v mref db = Inr db' \<Longrightarrow> claim_log db' = claim_log db"
  by (auto simp: apply_standing_def ok_iff split: option.splits dest!: quiet_decide)

lemma quiet_claim_standing [quiet]:
  "claim_standing v ow hw key t db = Inr db' \<Longrightarrow> claim_log db' = claim_log db"
  by (erule claim_standing_cases;
      auto simp: claim_log_def elim!: bind_base_identity_cases dest!: consume_voucher_cases(2))

lemma quiet_expire_each: "expire_each x t ps db = Inr db' \<Longrightarrow> claim_log db' = claim_log db"
proof (induction ps arbitrary: db)
  case (Cons p ps)
  from Cons.prems obtain db1 where s: "expire_one x t p db = Inr db1" "expire_each x t ps db1 = Inr db'"
    by (auto simp: ok_iff)
  from s(1) have "claim_log db1 = claim_log db"
    by (auto simp: expire_one_def Let_def ok_iff dest!: quiet_publish split: option.splits)
  with Cons.IH [OF s(2)] show ?case by simp
qed simp

lemma quiet_expire_due [quiet]: "expire_due x t db = Inr (n, db') \<Longrightarrow> claim_log db' = claim_log db"
  by (auto simp: expire_due_def Let_def ok_iff dest: quiet_expire_each)

lemma quiet_deliver [quiet]:
  "deliver_grant x au eph t n p g db = Inr (v, db') \<Longrightarrow> claim_log db' = claim_log db"
  by (auto simp: deliver_grant_def ok_iff split: option.splits)

section \<open>The two transactions that announce\<close>

lemma tget_tupd_at:
  assumes "\<And>r. key r = k \<Longrightarrow> key (f r) = k"
  shows "tget key k' (tupd key k f t) = (if k' = k then map_option f (tget key k t) else tget key k' t)"
proof (induction t)
  case (Cons a t)
  show ?case using assms [of a] Cons by (auto simp: tget_Cons tupd_def)
qed (simp add: tupd_def)

lemma claim_moves_cong:
  "claims db1 = claims db \<Longrightarrow> claims db2 = claims db' \<Longrightarrow>
   claim_moves db1 dev row db2 = claim_moves db dev row db'"
  by (simp add: claim_moves_def next_revision_def get_claim_def)

lemma upsert_moves:
  assumes "upsert_claim v db = (n, db')" "cl_revision v = 1"
  shows "claim_moves db (cl_device_instance_id v) (v\<lparr>cl_revision := n\<rparr>) db'"
    and "claim_stream db' = claim_stream db" "stream_seq db' = stream_seq db"
proof -
  let ?dev = "cl_device_instance_id v"
  show "claim_moves db ?dev (v\<lparr>cl_revision := n\<rparr>) db'"
  proof (cases "get_claim db ?dev")
    case None
    with assms have "db' = db\<lparr>claims := claims db @ [v]\<rparr>" "n = 1"
      by (simp_all add: upsert_claim_def)
    with None assms(2) show ?thesis
      by (auto simp: claim_moves_def next_revision_def get_claim_def tget_append tget_Cons
          split: option.splits)
  next
    case (Some e)
    with assms have s: "n = cl_revision e + 1"
        "claims db' = tupd cl_device_instance_id ?dev (\<lambda>_. v\<lparr>cl_revision := n\<rparr>) (claims db)"
      by (auto simp: upsert_claim_def Let_def update_claim_def)
    have "tget cl_device_instance_id d (claims db')
        = (if d = ?dev then map_option (\<lambda>_. v\<lparr>cl_revision := n\<rparr>) (get_claim db ?dev)
           else get_claim db d)" for d
      unfolding s(2) get_claim_def by (rule tget_tupd_at) simp
    with Some s(1) show ?thesis by (simp add: claim_moves_def next_revision_def get_claim_def)
  qed
  show "claim_stream db' = claim_stream db" "stream_seq db' = stream_seq db"
    using assms by (auto simp: upsert_claim_def Let_def update_claim_def split: option.splits)
qed

lemma announce_outbox:
  assumes "claim_moves db dev row db1" "claim_stream db1 = claim_stream db" "stream_seq db1 = stream_seq db"
    and "claim_log db2 = claim_log db1"
    and "add_outbox eid ty agg rv
           (make_event eid ty (''device-instances/'' @ dev) (cl_owner_domain_id row)
              (cl_revision row) cid corr t pay) t' db2 = Inr db'"
    and "cl_state row = Active \<and> ty = claim_activated_type \<or> cl_state row = Revoked \<and> ty = claim_revoked_type"
    and "map_option device_instance_id (event_ref pay) = Some dev"
  shows "announces db db'"
proof -
  from assms(6) have "is_claim_stream_event ty"
    by (auto simp: is_claim_stream_event_def claim_activated_type_def claim_revoked_type_def)
  with assms(5) obtain ev where ev: "claims db' = claims db2" "claim_stream db' = claim_stream db2 @ [ev]"
      "stream_seq db' = stream_seq db2 + 1" "se_stream_position ev = stream_seq db2 + 1"
      "se_event_type ev = ty" "se_owner_domain_id ev = cl_owner_domain_id row"
      "se_event ev = make_event eid ty (''device-instances/'' @ dev) (cl_owner_domain_id row)
         (cl_revision row) cid corr t pay"
    by (auto simp: add_outbox_def ok_iff make_event_def)
  from assms(4) have same: "claims db2 = claims db1" "claim_stream db2 = claim_stream db1"
      "stream_seq db2 = stream_seq db1" by (simp_all add: claim_log_def)
  have "claim_moves db dev row db'"
    using assms(1) claim_moves_cong [OF refl, of db' db1 db] ev(1) same(1) by simp
  moreover have "announcement dev row ev"
    using ev assms(6,7) by (auto simp: announcement_def make_event_def)
  ultimately show ?thesis
    unfolding announces_def using ev same assms(2,3)
    by (intro exI [of _ dev] exI [of _ row] exI [of _ ev]) simp
qed

lemma activate_moves:
  assumes "activate_claim x t pf p g db = Inr ((n, own), db')"
  obtains row where "claim_moves db (device_instance_id (gr_device_ref g)) row db'"
    "cl_owner_domain_id row = ref_owner_domain_id (gr_device_ref g)" "cl_state row = Active"
    "cl_revision row = n" "claim_stream db' = claim_stream db" "stream_seq db' = stream_seq db"
  using assms
proof (rule activate_claimD)
  fix db1 d m db2 db3
  let ?row = "claim_for (gr_device_ref g) (dc_target_business_owner_id d) g p Active (Some t) t None"
  assume a: "add_grant_ack \<lparr>ga_grant_id = gr_grant_id g, ga_enrollment_id = pr_enrollment_id p,
       ga_proof_fingerprint = ''sha256:'' @ sha256_hex x pf, ga_device_ref = gr_device_ref g,
       ga_acknowledged_at = t\<rparr> db = Inr db1"
    and u: "upsert_claim ?row db1 = (m, db2)"
    and pr: "project_active_claim x (gr_device_ref g) (dc_target_business_owner_id d) (pr_manifest_id p)
       (pr_manifest_json p) (pr_manifest_digest p) (pr_manifest_revision p) t db2 = Inr db3"
    and v: "(n, own) = (m, dc_target_business_owner_id d)"
    and db': "db' = set_proposal_state (pr_enrollment_id p) Grant_acknowledged t db3"
  from pr obtain doc where "json_loads x (pr_manifest_json p) = Some (JObj doc)"
    by (rule project_active_claimD)
  with pr have log3: "claim_log db3 = claim_log db2"
    by (auto simp: project_active_claim_def Let_def update_device_def claim_log_def split: option.splits)
  have log1: "claim_log db1 = claim_log db" using a by (rule quiet)
  from upsert_moves [OF u] have m: "claim_moves db1 (device_instance_id (gr_device_ref g))
      (?row\<lparr>cl_revision := m\<rparr>) db2" "claim_stream db2 = claim_stream db1" "stream_seq db2 = stream_seq db1"
    by (simp_all add: claim_for_def)
  show thesis
  proof (rule that [of "?row\<lparr>cl_revision := m\<rparr>"])
    have eqs: "claims db1 = claims db" "claims db' = claims db2"
      using log1 log3 by (simp_all add: db' claim_log_def)
    show "claim_moves db (device_instance_id (gr_device_ref g)) (?row\<lparr>cl_revision := m\<rparr>) db'"
      using m(1) claim_moves_cong [OF eqs] eqs by (simp add: claim_moves_def next_revision_def get_claim_def)
  qed (use m(2,3) log1 log3 v in \<open>simp_all add: claim_for_def db' claim_log_def\<close>)
qed

lemma revoke_unclaimed_moves:
  assumes "revoke_unclaimed ref t g db = Inr db'" "get_claim db (device_instance_id ref) = None"
  obtains row where "claim_moves db (device_instance_id ref) row db'" "cl_state row = Revoked"
    "cl_owner_domain_id row = ref_owner_domain_id ref" "cl_revision row = 1"
    "claim_stream db' = claim_stream db" "stream_seq db' = stream_seq db"
  using assms(1)
proof (rule revoke_unclaimedD)
  fix p d c1
  let ?row = "claim_for ref (dc_target_business_owner_id d) g p Revoked None t (Some t)"
  assume c1: "c1 = update_grant (gr_grant_id g) (revoke_grant t)
            (set_proposal_state (gr_enrollment_id g) Claim_revoked t db)"
    and c': "db' = snd (upsert_claim ?row c1)"
  obtain n where n: "upsert_claim ?row c1 = (n, db')" using c' by (cases "upsert_claim ?row c1") simp
  from upsert_moves [OF n] have m: "claim_moves c1 (device_instance_id ref) (?row\<lparr>cl_revision := n\<rparr>) db'"
      "claim_stream db' = claim_stream c1" "stream_seq db' = stream_seq c1"
    by (simp_all add: claim_for_def)
  have same: "claims c1 = claims db" by (simp add: c1)
  from m(1) same have mv: "claim_moves db (device_instance_id ref) (?row\<lparr>cl_revision := n\<rparr>) db'"
    by (simp add: claim_moves_def next_revision_def get_claim_def)
  then have "n = 1" using assms(2) by (simp add: claim_moves_def next_revision_def)
  with mv m(2,3) show thesis
    by (intro that [of "?row\<lparr>cl_revision := n\<rparr>"]) (simp_all add: claim_for_def c1)
qed

lemma revoke_standing_moves:
  assumes "get_claim db dev = Some c"
  shows "claim_moves db dev (c\<lparr>cl_state := Revoked, cl_revision := cl_revision c + 1,
            cl_updated_at := t, cl_revoked_at := Some t\<rparr>) (revoke_standing_claim t c db)"
    and "claim_stream (revoke_standing_claim t c db) = claim_stream db"
    and "stream_seq (revoke_standing_claim t c db) = stream_seq db"
proof -
  define f where "f r = r\<lparr>cl_state := Revoked, cl_revision := cl_revision r + 1, cl_updated_at := t,
    cl_revoked_at := Some t\<rparr>" for r :: claim_row
  have key: "cl_device_instance_id (f r) = cl_device_instance_id r" for r by (simp add: f_def)
  from assms have dev: "cl_device_instance_id c = dev" by (auto simp: get_claim_def dest: tget_SomeD)
  have cl: "claims (revoke_standing_claim t c db) = tupd cl_device_instance_id dev f (claims db)"
    by (auto simp: revoke_standing_claim_def Let_def update_claim_def dev f_def [abs_def] split: option.splits)
  from assms show "claim_moves db dev (c\<lparr>cl_state := Revoked, cl_revision := cl_revision c + 1,
            cl_updated_at := t, cl_revoked_at := Some t\<rparr>) (revoke_standing_claim t c db)"
    unfolding claim_moves_def get_claim_def cl tget_tupd [of cl_device_instance_id f, OF key]
    by (simp add: f_def next_revision_def get_claim_def)
  show "claim_stream (revoke_standing_claim t c db) = claim_stream db"
    "stream_seq (revoke_standing_claim t c db) = stream_seq db"
    by (auto simp: revoke_standing_claim_def Let_def update_claim_def split: option.splits)
qed

lemma ack_log:
  assumes "ack_tx x au t cid corr eid gid pf n ep fp db = Inr (r, db')"
  shows "log_steps db db'"
  using assms unfolding ack_tx_def Let_def
proof (cases rule: locked_replay_cases)
  case new
  then obtain p g m own db1 db2 db3 r2 a1 a2 a3 a4 where s:
    "activate_claim x t pf p g db = Inr ((m, own), db1)"
    "save_result (au_owner_domain_id au) ack_command cid fp r2 t db1 = Inr db2"
    "publish x ''live.eidolon.device.claim-grant-acknowledged.v1'' (''enrollments/'' @ eid) eid
       (ref_owner_domain_id (gr_device_ref g)) (pr_revision p + 1) cid corr t
       (Grant_acknowledged_data gid) db2 = Inr db3"
    "publish x claim_activated_type (''device-instances/'' @ device_instance_id (gr_device_ref g))
       (device_instance_id (gr_device_ref g)) (ref_owner_domain_id (gr_device_ref g)) m cid corr t
       (Claim_activated_data (gr_device_ref g) a1 a2 a3 a4) db3 = Inr db'"
    by (auto simp: ok_iff)
  obtain eid' db4 where i: "new_id x ''admission-event'' db3 = (eid', db4)"
    by (cases "new_id x ''admission-event'' db3")
  from s(1) obtain row where row: "claim_moves db (device_instance_id (gr_device_ref g)) row db1"
    "cl_owner_domain_id row = ref_owner_domain_id (gr_device_ref g)" "cl_state row = Active"
    "cl_revision row = m" "claim_stream db1 = claim_stream db" "stream_seq db1 = stream_seq db"
    by (rule activate_moves)
  have "claim_log db4 = claim_log db1"
    using quiet_save [OF s(2)] quiet_publish [OF s(3)] quiet_new_id [OF i] by simp
  from announce_outbox [OF row(1,5,6) this] s(4) row(2-4) i show ?thesis
    by (intro announcedI) (auto simp: publish_def event_ref_def)
qed simp

lemma finish_log:
  assumes "finish_revocation x t ow cid corr ref reason fp (cl_revision row) db1 = Inr (r, db')"
    and "claim_moves db (device_instance_id ref) row db1" "cl_state row = Revoked"
    and "cl_owner_domain_id row = ref_owner_domain_id ref"
    and "claim_stream db1 = claim_stream db" "stream_seq db1 = stream_seq db"
  shows "log_steps db db'"
proof -
  from assms(1) obtain eid db2 db3 r2 where s:
    "new_id x ''admission-event'' (project_revoked_claim ref t db1) = (eid, db2)"
    "save_result ow revoke_command cid fp r2 t db2 = Inr db3"
    "add_outbox eid claim_revoked_type (device_instance_id ref) (cl_revision row)
       (make_event eid claim_revoked_type (''device-instances/'' @ device_instance_id ref)
          (ref_owner_domain_id ref) (cl_revision row) cid corr t (Claim_revoked_data ref reason t)) t db3
       = Inr db'"
    by (auto simp: finish_revocation_def Let_def ok_iff split: prod.splits)
  have "claim_log db3 = claim_log db1" using quiet_save [OF s(2)] quiet_new_id [OF s(1)] by simp
  from announce_outbox [OF assms(2,5,6) this] s(3) assms(3,4) show ?thesis
    by (intro announcedI) (auto simp: event_ref_def)
qed

lemma revoke_log:
  assumes "revoke_tx x t cid corr ref reason ctx fp db = Inr (r, db')"
  shows "log_steps db db'"
  using assms unfolding revoke_tx_def Let_def
proof (cases rule: locked_replay_cases)
  case new
  note run = new(2)
  show ?thesis
  proof (cases "get_claim db (device_instance_id ref)")
    case None
    from run None obtain g db1 where s: "revoke_unclaimed ref t g db = Inr db1"
        "finish_revocation x t (ctx_owner_domain_id ctx) cid corr ref reason fp 1 db1 = Inr (r, db')"
      by (auto simp: ok_iff)
    from s(1) None show ?thesis
      by (rule revoke_unclaimed_moves) (use finish_log s(2) in metis)
  next
    case (Some c)
    show ?thesis
    proof (cases "cl_state c = Revoked")
      case True
      with run Some show ?thesis by (intro quietI) (auto simp: ok_iff dest!: quiet_save)
    next
      case False
      with run Some have s: "finish_revocation x t (ctx_owner_domain_id ctx) cid corr ref reason fp
          (cl_revision c + 1) (revoke_standing_claim t c db) = Inr (r, db')" "claim_matches_ref c ref"
        by (auto simp: ok_iff)
      show ?thesis
        by (rule finish_log [OF _ revoke_standing_moves(1) [OF Some] _ _ revoke_standing_moves(2,3) [OF Some]])
          (use s in \<open>auto simp: claim_matches_ref_def\<close>)
    qed
  qed
qed simp

section \<open>Every other transaction is quiet\<close>

lemma cancel_log: "cancel_tx x t cid corr eid reason ctx fp db = Inr (r, db') \<Longrightarrow> log_steps db db'"
  unfolding cancel_tx_def Let_def
  by (erule locked_replay_cases)
    (auto intro!: quietI simp: ok_iff dest!: quiet_save quiet_publish)

lemma decide_log: "decide_tx x au t cid corr eid pl ctx fp db = Inr (r, db') \<Longrightarrow> log_steps db db'"
  unfolding decide_tx_def Let_def
  by (erule locked_replay_cases) (auto intro!: quietI simp: ok_iff dest!: quiet)

lemma collect_log: "collect_tx x au eph t cid corr eid n ch pf fp db = Inr (r, db') \<Longrightarrow> log_steps db db'"
  unfolding collect_tx_def Let_def
  by (erule locked_replay_cases)
    (auto intro!: quietI simp: ok_iff dest!: quiet quiet_publish split: if_splits)

lemma create_log: "create_tx x au t cid corr pl keys v hw mj fp db = Inr (r, db') \<Longrightarrow> log_steps db db'"
  unfolding create_tx_def Let_def
  by (erule locked_replay_cases)
    (auto intro!: quietI simp: ok_iff dest!: quiet quiet_publish split: prod.splits)

section \<open>Every run\<close>

interpretation log: transactional x au log_steps for x au
proof unfold_locales
  fix w db show "log_steps db (snd (record_controller_withdrawal w db))"
    by (rule quietI) (auto simp: record_controller_withdrawal_def claim_log_def split: option.splits)
next
  fix s db b db' assume "store_commissioning_standing s db = Inr (b, db')"
  then show "log_steps db db'"
    by (intro quietI)
      (auto simp: store_commissioning_standing_def claim_log_def split: option.splits if_splits)
next
  fix i t db db' assume "mark_published i t db = Inr db'"
  then show "log_steps db db'"
    by (intro quietI) (auto simp: mark_published_def claim_log_def split: option.splits if_splits)
next
  fix i e db show "log_steps db (record_publish_failure i e db)"
    by (rule quietI) (auto simp: record_publish_failure_def claim_log_def split: option.splits)
qed (auto intro: rtranclp_trans quietI quiet_expire_due create_log cancel_log decide_log collect_log
    ack_log revoke_log)

lemma run_log_invariant:
  assumes "P empty_db" "\<And>db db'. claim_log db' = claim_log db \<Longrightarrow> P db \<Longrightarrow> P db'"
    and "\<And>db db'. announces db db' \<Longrightarrow> P db \<Longrightarrow> P db'"
  shows "P (run x au pj rs)"
proof -
  have "P db'" if "log_steps db db'" "P db" for db db'
    using that by (induction rule: rtranclp_induct) (auto simp: log_step_def intro: assms(2,3))
  with log.served_related assms(1) show ?thesis unfolding run_def by blast
qed

section \<open>The stream as a changelog\<close>

definition stream_numbered :: "hub_db \<Rightarrow> bool" where
  "stream_numbered db = (map se_stream_position (claim_stream db) = [1..int (length (claim_stream db))]
     \<and> stream_seq db = int (length (claim_stream db)))"

definition device_events :: "hub_db \<Rightarrow> string \<Rightarrow> stream_row list" where
  "device_events db dev =
     filter (\<lambda>ev. ae_subject (se_event ev) = ''device-instances/'' @ dev) (claim_stream db)"

definition changelog :: "hub_db \<Rightarrow> string \<Rightarrow> bool" where
  "changelog db dev =
     (case get_claim db dev of
        None \<Rightarrow> device_events db dev = []
      | Some row \<Rightarrow>
          map (ae_aggregate_revision \<circ> se_event) (device_events db dev) = [1..cl_revision row]
          \<and> device_events db dev \<noteq> [] \<and> announcement dev row (last (device_events db dev)))"

lemma numbered_run: "stream_numbered (run x au pj rs)"
proof (rule run_log_invariant)
  fix db db' assume "announces db db'" "stream_numbered db"
  then show "stream_numbered db'"
    by (auto simp: announces_def stream_numbered_def upto_rec2)
qed (auto simp: stream_numbered_def empty_db_def claim_log_def)

lemma changelog_cong:
  assumes "get_claim db' dev = get_claim db dev" "device_events db' dev = device_events db dev"
  shows "changelog db' dev = changelog db dev"
  unfolding changelog_def assms by (rule refl)

lemma changelog_announced:
  assumes "announces db db'" "\<And>d. changelog db d"
  shows "changelog db' dev"
proof -
  from assms(1) obtain d row ev where a: "claim_moves db d row db'"
      "claim_stream db' = claim_stream db @ [ev]" "announcement d row ev"
    unfolding announces_def by blast
  show ?thesis
  proof (cases "dev = d")
    case False
    with a have "get_claim db' dev = get_claim db dev" "device_events db' dev = device_events db dev"
      by (auto simp: claim_moves_def device_events_def announcement_def)
    with assms(2) [of dev] changelog_cong show ?thesis by blast
  next
    case True
    with a have ev: "device_events db' dev = device_events db dev @ [ev]"
        "get_claim db' dev = Some row" "cl_revision row = next_revision db dev"
        "ae_aggregate_revision (se_event ev) = next_revision db dev"
      by (auto simp: claim_moves_def device_events_def announcement_def)
    have "map (ae_aggregate_revision \<circ> se_event) (device_events db dev) @ [next_revision db dev]
        = [1..next_revision db dev]"
    proof (cases "get_claim db dev")
      case None
      with assms(2) [of dev] show ?thesis by (simp add: changelog_def next_revision_def)
    next
      case (Some r)
      with assms(2) [of dev] have r: "map (ae_aggregate_revision \<circ> se_event) (device_events db dev)
          = [1..cl_revision r]" "device_events db dev \<noteq> []" by (simp_all add: changelog_def)
      then have "1 \<le> cl_revision r" by (metis Nil_is_map_conv upto_empty linorder_not_less)
      with r(1) Some show ?thesis by (simp add: next_revision_def upto_rec2)
    qed
    with ev a(3) True show ?thesis by (simp add: changelog_def)
  qed
qed

lemma changelog_quiet: "claim_log db' = claim_log db \<Longrightarrow> changelog db' = changelog db"
  by (intro ext changelog_cong) (simp_all add: claim_log_def device_events_def get_claim_def)

lemma changelog_run: "changelog (run x au pj rs) dev"
proof -
  have "\<forall>d. changelog (run x au pj rs) d"
  proof (rule run_log_invariant [where P = "\<lambda>db. \<forall>d. changelog db d"])
    show "\<forall>d. changelog empty_db d"
      by (simp add: changelog_def empty_db_def get_claim_def device_events_def)
  next
    fix db db' assume same: "claim_log db' = claim_log db" and "\<forall>d. changelog db d"
    then show "\<forall>d. changelog db' d" unfolding changelog_quiet [OF same] by blast
  next
    fix db db' assume an: "announces db db'" and ch: "\<forall>d. changelog db d"
    show "\<forall>d. changelog db' d" by (rule allI, rule changelog_announced [OF an]) (rule spec [OF ch])
  qed
  then show ?thesis by blast
qed

text \<open>
  C9: the Claim event stream is a faithful changelog. The events of a device carry the
  revisions 1, 2, ... of its Claim without a gap or a repetition, a device without a Claim
  has none, and the last event names the device and says what the Claim row says: its
  revision, its Owner Domain and whether it is active or revoked.
\<close>

theorem claim_stream_is_changelog: "changelog (run x au pj rs) dev"
  by (rule changelog_run)

section \<open>Reading the stream\<close>

definition stream_entry :: "stream_row \<Rightarrow> int \<times> admission_event" where
  "stream_entry r = (se_stream_position r, se_event r)"

lemma numbered_split:
  assumes "stream_numbered db" "0 \<le> a" "a \<le> int (length (claim_stream db))"
  shows "map se_stream_position (take (nat a) (claim_stream db)) = [1..a]"
    and "map se_stream_position (drop (nat a) (claim_stream db)) = [a + 1..int (length (claim_stream db))]"
proof -
  let ?n = "int (length (claim_stream db))"
  have "[1..?n] = [1..a] @ [a + 1..?n]"
    using assms(2,3) upto_split2 [of 1 a ?n] by (cases "a = 0") simp_all
  then have "map se_stream_position (claim_stream db) = [1..a] @ [a + 1..?n]"
    using assms(1) by (simp add: stream_numbered_def)
  then have "map se_stream_position (take (nat a) (claim_stream db))
      @ map se_stream_position (drop (nat a) (claim_stream db)) = [1..a] @ [a + 1..?n]"
    by (simp flip: map_append)
  moreover have "length (map se_stream_position (take (nat a) (claim_stream db))) = length [1..a]"
    using assms(2,3) by (simp add: min_absorb2 nat_le_iff)
  ultimately show "map se_stream_position (take (nat a) (claim_stream db)) = [1..a]"
    "map se_stream_position (drop (nat a) (claim_stream db)) = [a + 1..?n]" by auto
qed

lemma sql_max_upto: "0 \<le> n \<Longrightarrow> sql_max [1..n] = n"
proof (cases "n = 0")
  case False
  assume "0 \<le> n"
  with False have "[1..n] \<noteq> []" and n: "n \<in> set [1..n]" by auto
  then have "sql_max [1..n] \<in> set [1..n]" by (intro sql_max_in)
  then have "sql_max [1..n] \<le> n" by (simp only: set_upto atLeastAtMost_iff)
  with sql_max_ge [OF n] show ?thesis by linarith
qed simp

lemma numbered_watermark: "stream_numbered db \<Longrightarrow>
    stream_high_watermark db = int (length (claim_stream db))"
  by (simp add: stream_high_watermark_def stream_numbered_def sql_max_upto)

lemma numbered_page:
  assumes "stream_numbered db" "0 \<le> a" "a \<le> int (length (claim_stream db))"
  shows "order_by se_stream_position (filter (\<lambda>r. a < se_stream_position r) (claim_stream db))
    = drop (nat a) (claim_stream db)"
proof -
  note split = numbered_split [OF assms]
  have sets: "set (map se_stream_position (take (nat a) (claim_stream db))) = {1..a}"
    "set (map se_stream_position (drop (nat a) (claim_stream db))) = {a + 1..int (length (claim_stream db))}"
    unfolding split by simp_all
  then have "se_stream_position r \<in> {1..a}" if "r \<in> set (take (nat a) (claim_stream db))" for r
    using that by (metis imageI set_map)
  moreover have "se_stream_position r \<in> {a + 1..int (length (claim_stream db))}"
    if "r \<in> set (drop (nat a) (claim_stream db))" for r
    using that sets(2) by (metis imageI set_map)
  ultimately have lo: "\<forall>r \<in> set (take (nat a) (claim_stream db)). se_stream_position r \<le> a"
    and hi: "\<forall>r \<in> set (drop (nat a) (claim_stream db)). a < se_stream_position r"
    unfolding atLeastAtMost_iff by (blast, fastforce)
  have "filter (\<lambda>r. a < se_stream_position r) (take (nat a) (claim_stream db) @ drop (nat a) (claim_stream db))
      = drop (nat a) (claim_stream db)"
    unfolding filter_append using lo hi by (simp add: filter_empty_conv filter_id_conv not_less)
  then have f: "filter (\<lambda>r. a < se_stream_position r) (claim_stream db) = drop (nat a) (claim_stream db)"
    by (simp only: append_take_drop_id)
  have "sorted (map se_stream_position (drop (nat a) (claim_stream db)))"
    unfolding split(2) by simp
  then show ?thesis unfolding f order_by_def by (rule sort_key_id_if_sorted)
qed

lemma numbered_positions:
  fixes k :: nat
  assumes "stream_numbered db" "0 \<le> a" "a \<le> int (length (claim_stream db))"
  defines "page \<equiv> map se_stream_position (take k (drop (nat a) (claim_stream db)))"
  shows "page = map (\<lambda>i. a + 1 + int i) [0..<length page]"
proof (rule nth_equalityI)
  fix i assume i: "i < length page"
  have "page = take k [a + 1..int (length (claim_stream db))]"
    using numbered_split(2) [OF assms(1-3)] by (simp add: page_def flip: take_map)
  with i show "page ! i = map (\<lambda>i. a + 1 + int i) [0..<length page] ! i"
    by (auto simp: nth_upto)
qed simp

lemma cursor_retained:
  assumes "stream_numbered db"
  shows "tget se_stream_position a (claim_stream db) \<noteq> None \<longleftrightarrow> 1 \<le> a \<and> a \<le> int (length (claim_stream db))"
proof -
  have "se_stream_position ` set (claim_stream db) = {1..int (length (claim_stream db))}"
    using assms unfolding stream_numbered_def by (metis set_map set_upto)
  then show ?thesis by (simp add: tget_None_iff)
qed

lemma numbered_rows:
  assumes "stream_numbered db"
  shows "claim_event_rows db a k =
    (if int (length (claim_stream db)) < a
     then Inl (conflict ''CURSOR_GAP'' ''Claim event cursor is ahead of the stream'')
     else if a < 0
     then Inl (conflict ''CURSOR_GAP'' ''Claim event cursor is no longer retained'')
     else Inr (map stream_entry (take k (drop (nat a) (claim_stream db))), int (length (claim_stream db))))"
proof (cases "0 \<le> a \<and> a \<le> int (length (claim_stream db))")
  case True
  then have ok: "a = 0 \<or> tget se_stream_position a (claim_stream db) \<noteq> None"
    using cursor_retained [OF assms, of a] by auto
  from True show ?thesis
    unfolding claim_event_rows_def Let_def numbered_watermark [OF assms]
    using ok numbered_page [OF assms, of a] numbered_positions [OF assms, of a k]
    by (simp add: stream_entry_def [abs_def])
next
  case False
  then show ?thesis
    using cursor_retained [OF assms, of a]
    by (auto simp: claim_event_rows_def numbered_watermark [OF assms])
qed

text \<open>
  Reading the stream never skips. A page after position a holds exactly the next
  events of the stream, each with its position, and its watermark is the stream's length;
  the only refusals are a cursor ahead of the stream and a negative one, so the check for a
  durable gap never fires.
\<close>

theorem claim_event_page_exact:
  "read_claim_event_page au now a k owner (run x au pj rs) =
    (let stream = claim_stream (run x au pj rs); events = map stream_entry (take k (drop (nat a) stream))
     in if owner \<noteq> au_owner_domain_id au
        then Inl (problem_of ''NOT_FOUND'' ''Claim event stream not found'' 404 ''missing'')
        else if int (length stream) < a
        then Inl (conflict ''CURSOR_GAP'' ''Claim event cursor is ahead of the stream'')
        else if a < 0
        then Inl (conflict ''CURSOR_GAP'' ''Claim event cursor is no longer retained'')
        else Inr \<lparr>ep_requested_after = a, ep_events = events,
               ep_next_position = a + int (length events),
               ep_high_watermark = int (length stream), ep_observed_at = now\<rparr>)"
proof -
  let ?db = "run x au pj rs"
  note numbered = numbered_run [of x au pj rs]
  show ?thesis
  proof (cases "owner = au_owner_domain_id au \<and> 0 \<le> a \<and> a \<le> int (length (claim_stream ?db))")
    case True
    then have a: "0 \<le> a" "a \<le> int (length (claim_stream ?db))" by simp_all
    define es where "es = take k (drop (nat a) (claim_stream ?db))"
    have "(if map stream_entry es \<noteq> [] then fst (last (map stream_entry es)) else a) = a + int (length es)"
    proof (cases "es = []")
      case False
      then have "fst (last (map stream_entry es)) = last (map se_stream_position es)"
        by (simp add: last_map stream_entry_def)
      also have "\<dots> = last (map (\<lambda>i. a + 1 + int i) [0..<length es])"
        using numbered_positions [OF numbered a, of k] unfolding es_def [symmetric] by simp
      also from False obtain m where "length es = Suc m" by (cases es) simp_all
      then have "last (map (\<lambda>i. a + 1 + int i) [0..<length es]) = a + int (length es)" by simp
      finally show ?thesis using False by simp
    qed simp
    with True show ?thesis
      by (simp add: read_claim_event_page_def numbered_rows [OF numbered] Let_def flip: es_def)
  next
    case False
    then show ?thesis by (auto simp: read_claim_event_page_def numbered_rows [OF numbered] Let_def)
  qed
qed

end
