(* ===== verification/Identity_Properties.thy ===== *)
theory Identity_Properties
  imports Scenario
begin

text \<open>
  What the identity layer promises: key text that decodes to the bytes it was made from,
  HKDF output of the length asked for, identity references that name a normalised id, and
  commissioning proofs that rest on a signature or on a tag under the Host's key.
\<close>

section \<open>Key text\<close>

text \<open>
  C10: key text round-trips. Whatever the bytes, decoding what _b64 encoded gives them
  back, with or without the p256-spki: prefix, and the text has no pad character.
\<close>

theorem key_text_round_trip:
  "decode_key (b64 bs) = Some bs \<and> decode_key (spki_scheme @ b64 bs) = Some bs
   \<and> CHR ''='' \<notin> set (b64 bs)"
proof -
  have "CHR '':'' \<notin> set (b64_body bs)" using b64_body_chars by blast
  then have "remove_prefix spki_scheme (b64_body bs) = b64_body bs" by (rule no_spki_prefix)
  then have "decode_key (b64 bs) = Some bs" "decode_key (spki_scheme @ b64 bs) = Some bs"
    by (simp_all add: decode_key_def b64_eq_body remove_spki_prefix Let_def
        urlsafe_decode_encode flip: encode_body_pad)
  moreover have "CHR ''='' \<notin> set (b64 bs)" unfolding b64_eq_body using b64_body_chars by blast
  ultimately show ?thesis by simp
qed

section \<open>HKDF\<close>

text \<open>
  HKDF expansion gives exactly the length asked for, up to the 255 blocks of the one
  counter byte, and refuses anything longer.
\<close>

theorem hkdf_expand_bounds:
  assumes "\<And>k m. length (hmac_sha256 x k m) = 32"
  shows "(case hkdf_expand x prk info len of Inr key \<Rightarrow> length key = len \<and> len \<le> 8160
          | Inl _ \<Rightarrow> 8160 < len)"
proof (cases "255 < (len + 31) div 32")
  case True
  then show ?thesis by (simp add: hkdf_expand_def)
next
  case False
  then have "len \<le> 32 * ((len + 31) div 32)" "len \<le> 8160" by auto
  with False show ?thesis
    by (simp add: hkdf_expand_def length_expand_blocks [OF assms])
qed

definition keyed_world :: external where
  "keyed_world = small_world\<lparr>hmac_sha256 := \<lambda>k m. replicate 32 (word_of_nat (length k + length m))\<rparr>"

theorem hkdf_expand_bounds_witness:
  "case hkdf_expand keyed_world [] [] 48 of Inr key \<Rightarrow> length key = 48 \<and> (48 :: nat) \<le> 8160
     | Inl _ \<Rightarrow> (8160 :: nat) < 48"
  by (rule hkdf_expand_bounds) (simp add: keyed_world_def)

section \<open>Hardware identity references\<close>

definition derivation_input :: "string \<Rightarrow> byte list" where
  "derivation_input b = derivation_label @ [0] @ encode (casefold (strip b))"

text \<open>
  A hardware identity reference names the normalised lookup id and nothing else. Where
  SHA-256 does not collide on the two inputs, two device base ids have the same reference
  exactly if they agree after stripping and case folding; and the store's shape check
  accepts every derived reference.
\<close>

theorem identity_ref_names_normal_form:
  assumes "derive_hardware_identity_ref x a = Inr r" "derive_hardware_identity_ref x b = Inr s"
    and "sha256 x (derivation_input a) = sha256 x (derivation_input b) \<Longrightarrow>
      derivation_input a = derivation_input b"
    and "sha256_width x"
  shows "(r = s \<longleftrightarrow> casefold (strip a) = casefold (strip b))
    \<and> require_derived_hardware_identity_ref r = Inr r"
proof
  have "r = ''hardware-'' @ hex (sha256 x (derivation_input a))"
    "s = ''hardware-'' @ hex (sha256 x (derivation_input b))"
    using assms(1,2) by (simp_all add: derive_ok_iff derivation_input_def)
  then have "r = s \<longleftrightarrow> derivation_input a = derivation_input b"
    using assms(3) hex_inj by auto
  then show "r = s \<longleftrightarrow> casefold (strip a) = casefold (strip b)"
    using encode_inj by (auto simp: derivation_input_def)
  show "require_derived_hardware_identity_ref r = Inr r"
    using derived_matches [OF assms(4,1)] by (simp add: ok_iff)
qed

definition spread_world :: external where
  "spread_world = small_world\<lparr>sha256 := \<lambda>bs. take 32 (drop 29 bs @ replicate 32 0)\<rparr>"

definition spread_ref :: string where
  "spread_ref = ''hardware-6162'' @ replicate 60 (CHR ''0'')"

lemma spread_derived:
  "derive_hardware_identity_ref spread_world ''AB'' = Inr spread_ref"
  "derive_hardware_identity_ref spread_world '' ab'' = Inr spread_ref"
  by code_simp+

lemma same_normal_form: "casefold (strip ''AB'') = casefold (strip '' ab'')"
  by code_simp

theorem identity_ref_names_normal_form_witness:
  "(spread_ref = spread_ref \<longleftrightarrow> casefold (strip ''AB'') = casefold (strip '' ab''))
    \<and> require_derived_hardware_identity_ref spread_ref = Inr spread_ref"
  by (rule identity_ref_names_normal_form [OF spread_derived])
    (auto simp: derivation_input_def same_normal_form sha256_width_def spread_world_def min_def)

section \<open>Commissioning proofs\<close>

fun join_dot :: "string list \<Rightarrow> string" where
  "join_dot [] = []"
| "join_dot [s] = s"
| "join_dot (s # ss) = s @ ''.'' @ join_dot ss"

lemma split_dot_nonempty: "split_dot s \<noteq> []"
  by (induction s) (auto split: list.splits)

lemma join_split_dot: "join_dot (split_dot s) = s"
proof (induction s)
  case (Cons c s)
  obtain p ps where "split_dot s = p # ps" using split_dot_nonempty by (cases "split_dot s") auto
  with Cons show ?case by (cases ps) auto
qed simp

lemma split_three: "split_dot s = [a, b, c] \<Longrightarrow> s = a @ ''.'' @ b @ ''.'' @ c"
  using join_split_dot [of s] by simp

definition evidence_signed ::
  "external \<Rightarrow> voucher_contract \<Rightarrow> string \<Rightarrow> string \<Rightarrow> string \<Rightarrow> bool" where
  "evidence_signed x vk dev key base = (\<exists>doc signature.
     verify_p256_proof x key (Json_doc (JObj doc)) signature
     \<and> dict_has doc ''device_instance_id'' dev \<and> dict_has doc ''operational_public_key'' key
     \<and> dict_has doc ''profile_id'' (trust_profile_id vk)
     \<and> map_option (str_of x) (map_of doc ''device_base_id'') = Some base)"

definition voucher_tagged ::
  "external \<Rightarrow> voucher_contract \<Rightarrow> byte list \<Rightarrow> string \<Rightarrow> (string \<times> json) list \<Rightarrow> bool" where
  "voucher_tagged x vk sk proof claims_doc = (\<exists>h p t body. proof = h @ ''.'' @ p @ ''.'' @ t
     \<and> b64url_decode t = Some (hmac_sha256 x sk (encode (h @ ''.'' @ p)))
     \<and> b64url_decode p = Some body \<and> json_loads x (decode_text body) = Some (JObj claims_doc))"

lemma signed_claims_tagged:
  assumes "voucher_signed_claims x vk sk proof = Some claims_doc"
  shows "voucher_tagged x vk sk proof claims_doc"
proof -
  from assms obtain h p t where s: "split_dot proof = [h, p, t]"
    by (auto simp: voucher_signed_claims_def split: list.splits)
  with assms show ?thesis unfolding voucher_tagged_def
    by (intro exI [of _ h] exI [of _ p] exI [of _ t])
      (auto simp: voucher_signed_claims_def Let_def split_three [OF s]
        split: if_splits option.splits json.splits)
qed

text \<open>
  C11: a verified commissioning proof rests on keys. The evidence is signed by the
  operational key over a document that names this device, this key and the base identity
  returned; and standing comes either from a voucher whose tag is the Host's HMAC over its
  header and claims, naming this Owner Domain, base identity, nonce and key and not yet
  expired, or from the same key's signature over the continuation document.
\<close>

theorem commissioning_proof_sound:
  assumes "verify_commissioning x (Issued_base_identity_verifier vk sk) dev owner nonce proof ev key now
    = Inr (Some v)"
  shows "evidence_signed x vk dev key (vc_device_base_id v)
    \<and> (vc_scheme v = voucher_scheme \<and> vc_jti v = Some nonce
         \<and> (\<exists>e. vc_expires_at v = Some e \<and> now < e)
         \<and> (\<exists>claims_doc kid. voucher_tagged x vk sk proof claims_doc
              \<and> voucher_claims_ok x vk claims_doc (vc_device_base_id v) owner nonce
              \<and> key_id x key = Inr kid \<and> dict_has claims_doc ''operational_spki_sha256'' kid)
       \<or> vc_scheme v = enrolled_base_key_scheme \<and> vc_jti v = None
         \<and> verify_p256_proof x key (Continuation_proof_doc enrolled_base_key_contract
              (vc_device_base_id v) dev nonce owner) proof)"
proof -
  from assms obtain base where base: "verified_evidence x vk ev dev key = Some base"
      "verified_standing x vk sk base dev owner nonce proof key now = Inr (Some v)"
    by (auto split: option.splits)
  have ev: "evidence_signed x vk dev key base"
    using base(1) unfolding verified_evidence_def evidence_signed_def
    by (auto split: if_splits option.splits prod.splits json.splits)
  from verified_standing_cases [OF base(2)] show ?thesis
  proof
    assume "verified_voucher x vk sk proof base owner nonce key now = Inr (Some v)"
    then show ?thesis
      by (rule verified_voucherD) (use ev in \<open>auto dest!: signed_claims_tagged\<close>)
  next
    assume "verified_continuation x proof base dev owner nonce key = Some v"
    from verified_continuation_scheme [OF this] ev show ?thesis by simp
  qed
qed

lemma small_verified: "verify_commissioning small_world (Issued_base_identity_verifier small_contract [])
    ''d'' ''o'' ''n'' ''..'' (ep_hardware_identity_evidence small_payload) ''AAAA'' 0
  = Inr (Some \<lparr>vc_device_base_id = ''b'', vc_scheme = voucher_scheme, vc_jti = Some ''n'',
      vc_expires_at = Some 9\<rparr>)"
  by code_simp

theorem commissioning_proof_sound_witness:
  "evidence_signed small_world small_contract ''d'' ''AAAA'' ''b''"
  using commissioning_proof_sound [OF small_verified] by simp

end
