(* ===== verification/Device_Domain.thy ===== *)
theory Device_Domain
  imports Schema Hardware_Identity
begin

text \<open>
  The Device aggregate and its Manifest document (\<open>hub/domain/devices/entities.py\<close>,
  \<open>hub/domain/devices/manifest.py\<close>, \<open>hub/domain/devices/identity.py\<close>), the audit record
  (\<open>hub/ports/management_events.py\<close>), and what their constructors check.

  A constructor with a \<open>__post_init__\<close> is a function \<open>..._new\<close> into \<open>exn + value\<close>.  Date-times
  are instants, so the checks that a datetime carries a time zone have no counterpart.

  What Device Control takes from \<open>eidolon_sdk\<close> and from the JSON printer is the record
  \<open>device_sdk\<close>.
\<close>

section \<open>Wire values of Device Control\<close>

record manifest_assertion =
  ma_device_ref :: device_ref
  ma_public_key_spki :: string
  ma_nonce :: string
  ma_manifest :: proposed_manifest
  ma_device_signature :: string

record erase_ack =
  ak_operation_id :: string
  ak_device_ref :: device_ref
  ak_ack_sequence :: int
  ak_result :: string
  ak_result_code :: string
  ak_signature :: string

datatype device_document =
  Configuration_proof_doc device_ref string
| Manifest_assertion_doc manifest_assertion
| Erase_pull_doc device_ref string string

record device_sdk =
  json_dumps :: "json \<Rightarrow> string"
  management_json :: "management_data \<Rightarrow> string"
  verify_p256_signature :: "string \<Rightarrow> device_document \<Rightarrow> string \<Rightarrow> exn + unit"
  verify_device_erase_ack :: "erase_ack \<Rightarrow> string \<Rightarrow> exn + unit"
  operation_fingerprint :: "erase_command \<Rightarrow> string"
  canonical_bytes :: "erase_ack \<Rightarrow> byte list"
  manifest_outputs :: "json \<Rightarrow> exn + json"
  manifest_inputs :: "json \<Rightarrow> exn + json"
  output_policy_required :: "json \<Rightarrow> json \<Rightarrow> exn + bool"

section \<open>Manifest documents\<close>

record manifest_document =
  canonical_json :: string
  document_digest :: string
  declared_revision :: int

text \<open>Python's \<open>value["schema_version"] != 1\<close>; \<open>True == 1\<close> there.\<close>

fun is_one :: "json \<Rightarrow> bool" where
  "is_one (JNum q) = (q = 1)"
| "is_one (JBool b) = b"
| "is_one _ = False"

definition manifest_text_ok :: "external \<Rightarrow> string \<Rightarrow> exn + unit" where
  "manifest_text_ok x text =
     andthen (present (json_loads x text)
                (Value_error ''device manifest must contain valid JSON'')) (\<lambda>value.
     case value of
       JObj entries \<Rightarrow>
         (case map_of entries ''schema_version'' of
            Some v \<Rightarrow> require (is_one v)
                        (Value_error ''device manifest schema_version 1 is required'')
          | None \<Rightarrow> Inr ())
     | _ \<Rightarrow> Inl (Value_error ''device manifest must be a JSON object''))"

definition digest_of :: "external \<Rightarrow> string \<Rightarrow> string" where
  "digest_of x text = ''sha256:'' @ sha256_hex x text"

definition manifest_document_new ::
  "external \<Rightarrow> string \<Rightarrow> string \<Rightarrow> int \<Rightarrow> exn + manifest_document" where
  "manifest_document_new x text dg revision =
     andthen (manifest_text_ok x text) (\<lambda>_.
     andthen (require (1 \<le> revision)
                (Value_error ''device manifest declared_revision must be positive'')) (\<lambda>_.
     andthen (require (dg = digest_of x text)
                (Value_error ''device manifest digest does not match canonical content'')) (\<lambda>_.
     Inr \<lparr>canonical_json = text, document_digest = dg, declared_revision = revision\<rparr>)))"

definition from_declaration ::
  "external \<Rightarrow> device_sdk \<Rightarrow> json \<Rightarrow> int \<Rightarrow> exn + manifest_document" where
  "from_declaration x s document revision =
     (case document of
        JObj entries \<Rightarrow>
          let canonical = json_dumps s (JObj entries)
          in manifest_document_new x canonical (digest_of x canonical) revision
      | _ \<Rightarrow> Inl (Value_error ''device manifest must be an object''))"

section \<open>The device aggregate\<close>

record device_identity =
  device_id :: string

definition device_identity_new :: "string \<Rightarrow> exn + device_identity" where
  "device_identity_new i =
     (if strip i = [] then Inl (Value_error ''device_id is required'')
      else Inr \<lparr>device_id = i\<rparr>)"

record managed_device =
  md_identity :: device_identity
  md_display_name :: string
  md_manifest_id :: string
  md_manifest :: manifest_document
  md_enrolled_at :: instant
  md_updated_at :: instant
  md_owner_domain_id :: string
  md_owner_domain_generation :: int
  md_claim_generation :: int
  md_trust_epoch :: int
  md_aggregate_revision :: int
  md_owner_id :: "string option"
  md_lifecycle_state :: lifecycle_state
  md_last_management_request_id :: string
  md_last_management_fingerprint :: string
  md_output_policy :: "output_policy option"

text \<open>\<open>ManagedDevice(...)\<close>: the value with its \<open>__post_init__\<close> checks, in their order.\<close>

definition managed_device_new :: "managed_device \<Rightarrow> exn + managed_device" where
  "managed_device_new d =
     andthen (require (strip (md_manifest_id d) \<noteq> [])
                (Value_error ''manifest_id is required'')) (\<lambda>_.
     andthen (require (case md_owner_id d of None \<Rightarrow> True | Some i \<Rightarrow> strip i \<noteq> [])
                (Value_error ''owner_id must be null or non-empty'')) (\<lambda>_.
     andthen (require (1 \<le> md_owner_domain_generation d \<and> 1 \<le> md_claim_generation d
                       \<and> 1 \<le> md_trust_epoch d \<and> 1 \<le> md_aggregate_revision d)
                (Value_error ''Owner, claim, trust and aggregate generations must be positive''))
       (\<lambda>_.
     andthen (require (md_owner_id d \<noteq> None)
                (Value_error ''Claim projection requires an owner'')) (\<lambda>_. Inr d))))"

definition md_device_ref :: "managed_device \<Rightarrow> device_ref option" where
  "md_device_ref d =
     (if md_owner_id d = None then None
      else Some \<lparr>device_instance_id = device_id (md_identity d),
                 ref_owner_domain_id = md_owner_domain_id d,
                 owner_domain_generation = md_owner_domain_generation d,
                 claim_generation = md_claim_generation d,
                 trust_epoch = md_trust_epoch d\<rparr>)"

definition md_manifest_ref :: "managed_device \<Rightarrow> manifest_ref" where
  "md_manifest_ref d =
     \<lparr>manifest_id = md_manifest_id d, manifest_revision = declared_revision (md_manifest d),
      manifest_digest = document_digest (md_manifest d)\<rparr>"

section \<open>Directory entries\<close>

record directory_entry =
  de_device_id :: string
  de_owner_scope :: string
  de_display_name :: string
  de_manifest_id :: string
  de_manifest :: manifest_document
  de_lifecycle_state :: lifecycle_state
  de_enrolled_at :: instant
  de_updated_at :: instant
  de_claim_generation :: int
  de_trust_epoch :: int
  de_owner_domain_generation :: int
  de_owner_domain_id :: string

definition directory_entry_new :: "directory_entry \<Rightarrow> exn + directory_entry" where
  "directory_entry_new e =
     andthen (require (strip (de_device_id e) \<noteq> [] \<and> strip (de_owner_scope e) \<noteq> [])
                (Value_error ''directory device_id and owner_scope are required'')) (\<lambda>_.
     andthen (require (1 \<le> de_owner_domain_generation e \<and> 1 \<le> de_claim_generation e
                       \<and> 1 \<le> de_trust_epoch e)
                (Value_error ''directory Owner, claim and trust generations must be positive''))
       (\<lambda>_. Inr e))"

definition de_device_ref :: "directory_entry \<Rightarrow> device_ref" where
  "de_device_ref e =
     \<lparr>device_instance_id = de_device_id e, ref_owner_domain_id = de_owner_domain_id e,
      owner_domain_generation = de_owner_domain_generation e,
      claim_generation = de_claim_generation e, trust_epoch = de_trust_epoch e\<rparr>"

section \<open>Management events\<close>

record management_event =
  mr_event_id :: string
  mr_event_type :: string
  mr_source :: string
  mr_principal_id :: string
  mr_subject :: string
  mr_occurred_at :: instant
  mr_data :: management_data

definition management_event_new :: "management_event \<Rightarrow> exn + management_event" where
  "management_event_new e =
     andthen (require (list_all (\<lambda>v. strip v \<noteq> [])
                [mr_event_id e, mr_event_type e, mr_source e, mr_principal_id e, mr_subject e])
                (Value_error ''management event identifiers are required'')) (\<lambda>_.
     andthen (require (length (mr_principal_id e) \<le> 255)
                (Value_error ''management event principal_id exceeds 255 characters''))
       (\<lambda>_. Inr e))"

section \<open>Facts\<close>

lemma manifest_document_ok [ok_iff]:
  "manifest_document_new x text dg revision = Inr m \<longleftrightarrow>
   manifest_text_ok x text = Inr () \<and> 1 \<le> revision \<and> dg = digest_of x text \<and>
   m = \<lparr>canonical_json = text, document_digest = dg, declared_revision = revision\<rparr>"
  by (auto simp: manifest_document_new_def ok_iff)

lemma from_declarationD:
  assumes "from_declaration x s document revision = Inr m"
  shows "declared_revision m = revision" "1 \<le> revision"
    "document_digest m = digest_of x (canonical_json m)" "canonical_json m = json_dumps s document"
    "manifest_text_ok x (canonical_json m) = Inr ()"
  using assms by (auto simp: from_declaration_def Let_def ok_iff split: json.splits)

lemma device_identity_ok [ok_iff]:
  "device_identity_new i = Inr d \<longleftrightarrow> strip i \<noteq> [] \<and> d = \<lparr>device_id = i\<rparr>"
  by (auto simp: device_identity_new_def)

lemma managed_device_ok [ok_iff]:
  "managed_device_new d = Inr d' \<longleftrightarrow>
   strip (md_manifest_id d) \<noteq> [] \<and> (\<exists>i. md_owner_id d = Some i \<and> strip i \<noteq> []) \<and>
   1 \<le> md_owner_domain_generation d \<and> 1 \<le> md_claim_generation d \<and> 1 \<le> md_trust_epoch d \<and>
   1 \<le> md_aggregate_revision d \<and> d' = d"
  by (auto simp: managed_device_new_def ok_iff)

lemma directory_entry_ok [ok_iff]:
  "directory_entry_new e = Inr e' \<longleftrightarrow>
   strip (de_device_id e) \<noteq> [] \<and> strip (de_owner_scope e) \<noteq> [] \<and>
   1 \<le> de_owner_domain_generation e \<and> 1 \<le> de_claim_generation e \<and> 1 \<le> de_trust_epoch e \<and> e' = e"
  by (auto simp: directory_entry_new_def ok_iff)

lemma management_event_ok [ok_iff]:
  "management_event_new e = Inr e' \<longleftrightarrow>
   strip (mr_event_id e) \<noteq> [] \<and> strip (mr_event_type e) \<noteq> [] \<and> strip (mr_source e) \<noteq> [] \<and>
   strip (mr_principal_id e) \<noteq> [] \<and> strip (mr_subject e) \<noteq> [] \<and>
   length (mr_principal_id e) \<le> 255 \<and> e' = e"
  by (auto simp: management_event_new_def ok_iff)

end
