(* ===== verification/Device_Repository.thy ===== *)
theory Device_Repository
  imports Device_Domain Admission_Store
begin

text \<open>
  The device repository, the management audit ledger and their unit of work
  (\<open>hub/adapters/persistence/repositories.py\<close>), the in-memory directory
  (\<open>hub/adapters/persistence/memory.py\<close>) and its projection
  (\<open>hub/application/projections/device_directory.py\<close>).

  \<open>od\<close> is the Owner Domain of the database.  The directory is the association list of a
  Python \<open>dict\<close>: its keys in insertion order, the last value of each.
\<close>

section \<open>Devices\<close>

definition decode_device :: "external \<Rightarrow> string \<Rightarrow> device_row \<Rightarrow> exn + managed_device" where
  "decode_device x od row =
     andthen (device_identity_new (dv_device_id row)) (\<lambda>identity.
     andthen (manifest_document_new x (dv_manifest_json row) (dv_manifest_revision row)
                (dv_manifest_declared_revision row)) (\<lambda>manifest.
     managed_device_new
       \<lparr>md_identity = identity, md_display_name = dv_display_name row,
        md_manifest_id = dv_manifest_id row, md_manifest = manifest,
        md_enrolled_at = dv_enrolled_at row, md_updated_at = dv_updated_at row,
        md_owner_domain_id = od,
        md_owner_domain_generation = dv_owner_domain_generation row,
        md_claim_generation = dv_claim_generation row, md_trust_epoch = dv_trust_epoch row,
        md_aggregate_revision = dv_aggregate_revision row, md_owner_id = dv_owner_id row,
        md_lifecycle_state = dv_lifecycle_state row,
        md_last_management_request_id = dv_last_management_request_id row,
        md_last_management_fingerprint = dv_last_management_fingerprint row,
        md_output_policy = dv_output_policy row\<rparr>))"

definition device_values :: "managed_device \<Rightarrow> device_row" where
  "device_values d =
     \<lparr>dv_device_id = device_id (md_identity d), dv_display_name = md_display_name d,
      dv_manifest_id = md_manifest_id d, dv_manifest_json = canonical_json (md_manifest d),
      dv_output_policy = md_output_policy d,
      dv_manifest_revision = document_digest (md_manifest d),
      dv_manifest_declared_revision = declared_revision (md_manifest d),
      dv_enrolled_at = md_enrolled_at d, dv_updated_at = md_updated_at d,
      dv_owner_domain_generation = md_owner_domain_generation d,
      dv_claim_generation = md_claim_generation d, dv_trust_epoch = md_trust_epoch d,
      dv_aggregate_revision = md_aggregate_revision d, dv_owner_id = md_owner_id d,
      dv_lifecycle_state = md_lifecycle_state d,
      dv_last_management_request_id = md_last_management_request_id d,
      dv_last_management_fingerprint = md_last_management_fingerprint d\<rparr>"

definition get_device :: "external \<Rightarrow> string \<Rightarrow> hub_db \<Rightarrow> string \<Rightarrow> exn + managed_device option" where
  "get_device x od db i =
     (case get_device_row db i of
        None \<Rightarrow> Inr None
      | Some row \<Rightarrow> andthen (decode_device x od row) (\<lambda>d. Inr (Some d)))"

fun decode_all :: "external \<Rightarrow> string \<Rightarrow> device_row list \<Rightarrow> exn + managed_device list" where
  "decode_all x od [] = Inr []"
| "decode_all x od (row # rows) =
     andthen (decode_device x od row) (\<lambda>d. andthen (decode_all x od rows) (\<lambda>ds. Inr (d # ds)))"

definition list_devices :: "external \<Rightarrow> string \<Rightarrow> hub_db \<Rightarrow> exn + managed_device list" where
  "list_devices x od db = decode_all x od (order_by dv_device_id (devices db))"

definition upsert_device :: "managed_device \<Rightarrow> hub_db \<Rightarrow> hub_db" where
  "upsert_device d db =
     (case get_device_row db (device_id (md_identity d)) of
        None \<Rightarrow> db\<lparr>devices := devices db @ [device_values d]\<rparr>
      | Some _ \<Rightarrow> update_device (device_id (md_identity d)) (\<lambda>_. device_values d) db)"

section \<open>The management audit ledger\<close>

definition event_data_json :: "device_sdk \<Rightarrow> management_event \<Rightarrow> exn + string" where
  "event_data_json s e =
     (let text = management_json s (mr_data e)
      in if 256 * 1024 < int (length text)
         then Inl (Value_error ''management event data exceeds 256KiB'') else Inr text)"

text \<open>The row keeps the event's data; two rows have the same text exactly if the printer says so.\<close>

definition append_management_event ::
  "device_sdk \<Rightarrow> management_event \<Rightarrow> string \<Rightarrow> hub_db \<Rightarrow> exn + hub_db" where
  "append_management_event s e owner db =
     (case tget me_event_id (mr_event_id e) (management_events db) of
        Some c \<Rightarrow>
          if me_event_type c \<noteq> mr_event_type e \<or> me_source c \<noteq> mr_source e
             \<or> me_principal_id c \<noteq> mr_principal_id e \<or> me_subject c \<noteq> mr_subject e
             \<or> me_owner_id c \<noteq> owner \<or> me_occurred_at c \<noteq> mr_occurred_at e
             \<or> management_json s (me_data c) \<noteq> management_json s (mr_data e)
          then Inl (Value_error ''event_id was reused with different content'')
          else Inr db
      | None \<Rightarrow> Inr (db\<lparr>management_events := management_events db @
          [\<lparr>me_stream_position = sql_max (map me_stream_position (management_events db)) + 1,
            me_event_id = mr_event_id e, me_event_type = mr_event_type e,
            me_source = mr_source e, me_principal_id = mr_principal_id e,
            me_subject = mr_subject e, me_owner_id = owner,
            me_occurred_at = mr_occurred_at e, me_data = mr_data e\<rparr>]\<rparr>))"

fun stored_events :: "management_event_row list \<Rightarrow> exn + (int \<times> management_event) list" where
  "stored_events [] = Inr []"
| "stored_events (row # rows) =
     andthen (management_event_new
       \<lparr>mr_event_id = me_event_id row, mr_event_type = me_event_type row,
        mr_source = me_source row, mr_principal_id = me_principal_id row,
        mr_subject = me_subject row, mr_occurred_at = me_occurred_at row,
        mr_data = me_data row\<rparr>) (\<lambda>e.
     andthen (require (1 \<le> me_stream_position row)
       (Value_error ''management event stream_position must be positive'')) (\<lambda>_.
     andthen (stored_events rows) (\<lambda>es. Inr ((me_stream_position row, e) # es))))"

definition list_after ::
  "hub_db \<Rightarrow> string \<Rightarrow> int \<Rightarrow> int \<Rightarrow> exn + (int \<times> management_event) list" where
  "list_after db owner position limit =
     andthen (require (0 \<le> position)
                (Value_error ''stream_position must not be negative'')) (\<lambda>_.
     andthen (require (1 \<le> limit \<and> limit \<le> 500)
                (Value_error ''event stream limit must be between 1 and 500'')) (\<lambda>_.
     stored_events (take (nat limit) (order_by me_stream_position
       (filter (\<lambda>r. position < me_stream_position r \<and> me_owner_id r = owner)
         (management_events db))))))"

section \<open>The unit of work\<close>

text \<open>
  Compare and set: the device the use case read is compared as a value with the device
  that is there.  A row that does not decode raises, as it does in the source.
\<close>

definition commit_device ::
  "external \<Rightarrow> device_sdk \<Rightarrow> string \<Rightarrow> managed_device option \<Rightarrow> managed_device \<Rightarrow> management_event \<Rightarrow>
   hub_db \<Rightarrow> exn + managed_device \<times> hub_db" where
  "commit_device x s od expected d e db =
     andthen (require (mr_subject e = device_id (md_identity d))
                (Value_error ''management event subject must match device'')) (\<lambda>_.
     andthen (event_data_json s e) (\<lambda>_.
     andthen (get_device x od db (device_id (md_identity d))) (\<lambda>found.
     andthen (require (found = expected)
                (Concurrent_mutation ''device changed concurrently; reload and retry'')) (\<lambda>_.
     andthen (append_management_event s e
                (case md_owner_id d of Some i \<Rightarrow> if i = [] then ''unclaimed'' else i
                                     | None \<Rightarrow> ''unclaimed'')
                (upsert_device d db)) (\<lambda>db'. Inr (d, db'))))))"

section \<open>The directory\<close>

type_synonym directory = "directory_entry list"

definition directory_get :: "directory \<Rightarrow> string \<Rightarrow> string \<Rightarrow> directory_entry option" where
  "directory_get dir owner i =
     (case tget de_device_id i dir of
        Some e \<Rightarrow> if de_owner_scope e = owner then Some e else None
      | None \<Rightarrow> None)"

definition directory_upsert :: "directory_entry \<Rightarrow> directory \<Rightarrow> directory" where
  "directory_upsert e dir =
     (if tget de_device_id (de_device_id e) dir = None then dir @ [e]
      else tupd de_device_id (de_device_id e) (\<lambda>_. e) dir)"

definition directory_list :: "directory \<Rightarrow> string \<Rightarrow> directory_entry list" where
  "directory_list dir owner =
     order_by de_device_id (filter (\<lambda>e. de_owner_scope e = owner) dir)"

definition entry_of :: "string \<Rightarrow> managed_device \<Rightarrow> directory_entry" where
  "entry_of i d =
     \<lparr>de_device_id = i,
      de_owner_scope = (case md_owner_id d of Some j \<Rightarrow> if j = [] then ''unclaimed'' else j
                                            | None \<Rightarrow> ''unclaimed''),
      de_display_name = md_display_name d, de_manifest_id = md_manifest_id d,
      de_manifest = md_manifest d, de_lifecycle_state = md_lifecycle_state d,
      de_enrolled_at = md_enrolled_at d, de_updated_at = md_updated_at d,
      de_claim_generation = md_claim_generation d, de_trust_epoch = md_trust_epoch d,
      de_owner_domain_generation = md_owner_domain_generation d,
      de_owner_domain_id = md_owner_domain_id d\<rparr>"

definition project_device ::
  "external \<Rightarrow> string \<Rightarrow> hub_db \<Rightarrow> string \<Rightarrow> directory \<Rightarrow> exn + directory_entry \<times> directory" where
  "project_device x od db i dir =
     andthen (get_device x od db i) (\<lambda>found.
     andthen (present found (Key_error i)) (\<lambda>d.
     andthen (directory_entry_new (entry_of i d)) (\<lambda>e. Inr (e, directory_upsert e dir))))"

text \<open>
  \<open>execute_all\<close>: an entry that raises ends the loop with the entries before it in the
  directory, so the directory is returned beside the result.
\<close>

fun project_each ::
  "external \<Rightarrow> string \<Rightarrow> hub_db \<Rightarrow> managed_device list \<Rightarrow> directory \<Rightarrow>
   directory \<times> (exn + directory_entry list)" where
  "project_each x od db [] dir = (dir, Inr [])"
| "project_each x od db (d # ds) dir =
     (case project_device x od db (device_id (md_identity d)) dir of
        Inl e \<Rightarrow> (dir, Inl e)
      | Inr (entry, dir1) \<Rightarrow>
          (case project_each x od db ds dir1 of
             (dir2, Inl e) \<Rightarrow> (dir2, Inl e)
           | (dir2, Inr es) \<Rightarrow> (dir2, Inr (entry # es))))"

definition project_all ::
  "external \<Rightarrow> string \<Rightarrow> hub_db \<Rightarrow> directory \<Rightarrow> directory \<times> (exn + directory_entry list)" where
  "project_all x od db dir =
     (case list_devices x od db of
        Inl e \<Rightarrow> (dir, Inl e)
      | Inr ds \<Rightarrow> project_each x od db ds dir)"

section \<open>Facts\<close>

lemma device_values_decode: "decode_device x od row = Inr d \<Longrightarrow> device_values d = row"
  by (auto simp: decode_device_def device_values_def ok_iff)

lemma decodedD:
  assumes "decode_device x od row = Inr d"
  shows "device_id (md_identity d) = dv_device_id row" "md_owner_domain_id d = od"
    "managed_device_new d = Inr d" "device_identity_new (dv_device_id row) = Inr (md_identity d)"
    "manifest_document_new x (canonical_json (md_manifest d)) (document_digest (md_manifest d))
       (declared_revision (md_manifest d)) = Inr (md_manifest d)"
  using assms by (auto simp: decode_device_def ok_iff)

lemma decode_device_values:
  assumes "device_identity_new (device_id (md_identity d)) = Inr (md_identity d)"
    "manifest_document_new x (canonical_json (md_manifest d)) (document_digest (md_manifest d))
       (declared_revision (md_manifest d)) = Inr (md_manifest d)"
    "managed_device_new d = Inr d" "md_owner_domain_id d = od"
  shows "decode_device x od (device_values d) = Inr d"
  using assms by (auto simp: decode_device_def device_values_def ok_iff)

lemma get_device_ok:
  "get_device x od db i = Inr (Some d) \<longleftrightarrow>
   (\<exists>row. get_device_row db i = Some row \<and> decode_device x od row = Inr d)"
  "get_device x od db i = Inr None \<longleftrightarrow> get_device_row db i = None"
  by (auto simp: get_device_def ok_iff split: option.splits)

lemma get_device_id: "get_device x od db i = Inr (Some d) \<Longrightarrow> device_id (md_identity d) = i"
  by (auto simp: get_device_ok get_device_row_def dest: tget_SomeD decodedD(1))

lemma device_values_id [simp]: "dv_device_id (device_values d) = device_id (md_identity d)"
  by (simp add: device_values_def)

lemma upsert_device_row:
  "get_device_row (upsert_device d db) i =
     (if i = device_id (md_identity d) then Some (device_values d) else get_device_row db i)"
  by (auto simp: upsert_device_def get_device_row_def update_device_def tget_tupd_const
      tget_append tget_Cons split: option.splits)

lemma upsert_device_set:
  "set (devices (upsert_device d db)) = insert (device_values d)
     {r \<in> set (devices db). dv_device_id r \<noteq> device_id (md_identity d)}"
proof (cases "get_device_row db (device_id (md_identity d))")
  case None
  then have "\<forall>r \<in> set (devices db). dv_device_id r \<noteq> device_id (md_identity d)"
    by (metis get_device_row_def image_eqI tget_None_iff)
  with None show ?thesis by (auto simp: upsert_device_def)
next
  case (Some r)
  then have "r \<in> set (devices db)" "dv_device_id r = device_id (md_identity d)"
    by (auto simp: get_device_row_def dest: tget_SomeD)
  with Some show ?thesis by (auto simp: upsert_device_def update_device_def set_tupd)
qed

lemma upsert_device_keys:
  "distinct (map dv_device_id (devices db)) \<Longrightarrow>
   distinct (map dv_device_id (devices (upsert_device d db)))"
  by (auto simp: upsert_device_def get_device_row_def tget_None_iff update_device_def tupd_def
      comp_def image_iff if_distrib cong: if_cong split: option.splits)

lemma upsert_device_fields: "\<exists>ds. upsert_device d db = db\<lparr>devices := ds\<rparr>"
  by (auto simp: upsert_device_def update_device_def split: option.splits)

lemma append_event_fields:
  "append_management_event s e owner db = Inr db' \<Longrightarrow> \<exists>es. db' = db\<lparr>management_events := es\<rparr>"
  by (cases "tget me_event_id (mr_event_id e) (management_events db)")
    (auto simp: append_management_event_def split: if_splits intro: exI [of _ "management_events db"])

lemma commit_deviceD:
  assumes "commit_device x s od expected d e db = Inr (d', db')"
  shows "d' = d" "mr_subject e = device_id (md_identity d)"
    "get_device x od db (device_id (md_identity d)) = Inr expected"
    "devices db' = devices (upsert_device d db)"
    "\<exists>ds es. db' = db\<lparr>devices := ds, management_events := es\<rparr>"
proof -
  from assms obtain owner where c: "d' = d" "mr_subject e = device_id (md_identity d)"
      "get_device x od db (device_id (md_identity d)) = Inr expected"
      "append_management_event s e owner (upsert_device d db) = Inr db'"
    by (auto simp: commit_device_def ok_iff split: option.splits)
  then show "d' = d" "mr_subject e = device_id (md_identity d)"
    "get_device x od db (device_id (md_identity d)) = Inr expected" by simp_all
  from append_event_fields [OF c(4)] obtain es
    where es: "db' = upsert_device d db\<lparr>management_events := es\<rparr>" by blast
  then show "devices db' = devices (upsert_device d db)" by simp
  from es upsert_device_fields [of d db] show "\<exists>ds es. db' = db\<lparr>devices := ds, management_events := es\<rparr>"
    by fastforce
qed

lemma commit_device_row:
  "commit_device x s od expected d e db = Inr (d', db') \<Longrightarrow>
   get_device_row db' i =
     (if i = device_id (md_identity d) then Some (device_values d) else get_device_row db i)"
  using upsert_device_row [of d db i] by (simp add: get_device_row_def commit_deviceD(4))

end
