(* ===== verification/Device_Erase.thy ===== *)
theory Device_Erase
  imports Device_Domain Admission_Store
begin

text \<open>
  The erase ledger (\<open>SqlDeviceEraseLedger\<close> of \<open>hub/adapters/persistence/device_erase.py\<close>) and
  its values (\<open>hub/device_control/domain.py\<close>, \<open>hub/device_control/ports.py\<close>).  Each method is
  one transaction: a function on the database which, where it raises, changes nothing.
\<close>

section \<open>Values\<close>

record erase_operation =
  eo_source_event_id :: string
  eo_command :: erase_command
  eo_request_fingerprint :: string
  eo_public_key_spki :: "string option"
  eo_key_id :: "string option"
  eo_state :: erase_state
  eo_created_at :: instant
  eo_attempt_count :: int
  eo_delivery_attempt_id :: "string option"
  eo_delivery_accepted_at :: "instant option"
  eo_acknowledged_at :: "instant option"
  eo_terminal_result :: "string option"
  eo_result_code :: string
  eo_last_error_code :: string

record erase_status =
  es_operation_id :: string
  es_request_fingerprint :: string
  es_device_ref :: device_ref
  es_created_at :: instant
  es_deadline :: instant
  es_state :: erase_state
  es_attempt_count :: int
  es_terminal_result :: "string option"

definition operation_status :: "erase_operation \<Rightarrow> erase_status" where
  "operation_status o' =
     \<lparr>es_operation_id = ec_operation_id (eo_command o'),
      es_request_fingerprint = eo_request_fingerprint o',
      es_device_ref = ec_device_ref (eo_command o'), es_created_at = eo_created_at o',
      es_deadline = ec_deadline (eo_command o'), es_state = eo_state o',
      es_attempt_count = eo_attempt_count o', es_terminal_result = eo_terminal_result o'\<rparr>"

record claim_projection =
  cj_device_ref :: device_ref
  cj_state :: claim_state
  cj_operational_public_key_spki :: string

definition decode_erase :: "erase_row \<Rightarrow> erase_operation" where
  "decode_erase row =
     \<lparr>eo_source_event_id = er_source_event_id row, eo_command = er_command row,
      eo_request_fingerprint = er_request_fingerprint row,
      eo_public_key_spki = er_public_key_spki row, eo_key_id = er_key_id row,
      eo_state = er_state row, eo_created_at = er_created_at row,
      eo_attempt_count = er_attempt_count row,
      eo_delivery_attempt_id = er_delivery_attempt_id row,
      eo_delivery_accepted_at = er_delivery_accepted_at row,
      eo_acknowledged_at = er_acknowledged_at row, eo_terminal_result = er_terminal_result row,
      eo_result_code = er_result_code row, eo_last_error_code = er_last_error_code row\<rparr>"

section \<open>Materialising Claim events\<close>

definition revoke_event_type :: string where
  "revoke_event_type = ''live.eidolon.device.claim-revoked.v1''"

definition erase_operation_id :: "external \<Rightarrow> string \<Rightarrow> device_ref \<Rightarrow> string" where
  "erase_operation_id x event_id ref =
     (let nul = [CHR 0x00]
      in ''erase_'' @ take 48 (sha256_hex x
           (''device-local.erase'' @ nul @ event_id @ nul @ device_instance_id ref @ nul
            @ ref_owner_domain_id ref @ nul @ str_int (owner_domain_generation ref) @ nul
            @ str_int (claim_generation ref) @ nul @ str_int (trust_epoch ref))))"

definition get_operation :: "hub_db \<Rightarrow> string \<Rightarrow> erase_row option" where
  "get_operation db i = tget er_operation_id i (erase_operations db)"

definition update_operation :: "string \<Rightarrow> (erase_row \<Rightarrow> erase_row) \<Rightarrow> hub_db \<Rightarrow> hub_db" where
  "update_operation i f db = db\<lparr>erase_operations := tupd er_operation_id i f (erase_operations db)\<rparr>"

definition claim_row_ref :: "claim_row \<Rightarrow> device_ref" where
  "claim_row_ref r =
     \<lparr>device_instance_id = cl_device_instance_id r, ref_owner_domain_id = cl_owner_domain_id r,
      owner_domain_generation = cl_owner_domain_generation r,
      claim_generation = cl_claim_generation r, trust_epoch = cl_trust_epoch r\<rparr>"

definition revoked_events :: "hub_db \<Rightarrow> stream_row list" where
  "revoked_events db = order_by se_stream_position
     (filter (\<lambda>r. se_event_type r = revoke_event_type) (claim_stream db))"

text \<open>\<open>ClaimRevokedEvent.model_validate_json\<close>: the data of a revocation, else a validation error.\<close>

fun revoked_data :: "admission_event \<Rightarrow> exn + device_ref \<times> string" where
  "revoked_data e =
     (case ae_data e of
        Claim_revoked_data ref reason _ \<Rightarrow> Inr (ref, reason)
      | _ \<Rightarrow> Inl (Value_error ''ValidationError''))"

definition new_operation ::
  "external \<Rightarrow> device_sdk \<Rightarrow> int \<Rightarrow> admission_event \<Rightarrow> device_ref \<Rightarrow> claim_row \<Rightarrow> erase_row" where
  "new_operation x s ttl event ref claim =
     (let operation_id = erase_operation_id x (ae_id event) ref;
          deadline = ae_time event + ttl;
          command = \<lparr>ec_operation_id = operation_id, ec_device_ref = ref, ec_deadline = deadline\<rparr>
      in \<lparr>er_operation_id = operation_id, er_source_event_id = ae_id event,
          er_request_fingerprint = operation_fingerprint s command, er_device_ref = ref,
          er_accepted_manifest_digest = manifest_digest (cl_manifest_ref claim),
          er_public_key_spki = Some (cl_operational_public_key_spki claim), er_key_id = None,
          er_command = command, er_state = Erase_accepted, er_created_at = ae_time event,
          er_deadline = deadline, er_attempt_count = 0, er_delivery_attempt_id = None,
          er_delivery_accepted_at = None, er_acknowledged_at = None, er_terminal_result = None,
          er_result_code = '''', er_last_error_code = ''''\<rparr>)"

text \<open>One event of the loop: how many operations it created, and the database after it.\<close>

definition materialize_one ::
  "external \<Rightarrow> device_sdk \<Rightarrow> int \<Rightarrow> stream_row \<Rightarrow> hub_db \<Rightarrow> exn + nat \<times> hub_db" where
  "materialize_one x s ttl stream_row db =
     (let event = se_event stream_row
      in andthen (revoked_data event) (\<lambda>(ref, _).
         let operation_id = erase_operation_id x (ae_id event) ref
         in case get_operation db operation_id of
              Some existing \<Rightarrow>
                andthen (require (er_source_event_id existing = ae_id event
                                  \<and> er_device_ref existing = ref)
                  (Erase_idempotency_conflict
                     ''operation_id was reused for another Claim generation''))
                  (\<lambda>_. Inr (0, db))
            | None \<Rightarrow>
                (case tget er_source_event_id (ae_id event) (erase_operations db) of
                   Some by_event \<Rightarrow>
                     andthen (require (er_operation_id by_event = operation_id)
                       (Erase_idempotency_conflict
                          ''Claim event was projected under another operation identity''))
                       (\<lambda>_. Inr (0, db))
                 | None \<Rightarrow>
                     (case get_claim db (device_instance_id ref) of
                        None \<Rightarrow> Inl (Erase_idempotency_conflict
                          ''canonical ClaimRevoked event has no matching Claim generation'')
                      | Some claim \<Rightarrow>
                          andthen (require (claim_row_ref claim = ref)
                            (Erase_idempotency_conflict
                               ''canonical ClaimRevoked event has no matching Claim generation''))
                            (\<lambda>_. Inr (1, db\<lparr>erase_operations := erase_operations db
                                     @ [new_operation x s ttl event ref claim]\<rparr>))))))"

fun materialize_each ::
  "external \<Rightarrow> device_sdk \<Rightarrow> int \<Rightarrow> stream_row list \<Rightarrow> hub_db \<Rightarrow> exn + nat \<times> hub_db" where
  "materialize_each x s ttl [] db = Inr (0, db)"
| "materialize_each x s ttl (row # rows) db =
     andthen (materialize_one x s ttl row db) (\<lambda>(n, db1).
     andthen (materialize_each x s ttl rows db1) (\<lambda>(m, db2). Inr (n + m, db2)))"

definition materialize_claim_events ::
  "external \<Rightarrow> device_sdk \<Rightarrow> int \<Rightarrow> hub_db \<Rightarrow> exn + nat \<times> hub_db" where
  "materialize_claim_events x s ttl db =
     andthen (require (0 < ttl) (Value_error ''device erase operation TTL must be positive''))
       (\<lambda>_. materialize_each x s ttl (revoked_events db) db)"

section \<open>Deadlines\<close>

fun terminal_erase :: "erase_state \<Rightarrow> bool" where
  "terminal_erase Erase_acknowledged = True"
| "terminal_erase Erase_expired = True"
| "terminal_erase Permanent_failure = True"
| "terminal_erase _ = False"

fun settled_erase :: "erase_state \<Rightarrow> bool" where
  "settled_erase Erase_acknowledged = True"
| "settled_erase Permanent_failure = True"
| "settled_erase _ = False"

definition expire_row :: "erase_row \<Rightarrow> erase_row" where
  "expire_row row = row\<lparr>er_state := Erase_expired, er_terminal_result := Some ''deadline-expired'',
                       er_result_code := ''OPERATION_EXPIRED''\<rparr>"

definition erase_lapsed :: "instant \<Rightarrow> erase_row \<Rightarrow> bool" where
  "erase_lapsed now row \<longleftrightarrow>
     er_state row \<in> {Erase_accepted, Erase_pending, Delivery_accepted} \<and> er_deadline row \<le> now"

definition expire_operations :: "instant \<Rightarrow> hub_db \<Rightarrow> nat \<times> hub_db" where
  "expire_operations now db =
     (length (filter (erase_lapsed now) (erase_operations db)),
      db\<lparr>erase_operations :=
           map (\<lambda>r. if erase_lapsed now r then expire_row r else r) (erase_operations db)\<rparr>)"

definition deliverable :: "instant \<Rightarrow> erase_row \<Rightarrow> bool" where
  "deliverable now row \<longleftrightarrow> er_state row = Erase_accepted \<and> now < er_deadline row"

definition mark_accepted_pending :: "instant \<Rightarrow> hub_db \<Rightarrow> nat \<times> hub_db" where
  "mark_accepted_pending now db =
     (length (filter (deliverable now) (erase_operations db)),
      db\<lparr>erase_operations :=
           map (\<lambda>r. if deliverable now r then r\<lparr>er_state := Erase_pending\<rparr> else r)
             (erase_operations db)\<rparr>)"

section \<open>Lookups\<close>

definition ledger_get :: "hub_db \<Rightarrow> string \<Rightarrow> erase_operation option" where
  "ledger_get db i = map_option decode_erase (get_operation db i)"

definition ledger_get_claim :: "hub_db \<Rightarrow> string \<Rightarrow> string \<Rightarrow> claim_projection option" where
  "ledger_get_claim db i owner =
     (case get_claim db i of
        None \<Rightarrow> None
      | Some row \<Rightarrow>
          if cl_owner_domain_id row \<noteq> owner then None
          else Some \<lparr>cj_device_ref = claim_row_ref row, cj_state = cl_state row,
                     cj_operational_public_key_spki = cl_operational_public_key_spki row\<rparr>)"

definition get_by_source_event :: "hub_db \<Rightarrow> string \<Rightarrow> device_ref \<Rightarrow> erase_operation option" where
  "get_by_source_event db event_id ref =
     map_option decode_erase
       (find (\<lambda>r. er_source_event_id r = event_id \<and> er_device_ref r = ref) (erase_operations db))"

definition get_for_device :: "hub_db \<Rightarrow> device_ref \<Rightarrow> erase_operation option" where
  "get_for_device db ref =
     map_option decode_erase (tget er_device_ref ref (erase_operations db))"

section \<open>Delivery\<close>

definition rearm_row :: "device_sdk \<Rightarrow> instant \<Rightarrow> int \<Rightarrow> erase_row \<Rightarrow> erase_row" where
  "rearm_row s now ttl row =
     (let command = (er_command row)\<lparr>ec_deadline := now + ttl\<rparr>
      in row\<lparr>er_command := command, er_request_fingerprint := operation_fingerprint s command,
             er_deadline := ec_deadline command, er_state := Erase_pending,
             er_terminal_result := None, er_result_code := '''',
             er_delivery_attempt_id := None, er_delivery_accepted_at := None\<rparr>)"

definition rearm_lapsed ::
  "device_sdk \<Rightarrow> string \<Rightarrow> instant \<Rightarrow> int \<Rightarrow> hub_db \<Rightarrow> exn + erase_operation \<times> hub_db" where
  "rearm_lapsed s i now ttl db =
     andthen (require (0 < ttl) (Value_error ''device erase operation TTL must be positive'')) (\<lambda>_.
     andthen (present (get_operation db i) (Key_error i)) (\<lambda>row.
     if settled_erase (er_state row) then Inr (decode_erase row, db)
     else if er_state row \<noteq> Erase_expired \<and> now < er_deadline row then Inr (decode_erase row, db)
     else Inr (decode_erase (rearm_row s now ttl row), update_operation i (rearm_row s now ttl) db)))"

definition accept_row :: "string \<Rightarrow> instant \<Rightarrow> erase_row \<Rightarrow> erase_row" where
  "accept_row attempt accepted_at row =
     row\<lparr>er_attempt_count := (if er_delivery_attempt_id row \<noteq> Some attempt
                              then er_attempt_count row + 1 else er_attempt_count row),
         er_delivery_attempt_id := Some attempt, er_delivery_accepted_at := Some accepted_at,
         er_state := Delivery_accepted\<rparr>"

definition accept_delivery ::
  "string \<Rightarrow> string \<Rightarrow> instant \<Rightarrow> hub_db \<Rightarrow> exn + erase_operation \<times> hub_db" where
  "accept_delivery i attempt accepted_at db =
     andthen (present (get_operation db i) (Key_error i)) (\<lambda>row.
     if er_deadline row \<le> accepted_at then
       if settled_erase (er_state row) then Inr (decode_erase row, db)
       else Inr (decode_erase (expire_row row), update_operation i expire_row db)
     else if terminal_erase (er_state row) then Inr (decode_erase row, db)
     else Inr (decode_erase (accept_row attempt accepted_at row),
               update_operation i (accept_row attempt accepted_at) db))"

section \<open>Acknowledgement\<close>

definition evidence_key :: "erase_evidence_row \<Rightarrow> string \<times> int" where
  "evidence_key e = (ev_operation_id e, ev_ack_sequence e)"

definition settle_row :: "erase_ack \<Rightarrow> instant \<Rightarrow> erase_row \<Rightarrow> erase_row" where
  "settle_row ack received_at row =
     row\<lparr>er_acknowledged_at := Some received_at, er_terminal_result := Some (ak_result ack),
         er_result_code := ak_result_code ack,
         er_state := (if ak_result ack = ''erased'' then Erase_acknowledged else Permanent_failure)\<rparr>"

text \<open>What the ACK does to the operation, and whether it was applied.\<close>

definition ack_effect :: "erase_ack \<Rightarrow> instant \<Rightarrow> erase_row \<Rightarrow> bool \<times> (erase_row \<Rightarrow> erase_row)" where
  "ack_effect ack received_at row =
     (if terminal_erase (er_state row) then (False, \<lambda>r. r)
      else if er_deadline row \<le> received_at then (False, expire_row)
      else (True, settle_row ack received_at))"

definition apply_ack ::
  "erase_ack \<Rightarrow> string \<Rightarrow> instant \<Rightarrow> hub_db \<Rightarrow> exn + erase_operation \<times> hub_db" where
  "apply_ack ack fp received_at db =
     andthen (present (get_operation db (ak_operation_id ack)) (Key_error (ak_operation_id ack)))
       (\<lambda>row.
     case tget evidence_key (ak_operation_id ack, ak_ack_sequence ack) (erase_evidence db) of
       Some existing \<Rightarrow>
         andthen (require (ev_ack_fingerprint existing = fp)
           (Erase_idempotency_conflict ''ack_sequence was reused with different content''))
           (\<lambda>_. Inr (decode_erase row, db))
     | None \<Rightarrow>
         (case ack_effect ack received_at row of (applied, f) \<Rightarrow>
            Inr (decode_erase (f row),
              (update_operation (ak_operation_id ack) f db)\<lparr>erase_evidence := erase_evidence db
                 @ [\<lparr>ev_operation_id = ak_operation_id ack, ev_ack_sequence = ak_ack_sequence ack,
                    ev_ack_fingerprint = fp, ev_received_at = received_at,
                    ev_applied = (if applied then 1 else 0), ev_result = ak_result ack,
                    ev_result_code = ak_result_code ack\<rparr>]\<rparr>)))"

end
