(* ===== verification/Device_Control.thy ===== *)
theory Device_Control
  imports Device_Repository Device_Erase Admission_Proposals
begin

text \<open>
  The use cases of Device Control (\<open>hub/device_control/application.py\<close> and
  \<open>hub/device_control/output_policy.py\<close>) over the repository and the ledger.

  A use case that reads, decides and then commits is two definitions: \<open>plan_...\<close>, what it
  decides from the database it reads, and the commit of that plan on the database that is
  there by then.  The use case itself runs one after the other; what holds of a plan
  committed on any later database holds under every interleaving.
\<close>

section \<open>Configuration pull\<close>

definition same_operational_key :: "string option \<Rightarrow> string \<Rightarrow> bool" where
  "same_operational_key recorded presented =
     (case recorded of
        None \<Rightarrow> False
      | Some key \<Rightarrow> remove_prefix spki_scheme key = remove_prefix spki_scheme presented)"

record device_configuration =
  cfg_claim :: claim_projection
  cfg_manifest :: "manifest_ref option"
  cfg_output_policy :: "output_policy option"

definition pull_configuration ::
  "external \<Rightarrow> device_sdk \<Rightarrow> string \<Rightarrow> hub_db \<Rightarrow> device_ref \<Rightarrow> string \<Rightarrow> string \<Rightarrow> string \<Rightarrow>
   exn + device_configuration" where
  "pull_configuration x s od db ref key nonce signature =
     andthen (present (ledger_get_claim db (device_instance_id ref) (ref_owner_domain_id ref))
                (Key_error (device_instance_id ref))) (\<lambda>claim.
     andthen (require (same_operational_key (Some (cj_operational_public_key_spki claim)) key)
                (Permission_error ''configuration key differs from the Claim'')) (\<lambda>_.
     andthen (verify_p256_signature s key (Configuration_proof_doc ref nonce) signature) (\<lambda>_.
     andthen (get_device x od db (device_instance_id (cj_device_ref claim))) (\<lambda>device.
     let current = (case device of
                      None \<Rightarrow> None
                    | Some d \<Rightarrow> if md_device_ref d = Some (cj_device_ref claim) then Some d else None)
     in Inr \<lparr>cfg_claim = claim, cfg_manifest = map_option md_manifest_ref current,
             cfg_output_policy = (case current of None \<Rightarrow> None | Some d \<Rightarrow> md_output_policy d)\<rparr>))))"

section \<open>Manifest assertion\<close>

record manifest_acceptance =
  mc_device_ref :: device_ref
  mc_nonce :: string
  mc_accepted :: manifest_ref
  mc_outcome :: string
  mc_accepted_at :: instant

definition pm_ref :: "proposed_manifest \<Rightarrow> manifest_ref" where
  "pm_ref m = \<lparr>manifest_id = pm_manifest_id m, manifest_revision = pm_revision m,
               manifest_digest = pm_digest m\<rparr>"

datatype manifest_plan =
  Manifest_unchanged manifest_ref
| Manifest_newer managed_device manifest_document

definition plan_manifest ::
  "external \<Rightarrow> device_sdk \<Rightarrow> string \<Rightarrow> manifest_assertion \<Rightarrow> hub_db \<Rightarrow> exn + manifest_plan" where
  "plan_manifest x s od a db =
     (let ref = ma_device_ref a; declared = ma_manifest a
      in andthen (present (ledger_get_claim db (device_instance_id ref) (ref_owner_domain_id ref))
                    (Key_error (device_instance_id ref))) (\<lambda>claim.
         andthen (require (cj_state claim = Active) (Key_error (device_instance_id ref))) (\<lambda>_.
         andthen (require (same_operational_key (Some (cj_operational_public_key_spki claim))
                             (ma_public_key_spki a))
                    (Permission_error ''manifest assertion key differs from the Claim'')) (\<lambda>_.
         andthen (verify_p256_signature s (ma_public_key_spki a) (Manifest_assertion_doc a)
                    (ma_device_signature a)) (\<lambda>_.
         andthen (get_device x od db (device_instance_id ref)) (\<lambda>found.
         andthen (present found (Key_error (device_instance_id ref))) (\<lambda>current.
         andthen (require (md_device_ref current = Some ref) (Key_error (device_instance_id ref)))
           (\<lambda>_.
         andthen (require (pm_manifest_id declared = md_manifest_id current)
                    (Manifest_revision_conflict ''manifest_id is fixed for the Claim'')) (\<lambda>_.
         andthen (from_declaration x s (pm_document declared) (pm_revision declared)) (\<lambda>accepted.
         andthen (require (declared_revision (md_manifest current) \<le> pm_revision declared)
                    (Manifest_revision_conflict
                       ''manifest revision is older than the accepted declaration'')) (\<lambda>_.
         if pm_revision declared = declared_revision (md_manifest current)
         then andthen (require (pm_ref declared = md_manifest_ref current)
                (Manifest_revision_conflict
                   ''manifest revision was reused for different content''))
                (\<lambda>_. Inr (Manifest_unchanged (md_manifest_ref current)))
         else Inr (Manifest_newer current accepted))))))))))))"

definition with_manifest :: "managed_device \<Rightarrow> manifest_document \<Rightarrow> instant \<Rightarrow> managed_device" where
  "with_manifest d manifest now =
     d\<lparr>md_manifest := manifest, md_updated_at := now,
       md_aggregate_revision := md_aggregate_revision d + 1\<rparr>"

definition manifest_accepted_event ::
  "string \<Rightarrow> instant \<Rightarrow> manifest_assertion \<Rightarrow> managed_device \<Rightarrow> manifest_document \<Rightarrow> management_event" where
  "manifest_accepted_event event_id now a current accepted =
     (let device = device_instance_id (ma_device_ref a)
      in \<lparr>mr_event_id = event_id, mr_event_type = ''live.eidolon.device.manifest-accepted.v1'',
          mr_source = ''urn:eidolon:authority:device-control'', mr_principal_id = device,
          mr_subject = device, mr_occurred_at = now,
          mr_data = Manifest_accepted_data (pm_manifest_id (ma_manifest a))
            (pm_revision (ma_manifest a)) (document_digest accepted)
            (document_digest (md_manifest current))\<rparr>)"

definition acceptance ::
  "manifest_assertion \<Rightarrow> manifest_ref \<Rightarrow> string \<Rightarrow> instant \<Rightarrow> manifest_acceptance" where
  "acceptance a accepted outcome now =
     \<lparr>mc_device_ref = ma_device_ref a, mc_nonce = ma_nonce a, mc_accepted = accepted,
      mc_outcome = outcome, mc_accepted_at = now\<rparr>"

text \<open>The commit of a newer Manifest, with the event identifier already drawn.\<close>

definition commit_manifest ::
  "external \<Rightarrow> device_sdk \<Rightarrow> string \<Rightarrow> instant \<Rightarrow> string \<Rightarrow> manifest_assertion \<Rightarrow> managed_device \<Rightarrow>
   manifest_document \<Rightarrow> hub_db \<Rightarrow> exn + managed_device \<times> hub_db" where
  "commit_manifest x s od now event_id a current accepted db =
     andthen (managed_device_new (with_manifest current accepted now)) (\<lambda>d.
     andthen (management_event_new (manifest_accepted_event event_id now a current accepted))
       (\<lambda>e. commit_device x s od (Some current) d e db))"

definition accept_manifest ::
  "external \<Rightarrow> device_sdk \<Rightarrow> string \<Rightarrow> instant \<Rightarrow> instant \<Rightarrow> manifest_assertion \<Rightarrow>
   hub_db \<times> directory \<Rightarrow> (hub_db \<times> directory) \<times> (exn + manifest_acceptance)" where
  "accept_manifest x s od now replied_at a st =
     (case st of (db, dir) \<Rightarrow>
      (case plan_manifest x s od a db of
         Inl e \<Rightarrow> (st, Inl e)
       | Inr (Manifest_unchanged ref) \<Rightarrow> (st, Inr (acceptance a ref ''unchanged'' replied_at))
       | Inr (Manifest_newer current accepted) \<Rightarrow>
           (case new_id x ''manifest-acceptance'' db of (event_id, db1) \<Rightarrow>
            (case commit_manifest x s od now event_id a current accepted db1 of
               Inl e \<Rightarrow> ((db1, dir), Inl e)
             | Inr (_, db2) \<Rightarrow>
                 (case project_device x od db2 (device_instance_id (ma_device_ref a)) dir of
                    Inl e \<Rightarrow> ((db2, dir), Inl e)
                  | Inr (_, dir2) \<Rightarrow>
                      ((db2, dir2),
                       Inr (acceptance a (pm_ref (ma_manifest a)) ''accepted'' replied_at)))))))"

section \<open>Output policy\<close>

definition policy_write_scope :: string where
  "policy_write_scope = ''device.output-policy.write''"

definition policy_read_scope :: string where
  "policy_read_scope = ''device.read''"

definition owned_device ::
  "external \<Rightarrow> string \<Rightarrow> hub_db \<Rightarrow> device_ref \<Rightarrow> actor_context \<Rightarrow> exn + managed_device" where
  "owned_device x od db ref ctx =
     andthen (get_device x od db (device_instance_id ref)) (\<lambda>found.
     andthen (present found (Key_error (device_instance_id ref))) (\<lambda>current.
     andthen (require (md_lifecycle_state current = Device_approved)
                (Key_error (device_instance_id ref))) (\<lambda>_.
     andthen (require (ctx_owner_domain_id ctx = md_owner_domain_id current
                       \<and> Some (ctx_business_owner_id ctx) = md_owner_id current)
                (Permission_error ''output policy belongs to another Owner'')) (\<lambda>_.
     andthen (require (md_device_ref current = Some ref)
                (Output_policy_conflict ''device generation changed'')) (\<lambda>_. Inr current)))))"

record output_configuration =
  oc_device_ref :: "device_ref option"
  oc_capabilities :: json
  oc_input_capabilities :: json
  oc_policy :: "output_policy option"
  oc_policy_required :: bool

definition read_output_configuration ::
  "external \<Rightarrow> device_sdk \<Rightarrow> string \<Rightarrow> hub_db \<Rightarrow> device_ref \<Rightarrow> actor_context \<Rightarrow>
   exn + output_configuration" where
  "read_output_configuration x s od db ref ctx =
     andthen (require_scope ctx policy_read_scope) (\<lambda>_.
     andthen (owned_device x od db ref ctx) (\<lambda>current.
     andthen (present (json_loads x (canonical_json (md_manifest current)))
                (Value_error ''JSONDecodeError'')) (\<lambda>manifest.
     andthen (manifest_outputs s manifest) (\<lambda>outputs.
     andthen (manifest_inputs s manifest) (\<lambda>inputs.
     andthen (output_policy_required s outputs manifest) (\<lambda>required.
     Inr \<lparr>oc_device_ref = md_device_ref current, oc_capabilities = outputs,
          oc_input_capabilities = inputs, oc_policy = md_output_policy current,
          oc_policy_required = required\<rparr>))))))"

record set_output_policy =
  sp_device_ref :: device_ref
  sp_expected_revision :: int
  sp_allowed :: "string list"
  sp_inputs :: "string list option"

definition policy_revision :: "managed_device \<Rightarrow> int" where
  "policy_revision d = (case md_output_policy d of None \<Rightarrow> 0 | Some p \<Rightarrow> op_revision p)"

text \<open>What an update with these inputs makes of the device's policy.\<close>

definition next_policy :: "managed_device \<Rightarrow> set_output_policy \<Rightarrow> output_policy" where
  "next_policy d c =
     \<lparr>op_revision = policy_revision d + 1, op_allowed = sp_allowed c,
      op_inputs = (case sp_inputs c of
                     Some i \<Rightarrow> Some i
                   | None \<Rightarrow> (case md_output_policy d of None \<Rightarrow> None | Some p \<Rightarrow> op_inputs p))\<rparr>"

definition already_applied :: "managed_device \<Rightarrow> set_output_policy \<Rightarrow> bool" where
  "already_applied d c =
     (case md_output_policy d of
        None \<Rightarrow> False
      | Some p \<Rightarrow> op_revision p = sp_expected_revision c + 1 \<and> op_allowed p = sp_allowed c
                  \<and> (sp_inputs c = None \<or> op_inputs p = sp_inputs c))"

datatype policy_plan =
  Policy_applied output_policy
| Policy_change managed_device output_policy

definition plan_policy ::
  "external \<Rightarrow> string \<Rightarrow> set_output_policy \<Rightarrow> actor_context \<Rightarrow> hub_db \<Rightarrow> exn + policy_plan" where
  "plan_policy x od c ctx db =
     andthen (require_scope ctx policy_write_scope) (\<lambda>_.
     andthen (owned_device x od db (sp_device_ref c) ctx) (\<lambda>current.
     if policy_revision current \<noteq> sp_expected_revision c
     then (case md_output_policy current of
             Some p \<Rightarrow> if already_applied current c then Inr (Policy_applied p)
                       else Inl (Output_policy_conflict ''output policy revision changed'')
           | None \<Rightarrow> Inl (Output_policy_conflict ''output policy revision changed''))
     else Inr (Policy_change current (next_policy current c))))"

definition with_policy :: "managed_device \<Rightarrow> output_policy \<Rightarrow> instant \<Rightarrow> managed_device" where
  "with_policy d p now =
     d\<lparr>md_output_policy := Some p, md_updated_at := now,
       md_aggregate_revision := md_aggregate_revision d + 1\<rparr>"

definition policy_changed_event ::
  "string \<Rightarrow> instant \<Rightarrow> set_output_policy \<Rightarrow> actor_context \<Rightarrow> managed_device \<Rightarrow> output_policy \<Rightarrow>
   management_event" where
  "policy_changed_event event_id now c ctx current p =
     \<lparr>mr_event_id = event_id, mr_event_type = ''device.output-policy.changed'',
      mr_source = ''urn:eidolon:authority:device-control'',
      mr_principal_id = principal_id (actor ctx),
      mr_subject = device_id (md_identity current), mr_occurred_at = now,
      mr_data = Output_policy_data (md_owner_id current) (sp_device_ref c) p\<rparr>"

definition commit_policy ::
  "external \<Rightarrow> device_sdk \<Rightarrow> string \<Rightarrow> instant \<Rightarrow> string \<Rightarrow> set_output_policy \<Rightarrow> actor_context \<Rightarrow>
   managed_device \<Rightarrow> output_policy \<Rightarrow> hub_db \<Rightarrow> exn + managed_device \<times> hub_db" where
  "commit_policy x s od now event_id c ctx current p db =
     andthen (managed_device_new (with_policy current p now)) (\<lambda>d.
     andthen (management_event_new (policy_changed_event event_id now c ctx current p))
       (\<lambda>e. commit_device x s od (Some current) d e db))"

text \<open>
  \<open>on_changed\<close> tells the Channel side which device changed; it may raise, and then the
  committed change stands.
\<close>

definition notify_changed :: "(device_ref \<Rightarrow> hub_db \<Rightarrow> exn + unit) option \<Rightarrow> device_ref \<Rightarrow> hub_db \<Rightarrow> exn + unit" where
  "notify_changed on_changed ref db = (case on_changed of None \<Rightarrow> Inr () | Some f \<Rightarrow> f ref db)"

definition update_output_policy ::
  "external \<Rightarrow> device_sdk \<Rightarrow> string \<Rightarrow> (device_ref \<Rightarrow> hub_db \<Rightarrow> exn + unit) option \<Rightarrow> instant \<Rightarrow>
   set_output_policy \<Rightarrow> actor_context \<Rightarrow> output_policy handler" where
  "update_output_policy x s od on_changed now c ctx db =
     (case plan_policy x od c ctx db of
        Inl e \<Rightarrow> (db, Inl e)
      | Inr (Policy_applied p) \<Rightarrow>
          (db, andthen (notify_changed on_changed (sp_device_ref c) db) (\<lambda>_. Inr p))
      | Inr (Policy_change current p) \<Rightarrow>
          (case new_id x ''output-policy'' db of (event_id, db1) \<Rightarrow>
           (case commit_policy x s od now event_id c ctx current p db1 of
              Inl e \<Rightarrow> (db1, Inl e)
            | Inr (_, db2) \<Rightarrow>
                (db2, andthen (notify_changed on_changed (sp_device_ref c) db2) (\<lambda>_. Inr p)))))"

section \<open>Local erase\<close>

definition reconcile_erase :: "external \<Rightarrow> device_sdk \<Rightarrow> int \<Rightarrow> instant \<Rightarrow> nat handler" where
  "reconcile_erase x s ttl now db =
     (case run_tx (materialize_claim_events x s ttl) db of
        (db1, Inl e) \<Rightarrow> (db1, Inl e)
      | (db1, Inr created) \<Rightarrow>
          (snd (expire_operations now (snd (mark_accepted_pending now db1))), Inr created))"

definition delivery_attempt_id :: "external \<Rightarrow> string \<Rightarrow> string \<Rightarrow> string" where
  "delivery_attempt_id x operation_id nonce =
     ''erase_delivery_'' @ take 40 (sha256_hex x (operation_id @ [CHR 0x00] @ nonce))"

record erase_delivery =
  ed_delivery_attempt_id :: string
  ed_command :: erase_command

definition pull_erase_checks ::
  "device_sdk \<Rightarrow> device_ref \<Rightarrow> string \<Rightarrow> string \<Rightarrow> string \<Rightarrow> erase_operation \<Rightarrow> exn + unit" where
  "pull_erase_checks s ref key nonce signature o' =
     andthen (require (same_operational_key (eo_public_key_spki o') key)
       (Permission_error ''operation delivery key does not match the Claim generation'')) (\<lambda>_.
     verify_p256_signature s key (Erase_pull_doc ref nonce ''device-local.erase'') signature)"

definition deliver_erase ::
  "external \<Rightarrow> string \<Rightarrow> instant \<Rightarrow> erase_operation \<Rightarrow> erase_delivery option handler" where
  "deliver_erase x nonce accepted_at o' db =
     (let operation_id = ec_operation_id (eo_command o');
          attempt = delivery_attempt_id x operation_id nonce
      in case run_tx (accept_delivery operation_id attempt accepted_at) db of
           (db1, Inl e) \<Rightarrow> (db1, Inl e)
         | (db1, Inr accepted) \<Rightarrow>
             (db1, Inr (if terminal_erase (eo_state accepted) then None
                        else Some \<lparr>ed_delivery_attempt_id = attempt,
                                   ed_command = eo_command accepted\<rparr>)))"

definition pull_erase ::
  "external \<Rightarrow> device_sdk \<Rightarrow> int \<Rightarrow> instant \<Rightarrow> instant \<Rightarrow> device_ref \<Rightarrow> string \<Rightarrow> string \<Rightarrow> string \<Rightarrow>
   erase_delivery option handler" where
  "pull_erase x s ttl now accepted_at ref key nonce signature db =
     (case get_for_device db ref of
        None \<Rightarrow> (db, Inr None)
      | Some o' \<Rightarrow>
          (case pull_erase_checks s ref key nonce signature o' of
             Inl e \<Rightarrow> (db, Inl e)
           | Inr _ \<Rightarrow>
               if settled_erase (eo_state o') then (db, Inr None)
               else if eo_state o' = Erase_expired \<or> ec_deadline (eo_command o') \<le> now
               then (case run_tx (rearm_lapsed s (ec_operation_id (eo_command o')) now ttl) db of
                       (db1, Inl e) \<Rightarrow> (db1, Inl e)
                     | (db1, Inr armed) \<Rightarrow>
                         if terminal_erase (eo_state armed) then (db1, Inr None)
                         else deliver_erase x nonce accepted_at armed db1)
               else deliver_erase x nonce accepted_at o' db))"

definition acknowledge_erase ::
  "external \<Rightarrow> device_sdk \<Rightarrow> instant \<Rightarrow> erase_ack \<Rightarrow> erase_operation handler" where
  "acknowledge_erase x s received_at ack db =
     (case ledger_get db (ak_operation_id ack) of
        None \<Rightarrow> (db, Inl (Key_error (ak_operation_id ack)))
      | Some o' \<Rightarrow>
          guarded (require (ak_device_ref ack = ec_device_ref (eo_command o'))
            (Erase_generation_conflict
               ''ACK DeviceRef does not match the operation Claim generation''))
          (case eo_public_key_spki o' of
             None \<Rightarrow> (\<lambda>db. (db, Inl (Permission_error ''operation has no bound device ACK key'')))
           | Some key \<Rightarrow>
               guarded (verify_device_erase_ack s ack key)
                 (run_tx (apply_ack ack (''sha256:'' @ hex (sha256 x (canonical_bytes s ack)))
                            received_at))) db)"

end
