(* ===== verification/Channel_Client.thy ===== *)
theory Channel_Client
  imports Device_Domain
begin

text \<open>
  The HTTP client of the Channel Provider (\<open>hub/channel_reconciliation/provider_client.py\<close>),
  its values (\<open>hub/channel_reconciliation/domain.py\<close>) and the device payload
  (\<open>hub/channel_reconciliation/specification.py\<close>).

  The Provider is outside the repository: a \<open>transport\<close> answers a request, or fails as
  \<open>httpx\<close> does.  A response body is what the wire models make of it; \<open>Other_body\<close> is a body
  none of them reads.
\<close>

section \<open>Values\<close>

record channel_binding =
  cb_expires_at_ms :: int
  cb_content :: json

record current_binding =
  cu_operation_id :: string
  cu_manifest_revision :: string
  cu_channels :: "channel_binding list"
  cu_refresh_required :: bool
  cu_output_policy :: "output_policy option"

record channel_device =
  cd_owner_id :: string
  cd_display_name :: string
  cd_device_kind :: string
  cd_manifest :: json
  cd_manifest_revision :: string
  cd_output_policy :: "output_policy option"

text \<open>\<open>channel_device_payload\<close>; a policy is an object, so it is truthy whenever it is there.\<close>

definition channel_device_payload ::
  "string \<Rightarrow> string \<Rightarrow> string \<Rightarrow> json \<Rightarrow> string \<Rightarrow> output_policy option \<Rightarrow> channel_device" where
  "channel_device_payload owner name mid manifest revision policy =
     \<lparr>cd_owner_id = owner, cd_display_name = name, cd_device_kind = mid, cd_manifest = manifest,
      cd_manifest_revision = revision, cd_output_policy = policy\<rparr>"

record provision_response =
  po_operation_id :: string
  po_device_ref :: device_ref
  po_manifest_revision :: string
  po_output_policy :: "output_policy option"
  po_channels :: "channel_binding list"

record session_selection =
  ss_session_id :: string
  ss_devices :: "device_ref list"
  ss_content :: json

record shared_specification =
  sh_device_ref :: "device_ref option"
  sh_device :: channel_device

datatype provider_payload =
  Current_request device_ref
| Provision_request string string device_ref "string option" channel_device
| Revoke_request string device_ref string
| Open_session_request string session_selection
| Session_request string string
| Shared_open_request session_selection string "shared_specification list"
| Shared_close_request string string

datatype provider_body =
  Provision_body provision_response
| Current_body "provision_response option" bool
| Revoke_body string device_ref
| Session_body string json
| Shared_ready_body string "string list"
| Shared_closed_body string
| Problem_body string bool string "string option"
| Other_body

datatype provider_answer = No_response | Response int provider_body

type_synonym transport = "string \<Rightarrow> provider_payload \<Rightarrow> provider_answer"

section \<open>Requests and answers\<close>

definition provider_error :: "string \<Rightarrow> bool \<Rightarrow> string \<Rightarrow> exn" where
  "provider_error c r d = Provider_error c r (if d = [] then c else d)"

definition invalid_response :: "string \<Rightarrow> exn" where
  "invalid_response d = provider_error ''INVALID_PROVIDER_RESPONSE'' False d"

definition post :: "transport \<Rightarrow> string \<Rightarrow> provider_payload \<Rightarrow> exn + provider_body" where
  "post tr route payload =
     (case tr route payload of
        No_response \<Rightarrow>
          Inl (provider_error ''PROVIDER_UNAVAILABLE'' True ''Channel Provider unavailable'')
      | Response st body \<Rightarrow>
          if 200 \<le> st \<and> st < 300 then Inr body
          else (case body of
                  Problem_body c retry authority d \<Rightarrow>
                    if authority \<noteq> ''eidolon-channel-provider''
                    then Inl (invalid_response ''wrong problem authority'')
                    else Inl (provider_error c retry (case d of Some t \<Rightarrow> t | None \<Rightarrow> c))
                | _ \<Rightarrow> Inl (provider_error ''INVALID_PROVIDER_RESPONSE'' (500 \<le> st)
                           (''Provider returned HTTP '' @ str_int st))))"

text \<open>The response models: one channel exactly.\<close>

fun valid_provision :: "provision_response \<Rightarrow> bool" where
  "valid_provision r = (length (po_channels r) = 1)"

definition client_current :: "transport \<Rightarrow> device_ref \<Rightarrow> exn + current_binding option" where
  "client_current tr ref =
     andthen (post tr ''device-channels/current'' (Current_request ref)) (\<lambda>body.
     case body of
       Current_body None refresh \<Rightarrow> Inr None
     | Current_body (Some b) refresh \<Rightarrow>
         andthen (require (valid_provision b) (invalid_response ''invalid current binding response''))
           (\<lambda>_.
         andthen (require (po_device_ref b = ref)
           (invalid_response ''current binding response names another device'')) (\<lambda>_.
         Inr (Some \<lparr>cu_operation_id = po_operation_id b,
                    cu_manifest_revision = po_manifest_revision b, cu_channels = po_channels b,
                    cu_refresh_required = refresh, cu_output_policy = po_output_policy b\<rparr>)))
     | _ \<Rightarrow> Inl (invalid_response ''invalid current binding response''))"

record binding_request =
  br_device_ref :: device_ref
  br_owner_id :: string
  br_display_name :: string
  br_manifest_id :: string
  br_manifest :: json
  br_manifest_revision :: string
  br_output_policy :: "output_policy option"
  br_observed_host_address :: string

definition client_provision_as ::
  "transport \<Rightarrow> string \<Rightarrow> string \<Rightarrow> binding_request \<Rightarrow> exn + channel_binding list" where
  "client_provision_as tr operation operation_id v =
     andthen (post tr ''device-channels/provision''
       (Provision_request operation operation_id (br_device_ref v)
          (if br_observed_host_address v = [] then None else Some (br_observed_host_address v))
          (channel_device_payload (br_owner_id v) (br_display_name v) (br_manifest_id v)
             (br_manifest v) (br_manifest_revision v) (br_output_policy v)))) (\<lambda>body.
     case body of
       Provision_body r \<Rightarrow>
         andthen (require (valid_provision r) (invalid_response ''invalid provision response'')) (\<lambda>_.
         andthen (require (po_operation_id r = operation_id \<and> po_device_ref r = br_device_ref v
                           \<and> po_manifest_revision r = br_manifest_revision v)
           (invalid_response ''provision response does not match request'')) (\<lambda>_.
         Inr (po_channels r)))
     | _ \<Rightarrow> Inl (invalid_response ''invalid provision response''))"

definition client_provision :: "transport \<Rightarrow> string \<Rightarrow> binding_request \<Rightarrow> exn + channel_binding list" where
  "client_provision tr = client_provision_as tr ''channel.provision-device''"

definition client_refresh :: "transport \<Rightarrow> string \<Rightarrow> binding_request \<Rightarrow> exn + channel_binding list" where
  "client_refresh tr = client_provision_as tr ''channel.refresh-device''"

definition client_revoke :: "transport \<Rightarrow> string \<Rightarrow> device_ref \<Rightarrow> string \<Rightarrow> exn + unit" where
  "client_revoke tr operation_id ref reason =
     andthen (post tr ''device-channels/revoke'' (Revoke_request operation_id ref reason)) (\<lambda>body.
     case body of
       Revoke_body i r \<Rightarrow>
         require (i = operation_id \<and> r = ref)
           (invalid_response ''revoke response does not match request'')
     | _ \<Rightarrow> Inl (invalid_response ''invalid revoke response''))"

text \<open>\<open>role_group\<close> and \<open>device_conversation\<close>: an action on a session the answer must name.\<close>

definition client_session ::
  "transport \<Rightarrow> string \<Rightarrow> string \<Rightarrow> string \<Rightarrow> string \<Rightarrow> string \<Rightarrow> session_selection option \<Rightarrow>
   exn + json" where
  "client_session tr what route action owner session_id selection =
     andthen (require (action \<in> {''open'', ''status'', ''close''})
                (Value_error (''invalid '' @ what @ '' action''))) (\<lambda>_.
     andthen (post tr (route @ ''/'' @ action)
       (if action = ''open''
        then (case selection of Some sel \<Rightarrow> Open_session_request owner sel
                              | None \<Rightarrow> Session_request owner session_id)
        else Session_request owner session_id)) (\<lambda>body.
     case body of
       Session_body i content \<Rightarrow>
         andthen (require (i = session_id)
           (invalid_response (''invalid '' @ what @ '' response''))) (\<lambda>_. Inr content)
     | _ \<Rightarrow> Inl (invalid_response (''invalid '' @ what @ '' response''))))"

definition client_role_group ::
  "transport \<Rightarrow> string \<Rightarrow> string \<Rightarrow> string \<Rightarrow> session_selection option \<Rightarrow> exn + json" where
  "client_role_group tr = client_session tr ''role group'' ''role-groups''"

definition client_device_conversation ::
  "transport \<Rightarrow> string \<Rightarrow> string \<Rightarrow> string \<Rightarrow> session_selection option \<Rightarrow> exn + json" where
  "client_device_conversation tr =
     client_session tr ''device conversation'' ''device-conversations''"

definition client_open_shared ::
  "transport \<Rightarrow> session_selection \<Rightarrow> string \<Rightarrow> shared_specification list \<Rightarrow> exn + string \<times> string list" where
  "client_open_shared tr selection owner specs =
     andthen (post tr ''shared-sessions/open'' (Shared_open_request selection owner specs)) (\<lambda>body.
     case body of
       Shared_ready_body i devs \<Rightarrow>
         andthen (require (i = ss_session_id selection
                           \<and> devs = map device_instance_id (ss_devices selection))
           (invalid_response ''invalid shared admission response'')) (\<lambda>_. Inr (i, devs))
     | _ \<Rightarrow> Inl (invalid_response ''invalid shared admission response''))"

definition client_close_shared :: "transport \<Rightarrow> string \<Rightarrow> string \<Rightarrow> exn + string" where
  "client_close_shared tr session_id owner =
     andthen (post tr ''shared-sessions/close'' (Shared_close_request session_id owner)) (\<lambda>body.
     case body of
       Shared_closed_body i \<Rightarrow>
         andthen (require (i = session_id) (invalid_response ''invalid shared close response''))
           (\<lambda>_. Inr i)
     | _ \<Rightarrow> Inl (invalid_response ''invalid shared close response''))"

section \<open>Facts\<close>

lemma client_provision_asD:
  assumes "client_provision_as tr operation i v = Inr cs"
  obtains c where "cs = [c]"
proof -
  from assms obtain body where "(case body of
       Provision_body r \<Rightarrow>
         andthen (require (valid_provision r) (invalid_response ''invalid provision response'')) (\<lambda>_.
         andthen (require (po_operation_id r = i \<and> po_device_ref r = br_device_ref v
                           \<and> po_manifest_revision r = br_manifest_revision v)
           (invalid_response ''provision response does not match request'')) (\<lambda>_.
         Inr (po_channels r)))
     | _ \<Rightarrow> Inl (invalid_response ''invalid provision response'')) = Inr cs"
    unfolding client_provision_as_def andthen_ok by blast
  then show thesis by (cases body) (auto simp: ok_iff length_Suc_conv intro: that)
qed

lemma client_currentD:
  assumes "client_current tr ref = Inr (Some cu)"
  obtains c where "cu_channels cu = [c]"
proof -
  from assms obtain body where "(case body of
       Current_body None refresh \<Rightarrow> Inr None
     | Current_body (Some b) refresh \<Rightarrow>
         andthen (require (valid_provision b) (invalid_response ''invalid current binding response''))
           (\<lambda>_.
         andthen (require (po_device_ref b = ref)
           (invalid_response ''current binding response names another device'')) (\<lambda>_.
         Inr (Some \<lparr>cu_operation_id = po_operation_id b,
                    cu_manifest_revision = po_manifest_revision b, cu_channels = po_channels b,
                    cu_refresh_required = refresh, cu_output_policy = po_output_policy b\<rparr>)))
     | _ \<Rightarrow> Inl (invalid_response ''invalid current binding response'')) = Inr (Some cu)"
    unfolding client_current_def andthen_ok by blast
  then show thesis
    by (cases body) (auto simp: ok_iff length_Suc_conv intro: that split: option.splits)
qed

end
