(* ===== verification/Channel_Revocation.thy ===== *)
theory Channel_Revocation
  imports Channel_Client Device_Erase Admission_Proposals
begin

text \<open>
  Delivery of revoked Claims to the Channel Provider: the retryable projection
  (\<open>SqlChannelRevocationStore\<close> of \<open>hub/adapters/persistence/channel_reconciliation.py\<close>) and
  the worker (\<open>ReconcileChannelRevocations\<close> of \<open>hub/channel_reconciliation/application.py\<close>).

  Durations are counts of microseconds, as instants are; the worker's delays are exact when
  its two settings are whole microseconds, as the defaults of 1 and 60 seconds are.
\<close>

section \<open>The store\<close>

definition revocation_operation_id :: "external \<Rightarrow> string \<Rightarrow> string" where
  "revocation_operation_id x event_id = ''channel-revoke-'' @ take 48 (sha256_hex x event_id)"

definition get_revocation :: "hub_db \<Rightarrow> string \<Rightarrow> revocation_row option" where
  "get_revocation db i = tget rv_source_event_id i (revocations db)"

text \<open>\<open>ChannelRevocationDelivery(...)\<close> with its \<open>__post_init__\<close>.\<close>

definition revocation_delivery :: "revocation_row \<Rightarrow> exn + revocation_row" where
  "revocation_delivery r =
     andthen (require (0 \<le> rv_attempt_count r)
       (Value_error ''Channel reconciliation attempt count must not be negative'')) (\<lambda>_.
     andthen (require (rv_state r = Delivery_pending \<or> rv_delivered_at r \<noteq> None)
       (Value_error ''terminal Channel reconciliation requires evidence time'')) (\<lambda>_. Inr r))"

definition new_revocation ::
  "external \<Rightarrow> instant \<Rightarrow> admission_event \<Rightarrow> device_ref \<Rightarrow> string \<Rightarrow> revocation_row" where
  "new_revocation x now event ref reason =
     \<lparr>rv_source_event_id = ae_id event, rv_operation_id = revocation_operation_id x (ae_id event),
      rv_device_ref = ref, rv_reason = reason, rv_state = Delivery_pending, rv_attempt_count = 0,
      rv_next_attempt_at = now, rv_delivered_at = None, rv_result_code = '''', rv_last_error = ''''\<rparr>"

definition revocation_clash :: "revocation_row \<Rightarrow> revocation_row \<Rightarrow> bool" where
  "revocation_clash a b \<longleftrightarrow> rv_source_event_id a = rv_source_event_id b
                         \<or> rv_operation_id a = rv_operation_id b"

definition materialize_revocation ::
  "external \<Rightarrow> instant \<Rightarrow> stream_row \<Rightarrow> hub_db \<Rightarrow> exn + nat \<times> hub_db" where
  "materialize_revocation x now row db =
     (case get_revocation db (se_event_id row) of
        Some _ \<Rightarrow> Inr (0, db)
      | None \<Rightarrow>
          andthen (revoked_data (se_event row)) (\<lambda>(ref, reason).
          andthen (tadd revocation_clash Integrity_error
                     (new_revocation x now (se_event row) ref reason) (revocations db))
            (\<lambda>t. Inr (1, db\<lparr>revocations := t\<rparr>))))"

fun materialize_revocations ::
  "external \<Rightarrow> instant \<Rightarrow> stream_row list \<Rightarrow> hub_db \<Rightarrow> exn + nat \<times> hub_db" where
  "materialize_revocations x now [] db = Inr (0, db)"
| "materialize_revocations x now (row # rows) db =
     andthen (materialize_revocation x now row db) (\<lambda>(n, db1).
     andthen (materialize_revocations x now rows db1) (\<lambda>(m, db2). Inr (n + m, db2)))"

definition materialize_revoked_events ::
  "external \<Rightarrow> instant \<Rightarrow> hub_db \<Rightarrow> exn + nat \<times> hub_db" where
  "materialize_revoked_events x now db = materialize_revocations x now (revoked_events db) db"

fun deliveries :: "revocation_row list \<Rightarrow> exn + revocation_row list" where
  "deliveries [] = Inr []"
| "deliveries (r # rs) =
     andthen (revocation_delivery r) (\<lambda>d. andthen (deliveries rs) (\<lambda>ds. Inr (d # ds)))"

definition due_revocation :: "instant \<Rightarrow> revocation_row \<Rightarrow> bool" where
  "due_revocation now r \<longleftrightarrow> rv_state r = Delivery_pending \<and> rv_next_attempt_at r \<le> now"

definition list_due :: "hub_db \<Rightarrow> instant \<Rightarrow> int \<Rightarrow> exn + revocation_row list" where
  "list_due db now limit =
     andthen (require (1 \<le> limit \<and> limit \<le> 100)
       (Value_error ''Channel reconciliation batch limit must be 1..100'')) (\<lambda>_.
     deliveries (take (nat limit) (order_by rv_next_attempt_at
       (filter (due_revocation now) (revocations db)))))"

definition update_revocation ::
  "string \<Rightarrow> (revocation_row \<Rightarrow> revocation_row) \<Rightarrow> hub_db \<Rightarrow> hub_db" where
  "update_revocation i f db = db\<lparr>revocations := tupd rv_source_event_id i f (revocations db)\<rparr>"

definition mark_terminal ::
  "string \<Rightarrow> delivery_state \<Rightarrow> string \<Rightarrow> instant \<Rightarrow> hub_db \<Rightarrow> exn + unit \<times> hub_db" where
  "mark_terminal i st result delivered_at db =
     andthen (require (st \<in> {Delivered, Fenced})
       (Value_error ''Channel terminal delivery state must be delivered or fenced'')) (\<lambda>_.
     andthen (present (get_revocation db i) (Key_error i)) (\<lambda>row.
     if rv_state row \<in> {Delivered, Fenced} then Inr ((), db)
     else Inr ((), update_revocation i (\<lambda>r. r\<lparr>rv_state := st, rv_delivered_at := Some delivered_at,
                                             rv_result_code := result, rv_last_error := ''''\<rparr>) db)))"

definition mark_retry ::
  "string \<Rightarrow> int \<Rightarrow> instant \<Rightarrow> string \<Rightarrow> hub_db \<Rightarrow> exn + unit \<times> hub_db" where
  "mark_retry i attempts next_at error db =
     andthen (present (get_revocation db i) (Key_error i)) (\<lambda>row.
     if rv_state row \<noteq> Delivery_pending then Inr ((), db)
     else Inr ((), update_revocation i (\<lambda>r. r\<lparr>rv_attempt_count := attempts,
                      rv_next_attempt_at := next_at, rv_last_error := take 512 error\<rparr>) db))"

section \<open>The worker\<close>

record retry_settings =
  retry_base :: int
  retry_max :: int

definition retry_delay :: "retry_settings \<Rightarrow> int \<Rightarrow> int" where
  "retry_delay rs attempt = min (retry_max rs) (retry_base rs * 2 ^ nat (min (attempt - 1) 10))"

text \<open>\<open>type(exc).__name__\<close>\<close>

fun error_name :: "exn \<Rightarrow> string" where
  "error_name (Admission_problem _) = ''AdmissionProblem''"
| "error_name Integrity_error = ''IntegrityError''"
| "error_name (Value_error _) = ''ValueError''"
| "error_name (Key_error _) = ''KeyError''"
| "error_name (Permission_error _) = ''PermissionError''"
| "error_name (Type_error _) = ''TypeError''"
| "error_name (Erase_contract_error _) = ''DeviceEraseContractError''"
| "error_name (Erase_idempotency_conflict _) = ''DeviceEraseIdempotencyConflict''"
| "error_name (Erase_generation_conflict _) = ''DeviceEraseGenerationConflict''"
| "error_name (Manifest_revision_conflict _) = ''ManifestRevisionConflict''"
| "error_name (Output_policy_conflict _) = ''OutputPolicyConflict''"
| "error_name (Concurrent_mutation _) = ''ConcurrentDeviceMutationError''"
| "error_name (Provider_error _ _ _) = ''ChannelProviderError''"
| "error_name (Other_error n) = n"

text \<open>
  What the Provider answers to one delivery and what the clock says afterwards; each delivery
  of a pass is a row of its own, so a function of the row is any sequence of answers.
\<close>

type_synonym revoke_answer = "revocation_row \<Rightarrow> (exn + unit) \<times> instant"

definition retry_revocation ::
  "retry_settings \<Rightarrow> revocation_row \<Rightarrow> instant \<Rightarrow> string \<Rightarrow> hub_db \<Rightarrow> exn + unit \<times> hub_db" where
  "retry_revocation rs r now error =
     (let attempt = rv_attempt_count r + 1
      in mark_retry (rv_source_event_id r) attempt (now + retry_delay rs attempt) error)"

text \<open>One delivery: whether it converged.\<close>

definition deliver_revocation ::
  "retry_settings \<Rightarrow> revoke_answer \<Rightarrow> revocation_row \<Rightarrow> hub_db \<Rightarrow> exn + nat \<times> hub_db" where
  "deliver_revocation rs answer r db =
     (case answer r of
        (Inr _, now) \<Rightarrow>
          andthen (mark_terminal (rv_source_event_id r) Delivered ''REVOKED'' now db)
            (\<lambda>(_, db'). Inr (1, db'))
      | (Inl (Provider_error c retry d), now) \<Rightarrow>
          if c = ''STALE_GENERATION''
          then andthen (mark_terminal (rv_source_event_id r) Fenced c now db)
                 (\<lambda>(_, db'). Inr (1, db'))
          else andthen (retry_revocation rs r now c db) (\<lambda>(_, db'). Inr (0, db'))
      | (Inl e, now) \<Rightarrow>
          andthen (retry_revocation rs r now (error_name e) db) (\<lambda>(_, db'). Inr (0, db')))"

text \<open>The loop commits each delivery on its own; an exception ends the pass with what it committed.\<close>

fun deliver_each ::
  "retry_settings \<Rightarrow> revoke_answer \<Rightarrow> revocation_row list \<Rightarrow> nat handler" where
  "deliver_each rs answer [] db = (db, Inr 0)"
| "deliver_each rs answer (r # rest) db =
     (case deliver_revocation rs answer r db of
        Inl e \<Rightarrow> (db, Inl e)
      | Inr (n, db1) \<Rightarrow>
          (case deliver_each rs answer rest db1 of
             (db2, Inl e) \<Rightarrow> (db2, Inl e)
           | (db2, Inr m) \<Rightarrow> (db2, Inr (n + m))))"

definition reconcile_revocations ::
  "external \<Rightarrow> retry_settings \<Rightarrow> int \<Rightarrow> instant \<Rightarrow> revoke_answer \<Rightarrow> nat handler" where
  "reconcile_revocations x rs limit now answer db =
     (case run_tx (materialize_revoked_events x now) db of
        (db1, Inl e) \<Rightarrow> (db1, Inl e)
      | (db1, Inr _) \<Rightarrow>
          (case list_due db1 now limit of
             Inl e \<Rightarrow> (db1, Inl e)
           | Inr due \<Rightarrow> deliver_each rs answer due db1))"

end
