(* ===== verification/Table_Evolution.thy ===== *)
theory Table_Evolution
  imports Prelude
begin

text \<open>
  How the rows of a table may move from one database to a later one.  \<open>evolves key moves t t'\<close>:
  every row of \<open>t\<close> is still found in \<open>t'\<close> under its key, moved by \<open>moves\<close> at most.  The locale
  \<open>row_moves\<close> asks of \<open>moves\<close> that it is a preorder that keeps the key; the ledgers of the
  program interpret it with what their rows promise.
\<close>

definition evolves :: "('r \<Rightarrow> 'k) \<Rightarrow> ('r \<Rightarrow> 'r \<Rightarrow> bool) \<Rightarrow> 'r list \<Rightarrow> 'r list \<Rightarrow> bool" where
  "evolves key moves t t' \<longleftrightarrow>
     (\<forall>k r. tget key k t = Some r \<longrightarrow> (\<exists>r'. tget key k t' = Some r' \<and> moves r r'))"

lemma evolvesI:
  "(\<And>k r. tget key k t = Some r \<Longrightarrow> \<exists>r'. tget key k t' = Some r' \<and> moves r r') \<Longrightarrow>
   evolves key moves t t'"
  by (simp add: evolves_def)

lemma evolvesD:
  assumes "evolves key moves t t'" "tget key k t = Some r"
  obtains r' where "tget key k t' = Some r'" "moves r r'"
  using assms unfolding evolves_def by blast

lemma evolves_mono:
  assumes "evolves key moves t t'" "\<And>r r'. moves r r' \<Longrightarrow> moves' r r'"
  shows "evolves key moves' t t'"
  unfolding evolves_def
proof (intro allI impI)
  fix k r assume "tget key k t = Some r"
  with assms(1) obtain r' where "tget key k t' = Some r'" "moves r r'" by (rule evolvesD)
  with assms(2) show "\<exists>r'. tget key k t' = Some r' \<and> moves' r r'" by blast
qed

text \<open>A predicate of rows that holds of every row of a table.\<close>

definition all_rows :: "('r \<Rightarrow> bool) \<Rightarrow> 'r list \<Rightarrow> bool" where
  "all_rows P t \<longleftrightarrow> (\<forall>r \<in> set t. P r)"

lemma all_rows_append [simp]: "all_rows P (t @ u) \<longleftrightarrow> all_rows P t \<and> all_rows P u"
  by (auto simp: all_rows_def)

lemma all_rows_Nil [simp]: "all_rows P []"
  by (simp add: all_rows_def)

lemma all_rows_single [simp]: "all_rows P [r] \<longleftrightarrow> P r"
  by (simp add: all_rows_def)

lemma all_rows_tupd:
  "all_rows P t \<Longrightarrow> (\<And>r. r \<in> set t \<Longrightarrow> key r = k \<Longrightarrow> P r \<Longrightarrow> P (f r)) \<Longrightarrow> all_rows P (tupd key k f t)"
  by (auto simp: all_rows_def tupd_def)

lemma all_rows_map: "all_rows P t \<Longrightarrow> (\<And>r. r \<in> set t \<Longrightarrow> P r \<Longrightarrow> P (f r)) \<Longrightarrow> all_rows P (map f t)"
  by (auto simp: all_rows_def)

lemma all_rows_get: "all_rows P t \<Longrightarrow> tget key k t = Some r \<Longrightarrow> P r"
  by (auto simp: all_rows_def dest: tget_SomeD)

locale row_moves =
  fixes key :: "'r \<Rightarrow> 'k" and moves :: "'r \<Rightarrow> 'r \<Rightarrow> bool"
  assumes same: "moves r r"
    and through: "moves r s \<Longrightarrow> moves s u \<Longrightarrow> moves r u"
    and keeps_key: "moves r s \<Longrightarrow> key s = key r"
begin

lemma refl: "evolves key moves t t"
  by (auto simp: evolves_def intro: same)

lemma trans:
  assumes "evolves key moves t u" "evolves key moves u v"
  shows "evolves key moves t v"
proof (rule evolvesI)
  fix k r assume "tget key k t = Some r"
  with assms(1) obtain s where s: "tget key k u = Some s" "moves r s" by (rule evolvesD)
  from assms(2) s(1) obtain w where "tget key k v = Some w" "moves s w" by (rule evolvesD)
  with s(2) show "\<exists>r'. tget key k v = Some r' \<and> moves r r'" by (blast intro: through)
qed

lemma adds: "evolves key moves t (t @ u)"
  by (rule evolvesI) (simp add: tget_append same)

lemma maps:
  assumes "\<And>r. r \<in> set t \<Longrightarrow> moves r (f r)"
  shows "evolves key moves t (map f t)"
proof (rule evolvesI)
  fix k r assume "tget key k t = Some r"
  with assms show "\<exists>r'. tget key k (map f t) = Some r' \<and> moves r r'"
  proof (induction t)
    case (Cons a t)
    then have "moves a (f a)" by simp
    then have "key (f a) = key a" by (rule keeps_key)
    with Cons show ?case by (auto simp: tget_Cons split: if_splits)
  qed simp
qed

text \<open>Only the first row with a key has to move as promised: the key is the primary one.\<close>

lemma updates:
  assumes "\<And>r. key (f r) = key r" "\<And>r. tget key k t = Some r \<Longrightarrow> moves r (f r)"
  shows "evolves key moves t (tupd key k f t)"
proof (rule evolvesI)
  fix k' r assume "tget key k' t = Some r"
  with assms show "\<exists>r'. tget key k' (tupd key k f t) = Some r' \<and> moves r r'"
    by (cases "k' = k") (auto simp: tget_tupd same)
qed

end

end
