(* ===== verification/Hub_System.thy ===== *)
theory Hub_System
  imports Device_Control Channel_Revocation Table_Evolution Claim_Stream
begin

text \<open>
  The hub as one transition system over its database.  A step is one transaction of any
  component, so every interleaving of requests, background passes and use cases is a
  sequence of steps.  A use case that reads first and commits later takes its plan from any
  database \<open>seen\<close>, however old.

  The first part says what each ledger's rows may do under a step; the second that Admission's
  invariants survive the other components.
\<close>

section \<open>Steps\<close>

inductive hub_step ::
  "external \<Rightarrow> device_sdk \<Rightarrow> authority \<Rightarrow> string \<Rightarrow> hub_db \<Rightarrow> hub_db \<Rightarrow> bool"
  for x :: external and s :: device_sdk and au :: authority and od :: string where
  Admission: "hub_step x s au od db (execute x au pj rq db)"
| Materialize: "materialize_claim_events x s ttl db = Inr (n, db') \<Longrightarrow> hub_step x s au od db db'"
| Mark_pending: "hub_step x s au od db (snd (mark_accepted_pending now db))"
| Expire: "hub_step x s au od db (snd (expire_operations now db))"
| Rearm: "rearm_lapsed s i now ttl db = Inr (o', db') \<Longrightarrow> hub_step x s au od db db'"
| Accept: "accept_delivery i attempt now db = Inr (o', db') \<Longrightarrow> hub_step x s au od db db'"
| Acknowledge: "acknowledge_erase x s now ack db = (db', Inr o') \<Longrightarrow> hub_step x s au od db db'"
| Draw: "hub_step x s au od db (snd (new_id x prefix db))"
| Manifest: "\<lbrakk>plan_manifest x s od a seen = Inr (Manifest_newer current accepted);
              commit_manifest x s od now event_id a current accepted db = Inr (d, db')\<rbrakk>
     \<Longrightarrow> hub_step x s au od db db'"
| Policy: "\<lbrakk>plan_policy x od c ctx seen = Inr (Policy_change current p);
            commit_policy x s od now event_id c ctx current p db = Inr (d, db')\<rbrakk>
     \<Longrightarrow> hub_step x s au od db db'"
| Channel_events: "materialize_revoked_events x now db = Inr (n, db') \<Longrightarrow> hub_step x s au od db db'"
| Channel_terminal: "mark_terminal i st result now db = Inr (u, db') \<Longrightarrow> hub_step x s au od db db'"
| Channel_retry: "\<lbrakk>0 \<le> rv_attempt_count r; retry_revocation rs r now error db = Inr (u, db')\<rbrakk>
     \<Longrightarrow> hub_step x s au od db db'"

abbreviation hub_steps ::
  "external \<Rightarrow> device_sdk \<Rightarrow> authority \<Rightarrow> string \<Rightarrow> hub_db \<Rightarrow> hub_db \<Rightarrow> bool" where
  "hub_steps x s au od \<equiv> (hub_step x s au od)\<^sup>*\<^sup>*"

definition reachable :: "external \<Rightarrow> device_sdk \<Rightarrow> authority \<Rightarrow> string \<Rightarrow> hub_db \<Rightarrow> bool" where
  "reachable x s au od db = hub_steps x s au od empty_db db"

lemma reachable_step: "reachable x s au od db \<Longrightarrow> hub_step x s au od db db' \<Longrightarrow> reachable x s au od db'"
  unfolding reachable_def by (rule rtranclp.rtrancl_into_rtrancl)

lemma reachable_steps: "reachable x s au od db \<Longrightarrow> hub_steps x s au od db db' \<Longrightarrow> reachable x s au od db'"
  unfolding reachable_def by (rule rtranclp_trans)

lemma reachable_run: "reachable x s au od (run x au pj rs)"
proof (induction rs rule: rev_induct)
  case Nil
  then show ?case by (simp add: reachable_def run_def)
next
  case (snoc rq rs)
  then show ?case by (auto simp: run_def intro: reachable_step Admission)
qed

section \<open>What a step leaves alone\<close>

definition control_tables ::
  "hub_db \<Rightarrow> erase_row list \<times> erase_evidence_row list \<times> revocation_row list \<times> management_event_row list" where
  "control_tables db = (erase_operations db, erase_evidence db, revocations db, management_events db)"

definition admission_tables :: "hub_db \<Rightarrow> hub_db" where
  "admission_tables db = (core db)\<lparr>devices := [], erase_operations := [], erase_evidence := [],
     revocations := [], management_events := []\<rparr>"

lemma control_tables_updates:
  "control_tables (update_proposal i f db) = control_tables db"
  "control_tables (update_grant i g db) = control_tables db"
  "control_tables (update_claim i h db) = control_tables db"
  "control_tables (update_device i k db) = control_tables db"
  "control_tables (set_proposal_state i st t db) = control_tables db"
  "control_tables (snd (upsert_claim r db)) = control_tables db"
  "control_tables (project_revoked_claim ref t db) = control_tables db"
  "control_tables (snd (record_controller_withdrawal w db)) = control_tables db"
  by (simp_all add: control_tables_def update_proposal_def update_grant_def update_claim_def
      update_device_def set_proposal_state_def upsert_claim_def project_revoked_claim_def
      record_controller_withdrawal_def Let_def split: option.splits)

lemma control_tables_fields:
  "control_tables (db\<lparr>proposals := ps\<rparr>) = control_tables db"
  "control_tables (db\<lparr>decisions := ds\<rparr>) = control_tables db"
  "control_tables (db\<lparr>grants := gs\<rparr>) = control_tables db"
  "control_tables (db\<lparr>standings := ss\<rparr>) = control_tables db"
  "control_tables (db\<lparr>devices := vs\<rparr>) = control_tables db"
  by (simp_all add: control_tables_def)

lemma control_tables_core: "control_tables (core db) = control_tables db"
  by (simp add: control_tables_def core_def)

lemma project_active_control:
  assumes "project_active_claim x ref ow mid mj md mr t db = Inr db'"
  shows "control_tables db' = control_tables db"
proof -
  from assms obtain doc where "json_loads x mj = Some (JObj doc)" by (rule project_active_claimD)
  with assms show ?thesis
    by (auto simp: project_active_claim_def Let_def control_tables_def update_device_def
        split: option.splits)
qed

lemma activate_control:
  assumes "activate_claim x t pf p g db = Inr (v, db')"
  shows "control_tables db' = control_tables db"
proof (rule activate_claimD [OF assms])
  fix db1 d n db2 db3
  assume a: "add_grant_ack \<lparr>ga_grant_id = gr_grant_id g, ga_enrollment_id = pr_enrollment_id p,
       ga_proof_fingerprint = ''sha256:'' @ sha256_hex x pf, ga_device_ref = gr_device_ref g,
       ga_acknowledged_at = t\<rparr> db = Inr db1"
    and u: "upsert_claim (claim_for (gr_device_ref g) (dc_target_business_owner_id d) g p Active
       (Some t) t None) db1 = (n, db2)"
    and pr: "project_active_claim x (gr_device_ref g) (dc_target_business_owner_id d) (pr_manifest_id p)
       (pr_manifest_json p) (pr_manifest_digest p) (pr_manifest_revision p) t db2 = Inr db3"
    and db': "db' = set_proposal_state (pr_enrollment_id p) Grant_acknowledged t db3"
  have "control_tables db1 = control_tables db"
    using a by (auto simp: add_grant_ack_def ok_iff control_tables_def)
  moreover from u have "control_tables db2 = control_tables db1"
    by (metis control_tables_updates(6) snd_conv)
  ultimately show "control_tables db' = control_tables db"
    by (simp add: db' control_tables_updates project_active_control [OF pr])
qed

lemma claim_standing_control:
  "claim_standing v ow hw key t db = Inr db' \<Longrightarrow> control_tables db' = control_tables db"
  by (erule claim_standing_cases)
    (auto simp: control_tables_def elim!: bind_base_identity_cases dest!: consume_voucher_cases(2))

lemma lifecycle_step_control:
  assumes "lifecycle_step x au c c'"
  shows "control_tables c' = control_tables c"
  using assms
proof cases
  case (Create v p t c1)
  from claim_standing_control [OF Create(2)] show ?thesis
    by (simp add: Create(1) control_tables_def)
next
  case (Acknowledge p g t pt w)
  then show ?thesis by (simp add: activate_control)
next
  case (Revoke_unclaimed ref g t c1)
  from Revoke_unclaimed(5) show ?thesis
    unfolding Revoke_unclaimed(1) by (auto elim!: revoke_unclaimedD simp: control_tables_updates)
qed (simp_all add: control_tables_updates control_tables_fields decide_effect_def expire_effect_def
      deliver_effect_def revoke_standing_claim_def Let_def split: option.splits)

lemma lifecycle_control: "lifecycle x au c c' \<Longrightarrow> control_tables c' = control_tables c"
  by (induction rule: rtranclp_induct) (simp_all add: lifecycle_step_control)

lemma execute_control:
  assumes "keys_ok (core db)"
  shows "control_tables (execute x au pj rq db) = control_tables db"
  using lifecycle_control [OF execute_commits [OF assms]] by (simp add: control_tables_core)

section \<open>The erase ledger\<close>

definition erase_moves :: "erase_row \<Rightarrow> erase_row \<Rightarrow> bool" where
  "erase_moves r r' \<longleftrightarrow>
     er_operation_id r' = er_operation_id r \<and> er_source_event_id r' = er_source_event_id r
     \<and> er_device_ref r' = er_device_ref r \<and> er_public_key_spki r' = er_public_key_spki r
     \<and> er_accepted_manifest_digest r' = er_accepted_manifest_digest r
     \<and> er_created_at r' = er_created_at r
     \<and> ec_operation_id (er_command r') = ec_operation_id (er_command r)
     \<and> ec_device_ref (er_command r') = ec_device_ref (er_command r)
     \<and> er_attempt_count r \<le> er_attempt_count r'
     \<and> (settled_erase (er_state r) \<longrightarrow> r' = r)"

interpretation erase_ledger: row_moves er_operation_id erase_moves
  by unfold_locales (auto simp: erase_moves_def)

text \<open>What a row says of itself; a settled row rests on a signed ACK of its own device.\<close>

definition settled_by :: "device_sdk \<Rightarrow> erase_row \<Rightarrow> erase_ack \<Rightarrow> bool" where
  "settled_by s r ack \<longleftrightarrow>
     (\<exists>key. er_public_key_spki r = Some key \<and> verify_device_erase_ack s ack key = Inr ())
     \<and> ak_operation_id ack = er_operation_id r \<and> ak_device_ref ack = er_device_ref r
     \<and> er_terminal_result r = Some (ak_result ack)
     \<and> er_state r = (if ak_result ack = ''erased'' then Erase_acknowledged else Permanent_failure)"

definition erase_row_ok :: "device_sdk \<Rightarrow> erase_row \<Rightarrow> bool" where
  "erase_row_ok s r \<longleftrightarrow>
     ec_operation_id (er_command r) = er_operation_id r \<and> ec_device_ref (er_command r) = er_device_ref r
     \<and> ec_deadline (er_command r) = er_deadline r
     \<and> er_request_fingerprint r = operation_fingerprint s (er_command r)
     \<and> 0 \<le> er_attempt_count r \<and> er_public_key_spki r \<noteq> None
     \<and> (er_delivery_attempt_id r \<noteq> None \<longrightarrow> 1 \<le> er_attempt_count r)
     \<and> (er_state r = Delivery_accepted \<longrightarrow> er_delivery_attempt_id r \<noteq> None
          \<and> (\<exists>t. er_delivery_accepted_at r = Some t \<and> t < er_deadline r))
     \<and> (\<not> terminal_erase (er_state r) \<longrightarrow> er_terminal_result r = None)
     \<and> (er_state r = Erase_expired \<longrightarrow> er_terminal_result r = Some ''deadline-expired'')
     \<and> (settled_erase (er_state r) \<longleftrightarrow> er_acknowledged_at r \<noteq> None)
     \<and> (settled_erase (er_state r) \<longrightarrow> (\<exists>ack. settled_by s r ack))"

lemmas erase_row_defs = erase_row_ok_def erase_moves_def settled_by_def

lemma expire_row_ok:
  assumes "erase_row_ok s r" "\<not> settled_erase (er_state r)"
  shows "erase_row_ok s (expire_row r)" "erase_moves r (expire_row r)"
  using assms by (auto simp: expire_row_def erase_row_defs)

lemma pending_row_ok:
  assumes "erase_row_ok s r" "er_state r = Erase_accepted"
  shows "erase_row_ok s (r\<lparr>er_state := Erase_pending\<rparr>)" "erase_moves r (r\<lparr>er_state := Erase_pending\<rparr>)"
  using assms by (auto simp: erase_row_defs)

lemma rearm_row_ok:
  assumes "erase_row_ok s r" "\<not> settled_erase (er_state r)"
  shows "erase_row_ok s (rearm_row s now ttl r)" "erase_moves r (rearm_row s now ttl r)"
  using assms by (auto simp: rearm_row_def Let_def erase_row_defs)

lemma unsettled: "\<not> terminal_erase st \<Longrightarrow> \<not> settled_erase st"
  by (cases st) simp_all

lemma open_row:
  assumes "erase_row_ok s r" "\<not> terminal_erase (er_state r)"
  shows "er_terminal_result r = None" "er_acknowledged_at r = None" "0 \<le> er_attempt_count r"
  using assms unsettled [OF assms(2)] by (simp_all add: erase_row_ok_def)

lemma accept_row_ok:
  assumes "erase_row_ok s r" "\<not> terminal_erase (er_state r)" "now < er_deadline r"
  shows "erase_row_ok s (accept_row attempt now r)" "erase_moves r (accept_row attempt now r)"
proof -
  note r = open_row [OF assms(1,2)] unsettled [OF assms(2)]
  from assms r show "erase_moves r (accept_row attempt now r)"
    by (simp add: accept_row_def erase_moves_def)
  from assms r show "erase_row_ok s (accept_row attempt now r)"
    by (simp add: accept_row_def erase_row_ok_def)
qed

lemma settle_row_ok:
  assumes "erase_row_ok s r" "\<not> terminal_erase (er_state r)"
    "er_public_key_spki r = Some key" "verify_device_erase_ack s ack key = Inr ()"
    "ak_operation_id ack = er_operation_id r" "ak_device_ref ack = er_device_ref r"
  shows "erase_row_ok s (settle_row ack now r)" "erase_moves r (settle_row ack now r)"
proof -
  note r = open_row [OF assms(1,2)] unsettled [OF assms(2)]
  from assms r show "erase_moves r (settle_row ack now r)"
    by (simp add: settle_row_def erase_moves_def)
  have "settled_by s (settle_row ack now r) ack"
    using assms by (simp add: settled_by_def settle_row_def)
  with assms(1) r show "erase_row_ok s (settle_row ack now r)"
    by (auto simp: settle_row_def erase_row_ok_def)
qed

text \<open>Where an operation comes from: the revocation it erases after.\<close>

definition erase_origin :: "external \<Rightarrow> stream_row list \<Rightarrow> erase_row \<Rightarrow> bool" where
  "erase_origin x events r \<longleftrightarrow>
     (\<exists>e \<in> set events. se_event_type e = revoke_event_type
        \<and> ae_id (se_event e) = er_source_event_id r \<and> ae_time (se_event e) = er_created_at r
        \<and> (\<exists>reason t. ae_data (se_event e) = Claim_revoked_data (er_device_ref r) reason t)
        \<and> er_operation_id r = erase_operation_id x (er_source_event_id r) (er_device_ref r))"

definition erase_table_ok :: "external \<Rightarrow> device_sdk \<Rightarrow> hub_db \<Rightarrow> bool" where
  "erase_table_ok x s db \<longleftrightarrow>
     distinct (map er_operation_id (erase_operations db))
     \<and> distinct (map er_source_event_id (erase_operations db))
     \<and> all_rows (\<lambda>r. erase_row_ok s r \<and> erase_origin x (claim_stream db) r) (erase_operations db)"

definition ledger_moves :: "hub_db \<Rightarrow> hub_db \<Rightarrow> bool" where
  "ledger_moves db db' \<longleftrightarrow>
     evolves er_operation_id erase_moves (erase_operations db) (erase_operations db')
     \<and> (\<exists>es. erase_evidence db' = erase_evidence db @ es)"

lemma ledger_same: "erase_operations db' = erase_operations db \<Longrightarrow>
    erase_evidence db' = erase_evidence db \<Longrightarrow> ledger_moves db db'"
  by (simp add: ledger_moves_def erase_ledger.refl)

lemma ledger_through: "ledger_moves a b \<Longrightarrow> ledger_moves b c \<Longrightarrow> ledger_moves a c"
  unfolding ledger_moves_def by (metis append_assoc erase_ledger.trans)

lemma erase_origin_mono: "erase_origin x st r \<Longrightarrow> set st \<subseteq> set st' \<Longrightarrow> erase_origin x st' r"
  unfolding erase_origin_def by blast

lemma erase_table_same:
  assumes "erase_table_ok x s db" "erase_operations db' = erase_operations db"
    "set (claim_stream db) \<subseteq> set (claim_stream db')"
  shows "erase_table_ok x s db'"
  using assms by (auto simp: erase_table_ok_def all_rows_def intro: erase_origin_mono)

lemma erase_map:
  assumes "erase_table_ok x s db"
    "\<And>r. r \<in> set (erase_operations db) \<Longrightarrow> erase_row_ok s r \<Longrightarrow> erase_row_ok s (f r) \<and> erase_moves r (f r)"
  shows "erase_table_ok x s (db\<lparr>erase_operations := map f (erase_operations db)\<rparr>)"
    "evolves er_operation_id erase_moves (erase_operations db) (map f (erase_operations db))"
proof -
  have m: "erase_row_ok s (f r) \<and> erase_moves r (f r)" if "r \<in> set (erase_operations db)" for r
    using assms that by (simp add: erase_table_ok_def all_rows_def)
  have k: "map er_operation_id (map f (erase_operations db)) = map er_operation_id (erase_operations db)"
    "map er_source_event_id (map f (erase_operations db)) = map er_source_event_id (erase_operations db)"
    using m by (auto simp: erase_moves_def)
  have "erase_origin x st (f r)" if "r \<in> set (erase_operations db)" "erase_origin x st r" for st r
    using m [OF that(1)] that(2) by (simp add: erase_origin_def erase_moves_def)
  with assms(1) m have "all_rows (\<lambda>r. erase_row_ok s r \<and> erase_origin x (claim_stream db) r)
      (map f (erase_operations db))"
    by (auto simp: erase_table_ok_def all_rows_def)
  moreover have "distinct (map er_operation_id (map f (erase_operations db)))"
    "distinct (map er_source_event_id (map f (erase_operations db)))"
    using assms(1) unfolding k by (simp_all add: erase_table_ok_def)
  ultimately show "erase_table_ok x s (db\<lparr>erase_operations := map f (erase_operations db)\<rparr>)"
    by (simp add: erase_table_ok_def)
  show "evolves er_operation_id erase_moves (erase_operations db) (map f (erase_operations db))"
    using m by (intro erase_ledger.maps) simp
qed

text \<open>A row update by a function that keeps the row's promises.\<close>

lemma erase_update:
  assumes "erase_table_ok x s db" "get_operation db i = Some r"
    "erase_row_ok s (f r) \<and> erase_moves r (f r)"
  shows "erase_table_ok x s (update_operation i f db)"
    "evolves er_operation_id erase_moves (erase_operations db)
       (erase_operations (update_operation i f db))"
proof -
  have r: "r \<in> set (erase_operations db)" "er_operation_id r = i"
    using assms(2) by (auto simp: get_operation_def dest: tget_SomeD)
  have d: "distinct (map er_operation_id (erase_operations db))"
    using assms(1) by (simp add: erase_table_ok_def)
  let ?g = "\<lambda>q. if er_operation_id q = i then f q else q"
  have "erase_row_ok s (?g q) \<and> erase_moves q (?g q)"
    if "q \<in> set (erase_operations db)" "erase_row_ok s q" for q
  proof (cases "er_operation_id q = i")
    case True
    with distinct_key_eq [OF d that(1) r(1)] r(2) have "q = r" by simp
    with True assms(3) show ?thesis by simp
  next
    case False
    with that show ?thesis by (simp add: erase_ledger.same)
  qed
  from erase_map [OF assms(1) this] show "erase_table_ok x s (update_operation i f db)"
    "evolves er_operation_id erase_moves (erase_operations db)
       (erase_operations (update_operation i f db))"
    by (simp_all add: update_operation_def tupd_def)
qed

lemma erase_adds:
  assumes "erase_table_ok x s db" "get_operation db (er_operation_id r) = None"
    "tget er_source_event_id (er_source_event_id r) (erase_operations db) = None"
    "erase_row_ok s r" "erase_origin x (claim_stream db) r"
  shows "erase_table_ok x s (db\<lparr>erase_operations := erase_operations db @ [r]\<rparr>)"
  using assms by (simp add: erase_table_ok_def get_operation_def tget_None_iff)

lemma revoked_dataD:
  "revoked_data e = Inr (ref, reason) \<Longrightarrow> \<exists>t. ae_data e = Claim_revoked_data ref reason t"
  by (cases "ae_data e") simp_all

lemma new_operation_ok:
  "erase_row_ok s (new_operation x s ttl event ref claim)"
  by (simp add: new_operation_def Let_def erase_row_ok_def)

lemma new_operation_fields [simp]:
  "er_operation_id (new_operation x s ttl event ref claim) = erase_operation_id x (ae_id event) ref"
  "er_source_event_id (new_operation x s ttl event ref claim) = ae_id event"
  "er_device_ref (new_operation x s ttl event ref claim) = ref"
  "er_created_at (new_operation x s ttl event ref claim) = ae_time event"
  "er_public_key_spki (new_operation x s ttl event ref claim) = Some (cl_operational_public_key_spki claim)"
  "er_state (new_operation x s ttl event ref claim) = Erase_accepted"
  by (simp_all add: new_operation_def Let_def)

lemma materialize_oneE:
  assumes "materialize_one x s ttl row db = Inr (n, db')"
  obtains (known) q where "n = 0" "db' = db" "q \<in> set (erase_operations db)"
      "er_source_event_id q = ae_id (se_event row)"
  | (new) ref reason t claim where "n = 1" "ae_data (se_event row) = Claim_revoked_data ref reason t"
      "get_operation db (erase_operation_id x (ae_id (se_event row)) ref) = None"
      "tget er_source_event_id (ae_id (se_event row)) (erase_operations db) = None"
      "get_claim db (device_instance_id ref) = Some claim" "claim_row_ref claim = ref"
      "db' = db\<lparr>erase_operations := erase_operations db @ [new_operation x s ttl (se_event row) ref claim]\<rparr>"
proof -
  from assms obtain ref reason where rd: "revoked_data (se_event row) = Inr (ref, reason)"
    unfolding materialize_one_def Let_def andthen_ok by fastforce
  from revoked_dataD [OF rd] obtain t where t: "ae_data (se_event row) = Claim_revoked_data ref reason t"
    by blast
  let ?i = "erase_operation_id x (ae_id (se_event row)) ref"
  note a = assms [unfolded materialize_one_def Let_def rd andthen.simps prod.case]
  show thesis
  proof (cases "get_operation db ?i")
    case (Some q)
    with a have "n = 0" "db' = db" "er_source_event_id q = ae_id (se_event row)" by (auto simp: ok_iff)
    moreover from Some have "q \<in> set (erase_operations db)"
      by (auto simp: get_operation_def dest: tget_SomeD)
    ultimately show thesis by (intro known)
  next
    case None
    note i = None
    show thesis
    proof (cases "tget er_source_event_id (ae_id (se_event row)) (erase_operations db)")
      case (Some q)
      with a i have "n = 0" "db' = db" by (auto simp: ok_iff)
      with tget_SomeD [OF Some] show thesis by (intro known [of q]) simp_all
    next
      case None
      with a i obtain claim where "get_claim db (device_instance_id ref) = Some claim"
          "claim_row_ref claim = ref" "n = 1"
          "db' = db\<lparr>erase_operations := erase_operations db @ [new_operation x s ttl (se_event row) ref claim]\<rparr>"
        by (auto simp: ok_iff split: option.splits)
      with None i t show thesis by (intro new)
    qed
  qed
qed

text \<open>What a transaction promises of the erase ledger.\<close>

definition erase_tx :: "external \<Rightarrow> device_sdk \<Rightarrow> hub_db \<Rightarrow> hub_db \<Rightarrow> bool" where
  "erase_tx x s db db' \<longleftrightarrow> (erase_table_ok x s db \<longrightarrow> erase_table_ok x s db' \<and> ledger_moves db db')"

lemma erase_tx_through: "erase_tx x s a b \<Longrightarrow> erase_tx x s b c \<Longrightarrow> erase_tx x s a c"
  unfolding erase_tx_def by (blast intro: ledger_through)

lemma erase_tx_elsewhere:
  assumes "erase_operations db' = erase_operations db" "erase_evidence db' = erase_evidence db"
    "set (claim_stream db) \<subseteq> set (claim_stream db')"
  shows "erase_tx x s db db'"
  unfolding erase_tx_def using assms by (blast intro: erase_table_same ledger_same)

lemma erase_tx_update:
  assumes "get_operation db i = Some r" "erase_row_ok s r \<Longrightarrow> erase_row_ok s (f r) \<and> erase_moves r (f r)"
  shows "erase_tx x s db (update_operation i f db)"
  unfolding erase_tx_def
proof
  assume t: "erase_table_ok x s db"
  then have "erase_row_ok s r"
    using assms(1) by (auto simp: erase_table_ok_def get_operation_def dest: all_rows_get)
  from erase_update [where f = f, OF t assms(1) assms(2) [OF this]]
  show "erase_table_ok x s (update_operation i f db) \<and> ledger_moves db (update_operation i f db)"
    by (simp add: ledger_moves_def update_operation_def)
qed

lemma erase_tx_map:
  assumes "\<And>r. erase_row_ok s r \<Longrightarrow> erase_row_ok s (f r) \<and> erase_moves r (f r)"
  shows "erase_tx x s db (db\<lparr>erase_operations := map f (erase_operations db)\<rparr>)"
  unfolding erase_tx_def ledger_moves_def using assms by (simp add: erase_map)

lemma materialize_one_tx:
  assumes "materialize_one x s ttl row db = Inr (n, db')" "row \<in> set (claim_stream db)"
    "se_event_type row = revoke_event_type"
  shows "erase_tx x s db db'" "claim_stream db' = claim_stream db"
  using assms(1)
proof (atomize (full), cases rule: materialize_oneE)
  case (known q)
  then show "erase_tx x s db db' \<and> claim_stream db' = claim_stream db"
    by (simp add: erase_tx_elsewhere)
next
  case (new ref reason t claim)
  let ?r = "new_operation x s ttl (se_event row) ref claim"
  from assms(2,3) new(2) have o': "erase_origin x (claim_stream db) ?r"
    unfolding erase_origin_def by fastforce
  have "erase_table_ok x s db' \<and> ledger_moves db db'" if "erase_table_ok x s db"
    unfolding new(7) ledger_moves_def
    using erase_adds [OF that, of ?r] new(3,4) o' by (simp add: new_operation_ok erase_ledger.adds)
  then show "erase_tx x s db db' \<and> claim_stream db' = claim_stream db"
    by (simp add: erase_tx_def new(7))
qed

lemma materialize_each_tx:
  assumes "materialize_each x s ttl rows db = Inr (n, db')" "set rows \<subseteq> set (revoked_events db)"
  shows "erase_tx x s db db'"
  using assms
proof (induction rows arbitrary: db n)
  case Nil
  then show ?case by (simp add: erase_tx_elsewhere)
next
  case (Cons row rows)
  from Cons.prems(1) obtain m k db1 where s: "materialize_one x s ttl row db = Inr (m, db1)"
      "materialize_each x s ttl rows db1 = Inr (k, db')" by (auto simp: ok_iff)
  have row: "row \<in> set (claim_stream db)" "se_event_type row = revoke_event_type"
    using Cons.prems(2) by (auto simp: revoked_events_def)
  note one = materialize_one_tx [OF s(1) row]
  with Cons.prems(2) have "set rows \<subseteq> set (revoked_events db1)" by (simp add: revoked_events_def)
  from Cons.IH [OF s(2) this] one(1) show ?case by (metis erase_tx_through)
qed

lemma materialize_tx:
  assumes "materialize_claim_events x s ttl db = Inr (n, db')"
  shows "erase_tx x s db db'"
proof -
  from assms have "materialize_each x s ttl (revoked_events db) db = Inr (n, db')"
    by (simp add: materialize_claim_events_def ok_iff)
  then show ?thesis by (rule materialize_each_tx) simp
qed

lemma expire_operations_tx: "erase_tx x s db (snd (expire_operations now db))"
  unfolding expire_operations_def snd_conv
proof (rule erase_tx_map)
  fix r assume r: "erase_row_ok s r"
  show "erase_row_ok s (if erase_lapsed now r then expire_row r else r)
      \<and> erase_moves r (if erase_lapsed now r then expire_row r else r)"
  proof (cases "erase_lapsed now r")
    case True
    then have "\<not> settled_erase (er_state r)" by (auto simp: erase_lapsed_def)
    with True r show ?thesis by (simp add: expire_row_ok)
  next
    case False
    with r show ?thesis by (simp add: erase_ledger.same)
  qed
qed

lemma mark_pending_tx: "erase_tx x s db (snd (mark_accepted_pending now db))"
  unfolding mark_accepted_pending_def snd_conv
  by (rule erase_tx_map) (auto simp: deliverable_def pending_row_ok erase_ledger.same)

lemma rearm_tx:
  assumes "rearm_lapsed s i now ttl db = Inr (o', db')"
  shows "erase_tx x s db db'"
proof -
  from assms obtain r where r: "get_operation db i = Some r"
    by (auto simp: rearm_lapsed_def ok_iff)
  have "erase_tx x s db (update_operation i (rearm_row s now ttl) db)" if "\<not> settled_erase (er_state r)"
    using r that by (intro erase_tx_update) (auto simp: rearm_row_ok)
  moreover have "erase_tx x s db db" by (simp add: erase_tx_elsewhere)
  ultimately show ?thesis using assms r by (auto simp: rearm_lapsed_def ok_iff split: if_splits)
qed

lemma accept_tx:
  assumes "accept_delivery i attempt now db = Inr (o', db')"
  shows "erase_tx x s db db'"
proof -
  from assms obtain r where r: "get_operation db i = Some r"
    by (auto simp: accept_delivery_def ok_iff)
  have "erase_tx x s db (update_operation i expire_row db)" if "\<not> settled_erase (er_state r)"
    using r that by (intro erase_tx_update) (auto simp: expire_row_ok)
  moreover have "erase_tx x s db (update_operation i (accept_row attempt now) db)"
    if "\<not> terminal_erase (er_state r)" "now < er_deadline r"
    using r that by (intro erase_tx_update) (auto simp: accept_row_ok)
  moreover have "erase_tx x s db db" by (simp add: erase_tx_elsewhere)
  ultimately show ?thesis
    using assms r by (auto simp: accept_delivery_def ok_iff not_le split: if_splits)
qed

lemma ack_effect_ok:
  assumes "erase_row_ok s r" "er_public_key_spki r = Some key" "verify_device_erase_ack s ack key = Inr ()"
    "ak_operation_id ack = er_operation_id r" "ak_device_ref ack = er_device_ref r"
  shows "erase_row_ok s (snd (ack_effect ack now r) r) \<and> erase_moves r (snd (ack_effect ack now r) r)"
proof (cases "terminal_erase (er_state r)")
  case True
  with assms(1) show ?thesis by (simp add: ack_effect_def erase_ledger.same)
next
  case False
  with assms settle_row_ok [OF assms(1) False assms(2-5)] expire_row_ok [OF assms(1) unsettled [OF False]]
  show ?thesis by (simp add: ack_effect_def)
qed

text \<open>A successful \<open>apply_ack\<close>: the same evidence again, or new evidence and its effect.\<close>

lemma apply_ackE:
  assumes "apply_ack ack fp now db = Inr (o', db')"
  obtains (again) e r where "get_operation db (ak_operation_id ack) = Some r" "db' = db"
      "o' = decode_erase r" "e \<in> set (erase_evidence db)" "ev_ack_fingerprint e = fp"
      "evidence_key e = (ak_operation_id ack, ak_ack_sequence ack)"
  | (new) r e where "get_operation db (ak_operation_id ack) = Some r"
      "tget evidence_key (ak_operation_id ack, ak_ack_sequence ack) (erase_evidence db) = None"
      "evidence_key e = (ak_operation_id ack, ak_ack_sequence ack)" "ev_ack_fingerprint e = fp"
      "ev_applied e = (if fst (ack_effect ack now r) then 1 else 0)"
      "o' = decode_erase (snd (ack_effect ack now r) r)"
      "db' = (update_operation (ak_operation_id ack) (snd (ack_effect ack now r)) db)
               \<lparr>erase_evidence := erase_evidence db @ [e]\<rparr>"
proof -
  from assms obtain r where r: "get_operation db (ak_operation_id ack) = Some r"
    by (auto simp: apply_ack_def ok_iff)
  note a = assms [unfolded apply_ack_def r present_simps andthen.simps]
  show thesis
  proof (cases "tget evidence_key (ak_operation_id ack, ak_ack_sequence ack) (erase_evidence db)")
    case (Some e)
    from tget_SomeD [OF this] a Some r show thesis by (intro again [of r e]) (auto simp: ok_iff)
  next
    case None
    obtain ap f where f: "ack_effect ack now r = (ap, f)" by (cases "ack_effect ack now r")
    let ?e = "\<lparr>ev_operation_id = ak_operation_id ack, ev_ack_sequence = ak_ack_sequence ack,
       ev_ack_fingerprint = fp, ev_received_at = now, ev_applied = (if ap then 1 else 0),
       ev_result = ak_result ack, ev_result_code = ak_result_code ack\<rparr>"
    from a have "o' = decode_erase (f r)"
      "db' = (update_operation (ak_operation_id ack) f db)\<lparr>erase_evidence := erase_evidence db @ [?e]\<rparr>"
      unfolding None f by simp_all
    with None r show thesis by (intro new [of r ?e]) (simp_all add: f evidence_key_def)
  qed
qed

lemma acknowledge_eraseE:
  assumes "acknowledge_erase x s now ack db = (db', Inr o')"
  obtains r key where "get_operation db (ak_operation_id ack) = Some r"
    "ak_device_ref ack = ec_device_ref (er_command r)" "er_public_key_spki r = Some key"
    "verify_device_erase_ack s ack key = Inr ()"
    "apply_ack ack (''sha256:'' @ hex (sha256 x (canonical_bytes s ack))) now db = Inr (o', db')"
  using assms by (auto simp: acknowledge_erase_def ledger_get_def guarded_def require_def run_tx_def
      decode_erase_def split: option.splits sum.splits if_splits)

lemma acknowledge_tx:
  assumes "acknowledge_erase x s now ack db = (db', Inr o')"
  shows "erase_tx x s db db'"
proof -
  from assms obtain r key where r: "get_operation db (ak_operation_id ack) = Some r"
    "ak_device_ref ack = ec_device_ref (er_command r)" "er_public_key_spki r = Some key"
    "verify_device_erase_ack s ack key = Inr ()"
    and a: "apply_ack ack (''sha256:'' @ hex (sha256 x (canonical_bytes s ack))) now db = Inr (o', db')"
    by (rule acknowledge_eraseE)
  from a show ?thesis
  proof (cases rule: apply_ackE)
    case (again e q)
    then show ?thesis by (simp add: erase_tx_elsewhere)
  next
    case (new q e)
    let ?up = "update_operation (ak_operation_id ack) (snd (ack_effect ack now r)) db"
    have q: "q = r" using new(1) r(1) by simp
    have i: "ak_operation_id ack = er_operation_id r"
      using r(1) by (auto simp: get_operation_def dest: tget_SomeD)
    have "erase_tx x s db ?up"
    proof (rule erase_tx_update [OF r(1)])
      assume ok: "erase_row_ok s r"
      then have "ak_device_ref ack = er_device_ref r" using r(2) by (simp add: erase_row_ok_def)
      from ack_effect_ok [OF ok r(3,4) i this]
      show "erase_row_ok s (snd (ack_effect ack now r) r)
        \<and> erase_moves r (snd (ack_effect ack now r) r)" .
    qed
    then show ?thesis
      unfolding new(7) q erase_tx_def erase_table_ok_def ledger_moves_def
      by (auto simp: update_operation_def)
  qed
qed

section \<open>The other components\<close>

lemma materialize_revocation_fields:
  "materialize_revocation x now row db = Inr (n, db') \<Longrightarrow> \<exists>rs. db' = db\<lparr>revocations := rs\<rparr>"
  by (cases "get_revocation db (se_event_id row)")
    (auto simp: materialize_revocation_def ok_iff intro: exI [of _ "revocations db"])

lemma materialize_revocations_fields:
  assumes "materialize_revocations x now rows db = Inr (n, db')"
  shows "\<exists>rs. db' = db\<lparr>revocations := rs\<rparr>"
  using assms
proof (induction rows arbitrary: db n)
  case Nil
  then show ?case by (auto intro: exI [of _ "revocations db"])
next
  case (Cons row rows)
  then obtain m k db1 where "materialize_revocation x now row db = Inr (m, db1)"
    "materialize_revocations x now rows db1 = Inr (k, db')" by (auto simp: ok_iff)
  with Cons.IH materialize_revocation_fields show ?case by fastforce
qed

lemma revocations_kept: "\<exists>rs. db = db\<lparr>revocations := rs\<rparr>"
  by (rule exI [of _ "revocations db"]) simp

lemma update_revocation_fields: "\<exists>rs. update_revocation i f db = db\<lparr>revocations := rs\<rparr>"
  by (auto simp: update_revocation_def)

lemma mark_terminal_fields:
  assumes "mark_terminal i st result now db = Inr (u, db')"
  shows "\<exists>rs. db' = db\<lparr>revocations := rs\<rparr>"
proof -
  from assms obtain f where "db' = db \<or> db' = update_revocation i f db"
    unfolding mark_terminal_def andthen_ok by (auto split: if_splits)
  with revocations_kept update_revocation_fields show ?thesis by metis
qed

lemma mark_retry_fields:
  assumes "mark_retry i m now error db = Inr (u, db')"
  shows "\<exists>rs. db' = db\<lparr>revocations := rs\<rparr>"
proof -
  from assms obtain f where "db' = db \<or> db' = update_revocation i f db"
    unfolding mark_retry_def andthen_ok by (auto split: if_splits)
  with revocations_kept update_revocation_fields show ?thesis by metis
qed

lemma materialize_events_fields:
  "materialize_revoked_events x now db = Inr (n, db') \<Longrightarrow> \<exists>rs. db' = db\<lparr>revocations := rs\<rparr>"
  unfolding materialize_revoked_events_def by (rule materialize_revocations_fields)

lemmas channel_fields = materialize_events_fields mark_terminal_fields mark_retry_fields

text \<open>A committed change of a device: its row, by a change that leaves the Claim's columns alone.\<close>

definition same_claim :: "managed_device \<Rightarrow> managed_device \<Rightarrow> bool" where
  "same_claim d d' \<longleftrightarrow>
     md_identity d' = md_identity d \<and> md_owner_domain_id d' = md_owner_domain_id d
     \<and> md_owner_domain_generation d' = md_owner_domain_generation d
     \<and> md_claim_generation d' = md_claim_generation d \<and> md_trust_epoch d' = md_trust_epoch d
     \<and> md_owner_id d' = md_owner_id d \<and> md_lifecycle_state d' = md_lifecycle_state d
     \<and> md_manifest_id d' = md_manifest_id d
     \<and> md_aggregate_revision d' = md_aggregate_revision d + 1"

definition device_change :: "external \<Rightarrow> string \<Rightarrow> managed_device \<Rightarrow> managed_device \<Rightarrow> hub_db \<Rightarrow> hub_db \<Rightarrow> bool" where
  "device_change x od current d db db' \<longleftrightarrow>
     get_device x od db (device_id (md_identity current)) = Inr (Some current) \<and> same_claim current d
     \<and> devices db' = devices (upsert_device d db)
     \<and> (\<exists>ds es. db' = db\<lparr>devices := ds, management_events := es\<rparr>)"

lemma commit_manifest_change:
  assumes "commit_manifest x s od now i a current accepted db = Inr (d, db')"
  shows "d = with_manifest current accepted now" "device_change x od current d db db'"
proof -
  from assms obtain e where
    c: "commit_device x s od (Some current) (with_manifest current accepted now) e db = Inr (d, db')"
    by (auto simp: commit_manifest_def ok_iff)
  show "d = with_manifest current accepted now" using commit_deviceD(1) [OF c] .
  with commit_deviceD [OF c] show "device_change x od current d db db'"
    by (simp add: device_change_def same_claim_def with_manifest_def)
qed

lemma commit_policy_change:
  assumes "commit_policy x s od now i c ctx current p db = Inr (d, db')"
  shows "d = with_policy current p now" "device_change x od current d db db'"
proof -
  from assms obtain e where
    c: "commit_device x s od (Some current) (with_policy current p now) e db = Inr (d, db')"
    by (auto simp: commit_policy_def ok_iff)
  show "d = with_policy current p now" using commit_deviceD(1) [OF c] .
  with commit_deviceD [OF c] show "device_change x od current d db db'"
    by (simp add: device_change_def same_claim_def with_policy_def)
qed

lemma log_prefix: "log_steps db db' \<Longrightarrow> set (claim_stream db) \<subseteq> set (claim_stream db')"
proof (induction rule: rtranclp_induct)
  case (step db1 db2)
  then have "set (claim_stream db1) \<subseteq> set (claim_stream db2)"
    by (auto simp: log_step_def announces_def claim_log_def)
  with step.IH show ?case by blast
qed simp

text \<open>Every step, as what it does to the erase ledger.\<close>

lemma hub_step_erase:
  assumes "hub_step x s au od db db'" "keys_ok (core db)"
  shows "erase_tx x s db db'"
  using assms(1)
proof cases
  case (Admission pj rq)
  have "control_tables db' = control_tables db" unfolding Admission by (rule execute_control [OF assms(2)])
  moreover have "set (claim_stream db) \<subseteq> set (claim_stream db')"
    unfolding Admission by (intro log_prefix log.execute_related)
  ultimately show ?thesis by (intro erase_tx_elsewhere) (simp_all add: control_tables_def)
next
  case (Draw prefix)
  then show ?thesis by (simp add: erase_tx_elsewhere new_id_def)
next
  case (Manifest a seen current accepted now i d)
  then show ?thesis
    by (auto dest!: commit_manifest_change(2) simp: device_change_def intro!: erase_tx_elsewhere)
next
  case (Policy c ctx seen current p now i d)
  then show ?thesis
    by (auto dest!: commit_policy_change(2) simp: device_change_def intro!: erase_tx_elsewhere)
next
  case (Channel_events now n)
  then show ?thesis by (auto dest!: channel_fields(1) intro!: erase_tx_elsewhere)
next
  case (Channel_terminal i st result now u)
  then show ?thesis by (auto dest!: channel_fields(2) intro!: erase_tx_elsewhere)
next
  case (Channel_retry r rs now error u)
  then show ?thesis
    by (auto simp: retry_revocation_def Let_def dest!: channel_fields(3) intro!: erase_tx_elsewhere)
qed (simp_all add: materialize_tx mark_pending_tx expire_operations_tx rearm_tx accept_tx acknowledge_tx)

section \<open>Admission under the other components\<close>

definition same_admission :: "hub_db \<Rightarrow> hub_db \<Rightarrow> bool" where
  "same_admission c c' \<longleftrightarrow>
     proposals c' = proposals c \<and> decisions c' = decisions c \<and> grants c' = grants c
     \<and> grant_acks c' = grant_acks c \<and> claims c' = claims c \<and> vouchers c' = vouchers c
     \<and> base_identities c' = base_identities c"

lemma same_admission_keys:
  "same_admission c c' \<Longrightarrow> keys_ok c \<Longrightarrow> distinct (map dv_device_id (devices c')) \<Longrightarrow> keys_ok c'"
  by (simp add: same_admission_def keys_defs)

lemma same_admission_parts:
  assumes "same_admission c c'"
  shows "grants_ok au c' = grants_ok au c" "lineage_ok c' = lineage_ok c"
    "decisions_ok c' = decisions_ok c" "acks_ok c' = acks_ok c" "phases_ok c' = phases_ok c"
    "claims_ok c' = claims_ok c" "identity_ok x au c' = identity_ok x au c"
  using assms
  by (simp_all add: same_admission_def grants_ok_def grant_origin_def lineage_ok_def decisions_ok_def
      decision_origin_def acks_ok_def phases_ok_def claims_ok_def claim_of_def identity_ok_def
      get_decision_for_enrollment_def get_grant_for_enrollment_def get_ack_for_enrollment_def
      cong: claim_state.case_cong)

lemma same_admission_ok:
  "same_admission c c' \<Longrightarrow> admission_ok x au c \<Longrightarrow> directory_ok c' \<Longrightarrow> admission_ok x au c'"
  by (simp add: admission_ok_def same_admission_parts [of c c'])

definition hub_ok :: "external \<Rightarrow> device_sdk \<Rightarrow> authority \<Rightarrow> hub_db \<Rightarrow> bool" where
  "hub_ok x s au db \<longleftrightarrow>
     keys_ok (core db) \<and> admission_ok x au (core db) \<and> erase_table_ok x s db"

lemma device_change_directory:
  assumes "device_change x od current d db db'" "directory_ok (core db)"
  shows "directory_ok (core db')"
proof -
  let ?i = "device_id (md_identity current)"
  from assms(1) obtain row where row: "get_device_row db ?i = Some row"
      "decode_device x od row = Inr current"
    by (auto simp: device_change_def get_device_ok)
  then have r: "row \<in> set (devices db)" "dv_device_id row = ?i"
    by (auto simp: get_device_row_def dest: tget_SomeD)
  have "row = device_values current" using device_values_decode [OF row(2)] by simp
  moreover from assms(1) have "same_claim current d" by (simp add: device_change_def)
  ultimately have same: "lists_claim (device_values d) = lists_claim row"
      "device_id (md_identity d) = ?i" "dv_device_id (device_values d) = dv_device_id row"
    by (auto simp: fun_eq_iff lists_claim_def device_values_def same_claim_def)
  have ds: "set (devices db') = insert (device_values d) {q \<in> set (devices db). dv_device_id q \<noteq> ?i}"
    and cs: "claims db' = claims db"
    using assms(1) upsert_device_set [of d db] same(2) by (auto simp: device_change_def)
  from assms(2) have ok: "\<And>q. q \<in> set (devices db) \<Longrightarrow> \<exists>c \<in> set (claims db). lists_claim q c"
    "\<And>c. c \<in> set (claims db) \<Longrightarrow> cl_state c = Active \<Longrightarrow>
        \<exists>q \<in> set (devices db). dv_device_id q = cl_device_instance_id c"
    by (auto simp: directory_ok_def core_simps)
  have "\<exists>q \<in> set (devices db'). dv_device_id q = cl_device_instance_id c"
    if "c \<in> set (claims db)" "cl_state c = Active" for c
    using ok(2) [OF that] r same(3) unfolding ds by (cases "cl_device_instance_id c = ?i") auto
  moreover have "\<exists>c \<in> set (claims db). lists_claim q c" if "q \<in> set (devices db')" for q
    using that ok(1) ok(1) [OF r(1)] same(1) unfolding ds by auto
  ultimately show ?thesis by (simp add: directory_ok_def core_simps cs)
qed

lemma device_change_admission:
  assumes "device_change x od current d db db'"
  shows "same_admission (core db) (core db')"
  using assms by (auto simp: device_change_def same_admission_def core_simps)

text \<open>The steps that touch neither Admission nor the directory.\<close>

definition aside :: "hub_db \<Rightarrow> hub_db \<Rightarrow> bool" where
  "aside db db' \<longleftrightarrow> (\<exists>ops es rs n. db' = db\<lparr>erase_operations := ops, erase_evidence := es,
     revocations := rs, id_draws := n\<rparr>)"

lemma asideI:
  "db' = db\<lparr>erase_operations := erase_operations db', erase_evidence := erase_evidence db',
     revocations := revocations db', id_draws := id_draws db'\<rparr> \<Longrightarrow> aside db db'"
  unfolding aside_def by blast

lemma aside_admission:
  "aside db db' \<Longrightarrow> same_admission (core db) (core db')"
  "aside db db' \<Longrightarrow> directory_ok (core db') = directory_ok (core db)"
  by (auto simp: aside_def same_admission_def directory_ok_def core_simps)

lemma aside_erase:
  "materialize_each x s ttl rows db = Inr (n, db') \<Longrightarrow> \<exists>ops. db' = db\<lparr>erase_operations := ops\<rparr>"
proof (induction rows arbitrary: db n)
  case Nil
  then show ?case by (auto intro: exI [of _ "erase_operations db"])
next
  case (Cons row rows)
  then obtain m k db1 where one: "materialize_one x s ttl row db = Inr (m, db1)"
    and rest: "materialize_each x s ttl rows db1 = Inr (k, db')" by (auto simp: ok_iff)
  from one have "\<exists>ops. db1 = db\<lparr>erase_operations := ops\<rparr>"
    by (cases rule: materialize_oneE) (auto intro: exI [of _ "erase_operations db"])
  with Cons.IH [OF rest] show ?case by fastforce
qed

lemma rearm_fields:
  assumes "rearm_lapsed s i now ttl db = Inr (o', db')"
  shows "\<exists>ops. db' = db\<lparr>erase_operations := ops\<rparr>"
proof -
  from assms obtain f where "db' = db \<or> db' = update_operation i f db"
    unfolding rearm_lapsed_def andthen_ok by (auto split: if_splits)
  then show ?thesis by (auto simp: update_operation_def intro: exI [of _ "erase_operations db"])
qed

lemma accept_fields:
  assumes "accept_delivery i attempt now db = Inr (o', db')"
  shows "\<exists>ops. db' = db\<lparr>erase_operations := ops\<rparr>"
proof -
  from assms obtain f where "db' = db \<or> db' = update_operation i f db"
    unfolding accept_delivery_def andthen_ok by (auto split: if_splits)
  then show ?thesis by (auto simp: update_operation_def intro: exI [of _ "erase_operations db"])
qed

lemma acknowledge_fields:
  assumes "acknowledge_erase x s now ack db = (db', Inr o')"
  shows "\<exists>ops es. db' = db\<lparr>erase_operations := ops, erase_evidence := es\<rparr>"
proof -
  from assms obtain fp where "apply_ack ack fp now db = Inr (o', db')" by (rule acknowledge_eraseE)
  then show ?thesis
  proof (cases rule: apply_ackE)
    case again
    then show ?thesis
      by (auto intro!: exI [of _ "erase_operations db"] exI [of _ "erase_evidence db"])
  next
    case new
    then show ?thesis by (auto simp: update_operation_def)
  qed
qed

lemma lifecycle_ok:
  assumes "lifecycle x au c c'" "keys_ok c" "admission_ok x au c"
  shows "admission_ok x au c'"
proof -
  from assms(1) have "keys_ok c' \<and> admission_ok x au c'"
  proof (induction rule: rtranclp_induct)
    case (step c1 c2)
    then show ?case by (blast intro: admission_ok_step step_keys)
  qed (use assms in simp)
  then show ?thesis ..
qed

lemma aside_hub_ok:
  assumes "aside db db'" "hub_ok x s au db" "erase_tx x s db db'"
  shows "hub_ok x s au db'"
proof -
  from assms(1) have "devices (core db') = devices (core db)" by (auto simp: aside_def core_simps)
  moreover from assms(2) have "distinct (map dv_device_id (devices (core db)))"
    by (simp add: hub_ok_def keys_defs)
  ultimately have "keys_ok (core db')"
    using assms aside_admission(1) [OF assms(1)] by (auto simp: hub_ok_def intro: same_admission_keys)
  moreover from assms have "admission_ok x au (core db')"
    using aside_admission(2) [OF assms(1)] same_admission_parts [OF aside_admission(1) [OF assms(1)]]
    by (simp add: hub_ok_def admission_ok_def)
  ultimately show ?thesis using assms(2,3) by (simp add: hub_ok_def erase_tx_def)
qed

lemma device_change_hub_ok:
  assumes "device_change x od current d db db'" "hub_ok x s au db" "erase_tx x s db db'"
  shows "hub_ok x s au db'"
proof -
  from assms(2) have "distinct (map dv_device_id (devices db))"
    by (simp add: hub_ok_def keys_defs core_simps)
  from upsert_device_keys [OF this] assms(1) have "distinct (map dv_device_id (devices (core db')))"
    by (simp add: device_change_def core_simps)
  with assms(2) have "keys_ok (core db')"
    by (auto simp: hub_ok_def intro: same_admission_keys device_change_admission [OF assms(1)])
  moreover from assms(2) have "directory_ok (core db')"
    by (auto simp: hub_ok_def admission_ok_def intro: device_change_directory [OF assms(1)])
  ultimately show ?thesis
    using assms(2,3) same_admission_ok [OF device_change_admission [OF assms(1)]]
    by (simp add: hub_ok_def erase_tx_def)
qed

lemma hub_step_ok:
  assumes "hub_step x s au od db db'" "hub_ok x s au db"
  shows "hub_ok x s au db'"
proof -
  from assms have tx: "erase_tx x s db db'" by (auto simp: hub_ok_def intro: hub_step_erase)
  note side = aside_hub_ok [OF asideI assms(2) tx]
  from assms(1) show ?thesis
  proof cases
    case (Admission pj rq)
    from assms(2) have k: "keys_ok (core db)" "admission_ok x au (core db)" by (simp_all add: hub_ok_def)
    have l: "lifecycle x au (core db) (core db')" unfolding Admission by (rule execute_commits [OF k(1)])
    from lifecycle_ok [OF l k] lifecycle_keys [OF l k(1)] tx assms(2) show ?thesis
      by (simp add: hub_ok_def erase_tx_def)
  next
    case (Materialize ttl n)
    then have "materialize_each x s ttl (revoked_events db) db = Inr (n, db')"
      by (simp add: materialize_claim_events_def ok_iff)
    with aside_erase show ?thesis by (intro side) fastforce
  next
    case (Rearm i now ttl o')
    with rearm_fields show ?thesis by (intro side) fastforce
  next
    case (Accept i attempt now o')
    with accept_fields show ?thesis by (intro side) fastforce
  next
    case (Acknowledge now ack o')
    with acknowledge_fields show ?thesis by (intro side) fastforce
  next
    case (Manifest a seen current accepted now i d)
    from device_change_hub_ok [OF commit_manifest_change(2) [OF Manifest(2)] assms(2) tx] show ?thesis .
  next
    case (Policy c ctx seen current p now i d)
    from device_change_hub_ok [OF commit_policy_change(2) [OF Policy(2)] assms(2) tx] show ?thesis .
  next
    case (Channel_events now n)
    with channel_fields(1) show ?thesis by (intro side) fastforce
  next
    case (Channel_terminal i st result now u)
    with channel_fields(2) show ?thesis by (intro side) fastforce
  next
    case (Channel_retry r rs now error u)
    with channel_fields(3) show ?thesis
      by (intro side) (fastforce simp: retry_revocation_def Let_def)
  qed (rule side; simp add: mark_accepted_pending_def expire_operations_def new_id_def)+
qed

lemma reachable_ok: "reachable x s au od db \<Longrightarrow> hub_ok x s au db"
  unfolding reachable_def
proof (induction rule: rtranclp_induct)
  case base
  have "erase_table_ok x s empty_db" by (simp add: erase_table_ok_def empty_db_def)
  then show ?case by (simp add: hub_ok_def keys_empty admission_ok_empty)
next
  case (step db db')
  then show ?case by (blast intro: hub_step_ok)
qed

lemma hub_steps_ledger:
  assumes "hub_steps x s au od db db'" "hub_ok x s au db"
  shows "ledger_moves db db'"
proof -
  from assms(1) have "hub_ok x s au db' \<and> ledger_moves db db'"
  proof (induction rule: rtranclp_induct)
    case (step db1 db2)
    then have "ledger_moves db1 db2"
      using hub_step_erase by (auto simp: hub_ok_def erase_tx_def)
    with step show ?case by (blast intro: hub_step_ok ledger_through)
  qed (simp add: assms(2) ledger_same)
  then show ?thesis ..
qed

end
