(* ===== verification/Channel_Binding.thy ===== *)
theory Channel_Binding
  imports Channel_Client Device_Repository
begin

text \<open>
  On-demand Channel bindings (\<open>ReconcileChannelBinding\<close> of
  \<open>hub/channel_reconciliation/application.py\<close>), and the sessions opened on the devices of one
  Owner (\<open>shared_selection.py\<close>, \<open>endpoint_preparation.py\<close>, \<open>role_groups.py\<close>,
  \<open>device_conversation.py\<close>).

  The state of the resolver is its \<open>refusals\<close>, the association list of an \<open>OrderedDict\<close> from
  the oldest key to the newest.  What the SDK's models print is the record \<open>channel_sdk\<close>.
\<close>

record channel_sdk =
  device_ref_json :: "device_ref \<Rightarrow> string"
  output_policy_json :: "output_policy \<Rightarrow> string"

section \<open>Resolution\<close>

record binding_problem =
  bp_code :: string
  bp_retryable :: bool
  bp_detail :: string

record binding_resolution =
  rn_channels :: "channel_binding list"
  rn_problem :: "binding_problem option"

definition no_binding :: binding_resolution where
  "no_binding = \<lparr>rn_channels = [], rn_problem = None\<rparr>"

definition bound_to :: "channel_binding list \<Rightarrow> binding_resolution" where
  "bound_to cs = \<lparr>rn_channels = cs, rn_problem = None\<rparr>"

definition binding_refused :: "binding_problem \<Rightarrow> binding_resolution" where
  "binding_refused p = \<lparr>rn_channels = [], rn_problem = Some p\<rparr>"

definition invalid_manifest :: "string \<Rightarrow> binding_problem" where
  "invalid_manifest d = \<lparr>bp_code = ''INVALID_MANIFEST'', bp_retryable = False, bp_detail = d\<rparr>"

definition policy_needed :: binding_problem where
  "policy_needed = \<lparr>bp_code = ''OUTPUT_POLICY_REQUIRED'', bp_retryable = False,
     bp_detail = ''Ask the Owner to choose this device's input and output permissions.''\<rparr>"

definition unreadable_exchange :: binding_problem where
  "unreadable_exchange = \<lparr>bp_code = ''INVALID_PROVIDER_RESPONSE'', bp_retryable = False,
     bp_detail = ''The Channel Provider returned an unreadable binding.''\<rparr>"

type_synonym refusals = "(string \<times> string \<times> binding_problem) list"

fun join_nul :: "string list \<Rightarrow> string" where
  "join_nul [] = []"
| "join_nul [v] = v"
| "join_nul (v # vs) = v @ [CHR 0x00] @ join_nul vs"

definition channel_operation_id :: "external \<Rightarrow> string \<Rightarrow> string list \<Rightarrow> string" where
  "channel_operation_id x prefix values =
     prefix @ ''-'' @ take 48 (sha256_hex x (join_nul values))"

definition policy_number :: "managed_device \<Rightarrow> int" where
  "policy_number d = (case md_output_policy d of None \<Rightarrow> 0 | Some p \<Rightarrow> op_revision p)"

definition binding_fingerprint ::
  "external \<Rightarrow> channel_sdk \<Rightarrow> device_ref \<Rightarrow> managed_device \<Rightarrow> string \<Rightarrow> string \<Rightarrow> string" where
  "binding_fingerprint x cs ref d owner host =
     channel_operation_id x ''binding-inputs''
       [device_ref_json cs ref, document_digest (md_manifest d),
        str_int (declared_revision (md_manifest d)), owner,
        (case md_output_policy d of None \<Rightarrow> '''' | Some p \<Rightarrow> output_policy_json cs p), host]"

definition provision_operation_id ::
  "external \<Rightarrow> channel_sdk \<Rightarrow> device_ref \<Rightarrow> managed_device \<Rightarrow> string" where
  "provision_operation_id x cs ref d =
     channel_operation_id x ''channel-provision''
       [device_ref_json cs ref, document_digest (md_manifest d), str_int (policy_number d)]"

definition refresh_operation_id ::
  "external \<Rightarrow> current_binding \<Rightarrow> managed_device \<Rightarrow> string" where
  "refresh_operation_id x current d =
     channel_operation_id x ''channel-refresh''
       [cu_operation_id current, str_int (cb_expires_at_ms (hd (cu_channels current))),
        document_digest (md_manifest d), str_int (declared_revision (md_manifest d)),
        str_int (policy_number d)]"

definition binding_values ::
  "device_ref \<Rightarrow> managed_device \<Rightarrow> string \<Rightarrow> json \<Rightarrow> string \<Rightarrow> binding_request" where
  "binding_values ref d owner manifest host =
     \<lparr>br_device_ref = ref, br_owner_id = owner, br_display_name = md_display_name d,
      br_manifest_id = md_manifest_id d, br_manifest = manifest,
      br_manifest_revision = document_digest (md_manifest d),
      br_output_policy = md_output_policy d, br_observed_host_address = host\<rparr>"

text \<open>\<open>_unexpired\<close>; \<open>channels[0]\<close> of an empty tuple raises \<open>IndexError\<close>.\<close>

definition unexpired :: "channel_binding list \<Rightarrow> int \<Rightarrow> exn + channel_binding list" where
  "unexpired channels now_ms =
     (case channels of
        [] \<Rightarrow> Inl (Other_error ''IndexError'')
      | c # _ \<Rightarrow>
          if cb_expires_at_ms c \<le> now_ms
          then Inl (provider_error ''EXPIRED_PROVIDER_BINDING'' True
                      ''Provider returned expired credentials'')
          else Inr channels)"

text \<open>The body of the \<open>try\<close>: what it answers, and what it asked of the Provider, in order.\<close>

datatype provider_call =
  Asked_current
| Asked_provision string
| Asked_refresh string

definition still_good :: "current_binding \<Rightarrow> managed_device \<Rightarrow> int \<Rightarrow> bool" where
  "still_good current d now_ms \<longleftrightarrow>
     \<not> cu_refresh_required current \<and> now_ms < cb_expires_at_ms (hd (cu_channels current))
     \<and> cu_manifest_revision current = document_digest (md_manifest d)
     \<and> cu_output_policy current = md_output_policy d"

definition ask_provider ::
  "external \<Rightarrow> channel_sdk \<Rightarrow> transport \<Rightarrow> int \<Rightarrow> managed_device \<Rightarrow> binding_request \<Rightarrow>
   provider_call list \<times> (exn + channel_binding list)" where
  "ask_provider x cs tr now_ms d v =
     (let ref = br_device_ref v in
      case client_current tr ref of
        Inl e \<Rightarrow> ([Asked_current], Inl e)
      | Inr None \<Rightarrow>
          (let i = provision_operation_id x cs ref d
           in ([Asked_current, Asked_provision i],
               andthen (client_provision tr i v) (\<lambda>cs. unexpired cs now_ms)))
      | Inr (Some current) \<Rightarrow>
          if still_good current d now_ms then ([Asked_current], Inr (cu_channels current))
          else (let i = refresh_operation_id x current d
                in ([Asked_current, Asked_refresh i],
                    andthen (client_refresh tr i v) (\<lambda>cs. unexpired cs now_ms))))"

text \<open>The exceptions of the second handler: \<open>ValueError\<close>, \<open>IndexError\<close> and \<open>KeyError\<close>.\<close>

fun unreadable_error :: "exn \<Rightarrow> bool" where
  "unreadable_error (Value_error _) = True"
| "unreadable_error (Key_error _) = True"
| "unreadable_error (Erase_idempotency_conflict _) = True"
| "unreadable_error (Erase_generation_conflict _) = True"
| "unreadable_error (Manifest_revision_conflict _) = True"
| "unreadable_error (Output_policy_conflict _) = True"
| "unreadable_error (Concurrent_mutation _) = True"
| "unreadable_error (Other_error n) = (n = ''IndexError'')"
| "unreadable_error _ = False"

text \<open>\<open>self._refusals[key] = ...\<close> after the key was popped, and the bound of 1024 entries.\<close>

definition forget_refusal :: "string \<Rightarrow> refusals \<Rightarrow> refusals" where
  "forget_refusal i rf = filter (\<lambda>(k, _). k \<noteq> i) rf"

definition retain_refusal :: "string \<Rightarrow> string \<Rightarrow> binding_problem \<Rightarrow> refusals \<Rightarrow> refusals" where
  "retain_refusal i fp p rf =
     (let rf' = rf @ [(i, fp, p)] in if 1024 < length rf' then tl rf' else rf')"

definition policy_missing ::
  "device_sdk \<Rightarrow> managed_device \<Rightarrow> json \<Rightarrow> exn + bool" where
  "policy_missing s d manifest =
     (if md_output_policy d \<noteq> None then Inr False
      else andthen (manifest_outputs s manifest) (\<lambda>outputs. output_policy_required s outputs manifest))"

fun declaration_error :: "exn \<Rightarrow> bool" where
  "declaration_error (Type_error _) = True"
| "declaration_error (Key_error _) = False"
| "declaration_error (Other_error _) = False"
| "declaration_error e = unreadable_error e"

definition cached_refusal :: "string \<Rightarrow> string \<Rightarrow> refusals \<Rightarrow> binding_problem option" where
  "cached_refusal i fp rf =
     (case map_of rf i of
        Some (fp', problem) \<Rightarrow> if fp' = fp then Some problem else None
      | None \<Rightarrow> None)"

text \<open>The two exception handlers.\<close>

definition provider_refusal ::
  "string \<Rightarrow> string \<Rightarrow> exn \<Rightarrow> refusals \<Rightarrow> refusals \<times> (exn + binding_resolution)" where
  "provider_refusal i fp e rf =
     (case e of
        Provider_error c retry d \<Rightarrow>
          (let problem = \<lparr>bp_code = c, bp_retryable = retry, bp_detail = d\<rparr>
           in (if retry then rf else retain_refusal i fp problem rf, Inr (binding_refused problem)))
      | _ \<Rightarrow>
          if unreadable_error e
          then (retain_refusal i fp unreadable_exchange rf, Inr (binding_refused unreadable_exchange))
          else (rf, Inl e))"

definition resolve_device ::
  "external \<Rightarrow> device_sdk \<Rightarrow> channel_sdk \<Rightarrow> transport \<Rightarrow> int \<Rightarrow> device_ref \<Rightarrow> string \<Rightarrow> managed_device \<Rightarrow>
   string \<Rightarrow> refusals \<Rightarrow> refusals \<times> provider_call list \<times> (exn + binding_resolution)" where
  "resolve_device x s cs tr now_ms ref host d owner rf =
     (case json_loads x (canonical_json (md_manifest d)) of
        Some (JObj entries) \<Rightarrow>
          (case policy_missing s d (JObj entries) of
             Inl e \<Rightarrow>
               (rf, [], if declaration_error e
                        then Inr (binding_refused (invalid_manifest
                               ''The accepted Manifest has unreadable output declarations.''))
                        else Inl e)
           | Inr True \<Rightarrow> (rf, [], Inr (binding_refused policy_needed))
           | Inr False \<Rightarrow>
               (let i = device_instance_id ref; fp = binding_fingerprint x cs ref d owner host
                in case cached_refusal i fp rf of
                     Some problem \<Rightarrow> (rf, [], Inr (binding_refused problem))
                   | None \<Rightarrow>
                       (case ask_provider x cs tr now_ms d
                               (binding_values ref d owner (JObj entries) host) of
                          (calls, Inr channels) \<Rightarrow>
                            (forget_refusal i rf, calls, Inr (bound_to channels))
                        | (calls, Inl e) \<Rightarrow>
                            (case provider_refusal i fp e (forget_refusal i rf) of
                               (rf', r) \<Rightarrow> (rf', calls, r)))))
      | _ \<Rightarrow> (rf, [], Inr (binding_refused (invalid_manifest
               ''The accepted Manifest must be a JSON object.''))))"

definition resolve_binding ::
  "external \<Rightarrow> device_sdk \<Rightarrow> channel_sdk \<Rightarrow> string \<Rightarrow> hub_db \<Rightarrow> transport \<Rightarrow> int \<Rightarrow> device_ref \<Rightarrow> string \<Rightarrow>
   refusals \<Rightarrow> refusals \<times> provider_call list \<times> (exn + binding_resolution)" where
  "resolve_binding x s cs od db tr now_ms ref host rf =
     (case get_device x od db (device_instance_id ref) of
        Inl e \<Rightarrow> (rf, [], Inl e)
      | Inr None \<Rightarrow> (rf, [], Inr no_binding)
      | Inr (Some d) \<Rightarrow>
          if md_device_ref d = Some ref \<and> md_lifecycle_state d = Device_approved
          then (case md_owner_id d of
                  None \<Rightarrow> (rf, [], Inr no_binding)
                | Some owner \<Rightarrow> resolve_device x s cs tr now_ms ref host d owner rf)
          else (rf, [], Inr no_binding))"

text \<open>\<open>execute\<close>: the channels alone, with no observed address by default.\<close>

definition execute_binding ::
  "external \<Rightarrow> device_sdk \<Rightarrow> channel_sdk \<Rightarrow> string \<Rightarrow> hub_db \<Rightarrow> transport \<Rightarrow> int \<Rightarrow> device_ref \<Rightarrow>
   refusals \<Rightarrow> refusals \<times> (exn + channel_binding list)" where
  "execute_binding x s cs od db tr now_ms ref rf =
     (case resolve_binding x s cs od db tr now_ms ref '''' rf of
        (rf', _, Inl e) \<Rightarrow> (rf', Inl e)
      | (rf', _, Inr r) \<Rightarrow> (rf', Inr (rn_channels r)))"

section \<open>Sessions on the devices of one Owner\<close>

definition owns_device ::
  "actor_context \<Rightarrow> device_ref \<Rightarrow> managed_device \<Rightarrow> bool" where
  "owns_device ctx ref d \<longleftrightarrow>
     md_owner_id d = Some (ctx_business_owner_id ctx)
     \<and> md_owner_domain_id d = ctx_owner_domain_id ctx
     \<and> md_lifecycle_state d = Device_approved \<and> md_device_ref d = Some ref"

definition outside_lifecycle :: exn where
  "outside_lifecycle = Permission_error ''selected device is outside current Owner lifecycle''"

fun owned_devices ::
  "external \<Rightarrow> string \<Rightarrow> hub_db \<Rightarrow> actor_context \<Rightarrow> device_ref list \<Rightarrow> exn + managed_device list" where
  "owned_devices x od db ctx [] = Inr []"
| "owned_devices x od db ctx (ref # refs) =
     andthen (get_device x od db (device_instance_id ref)) (\<lambda>found.
     andthen (present found outside_lifecycle) (\<lambda>d.
     andthen (require (owns_device ctx ref d) outside_lifecycle) (\<lambda>_.
     andthen (owned_devices x od db ctx refs) (\<lambda>ds. Inr (d # ds)))))"

text \<open>The second loop of both callers: a channel for each endpoint, or the problem named.\<close>

fun prepare_channels ::
  "external \<Rightarrow> device_sdk \<Rightarrow> channel_sdk \<Rightarrow> string \<Rightarrow> hub_db \<Rightarrow> transport \<Rightarrow> int \<Rightarrow> string \<Rightarrow>
   device_ref list \<Rightarrow> refusals \<Rightarrow> refusals \<times> (exn + unit)" where
  "prepare_channels x s cs od db tr now_ms problem [] rf = (rf, Inr ())"
| "prepare_channels x s cs od db tr now_ms problem (ref # refs) rf =
     (case execute_binding x s cs od db tr now_ms ref rf of
        (rf1, Inl e) \<Rightarrow> (rf1, Inl e)
      | (rf1, Inr channels) \<Rightarrow>
          if channels = [] then (rf1, Inl (provider_error problem True ''''))
          else prepare_channels x s cs od db tr now_ms problem refs rf1)"

definition prepare_owned_endpoints ::
  "external \<Rightarrow> device_sdk \<Rightarrow> channel_sdk \<Rightarrow> string \<Rightarrow> hub_db \<Rightarrow> transport \<Rightarrow> int \<Rightarrow> actor_context \<Rightarrow>
   device_ref list \<Rightarrow> refusals \<Rightarrow> refusals \<times> (exn + unit)" where
  "prepare_owned_endpoints x s cs od db tr now_ms ctx refs rf =
     (case owned_devices x od db ctx refs of
        Inl e \<Rightarrow> (rf, Inl e)
      | Inr _ \<Rightarrow> prepare_channels x s cs od db tr now_ms ''DEVICE_CHANNEL_NOT_READY'' refs rf)"

definition device_conversation_scope :: string where
  "device_conversation_scope = ''device.conversation.control''"

definition shared_session_scope :: string where
  "shared_session_scope = ''device.shared-session.control''"

text \<open>\<open>open\<close> of a role group and of a device conversation; \<open>ask\<close> is the Provider's method.\<close>

definition open_session ::
  "external \<Rightarrow> device_sdk \<Rightarrow> channel_sdk \<Rightarrow> string \<Rightarrow> hub_db \<Rightarrow> transport \<Rightarrow> int \<Rightarrow>
   (string \<Rightarrow> string \<Rightarrow> string \<Rightarrow> session_selection option \<Rightarrow> exn + json) \<Rightarrow>
   session_selection \<Rightarrow> actor_context \<Rightarrow> refusals \<Rightarrow> refusals \<times> (exn + json)" where
  "open_session x s cs od db tr now_ms ask selection ctx rf =
     (case require_scope ctx device_conversation_scope of
        Inl e \<Rightarrow> (rf, Inl e)
      | Inr _ \<Rightarrow>
          (case prepare_owned_endpoints x s cs od db tr now_ms ctx (ss_devices selection) rf of
             (rf1, Inl e) \<Rightarrow> (rf1, Inl e)
           | (rf1, Inr _) \<Rightarrow>
               (rf1, ask ''open'' (ctx_business_owner_id ctx) (ss_session_id selection)
                       (Some selection))))"

definition inspect_session ::
  "(string \<Rightarrow> string \<Rightarrow> string \<Rightarrow> session_selection option \<Rightarrow> exn + json) \<Rightarrow> string \<Rightarrow>
   actor_context \<Rightarrow> bool \<Rightarrow> exn + json" where
  "inspect_session ask session_id ctx close =
     andthen (require_scope ctx device_conversation_scope) (\<lambda>_.
     ask (if close then ''close'' else ''status'') (ctx_business_owner_id ctx) session_id None)"

fun specifications :: "external \<Rightarrow> managed_device list \<Rightarrow> exn + shared_specification list" where
  "specifications x [] = Inr []"
| "specifications x (d # ds) =
     andthen (present (json_loads x (canonical_json (md_manifest d)))
                (Value_error ''JSONDecodeError'')) (\<lambda>manifest.
     andthen (case manifest of
                JObj entries \<Rightarrow> Inr ()
              | _ \<Rightarrow> Inl (Value_error ''accepted Manifest must be an object'')) (\<lambda>_.
     andthen (specifications x ds) (\<lambda>specs.
     Inr (\<lparr>sh_device_ref = md_device_ref d,
           sh_device = channel_device_payload (case md_owner_id d of Some i \<Rightarrow> i | None \<Rightarrow> '''')
             (md_display_name d) (md_manifest_id d) manifest (document_digest (md_manifest d))
             (md_output_policy d)\<rparr> # specs))))"

definition resolve_shared ::
  "external \<Rightarrow> string \<Rightarrow> hub_db \<Rightarrow> session_selection \<Rightarrow> actor_context \<Rightarrow>
   exn + string \<times> shared_specification list" where
  "resolve_shared x od db selection ctx =
     andthen (require_scope ctx shared_session_scope) (\<lambda>_.
     andthen (owned_devices x od db ctx (ss_devices selection)) (\<lambda>ds.
     andthen (specifications x ds) (\<lambda>specs. Inr (ctx_business_owner_id ctx, specs))))"

definition open_shared ::
  "external \<Rightarrow> device_sdk \<Rightarrow> channel_sdk \<Rightarrow> string \<Rightarrow> hub_db \<Rightarrow> transport \<Rightarrow> int \<Rightarrow>
   session_selection \<Rightarrow> actor_context \<Rightarrow> refusals \<Rightarrow> refusals \<times> (exn + string \<times> string list)" where
  "open_shared x s cs od db tr now_ms selection ctx rf =
     (case resolve_shared x od db selection ctx of
        Inl e \<Rightarrow> (rf, Inl e)
      | Inr (owner, specs) \<Rightarrow>
          (case prepare_channels x s cs od db tr now_ms ''SHARED_CHANNEL_NOT_READY''
                  (ss_devices selection) rf of
             (rf1, Inl e) \<Rightarrow> (rf1, Inl e)
           | (rf1, Inr _) \<Rightarrow> (rf1, client_open_shared tr selection owner specs)))"

definition close_shared ::
  "transport \<Rightarrow> string \<Rightarrow> actor_context \<Rightarrow> exn + string" where
  "close_shared tr session_id ctx =
     andthen (require_scope ctx shared_session_scope) (\<lambda>_.
     client_close_shared tr session_id (ctx_business_owner_id ctx))"

end
