(* ===== verification/Device_Control_Http.thy ===== *)
theory Device_Control_Http
  imports Device_Control Channel_Binding
begin

text \<open>
  The HTTP surface of Device Control (\<open>hub/device_control/http.py\<close>, \<open>output_policy_http.py\<close>,
  \<open>conversation_errors.py\<close> and the session routers): which answer each outcome of a use case
  becomes.

  The pydantic shape of a request is checked by the framework before a route runs; the routes
  here start from the parsed values.  The signed credential is read by the SDK, a parameter.
\<close>

datatype 'a reply =
  Answered int 'a
| Refused int string
| Provider_refused int string bool
| Problem_reply problem
| Failed exn

section \<open>Where this Host was reached\<close>

record ip_facts =
  ip_text :: string
  is_loopback :: bool
  is_link_local :: bool
  is_unspecified :: bool
  is_multicast :: bool

text \<open>\<open>ipaddress.ip_address\<close> of a text, or nothing where it raises \<open>ValueError\<close>.\<close>

type_synonym ip_parser = "string \<Rightarrow> ip_facts option"

definition usable_address :: "ip_parser \<Rightarrow> string option \<Rightarrow> string" where
  "usable_address ip value =
     (case value of
        None \<Rightarrow> ''''
      | Some text \<Rightarrow>
          (case ip text of
             None \<Rightarrow> ''''
           | Some a \<Rightarrow>
               if is_loopback a \<or> is_link_local a \<or> is_unspecified a \<or> is_multicast a
               then '''' else ip_text a))"

text \<open>The header the ingress sets, else the local end of the connection.\<close>

definition observed_host_address :: "ip_parser \<Rightarrow> string option \<Rightarrow> string option \<Rightarrow> string" where
  "observed_host_address ip header server =
     (let stated = usable_address ip header
      in if stated \<noteq> [] then stated else usable_address ip server)"

section \<open>Configuration and Manifest\<close>

fun device_proof_rejected :: "exn \<Rightarrow> bool" where
  "device_proof_rejected (Permission_error _) = True"
| "device_proof_rejected (Erase_contract_error _) = True"
| "device_proof_rejected _ = False"

record configuration_result =
  cq_nonce :: string
  cq_device_ref :: device_ref
  cq_lifecycle_state :: string
  cq_manifest :: "manifest_ref option"
  cq_output_policy :: "output_policy option"
  cq_channels :: "channel_binding list"
  cq_channel_problem :: "binding_problem option"

definition pull_configuration_route ::
  "external \<Rightarrow> device_sdk \<Rightarrow> channel_sdk \<Rightarrow> string \<Rightarrow> hub_db \<Rightarrow> transport \<Rightarrow> int \<Rightarrow> string \<Rightarrow>
   device_ref \<Rightarrow> string \<Rightarrow> string \<Rightarrow> string \<Rightarrow> refusals \<Rightarrow> refusals \<times> configuration_result reply" where
  "pull_configuration_route x s cs od db tr now_ms host ref key nonce signature rf =
     (case pull_configuration x s od db ref key nonce signature of
        Inl (Key_error _) \<Rightarrow> (rf, Refused 409 ''STALE_GENERATION'')
      | Inl e \<Rightarrow> (rf, if device_proof_rejected e then Refused 403 ''device proof rejected''
                      else Failed e)
      | Inr cfg \<Rightarrow>
          (let claim = cfg_claim cfg;
               result = (\<lambda>b. Answered 200
                 \<lparr>cq_nonce = nonce, cq_device_ref = cj_device_ref claim,
                  cq_lifecycle_state = (if cj_state claim = Active then ''approved'' else ''revoked''),
                  cq_manifest = cfg_manifest cfg, cq_output_policy = cfg_output_policy cfg,
                  cq_channels = rn_channels b, cq_channel_problem = rn_problem b\<rparr>)
           in if cj_state claim \<notin> {Active, Revoked} then (rf, Refused 409 ''CLAIM_NOT_ACTIVE'')
              else if cj_state claim = Active
              then (case resolve_binding x s cs od db tr now_ms (cj_device_ref claim) host rf of
                      (rf', _, Inl e) \<Rightarrow> (rf', Failed e)
                    | (rf', _, Inr b) \<Rightarrow> (rf', result b))
              else (rf, result no_binding)))"

definition assert_manifest_route ::
  "external \<Rightarrow> device_sdk \<Rightarrow> string \<Rightarrow> instant \<Rightarrow> instant \<Rightarrow> manifest_assertion \<Rightarrow>
   hub_db \<times> directory \<Rightarrow> (hub_db \<times> directory) \<times> manifest_acceptance reply" where
  "assert_manifest_route x s od now replied_at a st =
     (case accept_manifest x s od now replied_at a st of
        (st', Inr r) \<Rightarrow> (st', Answered 200 r)
      | (st', Inl (Key_error _)) \<Rightarrow> (st', Refused 409 ''CLAIM_NOT_ACTIVE'')
      | (st', Inl (Manifest_revision_conflict _)) \<Rightarrow>
          (st', Refused 409 ''MANIFEST_REVISION_CONFLICT'')
      | (st', Inl e) \<Rightarrow> (st', if device_proof_rejected e then Refused 403 ''device proof rejected''
                              else Failed e))"

section \<open>Erase operations\<close>

text \<open>The reconcile pass runs before the \<open>try\<close>; what it raises is not mapped.\<close>

record deliver_envelope =
  dl_delivery_attempt_id :: string
  dl_message_id :: string
  dl_device_ref :: device_ref
  dl_deadline :: instant
  dl_payload :: erase_command

definition pull_operation_route ::
  "external \<Rightarrow> device_sdk \<Rightarrow> int \<Rightarrow> instant \<Rightarrow> instant \<Rightarrow> instant \<Rightarrow> device_ref \<Rightarrow> string \<Rightarrow> string \<Rightarrow>
   string \<Rightarrow> hub_db \<Rightarrow> hub_db \<times> deliver_envelope option reply" where
  "pull_operation_route x s ttl t0 now accepted_at ref key nonce signature db =
     (case reconcile_erase x s ttl t0 db of
        (db1, Inl e) \<Rightarrow> (db1, Failed e)
      | (db1, Inr _) \<Rightarrow>
          (case pull_erase x s ttl now accepted_at ref key nonce signature db1 of
             (db2, Inl e) \<Rightarrow>
               (db2, if device_proof_rejected e then Refused 403 ''device proof rejected''
                     else Failed e)
           | (db2, Inr None) \<Rightarrow> (db2, Answered 204 None)
           | (db2, Inr (Some d)) \<Rightarrow>
               (db2, Answered 200 (Some
                 \<lparr>dl_delivery_attempt_id = ed_delivery_attempt_id d,
                  dl_message_id = ec_operation_id (ed_command d),
                  dl_device_ref = ec_device_ref (ed_command d),
                  dl_deadline = ec_deadline (ed_command d), dl_payload = ed_command d\<rparr>))))"

definition erase_ack_schema :: string where
  "erase_ack_schema =
     ''https://contracts.eidolon.live/device-foundation/v1/device-control/schemas.schema.json#/$defs/DeviceLocalEraseAck''"

text \<open>The evidence envelope; its payload is the ACK, or no readable ACK at all.\<close>

record evidence_envelope =
  ee_message_id :: string
  ee_payload_schema :: string
  ee_device_ref :: device_ref
  ee_delivery_attempt_id :: string
  ee_payload :: "erase_ack option"

definition acknowledge_checks ::
  "hub_db \<Rightarrow> string \<Rightarrow> evidence_envelope \<Rightarrow> exn + erase_ack" where
  "acknowledge_checks db operation_id ev =
     andthen (present (ee_payload ev) (Value_error ''ValidationError'')) (\<lambda>payload.
     andthen (require (ak_operation_id payload = operation_id
                       \<and> ak_device_ref payload = ee_device_ref ev)
       (Erase_generation_conflict ''evidence and nested ACK DeviceRef differ'')) (\<lambda>_.
     andthen (present (ledger_get db operation_id) (Key_error operation_id)) (\<lambda>o'.
     andthen (require (ec_device_ref (eo_command o') = ee_device_ref ev
                       \<and> eo_delivery_attempt_id o' = Some (ee_delivery_attempt_id ev))
       (Erase_generation_conflict ''evidence is not bound to the accepted Delivery attempt''))
       (\<lambda>_. Inr payload))))"

fun acknowledge_refusal :: "exn \<Rightarrow> string reply" where
  "acknowledge_refusal (Key_error _) = Refused 404 ''operation not found''"
| "acknowledge_refusal (Erase_generation_conflict _) = Refused 409 ''STALE_GENERATION''"
| "acknowledge_refusal (Erase_idempotency_conflict _) = Refused 409 ''IDEMPOTENCY_CONFLICT''"
| "acknowledge_refusal (Permission_error _) = Refused 403 ''device ACK signature rejected''"
| "acknowledge_refusal (Erase_contract_error _) = Refused 403 ''device ACK signature rejected''"
| "acknowledge_refusal (Value_error _) = Refused 422 ''invalid device ACK evidence''"
| "acknowledge_refusal (Manifest_revision_conflict _) = Refused 422 ''invalid device ACK evidence''"
| "acknowledge_refusal (Output_policy_conflict _) = Refused 422 ''invalid device ACK evidence''"
| "acknowledge_refusal (Concurrent_mutation _) = Refused 422 ''invalid device ACK evidence''"
| "acknowledge_refusal e = Failed e"

definition acknowledge_route ::
  "external \<Rightarrow> device_sdk \<Rightarrow> instant \<Rightarrow> string \<Rightarrow> evidence_envelope \<Rightarrow> hub_db \<Rightarrow> hub_db \<times> string reply" where
  "acknowledge_route x s received_at operation_id ev db =
     (if ee_message_id ev \<noteq> operation_id \<or> ee_payload_schema ev \<noteq> erase_ack_schema
      then (db, Refused 422 ''path and ACK operation_id differ'')
      else (case acknowledge_checks db operation_id ev of
              Inl e \<Rightarrow> (db, acknowledge_refusal e)
            | Inr ack \<Rightarrow>
                (case acknowledge_erase x s received_at ack db of
                   (db', Inl e) \<Rightarrow> (db', acknowledge_refusal e)
                 | (db', Inr _) \<Rightarrow> (db', Answered 200 (ee_delivery_attempt_id ev)))))"

section \<open>Erase status\<close>

record erase_credential =
  rc_scopes :: "string list"
  rc_target_device_ref :: "device_ref option"

text \<open>\<open>read_admission_credential\<close>: a credential, or the text of its error.\<close>

type_synonym credential_reader = "string \<Rightarrow> string + erase_credential"

definition authorize_exact_status ::
  "credential_reader \<Rightarrow> string \<Rightarrow> device_ref \<Rightarrow> exn + unit" where
  "authorize_exact_status read authorization ref =
     andthen (case read authorization of
                Inl e \<Rightarrow> Inl (Permission_error e) | Inr c \<Rightarrow> Inr c) (\<lambda>c.
     andthen (require (''device.claim.revoke'' \<in> set (rc_scopes c))
       (Permission_error ''credential lacks device.claim.revoke scope'')) (\<lambda>_.
     andthen (require (rc_target_device_ref c \<noteq> None)
       (Permission_error ''credential authorizes no device'')) (\<lambda>_.
     require (rc_target_device_ref c = Some ref)
       (Permission_error ''credential authorizes another device or generation''))))"

fun status_refusal :: "exn \<Rightarrow> erase_status reply" where
  "status_refusal (Key_error _) = Refused 404 ''operation not found''"
| "status_refusal (Permission_error _) = Refused 403 ''forbidden''"
| "status_refusal e = Failed e"

definition status_by_source_event_route ::
  "external \<Rightarrow> device_sdk \<Rightarrow> int \<Rightarrow> instant \<Rightarrow> credential_reader \<Rightarrow> string \<Rightarrow> string \<Rightarrow> device_ref \<Rightarrow>
   hub_db \<Rightarrow> hub_db \<times> erase_status reply" where
  "status_by_source_event_route x s ttl t0 read authorization event_id ref db =
     (case reconcile_erase x s ttl t0 db of
        (db1, Inl e) \<Rightarrow> (db1, Failed e)
      | (db1, Inr _) \<Rightarrow>
          (db1, case andthen (authorize_exact_status read authorization ref) (\<lambda>_.
                     present (get_by_source_event db1 event_id ref) (Key_error event_id)) of
                  Inl e \<Rightarrow> status_refusal e
                | Inr o' \<Rightarrow> Answered 200 (operation_status o')))"

definition status_route ::
  "external \<Rightarrow> device_sdk \<Rightarrow> int \<Rightarrow> instant \<Rightarrow> credential_reader \<Rightarrow> string \<Rightarrow> string \<Rightarrow> string \<Rightarrow>
   string \<Rightarrow> hub_db \<Rightarrow> hub_db \<times> erase_status reply" where
  "status_route x s ttl t0 read authorization owner device operation_id db =
     (case reconcile_erase x s ttl t0 db of
        (db1, Inl e) \<Rightarrow> (db1, Failed e)
      | (db1, Inr _) \<Rightarrow>
          (db1, case andthen (present (ledger_get db1 operation_id) (Key_error operation_id)) (\<lambda>o'.
                     let ref = ec_device_ref (eo_command o')
                     in andthen (require (ref_owner_domain_id ref = owner
                                          \<and> device_instance_id ref = device)
                                   (Key_error operation_id)) (\<lambda>_.
                        andthen (authorize_exact_status read authorization ref) (\<lambda>_. Inr o'))) of
                  Inl e \<Rightarrow> status_refusal e
                | Inr o' \<Rightarrow> Answered 200 (operation_status o')))"

section \<open>Output policy and sessions\<close>

text \<open>\<open>actor_provider(request)\<close> reads the Controller's credential, or raises.\<close>

fun policy_refusal :: "exn \<Rightarrow> 'a reply" where
  "policy_refusal (Admission_problem p) = Problem_reply p"
| "policy_refusal (Key_error _) = Refused 404 ''device not found''"
| "policy_refusal (Permission_error t) = Refused 403 t"
| "policy_refusal (Output_policy_conflict t) = Refused 409 t"
| "policy_refusal (Concurrent_mutation t) = Refused 409 t"
| "policy_refusal e = Failed e"

definition update_policy_route ::
  "external \<Rightarrow> device_sdk \<Rightarrow> string \<Rightarrow> (device_ref \<Rightarrow> hub_db \<Rightarrow> exn + unit) option \<Rightarrow> instant \<Rightarrow>
   exn + actor_context \<Rightarrow> set_output_policy \<Rightarrow> hub_db \<Rightarrow> hub_db \<times> output_policy reply" where
  "update_policy_route x s od on_changed now who c db =
     (case who of
        Inl e \<Rightarrow> (db, policy_refusal e)
      | Inr ctx \<Rightarrow>
          (case update_output_policy x s od on_changed now c ctx db of
             (db', Inl e) \<Rightarrow> (db', policy_refusal e)
           | (db', Inr p) \<Rightarrow> (db', Answered 202 p)))"

definition read_policy_route ::
  "external \<Rightarrow> device_sdk \<Rightarrow> string \<Rightarrow> exn + actor_context \<Rightarrow> device_ref \<Rightarrow> hub_db \<Rightarrow>
   output_configuration reply" where
  "read_policy_route x s od who ref db =
     (case andthen who (read_output_configuration x s od db ref) of
        Inl e \<Rightarrow> policy_refusal e
      | Inr c \<Rightarrow> Answered 200 c)"

fun session_refusal :: "exn \<Rightarrow> 'a reply" where
  "session_refusal (Admission_problem p) = Problem_reply p"
| "session_refusal (Permission_error t) = Refused 403 t"
| "session_refusal (Provider_error c retry t) = Provider_refused (if retry then 503 else 409) c retry"
| "session_refusal e = Failed e"

text \<open>\<open>answer\<close> of \<open>conversation_errors.py\<close> around a call on the resolver's refusals.\<close>

definition session_answer ::
  "exn + actor_context \<Rightarrow> (actor_context \<Rightarrow> refusals \<Rightarrow> refusals \<times> (exn + 'a)) \<Rightarrow> refusals \<Rightarrow>
   refusals \<times> 'a reply" where
  "session_answer who call rf =
     (case who of
        Inl e \<Rightarrow> (rf, session_refusal e)
      | Inr ctx \<Rightarrow>
          (case call ctx rf of
             (rf', Inl e) \<Rightarrow> (rf', session_refusal e)
           | (rf', Inr v) \<Rightarrow> (rf', Answered 200 v)))"

definition open_role_group_route ::
  "external \<Rightarrow> device_sdk \<Rightarrow> channel_sdk \<Rightarrow> string \<Rightarrow> hub_db \<Rightarrow> transport \<Rightarrow> int \<Rightarrow>
   exn + actor_context \<Rightarrow> session_selection \<Rightarrow> refusals \<Rightarrow> refusals \<times> json reply" where
  "open_role_group_route x s cs od db tr now_ms who selection =
     session_answer who (open_session x s cs od db tr now_ms (client_role_group tr) selection)"

definition open_conversation_route ::
  "external \<Rightarrow> device_sdk \<Rightarrow> channel_sdk \<Rightarrow> string \<Rightarrow> hub_db \<Rightarrow> transport \<Rightarrow> int \<Rightarrow>
   exn + actor_context \<Rightarrow> session_selection \<Rightarrow> refusals \<Rightarrow> refusals \<times> json reply" where
  "open_conversation_route x s cs od db tr now_ms who selection =
     session_answer who (open_session x s cs od db tr now_ms (client_device_conversation tr) selection)"

definition open_shared_route ::
  "external \<Rightarrow> device_sdk \<Rightarrow> channel_sdk \<Rightarrow> string \<Rightarrow> hub_db \<Rightarrow> transport \<Rightarrow> int \<Rightarrow>
   exn + actor_context \<Rightarrow> session_selection \<Rightarrow> refusals \<Rightarrow> refusals \<times> (string \<times> string list) reply" where
  "open_shared_route x s cs od db tr now_ms who selection =
     session_answer who (open_shared x s cs od db tr now_ms selection)"

end
