(* ===== verification/Hub_Handlers.thy ===== *)
theory Hub_Handlers
  imports Hub_System Device_Control_Http
begin

text \<open>
  Every use case and background pass of Device Control and Channel reconciliation is a
  sequence of hub steps, whatever it answers: what holds along the steps holds along every
  call of the code.
\<close>

lemma one_step: "hub_step x s au od db db' \<Longrightarrow> hub_steps x s au od db db'"
  by (rule r_into_rtranclp)

lemma run_tx_steps:
  assumes "\<And>v db'. f db = Inr (v, db') \<Longrightarrow> hub_step x s au od db db'"
  shows "hub_steps x s au od db (fst (run_tx f db))"
  using assms by (cases "f db") (auto simp: run_tx_def)

lemma reconcile_erase_steps: "hub_steps x s au od db (fst (reconcile_erase x s ttl now db))"
proof -
  let ?m = "run_tx (materialize_claim_events x s ttl) db"
  have m: "hub_steps x s au od db (fst ?m)" by (rule run_tx_steps) (rule Materialize)
  show ?thesis
  proof (cases "snd ?m")
    case (Inl e)
    with m show ?thesis by (simp add: reconcile_erase_def case_prod_beta)
  next
    case (Inr n)
    from m have "hub_steps x s au od db (snd (mark_accepted_pending now (fst ?m)))"
      by (rule rtranclp.rtrancl_into_rtrancl) (rule Mark_pending)
    then have "hub_steps x s au od db
        (snd (expire_operations now (snd (mark_accepted_pending now (fst ?m)))))"
      by (rule rtranclp.rtrancl_into_rtrancl) (rule Expire)
    with Inr show ?thesis by (cases ?m) (simp add: reconcile_erase_def)
  qed
qed

lemma deliver_erase_steps: "hub_steps x s au od db (fst (deliver_erase x nonce t o' db))"
proof -
  have "hub_steps x s au od db (fst (run_tx (accept_delivery (ec_operation_id (eo_command o'))
      (delivery_attempt_id x (ec_operation_id (eo_command o')) nonce) t) db))"
    by (rule run_tx_steps) (rule Accept)
  then show ?thesis by (auto simp: deliver_erase_def Let_def split: prod.split sum.split)
qed

lemma pull_erase_steps:
  "hub_steps x s au od db (fst (pull_erase x s ttl now t ref key nonce signature db))"
proof -
  have arm: "hub_steps x s au od db (fst (run_tx (rearm_lapsed s i now ttl) db))" for i
    by (rule run_tx_steps) (rule Rearm)
  have "hub_steps x s au od db (fst (deliver_erase x nonce t o' (fst (run_tx (rearm_lapsed s i now ttl) db))))"
    for i o'
    using arm deliver_erase_steps by (rule rtranclp_trans)
  with arm deliver_erase_steps show ?thesis
    unfolding pull_erase_def by (auto split: option.split sum.split prod.split) (metis fst_conv)+
qed

lemma acknowledge_erase_steps: "hub_steps x s au od db (fst (acknowledge_erase x s now ack db))"
proof (cases "acknowledge_erase x s now ack db")
  case (Pair db' r)
  show ?thesis
  proof (cases r)
    case (Inl e)
    with Pair have "db' = db"
      by (auto simp: acknowledge_erase_def guarded_def run_tx_def split: option.splits sum.splits)
    with Pair show ?thesis by simp
  next
    case (Inr o')
    with Pair show ?thesis by (auto intro: one_step Acknowledge)
  qed
qed

lemma accept_manifest_steps:
  "hub_steps x s au od db (fst (fst (accept_manifest x s od now t a (db, dir))))"
proof (cases "plan_manifest x s od a db")
  case (Inr p)
  show ?thesis
  proof (cases p)
    case (Manifest_newer current accepted)
    let ?i = "fst (new_id x ''manifest-acceptance'' db)"
    let ?db1 = "snd (new_id x ''manifest-acceptance'' db)"
    have d: "hub_steps x s au od db ?db1" by (rule one_step) (rule Draw)
    show ?thesis
    proof (cases "commit_manifest x s od now ?i a current accepted ?db1")
      case (Inl e)
      with Manifest_newer d \<open>plan_manifest x s od a db = Inr p\<close> show ?thesis
        by (simp add: accept_manifest_def case_prod_beta)
    next
      case (Inr w)
      then obtain m db2 where c: "commit_manifest x s od now ?i a current accepted ?db1 = Inr (m, db2)"
        by (cases w) simp
      have "hub_step x s au od ?db1 db2"
        using \<open>plan_manifest x s od a db = Inr p\<close> c unfolding Manifest_newer by (rule Manifest)
      with d have "hub_steps x s au od db db2" by (rule rtranclp.rtrancl_into_rtrancl)
      with c Manifest_newer \<open>plan_manifest x s od a db = Inr p\<close> show ?thesis
        by (simp add: accept_manifest_def case_prod_beta split: sum.split)
    qed
  qed (simp add: accept_manifest_def Inr)
qed (simp add: accept_manifest_def)

lemma update_output_policy_steps:
  "hub_steps x s au od db (fst (update_output_policy x s od n now c ctx db))"
proof (cases "plan_policy x od c ctx db")
  case (Inr p)
  show ?thesis
  proof (cases p)
    case (Policy_change current q)
    let ?i = "fst (new_id x ''output-policy'' db)" and ?db1 = "snd (new_id x ''output-policy'' db)"
    have d: "hub_steps x s au od db ?db1" by (rule one_step) (rule Draw)
    show ?thesis
    proof (cases "commit_policy x s od now ?i c ctx current q ?db1")
      case (Inl e)
      with Policy_change d \<open>plan_policy x od c ctx db = Inr p\<close> show ?thesis
        by (simp add: update_output_policy_def case_prod_beta)
    next
      case (Inr w)
      then obtain m db2 where k: "commit_policy x s od now ?i c ctx current q ?db1 = Inr (m, db2)"
        by (cases w) simp
      have "hub_step x s au od ?db1 db2"
        using \<open>plan_policy x od c ctx db = Inr p\<close> k unfolding Policy_change by (rule Policy)
      with d have "hub_steps x s au od db db2" by (rule rtranclp.rtrancl_into_rtrancl)
      with k Policy_change \<open>plan_policy x od c ctx db = Inr p\<close> show ?thesis
        by (simp add: update_output_policy_def case_prod_beta)
    qed
  qed (simp add: update_output_policy_def Inr)
qed (simp add: update_output_policy_def)

lemma deliver_revocation_steps:
  assumes "deliver_revocation rs answer r db = Inr (n, db')" "0 \<le> rv_attempt_count r"
  shows "hub_step x s au od db db'"
proof -
  consider i st result now u where "mark_terminal i st result now db = Inr (u, db')"
    | now error u where "retry_revocation rs r now error db = Inr (u, db')"
    using assms(1) unfolding deliver_revocation_def
    by (auto simp: ok_iff split: prod.splits sum.splits exn.splits if_splits)
  then show ?thesis
    by cases (auto intro: Channel_terminal Channel_retry [OF assms(2)])
qed

lemma deliver_each_steps:
  "\<forall>r \<in> set due. 0 \<le> rv_attempt_count r \<Longrightarrow> hub_steps x s au od db (fst (deliver_each rs answer due db))"
proof (induction due arbitrary: db)
  case (Cons r due)
  show ?case
  proof (cases "deliver_revocation rs answer r db")
    case (Inr w)
    obtain n db1 where w: "w = (n, db1)" by (cases w)
    with Inr Cons.prems have "hub_step x s au od db db1" by (auto intro: deliver_revocation_steps)
    with Cons have "hub_steps x s au od db (fst (deliver_each rs answer due db1))"
      by (auto intro: converse_rtranclp_into_rtranclp)
    then show ?thesis unfolding deliver_each.simps Inr w
      by (simp add: case_prod_beta split: sum.split)
  qed simp
qed simp

lemma deliveriesD: "deliveries rs = Inr ds \<Longrightarrow> ds = rs \<and> (\<forall>r \<in> set rs. 0 \<le> rv_attempt_count r)"
  by (induction rs arbitrary: ds) (fastforce simp: ok_iff revocation_delivery_def)+

lemma list_dueD:
  assumes "list_due db now limit = Inr ds"
  shows "ds = take (nat limit) (order_by rv_next_attempt_at (filter (due_revocation now) (revocations db)))"
    "\<forall>r \<in> set ds. 0 \<le> rv_attempt_count r" "1 \<le> limit" "limit \<le> 100"
  using assms deliveriesD by (auto simp: list_due_def ok_iff)

lemma reconcile_revocations_steps:
  "hub_steps x s au od db (fst (reconcile_revocations x rs limit now answer db))"
proof -
  let ?m = "run_tx (materialize_revoked_events x now) db"
  have m: "hub_steps x s au od db (fst ?m)" by (rule run_tx_steps) (rule Channel_events)
  show ?thesis
  proof (cases "snd ?m")
    case (Inl e)
    with m show ?thesis by (simp add: reconcile_revocations_def case_prod_beta)
  next
    case (Inr n)
    show ?thesis
    proof (cases "list_due (fst ?m) now limit")
      case (Inl e)
      with m Inr show ?thesis by (simp add: reconcile_revocations_def case_prod_beta)
    next
      case (Inr due)
      have "hub_steps x s au od (fst ?m) (fst (deliver_each rs answer due (fst ?m)))"
        by (rule deliver_each_steps) (rule list_dueD(2) [OF Inr])
      with m have "hub_steps x s au od db (fst (deliver_each rs answer due (fst ?m)))"
        by (rule rtranclp_trans)
      with \<open>snd ?m = Inr n\<close> Inr show ?thesis
        by (simp add: reconcile_revocations_def case_prod_beta)
    qed
  qed
qed

text \<open>The routes add nothing to the use cases they call.\<close>

lemma pull_operation_route_steps:
  "hub_steps x s au od db (fst (pull_operation_route x s ttl t0 now t ref key nonce signature db))"
proof -
  have r: "hub_steps x s au od db (fst (reconcile_erase x s ttl t0 db))" by (rule reconcile_erase_steps)
  moreover have "hub_steps x s au od db
      (fst (pull_erase x s ttl now t ref key nonce signature (fst (reconcile_erase x s ttl t0 db))))"
    using r pull_erase_steps by (rule rtranclp_trans)
  ultimately show ?thesis
    by (auto simp: pull_operation_route_def case_prod_beta split: sum.split option.split)
qed

lemma acknowledge_route_steps:
  "hub_steps x s au od db (fst (acknowledge_route x s now i ev db))"
proof -
  have "hub_steps x s au od db (fst (acknowledge_erase x s now ack db))" for ack
    by (rule acknowledge_erase_steps)
  then show ?thesis
    by (auto simp: acknowledge_route_def case_prod_beta split: sum.split)
qed

lemma assert_manifest_route_steps:
  "hub_steps x s au od db (fst (fst (assert_manifest_route x s od now t a (db, dir))))"
proof -
  have "fst (assert_manifest_route x s od now t a (db, dir)) = fst (accept_manifest x s od now t a (db, dir))"
    by (auto simp: assert_manifest_route_def split: prod.split sum.split exn.split)
  then show ?thesis by (simp add: accept_manifest_steps)
qed

lemma update_policy_route_steps:
  "hub_steps x s au od db (fst (update_policy_route x s od n now who c db))"
  using update_output_policy_steps
  by (auto simp: update_policy_route_def case_prod_beta split: sum.split)

end
