(* ===== verification/Erase_Scenario.thy ===== *)
theory Erase_Scenario
  imports Hub_Handlers Scenario
begin

text \<open>
  The worked Enrollment continued into Device Control: the Claim is revoked, its erase
  instruction is delivered and acknowledged, or lapses; or the device is claimed again before
  any reconcile pass saw the revocation.
\<close>

definition small_sdk :: device_sdk where
  "small_sdk = \<lparr>json_dumps = (\<lambda>j. ''{}''), management_json = (\<lambda>d. []),
     verify_p256_signature = (\<lambda>key doc sig. if sig = ''s'' then Inr () else Inl (Erase_contract_error [])),
     verify_device_erase_ack =
       (\<lambda>ack key. if ak_signature ack = ''s'' then Inr () else Inl (Erase_contract_error [])),
     operation_fingerprint = (\<lambda>c. ''f''), canonical_bytes = (\<lambda>a. []),
     manifest_outputs = (\<lambda>j. Inr JNull), manifest_inputs = (\<lambda>j. Inr JNull),
     output_policy_required = (\<lambda>a j. Inr False)\<rparr>"

definition revoked_run :: "request list" where
  "revoked_run = acked_run @ [small_revoke]"

definition revoked_db :: hub_db where
  "revoked_db = small_run revoked_run"

definition pending_db :: hub_db where
  "pending_db = fst (reconcile_erase small_world small_sdk 100 6 revoked_db)"

definition small_pull :: "instant \<Rightarrow> hub_db \<Rightarrow> hub_db \<times> (exn + erase_delivery option)" where
  "small_pull t = pull_erase small_world small_sdk 100 t t device_d ''AAAA'' ''n'' ''s''"

definition sent_db :: hub_db where
  "sent_db = fst (small_pull 7 pending_db)"

definition small_operation_id :: string where
  "small_operation_id = ''erase_'' @ replicate 48 (CHR ''0'')"

definition erased_ack :: erase_ack where
  "erased_ack = \<lparr>ak_operation_id = small_operation_id, ak_device_ref = device_d, ak_ack_sequence = 1,
     ak_result = ''erased'', ak_result_code = '''', ak_signature = ''s''\<rparr>"

definition small_acknowledge :: "instant \<Rightarrow> hub_db \<Rightarrow> hub_db \<times> (exn + erase_operation)" where
  "small_acknowledge t = acknowledge_erase small_world small_sdk t erased_ack"

definition erased_db :: hub_db where
  "erased_db = fst (small_acknowledge 8 sent_db)"

text \<open>The ACK arrives after the deadline; the device pulls again and sends the same ACK.\<close>

definition lapsed_db :: hub_db where
  "lapsed_db = fst (small_acknowledge 200 sent_db)"

definition rearmed_db :: hub_db where
  "rearmed_db = fst (small_pull 210 lapsed_db)"

text \<open>
  The device is claimed again before any reconcile pass saw its revocation: the Claim row as
  the ACK of a second Grant leaves it.
\<close>

definition reclaim :: "hub_db \<Rightarrow> hub_db" where
  "reclaim db = snd (upsert_claim ((hd (claims db))\<lparr>cl_claim_generation := 2, cl_state := Active\<rparr>) db)"

definition reclaimed_db :: hub_db where
  "reclaimed_db = reclaim revoked_db"

end
