(* ===== verification/Erase_Properties.thy ===== *)
theory Erase_Properties
  imports Erase_Scenario
begin

text \<open>
  What the owner of a device may rely on once its Claim is revoked: which instruction exists,
  that it reaches the device, who can settle it, and where the pass that creates
  instructions stops.
\<close>

lemma operation_ok:
  assumes "reachable x s au od db" "get_operation db i = Some r"
  shows "er_operation_id r = i" "erase_row_ok s r" "erase_origin x (claim_stream db) r"
  using assms reachable_ok [OF assms(1)]
  by (auto simp: hub_ok_def erase_table_ok_def all_rows_def get_operation_def dest: tget_SomeD)

lemma operation_moves:
  assumes "reachable x s au od db" "hub_steps x s au od db db'" "get_operation db i = Some r"
  obtains r' where "get_operation db' i = Some r'" "erase_moves r r'"
  using hub_steps_ledger [OF assms(2) reachable_ok [OF assms(1)]] assms(3)
  unfolding ledger_moves_def get_operation_def by (blast elim: evolvesD)

section \<open>The directory\<close>

text \<open>
  C12: whatever Device Control, the erase ledger and the Channel worker do between Admission's
  own transactions, in whatever order, the device directory says what the Claims say: every
  directory row names an existing Claim of the same generation and owner, approved exactly if
  that Claim is Active, and every Active Claim has its row.
\<close>

theorem directory_agrees_with_claims:
  assumes "reachable x s au od db"
  shows "(\<forall>d \<in> set (devices db). \<exists>r \<in> set (claims db). lists_claim d r)
    \<and> (\<forall>r \<in> set (claims db). cl_state r = Active \<longrightarrow>
         (\<exists>d \<in> set (devices db). dv_device_id d = cl_device_instance_id r))"
  using reachable_ok [OF assms] by (simp add: hub_ok_def admission_ok_def directory_ok_def core_simps)

theorem directory_agrees_with_claims_witness:
  "\<exists>d r. d \<in> set (devices (small_run acked_run)) \<and> r \<in> set (claims (small_run acked_run)) \<and> lists_claim d r"
proof -
  have "reachable small_world small_sdk small_authority ''o'' (small_run acked_run)" by (rule reachable_run)
  note agrees = directory_agrees_with_claims [OF this]
  from acked_summary obtain r where "claims (small_run acked_run) = [r]" "cl_state r = Active"
    by (auto simp: summary_def map_eq_Cons_conv)
  with agrees obtain d where "d \<in> set (devices (small_run acked_run))" by auto
  with agrees show ?thesis by blast
qed

section \<open>Instructions\<close>

lemma materialize_each_complete:
  assumes "materialize_each x s ttl rows db = Inr (n, db')" "row \<in> set rows"
  shows "ae_id (se_event row) \<in> er_source_event_id ` set (erase_operations db')"
    and "length (erase_operations db') = length (erase_operations db) + n"
proof -
  have *: "(\<forall>row \<in> set rows. ae_id (se_event row) \<in> er_source_event_id ` set (erase_operations db'))
      \<and> set (erase_operations db) \<subseteq> set (erase_operations db')
      \<and> length (erase_operations db') = length (erase_operations db) + n"
    using assms(1)
  proof (induction rows arbitrary: db n)
    case (Cons row rows)
    then obtain m k db1 where s: "materialize_one x s ttl row db = Inr (m, db1)"
        "materialize_each x s ttl rows db1 = Inr (k, db')" "n = m + k" by (auto simp: ok_iff)
    from s(1) have "ae_id (se_event row) \<in> er_source_event_id ` set (erase_operations db1)
        \<and> set (erase_operations db) \<subseteq> set (erase_operations db1)
        \<and> length (erase_operations db1) = length (erase_operations db) + m"
      by (cases rule: materialize_oneE) (auto intro: rev_image_eqI)
    with Cons.IH [OF s(2)] s(3) show ?case by auto
  qed simp
  then show "ae_id (se_event row) \<in> er_source_event_id ` set (erase_operations db')"
    "length (erase_operations db') = length (erase_operations db) + n"
    using assms(2) by auto
qed

text \<open>
  C13: one erase instruction per revocation. After a pass that did not raise, each revocation
  in the Claim event stream has exactly one operation, every operation stems from a
  revocation in the stream, carries its exact DeviceRef and time, and is named by the hash of
  both.
\<close>

theorem erase_one_per_revocation:
  assumes "reachable x s au od db" "materialize_claim_events x s ttl db = Inr (n, db')"
  shows "(\<forall>e \<in> set (revoked_events db).
            \<exists>!r. r \<in> set (erase_operations db') \<and> er_source_event_id r = ae_id (se_event e))
    \<and> (\<forall>r \<in> set (erase_operations db'). \<exists>e \<in> set (revoked_events db).
          er_source_event_id r = ae_id (se_event e) \<and> er_created_at r = ae_time (se_event e)
          \<and> (\<exists>reason t. ae_data (se_event e) = Claim_revoked_data (er_device_ref r) reason t)
          \<and> er_operation_id r = erase_operation_id x (ae_id (se_event e)) (er_device_ref r))"
proof
  have each: "materialize_each x s ttl (revoked_events db) db = Inr (n, db')"
    using assms(2) by (simp add: materialize_claim_events_def ok_iff)
  have "reachable x s au od db'" using assms by (blast intro: reachable_step Materialize)
  then have ok: "erase_table_ok x s db'" using reachable_ok by (auto simp: hub_ok_def)
  then have d: "distinct (map er_source_event_id (erase_operations db'))"
    by (simp add: erase_table_ok_def)
  show "\<forall>e \<in> set (revoked_events db).
      \<exists>!r. r \<in> set (erase_operations db') \<and> er_source_event_id r = ae_id (se_event e)"
    using materialize_each_complete(1) [OF each] distinct_key_eq [OF d] by (fastforce simp: image_iff)
  have cs: "claim_stream db' = claim_stream db" using aside_erase [OF each] by auto
  have "erase_origin x (claim_stream db) r" if "r \<in> set (erase_operations db')" for r
    using ok that unfolding erase_table_ok_def all_rows_def cs by blast
  then show "\<forall>r \<in> set (erase_operations db'). \<exists>e \<in> set (revoked_events db).
          er_source_event_id r = ae_id (se_event e) \<and> er_created_at r = ae_time (se_event e)
          \<and> (\<exists>reason t. ae_data (se_event e) = Claim_revoked_data (er_device_ref r) reason t)
          \<and> er_operation_id r = erase_operation_id x (ae_id (se_event e)) (er_device_ref r)"
    by (fastforce simp: erase_origin_def revoked_events_def)
qed

theorem erase_one_per_revocation_witness:
  "\<exists>db' e r. materialize_claim_events small_world small_sdk 100 revoked_db = Inr (1, db')
    \<and> e \<in> set (revoked_events revoked_db) \<and> r \<in> set (erase_operations db')
    \<and> er_source_event_id r = ae_id (se_event e)
    \<and> er_operation_id r = erase_operation_id small_world (ae_id (se_event e)) (er_device_ref r)"
proof -
  have "(\<lambda>db. map_sum id (\<lambda>(n, db'). (n, length (erase_operations db')))
      (materialize_claim_events small_world small_sdk 100 db)) revoked_db = Inr (1, 1)"
    unfolding revoked_db_def by code_simp
  then obtain db' where m: "materialize_claim_events small_world small_sdk 100 revoked_db = Inr (1, db')"
      "length (erase_operations db') = 1"
    by (cases "materialize_claim_events small_world small_sdk 100 revoked_db") auto
  then obtain r where r: "r \<in> set (erase_operations db')" by (cases "erase_operations db'") auto
  have "reachable small_world small_sdk small_authority ''o'' revoked_db"
    unfolding revoked_db_def by (rule reachable_run)
  from erase_one_per_revocation [OF this m(1)] r m(1) show ?thesis by blast
qed

text \<open>
  C14: an instruction that is settled stays settled. Once an operation is acknowledged or has
  failed for good, no request, pass or use case of any component changes anything of it.
\<close>

theorem erase_instruction_final:
  assumes "reachable x s au od db" "get_operation db i = Some r" "settled_erase (er_state r)"
    "hub_steps x s au od db db'"
  shows "get_operation db' i = Some r"
proof -
  from assms(1,4,2) obtain r' where "get_operation db' i = Some r'" "erase_moves r r'"
    by (rule operation_moves)
  with assms(3) show ?thesis by (simp add: erase_moves_def)
qed

lemma erased_reachable:
  "reachable small_world small_sdk small_authority ''o'' pending_db"
  "reachable small_world small_sdk small_authority ''o'' sent_db"
  "reachable small_world small_sdk small_authority ''o'' erased_db"
  "reachable small_world small_sdk small_authority ''o'' lapsed_db"
proof -
  have "reachable small_world small_sdk small_authority ''o'' revoked_db"
    unfolding revoked_db_def by (rule reachable_run)
  then show p: "reachable small_world small_sdk small_authority ''o'' pending_db"
    unfolding pending_db_def by (rule reachable_steps) (rule reconcile_erase_steps)
  from p show q: "reachable small_world small_sdk small_authority ''o'' sent_db"
    unfolding sent_db_def small_pull_def by (rule reachable_steps) (rule pull_erase_steps)
  from q show "reachable small_world small_sdk small_authority ''o'' erased_db"
    unfolding erased_db_def small_acknowledge_def
    by (rule reachable_steps) (rule acknowledge_erase_steps)
  from q show "reachable small_world small_sdk small_authority ''o'' lapsed_db"
    unfolding lapsed_db_def small_acknowledge_def
    by (rule reachable_steps) (rule acknowledge_erase_steps)
qed

lemma erased_state:
  "map_option er_state (get_operation erased_db small_operation_id) = Some Erase_acknowledged"
  by code_simp

lemma erased_row:
  obtains r where "get_operation erased_db small_operation_id = Some r" "settled_erase (er_state r)"
  using erased_state by auto

theorem erase_instruction_final_witness:
  "\<exists>r. get_operation (fst (small_pull 300 erased_db)) small_operation_id = Some r
     \<and> settled_erase (er_state r)"
proof -
  obtain r where r: "get_operation erased_db small_operation_id = Some r" "settled_erase (er_state r)"
    by (rule erased_row)
  have "hub_steps small_world small_sdk small_authority ''o'' erased_db (fst (small_pull 300 erased_db))"
    unfolding small_pull_def by (rule pull_erase_steps)
  from erase_instruction_final [OF erased_reachable(3) r this] r(2) show ?thesis by blast
qed

text \<open>
  C15: only the device settles its instruction. An acknowledged or failed operation rests on
  an ACK that verifies under the operational key the revoked Claim recorded, for that
  operation and that exact Claim generation, with the recorded result.
\<close>

theorem erase_settled_by_device:
  assumes "reachable x s au od db" "get_operation db i = Some r" "settled_erase (er_state r)"
  shows "\<exists>ack key. er_public_key_spki r = Some key \<and> verify_device_erase_ack s ack key = Inr ()
    \<and> ak_operation_id ack = i \<and> ak_device_ref ack = er_device_ref r
    \<and> er_terminal_result r = Some (ak_result ack)
    \<and> (er_state r = Erase_acknowledged \<longleftrightarrow> ak_result ack = ''erased'')"
proof -
  note ok = operation_ok [OF assms(1,2)]
  from ok(2) assms(3) obtain ack where "settled_by s r ack" by (auto simp: erase_row_ok_def)
  with ok(1) show ?thesis unfolding settled_by_def by (auto intro!: exI [of _ ack])
qed

theorem erase_settled_by_device_witness:
  "\<exists>r ack. get_operation erased_db small_operation_id = Some r
     \<and> verify_device_erase_ack small_sdk ack (the (er_public_key_spki r)) = Inr ()
     \<and> ak_device_ref ack = er_device_ref r"
proof -
  obtain r where r: "get_operation erased_db small_operation_id = Some r" "settled_erase (er_state r)"
    by (rule erased_row)
  from erase_settled_by_device [OF erased_reachable(3) r] r(1) show ?thesis by auto
qed

end
