(* ===== verification/Erase_Delivery.thy ===== *)
theory Erase_Delivery
  imports Erase_Properties
begin

text \<open>
  The instruction reaches the device, the device's answer is judged once, and one revocation
  the pass cannot match stops it for every device.
\<close>

section \<open>A pull by the right key is answered\<close>

lemma row_for_device:
  assumes "reachable x s au od db" "get_for_device db ref = Some o'"
  obtains r where "get_operation db (er_operation_id r) = Some r" "er_device_ref r = ref"
    "o' = decode_erase r" "erase_row_ok s r"
proof -
  from assms(2) obtain r where r: "r \<in> set (erase_operations db)" "er_device_ref r = ref"
      "o' = decode_erase r"
    by (auto simp: get_for_device_def dest: tget_SomeD)
  have t: "erase_table_ok x s db" using reachable_ok [OF assms(1)] by (simp add: hub_ok_def)
  then have "erase_row_ok s r" using r(1) by (simp add: erase_table_ok_def all_rows_def)
  moreover from t r(1) have "get_operation db (er_operation_id r) = Some r"
    by (simp add: get_operation_def erase_table_ok_def tget_mem)
  ultimately show ?thesis using r that by blast
qed

lemma get_update_operation:
  assumes "\<And>r. er_operation_id (f r) = er_operation_id r"
  shows "get_operation (update_operation i f db) i = map_option f (get_operation db i)"
  using assms by (simp add: get_operation_def update_operation_def tget_tupd)

definition delivered_as :: "hub_db \<Rightarrow> device_ref \<Rightarrow> instant \<Rightarrow> erase_delivery \<Rightarrow> bool" where
  "delivered_as db ref t d \<longleftrightarrow>
     ec_device_ref (ed_command d) = ref \<and> t < ec_deadline (ed_command d)
     \<and> (\<exists>r. get_operation db (ec_operation_id (ed_command d)) = Some r
          \<and> er_state r = Delivery_accepted \<and> er_command r = ed_command d
          \<and> er_delivery_attempt_id r = Some (ed_delivery_attempt_id d))"

lemma deliver_open_row:
  assumes "get_operation db i = Some r" "erase_row_ok s r" "er_operation_id r = i"
    "\<not> terminal_erase (er_state r)" "t < er_deadline r"
  shows "\<exists>db' d. deliver_erase x nonce t (decode_erase r) db = (db', Inr (Some d))
    \<and> delivered_as db' (er_device_ref r) t d"
proof -
  let ?a = "delivery_attempt_id x i nonce"
  have ok: "ec_operation_id (er_command r) = i" "ec_device_ref (er_command r) = er_device_ref r"
    "ec_deadline (er_command r) = er_deadline r"
    using assms(2,3) by (auto simp: erase_row_ok_def)
  have k: "er_operation_id (accept_row a n q) = er_operation_id q" for a n q
    by (simp add: accept_row_def)
  have "accept_delivery i ?a t db
      = Inr (decode_erase (accept_row ?a t r), update_operation i (accept_row ?a t) db)"
    using assms by (simp add: accept_delivery_def)
  moreover have "get_operation (update_operation i (accept_row ?a t) db) i = Some (accept_row ?a t r)"
    using assms(1) by (simp add: get_update_operation k)
  ultimately show ?thesis
    using ok assms(5)
    by (auto simp: deliver_erase_def Let_def run_tx_def delivered_as_def decode_erase_def accept_row_def)
qed

text \<open>
  C16: a pull is answered. A device that presents its Claim's own operational key and signs
  for it gets its instruction, exactly for its DeviceRef and in time to act, even if the
  deadline has passed: the operation is then armed anew. The delivery is recorded with it.
\<close>

theorem pull_erase_delivers:
  assumes "reachable x s au od db" "get_for_device db ref = Some o'"
    and "pull_erase_checks s ref key nonce sig o' = Inr ()"
    and "\<not> settled_erase (eo_state o')" "0 < ttl"
    and "accepted_at < (if eo_state o' = Erase_expired \<or> ec_deadline (eo_command o') \<le> now
                        then now + ttl else ec_deadline (eo_command o'))"
  shows "\<exists>db' d. pull_erase x s ttl now accepted_at ref key nonce sig db = (db', Inr (Some d))
    \<and> delivered_as db' ref accepted_at d"
proof -
  from assms(1,2) obtain r where r: "get_operation db (er_operation_id r) = Some r"
      "er_device_ref r = ref" "o' = decode_erase r" "erase_row_ok s r"
    by (rule row_for_device)
  let ?i = "er_operation_id r"
  have o': "eo_state o' = er_state r" "eo_command o' = er_command r"
    "ec_operation_id (eo_command o') = ?i" "ec_deadline (eo_command o') = er_deadline r"
    using r(3,4) by (simp_all add: decode_erase_def erase_row_ok_def)
  show ?thesis
  proof (cases "er_state r = Erase_expired \<or> er_deadline r \<le> now")
    case lapsed: True
    let ?r = "rearm_row s now ttl r" and ?db = "update_operation ?i (rearm_row s now ttl) db"
    have k: "er_operation_id (rearm_row s now ttl q) = er_operation_id q" for q
      by (simp add: rearm_row_def Let_def)
    have "rearm_lapsed s ?i now ttl db = Inr (decode_erase ?r, ?db)"
      using lapsed r(1) assms(4,5) o' by (auto simp: rearm_lapsed_def)
    then have "pull_erase x s ttl now accepted_at ref key nonce sig db
        = deliver_erase x nonce accepted_at (decode_erase ?r) ?db"
      using assms(2-4) lapsed o'
      by (simp add: pull_erase_def run_tx_def)
        (simp add: rearm_row_def decode_erase_def Let_def)
    moreover have "\<exists>db' d. deliver_erase x nonce accepted_at (decode_erase ?r) ?db = (db', Inr (Some d))
        \<and> delivered_as db' (er_device_ref ?r) accepted_at d"
    proof (rule deliver_open_row)
      show "get_operation ?db ?i = Some ?r" using r(1) by (simp add: get_update_operation k)
      show "erase_row_ok s ?r" using rearm_row_ok(1) r(4) assms(4) o' by simp
      show "er_operation_id ?r = ?i" by (rule k)
      show "\<not> terminal_erase (er_state ?r)" by (simp add: rearm_row_def Let_def)
      show "accepted_at < er_deadline ?r" using assms(6) lapsed o' by (simp add: rearm_row_def Let_def)
    qed
    ultimately show ?thesis using r(2) by (simp add: rearm_row_def Let_def)
  next
    case False
    with assms(4) o' have "\<not> terminal_erase (er_state r)" by (cases "er_state r") auto
    with r False assms(6) o' have "\<exists>db' d. deliver_erase x nonce accepted_at (decode_erase r) db
        = (db', Inr (Some d)) \<and> delivered_as db' (er_device_ref r) accepted_at d"
      by (intro deliver_open_row) auto
    with assms(2-4) False o' r(2,3) show ?thesis by (auto simp: pull_erase_def)
  qed
qed

theorem pull_erase_delivers_witness:
  "\<exists>db' d. pull_erase small_world small_sdk 100 210 210 device_d ''AAAA'' ''n'' ''s'' lapsed_db
      = (db', Inr (Some d)) \<and> delivered_as db' device_d 210 d"
proof -
  have "case get_for_device lapsed_db device_d of None \<Rightarrow> False
      | Some o' \<Rightarrow> pull_erase_checks small_sdk device_d ''AAAA'' ''n'' ''s'' o' = Inr ()
          \<and> eo_state o' = Erase_expired"
    by code_simp
  then obtain o' where o': "get_for_device lapsed_db device_d = Some o'"
      "pull_erase_checks small_sdk device_d ''AAAA'' ''n'' ''s'' o' = Inr ()"
      "eo_state o' = Erase_expired" by (auto split: option.splits)
  show ?thesis
    by (rule pull_erase_delivers [OF erased_reachable(4) o'(1,2)]) (simp_all add: o'(3))
qed

section \<open>An acknowledgement is judged once\<close>

lemma ack_recorded:
  assumes "apply_ack ack fp now db = Inr (o', db')"
  shows "\<exists>e. tget evidence_key (ak_operation_id ack, ak_ack_sequence ack) (erase_evidence db') = Some e
    \<and> ev_ack_fingerprint e = fp"
  using assms
proof (cases rule: apply_ackE)
  case (again e r)
  show ?thesis
  proof (cases "tget evidence_key (ak_operation_id ack, ak_ack_sequence ack) (erase_evidence db)")
    case None
    with again(4,6) show ?thesis by (auto simp: tget_None_iff image_iff)
  next
    case (Some q)
    with assms again(1,2) show ?thesis by (auto simp: apply_ack_def ok_iff)
  qed
next
  case (new r e)
  then show ?thesis by (simp add: tget_append tget_Cons)
qed

text \<open>
  An acknowledgement is judged once. Whatever the database decided when it first took
  an ACK, the same ACK sent at any later time changes nothing and answers with the operation
  as it then stands. So an ACK that came after the deadline is never applied, even once the
  operation is armed anew.
\<close>

theorem erase_ack_judged_once:
  assumes "reachable x s au od db" "acknowledge_erase x s t ack db = (db1, Inr o1)"
    "hub_steps x s au od db1 db2"
  shows "\<exists>r. get_operation db2 (ak_operation_id ack) = Some r
    \<and> acknowledge_erase x s t2 ack db2 = (db2, Inr (decode_erase r))"
proof -
  let ?fp = "''sha256:'' @ hex (sha256 x (canonical_bytes s ack))"
  from assms(2) obtain r key where r: "get_operation db (ak_operation_id ack) = Some r"
    "ak_device_ref ack = ec_device_ref (er_command r)" "er_public_key_spki r = Some key"
    "verify_device_erase_ack s ack key = Inr ()"
    and a: "apply_ack ack ?fp t db = Inr (o1, db1)" by (rule acknowledge_eraseE)
  have one: "reachable x s au od db1" "hub_steps x s au od db db1"
    using assms(1,2) by (auto intro: reachable_step Acknowledge)
  have steps: "hub_steps x s au od db db2" using one(2) assms(3) by (rule rtranclp_trans)
  from operation_moves [OF assms(1) steps r(1)] obtain r2
    where r2: "get_operation db2 (ak_operation_id ack) = Some r2" "erase_moves r r2" .
  from ack_recorded [OF a] obtain e where
    e: "tget evidence_key (ak_operation_id ack, ak_ack_sequence ack) (erase_evidence db1) = Some e"
      "ev_ack_fingerprint e = ?fp" by blast
  obtain es where "erase_evidence db2 = erase_evidence db1 @ es"
    using hub_steps_ledger [OF assms(3) reachable_ok [OF one(1)]] by (auto simp: ledger_moves_def)
  with e(1) have "tget evidence_key (ak_operation_id ack, ak_ack_sequence ack) (erase_evidence db2) = Some e"
    by (simp add: tget_append)
  then have "apply_ack ack ?fp t2 db2 = Inr (decode_erase r2, db2)"
    using r2(1) e(2) by (simp add: apply_ack_def)
  then have "acknowledge_erase x s t2 ack db2 = (db2, Inr (decode_erase r2))"
    using r r2 by (simp add: acknowledge_erase_def ledger_get_def guarded_def run_tx_def
        decode_erase_def erase_moves_def)
  with r2(1) show ?thesis by blast
qed

theorem erase_ack_judged_once_witness:
  "\<exists>r. get_operation rearmed_db small_operation_id = Some r \<and> er_state r = Delivery_accepted
    \<and> small_acknowledge 220 rearmed_db = (rearmed_db, Inr (decode_erase r))"
proof -
  have "map_sum id eo_state (snd (small_acknowledge 200 sent_db)) = Inr Erase_expired" by code_simp
  then obtain o1 where "small_acknowledge 200 sent_db = (lapsed_db, Inr o1)"
    unfolding lapsed_db_def by (cases "small_acknowledge 200 sent_db"; cases "snd (small_acknowledge 200 sent_db)") auto
  then have a: "acknowledge_erase small_world small_sdk 200 erased_ack sent_db = (lapsed_db, Inr o1)"
    by (simp add: small_acknowledge_def)
  have h: "hub_steps small_world small_sdk small_authority ''o'' lapsed_db rearmed_db"
    unfolding rearmed_db_def small_pull_def by (rule pull_erase_steps)
  have i: "ak_operation_id erased_ack = small_operation_id" by (simp add: erased_ack_def)
  have "map_option er_state (get_operation rearmed_db small_operation_id) = Some Delivery_accepted"
    by code_simp
  with erase_ack_judged_once [OF erased_reachable(2) a h, of 220] show ?thesis
    unfolding i small_acknowledge_def by auto
qed

section \<open>Where the pass stops\<close>

text \<open>A revocation no operation exists for, whose Claim row has moved on.\<close>

definition unmatched_revocation :: "hub_db \<Rightarrow> stream_row \<Rightarrow> device_ref \<Rightarrow> bool" where
  "unmatched_revocation db e ref \<longleftrightarrow>
     e \<in> set (revoked_events db) \<and> map_sum id fst (revoked_data (se_event e)) = Inr ref
     \<and> (\<forall>e' \<in> set (revoked_events db). ae_id (se_event e') = ae_id (se_event e) \<longrightarrow> e' = e)
     \<and> tget er_source_event_id (ae_id (se_event e)) (erase_operations db) = None
     \<and> map_option claim_row_ref (get_claim db (device_instance_id ref)) \<noteq> Some ref"

lemma unmatched_refused:
  assumes "map_sum id fst (revoked_data (se_event e)) = Inr ref"
    "tget er_source_event_id (ae_id (se_event e)) (erase_operations db) = None"
    "map_option claim_row_ref (get_claim db (device_instance_id ref)) \<noteq> Some ref"
  shows "\<exists>m. materialize_one x s ttl e db = Inl (Erase_idempotency_conflict m)"
proof -
  from assms(1) obtain reason where r: "revoked_data (se_event e) = Inr (ref, reason)"
    by (cases "revoked_data (se_event e)") auto
  have "er_source_event_id q \<noteq> ae_id (se_event e)"
    if "get_operation db (erase_operation_id x (ae_id (se_event e)) ref) = Some q" for q
    using assms(2) that by (force simp: get_operation_def tget_None_iff dest: tget_SomeD)
  with assms(2,3) show ?thesis
    unfolding materialize_one_def Let_def r andthen.simps prod.case
    by (auto simp: require_def split: option.splits)
qed

lemma unmatched_stops:
  assumes "e \<in> set rows" "map_sum id fst (revoked_data (se_event e)) = Inr ref"
    "\<forall>e' \<in> set rows. ae_id (se_event e') = ae_id (se_event e) \<longrightarrow> e' = e"
    "tget er_source_event_id (ae_id (se_event e)) (erase_operations db) = None"
    "map_option claim_row_ref (get_claim db (device_instance_id ref)) \<noteq> Some ref"
  shows "\<exists>err. materialize_each x s ttl rows db = Inl err"
  using assms(1,3-5)
proof (induction rows arbitrary: db)
  case (Cons row rows)
  show ?case
  proof (cases "row = e \<or> (\<exists>err. materialize_one x s ttl row db = Inl err)")
    case True
    then obtain err where "materialize_one x s ttl row db = Inl err"
      using unmatched_refused [OF assms(2) Cons.prems(3,4)] by blast
    then show ?thesis by simp
  next
    case False
    then obtain n db1 where one: "materialize_one x s ttl row db = Inr (n, db1)"
      by (cases "materialize_one x s ttl row db") auto
    have ne: "ae_id (se_event row) \<noteq> ae_id (se_event e)" using False Cons.prems(2) by auto
    from one have "tget er_source_event_id (ae_id (se_event e)) (erase_operations db1) = None
        \<and> get_claim db1 = get_claim db"
      using Cons.prems(3) ne
      by (cases rule: materialize_oneE) (auto simp: tget_None_iff get_claim_def fun_eq_iff)
    with Cons.IH [of db1] Cons.prems False obtain err where "materialize_each x s ttl rows db1 = Inl err"
      by auto
    with one show ?thesis by (simp add: andthen_err)
  qed
qed simp

text \<open>
  C17: one unmatched revocation stops erase for every device. If a device was claimed again
  before a pass saw its revocation, the pass raises, it creates no operation for any other
  revocation either, and every device's pull fails before its own operation is looked at.
\<close>

theorem erase_pass_stops_for_all:
  assumes "unmatched_revocation db e ref"
  shows "\<exists>err. materialize_claim_events x s ttl db = Inl err
    \<and> reconcile_erase x s ttl t0 db = (db, Inl err)
    \<and> pull_operation_route x s ttl t0 now t other key nonce sig db = (db, Failed err)"
proof -
  from assms have "\<exists>err. materialize_each x s ttl (revoked_events db) db = Inl err"
    unfolding unmatched_revocation_def by (intro unmatched_stops) blast+
  then obtain err where "materialize_claim_events x s ttl db = Inl err"
    by (cases "0 < ttl") (auto simp: materialize_claim_events_def)
  then show ?thesis by (simp add: reconcile_erase_def run_tx_def pull_operation_route_def)
qed

definition stranded :: "hub_db \<Rightarrow> device_ref \<Rightarrow> bool" where
  "stranded db ref =
     (case revoked_events db of
        [e] \<Rightarrow> map_sum id fst (revoked_data (se_event e)) = Inr ref \<and> erase_operations db = []
               \<and> map_option claim_row_ref (get_claim db (device_instance_id ref)) \<noteq> Some ref
      | _ \<Rightarrow> False)"

lemma stranded_unmatched: "stranded db ref \<Longrightarrow> \<exists>e. unmatched_revocation db e ref"
  by (auto simp: stranded_def unmatched_revocation_def split: list.splits)

theorem erase_pass_stops_for_all_witness:
  "\<exists>err. reconcile_erase small_world small_sdk 100 9 reclaimed_db = (reclaimed_db, Inl err)"
proof -
  have "stranded reclaimed_db device_d" by code_simp
  then obtain e where "unmatched_revocation reclaimed_db e device_d" using stranded_unmatched by blast
  from erase_pass_stops_for_all [OF this] show ?thesis by blast
qed

end
