(* ===== verification/Device_Scenario.thy ===== *)
theory Device_Scenario
  imports Erase_Scenario Channel_Binding
begin

text \<open>
  A database of one approved device and its Active Claim, as the worked Enrollment leaves the
  two tables, for properties of Device Control and of the Channel side; a Provider that
  grants and one that refuses.
\<close>

definition small_device :: managed_device where
  "small_device = \<lparr>md_identity = \<lparr>device_id = ''d''\<rparr>, md_display_name = ''n'', md_manifest_id = ''m'',
     md_manifest = \<lparr>canonical_json = '''', document_digest = zero_digest, declared_revision = 1\<rparr>,
     md_enrolled_at = 1, md_updated_at = 1, md_owner_domain_id = ''o'', md_owner_domain_generation = 1,
     md_claim_generation = 1, md_trust_epoch = 1, md_aggregate_revision = 1, md_owner_id = Some ''u'',
     md_lifecycle_state = Device_approved, md_last_management_request_id = '''',
     md_last_management_fingerprint = '''', md_output_policy = None\<rparr>"

definition small_claim :: claim_row where
  "small_claim = \<lparr>cl_device_instance_id = ''d'', cl_owner_domain_id = ''o'', cl_business_owner_id = ''u'',
     cl_hardware_identity_ref = ''h'', cl_owner_domain_generation = 1, cl_claim_generation = 1,
     cl_trust_epoch = 1, cl_manifest_ref = md_manifest_ref small_device,
     cl_approval_decision_id = ''c'', cl_operational_public_key_spki = ''AAAA'', cl_state = Active,
     cl_revision = 1, cl_activated_at = Some 1, cl_updated_at = 1, cl_revoked_at = None\<rparr>"

definition device_db :: hub_db where
  "device_db = empty_db\<lparr>devices := [device_values small_device], claims := [small_claim]\<rparr>"

text \<open>The second revision of its Manifest, declared under a digest of the device's own.\<close>

definition small_assertion :: manifest_assertion where
  "small_assertion = \<lparr>ma_device_ref = device_d, ma_public_key_spki = ''AAAA'', ma_nonce = ''n'',
     ma_manifest = \<lparr>pm_manifest_id = ''m'', pm_revision = 2,
       pm_digest = ''sha256:'' @ replicate 64 (CHR ''1''), pm_document = JObj []\<rparr>,
     ma_device_signature = ''s''\<rparr>"

definition owner_context :: actor_context where
  "owner_context = \<lparr>actor = \<lparr>principal_id = ''q'', actor_owner_domain_id = ''o'',
       granted_scopes = [''device.output-policy.write'', ''device.read'']\<rparr>,
     ctx_owner_domain_id = ''o'', ctx_business_owner_id = ''u''\<rparr>"

definition small_policy_command :: "string list \<Rightarrow> set_output_policy" where
  "small_policy_command allowed = \<lparr>sp_device_ref = device_d, sp_expected_revision = 0,
     sp_allowed = allowed, sp_inputs = None\<rparr>"

section \<open>Channels\<close>

definition small_channel_sdk :: channel_sdk where
  "small_channel_sdk = \<lparr>device_ref_json = device_instance_id, output_policy_json = (\<lambda>p. ''p'')\<rparr>"

definition small_channel :: channel_binding where
  "small_channel = \<lparr>cb_expires_at_ms = 10, cb_content = JNull\<rparr>"

fun granting :: transport where
  "granting route (Current_request ref) = Response 200 (Current_body None False)"
| "granting route (Provision_request op i ref host v) = Response 200 (Provision_body
     \<lparr>po_operation_id = i, po_device_ref = ref, po_manifest_revision = cd_manifest_revision v,
      po_output_policy = cd_output_policy v, po_channels = [small_channel]\<rparr>)"
| "granting route payload = No_response"

definition refusing :: transport where
  "refusing route payload = Response 409 (Problem_body ''X'' False ''eidolon-channel-provider'' None)"

definition small_resolve ::
  "transport \<Rightarrow> int \<Rightarrow> refusals \<Rightarrow> refusals \<times> provider_call list \<times> (exn + binding_resolution)" where
  "small_resolve tr now_ms rf =
     resolve_binding small_world small_sdk small_channel_sdk ''o'' device_db tr now_ms device_d '''' rf"

end
