(* ===== verification/Device_Properties.thy ===== *)
theory Device_Properties
  imports Device_Scenario
begin

text \<open>
  What Device Control promises of a device row: rows and values correspond, a change is
  committed on the very device it was planned for, an accepted Manifest assertion and a
  repeated one, a repeated output policy, and a directory that shows what the rows say.
\<close>

section \<open>Rows and values\<close>

text \<open>The invariants of a \<open>ManagedDevice\<close> of the Owner Domain \<open>od\<close>.\<close>

definition device_valid :: "external \<Rightarrow> string \<Rightarrow> managed_device \<Rightarrow> bool" where
  "device_valid x od d \<longleftrightarrow>
     strip (device_id (md_identity d)) \<noteq> [] \<and> md_owner_domain_id d = od
     \<and> manifest_text_ok x (canonical_json (md_manifest d)) = Inr ()
     \<and> 1 \<le> declared_revision (md_manifest d)
     \<and> document_digest (md_manifest d) = digest_of x (canonical_json (md_manifest d))
     \<and> strip (md_manifest_id d) \<noteq> [] \<and> (\<exists>i. md_owner_id d = Some i \<and> strip i \<noteq> [])
     \<and> 1 \<le> md_owner_domain_generation d \<and> 1 \<le> md_claim_generation d \<and> 1 \<le> md_trust_epoch d
     \<and> 1 \<le> md_aggregate_revision d"

lemma decode_valid:
  assumes "decode_device x od row = Inr d"
  shows "device_valid x od d"
  using decodedD [OF assms] by (auto simp: device_valid_def ok_iff)

lemma decode_written:
  assumes "device_valid x od d"
  shows "decode_device x od (device_values d) = Inr d"
  using assms by (intro decode_device_values) (auto simp: device_valid_def ok_iff)

text \<open>
  A device row is read as a device exactly if the device is valid and the row is the one
  that is written for it; so reading what was written gives the device back, and writing what
  was read gives the row back.
\<close>

lemma device_row_round_trip:
  "decode_device x od row = Inr d \<longleftrightarrow> device_valid x od d \<and> row = device_values d"
  using device_values_decode decode_valid decode_written by metis

lemma get_written:
  assumes "get_device_row db i = Some (device_values d)" "device_valid x od d"
  shows "get_device x od db i = Inr (Some d)"
  using assms by (simp add: get_device_ok decode_written)

section \<open>Changes are compared and set\<close>

lemma device_change_read:
  assumes "device_change x od current d db db'" "device_valid x od d"
  shows "get_device x od db' i =
    (if i = device_id (md_identity current) then Inr (Some d) else get_device x od db i)"
proof -
  from assms(1) have "get_device_row db' i = (if i = device_id (md_identity current)
      then Some (device_values d) else get_device_row db i)"
    using upsert_device_row [of d db i]
    by (simp add: device_change_def same_claim_def get_device_row_def)
  then show ?thesis using decode_written [OF assms(2)] by (simp add: get_device_def)
qed

lemma device_change_valid:
  assumes "device_change x od current d db db'" "managed_device_new d = Inr d"
    "md_manifest d = md_manifest current
       \<or> manifest_document_new x (canonical_json (md_manifest d)) (document_digest (md_manifest d))
           (declared_revision (md_manifest d)) = Inr (md_manifest d)"
  shows "device_valid x od d"
proof -
  from assms(1) obtain row where "decode_device x od row = Inr current"
    by (auto simp: device_change_def get_device_ok)
  then have "device_valid x od current" by (rule decode_valid)
  with assms show ?thesis
    by (auto simp: device_valid_def device_change_def same_claim_def ok_iff)
qed

lemma commit_policy_valid:
  assumes "commit_policy x s od now i c ctx current p db = Inr (d, db')"
  shows "device_valid x od (with_policy current p now)"
proof -
  note ch = commit_policy_change [OF assms]
  from assms have "managed_device_new (with_policy current p now) = Inr (with_policy current p now)"
    by (auto simp: commit_policy_def ok_iff)
  with ch show ?thesis by (auto intro!: device_change_valid simp: with_policy_def)
qed

lemma commit_manifest_valid:
  assumes "commit_manifest x s od now i a current accepted db = Inr (d, db')"
    "from_declaration x s document revision = Inr accepted"
  shows "device_valid x od (with_manifest current accepted now)"
proof -
  note ch = commit_manifest_change [OF assms(1)]
  from assms(1) have "managed_device_new (with_manifest current accepted now)
      = Inr (with_manifest current accepted now)"
    by (auto simp: commit_manifest_def ok_iff)
  moreover from from_declarationD [OF assms(2)] have
    "manifest_document_new x (canonical_json accepted) (document_digest accepted)
       (declared_revision accepted) = Inr accepted"
    by (simp add: ok_iff)
  ultimately show ?thesis using ch by (auto intro!: device_change_valid simp: with_manifest_def)
qed

section \<open>Manifests\<close>

text \<open>What an assertion is checked against: its Claim, its signature and its device.\<close>

definition assertion_stands ::
  "external \<Rightarrow> device_sdk \<Rightarrow> string \<Rightarrow> manifest_assertion \<Rightarrow> hub_db \<Rightarrow> managed_device \<Rightarrow> bool" where
  "assertion_stands x s od a db current \<longleftrightarrow>
     (let ref = ma_device_ref a
      in (\<exists>claim. ledger_get_claim db (device_instance_id ref) (ref_owner_domain_id ref) = Some claim
            \<and> cj_state claim = Active
            \<and> same_operational_key (Some (cj_operational_public_key_spki claim)) (ma_public_key_spki a))
         \<and> verify_p256_signature s (ma_public_key_spki a) (Manifest_assertion_doc a)
             (ma_device_signature a) = Inr ()
         \<and> get_device x od db (device_instance_id ref) = Inr (Some current)
         \<and> md_device_ref current = Some ref
         \<and> pm_manifest_id (ma_manifest a) = md_manifest_id current)"

lemma plan_manifest_ok:
  "plan_manifest x s od a db = Inr plan \<longleftrightarrow>
   (\<exists>current accepted. assertion_stands x s od a db current
      \<and> from_declaration x s (pm_document (ma_manifest a)) (pm_revision (ma_manifest a)) = Inr accepted
      \<and> (plan = Manifest_unchanged (md_manifest_ref current) \<and> pm_ref (ma_manifest a) = md_manifest_ref current
         \<or> plan = Manifest_newer current accepted
             \<and> declared_revision (md_manifest current) < pm_revision (ma_manifest a)))"
  unfolding plan_manifest_def Let_def andthen_ok require_ok present_ok assertion_stands_def
  by (auto simp: ok_iff pm_ref_def md_manifest_ref_def split: if_splits)

lemma plan_manifest_reused:
  assumes "assertion_stands x s od a db current"
    "from_declaration x s (pm_document (ma_manifest a)) (pm_revision (ma_manifest a)) = Inr accepted"
    "pm_revision (ma_manifest a) = declared_revision (md_manifest current)"
    "pm_ref (ma_manifest a) \<noteq> md_manifest_ref current"
  shows "plan_manifest x s od a db
    = Inl (Manifest_revision_conflict ''manifest revision was reused for different content'')"
  using assms unfolding plan_manifest_def assertion_stands_def Let_def by auto

lemma project_device_ok:
  assumes "project_device x od db i dir = Inr (e, dir')"
  shows "\<exists>d. get_device x od db i = Inr (Some d) \<and> e = entry_of i d \<and> dir' = directory_upsert e dir"
  using assms by (auto simp: project_device_def ok_iff)

lemma directory_upsert_get:
  "tget de_device_id i (directory_upsert e dir) =
     (if i = de_device_id e then Some e else tget de_device_id i dir)"
  by (auto simp: directory_upsert_def tget_tupd_const tget_append tget_Cons split: option.splits)

definition manifest_effect ::
  "external \<Rightarrow> string \<Rightarrow> instant \<Rightarrow> manifest_assertion \<Rightarrow> managed_device \<Rightarrow> manifest_document \<Rightarrow>
   hub_db \<times> directory \<Rightarrow> hub_db \<times> directory \<Rightarrow> bool" where
  "manifest_effect x od now a current mf st st' \<longleftrightarrow>
     (let device = device_instance_id (ma_device_ref a); d = with_manifest current mf now
      in claims (fst st') = claims (fst st)
         \<and> (\<forall>i. get_device x od (fst st') i =
               (if i = device then Inr (Some d) else get_device x od (fst st) i))
         \<and> (\<forall>i. tget de_device_id i (snd st') =
               (if i = device then Some (entry_of i d) else tget de_device_id i (snd st))))"

lemma accept_manifestE:
  assumes "accept_manifest x s od now t a st = (st', Inr m)"
  obtains (unchanged) current where "assertion_stands x s od a (fst st) current"
      "m = acceptance a (pm_ref (ma_manifest a)) ''unchanged'' t" "st' = st"
      "pm_ref (ma_manifest a) = md_manifest_ref current"
  | (accepted) current mf where "assertion_stands x s od a (fst st) current"
      "m = acceptance a (pm_ref (ma_manifest a)) ''accepted'' t"
      "from_declaration x s (pm_document (ma_manifest a)) (pm_revision (ma_manifest a)) = Inr mf"
      "declared_revision (md_manifest current) < declared_revision mf"
      "manifest_effect x od now a current mf st st'"
proof -
  obtain db dir where st: "st = (db, dir)" by (cases st)
  let ?i = "device_instance_id (ma_device_ref a)"
  from assms obtain plan where plan: "plan_manifest x s od a db = Inr plan"
    by (auto simp: accept_manifest_def st split: sum.splits)
  then obtain current mf where stands: "assertion_stands x s od a db current"
    and f: "from_declaration x s (pm_document (ma_manifest a)) (pm_revision (ma_manifest a)) = Inr mf"
    and p: "plan = Manifest_unchanged (md_manifest_ref current) \<and> pm_ref (ma_manifest a) = md_manifest_ref current
      \<or> plan = Manifest_newer current mf \<and> declared_revision (md_manifest current) < pm_revision (ma_manifest a)"
    unfolding plan_manifest_ok by blast
  from p show thesis
  proof
    assume "plan = Manifest_unchanged (md_manifest_ref current) \<and> pm_ref (ma_manifest a) = md_manifest_ref current"
    with assms plan stands show thesis
      by (intro unchanged [of current]) (auto simp: accept_manifest_def st)
  next
    assume newer: "plan = Manifest_newer current mf
      \<and> declared_revision (md_manifest current) < pm_revision (ma_manifest a)"
    obtain ev db1 where n: "new_id x ''manifest-acceptance'' db = (ev, db1)"
      by (cases "new_id x ''manifest-acceptance'' db")
    then have same: "get_device x od db1 i = get_device x od db i" "claims db1 = claims db" for i
      by (auto simp: new_id_def get_device_def get_device_row_def)
    from assms plan newer n obtain k db2 e dir2 where
      k: "commit_manifest x s od now ev a current mf db1 = Inr (k, db2)" and
      pr: "project_device x od db2 ?i dir = Inr (e, dir2)" and
      st': "st' = (db2, dir2)" "m = acceptance a (pm_ref (ma_manifest a)) ''accepted'' t"
      by (auto simp: accept_manifest_def st split: sum.splits)
    have id: "device_id (md_identity current) = ?i"
      using stands get_device_id by (auto simp: assertion_stands_def Let_def)
    note ch = commit_manifest_change [OF k] and v = commit_manifest_valid [OF k f]
    from device_change_read [OF ch(2) [unfolded ch(1)] v] same have
      r: "get_device x od db2 i = (if i = ?i then Inr (Some (with_manifest current mf now))
            else get_device x od db i)" for i by (simp add: id)
    from project_device_ok [OF pr] r have
      e: "e = entry_of ?i (with_manifest current mf now)" "dir2 = directory_upsert e dir" by auto
    from e have "tget de_device_id i dir2 = (if i = ?i then Some (entry_of i (with_manifest current mf now))
        else tget de_device_id i dir)" for i
      by (simp add: directory_upsert_get) (simp add: entry_of_def)
    moreover from ch(2) same have "claims db2 = claims db" by (auto simp: device_change_def)
    ultimately have "manifest_effect x od now a current mf st st'"
      using r by (simp add: manifest_effect_def Let_def st st'(1))
    with stands st' f newer from_declarationD(1) [OF f] show thesis
      by (intro accepted [of current mf]) (simp_all add: st)
  qed
qed

text \<open>
  C18: what an answered Manifest assertion means. It was signed with the operational key of
  the Active Claim it names, and it is about that Claim's device. Answered "unchanged",
  nothing changed and the device already declares exactly this Manifest; answered otherwise,
  its revision is newer, the device now holds the declared content, with nothing else of it
  changed, no other device is touched, and the directory shows it.
\<close>

theorem manifest_assertion_effect:
  assumes "accept_manifest x s od now t a st = (st', Inr m)"
  shows "\<exists>current. assertion_stands x s od a (fst st) current
    \<and> mc_accepted m = pm_ref (ma_manifest a)
    \<and> (if mc_outcome m = ''unchanged'' then st' = st \<and> md_manifest_ref current = pm_ref (ma_manifest a)
       else \<exists>mf. from_declaration x s (pm_document (ma_manifest a)) (pm_revision (ma_manifest a)) = Inr mf
              \<and> declared_revision (md_manifest current) < declared_revision mf
              \<and> manifest_effect x od now a current mf st st')"
  using assms by (cases rule: accept_manifestE) (auto simp: acceptance_def)

lemma asserted_outcome: "map_sum id mc_outcome
    (snd (accept_manifest small_world small_sdk ''o'' 6 6 small_assertion (device_db, []))) = Inr ''accepted''"
  by code_simp

lemma assertedE:
  obtains st' m where "accept_manifest small_world small_sdk ''o'' 6 6 small_assertion (device_db, [])
      = (st', Inr m)" "mc_outcome m = ''accepted''"
  using asserted_outcome
  by (cases "accept_manifest small_world small_sdk ''o'' 6 6 small_assertion (device_db, [])";
      cases "snd (accept_manifest small_world small_sdk ''o'' 6 6 small_assertion (device_db, []))")
    auto

theorem manifest_assertion_effect_witness:
  "\<exists>current mf st'. assertion_stands small_world small_sdk ''o'' small_assertion device_db current
    \<and> declared_revision (md_manifest current) < declared_revision mf
    \<and> manifest_effect small_world ''o'' 6 small_assertion current mf (device_db, []) st'"
proof (rule assertedE)
  fix st' m
  assume a: "accept_manifest small_world small_sdk ''o'' 6 6 small_assertion (device_db, [])
      = (st', Inr m)" "mc_outcome m = ''accepted''"
  from manifest_assertion_effect [OF a(1)] a(2) show ?thesis by (auto simp del: split_paired_Ex)
qed

text \<open>
  An accepted Manifest cannot be asserted again if the Host's own text of the document
  has another digest than the device declared. The Host stores the digest of its text, so
  the same assertion, answered "accepted" before, is refused from then on.
\<close>

theorem manifest_reassertion_refused:
  assumes "accept_manifest x s od now t a st = (st', Inr m)" "mc_outcome m = ''accepted''"
    "pm_digest (ma_manifest a) \<noteq> digest_of x (json_dumps s (pm_document (ma_manifest a)))"
  shows "accept_manifest x s od now2 t2 a st'
    = (st', Inl (Manifest_revision_conflict ''manifest revision was reused for different content''))"
  using assms(1)
proof (cases rule: accept_manifestE)
  case (unchanged current)
  with assms(2) show ?thesis by (simp add: acceptance_def)
next
  case (accepted current mf)
  let ?d = "with_manifest current mf now"
  have "claims (fst st') = claims (fst st)"
    "get_device x od (fst st') (device_instance_id (ma_device_ref a)) = Inr (Some ?d)"
    using accepted(5) by (simp_all add: manifest_effect_def Let_def)
  moreover have "md_device_ref ?d = md_device_ref current" "md_manifest_id ?d = md_manifest_id current"
    by (simp_all add: with_manifest_def md_device_ref_def)
  ultimately have "assertion_stands x s od a (fst st') ?d"
    using accepted(1) by (simp add: assertion_stands_def Let_def ledger_get_claim_def get_claim_def)
  then have "plan_manifest x s od a (fst st') = Inl (Manifest_revision_conflict
      ''manifest revision was reused for different content'')"
    using accepted(3) from_declarationD [OF accepted(3)] assms(3)
    by (intro plan_manifest_reused [where current = ?d and accepted = mf])
      (simp_all add: with_manifest_def pm_ref_def md_manifest_ref_def)
  then show ?thesis by (cases st') (simp add: accept_manifest_def)
qed

theorem manifest_reassertion_refused_witness:
  "\<exists>st' m. accept_manifest small_world small_sdk ''o'' 6 6 small_assertion (device_db, [])
       = (st', Inr m) \<and> mc_outcome m = ''accepted''
    \<and> accept_manifest small_world small_sdk ''o'' 9 9 small_assertion st'
       = (st', Inl (Manifest_revision_conflict ''manifest revision was reused for different content''))"
proof (rule assertedE)
  fix st' m
  assume a: "accept_manifest small_world small_sdk ''o'' 6 6 small_assertion (device_db, [])
      = (st', Inr m)" "mc_outcome m = ''accepted''"
  have "pm_digest (ma_manifest small_assertion)
      \<noteq> digest_of small_world (json_dumps small_sdk (pm_document (ma_manifest small_assertion)))"
    by code_simp
  from manifest_reassertion_refused [OF a this, of 9 9] a show ?thesis by blast
qed

section \<open>Output policies\<close>

lemma plan_policy_change:
  assumes "plan_policy x od c ctx db = Inr (Policy_change current p)"
  shows "owned_device x od db (sp_device_ref c) ctx = Inr current"
    "require_scope ctx policy_write_scope = Inr ()"
    "policy_revision current = sp_expected_revision c" "p = next_policy current c"
  using assms by (auto simp: plan_policy_def ok_iff split: if_splits option.splits)

lemma owned_device_ok [ok_iff]:
  "owned_device x od db ref ctx = Inr d \<longleftrightarrow>
   get_device x od db (device_instance_id ref) = Inr (Some d) \<and> md_lifecycle_state d = Device_approved
   \<and> ctx_owner_domain_id ctx = md_owner_domain_id d \<and> Some (ctx_business_owner_id ctx) = md_owner_id d
   \<and> md_device_ref d = Some ref"
  by (auto simp: owned_device_def ok_iff)

lemma policy_committed:
  assumes "plan_policy x od c ctx seen = Inr (Policy_change current p)"
    "commit_policy x s od now i c ctx current p db = Inr (d, db')"
  shows "d = with_policy current p now" "p = next_policy current c"
    "get_device x od db (device_instance_id (sp_device_ref c)) = Inr (Some current)"
    "get_device x od db' (device_instance_id (sp_device_ref c)) = Inr (Some (with_policy current p now))"
    "owned_device x od db' (sp_device_ref c) ctx = Inr (with_policy current p now)"
proof -
  note pl = plan_policy_change [OF assms(1)]
  note ch = commit_policy_change [OF assms(2)] and v = commit_policy_valid [OF assms(2)]
  have id: "device_id (md_identity current) = device_instance_id (sp_device_ref c)"
    using pl(1) get_device_id by (auto simp: ok_iff)
  from ch show "d = with_policy current p now"
    "get_device x od db (device_instance_id (sp_device_ref c)) = Inr (Some current)"
    by (simp_all add: device_change_def id)
  from device_change_read [OF ch(2) [unfolded ch(1)] v] show
    r: "get_device x od db' (device_instance_id (sp_device_ref c)) = Inr (Some (with_policy current p now))"
    by (simp add: id)
  show "p = next_policy current c" by (rule pl(4))
  have "md_device_ref (with_policy current p now) = md_device_ref current"
    by (simp add: with_policy_def md_device_ref_def)
  with pl(1) r show "owned_device x od db' (sp_device_ref c) ctx = Inr (with_policy current p now)"
    by (simp add: ok_iff) (simp add: with_policy_def)
qed

text \<open>
  An output policy update may be sent again. Once it is committed, the same command finds
  its own effect for as long as the device's row stands: it changes nothing and answers with
  the same policy.
\<close>

lemma policy_update_repeatable:
  assumes "plan_policy x od c ctx seen = Inr (Policy_change current p)"
    and "commit_policy x s od now i c ctx current p db = Inr (d, db')"
    and "get_device x od later (device_instance_id (sp_device_ref c))
      = get_device x od db' (device_instance_id (sp_device_ref c))"
  shows "update_output_policy x s od None now2 c ctx later = (later, Inr p)"
proof -
  note pl = plan_policy_change [OF assms(1)] and cm = policy_committed [OF assms(1,2)]
  let ?d = "with_policy current p now"
  have "owned_device x od later (sp_device_ref c) ctx = Inr ?d"
    using cm(5) unfolding owned_device_ok assms(3) by simp
  moreover have "policy_revision ?d \<noteq> sp_expected_revision c" "md_output_policy ?d = Some p"
    "already_applied ?d c"
    using pl(3) cm(2)
    by (auto simp: policy_revision_def with_policy_def next_policy_def already_applied_def split: option.splits)
  ultimately have "plan_policy x od c ctx later = Inr (Policy_applied p)"
    using pl(2) by (simp add: plan_policy_def)
  then show ?thesis by (simp add: update_output_policy_def notify_changed_def)
qed

definition planned_and_committed ::
  "external \<Rightarrow> device_sdk \<Rightarrow> string \<Rightarrow> instant \<Rightarrow> string \<Rightarrow> set_output_policy \<Rightarrow> actor_context \<Rightarrow> hub_db \<Rightarrow>
   output_policy option" where
  "planned_and_committed x s od now i c ctx db =
     (case plan_policy x od c ctx db of
        Inr (Policy_change current p) \<Rightarrow>
          (case commit_policy x s od now i c ctx current p db of Inr _ \<Rightarrow> Some p | Inl e \<Rightarrow> None)
      | _ \<Rightarrow> None)"

lemma planned_and_committedE:
  assumes "planned_and_committed x s od now i c ctx db = Some p"
  obtains current d db' where "plan_policy x od c ctx db = Inr (Policy_change current p)"
    "commit_policy x s od now i c ctx current p db = Inr (d, db')"
  using assms by (auto simp: planned_and_committed_def split: sum.splits policy_plan.splits)

abbreviation small_committed :: "string list \<Rightarrow> output_policy option" where
  "small_committed allowed \<equiv> planned_and_committed small_world small_sdk ''o'' 6 ''e''
     (small_policy_command allowed) owner_context device_db"

text \<open>
  Of two updates planned on the same device state only one is committed. Two Owners' apps
  that read the same revision cannot overwrite each other: after the first commit the second
  is refused as a concurrent mutation, and changes nothing.
\<close>

theorem policy_updates_exclude:
  assumes "plan_policy x od c ctx seen = Inr (Policy_change current p)"
    and "plan_policy x od c2 ctx2 seen = Inr (Policy_change current2 p2)"
    and "sp_device_ref c2 = sp_device_ref c"
    and "commit_policy x s od now i c ctx current p db = Inr (d, db')"
  shows "\<nexists>d2 db2. commit_policy x s od now2 i2 c2 ctx2 current2 p2 db' = Inr (d2, db2)"
proof
  assume "\<exists>d2 db2. commit_policy x s od now2 i2 c2 ctx2 current2 p2 db' = Inr (d2, db2)"
  then obtain d2 db2 where c2: "commit_policy x s od now2 i2 c2 ctx2 current2 p2 db' = Inr (d2, db2)" by blast
  have "current2 = current"
    using plan_policy_change(1) [OF assms(1)] plan_policy_change(1) [OF assms(2)] assms(3)
    by (simp add: ok_iff)
  with policy_committed(3) [OF assms(2) c2] policy_committed(4) [OF assms(1,4)] assms(3)
  have "with_policy current p now = current" by simp
  then have "md_aggregate_revision (with_policy current p now) = md_aggregate_revision current" by simp
  then show False by (simp add: with_policy_def)
qed

theorem policy_updates_exclude_witness:
  "\<exists>db' current p. plan_policy small_world ''o'' (small_policy_command [''w'']) owner_context device_db
      = Inr (Policy_change current p)
    \<and> (\<nexists>d2 db2. commit_policy small_world small_sdk ''o'' 7 ''f'' (small_policy_command [''w'']) owner_context
         current p db' = Inr (d2, db2))"
proof -
  let ?v = "small_policy_command [''v'']" and ?w = "small_policy_command [''w'']"
  have "small_committed [''v''] \<noteq> None \<and> small_committed [''w''] \<noteq> None" by code_simp
  then obtain p p2 where "small_committed [''v''] = Some p" "small_committed [''w''] = Some p2" by auto
  from this(1) obtain current d db' where
    v: "plan_policy small_world ''o'' ?v owner_context device_db = Inr (Policy_change current p)"
    "commit_policy small_world small_sdk ''o'' 6 ''e'' ?v owner_context current p device_db = Inr (d, db')"
    by (rule planned_and_committedE)
  from \<open>small_committed [''w''] = Some p2\<close> obtain current2 where
    w: "plan_policy small_world ''o'' ?w owner_context device_db = Inr (Policy_change current2 p2)"
    by (rule planned_and_committedE)
  have "sp_device_ref ?w = sp_device_ref ?v" by (simp add: small_policy_command_def)
  from policy_updates_exclude [OF v(1) w this v(2), of 7 "''f''"] w show ?thesis
    by (intro exI conjI)
qed

section \<open>The directory\<close>

definition mirrors :: "external \<Rightarrow> string \<Rightarrow> hub_db \<Rightarrow> directory \<Rightarrow> bool" where
  "mirrors x od db dir \<longleftrightarrow>
     (\<forall>i. tget de_device_id i dir =
        (case get_device x od db i of Inr (Some d) \<Rightarrow> Some (entry_of i d) | _ \<Rightarrow> None))"

lemma entry_of_id [simp]: "de_device_id (entry_of i d) = i"
  by (simp add: entry_of_def)

lemma project_each_get:
  assumes "project_each x od db ds dir = (dir', Inr es)"
  shows "tget de_device_id i dir' =
    (if i \<in> (\<lambda>d. device_id (md_identity d)) ` set ds
     then (case get_device x od db i of Inr (Some d) \<Rightarrow> Some (entry_of i d) | _ \<Rightarrow> None)
     else tget de_device_id i dir)"
  using assms
proof (induction ds arbitrary: dir es)
  case (Cons d ds)
  let ?j = "device_id (md_identity d)"
  from Cons.prems obtain e dir1 es1 where
    p: "project_device x od db ?j dir = Inr (e, dir1)" "project_each x od db ds dir1 = (dir', Inr es1)"
    by (auto split: sum.splits prod.splits)
  from project_device_ok [OF p(1)] obtain m where
    m: "get_device x od db ?j = Inr (Some m)" "e = entry_of ?j m" "dir1 = directory_upsert e dir" by blast
  from Cons.IH [OF p(2)] m show ?case by (auto simp: directory_upsert_get)
qed simp

lemma decode_all_ids:
  "decode_all x od rows = Inr ds \<Longrightarrow> map (\<lambda>d. device_id (md_identity d)) ds = map dv_device_id rows"
  by (induction rows arbitrary: ds) (auto simp: ok_iff dest: decodedD(1))

lemma mirrors_hydrated:
  assumes "project_all x od db [] = (dir, Inr es)"
  shows "mirrors x od db dir"
proof -
  from assms obtain ds where ds: "list_devices x od db = Inr ds" "project_each x od db ds [] = (dir, Inr es)"
    by (auto simp: project_all_def split: sum.splits)
  from decode_all_ids [OF ds(1) [unfolded list_devices_def]]
  have ids: "(\<lambda>d. device_id (md_identity d)) ` set ds = dv_device_id ` set (devices db)"
    by (metis image_set set_order_by)
  have "get_device x od db i = Inr None" if "i \<notin> dv_device_id ` set (devices db)" for i
    using that by (simp add: get_device_ok get_device_row_def tget_None_iff)
  with project_each_get [OF ds(2)] show ?thesis by (simp add: mirrors_def ids)
qed

lemma mirrors_asserted:
  assumes "accept_manifest x s od now t a (db, dir) = ((db', dir'), Inr m)" "mirrors x od db dir"
  shows "mirrors x od db' dir'"
  using assms(1)
proof (cases rule: accept_manifestE)
  case (unchanged current)
  with assms(2) show ?thesis by simp
next
  case (accepted current mf)
  with assms(2) show ?thesis by (simp add: manifest_effect_def mirrors_def Let_def)
qed

fun assert_all ::
  "external \<Rightarrow> device_sdk \<Rightarrow> string \<Rightarrow> (instant \<times> instant \<times> manifest_assertion) list \<Rightarrow>
   hub_db \<times> directory \<Rightarrow> exn + hub_db \<times> directory" where
  "assert_all x s od [] st = Inr st"
| "assert_all x s od ((now, t, a) # as) st =
     (case accept_manifest x s od now t a st of
        (st', Inl e) \<Rightarrow> Inl e
      | (st', Inr m) \<Rightarrow> assert_all x s od as st')"

lemma mirrors_all:
  "assert_all x s od as st = Inr st' \<Longrightarrow> mirrors x od (fst st) (snd st) \<Longrightarrow> mirrors x od (fst st') (snd st')"
proof (induction as arbitrary: st)
  case (Cons q as)
  obtain now t a where q: "q = (now, t, a)" by (cases q)
  from Cons.prems(1) obtain st1 m where s1: "accept_manifest x s od now t a st = (st1, Inr m)"
      "assert_all x s od as st1 = Inr st'"
    by (auto simp: q split: prod.splits sum.splits)
  have "mirrors x od (fst st1) (snd st1)"
    using mirrors_asserted [of x s od now t a "fst st" "snd st" "fst st1" "snd st1" m] s1(1) Cons.prems(2)
    by simp
  from Cons.IH [OF s1(2) this] show ?case .
qed simp

text \<open>
  C19: the directory is a faithful copy of the device rows: filled at start, and kept through
  any sequence of answered Manifest assertions, a lookup for an Owner gives exactly the entry
  of the device row, if that Owner owns it.
\<close>

theorem directory_refines_rows:
  assumes "project_all x od db [] = (dir, Inr es)" "assert_all x s od as (db, dir) = Inr (db', dir')"
  shows "directory_get dir' owner i =
    (case get_device x od db' i of
       Inr (Some d) \<Rightarrow> if de_owner_scope (entry_of i d) = owner then Some (entry_of i d) else None
     | _ \<Rightarrow> None)"
  using mirrors_all [OF assms(2)] mirrors_hydrated [OF assms(1)]
  by (simp add: mirrors_def directory_get_def split: sum.split option.split)

lemma policy_update_stales_directory:
  assumes "plan_policy x od c ctx seen = Inr (Policy_change current p)"
    "commit_policy x s od now i c ctx current p db = Inr (d, db')" "now \<noteq> md_updated_at current"
    "mirrors x od db dir"
  shows "\<not> mirrors x od db' dir"
proof
  let ?i = "device_instance_id (sp_device_ref c)"
  assume "mirrors x od db' dir"
  with policy_committed(4) [OF assms(1,2)]
  have "tget de_device_id ?i dir = Some (entry_of ?i (with_policy current p now))" by (simp add: mirrors_def)
  moreover from assms(4) policy_committed(3) [OF assms(1,2)]
  have "tget de_device_id ?i dir = Some (entry_of ?i current)" by (simp add: mirrors_def)
  ultimately have "de_updated_at (entry_of ?i (with_policy current p now)) = de_updated_at (entry_of ?i current)"
    by simp
  with assms(3) show False by (simp add: entry_of_def with_policy_def)
qed

theorem directory_refines_rows_witness:
  "\<exists>dir db' dir' d. project_all small_world ''o'' device_db [] = (dir, Inr [entry_of ''d'' small_device])
    \<and> assert_all small_world small_sdk ''o'' [(6, 6, small_assertion)] (device_db, dir) = Inr (db', dir')
    \<and> directory_get dir' ''u'' ''d'' = Some (entry_of ''d'' d)"
proof -
  have "(case project_all small_world ''o'' device_db [] of
      (dir, Inr es) \<Rightarrow> es = [entry_of ''d'' small_device]
        \<and> (case assert_all small_world small_sdk ''o'' [(6, 6, small_assertion)] (device_db, dir) of
             Inr (db', dir') \<Rightarrow> directory_get dir' ''u'' ''d'' \<noteq> None | Inl e \<Rightarrow> False)
    | _ \<Rightarrow> False)"
    by code_simp
  then obtain dir db' dir' where p: "project_all small_world ''o'' device_db [] = (dir, Inr [entry_of ''d'' small_device])"
      "assert_all small_world small_sdk ''o'' [(6, 6, small_assertion)] (device_db, dir) = Inr (db', dir')"
      "directory_get dir' ''u'' ''d'' \<noteq> None"
    by (auto split: prod.splits sum.splits)
  from directory_refines_rows [OF p(1,2), of "''u''" "''d''"] p(3) obtain d where
    "directory_get dir' ''u'' ''d'' = Some (entry_of ''d'' d)"
    by (auto split: sum.splits option.splits if_splits)
  with p(1,2) show ?thesis by blast
qed

end
