(* ===== verification/Channel_Properties.thy ===== *)
theory Channel_Properties
  imports Device_Scenario
begin

text \<open>
  What the Channel side promises: which channels a device is given, that a refusal is
  remembered and the memory stays bounded, and that a revoked Claim reaches the Provider.
\<close>

section \<open>Bindings\<close>

definition current_answer :: "transport \<Rightarrow> int \<Rightarrow> managed_device \<Rightarrow> device_ref \<Rightarrow> channel_binding list \<Rightarrow> bool" where
  "current_answer tr now_ms d ref channels \<longleftrightarrow>
     (\<exists>c. client_current tr ref = Inr (Some c) \<and> channels = cu_channels c \<and> \<not> cu_refresh_required c
        \<and> cu_manifest_revision c = document_digest (md_manifest d) \<and> cu_output_policy c = md_output_policy d
        \<and> now_ms < cb_expires_at_ms (hd channels))"

definition fresh_answer :: "transport \<Rightarrow> int \<Rightarrow> managed_device \<Rightarrow> device_ref \<Rightarrow> channel_binding list \<Rightarrow> bool" where
  "fresh_answer tr now_ms d ref channels \<longleftrightarrow>
     (\<exists>i v. br_device_ref v = ref \<and> br_manifest_revision v = document_digest (md_manifest d)
        \<and> br_output_policy v = md_output_policy d \<and> md_owner_id d = Some (br_owner_id v)
        \<and> (client_provision tr i v = Inr channels \<or> client_refresh tr i v = Inr channels)
        \<and> channels \<noteq> [] \<and> now_ms < cb_expires_at_ms (hd channels))"

lemma unexpired_ok [ok_iff]:
  "unexpired cs now_ms = Inr cs' \<longleftrightarrow> cs' = cs \<and> cs \<noteq> [] \<and> now_ms < cb_expires_at_ms (hd cs)"
  by (auto simp: unexpired_def split: list.splits)

lemma ask_provider_sound:
  assumes "ask_provider x cs tr now_ms d v = (calls, Inr channels)"
    "br_manifest_revision v = document_digest (md_manifest d)" "br_output_policy v = md_output_policy d"
    "md_owner_id d = Some (br_owner_id v)"
  shows "current_answer tr now_ms d (br_device_ref v) channels \<or> fresh_answer tr now_ms d (br_device_ref v) channels"
  using assms
  by (auto simp: ask_provider_def Let_def current_answer_def fresh_answer_def still_good_def ok_iff
      split: sum.splits option.splits if_splits)

lemma ask_provider_calls: "ask_provider x cs tr now_ms d v = (calls, r) \<Longrightarrow> calls \<noteq> []"
  by (auto simp: ask_provider_def Let_def split: sum.splits option.splits if_splits)

lemma resolve_deviceE:
  assumes "resolve_device x s cs tr now_ms ref host d owner rf = (rf', calls, r)"
  obtains (local) p where "rf' = rf" "calls = []" "r = Inr (binding_refused p) \<or> (\<exists>e. r = Inl e)"
  | (asked) manifest channels where "json_loads x (canonical_json (md_manifest d)) = Some manifest"
      "policy_missing s d manifest = Inr False"
      "cached_refusal (device_instance_id ref) (binding_fingerprint x cs ref d owner host) rf = None"
      "ask_provider x cs tr now_ms d (binding_values ref d owner manifest host) = (calls, Inr channels)"
      "rf' = forget_refusal (device_instance_id ref) rf" "r = Inr (bound_to channels)"
  | (refused) manifest e where "json_loads x (canonical_json (md_manifest d)) = Some manifest"
      "policy_missing s d manifest = Inr False" "\<exists>entries. manifest = JObj entries"
      "ask_provider x cs tr now_ms d (binding_values ref d owner manifest host) = (calls, Inl e)"
      "(rf', r) = provider_refusal (device_instance_id ref) (binding_fingerprint x cs ref d owner host) e
                    (forget_refusal (device_instance_id ref) rf)"
proof -
  note a = assms [unfolded resolve_device_def Let_def]
  show thesis
  proof (cases "\<exists>entries. json_loads x (canonical_json (md_manifest d)) = Some (JObj entries)")
    case False
    with a have "rf' = rf \<and> calls = [] \<and> (\<exists>p. r = Inr (binding_refused p))"
      by (auto split: option.splits json.splits)
    then show thesis using local by blast
  next
    case True
    then obtain entries where l: "json_loads x (canonical_json (md_manifest d)) = Some (JObj entries)" by blast
    note a = a [unfolded l option.case json.case]
    show thesis
    proof (cases "policy_missing s d (JObj entries) = Inr False
        \<and> cached_refusal (device_instance_id ref) (binding_fingerprint x cs ref d owner host) rf = None")
      case False
      with a have "rf' = rf \<and> calls = [] \<and> ((\<exists>p. r = Inr (binding_refused p)) \<or> (\<exists>e. r = Inl e))"
        by (auto split: sum.splits bool.splits option.splits if_splits)
      then show thesis using local by blast
    next
      case True
      then have p: "policy_missing s d (JObj entries) = Inr False"
        and c: "cached_refusal (device_instance_id ref) (binding_fingerprint x cs ref d owner host) rf = None"
        by auto
      obtain k q where q: "ask_provider x cs tr now_ms d (binding_values ref d owner (JObj entries) host) = (k, q)"
        by (cases "ask_provider x cs tr now_ms d (binding_values ref d owner (JObj entries) host)")
      from a p c q l show thesis
        by (cases q) (auto intro: asked refused split: prod.splits)
    qed
  qed
qed

lemma resolve_bindingE:
  assumes "resolve_binding x s cs od db tr now_ms ref host rf = (rf', calls, r)"
  obtains (elsewhere) "rf' = rf" "calls = []" "r = Inr no_binding \<or> (\<exists>e. r = Inl e)"
  | (device) d owner where "get_device x od db (device_instance_id ref) = Inr (Some d)"
      "md_device_ref d = Some ref" "md_lifecycle_state d = Device_approved" "md_owner_id d = Some owner"
      "resolve_device x s cs tr now_ms ref host d owner rf = (rf', calls, r)"
  using assms by (auto simp: resolve_binding_def split: sum.splits option.splits if_splits)

text \<open>
  C20: channels are given only to the approved device that is asked for, and only channels the
  Provider answered with: either its current binding, if that is for the accepted Manifest
  and output policy and has not expired, or a newly provisioned or refreshed one that has not
  expired. The Provider is told the Manifest and policy the database holds.
\<close>

theorem binding_sound:
  assumes "resolve_binding x s cs od db tr now_ms ref host rf = (rf', calls, Inr r)" "rn_channels r \<noteq> []"
  shows "\<exists>d. get_device x od db (device_instance_id ref) = Inr (Some d) \<and> md_device_ref d = Some ref
    \<and> md_lifecycle_state d = Device_approved
    \<and> (current_answer tr now_ms d ref (rn_channels r) \<or> fresh_answer tr now_ms d ref (rn_channels r))"
  using assms(1)
proof (cases rule: resolve_bindingE)
  case elsewhere
  with assms(2) show ?thesis by (simp add: no_binding_def)
next
  case (device d owner)
  from device(5) show ?thesis
  proof (cases rule: resolve_deviceE)
    case (local p)
    with assms(2) show ?thesis by (auto simp: binding_refused_def)
  next
    case (asked manifest channels)
    from ask_provider_sound [OF asked(4)] device asked(6) show ?thesis
      by (auto simp: binding_values_def bound_to_def)
  next
    case (refused manifest e)
    then have "rn_channels r = []"
      by (auto simp: provider_refusal_def Let_def binding_refused_def split: exn.splits if_splits)
    with assms(2) show ?thesis by simp
  qed
qed

theorem binding_sound_witness:
  "\<exists>rf calls r d. small_resolve granting 5 [] = (rf, calls, Inr r) \<and> rn_channels r = [small_channel]
    \<and> fresh_answer granting 5 d device_d (rn_channels r)"
proof -
  have "(case small_resolve granting 5 [] of (rf, calls, Inr r) \<Rightarrow> rn_channels r = [small_channel] | _ \<Rightarrow> False)"
    by code_simp
  then obtain rf calls r where r: "small_resolve granting 5 [] = (rf, calls, Inr r)"
      "rn_channels r = [small_channel]"
    by (auto split: prod.splits sum.splits)
  have "client_current granting device_d = Inr None" by (simp add: client_current_def post_def)
  then have "\<not> current_answer granting 5 d device_d cs" for d cs by (simp add: current_answer_def)
  with binding_sound [OF r(1) [unfolded small_resolve_def]] r show ?thesis by fastforce
qed

section \<open>Refusals\<close>

lemma forget_fst: "map fst (forget_refusal i rf) = filter (\<lambda>k. k \<noteq> i) (map fst rf)"
  by (induction rf) (auto simp: forget_refusal_def)

lemma forget_bounded:
  "distinct (map fst rf) \<Longrightarrow> distinct (map fst (forget_refusal i rf))"
  "length (forget_refusal i rf) \<le> length rf" "i \<notin> set (map fst (forget_refusal i rf))"
  by (auto simp: forget_fst) (simp add: forget_refusal_def)

definition refusals_ok :: "refusals \<Rightarrow> bool" where
  "refusals_ok rf \<longleftrightarrow> length rf \<le> 1024 \<and> distinct (map fst rf)"

lemma retain_bounded:
  assumes "refusals_ok rf" "i \<notin> set (map fst rf)"
  shows "refusals_ok (retain_refusal i fp p rf)"
  using assms by (cases rf) (auto simp: refusals_ok_def retain_refusal_def Let_def)

lemma provider_refusal_bounded:
  assumes "(rf', r) = provider_refusal i fp e (forget_refusal i rf)" "refusals_ok rf"
  shows "refusals_ok rf'"
proof -
  have "refusals_ok (forget_refusal i rf)"
    using forget_bounded [where rf = rf and i = i] assms(2) by (auto simp: refusals_ok_def)
  with assms(1) retain_bounded [OF this forget_bounded(3)] show ?thesis
    by (auto simp: provider_refusal_def Let_def split: exn.splits if_splits)
qed

text \<open>
  The memory of refusals stays bounded. Whatever device is asked for and whatever the
  Provider answers, at most 1024 refusals are kept, at most one per device.
\<close>

lemma refusals_bounded:
  assumes "resolve_binding x s cs od db tr now_ms ref host rf = (rf', calls, r)" "refusals_ok rf"
  shows "refusals_ok rf'"
  using assms(1)
proof (cases rule: resolve_bindingE)
  case (device d owner)
  from device(5) show ?thesis
  proof (cases rule: resolve_deviceE)
    case (asked manifest channels)
    with assms(2) forget_bounded [where rf = rf and i = "device_instance_id ref"] show ?thesis
      by (auto simp: refusals_ok_def)
  next
    case (refused manifest e)
    from provider_refusal_bounded [OF refused(5) assms(2)] show ?thesis .
  qed (use assms(2) in simp)
qed (use assms(2) in simp)

lemma cached_retained:
  assumes "i \<notin> set (map fst rf)"
  shows "cached_refusal i fp (retain_refusal i fp p rf) = Some p"
proof -
  have "map_of rf i = None" using assms by (auto simp: map_of_eq_None_iff)
  moreover from this have "map_of (tl rf) i = None" by (cases rf) (auto split: if_splits)
  ultimately show ?thesis
    by (cases rf) (auto simp: cached_refusal_def retain_refusal_def Let_def map_add_def)
qed

text \<open>
  A final refusal is remembered. Once the Provider refused a device for good, or answered
  unreadably, the same question gets the same answer at any later time, without the Provider
  being asked, whatever it would answer by then.
\<close>

theorem final_refusal_remembered:
  assumes "resolve_binding x s cs od db tr now_ms ref host rf = (rf', calls, Inr r)"
    and "calls \<noteq> []" "rn_problem r = Some p" "\<not> bp_retryable p"
  shows "resolve_binding x s cs od db tr2 later ref host rf' = (rf', [], Inr r)"
  using assms(1)
proof (cases rule: resolve_bindingE)
  case (device d owner)
  let ?i = "device_instance_id ref" and ?fp = "binding_fingerprint x cs ref d owner host"
  from device(5) show ?thesis
  proof (cases rule: resolve_deviceE)
    case (asked manifest channels)
    with assms(3) show ?thesis by (simp add: bound_to_def)
  next
    case (refused manifest e)
    then obtain q where q: "rf' = retain_refusal ?i ?fp q (forget_refusal ?i rf)" "r = binding_refused q"
      using assms(3,4)
      by (auto simp: provider_refusal_def Let_def binding_refused_def split: exn.splits if_splits)
    with cached_retained [OF forget_bounded(3)] have "cached_refusal ?i ?fp rf' = Some q" by simp
    with refused(1-3) device(1-4) q(2) show ?thesis
      by (auto simp: resolve_binding_def resolve_device_def Let_def)
  qed (use assms(2) in simp)
qed (use assms(2) in simp)

theorem final_refusal_remembered_witness:
  "\<exists>rf r. fst (small_resolve refusing 5 []) = rf \<and> small_resolve granting 9 rf = (rf, [], Inr r)
    \<and> rn_problem r = Some \<lparr>bp_code = ''X'', bp_retryable = False, bp_detail = ''X''\<rparr>"
proof -
  have "(case small_resolve refusing 5 [] of (rf, calls, Inr r) \<Rightarrow> calls \<noteq> []
      \<and> rn_problem r = Some \<lparr>bp_code = ''X'', bp_retryable = False, bp_detail = ''X''\<rparr> | _ \<Rightarrow> False)"
    by code_simp
  then obtain rf calls r where r: "small_resolve refusing 5 [] = (rf, calls, Inr r)" "calls \<noteq> []"
      "rn_problem r = Some \<lparr>bp_code = ''X'', bp_retryable = False, bp_detail = ''X''\<rparr>"
    by (auto split: prod.splits sum.splits)
  from final_refusal_remembered [OF r(1) [unfolded small_resolve_def] r(2,3), of granting 9]
  have "small_resolve granting 9 rf = (rf, [], Inr r)" by (simp add: small_resolve_def)
  with r show ?thesis by (intro exI [of _ rf] exI [of _ r]) simp
qed

end
