(* ===== verification/Channel_Delivery.thy ===== *)
theory Channel_Delivery
  imports Device_Scenario
begin

text \<open>
  The retryable projection of revoked Claims: what its rows promise under any interleaving,
  when a pass leaves nothing due, and the delays between attempts.
\<close>

section \<open>Delays\<close>

lemma power_sandwich:
  fixes a :: int
  assumes "0 \<le> a" "m \<le> n"
  shows "a * 2 ^ m \<le> a * 2 ^ n"
  using assms by (intro mult_left_mono power_increasing) auto

text \<open>
  The delay before the next attempt is at least the base, at most the maximum, and never
  shorter than the one before it. From the eleventh attempt on it no longer grows.
\<close>

lemma retry_delay_bounds:
  assumes "0 \<le> retry_base rs" "retry_base rs \<le> retry_max rs" "1 \<le> n"
  shows "retry_base rs \<le> retry_delay rs n \<and> retry_delay rs n \<le> retry_max rs
    \<and> retry_delay rs n \<le> retry_delay rs (n + 1) \<and> retry_delay rs (n + 11) = retry_delay rs 11"
proof -
  have "retry_base rs * 2 ^ 0 \<le> retry_base rs * 2 ^ nat (min (n - 1) 10)"
    by (rule power_sandwich) (use assms in auto)
  moreover have "retry_base rs * 2 ^ nat (min (n - 1) 10) \<le> retry_base rs * 2 ^ nat (min n 10)"
    by (rule power_sandwich) (use assms in auto)
  moreover have "retry_delay rs (n + 11) = retry_delay rs 11"
    using assms(3) by (simp add: retry_delay_def)
  ultimately show ?thesis
    using assms(2) by (auto simp: retry_delay_def intro: min.coboundedI2)
qed

section \<open>Rows under every step\<close>

definition revocation_moves :: "revocation_row \<Rightarrow> revocation_row \<Rightarrow> bool" where
  "revocation_moves r r' \<longleftrightarrow>
     rv_source_event_id r' = rv_source_event_id r \<and> rv_operation_id r' = rv_operation_id r
     \<and> rv_device_ref r' = rv_device_ref r \<and> rv_reason r' = rv_reason r
     \<and> (rv_state r \<noteq> Delivery_pending \<longrightarrow> r' = r)"

interpretation revocation_ledger: row_moves rv_source_event_id revocation_moves
  by unfold_locales (auto simp: revocation_moves_def)

definition revocation_row_ok :: "external \<Rightarrow> stream_row list \<Rightarrow> revocation_row \<Rightarrow> bool" where
  "revocation_row_ok x events r \<longleftrightarrow>
     0 \<le> rv_attempt_count r \<and> (rv_state r \<noteq> Delivery_pending \<longrightarrow> rv_delivered_at r \<noteq> None)
     \<and> rv_operation_id r = revocation_operation_id x (rv_source_event_id r)
     \<and> (\<exists>e \<in> set events. se_event_type e = revoke_event_type \<and> ae_id (se_event e) = rv_source_event_id r
          \<and> (\<exists>t. ae_data (se_event e) = Claim_revoked_data (rv_device_ref r) (rv_reason r) t))"

definition revocations_ok :: "external \<Rightarrow> hub_db \<Rightarrow> bool" where
  "revocations_ok x db \<longleftrightarrow> distinct (map rv_source_event_id (revocations db))
     \<and> all_rows (revocation_row_ok x (claim_stream db)) (revocations db)"

definition revocation_tx :: "external \<Rightarrow> hub_db \<Rightarrow> hub_db \<Rightarrow> bool" where
  "revocation_tx x db db' \<longleftrightarrow> (revocations_ok x db \<longrightarrow> revocations_ok x db'
     \<and> evolves rv_source_event_id revocation_moves (revocations db) (revocations db'))"

lemma revocation_tx_through:
  "revocation_tx x a b \<Longrightarrow> revocation_tx x b c \<Longrightarrow> revocation_tx x a c"
  unfolding revocation_tx_def by (blast intro: revocation_ledger.trans)

lemma revocation_row_mono:
  "revocation_row_ok x st r \<Longrightarrow> set st \<subseteq> set st' \<Longrightarrow> revocation_row_ok x st' r"
  unfolding revocation_row_ok_def by blast

lemma revocation_tx_elsewhere:
  assumes "revocations db' = revocations db" "set (claim_stream db) \<subseteq> set (claim_stream db')"
  shows "revocation_tx x db db'"
proof -
  have "all_rows (revocation_row_ok x (claim_stream db')) t" if "all_rows (revocation_row_ok x (claim_stream db)) t" for t
    using that assms(2) unfolding all_rows_def by (blast intro: revocation_row_mono)
  with assms(1) show ?thesis
    by (simp add: revocation_tx_def revocations_ok_def revocation_ledger.refl)
qed

lemma revocation_tx_update:
  assumes "\<And>r. get_revocation db i = Some r \<Longrightarrow> revocation_row_ok x (claim_stream db) r \<Longrightarrow>
      revocation_row_ok x (claim_stream db) (f r) \<and> revocation_moves r (f r)"
    and k: "\<And>r. rv_source_event_id (f r) = rv_source_event_id r"
  shows "revocation_tx x db (update_revocation i f db)"
  unfolding revocation_tx_def
proof (intro impI conjI)
  assume ok: "revocations_ok x db"
  then have d: "distinct (map rv_source_event_id (revocations db))"
    and a: "all_rows (revocation_row_ok x (claim_stream db)) (revocations db)" by (simp_all add: revocations_ok_def)
  have get: "get_revocation db i = Some r" if "r \<in> set (revocations db)" "rv_source_event_id r = i" for r
    using that d by (simp add: get_revocation_def tget_iff)
  have "all_rows (revocation_row_ok x (claim_stream db)) (tupd rv_source_event_id i f (revocations db))"
    by (rule all_rows_tupd [OF a]) (use assms(1) get in blast)
  then show "revocations_ok x (update_revocation i f db)"
    using d by (simp add: revocations_ok_def update_revocation_def map_tupd k)
  show "evolves rv_source_event_id revocation_moves (revocations db) (revocations (update_revocation i f db))"
    unfolding update_revocation_def
  proof (simp, rule revocation_ledger.updates [OF k])
    fix r assume "tget rv_source_event_id i (revocations db) = Some r"
    then have "get_revocation db i = Some r" "r \<in> set (revocations db)"
      by (auto simp: get_revocation_def dest: tget_SomeD)
    with assms(1) a show "revocation_moves r (f r)" by (auto simp: all_rows_def)
  qed
qed

lemma mark_terminal_tx:
  assumes "mark_terminal i st result now db = Inr (u, db')"
  shows "revocation_tx x db db'"
proof -
  from assms obtain r where s: "st \<in> {Delivered, Fenced}" "get_revocation db i = Some r"
    and db': "if rv_state r \<in> {Delivered, Fenced} then db' = db
      else db' = update_revocation i (\<lambda>r. r\<lparr>rv_state := st, rv_delivered_at := Some now,
                     rv_result_code := result, rv_last_error := ''''\<rparr>) db"
    unfolding mark_terminal_def andthen_ok require_ok present_ok by (auto split: if_splits)
  show ?thesis
  proof (cases "rv_state r \<in> {Delivered, Fenced}")
    case True
    with db' show ?thesis by (simp add: revocation_tx_elsewhere)
  next
    case False
    then have "rv_state r = Delivery_pending" by (cases "rv_state r") auto
    with False db' s(2) show ?thesis
      by (auto intro!: revocation_tx_update simp: revocation_row_ok_def revocation_moves_def)
  qed
qed

lemma mark_retry_tx:
  assumes "mark_retry i n t error db = Inr (u, db')" "0 \<le> n"
  shows "revocation_tx x db db'"
proof -
  from assms(1) obtain r where s: "get_revocation db i = Some r"
    and db': "if rv_state r \<noteq> Delivery_pending then db' = db
      else db' = update_revocation i (\<lambda>r. r\<lparr>rv_attempt_count := n, rv_next_attempt_at := t,
                     rv_last_error := take 512 error\<rparr>) db"
    unfolding mark_retry_def andthen_ok present_ok by (auto split: if_splits)
  show ?thesis
  proof (cases "rv_state r = Delivery_pending")
    case True
    with db' s assms(2) show ?thesis
      by (auto intro!: revocation_tx_update simp: revocation_row_ok_def revocation_moves_def)
  qed (use db' in \<open>simp add: revocation_tx_elsewhere\<close>)
qed

lemma materialize_revocation_tx:
  assumes "materialize_revocation x now row db = Inr (n, db')" "row \<in> set (claim_stream db)"
    "se_event_type row = revoke_event_type"
  shows "revocation_tx x db db'"
proof (cases "get_revocation db (se_event_id row)")
  case (Some r)
  with assms(1) show ?thesis by (simp add: materialize_revocation_def revocation_tx_elsewhere)
next
  case None
  with assms(1) obtain ref reason where
    rd: "revoked_data (se_event row) = Inr (ref, reason)"
    and fresh: "\<forall>q \<in> set (revocations db). \<not> revocation_clash (new_revocation x now (se_event row) ref reason) q"
    and db': "db' = db\<lparr>revocations := revocations db @ [new_revocation x now (se_event row) ref reason]\<rparr>"
    unfolding materialize_revocation_def by (auto simp: ok_iff)
  from revoked_dataD [OF rd] assms(2,3)
  have "revocation_row_ok x (claim_stream db) (new_revocation x now (se_event row) ref reason)"
    by (auto simp: revocation_row_ok_def new_revocation_def)
  moreover from fresh have "rv_source_event_id (new_revocation x now (se_event row) ref reason)
      \<notin> rv_source_event_id ` set (revocations db)"
    by (auto simp: revocation_clash_def)
  ultimately show ?thesis
    by (auto simp: revocation_tx_def revocations_ok_def db' intro: revocation_ledger.adds)
qed

lemma materialize_revocations_tx:
  assumes "materialize_revocations x now rows db = Inr (n, db')"
    "\<forall>row \<in> set rows. row \<in> set (claim_stream db) \<and> se_event_type row = revoke_event_type"
  shows "revocation_tx x db db'"
  using assms
proof (induction rows arbitrary: db n)
  case (Cons row rows)
  from Cons.prems(1) obtain m k db1 where one: "materialize_revocation x now row db = Inr (m, db1)"
    and rest: "materialize_revocations x now rows db1 = Inr (k, db')" by (auto simp: ok_iff)
  have "claim_stream db1 = claim_stream db" using materialize_revocation_fields [OF one] by auto
  with Cons.IH [OF rest] Cons.prems(2) have "revocation_tx x db1 db'" by auto
  with materialize_revocation_tx [OF one] Cons.prems(2) show ?case by (auto intro: revocation_tx_through)
qed (simp add: revocation_tx_elsewhere)

lemma hub_step_revocation:
  assumes "hub_step x s au od db db'" "keys_ok (core db)"
  shows "revocation_tx x db db'"
  using assms(1)
proof cases
  case (Admission pj rq)
  have "control_tables db' = control_tables db" unfolding Admission by (rule execute_control [OF assms(2)])
  moreover have "set (claim_stream db) \<subseteq> set (claim_stream db')"
    unfolding Admission by (intro log_prefix log.execute_related)
  ultimately show ?thesis by (intro revocation_tx_elsewhere) (simp_all add: control_tables_def)
next
  case (Materialize ttl n)
  then have "materialize_each x s ttl (revoked_events db) db = Inr (n, db')"
    by (simp add: materialize_claim_events_def ok_iff)
  then show ?thesis by (auto dest!: aside_erase intro!: revocation_tx_elsewhere)
next
  case (Rearm i now ttl o')
  then show ?thesis by (auto dest!: rearm_fields intro!: revocation_tx_elsewhere)
next
  case (Accept i attempt now o')
  then show ?thesis by (auto dest!: accept_fields intro!: revocation_tx_elsewhere)
next
  case (Acknowledge now ack o')
  then show ?thesis by (auto dest!: acknowledge_fields intro!: revocation_tx_elsewhere)
next
  case (Manifest a seen current accepted now i d)
  then show ?thesis
    by (auto dest!: commit_manifest_change(2) simp: device_change_def intro!: revocation_tx_elsewhere)
next
  case (Policy c ctx seen current p now i d)
  then show ?thesis
    by (auto dest!: commit_policy_change(2) simp: device_change_def intro!: revocation_tx_elsewhere)
next
  case (Channel_events now n)
  then show ?thesis unfolding materialize_revoked_events_def
    by (rule materialize_revocations_tx) (auto simp: revoked_events_def)
next
  case (Channel_terminal i st result now u)
  then show ?thesis by (rule mark_terminal_tx)
next
  case (Channel_retry r rs now error u)
  then show ?thesis by (auto simp: retry_revocation_def Let_def intro: mark_retry_tx)
qed (simp_all add: revocation_tx_elsewhere mark_accepted_pending_def expire_operations_def new_id_def)

lemma hub_steps_revocation:
  assumes "hub_steps x s au od db db'" "hub_ok x s au db"
  shows "revocation_tx x db db'"
proof -
  from assms(1) have "hub_ok x s au db' \<and> revocation_tx x db db'"
  proof (induction rule: rtranclp_induct)
    case (step db1 db2)
    then have "revocation_tx x db1 db2" by (auto simp: hub_ok_def intro: hub_step_revocation)
    with step show ?case by (blast intro: hub_step_ok revocation_tx_through)
  qed (simp add: assms(2) revocation_tx_elsewhere)
  then show ?thesis ..
qed

lemma reachable_revocations:
  assumes "reachable x s au od db"
  shows "revocations_ok x db"
proof -
  have "hub_ok x s au empty_db" by (rule reachable_ok [of x s au od]) (simp add: reachable_def)
  from hub_steps_revocation [OF assms [unfolded reachable_def] this] show ?thesis
    by (simp add: revocation_tx_def revocations_ok_def empty_db_def)
qed

text \<open>
  The projection is faithful. Under any interleaving of requests and passes there is at
  most one row per revocation, and each row stems from a revocation in the Claim stream, with
  its exact DeviceRef and reason and the operation the Provider is asked under.
\<close>

lemma revocation_rows_faithful:
  assumes "reachable x s au od db"
  shows "distinct (map rv_source_event_id (revocations db))
    \<and> (\<forall>r \<in> set (revocations db). rv_operation_id r = revocation_operation_id x (rv_source_event_id r)
        \<and> (\<exists>e \<in> set (revoked_events db). ae_id (se_event e) = rv_source_event_id r
             \<and> revoked_data (se_event e) = Inr (rv_device_ref r, rv_reason r)))"
  using reachable_revocations [OF assms]
  by (fastforce simp: revocations_ok_def all_rows_def revocation_row_ok_def revoked_events_def)

text \<open>
  A delivered or fenced revocation is final. No later request, pass or use case of any
  component changes its row.
\<close>

theorem revocation_final:
  assumes "reachable x s au od db" "get_revocation db i = Some r" "rv_state r \<noteq> Delivery_pending"
    "hub_steps x s au od db db'"
  shows "get_revocation db' i = Some r"
proof -
  have "evolves rv_source_event_id revocation_moves (revocations db) (revocations db')"
    using hub_steps_revocation [OF assms(4) reachable_ok [OF assms(1)]] reachable_revocations [OF assms(1)]
    by (simp add: revocation_tx_def)
  from this assms(2) obtain r' where "get_revocation db' i = Some r'" "revocation_moves r r'"
    unfolding get_revocation_def by (rule evolvesD)
  with assms(3) show ?thesis by (simp add: revocation_moves_def)
qed

section \<open>A pass\<close>

lemma deliveries_all:
  "\<forall>r \<in> set rs. 0 \<le> rv_attempt_count r \<and> rv_state r = Delivery_pending \<Longrightarrow> deliveries rs = Inr rs"
  by (induction rs) (simp_all add: revocation_delivery_def)

lemma deliver_converged:
  assumes "fst (answer r) = Inr ()" "get_revocation db (rv_source_event_id r) = Some r"
    "rv_state r = Delivery_pending"
  shows "\<exists>f. deliver_revocation rs answer r db = Inr (1, update_revocation (rv_source_event_id r) f db)
    \<and> (\<forall>q. rv_state (f q) = Delivered \<and> rv_source_event_id (f q) = rv_source_event_id q)"
proof -
  obtain t where "answer r = (Inr (), t)" using assms(1) by (cases "answer r") auto
  with assms(2,3) show ?thesis
    by (simp add: deliver_revocation_def mark_terminal_def)
      (rule exI [of _ "\<lambda>q. q\<lparr>rv_state := Delivered, rv_delivered_at := Some t,
         rv_result_code := ''REVOKED'', rv_last_error := ''''\<rparr>"], simp)
qed

lemma deliver_each_all:
  assumes "distinct (map rv_source_event_id due)" "\<forall>r. fst (answer r) = Inr ()"
    "\<forall>r \<in> set due. get_revocation db (rv_source_event_id r) = Some r \<and> rv_state r = Delivery_pending"
  shows "\<exists>db'. deliver_each rs answer due db = (db', Inr (length due))
    \<and> (\<forall>q \<in> set (revocations db'). rv_state q = Delivered
         \<or> q \<in> set (revocations db) \<and> rv_source_event_id q \<notin> rv_source_event_id ` set due)"
  using assms(1,3)
proof (induction due arbitrary: db)
  case (Cons r due)
  from Cons.prems(2) assms(2) have "fst (answer r) = Inr ()"
    "get_revocation db (rv_source_event_id r) = Some r" "rv_state r = Delivery_pending" by auto
  from deliver_converged [where answer = answer and rs = rs, OF this] obtain f where
    f: "deliver_revocation rs answer r db = Inr (1, update_revocation (rv_source_event_id r) f db)"
      "\<forall>q. rv_state (f q) = Delivered \<and> rv_source_event_id (f q) = rv_source_event_id q" by blast
  let ?db1 = "update_revocation (rv_source_event_id r) f db"
  have "get_revocation ?db1 (rv_source_event_id q) = Some q \<and> rv_state q = Delivery_pending"
    if "q \<in> set due" for q
  proof -
    have "rv_source_event_id q \<noteq> rv_source_event_id r" using Cons.prems(1) that by (auto simp: rev_image_eqI)
    then have "get_revocation ?db1 (rv_source_event_id q) = get_revocation db (rv_source_event_id q)"
      using f(2) by (simp add: get_revocation_def update_revocation_def tget_tupd)
    with Cons.prems(2) that show ?thesis by simp
  qed
  with Cons.IH [of ?db1] Cons.prems(1) obtain db' where
    d: "deliver_each rs answer due ?db1 = (db', Inr (length due))"
      "\<forall>q \<in> set (revocations db'). rv_state q = Delivered
         \<or> q \<in> set (revocations ?db1) \<and> rv_source_event_id q \<notin> rv_source_event_id ` set due" by auto
  have "rv_state q = Delivered \<or> q \<in> set (revocations db) \<and> rv_source_event_id q \<noteq> rv_source_event_id r"
    if "q \<in> set (revocations ?db1)" for q
    using that f(2) by (auto simp: update_revocation_def elim!: in_set_tupdE)
  with d f(1) show ?case by fastforce
qed simp


section \<open>The worked revocation\<close>

definition delivered_db :: hub_db where
  "delivered_db = fst (reconcile_revocations small_world \<lparr>retry_base = 1, retry_max = 60\<rparr> 20 6
     (\<lambda>r. (Inr (), 7)) revoked_db)"

lemma revoked_due:
  "map_sum id (\<lambda>(n, db). (n, length (filter (due_revocation 6) (revocations db))))
     (materialize_revoked_events small_world 6 revoked_db) = Inr (1, 1)"
  by code_simp


lemma delivered_states: "map rv_state (revocations delivered_db) = [Delivered]"
  by code_simp

lemma delivered_row:
  obtains r where "revocations delivered_db = [r]" "get_revocation delivered_db (rv_source_event_id r) = Some r"
    "rv_state r = Delivered"
  using delivered_states by (auto simp: map_eq_Cons_conv get_revocation_def tget_Cons)

lemma delivered_reachable: "reachable small_world small_sdk small_authority ''o'' delivered_db"
proof -
  have "reachable small_world small_sdk small_authority ''o'' revoked_db"
    unfolding revoked_db_def by (rule reachable_run)
  then show ?thesis unfolding delivered_db_def by (rule reachable_steps) (rule reconcile_revocations_steps)
qed

theorem revocation_final_witness:
  "\<exists>i r. rv_state r = Delivered \<and> get_revocation (fst (reconcile_revocations small_world
     \<lparr>retry_base = 1, retry_max = 60\<rparr> 20 9 (\<lambda>r. (Inl Integrity_error, 9)) delivered_db)) i = Some r"
proof -
  obtain r where r: "get_revocation delivered_db (rv_source_event_id r) = Some r" "rv_state r = Delivered"
    by (rule delivered_row)
  have "rv_state r \<noteq> Delivery_pending" using r(2) by simp
  from revocation_final [OF delivered_reachable r(1) this reconcile_revocations_steps] r(2)
  show ?thesis by blast
qed

end
