(* ===== verification/Python_Values.thy ===== *)
theory Python_Values
  imports Commissioning
begin

text \<open>
  Python's \<open>==\<close>, \<open>int()\<close> and \<open>float()\<close> on values read from JSON, where a \<open>bool\<close> is the
  number 0 or 1.  A number is an exact rational: the model has no floating-point rounding.
\<close>

type_synonym dict = "(string \<times> json) list"

fun number_of :: "json \<Rightarrow> rat option" where
  "number_of (JNum q) = Some q"
| "number_of (JBool b) = Some (if b then 1 else 0)"
| "number_of _ = None"

text \<open>Two dictionaries are equal if they have the same keys with equal values.\<close>

fun py_eq :: "json \<Rightarrow> json \<Rightarrow> bool"
  and eq_items :: "json list \<Rightarrow> json list \<Rightarrow> bool"
  and eq_entries :: "dict \<Rightarrow> dict \<Rightarrow> bool" where
  "py_eq JNull b = (b = JNull)"
| "py_eq (JStr s) b = (b = JStr s)"
| "py_eq (JArr xs) b = (case b of JArr ys \<Rightarrow> eq_items xs ys | _ \<Rightarrow> False)"
| "py_eq (JObj d) b =
     (case b of JObj e \<Rightarrow> set (map fst d) = set (map fst e) \<and> eq_entries d e | _ \<Rightarrow> False)"
| "py_eq (JBool u) b = (number_of b = Some (if u then 1 else 0))"
| "py_eq (JNum q) b = (number_of b = Some q)"
| "eq_items [] ys = (ys = [])"
| "eq_items (x # xs) ys = (case ys of [] \<Rightarrow> False | y # zs \<Rightarrow> py_eq x y \<and> eq_items xs zs)"
| "eq_entries [] e = True"
| "eq_entries ((k, v) # d) e =
     ((case map_of e k of None \<Rightarrow> False | Some w \<Rightarrow> py_eq v w) \<and> eq_entries d e)"

text \<open>A missing key reads as \<open>None\<close>, which is what \<open>get\<close> answers.\<close>

definition dict_get :: "dict \<Rightarrow> string \<Rightarrow> json" where
  "dict_get d k = (case map_of d k of None \<Rightarrow> JNull | Some v \<Rightarrow> v)"

text \<open>\<open>dict(state)\<close> with one key assigned: in place, or at the end.\<close>

definition dict_set :: "string \<Rightarrow> json \<Rightarrow> dict \<Rightarrow> dict" where
  "dict_set k v d =
     (if map_of d k = None then d @ [(k, v)] else map (\<lambda>(j, w). if j = k then (j, v) else (j, w)) d)"

text \<open>\<open>str.split\<close> of one character.\<close>

fun split_on :: "char \<Rightarrow> string \<Rightarrow> string list" where
  "split_on sep [] = [[]]"
| "split_on sep (c # s) =
     (if c = sep then [] # split_on sep s
      else (case split_on sep s of [] \<Rightarrow> [[c]] | w # ws \<Rightarrow> (c # w) # ws))"

lemma py_eq_number [simp]: "number_of a = Some q \<Longrightarrow> py_eq a b \<longleftrightarrow> number_of b = Some q"
  by (cases a) auto

lemma dict_get_set: "dict_get (dict_set k v d) j = (if j = k then v else dict_get d j)"
proof -
  have "map_of (map (\<lambda>(j, w). if j = k then (j, v) else (j, w)) d) j =
      (if j = k then map_option (\<lambda>_. v) (map_of d k) else map_of d j)"
    by (induction d) auto
  then show ?thesis
    by (cases "map_of d k") (auto simp: dict_get_def dict_set_def map_add_def split: option.splits)
qed

end
