(* ===== verification/Home_Effects.thy ===== *)
theory Home_Effects
  imports Python_Values
begin

text \<open>
  What a command is expected to do to a device's state (\<open>hub/smarthome/effects.py\<close>) and what it
  does to a virtual device (\<open>apply_command\<close> of \<open>hub/smarthome/providers/virtual.py\<close>).

  The vocabulary is the SDK's: \<open>home_sdk\<close> has its validators, its device types and Python's
  \<open>float()\<close> of a text.  A whole number in JSON is an \<open>int\<close>.
\<close>

record command =
  cm_device_id :: string
  cm_trait :: string
  cm_command :: string
  cm_params :: dict

text \<open>The SDK's device and registry, as far as the Hub reads them.\<close>

record home_device =
  hd_device_id :: string
  hd_name :: string
  hd_type :: string
  hd_area_id :: "string option"
  hd_provider :: string
  hd_provider_ref :: "string option"
  hd_traits :: json
  hd_limits :: json
  hd_source :: string
  hd_synced_at :: "int option"
  hd_orphaned :: bool
  hd_overrides :: "string list"

record home_sdk =
  validate_command :: "string \<Rightarrow> command \<Rightarrow> exn + unit"
  validate_state :: "string \<Rightarrow> dict \<Rightarrow> exn + unit"
  validate_device_command :: "home_device \<Rightarrow> command \<Rightarrow> string option"
  validate_device_state :: "home_device \<Rightarrow> dict \<Rightarrow> string option"
  initial_state :: "string \<Rightarrow> dict"
  target_range :: "string \<Rightarrow> (rat option \<times> rat option) option"
  provider_binding :: "string \<Rightarrow> string \<times> string"
  py_float :: "string \<Rightarrow> rat option"

section \<open>Reading parameters\<close>

definition param :: "dict \<Rightarrow> string \<Rightarrow> exn + json" where
  "param p k = present (map_of p k) (Key_error k)"

definition int_value :: "external \<Rightarrow> json \<Rightarrow> exn + int" where
  "int_value x j = present (int_of x j) (Type_error ''int'')"

fun float_of :: "home_sdk \<Rightarrow> json \<Rightarrow> rat option" where
  "float_of h (JStr s) = py_float h s"
| "float_of h j = number_of j"

definition float_value :: "home_sdk \<Rightarrow> json \<Rightarrow> exn + rat" where
  "float_value h j = present (float_of h j) (Type_error ''float'')"

fun truthy :: "json \<Rightarrow> bool" where
  "truthy JNull = False"
| "truthy (JBool b) = b"
| "truthy (JNum q) = (q \<noteq> 0)"
| "truthy (JStr s) = (s \<noteq> [])"
| "truthy (JArr xs) = (xs \<noteq> [])"
| "truthy (JObj d) = (d \<noteq> [])"

definition jint :: "int \<Rightarrow> json" where
  "jint n = JNum (of_int n)"

fun as_int :: "json \<Rightarrow> int option" where
  "as_int (JNum q) = (if q = of_int \<lfloor>q\<rfloor> then Some \<lfloor>q\<rfloor> else None)"
| "as_int _ = None"

text \<open>\<open>_near\<close>: a value \<open>int()\<close> cannot read is near nothing.\<close>

definition near :: "external \<Rightarrow> json \<Rightarrow> json \<Rightarrow> bool" where
  "near x actual expected =
     (case (int_of x actual, int_of x expected) of
        (Some a, Some e) \<Rightarrow> \<bar>a - e\<bar> \<le> 1
      | _ \<Rightarrow> False)"

section \<open>Whether a state shows a command took effect\<close>

definition is_true :: "dict \<Rightarrow> string \<Rightarrow> bool" where
  "is_true d k \<longleftrightarrow> dict_get d k = JBool True"

definition changed :: "dict \<Rightarrow> dict \<Rightarrow> string \<Rightarrow> bool" where
  "changed before after k \<longleftrightarrow> \<not> py_eq (dict_get after k) (dict_get before k)"

definition satisfied ::
  "external \<Rightarrow> home_sdk \<Rightarrow> command \<Rightarrow> dict option \<Rightarrow> dict \<Rightarrow> exn + bool" where
  "satisfied x h c before0 after =
     (let p = cm_params c;
          before = (case before0 of None \<Rightarrow> [] | Some b \<Rightarrow> b);
          tc = (cm_trait c, cm_command c);
          got = dict_get after
      in if tc = (''on_off'', ''on'') then Inr (is_true after ''on'')
         else if tc = (''on_off'', ''off'') then Inr (got ''on'' = JBool False)
         else if tc = (''on_off'', ''toggle'')
           then Inr (got ''on'' \<noteq> JNull \<and> changed before after ''on'')
         else if tc = (''level'', ''set'')
           then (if is_true after ''on''
                 then andthen (param p ''value'') (\<lambda>v. Inr (near x (got ''level'') v)) else Inr False)
         else if tc = (''level'', ''step'')
           then andthen (param p ''delta'') (\<lambda>v. andthen (int_value x v) (\<lambda>d.
                Inr (d = 0 \<or> (is_true after ''on'' \<and> changed before after ''level''))))
         else if tc = (''thermostat'', ''set_mode'')
           then andthen (param p ''mode'') (\<lambda>v. Inr (py_eq (got ''mode'') v))
         else if tc = (''thermostat'', ''set_target'')
           then (if got ''target_c'' = JNull then Inr False
                 else andthen (float_value h (got ''target_c'')) (\<lambda>a.
                      andthen (param p ''celsius'') (\<lambda>v. andthen (float_value h v) (\<lambda>e.
                      Inr (\<bar>a - e\<bar> < 1 / 100)))))
         else if tc = (''thermostat'', ''step'')
           then andthen (param p ''delta'') (\<lambda>v. andthen (float_value h v) (\<lambda>d.
                Inr (d = 0 \<or> changed before after ''target_c'')))
         else if tc = (''fan_speed'', ''step'')
           then (case as_int (dict_get before ''speed'') of
                   None \<Rightarrow> Inr False
                 | Some speed \<Rightarrow>
                     if 0 \<le> speed \<and> speed \<le> 100
                     then andthen (param p ''delta'') (\<lambda>v. andthen (int_value x v) (\<lambda>d.
                          Inr (py_eq (got ''speed'') (jint (max 0 (min 100 (speed + d)))))))
                     else Inr False)
         else if tc = (''fan_speed'', ''set'')
           then andthen (param p ''value'') (\<lambda>v. andthen (int_value x v) (\<lambda>n.
                Inr (py_eq (got ''speed'') (jint n))))
         else if tc = (''position'', ''open'') then Inr (py_eq (got ''position'') (jint 100))
         else if tc = (''position'', ''close'') then Inr (py_eq (got ''position'') (jint 0))
         else if tc = (''position'', ''stop'') then Inr (map_of after ''position'' \<noteq> None)
         else if tc = (''position'', ''set'')
           then andthen (param p ''value'') (\<lambda>v. andthen (int_value x v) (\<lambda>n.
                Inr (py_eq (got ''position'') (jint n))))
         else if tc = (''lock'', ''lock'') then Inr (is_true after ''locked'')
         else if tc = (''lock'', ''unlock'') then Inr (got ''locked'' = JBool False)
         else if tc = (''operational'', ''start'') then Inr (got ''run_state'' = JStr ''running'')
         else if tc = (''operational'', ''pause'') then Inr (got ''run_state'' = JStr ''paused'')
         else if tc = (''operational'', ''stop'')
           then Inr (got ''run_state'' = JStr ''idle'' \<or> got ''run_state'' = JStr ''docked'')
         else if tc = (''operational'', ''dock'') then Inr (got ''run_state'' = JStr ''docked'')
         else if tc = (''volume'', ''set'')
           then andthen (param p ''value'') (\<lambda>v. Inr (near x (got ''volume'') v))
         else if tc = (''volume'', ''step'')
           then andthen (param p ''delta'') (\<lambda>v. andthen (int_value x v) (\<lambda>d.
                Inr (d = 0 \<or> changed before after ''volume'')))
         else if tc = (''volume'', ''mute'')
           then andthen (param p ''muted'') (\<lambda>v. Inr (py_eq (got ''muted'') (JBool (truthy v))))
         else Inr False)"

section \<open>What a command does to a virtual device\<close>

definition clamp :: "rat option \<Rightarrow> rat option \<Rightarrow> rat \<Rightarrow> rat" where
  "clamp low high v =
     (if (case low of Some l \<Rightarrow> v < l | None \<Rightarrow> False) then the low
      else if (case high of Some u \<Rightarrow> u < v | None \<Rightarrow> False) then the high else v)"

text \<open>\<open>state[k]\<close> and a number of it; \<open>+\<close> of anything else raises.\<close>

definition number_at :: "dict \<Rightarrow> string \<Rightarrow> exn + rat" where
  "number_at d k = andthen (param d k) (\<lambda>v. present (number_of v) (Type_error ''+''))"

definition stepped :: "dict \<Rightarrow> dict \<Rightarrow> string \<Rightarrow> rat option \<Rightarrow> rat option \<Rightarrow> exn + json" where
  "stepped state p k low high =
     andthen (number_at state k) (\<lambda>a. andthen (number_at p ''delta'') (\<lambda>d.
     Inr (JNum (clamp low high (a + d)))))"

text \<open>\<open>not value\<close>, and \<open>_celsius\<close>, which keeps the number and only changes how it prints.\<close>

definition new_value ::
  "home_sdk \<Rightarrow> string \<Rightarrow> dict \<Rightarrow> command \<Rightarrow> exn + (string \<times> json) option" where
  "new_value h kind state c =
     (let p = cm_params c; tc = (cm_trait c, cm_command c);
          set_to = (\<lambda>k m. andthen m (\<lambda>v. Inr (Some (k, v))))
      in if tc = (''on_off'', ''on'') then Inr (Some (''on'', JBool True))
         else if tc = (''on_off'', ''off'') then Inr (Some (''on'', JBool False))
         else if tc = (''on_off'', ''toggle'')
           then andthen (param state ''on'') (\<lambda>v. Inr (Some (''on'', JBool (\<not> truthy v))))
         else if tc = (''level'', ''set'') then set_to ''level'' (param p ''value'')
         else if tc = (''level'', ''step'') then set_to ''level'' (stepped state p ''level'' (Some 0) (Some 100))
         else if tc = (''thermostat'', ''set_mode'') then set_to ''mode'' (param p ''mode'')
         else if tc = (''thermostat'', ''set_target'')
           then set_to ''target_c'' (andthen (number_at p ''celsius'') (\<lambda>q. Inr (JNum q)))
         else if tc = (''thermostat'', ''step'')
           then (case target_range h kind of
                   None \<Rightarrow> set_to ''target_c'' (stepped state p ''target_c'' None None)
                 | Some (low, high) \<Rightarrow> set_to ''target_c'' (stepped state p ''target_c'' low high))
         else if tc = (''fan_speed'', ''set'') then set_to ''speed'' (param p ''value'')
         else if tc = (''fan_speed'', ''step'') then set_to ''speed'' (stepped state p ''speed'' (Some 0) (Some 100))
         else if tc = (''position'', ''open'') then Inr (Some (''position'', jint 100))
         else if tc = (''position'', ''close'') then Inr (Some (''position'', jint 0))
         else if tc = (''position'', ''stop'') then Inr None
         else if tc = (''position'', ''set'') then set_to ''position'' (param p ''value'')
         else if tc = (''lock'', ''lock'') then Inr (Some (''locked'', JBool True))
         else if tc = (''lock'', ''unlock'') then Inr (Some (''locked'', JBool False))
         else if tc = (''operational'', ''start'') then Inr (Some (''run_state'', JStr ''running''))
         else if tc = (''operational'', ''pause'') then Inr (Some (''run_state'', JStr ''paused''))
         else if tc = (''operational'', ''stop'') then Inr (Some (''run_state'', JStr ''idle''))
         else if tc = (''operational'', ''dock'') then Inr (Some (''run_state'', JStr ''docked''))
         else if tc = (''volume'', ''set'') then set_to ''volume'' (param p ''value'')
         else if tc = (''volume'', ''step'') then set_to ''volume'' (stepped state p ''volume'' (Some 0) (Some 100))
         else if tc = (''volume'', ''mute'') then set_to ''muted'' (param p ''muted'')
         else Inl (Other_error ''SmartHomeError''))"

definition apply_command :: "home_sdk \<Rightarrow> string \<Rightarrow> dict \<Rightarrow> command \<Rightarrow> exn + dict" where
  "apply_command h kind state c =
     andthen (validate_command h kind c) (\<lambda>_.
     andthen (new_value h kind state c) (\<lambda>change.
     let new1 = (case change of None \<Rightarrow> state | Some (k, v) \<Rightarrow> dict_set k v state);
         new2 = (if cm_trait c \<in> {''level'', ''thermostat''} \<and> map_of new1 ''on'' \<noteq> None
                 then dict_set ''on'' (JBool True) new1 else new1)
     in andthen (validate_state h kind new2) (\<lambda>_. Inr new2)))"

end
