(* ===== verification/Integration_Ledger.thy ===== *)
theory Integration_Ledger
  imports Python_Values
begin

text \<open>
  The receipts of home commands (\<open>hub/integration/ledger.py\<close>): the durable ledger on the
  \<open>receipts\<close> table of \<open>hub/integration/store.py\<close> and the ledger in memory, which share one
  interface.  A stored result is the value its JSON text is read back as.

  Times are milliseconds.  The locale \<open>receipt_ledger\<close> is what the runtime relies on; both
  ledgers interpret it.
\<close>

section \<open>Results\<close>

datatype result_status = Succeeded | Failed | Unknown | Delegated

record command_answer =
  ca_device_id :: string
  ca_status :: result_status
  ca_code :: "string option"
  ca_state :: "dict option"
  ca_platform_answer :: "string option"

record execute_result =
  xr_request_id :: string
  xr_results :: "command_answer list"
  xr_error :: "string option"

section \<open>Rows\<close>

record receipt_key =
  rk_owner_id :: string
  rk_scope :: string
  rk_request_id :: string

record timestamps =
  ts_submitted :: int
  ts_provider_started :: "int option"
  ts_provider_returned :: "int option"
  ts_confirmed :: "int option"
  ts_completed :: "int option"
  ts_reconciled :: "int option"

record receipt =
  rc_key :: receipt_key
  rc_fingerprint :: string
  rc_timestamps :: timestamps
  rc_result :: "execute_result option"

type_synonym receipts = "receipt list"

definition idempotency_window_ms :: int where
  "idempotency_window_ms = 24 * 60 * 60000"

definition retention_ms :: int where
  "retention_ms = 7 * 24 * 60 * 60000"

definition submitted :: "int \<Rightarrow> timestamps" where
  "submitted now = \<lparr>ts_submitted = now, ts_provider_started = None, ts_provider_returned = None,
     ts_confirmed = None, ts_completed = None, ts_reconciled = None\<rparr>"

definition fetch_receipt :: "receipt_key \<Rightarrow> receipts \<Rightarrow> receipt option" where
  "fetch_receipt k rows = tget rc_key k rows"

text \<open>\<open>_replace_unknown\<close>: the first unknown item for the target, by its replacement.\<close>

fun replace_item :: "string \<Rightarrow> command_answer \<Rightarrow> command_answer list \<Rightarrow> command_answer list option" where
  "replace_item target item [] = None"
| "replace_item target item (a # as) =
     (if ca_device_id a = target \<and> ca_status a = Unknown then Some (item # as)
      else map_option (Cons a) (replace_item target item as))"

definition replace_unknown ::
  "receipt option \<Rightarrow> string \<Rightarrow> command_answer \<Rightarrow> execute_result option" where
  "replace_unknown receipt target item =
     (case receipt of
        None \<Rightarrow> None
      | Some r \<Rightarrow>
          (case rc_result r of
             None \<Rightarrow> None
           | Some res \<Rightarrow>
               map_option (\<lambda>items. res\<lparr>xr_results := items\<rparr>) (replace_item target item (xr_results res))))"

text \<open>What a submission is answered with; \<open>Receipt_conflict\<close> is the exception.\<close>

datatype begin_answer = Receipt_conflict | Receipt_found receipt | Receipt_new

definition within_window :: "int \<Rightarrow> receipt \<Rightarrow> bool" where
  "within_window now r \<longleftrightarrow> now - idempotency_window_ms \<le> ts_submitted (rc_timestamps r)"

section \<open>The durable ledger\<close>

definition sqlite_upsert :: "receipt_key \<Rightarrow> string \<Rightarrow> int \<Rightarrow> receipts \<Rightarrow> receipts" where
  "sqlite_upsert k fp now rows =
     (case fetch_receipt k rows of
        None \<Rightarrow> rows @ [\<lparr>rc_key = k, rc_fingerprint = fp, rc_timestamps = submitted now, rc_result = None\<rparr>]
      | Some _ \<Rightarrow>
          tupd rc_key k (\<lambda>r. r\<lparr>rc_fingerprint := fp, rc_result := None,
            rc_timestamps := (submitted now)\<lparr>ts_reconciled := ts_reconciled (rc_timestamps r)\<rparr>\<rparr>) rows)"

definition sqlite_begin ::
  "receipt_key \<Rightarrow> string \<Rightarrow> int \<Rightarrow> receipts \<Rightarrow> receipts \<times> begin_answer" where
  "sqlite_begin k fp now rows =
     (let kept = filter (\<lambda>r. now - retention_ms \<le> ts_submitted (rc_timestamps r)) rows
      in case fetch_receipt k kept of
           Some r \<Rightarrow>
             if within_window now r
             then (if rc_fingerprint r \<noteq> fp then (rows, Receipt_conflict) else (kept, Receipt_found r))
             else (sqlite_upsert k fp now kept, Receipt_new)
         | None \<Rightarrow> (sqlite_upsert k fp now kept, Receipt_new))"

definition sqlite_complete ::
  "receipt_key \<Rightarrow> execute_result \<Rightarrow> timestamps \<Rightarrow> receipts \<Rightarrow> receipts" where
  "sqlite_complete k result ts rows =
     tupd rc_key k (\<lambda>r. r\<lparr>rc_result := Some result,
       rc_timestamps := (rc_timestamps r)\<lparr>ts_provider_started := ts_provider_started ts,
         ts_provider_returned := ts_provider_returned ts, ts_confirmed := ts_confirmed ts,
         ts_completed := ts_completed ts\<rparr>\<rparr>) rows"

definition sqlite_reconcile ::
  "receipt_key \<Rightarrow> string \<Rightarrow> command_answer \<Rightarrow> int \<Rightarrow> receipts \<Rightarrow> receipts \<times> bool" where
  "sqlite_reconcile k target item t rows =
     (case replace_unknown (fetch_receipt k rows) target item of
        None \<Rightarrow> (rows, False)
      | Some replaced \<Rightarrow>
          (tupd rc_key k (\<lambda>r. r\<lparr>rc_result := Some replaced,
             rc_timestamps := (rc_timestamps r)\<lparr>ts_reconciled := Some t\<rparr>\<rparr>) rows, True))"

section \<open>The ledger in memory\<close>

definition memory_put :: "receipt \<Rightarrow> receipts \<Rightarrow> receipts" where
  "memory_put r rows =
     (case fetch_receipt (rc_key r) rows of
        None \<Rightarrow> rows @ [r]
      | Some _ \<Rightarrow> tupd rc_key (rc_key r) (\<lambda>_. r) rows)"

definition memory_begin ::
  "nat \<Rightarrow> receipt_key \<Rightarrow> string \<Rightarrow> int \<Rightarrow> receipts \<Rightarrow> receipts \<times> begin_answer" where
  "memory_begin capacity k fp now rows =
     (let fresh = memory_put \<lparr>rc_key = k, rc_fingerprint = fp, rc_timestamps = submitted now,
                    rc_result = None\<rparr> rows;
          answer = (drop (length fresh - capacity) fresh, Receipt_new)
      in case fetch_receipt k rows of
           Some r \<Rightarrow>
             if within_window now r
             then (rows, if rc_fingerprint r \<noteq> fp then Receipt_conflict else Receipt_found r)
             else answer
         | None \<Rightarrow> answer)"

definition memory_complete ::
  "receipt_key \<Rightarrow> execute_result \<Rightarrow> timestamps \<Rightarrow> receipts \<Rightarrow> receipts" where
  "memory_complete k result ts rows =
     tupd rc_key k (\<lambda>r. r\<lparr>rc_result := Some result, rc_timestamps := ts\<rparr>) rows"

definition memory_reconcile ::
  "receipt_key \<Rightarrow> string \<Rightarrow> command_answer \<Rightarrow> int \<Rightarrow> receipts \<Rightarrow> receipts \<times> bool" where
  "memory_reconcile k target item t rows = sqlite_reconcile k target item t rows"

section \<open>The interface\<close>

text \<open>
  \<open>ok\<close> is the ledger's own invariant.  \<open>opened\<close>: a new submission is recorded without a result;
  \<open>found\<close>: a repeat within the window is given the receipt that is there; \<open>clash\<close>: other content
  under a recorded identifier is refused and recorded nowhere.
\<close>

locale receipt_ledger =
  fixes ok :: "'l \<Rightarrow> bool"
    and start :: "receipt_key \<Rightarrow> string \<Rightarrow> int \<Rightarrow> 'l \<Rightarrow> 'l \<times> begin_answer"
    and finish :: "receipt_key \<Rightarrow> execute_result \<Rightarrow> timestamps \<Rightarrow> 'l \<Rightarrow> 'l"
    and look :: "receipt_key \<Rightarrow> 'l \<Rightarrow> receipt option"
    and settle :: "receipt_key \<Rightarrow> string \<Rightarrow> command_answer \<Rightarrow> int \<Rightarrow> 'l \<Rightarrow> 'l \<times> bool"
  assumes start_ok: "ok l \<Longrightarrow> ok (fst (start k fp now l))"
    and finish_ok: "ok l \<Longrightarrow> ok (finish k res ts l)"
    and settle_ok: "ok l \<Longrightarrow> ok (fst (settle k target item t l))"
    and start_found: "ok l \<Longrightarrow> look k l = Some r \<Longrightarrow> within_window now r \<Longrightarrow> rc_fingerprint r = fp \<Longrightarrow>
      snd (start k fp now l) = Receipt_found r \<and> look k (fst (start k fp now l)) = Some r"
    and start_clash: "ok l \<Longrightarrow> look k l = Some r \<Longrightarrow> within_window now r \<Longrightarrow> rc_fingerprint r \<noteq> fp \<Longrightarrow>
      start k fp now l = (l, Receipt_conflict)"
    and start_new: "ok l \<Longrightarrow> (\<And>r. look k l = Some r \<Longrightarrow> \<not> within_window now r) \<Longrightarrow>
      snd (start k fp now l) = Receipt_new \<and> (\<exists>r. look k (fst (start k fp now l)) = Some r
        \<and> rc_fingerprint r = fp \<and> ts_submitted (rc_timestamps r) = now \<and> rc_result r = None)"
    and finish_look: "ok l \<Longrightarrow> look k l = Some r \<Longrightarrow> ts_submitted ts = ts_submitted (rc_timestamps r) \<Longrightarrow>
      \<exists>r'. look k (finish k res ts l) = Some r' \<and> rc_fingerprint r' = rc_fingerprint r
        \<and> ts_submitted (rc_timestamps r') = ts_submitted (rc_timestamps r) \<and> rc_result r' = Some res"
    and settle_look: "ok l \<Longrightarrow> look k (fst (settle k target item t l)) =
      (case replace_unknown (look k l) target item of
         None \<Rightarrow> look k l
       | Some res \<Rightarrow> map_option (\<lambda>r. r\<lparr>rc_result := Some res,
           rc_timestamps := (rc_timestamps r)\<lparr>ts_reconciled := Some t\<rparr>\<rparr>) (look k l))"
begin

lemma new_unseen:
  assumes "ok l" "snd (start k fp now l) = Receipt_new" "look k l = Some r"
  shows "\<not> within_window now r"
proof
  assume w: "within_window now r"
  show False
  proof (cases "rc_fingerprint r = fp")
    case True
    with start_found [OF assms(1,3) w] assms(2) show False by simp
  next
    case False
    with start_clash [OF assms(1,3) w, of fp] assms(2) show False by simp
  qed
qed

text \<open>What the runtime builds on: a carried out request is answered with its result from then on.\<close>

lemma repeat_answered:
  assumes "ok l" "snd (start k fp now l) = Receipt_new" "ts_submitted ts = now"
    and "now \<le> later" "later \<le> now + idempotency_window_ms"
  shows "\<exists>r. snd (start k fp later (finish k res ts (fst (start k fp now l)))) = Receipt_found r
    \<and> rc_result r = Some res"
proof -
  from start_new [OF assms(1)] new_unseen [OF assms(1,2)] obtain r where
    r: "look k (fst (start k fp now l)) = Some r" "rc_fingerprint r = fp" "ts_submitted (rc_timestamps r) = now"
    by blast
  have ok1: "ok (fst (start k fp now l))" using assms(1) by (rule start_ok)
  from finish_look [OF ok1 r(1)] assms(3) r(2,3) obtain r' where
    r': "look k (finish k res ts (fst (start k fp now l))) = Some r'" "rc_fingerprint r' = fp"
      "ts_submitted (rc_timestamps r') = now" "rc_result r' = Some res" by auto
  have "within_window later r'" using r'(3) assms(5) by (simp add: within_window_def)
  with start_found [OF finish_ok [OF ok1] r'(1) this r'(2)] r'(4) show ?thesis by blast
qed

lemma conflict_refused:
  assumes "ok l" "snd (start k fp now l) = Receipt_new" "fp' \<noteq> fp"
    and "now \<le> later" "later \<le> now + idempotency_window_ms"
  shows "start k fp' later (fst (start k fp now l)) = (fst (start k fp now l), Receipt_conflict)"
proof -
  from start_new [OF assms(1)] new_unseen [OF assms(1,2)] obtain r where
    r: "look k (fst (start k fp now l)) = Some r" "rc_fingerprint r = fp" "ts_submitted (rc_timestamps r) = now"
    by blast
  have "within_window later r" using r(3) assms(5) by (simp add: within_window_def)
  with start_clash [OF start_ok [OF assms(1)] r(1) this] r(2) assms(3) show ?thesis by simp
qed

end

section \<open>Both ledgers provide it\<close>

definition receipts_ok :: "receipts \<Rightarrow> bool" where
  "receipts_ok rows \<longleftrightarrow> distinct (map rc_key rows)"

lemma filter_fetch:
  assumes "receipts_ok rows"
  shows "fetch_receipt k (filter P rows) =
    (case fetch_receipt k rows of Some r \<Rightarrow> if P r then Some r else None | None \<Rightarrow> None)"
  using assms
proof (induction rows)
  case (Cons a rows)
  then have "tget rc_key (rc_key a) rows = None" by (simp add: receipts_ok_def tget_None_iff)
  with Cons show ?case
    by (auto simp: receipts_ok_def fetch_receipt_def tget_Cons split: option.splits)
qed (simp add: fetch_receipt_def)

lemma receipts_ok_filter: "receipts_ok rows \<Longrightarrow> receipts_ok (filter P rows)"
  by (simp add: receipts_ok_def distinct_map_filter)

lemma fetch_tupd:
  "(\<And>r. rc_key (f r) = rc_key r) \<Longrightarrow> fetch_receipt k (tupd rc_key k f rows) = map_option f (fetch_receipt k rows)"
  by (simp add: fetch_receipt_def tget_tupd)

lemma receipts_ok_tupd:
  "(\<And>r. rc_key (f r) = rc_key r) \<Longrightarrow> receipts_ok rows \<Longrightarrow> receipts_ok (tupd rc_key k f rows)"
  by (simp add: receipts_ok_def map_tupd)

lemma receipts_ok_snoc:
  "receipts_ok rows \<Longrightarrow> fetch_receipt (rc_key r) rows = None \<Longrightarrow> receipts_ok (rows @ [r])"
  by (simp add: receipts_ok_def fetch_receipt_def tget_None_iff)

lemma fetch_snoc:
  "fetch_receipt (rc_key r) rows = None \<Longrightarrow> fetch_receipt (rc_key r) (rows @ [r]) = Some r"
  by (simp add: fetch_receipt_def tget_append tget_Cons)

lemma sqlite_upsert_ok: "receipts_ok rows \<Longrightarrow> receipts_ok (sqlite_upsert k fp now rows)"
  by (auto simp: sqlite_upsert_def intro: receipts_ok_tupd receipts_ok_snoc split: option.splits)

lemma sqlite_upsert_fetch:
  "\<exists>r. fetch_receipt k (sqlite_upsert k fp now rows) = Some r \<and> rc_fingerprint r = fp
     \<and> ts_submitted (rc_timestamps r) = now \<and> rc_result r = None"
proof (cases "fetch_receipt k rows")
  case None
  then show ?thesis
    by (simp add: sqlite_upsert_def submitted_def fetch_receipt_def tget_append tget_Cons)
next
  case (Some r)
  then show ?thesis by (simp add: sqlite_upsert_def fetch_tupd submitted_def)
qed

lemma kept_in_window: "within_window now r \<Longrightarrow> now - retention_ms \<le> ts_submitted (rc_timestamps r)"
  by (simp add: within_window_def idempotency_window_ms_def retention_ms_def)

interpretation sqlite_ledger:
  receipt_ledger receipts_ok sqlite_begin sqlite_complete fetch_receipt sqlite_reconcile
proof
  fix l :: receipts and k fp now res ts target item t r
  assume ok: "receipts_ok l"
  show "receipts_ok (fst (sqlite_begin k fp now l))"
    using ok by (auto simp: sqlite_begin_def Let_def receipts_ok_filter sqlite_upsert_ok split: option.splits)
  show "receipts_ok (sqlite_complete k res ts l)"
    using ok by (simp add: sqlite_complete_def receipts_ok_tupd)
  show "receipts_ok (fst (sqlite_reconcile k target item t l))"
    using ok by (simp add: sqlite_reconcile_def receipts_ok_tupd split: option.split)
  show "fetch_receipt k (fst (sqlite_reconcile k target item t l)) =
      (case replace_unknown (fetch_receipt k l) target item of
         None \<Rightarrow> fetch_receipt k l
       | Some res \<Rightarrow> map_option (\<lambda>r. r\<lparr>rc_result := Some res,
           rc_timestamps := (rc_timestamps r)\<lparr>ts_reconciled := Some t\<rparr>\<rparr>) (fetch_receipt k l))"
    by (simp add: sqlite_reconcile_def fetch_tupd split: option.split)
  show "snd (sqlite_begin k fp now l) = Receipt_new \<and> (\<exists>r. fetch_receipt k (fst (sqlite_begin k fp now l)) = Some r
      \<and> rc_fingerprint r = fp \<and> ts_submitted (rc_timestamps r) = now \<and> rc_result r = None)"
    if "\<And>r. fetch_receipt k l = Some r \<Longrightarrow> \<not> within_window now r"
    using that sqlite_upsert_fetch by (auto simp: sqlite_begin_def Let_def filter_fetch [OF ok] split: option.splits)
  assume r: "fetch_receipt k l = Some r"
  show "snd (sqlite_begin k fp now l) = Receipt_found r \<and> fetch_receipt k (fst (sqlite_begin k fp now l)) = Some r"
    if "within_window now r" "rc_fingerprint r = fp"
    using that r kept_in_window [OF that(1)] by (simp add: sqlite_begin_def Let_def filter_fetch [OF ok])
  show "sqlite_begin k fp now l = (l, Receipt_conflict)"
    if "within_window now r" "rc_fingerprint r \<noteq> fp"
    using that r kept_in_window [OF that(1)] by (simp add: sqlite_begin_def Let_def filter_fetch [OF ok])
  show "\<exists>r'. fetch_receipt k (sqlite_complete k res ts l) = Some r' \<and> rc_fingerprint r' = rc_fingerprint r
      \<and> ts_submitted (rc_timestamps r') = ts_submitted (rc_timestamps r) \<and> rc_result r' = Some res"
    using r by (simp add: sqlite_complete_def fetch_tupd)
qed

definition memory_ok :: "nat \<Rightarrow> receipts \<Rightarrow> bool" where
  "memory_ok capacity rows \<longleftrightarrow> receipts_ok rows \<and> length rows \<le> capacity"

lemma memory_put_ok: "receipts_ok rows \<Longrightarrow> receipts_ok (memory_put r rows)"
  by (auto simp: memory_put_def receipts_ok_snoc split: option.splits)
    (simp add: receipts_ok_def tupd_def comp_def if_distrib cong: if_cong)

lemma memory_put_fetch: "fetch_receipt (rc_key r) (memory_put r rows) = Some r"
  by (auto simp: memory_put_def fetch_snoc split: option.splits)
    (simp add: fetch_receipt_def tget_tupd_const)

lemma memory_put_length: "length (memory_put r rows) \<le> Suc (length rows)"
  by (simp add: memory_put_def split: option.split)

lemma receipts_ok_drop: "receipts_ok rows \<Longrightarrow> receipts_ok (drop n rows)"
  by (simp add: receipts_ok_def drop_map [symmetric])

text \<open>The row just written survives the eviction of the oldest ones.\<close>

lemma fetch_after_eviction:
  assumes "length rows \<le> Suc c"
  shows "fetch_receipt (rc_key r) (drop (length (memory_put r rows) - Suc c) (memory_put r rows)) = Some r"
proof (cases "fetch_receipt (rc_key r) rows")
  case None
  then have "memory_put r rows = rows @ [r]" by (simp add: memory_put_def)
  moreover have "fetch_receipt (rc_key r) (drop n rows) = None" for n
    using None by (auto simp: fetch_receipt_def tget_None_iff dest: in_set_dropD)
  ultimately show ?thesis using assms by (simp add: fetch_snoc)
next
  case (Some q)
  then have "length (memory_put r rows) = length rows" by (simp add: memory_put_def)
  with assms show ?thesis by (simp add: memory_put_fetch)
qed

interpretation memory_ledger:
  receipt_ledger "memory_ok (Suc c)" "memory_begin (Suc c)" memory_complete fetch_receipt memory_reconcile for c
proof
  fix l :: receipts and k fp now res ts target item t r
  assume m: "memory_ok (Suc c) l"
  then have ok: "receipts_ok l" and len: "length l \<le> Suc c" by (simp_all add: memory_ok_def)
  show "memory_ok (Suc c) (fst (memory_begin (Suc c) k fp now l))"
    using m memory_put_ok [OF ok]
    by (auto simp: memory_begin_def Let_def memory_ok_def receipts_ok_drop split: option.splits)
  show "memory_ok (Suc c) (memory_complete k res ts l)"
    using m by (simp add: memory_complete_def memory_ok_def receipts_ok_tupd)
  show "memory_ok (Suc c) (fst (memory_reconcile k target item t l))"
    using m by (simp add: memory_reconcile_def sqlite_reconcile_def memory_ok_def receipts_ok_tupd split: option.split)
  show "fetch_receipt k (fst (memory_reconcile k target item t l)) =
      (case replace_unknown (fetch_receipt k l) target item of
         None \<Rightarrow> fetch_receipt k l
       | Some res \<Rightarrow> map_option (\<lambda>r. r\<lparr>rc_result := Some res,
           rc_timestamps := (rc_timestamps r)\<lparr>ts_reconciled := Some t\<rparr>\<rparr>) (fetch_receipt k l))"
    unfolding memory_reconcile_def by (rule sqlite_ledger.settle_look [OF ok])
  show "snd (memory_begin (Suc c) k fp now l) = Receipt_new
      \<and> (\<exists>r. fetch_receipt k (fst (memory_begin (Suc c) k fp now l)) = Some r
           \<and> rc_fingerprint r = fp \<and> ts_submitted (rc_timestamps r) = now \<and> rc_result r = None)"
    if "\<And>r. fetch_receipt k l = Some r \<Longrightarrow> \<not> within_window now r"
    using that fetch_after_eviction [OF len,
        of "\<lparr>rc_key = k, rc_fingerprint = fp, rc_timestamps = submitted now, rc_result = None\<rparr>"]
    by (auto simp: memory_begin_def Let_def submitted_def split: option.splits)
  assume r: "fetch_receipt k l = Some r"
  show "snd (memory_begin (Suc c) k fp now l) = Receipt_found r
      \<and> fetch_receipt k (fst (memory_begin (Suc c) k fp now l)) = Some r"
    if "within_window now r" "rc_fingerprint r = fp"
    using that r by (simp add: memory_begin_def Let_def)
  show "memory_begin (Suc c) k fp now l = (l, Receipt_conflict)"
    if "within_window now r" "rc_fingerprint r \<noteq> fp"
    using that r by (simp add: memory_begin_def Let_def)
  show "\<exists>r'. fetch_receipt k (memory_complete k res ts l) = Some r' \<and> rc_fingerprint r' = rc_fingerprint r
      \<and> ts_submitted (rc_timestamps r') = ts_submitted (rc_timestamps r) \<and> rc_result r' = Some res"
    if "ts_submitted ts = ts_submitted (rc_timestamps r)"
    using that r by (simp add: memory_complete_def fetch_tupd)
qed

end
