(* ===== verification/Observation_Cache.thy ===== *)
theory Observation_Cache
  imports Device_Repository Python_Values
begin

text \<open>
  The last observed fact per target and the stream of changes
  (\<open>hub/integration/observation.py\<close>): the cache on the \<open>observations\<close> table and the one in
  memory.  The durable cache keeps and compares the JSON text of a state.
\<close>

section \<open>The durable cache\<close>

record observation_row =
  ob_owner_id :: string
  ob_target :: string
  ob_reachable :: bool
  ob_state_json :: "string option"
  ob_observed_at :: int
  ob_seq :: int

record observed =
  od_target :: string
  od_reachable :: bool
  od_state :: "json option"
  od_observed_at :: int
  od_seq :: int

definition observation_key :: "observation_row \<Rightarrow> string \<times> string" where
  "observation_key r = (ob_owner_id r, ob_target r)"

definition state_text :: "device_sdk \<Rightarrow> dict option \<Rightarrow> string option" where
  "state_text s state = map_option (\<lambda>d. json_dumps s (JObj d)) state"

definition of_owner :: "string \<Rightarrow> observation_row list \<Rightarrow> observation_row list" where
  "of_owner owner rows = filter (\<lambda>r. ob_owner_id r = owner) rows"

definition latest_seq :: "string \<Rightarrow> observation_row list \<Rightarrow> int" where
  "latest_seq owner rows = sql_max (map ob_seq (of_owner owner rows))"

definition put_observation ::
  "device_sdk \<Rightarrow> string \<Rightarrow> string \<Rightarrow> bool \<Rightarrow> dict option \<Rightarrow> int \<Rightarrow> observation_row list \<Rightarrow>
   observation_row list \<times> observed option" where
  "put_observation s owner target reachable state t rows =
     (let text = state_text s state;
          seq = latest_seq owner rows + 1;
          row = \<lparr>ob_owner_id = owner, ob_target = target, ob_reachable = reachable,
                 ob_state_json = text, ob_observed_at = t, ob_seq = seq\<rparr>;
          changed = Some \<lparr>od_target = target, od_reachable = reachable,
                          od_state = map_option JObj state, od_observed_at = t, od_seq = seq\<rparr>
      in case tget observation_key (owner, target) rows of
           None \<Rightarrow> (rows @ [row], changed)
         | Some r \<Rightarrow>
             if ob_reachable r = reachable \<and> ob_state_json r = text
             then (tupd observation_key (owner, target) (\<lambda>r. r\<lparr>ob_observed_at := t\<rparr>) rows, None)
             else (tupd observation_key (owner, target) (\<lambda>_. row) rows, changed))"

definition forget_observations :: "string \<Rightarrow> string list \<Rightarrow> observation_row list \<Rightarrow> observation_row list" where
  "forget_observations owner targets rows =
     filter (\<lambda>r. \<not> (ob_owner_id r = owner \<and> ob_target r \<in> set targets)) rows"

definition observed_row :: "external \<Rightarrow> observation_row \<Rightarrow> exn + observed" where
  "observed_row x r =
     (case ob_state_json r of
        None \<Rightarrow> Inr \<lparr>od_target = ob_target r, od_reachable = ob_reachable r, od_state = None,
                     od_observed_at = ob_observed_at r, od_seq = ob_seq r\<rparr>
      | Some text \<Rightarrow>
          andthen (present (json_loads x text) (Value_error ''JSONDecodeError'')) (\<lambda>j.
          Inr \<lparr>od_target = ob_target r, od_reachable = ob_reachable r, od_state = Some j,
               od_observed_at = ob_observed_at r, od_seq = ob_seq r\<rparr>))"

fun observed_rows :: "external \<Rightarrow> observation_row list \<Rightarrow> exn + observed list" where
  "observed_rows x [] = Inr []"
| "observed_rows x (r # rs) =
     andthen (observed_row x r) (\<lambda>d. andthen (observed_rows x rs) (\<lambda>ds. Inr (d # ds)))"

definition snapshot_observations :: "external \<Rightarrow> string \<Rightarrow> observation_row list \<Rightarrow> exn + observed list" where
  "snapshot_observations x owner rows = observed_rows x (of_owner owner rows)"

definition rows_after :: "string \<Rightarrow> int \<Rightarrow> observation_row list \<Rightarrow> observation_row list" where
  "rows_after owner seq rows =
     order_by ob_seq (filter (\<lambda>r. seq < ob_seq r) (of_owner owner rows))"

text \<open>
  A long poll reads at once and at each wake-up, and a last time when its timeout is over;
  the tables it finds are its argument.
\<close>

fun changes_since :: "external \<Rightarrow> string \<Rightarrow> int \<Rightarrow> observation_row list list \<Rightarrow> exn + observed list" where
  "changes_since x owner seq [] = Inr []"
| "changes_since x owner seq (rows # later) =
     andthen (observed_rows x (rows_after owner seq rows)) (\<lambda>changes.
     if changes \<noteq> [] then Inr changes else changes_since x owner seq later)"

section \<open>The cache in memory\<close>

record memory_cache =
  mo_rows :: "(string \<times> observed) list"
  mo_seq :: "(string \<times> int) list"

definition mem_get :: "string \<Rightarrow> string \<Rightarrow> memory_cache \<Rightarrow> observed option" where
  "mem_get owner target c =
     map_option snd (find (\<lambda>p. fst p = owner \<and> od_target (snd p) = target) (mo_rows c))"

definition mem_latest_seq :: "string \<Rightarrow> memory_cache \<Rightarrow> int" where
  "mem_latest_seq owner c = (case map_of (mo_seq c) owner of Some n \<Rightarrow> n | None \<Rightarrow> 0)"

definition mem_set :: "string \<Rightarrow> observed \<Rightarrow> memory_cache \<Rightarrow> memory_cache" where
  "mem_set owner o' c =
     (if mem_get owner (od_target o') c = None then c\<lparr>mo_rows := mo_rows c @ [(owner, o')]\<rparr>
      else c\<lparr>mo_rows := map (\<lambda>p. if fst p = owner \<and> od_target (snd p) = od_target o' then (owner, o') else p)
               (mo_rows c)\<rparr>)"

definition same_state :: "json option \<Rightarrow> dict option \<Rightarrow> bool" where
  "same_state a b =
     (case (a, b) of (None, None) \<Rightarrow> True | (Some j, Some d) \<Rightarrow> py_eq j (JObj d) | _ \<Rightarrow> False)"

definition mem_put ::
  "string \<Rightarrow> string \<Rightarrow> bool \<Rightarrow> dict option \<Rightarrow> int \<Rightarrow> memory_cache \<Rightarrow> memory_cache \<times> observed option" where
  "mem_put owner target reachable state t c =
     (let seq = mem_latest_seq owner c + 1;
          new = \<lparr>od_target = target, od_reachable = reachable, od_state = map_option JObj state,
                 od_observed_at = t, od_seq = seq\<rparr>;
          changed = (mem_set owner new (c\<lparr>mo_seq := (owner, seq) # mo_seq c\<rparr>), Some new)
      in case mem_get owner target c of
           Some current \<Rightarrow>
             if od_reachable current = reachable \<and> same_state (od_state current) state
             then (mem_set owner (new\<lparr>od_seq := od_seq current\<rparr>) c, None)
             else changed
         | None \<Rightarrow> changed)"

definition mem_forget :: "string \<Rightarrow> string list \<Rightarrow> memory_cache \<Rightarrow> memory_cache" where
  "mem_forget owner targets c =
     c\<lparr>mo_rows := filter (\<lambda>p. \<not> (fst p = owner \<and> od_target (snd p) \<in> set targets)) (mo_rows c)\<rparr>"

definition mem_after :: "string \<Rightarrow> int \<Rightarrow> memory_cache \<Rightarrow> observed list" where
  "mem_after owner seq c =
     order_by od_seq (map snd (filter (\<lambda>p. fst p = owner \<and> seq < od_seq (snd p)) (mo_rows c)))"

end
