(* ===== verification/Home_Runtime.thy ===== *)
theory Home_Runtime
  imports Home_Effects Integration_Ledger Observation_Cache
begin

text \<open>
  Owner-scoped execution of home commands (\<open>SmartHomeRuntime\<close> of \<open>hub/smarthome/runtime.py\<close>).

  An \<open>async\<close> method is cut where it waits for a Provider, for the registry or for the Owner's
  lock: each definition is what happens between two such points, on the state of the process
  and its store.  Ledger and observation cache never wait, so what they do is part of the
  piece that calls them.  The clock is read where the source reads it; a definition takes the
  value as an argument.

  The Providers and System Data are outside: what they answer is an argument.
\<close>

section \<open>Requests and state\<close>

record execute_request =
  rq_request_id :: string
  rq_origin_kind :: string
  rq_device_ref :: "string option"
  rq_commands :: "command list"
  rq_scene_id :: "string option"
  rq_deadline :: int

record area =
  ar_area_id :: string
  ar_name :: string
  ar_order :: nat

record registry =
  rg_revision :: int
  rg_areas :: "area list"
  rg_devices :: "home_device list"
  rg_scenes :: "(string \<times> command list) list"

record pending =
  pe_scope :: string
  pe_request_id :: string
  pe_command :: command
  pe_before :: "dict option"
  pe_expires_at :: int

text \<open>What the process holds, per Owner, and the store; a missing key is an empty list.\<close>

record home_state =
  hs_receipts :: receipts
  hs_observations :: "observation_row list"
  hs_pending :: "string \<times> string \<Rightarrow> pending list"
  hs_inflight :: "receipt_key list"
  hs_registry :: "string \<Rightarrow> registry option"
  hs_registry_read_at :: "string \<Rightarrow> int"

definition reconcile_window_ms :: int where
  "reconcile_window_ms = 10 * 60000"

definition request_scope :: "execute_request \<Rightarrow> string" where
  "request_scope rq =
     (if rq_origin_kind rq = ''touch''
      then (case rq_device_ref rq of Some d \<Rightarrow> d | None \<Rightarrow> '''') else '''')"

definition request_key :: "string \<Rightarrow> execute_request \<Rightarrow> receipt_key" where
  "request_key owner rq =
     \<lparr>rk_owner_id = owner, rk_scope = request_scope rq, rk_request_id = rq_request_id rq\<rparr>"

section \<open>Submission\<close>

text \<open>\<open>print\<close> is the SDK's printer of the commands and the scene.\<close>

type_synonym request_printer = "command list \<Rightarrow> string option \<Rightarrow> string"

datatype submission =
  Submission_without_owner
| Submission_conflict
| Submission_answered execute_result
| Submission_waits
| Submission_runs

definition submit ::
  "request_printer \<Rightarrow> int \<Rightarrow> string \<Rightarrow> execute_request \<Rightarrow> home_state \<Rightarrow> home_state \<times> submission" where
  "submit printer now owner rq st =
     (let k = request_key owner rq;
          fp = printer (rq_commands rq) (rq_scene_id rq)
      in if owner = [] then (st, Submission_without_owner)
         else case sqlite_begin k fp now (hs_receipts st) of
           (rows, Receipt_conflict) \<Rightarrow> (st\<lparr>hs_receipts := rows\<rparr>, Submission_conflict)
         | (rows, Receipt_new) \<Rightarrow>
             (st\<lparr>hs_receipts := rows, hs_inflight := List.insert k (hs_inflight st)\<rparr>, Submission_runs)
         | (rows, Receipt_found r) \<Rightarrow>
             (case rc_result r of
                Some result \<Rightarrow> (st\<lparr>hs_receipts := rows\<rparr>, Submission_answered result)
              | None \<Rightarrow>
                  if k \<in> set (hs_inflight st) then (st\<lparr>hs_receipts := rows\<rparr>, Submission_waits)
                  else (st\<lparr>hs_receipts := rows, hs_inflight := List.insert k (hs_inflight st)\<rparr>,
                        Submission_runs)))"

section \<open>Observations\<close>

text \<open>The loop over the waiting outcomes: the receipts, and who still waits.\<close>

fun settle_each ::
  "external \<Rightarrow> home_sdk \<Rightarrow> int \<Rightarrow> string \<Rightarrow> string \<Rightarrow> dict option \<Rightarrow> pending list \<Rightarrow> receipts \<Rightarrow>
   receipts \<times> (exn + pending list)" where
  "settle_each x h now owner dev state [] rows = (rows, Inr [])"
| "settle_each x h now owner dev state (p # ps) rows =
     (if pe_expires_at p \<le> now then settle_each x h now owner dev state ps rows
      else case (case state of None \<Rightarrow> Inr False | Some s \<Rightarrow> satisfied x h (pe_command p) (pe_before p) s) of
             Inl e \<Rightarrow> (rows, Inl e)
           | Inr True \<Rightarrow>
               settle_each x h now owner dev state ps
                 (fst (sqlite_reconcile
                    \<lparr>rk_owner_id = owner, rk_scope = pe_scope p, rk_request_id = pe_request_id p\<rparr> dev
                    \<lparr>ca_device_id = dev, ca_status = Succeeded, ca_code = None, ca_state = state,
                     ca_platform_answer = None\<rparr> now rows))
           | Inr False \<Rightarrow>
               (case settle_each x h now owner dev state ps rows of
                  (rows', Inl e) \<Rightarrow> (rows', Inl e)
                | (rows', Inr qs) \<Rightarrow> (rows', Inr (p # qs))))"

definition observe ::
  "external \<Rightarrow> device_sdk \<Rightarrow> home_sdk \<Rightarrow> int \<Rightarrow> string \<Rightarrow> string \<Rightarrow> bool \<Rightarrow> dict option \<Rightarrow> home_state \<Rightarrow>
   home_state \<times> (exn + unit)" where
  "observe x s h now owner dev reachable state st =
     (let st1 = st\<lparr>hs_observations :=
            fst (put_observation s owner dev reachable state now (hs_observations st))\<rparr>;
          waiting = hs_pending st (owner, dev)
      in if waiting = [] then (st1, Inr ())
         else (case settle_each x h now owner dev state waiting (hs_receipts st) of
                 (rows, Inl e) \<Rightarrow> (st1\<lparr>hs_receipts := rows\<rparr>, Inl e)
               | (rows, Inr remaining) \<Rightarrow>
                   (st1\<lparr>hs_receipts := rows,
                        hs_pending := (hs_pending st)((owner, dev) := remaining)\<rparr>, Inr ())))"

section \<open>The registry\<close>

text \<open>A Provider of one kind, as \<open>_registry\<close> uses it: whether it pushes, and what it answers.\<close>

record provider_view =
  pv_kind :: string
  pv_pushes :: bool
  pv_reconcile :: "exn option"
  pv_states :: "exn + (string \<Rightarrow> dict option)"

definition devices_of :: "home_sdk \<Rightarrow> registry \<Rightarrow> string \<Rightarrow> home_device list" where
  "devices_of h r kind = filter (\<lambda>d. fst (provider_binding h (hd_provider d)) = kind) (rg_devices r)"

fun observe_each ::
  "external \<Rightarrow> device_sdk \<Rightarrow> home_sdk \<Rightarrow> int \<Rightarrow> string \<Rightarrow> (string \<Rightarrow> dict option) \<Rightarrow> home_device list \<Rightarrow>
   home_state \<Rightarrow> home_state \<times> (exn + unit)" where
  "observe_each x s h now owner states [] st = (st, Inr ())"
| "observe_each x s h now owner states (d # ds) st =
     (let state = states (hd_device_id d)
      in case observe x s h now owner (hd_device_id d) (state \<noteq> None) state st of
           (st1, Inl e) \<Rightarrow> (st1, Inl e)
         | (st1, Inr _) \<Rightarrow> observe_each x s h now owner states ds st1)"

fun poll_providers ::
  "external \<Rightarrow> device_sdk \<Rightarrow> home_sdk \<Rightarrow> int \<Rightarrow> string \<Rightarrow> registry \<Rightarrow> bool \<Rightarrow> provider_view list \<Rightarrow>
   home_state \<Rightarrow> home_state \<times> (exn + unit)" where
  "poll_providers x s h now owner r has_changed [] st = (st, Inr ())"
| "poll_providers x s h now owner r has_changed (v # vs) st =
     (let ds = filter (\<lambda>d. \<not> hd_orphaned d) (devices_of h r (pv_kind v))
      in if has_changed \<and> pv_reconcile v \<noteq> None then (st, Inl (the (pv_reconcile v)))
         else if pv_pushes v then poll_providers x s h now owner r has_changed vs st
         else (case pv_states v of
                 Inl e \<Rightarrow> (st, Inl e)
               | Inr states \<Rightarrow>
                   (case observe_each x s h now owner states ds st of
                      (st1, Inl e) \<Rightarrow> (st1, Inl e)
                    | (st1, Inr _) \<Rightarrow> poll_providers x s h now owner r has_changed vs st1)))"

definition gone_devices :: "registry \<Rightarrow> registry \<Rightarrow> string list" where
  "gone_devices old r =
     filter (\<lambda>i. i \<notin> hd_device_id ` set (rg_devices r)) (map hd_device_id (rg_devices old))"

definition read_registry ::
  "external \<Rightarrow> device_sdk \<Rightarrow> home_sdk \<Rightarrow> int \<Rightarrow> int \<Rightarrow> string \<Rightarrow> exn + registry \<Rightarrow> provider_view list \<Rightarrow>
   home_state \<Rightarrow> home_state \<times> (exn + registry)" where
  "read_registry x s h ttl now owner source providers st =
     (case hs_registry st owner of
        Some r \<Rightarrow>
          if 0 < ttl \<and> now - hs_registry_read_at st owner < ttl then (st, Inr r)
          else (case source of
                  Inl e \<Rightarrow> (st, Inl e)
                | Inr new \<Rightarrow>
                    (let has_changed = rg_revision r \<noteq> rg_revision new;
                         st1 = st\<lparr>hs_registry_read_at := (hs_registry_read_at st)(owner := now)\<rparr>
                     in case poll_providers x s h now owner new has_changed providers st1 of
                          (st2, Inl e) \<Rightarrow> (st2, Inl e)
                        | (st2, Inr _) \<Rightarrow>
                            (st2\<lparr>hs_observations :=
                                   (if has_changed
                                    then forget_observations owner (gone_devices r new) (hs_observations st2)
                                    else hs_observations st2),
                                 hs_registry := (hs_registry st2)(owner := Some new)\<rparr>, Inr new)))
      | None \<Rightarrow>
          (case source of
             Inl e \<Rightarrow> (st, Inl e)
           | Inr new \<Rightarrow>
               (let st1 = st\<lparr>hs_registry_read_at := (hs_registry_read_at st)(owner := now)\<rparr>
                in case poll_providers x s h now owner new True providers st1 of
                     (st2, Inl e) \<Rightarrow> (st2, Inl e)
                   | (st2, Inr _) \<Rightarrow>
                       (st2\<lparr>hs_registry := (hs_registry st2)(owner := Some new)\<rparr>, Inr new))))"

section \<open>Commands\<close>

definition deadline_exceeded :: string where
  "deadline_exceeded = ''DEADLINE_EXCEEDED''"

definition refused_request :: "execute_request \<Rightarrow> string \<Rightarrow> execute_result" where
  "refused_request rq c = \<lparr>xr_request_id = rq_request_id rq, xr_results = [], xr_error = Some c\<rparr>"

definition failed_command :: "command \<Rightarrow> string \<Rightarrow> command_answer" where
  "failed_command c e = \<lparr>ca_device_id = cm_device_id c, ca_status = Failed, ca_code = Some e,
     ca_state = None, ca_platform_answer = None\<rparr>"

definition unknown_command :: "command \<Rightarrow> string option \<Rightarrow> command_answer" where
  "unknown_command c e = \<lparr>ca_device_id = cm_device_id c, ca_status = Unknown, ca_code = e,
     ca_state = None, ca_platform_answer = None\<rparr>"

text \<open>What \<open>_perform\<close> makes of a request once it has the registry; the SDK's codes.\<close>

definition requested_commands ::
  "registry \<Rightarrow> execute_request \<Rightarrow> execute_result + command list" where
  "requested_commands r rq =
     (case rq_scene_id rq of
        None \<Rightarrow> Inr (rq_commands rq)
      | Some i \<Rightarrow>
          (case map_of (rg_scenes r) i of
             None \<Rightarrow> Inl (refused_request rq ''UNKNOWN_SCENE'')
           | Some actions \<Rightarrow> Inr actions))"

text \<open>\<open>_run\<close> before it waits for the device: the device the command goes to, or its failure.\<close>

definition find_device :: "registry \<Rightarrow> string \<Rightarrow> home_device option" where
  "find_device r i = tget hd_device_id i (rg_devices r)"

definition admit_command ::
  "home_sdk \<Rightarrow> string list \<Rightarrow> registry \<Rightarrow> command \<Rightarrow> command_answer + home_device" where
  "admit_command h kinds r c =
     (case find_device r (cm_device_id c) of
        None \<Rightarrow> Inl (failed_command c ''UNKNOWN_DEVICE'')
      | Some d \<Rightarrow>
          (case validate_device_command h d c of
             Some e \<Rightarrow> Inl (failed_command c e)
           | None \<Rightarrow>
               if fst (provider_binding h (hd_provider d)) \<notin> set kinds \<or> hd_orphaned d
               then Inl (failed_command c ''DEVICE_OFFLINE'') else Inr d))"

text \<open>What \<open>execute\<close> of a Provider comes to: an answer, or one of the exceptions it tells apart.\<close>

datatype provider_outcome =
  Provider_state dict
| Provider_delegated string
| Provider_refused string
| Provider_timeout
| Provider_failed

text \<open>The \<open>except TimeoutError\<close> clause; the state before is what was last observed.\<close>

definition last_observed :: "external \<Rightarrow> string \<Rightarrow> string \<Rightarrow> home_state \<Rightarrow> exn + dict option" where
  "last_observed x owner dev st =
     andthen (snapshot_observations x owner (hs_observations st)) (\<lambda>seen.
     Inr (case find (\<lambda>o'. od_target o' = dev) seen of
            Some o' \<Rightarrow> (case od_state o' of Some (JObj d) \<Rightarrow> Some d | _ \<Rightarrow> None)
          | None \<Rightarrow> None))"

definition command_timed_out ::
  "external \<Rightarrow> int \<Rightarrow> receipt_key \<Rightarrow> command \<Rightarrow> home_state \<Rightarrow> home_state \<times> (exn + command_answer)" where
  "command_timed_out x now k c st =
     (let owner = rk_owner_id k; dev = cm_device_id c
      in case last_observed x owner dev st of
           Inl e \<Rightarrow> (st, Inl e)
         | Inr before \<Rightarrow>
             (st\<lparr>hs_pending := (hs_pending st)((owner, dev) := hs_pending st (owner, dev)
                   @ [\<lparr>pe_scope = rk_scope k, pe_request_id = rk_request_id k, pe_command = c,
                      pe_before = before, pe_expires_at = now + reconcile_window_ms\<rparr>])\<rparr>,
              Inr (unknown_command c (Some deadline_exceeded))))"

definition command_returned ::
  "external \<Rightarrow> device_sdk \<Rightarrow> home_sdk \<Rightarrow> int \<Rightarrow> receipt_key \<Rightarrow> home_device \<Rightarrow> command \<Rightarrow> provider_outcome \<Rightarrow>
   home_state \<Rightarrow> home_state \<times> (exn + command_answer)" where
  "command_returned x s h now k d c outcome st =
     (let owner = rk_owner_id k; dev = hd_device_id d in
      case outcome of
        Provider_refused e \<Rightarrow> (st, Inr (failed_command c e))
      | Provider_timeout \<Rightarrow> command_timed_out x now k c st
      | Provider_failed \<Rightarrow> (st, Inr (unknown_command c None))
      | Provider_delegated answer \<Rightarrow>
          (case observe x s h now owner dev True None st of
             (st1, Inl e) \<Rightarrow> (st1, Inl e)
           | (st1, Inr _) \<Rightarrow>
               (st1, Inr \<lparr>ca_device_id = cm_device_id c, ca_status = Delegated, ca_code = None,
                          ca_state = None, ca_platform_answer = Some (take 200 answer)\<rparr>))
      | Provider_state state \<Rightarrow>
          (case validate_device_state h d state of
             Some e \<Rightarrow> (st, Inr (failed_command c e))
           | None \<Rightarrow>
               (case observe x s h now owner dev True (Some state) st of
                  (st1, Inl e) \<Rightarrow> (st1, Inl e)
                | (st1, Inr _) \<Rightarrow>
                    (st1, Inr \<lparr>ca_device_id = cm_device_id c, ca_status = Succeeded, ca_code = None,
                               ca_state = Some state, ca_platform_answer = None\<rparr>))))"

section \<open>Completion\<close>

definition complete ::
  "receipt_key \<Rightarrow> execute_result \<Rightarrow> timestamps \<Rightarrow> home_state \<Rightarrow> home_state" where
  "complete k result ts st =
     st\<lparr>hs_receipts := sqlite_complete k result ts (hs_receipts st),
        hs_inflight := removeAll k (hs_inflight st)\<rparr>"

text \<open>The \<open>except\<close> and \<open>finally\<close> clauses of a request that raised: its receipt stays open.\<close>

definition abandon :: "receipt_key \<Rightarrow> home_state \<Rightarrow> home_state" where
  "abandon k st = st\<lparr>hs_inflight := removeAll k (hs_inflight st)\<rparr>"

text \<open>The process ends: only the store is left.\<close>

definition restart_process :: "home_state \<Rightarrow> home_state" where
  "restart_process st =
     \<lparr>hs_receipts = hs_receipts st, hs_observations = hs_observations st, hs_pending = (\<lambda>_. []),
      hs_inflight = [], hs_registry = (\<lambda>_. None), hs_registry_read_at = (\<lambda>_. 0)\<rparr>"

section \<open>The snapshot\<close>

record device_status =
  st_online :: bool
  st_state :: dict

definition status_of :: "observed list \<Rightarrow> home_device \<Rightarrow> device_status" where
  "status_of seen d =
     (case find (\<lambda>o'. od_target o' = hd_device_id d) seen of
        None \<Rightarrow> \<lparr>st_online = False, st_state = []\<rparr>
      | Some o' \<Rightarrow> \<lparr>st_online = od_reachable o' \<and> \<not> hd_orphaned d,
                   st_state = (case od_state o' of Some (JObj s) \<Rightarrow> s | _ \<Rightarrow> [])\<rparr>)"

definition home_snapshot ::
  "external \<Rightarrow> string \<Rightarrow> registry \<Rightarrow> home_state \<Rightarrow> exn + (string \<times> device_status) list" where
  "home_snapshot x owner r st =
     andthen (snapshot_observations x owner (hs_observations st)) (\<lambda>seen.
     Inr (map (\<lambda>d. (hd_device_id d, status_of seen d)) (rg_devices r)))"

end
