(* ===== verification/Home_World.thy ===== *)
theory Home_World
  imports Home_Runtime
begin

text \<open>
  The runtime as a step relation: the pieces of \<open>Home_Runtime\<close> in any order the Owner's
  concurrent requests, the Providers, the adapters' observations and the process's life may
  give them.  An execution is the activation of one \<open>_execute\<close> that carries a request out.
\<close>

section \<open>The world\<close>

text \<open>A command of an execution waits for its device (or Provider), or is answered.\<close>

datatype item = Item_waiting command home_device | Item_answered command_answer

record execution =
  ex_key :: receipt_key
  ex_request :: execute_request
  ex_submitted :: int
  ex_started :: "int option"
  ex_items :: "item list option"

text \<open>\<open>hw_stray\<close>: commands that go on after another one of their request has raised.\<close>

record home_world =
  hw_state :: home_state
  hw_now :: int
  hw_running :: "execution list"
  hw_stray :: "(receipt_key \<times> command \<times> home_device) list"

text \<open>What the process is composed with.\<close>

record home_env =
  he_external :: external
  he_device_sdk :: device_sdk
  he_home_sdk :: home_sdk
  he_printer :: request_printer
  he_kinds :: "string list"
  he_ttl :: int

definition home_start :: "receipts \<Rightarrow> observation_row list \<Rightarrow> int \<Rightarrow> home_world" where
  "home_start receipts observations now =
     \<lparr>hw_state = \<lparr>hs_receipts = receipts, hs_observations = observations, hs_pending = (\<lambda>_. []),
        hs_inflight = [], hs_registry = (\<lambda>_. None), hs_registry_read_at = (\<lambda>_. 0)\<rparr>,
      hw_now = now, hw_running = [], hw_stray = []\<rparr>"

section \<open>The pieces of an execution\<close>

definition first_item :: "home_env \<Rightarrow> registry \<Rightarrow> command \<Rightarrow> item" where
  "first_item e r c =
     (case admit_command (he_home_sdk e) (he_kinds e) r c of
        Inl a \<Rightarrow> Item_answered a
      | Inr d \<Rightarrow> Item_waiting c d)"

fun item_answer :: "item \<Rightarrow> command_answer option" where
  "item_answer (Item_answered a) = Some a"
| "item_answer (Item_waiting c d) = None"

fun item_waits :: "item \<Rightarrow> bool" where
  "item_waits (Item_answered a) = False"
| "item_waits (Item_waiting c d) = True"

fun stray_of :: "receipt_key \<Rightarrow> item list \<Rightarrow> (receipt_key \<times> command \<times> home_device) list" where
  "stray_of k [] = []"
| "stray_of k (Item_answered a # is) = stray_of k is"
| "stray_of k (Item_waiting c d # is) = (k, c, d) # stray_of k is"

definition performed :: "execution \<Rightarrow> item list \<Rightarrow> execute_result" where
  "performed ex is = \<lparr>xr_request_id = rq_request_id (ex_request ex),
     xr_results = List.map_filter item_answer is, xr_error = None\<rparr>"

text \<open>The times of a performed request, the Providers having returned at \<open>back\<close>.\<close>

definition performed_times :: "execution \<Rightarrow> item list \<Rightarrow> int \<Rightarrow> int \<Rightarrow> timestamps" where
  "performed_times ex is back now =
     \<lparr>ts_submitted = ex_submitted ex, ts_provider_started = ex_started ex, ts_provider_returned = Some back,
      ts_confirmed = (if \<exists>a\<in>set (List.map_filter item_answer is). ca_status a = Succeeded
                      then Some back else None),
      ts_completed = Some now, ts_reconciled = None\<rparr>"

definition refused_times :: "execution \<Rightarrow> int \<Rightarrow> timestamps" where
  "refused_times ex now = (submitted (ex_submitted ex))\<lparr>ts_completed := Some now\<rparr>"

definition set_items :: "execution \<Rightarrow> item list \<Rightarrow> home_world \<Rightarrow> home_world" where
  "set_items ex is w =
     w\<lparr>hw_running := map (\<lambda>y. if y = ex then ex\<lparr>ex_items := Some is\<rparr> else y) (hw_running w)\<rparr>"

definition end_execution :: "execution \<Rightarrow> (home_state \<Rightarrow> home_state) \<Rightarrow> home_world \<Rightarrow> home_world" where
  "end_execution ex f w =
     w\<lparr>hw_state := f (hw_state w), hw_running := removeAll ex (hw_running w)\<rparr>"

section \<open>Steps\<close>

inductive home_step :: "home_env \<Rightarrow> home_world \<Rightarrow> home_world \<Rightarrow> bool" for e where
  Tick: "hw_now w \<le> t \<Longrightarrow> home_step e w (w\<lparr>hw_now := t\<rparr>)"
| Submit_run:
    "submit (he_printer e) (hw_now w) owner rq (hw_state w) = (st, Submission_runs) \<Longrightarrow>
     ex = \<lparr>ex_key = request_key owner rq, ex_request = rq, ex_submitted = hw_now w, ex_started = None,
           ex_items = None\<rparr> \<Longrightarrow>
     home_step e w (w\<lparr>hw_state := st, hw_running := hw_running w @ [ex]\<rparr>)"
| Submit_other:
    "submit (he_printer e) (hw_now w) owner rq (hw_state w) = (st, a) \<Longrightarrow> a \<noteq> Submission_runs \<Longrightarrow>
     home_step e w (w\<lparr>hw_state := st\<rparr>)"
| Too_late:
    "ex \<in> set (hw_running w) \<Longrightarrow> ex_items ex = None \<Longrightarrow> rq_deadline (ex_request ex) \<le> hw_now w \<Longrightarrow>
     home_step e w (end_execution ex
       (complete (ex_key ex) (refused_request (ex_request ex) deadline_exceeded) (refused_times ex (hw_now w))) w)"
| Begin:
    "ex \<in> set (hw_running w) \<Longrightarrow> ex_items ex = None \<Longrightarrow>
     read_registry (he_external e) (he_device_sdk e) (he_home_sdk e) (he_ttl e) (hw_now w)
       (rk_owner_id (ex_key ex)) source providers (hw_state w) = (st, Inr r) \<Longrightarrow>
     requested_commands r (ex_request ex) = Inr cs \<Longrightarrow>
     home_step e w (w\<lparr>hw_state := st, hw_running := map (\<lambda>y. if y = ex then
         ex\<lparr>ex_started := Some (hw_now w), ex_items := Some (map (first_item e r) cs)\<rparr> else y) (hw_running w)\<rparr>)"
| Begin_refused:
    "ex \<in> set (hw_running w) \<Longrightarrow> ex_items ex = None \<Longrightarrow>
     read_registry (he_external e) (he_device_sdk e) (he_home_sdk e) (he_ttl e) (hw_now w)
       (rk_owner_id (ex_key ex)) source providers (hw_state w) = (st, Inr r) \<Longrightarrow>
     requested_commands r (ex_request ex) = Inl res \<Longrightarrow>
     home_step e w (end_execution ex (complete (ex_key ex) res (refused_times ex (hw_now w))) (w\<lparr>hw_state := st\<rparr>))"
| Begin_raised:
    "ex \<in> set (hw_running w) \<Longrightarrow> ex_items ex = None \<Longrightarrow>
     read_registry (he_external e) (he_device_sdk e) (he_home_sdk e) (he_ttl e) (hw_now w)
       (rk_owner_id (ex_key ex)) source providers (hw_state w) = (st, Inl err) \<Longrightarrow>
     home_step e w (end_execution ex (abandon (ex_key ex)) (w\<lparr>hw_state := st\<rparr>))"
| Not_started:
    "ex \<in> set (hw_running w) \<Longrightarrow> ex_items ex = Some is \<Longrightarrow> i < length is \<Longrightarrow> is ! i = Item_waiting c d \<Longrightarrow>
     rq_deadline (ex_request ex) \<le> hw_now w \<Longrightarrow>
     home_step e w (set_items ex (is[i := Item_answered (failed_command c deadline_exceeded)]) w)"
| Return:
    "ex \<in> set (hw_running w) \<Longrightarrow> ex_items ex = Some is \<Longrightarrow> i < length is \<Longrightarrow> is ! i = Item_waiting c d \<Longrightarrow>
     command_returned (he_external e) (he_device_sdk e) (he_home_sdk e) (hw_now w) (ex_key ex) d c outcome
       (hw_state w) = (st, Inr a) \<Longrightarrow>
     home_step e w (set_items ex (is[i := Item_answered a]) (w\<lparr>hw_state := st\<rparr>))"
| Return_raised:
    "ex \<in> set (hw_running w) \<Longrightarrow> ex_items ex = Some is \<Longrightarrow> i < length is \<Longrightarrow> is ! i = Item_waiting c d \<Longrightarrow>
     command_returned (he_external e) (he_device_sdk e) (he_home_sdk e) (hw_now w) (ex_key ex) d c outcome
       (hw_state w) = (st, Inl err) \<Longrightarrow>
     home_step e w (end_execution ex (abandon (ex_key ex))
       (w\<lparr>hw_state := st, hw_stray := hw_stray w @ stray_of (ex_key ex) (take i is @ drop (Suc i) is)\<rparr>))"
| Stray_return:
    "(k, c, d) \<in> set (hw_stray w) \<Longrightarrow>
     command_returned (he_external e) (he_device_sdk e) (he_home_sdk e) (hw_now w) k d c outcome
       (hw_state w) = (st, a) \<Longrightarrow>
     home_step e w (w\<lparr>hw_state := st, hw_stray := remove1 (k, c, d) (hw_stray w)\<rparr>)"
| Finish:
    "ex \<in> set (hw_running w) \<Longrightarrow> ex_items ex = Some is \<Longrightarrow> \<not> list_ex item_waits is \<Longrightarrow> back \<le> hw_now w \<Longrightarrow>
     home_step e w (end_execution ex
       (complete (ex_key ex) (performed ex is) (performed_times ex is back (hw_now w))) w)"
| Cancel:
    "ex \<in> set (hw_running w) \<Longrightarrow> home_step e w (end_execution ex (abandon (ex_key ex)) w)"
| Observe:
    "observe (he_external e) (he_device_sdk e) (he_home_sdk e) (hw_now w) owner dev reachable state
       (hw_state w) = (st, a) \<Longrightarrow>
     home_step e w (w\<lparr>hw_state := st\<rparr>)"
| Snapshot:
    "read_registry (he_external e) (he_device_sdk e) (he_home_sdk e) (he_ttl e) (hw_now w)
       owner source providers (hw_state w) = (st, a) \<Longrightarrow>
     home_step e w (w\<lparr>hw_state := st\<rparr>)"
| Restart:
    "home_step e w (w\<lparr>hw_state := restart_process (hw_state w), hw_running := [], hw_stray := []\<rparr>)"

definition home_steps :: "home_env \<Rightarrow> home_world \<Rightarrow> home_world \<Rightarrow> bool" where
  "home_steps e = (home_step e)\<^sup>*\<^sup>*"

end
