(* ===== verification/Home_Safety.thy ===== *)
theory Home_Safety
  imports Home_World
begin

text \<open>
  What every step keeps of the receipts: a receipt only ever gains its result, an answer in it
  only ever turns from unknown to succeeded, and a request is carried out once at a time.
\<close>

section \<open>Settling\<close>

definition settles_item :: "command_answer \<Rightarrow> command_answer \<Rightarrow> bool" where
  "settles_item a b \<longleftrightarrow> b = a \<or>
     (ca_status a = Unknown \<and> ca_status b = Succeeded \<and> ca_device_id b = ca_device_id a \<and> ca_state b \<noteq> None
      \<and> ca_platform_answer b = None)"

definition settles :: "execute_result \<Rightarrow> execute_result \<Rightarrow> bool" where
  "settles a b \<longleftrightarrow> xr_request_id b = xr_request_id a \<and> xr_error b = xr_error a
     \<and> list_all2 settles_item (xr_results a) (xr_results b)"

fun settles_result :: "execute_result option \<Rightarrow> execute_result option \<Rightarrow> bool" where
  "settles_result None b = (b = None)"
| "settles_result (Some a) b = (case b of None \<Rightarrow> False | Some c \<Rightarrow> settles a c)"

definition settles_receipt :: "receipt \<Rightarrow> receipt \<Rightarrow> bool" where
  "settles_receipt r q \<longleftrightarrow> rc_key q = rc_key r \<and> rc_fingerprint q = rc_fingerprint r
     \<and> ts_submitted (rc_timestamps q) = ts_submitted (rc_timestamps r)
     \<and> settles_result (rc_result r) (rc_result q)"

lemma settles_item_refl [simp, intro]: "settles_item a a"
  by (simp add: settles_item_def)

lemma settles_item_trans: "settles_item a b \<Longrightarrow> settles_item b c \<Longrightarrow> settles_item a c"
  by (auto simp: settles_item_def)

lemma settles_refl [simp, intro]: "settles a a"
  by (simp add: settles_def list_all2_refl)

lemma settles_trans: "settles a b \<Longrightarrow> settles b c \<Longrightarrow> settles a c"
  by (auto simp: settles_def intro: list_all2_trans [OF settles_item_trans])

lemma settles_result_refl [simp, intro]: "settles_result a a"
  by (cases a) simp_all

lemma settles_result_trans: "settles_result a b \<Longrightarrow> settles_result b c \<Longrightarrow> settles_result a c"
  by (cases a; cases b; cases c) (auto intro: settles_trans)

lemma settles_receipt_refl [simp, intro]: "settles_receipt r r"
  by (simp add: settles_receipt_def)

lemma settles_receipt_trans: "settles_receipt a b \<Longrightarrow> settles_receipt b c \<Longrightarrow> settles_receipt a c"
  by (auto simp: settles_receipt_def intro: settles_result_trans)

lemma replace_item_settles:
  "replace_item target item as = Some bs \<Longrightarrow> ca_status item = Succeeded \<Longrightarrow> ca_device_id item = target \<Longrightarrow>
   ca_state item \<noteq> None \<Longrightarrow> ca_platform_answer item = None \<Longrightarrow> list_all2 settles_item as bs"
  by (induction as arbitrary: bs)
    (auto simp: settles_item_def list_all2_refl split: if_splits)

section \<open>The answers are well formed\<close>

text \<open>
  Which fields go with which status: a state with a success and only there, the platform's
  answer with a delegation and only there, a code with a failure.
\<close>

definition answer_ok :: "command_answer \<Rightarrow> bool" where
  "answer_ok a \<longleftrightarrow> (ca_state a \<noteq> None \<longleftrightarrow> ca_status a = Succeeded)
     \<and> (ca_status a = Delegated \<longleftrightarrow> ca_platform_answer a \<noteq> None)
     \<and> (case ca_platform_answer a of None \<Rightarrow> True | Some t \<Rightarrow> length t \<le> 200)
     \<and> (ca_status a = Failed \<longrightarrow> ca_code a \<noteq> None)"

definition result_ok :: "execute_result \<Rightarrow> bool" where
  "result_ok res \<longleftrightarrow> list_all answer_ok (xr_results res) \<and> (xr_error res = None \<or> xr_results res = [])"

lemma settles_item_ok: "settles_item a b \<Longrightarrow> answer_ok a \<Longrightarrow> answer_ok b"
  by (auto simp: settles_item_def answer_ok_def)

lemma settles_ok: "settles a b \<Longrightarrow> result_ok a \<Longrightarrow> result_ok b"
  unfolding settles_def result_ok_def list_all_length list_all2_conv_all_nth
  using settles_item_ok by fastforce

section \<open>What an observation does to the receipts\<close>

definition settles_rows :: "receipts \<Rightarrow> receipts \<Rightarrow> bool" where
  "settles_rows = list_all2 settles_receipt"

lemma settles_rows_refl [simp, intro]: "settles_rows rows rows"
  by (simp add: settles_rows_def list_all2_refl)

lemma settles_rows_trans: "settles_rows a b \<Longrightarrow> settles_rows b c \<Longrightarrow> settles_rows a c"
  unfolding settles_rows_def by (rule list_all2_trans [OF settles_receipt_trans])

lemma settles_rows_keys: "settles_rows a b \<Longrightarrow> map rc_key b = map rc_key a"
  unfolding settles_rows_def by (induction a b rule: list_all2_induct) (auto simp: settles_receipt_def)

lemma settles_rows_fetch:
  "settles_rows a b \<Longrightarrow>
   (case fetch_receipt k a of None \<Rightarrow> fetch_receipt k b = None
    | Some r \<Rightarrow> \<exists>q. fetch_receipt k b = Some q \<and> settles_receipt r q)"
  unfolding settles_rows_def fetch_receipt_def
proof (induction a b rule: list_all2_induct)
  case (Cons x xs y ys)
  then have key: "rc_key y = rc_key x" and step: "settles_receipt x y" by (simp_all add: settles_receipt_def)
  show ?case
    using Cons.IH step by (cases "rc_key x = k") (simp_all add: tget_Cons key cong: option.case_cong)
qed simp

definition outcome_item :: "string \<Rightarrow> dict option \<Rightarrow> command_answer" where
  "outcome_item dev state = \<lparr>ca_device_id = dev, ca_status = Succeeded, ca_code = None, ca_state = state,
     ca_platform_answer = None\<rparr>"

lemma reconcile_settles:
  assumes ok: "receipts_ok rows"
    and state: "state \<noteq> None"
  shows "settles_rows rows (fst (sqlite_reconcile k dev (outcome_item dev state) t rows))"
proof (cases "replace_unknown (fetch_receipt k rows) dev (outcome_item dev state)")
  case None
  then show ?thesis by (simp add: sqlite_reconcile_def)
next
  case (Some replaced)
  then obtain r res items where r: "fetch_receipt k rows = Some r" "rc_result r = Some res"
      "replace_item dev (outcome_item dev state) (xr_results res) = Some items"
      "replaced = res\<lparr>xr_results := items\<rparr>"
    by (auto simp: replace_unknown_def split: option.splits)
  have "settles res replaced"
    using replace_item_settles [OF r(3)] state by (simp add: settles_def r(4) outcome_item_def)
  moreover have "q = r" if "q \<in> set rows" "rc_key q = k" for q
    using that r(1) ok tget_mem [of rc_key rows q] by (simp add: receipts_ok_def fetch_receipt_def)
  ultimately show ?thesis
    using Some r(2)
    by (auto simp: sqlite_reconcile_def settles_rows_def tupd_def list_all2_map2 list_all2_same
        settles_receipt_def)
qed

section \<open>What the pieces keep\<close>

text \<open>A move of the state that only settles: what every piece but submission and completion does.\<close>

definition settling :: "home_state \<Rightarrow> home_state \<Rightarrow> bool" where
  "settling st st' \<longleftrightarrow> hs_inflight st' = hs_inflight st
     \<and> (receipts_ok (hs_receipts st) \<longrightarrow> settles_rows (hs_receipts st) (hs_receipts st'))"

lemma receipts_ok_settles: "settles_rows a b \<Longrightarrow> receipts_ok a \<Longrightarrow> receipts_ok b"
  by (simp add: receipts_ok_def settles_rows_keys)

lemma settling_refl [simp, intro]: "settling st st"
  by (simp add: settling_def)

lemma settling_trans: "settling a b \<Longrightarrow> settling b c \<Longrightarrow> settling a c"
  using receipts_ok_settles settles_rows_trans unfolding settling_def by metis

lemma settling_same: "hs_inflight b = hs_inflight a \<Longrightarrow> hs_receipts b = hs_receipts a \<Longrightarrow> settling a b"
  by (simp add: settling_def)

lemma settle_each_settles:
  "settle_each x h now owner dev state ps rows = (rows', a) \<Longrightarrow> receipts_ok rows \<Longrightarrow> settles_rows rows rows'"
proof (induction ps arbitrary: rows a)
  case (Cons p ps)
  let ?k = "\<lparr>rk_owner_id = owner, rk_scope = pe_scope p, rk_request_id = pe_request_id p\<rparr>"
  let ?rows1 = "fst (sqlite_reconcile ?k dev (outcome_item dev state) now rows)"
  have ok1: "receipts_ok ?rows1" using Cons.prems(2) by (rule sqlite_ledger.settle_ok)
  have st: "settles_rows rows ?rows1" if "state \<noteq> None"
    using that by (rule reconcile_settles [OF Cons.prems(2)])
  show ?case
    using Cons.prems Cons.IH [OF _ Cons.prems(2)] settles_rows_trans [OF st Cons.IH [OF _ ok1]]
    by (auto simp: outcome_item_def split: if_splits option.splits sum.splits bool.splits prod.splits)
qed simp

lemma observe_settling: "observe x s h now owner dev reachable state st = (st', a) \<Longrightarrow> settling st st'"
  by (auto simp: observe_def Let_def settling_def split: if_splits sum.splits prod.splits
      intro: settle_each_settles)

lemma observe_each_settling:
  "observe_each x s h now owner states ds st = (st', a) \<Longrightarrow> settling st st'"
  by (induction ds arbitrary: st)
    (auto simp: Let_def split: prod.splits sum.splits dest!: observe_settling intro: settling_trans)

lemma poll_providers_settling:
  "poll_providers x s h now owner r has_changed vs st = (st', a) \<Longrightarrow> settling st st'"
  by (induction vs arbitrary: st)
    (auto simp: Let_def split: if_splits prod.splits sum.splits dest!: observe_each_settling intro: settling_trans)

lemma read_registry_settling:
  assumes "read_registry x s h ttl now owner source providers st = (st', a)"
  shows "settling st st'"
proof -
  have polled: "settling st st2"
    if "poll_providers x s h now owner r b providers
          (st\<lparr>hs_registry_read_at := (hs_registry_read_at st)(owner := now)\<rparr>) = (st2, c)" for st2 r b c
    using poll_providers_settling [OF that] by (simp add: settling_def)
  show ?thesis
    using assms
    by (auto simp: read_registry_def Let_def split: option.splits if_splits sum.splits prod.splits
        dest!: polled intro!: settling_refl elim!: settling_trans intro: settling_same)
qed

lemma timed_out_settling: "command_timed_out x now k c st = (st', a) \<Longrightarrow> settling st st'"
  by (auto simp: command_timed_out_def Let_def split: sum.splits intro: settling_same)

lemma command_returned_settling:
  "command_returned x s h now k d c outcome st = (st', a) \<Longrightarrow> settling st st'"
  by (auto simp: command_returned_def Let_def
      split: provider_outcome.splits option.splits sum.splits prod.splits
      dest: timed_out_settling observe_settling)

lemma returned_answer_ok:
  assumes "command_returned x s h now k d c outcome st = (st', Inr a)"
  shows "answer_ok a"
  using assms
  by (auto simp: command_returned_def command_timed_out_def Let_def answer_ok_def failed_command_def
      unknown_command_def split: provider_outcome.splits option.splits sum.splits prod.splits)

lemma first_item_ok: "first_item e r c = Item_answered a \<Longrightarrow> answer_ok a"
  by (auto simp: first_item_def admit_command_def failed_command_def answer_ok_def
      split: sum.splits option.splits if_splits)

section \<open>The ledger under submissions and completions\<close>

lemma fetch_tupd_other:
  "k' \<noteq> k \<Longrightarrow> (\<And>r. rc_key (f r) = rc_key r) \<Longrightarrow> fetch_receipt k' (tupd rc_key k f rows) = fetch_receipt k' rows"
  by (simp add: fetch_receipt_def tget_tupd)

lemma upsert_other: "k' \<noteq> k \<Longrightarrow> fetch_receipt k' (sqlite_upsert k fp now rows) = fetch_receipt k' rows"
  by (auto simp: sqlite_upsert_def fetch_tupd_other split: option.split)
    (simp add: fetch_receipt_def tget_append tget_Cons split: option.split)

text \<open>A receipt in its window stays as it is, whatever is submitted; only an open one is carried out.\<close>

lemma submit_keeps:
  assumes "submit printer now owner rq st = (st', a)" "receipts_ok (hs_receipts st)"
    and "fetch_receipt k (hs_receipts st) = Some r" "within_window now r"
  shows "fetch_receipt k (hs_receipts st') = Some r"
proof -
  let ?b = "sqlite_begin (request_key owner rq) (printer (rq_commands rq) (rq_scene_id rq)) now (hs_receipts st)"
  have kept: "fetch_receipt k (filter (\<lambda>r. now - retention_ms \<le> ts_submitted (rc_timestamps r)) (hs_receipts st)) = Some r"
    using assms(3) kept_in_window [OF assms(4)] by (simp add: filter_fetch [OF assms(2)])
  have "fetch_receipt k (fst ?b) = Some r"
    using kept assms(3,4) by (cases "request_key owner rq = k")
      (auto simp: sqlite_begin_def Let_def upsert_other split: option.splits)
  then show ?thesis
    using assms(1,3)
    by (auto simp: submit_def Let_def split: if_splits prod.splits begin_answer.splits option.splits)
qed

lemma submit_runs:
  assumes "submit printer now owner rq st = (st', Submission_runs)" "receipts_ok (hs_receipts st)"
  shows "hs_inflight st' = List.insert (request_key owner rq) (hs_inflight st)"
    and "\<exists>r. fetch_receipt (request_key owner rq) (hs_receipts st') = Some r \<and> rc_result r = None"
    and "fetch_receipt (request_key owner rq) (hs_receipts st) = Some r \<Longrightarrow> within_window now r \<Longrightarrow>
      rc_result r = None \<and> request_key owner rq \<notin> set (hs_inflight st)"
proof -
  let ?k = "request_key owner rq" and ?fp = "printer (rq_commands rq) (rq_scene_id rq)"
  show "hs_inflight st' = List.insert ?k (hs_inflight st)"
    using assms(1) by (auto simp: submit_def Let_def split: if_splits prod.splits begin_answer.splits option.splits)
  have new: "\<exists>r. fetch_receipt ?k rows = Some r \<and> rc_result r = None"
    if b: "sqlite_begin ?k ?fp now (hs_receipts st) = (rows, Receipt_new)" for rows
    using sqlite_ledger.start_new [OF assms(2), of ?k now ?fp]
      sqlite_ledger.new_unseen [OF assms(2), of ?k ?fp now] b by auto
  have found: "fetch_receipt ?k rows = Some r"
    if b: "sqlite_begin ?k ?fp now (hs_receipts st) = (rows, Receipt_found r)" for rows r
    using b by (auto simp: sqlite_begin_def Let_def split: option.splits if_splits)
  show "\<exists>r. fetch_receipt ?k (hs_receipts st') = Some r \<and> rc_result r = None"
    using assms(1) new found
    by (auto simp: submit_def Let_def split: if_splits prod.splits begin_answer.splits option.splits)
  show "rc_result r = None \<and> ?k \<notin> set (hs_inflight st)"
    if r: "fetch_receipt ?k (hs_receipts st) = Some r" and w: "within_window now r"
  proof (cases "rc_fingerprint r = ?fp")
    case True
    with sqlite_ledger.start_found [OF assms(2) r w] assms(1) show ?thesis
      by (auto simp: submit_def Let_def split: if_splits prod.splits option.splits)
  next
    case False
    with sqlite_ledger.start_clash [OF assms(2) r w, of ?fp] assms(1) show ?thesis
      by (auto simp: submit_def Let_def split: if_splits)
  qed
qed

lemma submit_ok:
  "submit printer now owner rq st = (st', a) \<Longrightarrow> receipts_ok (hs_receipts st) \<Longrightarrow> receipts_ok (hs_receipts st')"
  using sqlite_ledger.start_ok [of "hs_receipts st" "request_key owner rq" "printer (rq_commands rq) (rq_scene_id rq)" now]
  by (auto simp: submit_def Let_def split: if_splits prod.splits begin_answer.splits option.splits)

lemma submit_inflight:
  "submit printer now owner rq st = (st', a) \<Longrightarrow> a \<noteq> Submission_runs \<Longrightarrow> hs_inflight st' = hs_inflight st"
  by (auto simp: submit_def Let_def split: if_splits prod.splits begin_answer.splits option.splits)

lemma complete_ok: "receipts_ok (hs_receipts st) \<Longrightarrow> receipts_ok (hs_receipts (complete k res ts st))"
  by (simp add: complete_def sqlite_ledger.finish_ok)

lemma complete_other:
  "k' \<noteq> k \<Longrightarrow> fetch_receipt k' (hs_receipts (complete k res ts st)) = fetch_receipt k' (hs_receipts st)"
  by (simp add: complete_def sqlite_complete_def fetch_tupd_other)

definition results_ok :: "receipts \<Rightarrow> bool" where
  "results_ok rows \<longleftrightarrow> (\<forall>r\<in>set rows. \<forall>res. rc_result r = Some res \<longrightarrow> result_ok res)"

lemma settles_results_ok:
  assumes "settles_rows a b" "results_ok a"
  shows "results_ok b"
  unfolding results_ok_def
proof (intro ballI allI impI)
  fix q res
  assume "q \<in> set b" "rc_result q = Some res"
  then obtain i where "i < length b" "q = b ! i" by (auto simp: in_set_conv_nth)
  with assms(1) have r: "a ! i \<in> set a" "settles_receipt (a ! i) q"
    by (simp_all add: settles_rows_def list_all2_conv_all_nth)
  with \<open>rc_result q = Some res\<close> obtain res0 where "rc_result (a ! i) = Some res0" "settles res0 res"
    by (cases "rc_result (a ! i)") (auto simp: settles_receipt_def)
  with r(1) assms(2) show "result_ok res" by (auto simp: results_ok_def intro: settles_ok)
qed

lemma results_ok_filter: "results_ok rows \<Longrightarrow> results_ok (filter P rows)"
  by (auto simp: results_ok_def)

lemma results_ok_tupd: "results_ok rows \<Longrightarrow>
    (\<And>r res. rc_result (f r) = Some res \<Longrightarrow> result_ok res) \<Longrightarrow> results_ok (tupd rc_key k f rows)"
  by (auto simp: results_ok_def set_tupd)

lemma submit_results_ok:
  assumes "submit printer now owner rq st = (st', a)" "results_ok (hs_receipts st)"
  shows "results_ok (hs_receipts st')"
proof -
  have upsert: "results_ok (sqlite_upsert k fp now rows)" if "results_ok rows" for k fp rows
  proof (cases "fetch_receipt k rows")
    case None
    with that show ?thesis by (simp add: sqlite_upsert_def results_ok_def)
  next
    case (Some r)
    then show ?thesis by (auto simp: sqlite_upsert_def intro!: results_ok_tupd [OF that])
  qed
  have begun: "results_ok rows" if "sqlite_begin k fp now (hs_receipts st) = (rows, b)" for k fp rows b
    using assms(2) that
    by (auto simp: sqlite_begin_def Let_def results_ok_filter upsert split: option.splits if_splits)
  show ?thesis
    using assms
    by (auto simp: submit_def Let_def dest: begun split: if_splits prod.splits begin_answer.splits option.splits)
qed

lemma complete_results_ok:
  "results_ok (hs_receipts st) \<Longrightarrow> result_ok res \<Longrightarrow> results_ok (hs_receipts (complete k res ts st))"
  by (auto simp: complete_def sqlite_complete_def intro!: results_ok_tupd)

section \<open>The invariant\<close>

fun item_ok :: "item \<Rightarrow> bool" where
  "item_ok (Item_answered a) = answer_ok a"
| "item_ok (Item_waiting c d) = True"

definition open_receipt :: "receipts \<Rightarrow> execution \<Rightarrow> bool" where
  "open_receipt rows ex \<longleftrightarrow> (\<exists>r. fetch_receipt (ex_key ex) rows = Some r \<and> rc_result r = None)"

definition items_ok :: "execution \<Rightarrow> bool" where
  "items_ok ex \<longleftrightarrow> (case ex_items ex of None \<Rightarrow> True | Some is \<Rightarrow> list_all item_ok is)"

definition home_ok :: "home_state \<Rightarrow> execution list \<Rightarrow> bool" where
  "home_ok st running \<longleftrightarrow> receipts_ok (hs_receipts st) \<and> results_ok (hs_receipts st)
     \<and> distinct (map ex_key running) \<and> ex_key ` set running = set (hs_inflight st)
     \<and> (\<forall>ex\<in>set running. open_receipt (hs_receipts st) ex \<and> items_ok ex)"

lemma open_settles:
  assumes "settles_rows a b" "open_receipt a ex"
  shows "open_receipt b ex"
proof -
  obtain r where r: "fetch_receipt (ex_key ex) a = Some r" "rc_result r = None"
    using assms(2) by (auto simp: open_receipt_def)
  with settles_rows_fetch [OF assms(1), of "ex_key ex"] show ?thesis
    by (auto simp: open_receipt_def settles_receipt_def)
qed

lemma home_ok_settling:
  assumes "settling st st'" "home_ok st running"
  shows "home_ok st' running"
proof -
  have rows: "settles_rows (hs_receipts st) (hs_receipts st')" and "hs_inflight st' = hs_inflight st"
    using assms by (simp_all add: settling_def home_ok_def)
  then show ?thesis
    using assms(2) receipts_ok_settles [OF rows] settles_results_ok [OF rows] open_settles [OF rows]
    by (simp add: home_ok_def)
qed

lemma home_ok_update:
  assumes "home_ok st running" "ex_key ex' = ex_key ex" "items_ok ex'"
  shows "home_ok st (map (\<lambda>y. if y = ex then ex' else y) running)"
proof -
  have keys: "map ex_key (map (\<lambda>y. if y = ex then ex' else y) running) = map ex_key running"
    using assms(2) by (induction running) auto
  then have "ex_key ` set (map (\<lambda>y. if y = ex then ex' else y) running) = ex_key ` set running"
    by (metis list.set_map)
  moreover have "open_receipt (hs_receipts st) y \<and> items_ok y"
    if "y \<in> set (map (\<lambda>y. if y = ex then ex' else y) running)" for y
    using that assms by (auto simp: home_ok_def open_receipt_def split: if_splits)
  ultimately show ?thesis using assms(1) unfolding home_ok_def keys by blast
qed

lemma home_ok_end:
  assumes "home_ok st running" "ex \<in> set running"
    and "receipts_ok (hs_receipts st')" "results_ok (hs_receipts st')"
    and "hs_inflight st' = removeAll (ex_key ex) (hs_inflight st)"
    and "\<And>k. k \<noteq> ex_key ex \<Longrightarrow> fetch_receipt k (hs_receipts st') = fetch_receipt k (hs_receipts st)"
  shows "home_ok st' (removeAll ex running)"
proof -
  have other: "ex_key y \<noteq> ex_key ex" if "y \<in> set running" "y \<noteq> ex" for y
    using assms(1,2) that by (auto simp: home_ok_def dest: distinct_key_eq)
  have "distinct (map ex_key (removeAll ex running))"
    using assms(1) by (simp add: home_ok_def removeAll_filter_not_eq distinct_map_filter)
  moreover have "ex_key ` set (removeAll ex running) = set (hs_inflight st')"
    using assms(1,2) other by (auto simp: home_ok_def assms(5))
  ultimately show ?thesis
    using assms(1,3,4) assms(6) [OF other] by (auto simp: home_ok_def open_receipt_def)
qed

lemma home_ok_complete:
  assumes "home_ok st running" "ex \<in> set running" "result_ok res"
  shows "home_ok (complete (ex_key ex) res ts st) (removeAll ex running)"
proof (rule home_ok_end [OF assms(1,2)])
  show "receipts_ok (hs_receipts (complete (ex_key ex) res ts st))"
    using assms(1) by (auto simp: home_ok_def intro: complete_ok)
  show "results_ok (hs_receipts (complete (ex_key ex) res ts st))"
    using assms(1,3) by (auto simp: home_ok_def intro: complete_results_ok)
  show "hs_inflight (complete (ex_key ex) res ts st) = removeAll (ex_key ex) (hs_inflight st)"
    by (simp add: complete_def)
qed (rule complete_other)

lemma home_ok_abandon:
  assumes "home_ok st running" "ex \<in> set running"
  shows "home_ok (abandon (ex_key ex) st) (removeAll ex running)"
  by (rule home_ok_end [OF assms]) (use assms(1) in \<open>auto simp: home_ok_def abandon_def\<close>)

end
