(* ===== verification/Home_Scenario.thy ===== *)
theory Home_Scenario
  imports Home_World Device_Scenario
begin

text \<open>
  One Owner with a lamp, for properties of home execution; the SDK's validators accept
  everything and the printer of requests gives the names of their commands.
\<close>

definition small_home_sdk :: home_sdk where
  "small_home_sdk = \<lparr>validate_command = (\<lambda>k c. Inr ()), validate_state = (\<lambda>k d. Inr ()),
     validate_device_command = (\<lambda>d c. None), validate_device_state = (\<lambda>d s. None),
     initial_state = (\<lambda>k. [(''on'', JBool False)]), target_range = (\<lambda>k. None),
     provider_binding = (\<lambda>p. (p, [])), py_float = (\<lambda>s. None)\<rparr>"

definition small_home :: home_env where
  "small_home = \<lparr>he_external = small_world, he_device_sdk = small_sdk, he_home_sdk = small_home_sdk,
     he_printer = (\<lambda>cs scene. concat (map cm_command cs)), he_kinds = [''v''], he_ttl = 0\<rparr>"

definition lamp :: home_device where
  "lamp = \<lparr>hd_device_id = ''lamp'', hd_name = ''n'', hd_type = ''light'', hd_area_id = None,
     hd_provider = ''v'', hd_provider_ref = None, hd_traits = JNull, hd_limits = JNull, hd_source = ''s'',
     hd_synced_at = None, hd_orphaned = False, hd_overrides = []\<rparr>"

definition lamp_registry :: registry where
  "lamp_registry = \<lparr>rg_revision = 1, rg_areas = [], rg_devices = [lamp], rg_scenes = []\<rparr>"

definition switch_on :: command where
  "switch_on = \<lparr>cm_device_id = ''lamp'', cm_trait = ''on_off'', cm_command = ''on'', cm_params = []\<rparr>"

definition lamp_is_on :: dict where
  "lamp_is_on = [(''on'', JBool True)]"

definition lamp_request :: execute_request where
  "lamp_request = \<lparr>rq_request_id = ''r'', rq_origin_kind = ''touch'', rq_device_ref = Some ''panel'',
     rq_commands = [switch_on], rq_scene_id = None, rq_deadline = 90\<rparr>"

definition lamp_key :: receipt_key where
  "lamp_key = \<lparr>rk_owner_id = ''u'', rk_scope = ''panel'', rk_request_id = ''r''\<rparr>"

definition open_lamp_receipt :: receipt where
  "open_lamp_receipt = \<lparr>rc_key = lamp_key, rc_fingerprint = ''on'', rc_timestamps = submitted 5, rc_result = None\<rparr>"

definition lamp_state :: "receipts \<Rightarrow> home_state" where
  "lamp_state rows = \<lparr>hs_receipts = rows, hs_observations = [], hs_pending = (\<lambda>_. []), hs_inflight = [],
     hs_registry = (\<lambda>_. None), hs_registry_read_at = (\<lambda>_. 0)\<rparr>"

definition lamp_execution :: execution where
  "lamp_execution = \<lparr>ex_key = lamp_key, ex_request = lamp_request, ex_submitted = 5, ex_started = None,
     ex_items = None\<rparr>"

text \<open>The request is being carried out, and is refused when it comes to its turn too late.\<close>

definition lamp_world :: home_world where
  "lamp_world = \<lparr>hw_state = (lamp_state [open_lamp_receipt])\<lparr>hs_inflight := [lamp_key]\<rparr>, hw_now = 5,
     hw_running = [lamp_execution], hw_stray = []\<rparr>"

lemma lamp_request_key [simp]: "request_key ''u'' lamp_request = lamp_key"
  by (simp add: request_key_def request_scope_def lamp_request_def lamp_key_def)

lemma lamp_submitted:
  "submit (he_printer small_home) 5 ''u'' lamp_request (lamp_state [])
   = (hw_state lamp_world, Submission_runs)"
  by (simp add: submit_def sqlite_begin_def sqlite_upsert_def fetch_receipt_def lamp_world_def lamp_state_def
      open_lamp_receipt_def small_home_def) (simp add: lamp_request_def switch_on_def)

lemma lamp_started: "home_step small_home (home_start [] [] 5) lamp_world"
proof -
  have "home_start [] [] 5 = \<lparr>hw_state = lamp_state [], hw_now = 5, hw_running = [], hw_stray = []\<rparr>"
    by (simp add: home_start_def lamp_state_def)
  with home_step.Submit_run [of small_home "home_start [] [] 5" "''u''" lamp_request, OF _ refl] lamp_submitted
  show ?thesis by (simp add: lamp_world_def lamp_execution_def)
qed

text \<open>The command timed out: its outcome is recorded as unknown and waits for an observation.\<close>

definition unknown_lamp_result :: execute_result where
  "unknown_lamp_result = \<lparr>xr_request_id = ''r'', xr_results = [unknown_command switch_on (Some deadline_exceeded)],
     xr_error = None\<rparr>"

definition unknown_lamp_state :: home_state where
  "unknown_lamp_state = (lamp_state [open_lamp_receipt\<lparr>rc_result := Some unknown_lamp_result\<rparr>])
     \<lparr>hs_pending := (\<lambda>_. [])((''u'', ''lamp'') := [\<lparr>pe_scope = ''panel'', pe_request_id = ''r'',
        pe_command = switch_on, pe_before = None, pe_expires_at = 6 + reconcile_window_ms\<rparr>])\<rparr>"

definition unknown_lamp_world :: home_world where
  "unknown_lamp_world = \<lparr>hw_state = unknown_lamp_state, hw_now = 7, hw_running = [], hw_stray = []\<rparr>"

end
