(* ===== verification/Home_Properties.thy ===== *)
theory Home_Properties
  imports Home_Safety Home_Scenario
begin

text \<open>
  The properties of home execution: one activation per request, answers that stand, and what an
  observation that comes too early does to an unknown outcome.
\<close>

section \<open>Reachable worlds\<close>

text \<open>
  No running request is older than the idempotency window, which is a day: past it a repeat is
  a new request.  The code has no such bound of its own.
\<close>

definition prompt :: "home_world \<Rightarrow> bool" where
  "prompt w \<longleftrightarrow> list_all (\<lambda>ex. case fetch_receipt (ex_key ex) (hs_receipts (hw_state w)) of
     None \<Rightarrow> True | Some r \<Rightarrow> within_window (hw_now w) r) (hw_running w)"

text \<open>From a process that starts on a store whose receipts are in order.\<close>

inductive home_reach :: "home_env \<Rightarrow> home_world \<Rightarrow> bool" for e where
  Start: "receipts_ok receipts \<Longrightarrow> results_ok receipts \<Longrightarrow> home_reach e (home_start receipts observations now)"
| Step: "home_reach e w \<Longrightarrow> home_step e w w' \<Longrightarrow> prompt w' \<Longrightarrow> home_reach e w'"

lemma home_ok_submit:
  assumes sub: "submit printer now owner rq st = (st', a)" and ok: "home_ok st running"
    and prompt: "\<And>ex r. ex \<in> set running \<Longrightarrow> fetch_receipt (ex_key ex) (hs_receipts st) = Some r \<Longrightarrow>
      within_window now r"
  shows "\<And>ex. ex \<in> set running \<Longrightarrow> open_receipt (hs_receipts st') ex"
    and "a \<noteq> Submission_runs \<Longrightarrow> home_ok st' running"
    and "a = Submission_runs \<Longrightarrow> ex_key ex = request_key owner rq \<Longrightarrow> ex_items ex = None \<Longrightarrow>
      home_ok st' (running @ [ex])"
proof -
  have rows: "receipts_ok (hs_receipts st)" "results_ok (hs_receipts st)" using ok by (simp_all add: home_ok_def)
  note rows' = submit_ok [OF sub rows(1)] submit_results_ok [OF sub rows(2)]
  show opened: "open_receipt (hs_receipts st') y" if y: "y \<in> set running" for y
  proof -
    obtain r where r: "fetch_receipt (ex_key y) (hs_receipts st) = Some r" "rc_result r = None"
      using ok y by (auto simp: home_ok_def open_receipt_def)
    with submit_keeps [OF sub rows(1) r(1) prompt [OF y r(1)]] show ?thesis
      by (simp add: open_receipt_def)
  qed
  show "home_ok st' running" if "a \<noteq> Submission_runs"
    using ok rows' opened submit_inflight [OF sub that] by (simp add: home_ok_def)
  assume a: "a = Submission_runs" and ex: "ex_key ex = request_key owner rq" "ex_items ex = None"
  note runs = submit_runs [OF sub [unfolded a] rows(1)]
  have fresh: "request_key owner rq \<notin> ex_key ` set running"
  proof
    assume k: "request_key owner rq \<in> ex_key ` set running"
    then obtain y where y: "y \<in> set running" "ex_key y = request_key owner rq" by auto
    obtain r where "fetch_receipt (ex_key y) (hs_receipts st) = Some r"
      using ok y(1) by (auto simp: home_ok_def open_receipt_def)
    with prompt [OF y(1)] runs(3) y(2) k ok show False by (auto simp: home_ok_def)
  qed
  then show "home_ok st' (running @ [ex])"
    using ok rows' opened runs(1,2) ex by (auto simp: home_ok_def open_receipt_def items_ok_def)
qed

lemma answered_update: "items_ok ex \<Longrightarrow> ex_items ex = Some is \<Longrightarrow> answer_ok a \<Longrightarrow>
    items_ok (ex\<lparr>ex_items := Some (is[i := Item_answered a])\<rparr>)"
  by (auto simp: items_ok_def list_all_iff dest!: set_update_subset_insert [THEN subsetD])

lemma performed_ok: "list_all item_ok is \<Longrightarrow> result_ok (performed ex is)"
  by (induction "is") (auto simp: performed_def result_ok_def List.map_filter_def elim: item_ok.elims)

lemma refused_ok: "result_ok (refused_request rq c)"
  by (simp add: refused_request_def result_ok_def)

lemma requested_ok: "requested_commands r rq = Inl res \<Longrightarrow> result_ok res"
  by (auto simp: requested_commands_def refused_ok split: option.splits)

lemma failed_ok: "answer_ok (failed_command c e)"
  by (simp add: failed_command_def answer_ok_def)

lemma first_item_item_ok: "item_ok (first_item e r c)"
  by (cases "first_item e r c") (simp_all add: first_item_ok)

lemma home_step_ok:
  assumes "home_step e w w'" "home_ok (hw_state w) (hw_running w)" "prompt w"
  shows "home_ok (hw_state w') (hw_running w')"
proof -
  have inside: "within_window (hw_now w) r"
    if "ex \<in> set (hw_running w)" "fetch_receipt (ex_key ex) (hs_receipts (hw_state w)) = Some r" for ex r
    using assms(3) that by (auto simp: prompt_def list_all_iff)
  have items: "items_ok ex" if "ex \<in> set (hw_running w)" for ex
    using assms(2) that by (simp add: home_ok_def)
  from assms(1) show ?thesis
  proof cases
    case (Tick t)
    with assms(2) show ?thesis by simp
  next
    case (Submit_run owner rq st ex)
    with home_ok_submit(3) [OF _ assms(2) inside] show ?thesis by simp
  next
    case (Submit_other owner rq st a)
    with home_ok_submit(2) [OF _ assms(2) inside] show ?thesis by simp
  next
    case (Too_late ex)
    with home_ok_complete [OF assms(2) _ refused_ok] show ?thesis by (simp add: end_execution_def)
  next
    case (Begin ex source providers st r cs)
    have "items_ok (ex\<lparr>ex_started := Some (hw_now w), ex_items := Some (map (first_item e r) cs)\<rparr>)"
      by (simp add: items_ok_def list_all_iff first_item_item_ok)
    with Begin home_ok_update [OF home_ok_settling [OF read_registry_settling [OF Begin(4)] assms(2)]]
    show ?thesis by simp
  next
    case (Begin_refused ex source providers st r res)
    with home_ok_complete [OF home_ok_settling [OF read_registry_settling [OF Begin_refused(4)] assms(2)]]
      requested_ok [OF Begin_refused(5)]
    show ?thesis by (simp add: end_execution_def)
  next
    case (Begin_raised ex source providers st err)
    with home_ok_abandon [OF home_ok_settling [OF read_registry_settling [OF Begin_raised(4)] assms(2)]]
    show ?thesis by (simp add: end_execution_def)
  next
    case (Not_started ex "is" i c d)
    with home_ok_update [OF assms(2)] answered_update [OF items _ failed_ok] show ?thesis
      by (simp add: set_items_def)
  next
    case (Return ex "is" i c d outcome st a)
    with home_ok_update [OF home_ok_settling [OF command_returned_settling [OF Return(6)] assms(2)]]
      answered_update [OF items _ returned_answer_ok [OF Return(6)]]
    show ?thesis by (simp add: set_items_def)
  next
    case (Return_raised ex "is" i c d outcome st err)
    with home_ok_abandon [OF home_ok_settling [OF command_returned_settling [OF Return_raised(6)] assms(2)]]
    show ?thesis by (simp add: end_execution_def)
  next
    case (Stray_return k c d outcome st a)
    with home_ok_settling [OF command_returned_settling [OF Stray_return(3)] assms(2)] show ?thesis by simp
  next
    case (Finish ex "is" "back")
    then have "list_all item_ok is" using items by (force simp: items_ok_def)
    with Finish home_ok_complete [OF assms(2) _ performed_ok] show ?thesis by (simp add: end_execution_def)
  next
    case (Cancel ex)
    with home_ok_abandon [OF assms(2)] show ?thesis by (simp add: end_execution_def)
  next
    case (Observe owner dev seen state st a)
    with home_ok_settling [OF observe_settling [OF Observe(2)] assms(2)] show ?thesis by simp
  next
    case (Snapshot owner source providers st a)
    with home_ok_settling [OF read_registry_settling [OF Snapshot(2)] assms(2)] show ?thesis by simp
  next
    case Restart
    with assms(2) show ?thesis by (simp add: home_ok_def restart_process_def)
  qed
qed

lemma home_reach_ok: "home_reach e w \<Longrightarrow> home_ok (hw_state w) (hw_running w) \<and> prompt w"
proof (induction rule: home_reach.induct)
  case (Start receipts observations now)
  then show ?case by (simp add: home_start_def home_ok_def prompt_def)
next
  case (Step w w')
  then show ?case using home_step_ok by blast
qed

section \<open>One activation per request\<close>

lemma submit_window:
  assumes "receipts_ok (hs_receipts st)" "fetch_receipt (request_key owner rq) (hs_receipts st) = Some r"
    and "within_window now r" "owner \<noteq> []"
  shows "snd (submit printer now owner rq st) =
    (if rc_fingerprint r \<noteq> printer (rq_commands rq) (rq_scene_id rq) then Submission_conflict
     else case rc_result r of
            Some res \<Rightarrow> Submission_answered res
          | None \<Rightarrow> if request_key owner rq \<in> set (hs_inflight st) then Submission_waits else Submission_runs)"
proof (cases "rc_fingerprint r = printer (rq_commands rq) (rq_scene_id rq)")
  case True
  with sqlite_ledger.start_found [OF assms(1-3), of "printer (rq_commands rq) (rq_scene_id rq)"] assms(4)
  show ?thesis by (auto simp: submit_def Let_def split: prod.splits option.splits)
next
  case False
  with sqlite_ledger.start_clash [OF assms(1-3)] assms(4) show ?thesis by (simp add: submit_def Let_def)
qed


lemma lamp_reached: "home_reach small_home lamp_world"
proof (rule home_reach.Step [OF _ lamp_started])
  show "home_reach small_home (home_start [] [] 5)"
    by (rule home_reach.Start) (simp_all add: receipts_ok_def results_ok_def)
  show "prompt lamp_world"
    by (simp add: prompt_def lamp_world_def lamp_execution_def lamp_state_def open_lamp_receipt_def
        fetch_receipt_def tget_Cons within_window_def submitted_def idempotency_window_ms_def)
qed


text \<open>
  C24: In every reachable world a recorded answer is well formed: it has a state if and only if
  it is a success and a platform's answer, of at most 200 characters, if and only if it was
  delegated; a failure has a code, and a refused request has no answers.
\<close>

theorem recorded_answers_well_formed:
  assumes "home_reach e w" "r \<in> set (hs_receipts (hw_state w))" "rc_result r = Some res"
  shows "result_ok res"
  using home_reach_ok [OF assms(1)] assms(2,3) by (auto simp: home_ok_def results_ok_def)

lemma recorded_answers_well_formed_witness:
  "result_ok (refused_request lamp_request deadline_exceeded)"
proof -
  let ?w = "lamp_world\<lparr>hw_now := 90\<rparr>"
  have run: "hw_running ?w = [lamp_execution]" by (simp add: lamp_world_def)
  have late: "home_step small_home lamp_world ?w"
    by (rule home_step.Tick) (simp add: lamp_world_def)
  have refused: "home_step small_home ?w (end_execution lamp_execution (complete lamp_key
      (refused_request lamp_request deadline_exceeded) (refused_times lamp_execution 90)) ?w)" (is "home_step _ _ ?v")
    using home_step.Too_late [of lamp_execution ?w small_home] run
    by (simp add: lamp_execution_def lamp_request_def)
  have "home_reach small_home ?w"
    using lamp_reached late by (rule home_reach.Step)
      (simp add: prompt_def lamp_world_def lamp_execution_def lamp_state_def open_lamp_receipt_def
        fetch_receipt_def tget_Cons within_window_def submitted_def idempotency_window_ms_def)
  then have "home_reach small_home ?v"
    using refused by (rule home_reach.Step) (simp add: prompt_def end_execution_def run)
  moreover have "\<exists>r\<in>set (hs_receipts (hw_state ?v)). rc_result r = Some (refused_request lamp_request deadline_exceeded)"
    by (simp add: end_execution_def complete_def lamp_world_def lamp_state_def sqlite_complete_def tupd_def
        open_lamp_receipt_def)
  ultimately show ?thesis using recorded_answers_well_formed by blast
qed

section \<open>An answer stands\<close>

definition standing :: "receipt \<Rightarrow> receipt_key \<Rightarrow> home_world \<Rightarrow> bool" where
  "standing r0 k w \<longleftrightarrow> receipts_ok (hs_receipts (hw_state w)) \<and> k \<notin> ex_key ` set (hw_running w)
     \<and> (\<exists>r. fetch_receipt k (hs_receipts (hw_state w)) = Some r \<and> settles_receipt r0 r)"

lemma standing_settling:
  assumes "standing r0 k w" "settling (hw_state w) (hw_state w')" "ex_key ` set (hw_running w') \<subseteq> ex_key ` set (hw_running w)"
  shows "standing r0 k w'"
proof -
  from assms(1) obtain r where r: "fetch_receipt k (hs_receipts (hw_state w)) = Some r" "settles_receipt r0 r"
    by (auto simp: standing_def)
  have rows: "settles_rows (hs_receipts (hw_state w)) (hs_receipts (hw_state w'))"
    using assms(1,2) by (simp add: settling_def standing_def)
  from settles_rows_fetch [OF rows, of k] r(1) obtain q where
    q: "fetch_receipt k (hs_receipts (hw_state w')) = Some q" "settles_receipt r q" by auto
  have "k \<notin> ex_key ` set (hw_running w')" using assms(1,3) by (auto simp: standing_def)
  moreover have "settles_receipt r0 q" using r(2) q(2) by (rule settles_receipt_trans)
  moreover have "receipts_ok (hs_receipts (hw_state w'))"
    using receipts_ok_settles [OF rows] assms(1) by (simp add: standing_def)
  ultimately show ?thesis using q(1) by (simp add: standing_def)
qed

lemma standing_submit:
  assumes "standing r0 k w" "rc_result r0 \<noteq> None" "within_window (hw_now w) r0"
    and "submit printer (hw_now w) owner rq (hw_state w) = (st, a)"
  shows "standing r0 k (w\<lparr>hw_state := st\<rparr>) \<and> (a = Submission_runs \<longrightarrow> request_key owner rq \<noteq> k)"
proof -
  from assms(1) obtain r where r: "fetch_receipt k (hs_receipts (hw_state w)) = Some r" "settles_receipt r0 r"
    and ok: "receipts_ok (hs_receipts (hw_state w))"
    by (auto simp: standing_def)
  from r(2) assms(3) have w: "within_window (hw_now w) r" by (simp add: within_window_def settles_receipt_def)
  have some: "rc_result r \<noteq> None" using r(2) assms(2) by (auto simp: settles_receipt_def split: option.splits)
  show ?thesis
    using submit_keeps [OF assms(4) ok r(1) w] submit_ok [OF assms(4) ok] r assms(1,4) some w
      submit_runs(3) [OF _ ok]
    by (auto simp: standing_def)
qed

lemma standing_end:
  assumes "standing r0 k w" "ex \<in> set (hw_running w)"
  shows "standing r0 k (end_execution ex (abandon (ex_key ex)) w)"
    and "standing r0 k (end_execution ex (complete (ex_key ex) res ts) w)"
proof -
  have "k \<noteq> ex_key ex" using assms by (auto simp: standing_def)
  then show "standing r0 k (end_execution ex (complete (ex_key ex) res ts) w)"
    using assms(1) by (auto simp: standing_def end_execution_def complete_other complete_ok)
  show "standing r0 k (end_execution ex (abandon (ex_key ex)) w)"
    using assms(1) by (auto simp: standing_def end_execution_def abandon_def)
qed

lemma update_keys:
  "ex_key ex' = ex_key ex \<Longrightarrow> ex_key ` set (map (\<lambda>y. if y = ex then ex' else y) running) \<subseteq> ex_key ` set running"
  by auto

lemma home_step_time: "home_step e w w' \<Longrightarrow> hw_now w \<le> hw_now w'"
  by (induction rule: home_step.induct) (simp_all add: end_execution_def set_items_def)

lemma home_step_standing:
  assumes "home_step e w w'" "standing r0 k w" "rc_result r0 \<noteq> None" "within_window (hw_now w) r0"
  shows "standing r0 k w'"
proof -
  have settled: "standing r0 k (w\<lparr>hw_state := st\<rparr>)" if "settling (hw_state w) st" for st
    using standing_settling [OF assms(2)] that by simp
  from assms(1) show ?thesis
  proof cases
    case (Tick t)
    with assms(2) show ?thesis by (simp add: standing_def)
  next
    case (Submit_run owner rq st ex)
    with standing_submit [OF assms(2-4) Submit_run(2)] show ?thesis by (auto simp: standing_def)
  next
    case (Submit_other owner rq st a)
    with standing_submit [OF assms(2-4) Submit_other(2)] show ?thesis by simp
  next
    case (Too_late ex)
    with standing_end [OF assms(2)] show ?thesis by simp
  next
    case (Begin ex source providers st r cs)
    then show ?thesis
      using settled [OF read_registry_settling [OF Begin(4)]] by (auto simp: standing_def)
  next
    case (Begin_refused ex source providers st r res)
    with standing_end [OF settled [OF read_registry_settling [OF Begin_refused(4)]]] show ?thesis by simp
  next
    case (Begin_raised ex source providers st err)
    with standing_end [OF settled [OF read_registry_settling [OF Begin_raised(4)]]] show ?thesis by simp
  next
    case (Not_started ex "is" i c d)
    with assms(2) show ?thesis by (auto simp: standing_def set_items_def)
  next
    case (Return ex "is" i c d outcome st a)
    with settled [OF command_returned_settling [OF Return(6)]] show ?thesis
      by (auto simp: standing_def set_items_def)
  next
    case (Return_raised ex "is" i c d outcome st err)
    have "standing r0 k (w\<lparr>hw_state := st, hw_stray := strays\<rparr>)" for strays
      using settled [OF command_returned_settling [OF Return_raised(6)]] by (simp add: standing_def)
    with Return_raised standing_end show ?thesis by simp
  next
    case (Stray_return k c d outcome st a)
    with settled [OF command_returned_settling [OF Stray_return(3)]] show ?thesis by (simp add: standing_def)
  next
    case (Finish ex "is" "back")
    with standing_end [OF assms(2)] show ?thesis by simp
  next
    case (Cancel ex)
    with standing_end [OF assms(2)] show ?thesis by simp
  next
    case (Observe owner dev seen state st a)
    with settled [OF observe_settling [OF Observe(2)]] show ?thesis by simp
  next
    case (Snapshot owner source providers st a)
    with settled [OF read_registry_settling [OF Snapshot(2)]] show ?thesis by simp
  next
    case Restart
    with assms(2) show ?thesis by (simp add: standing_def restart_process_def)
  qed
qed

text \<open>
  C23: Once a request has its result, every repeat within the window, whatever happened in
  between, a restart included, is answered with that result: the same error and the same
  answers in the same order, but that an unknown outcome may have become a success.  No other
  answer changes, and nothing is carried out again.
\<close>

theorem recorded_answer_stands:
  assumes "home_steps e w w'" "receipts_ok (hs_receipts (hw_state w))"
    and "fetch_receipt (request_key owner rq) (hs_receipts (hw_state w)) = Some r" "rc_result r = Some res"
    and "request_key owner rq \<notin> ex_key ` set (hw_running w)" "owner \<noteq> []"
    and "rc_fingerprint r = he_printer e (rq_commands rq) (rq_scene_id rq)"
    and "hw_now w' \<le> ts_submitted (rc_timestamps r) + idempotency_window_ms"
  shows "\<exists>res'. snd (submit (he_printer e) (hw_now w') owner rq (hw_state w')) = Submission_answered res'
    \<and> settles res res'"
proof -
  let ?k = "request_key owner rq"
  have "standing r ?k w" using assms(2,3,5) by (auto simp: standing_def)
  with assms(1,8) have "standing r ?k w'"
    unfolding home_steps_def
  proof (induction rule: rtranclp_induct)
    case (step y z)
    then have "within_window (hw_now y) r" using home_step_time [OF step(2)] by (simp add: within_window_def)
    moreover have "standing r ?k y" using step home_step_time [OF step(2)] by simp
    ultimately show ?case using home_step_standing [OF step(2)] assms(4) by simp
  qed
  then obtain q where q: "fetch_receipt ?k (hs_receipts (hw_state w')) = Some q" "settles_receipt r q"
    and ok: "receipts_ok (hs_receipts (hw_state w'))" by (auto simp: standing_def)
  from q(2) assms(4) obtain res' where res': "rc_result q = Some res'" "settles res res'"
    by (auto simp: settles_receipt_def split: option.splits)
  have "within_window (hw_now w') q" using q(2) assms(8) by (simp add: settles_receipt_def within_window_def)
  with submit_window [OF ok q(1) _ assms(6)] q(2) res' assms(7) show ?thesis by (simp add: settles_receipt_def)
qed

section \<open>Unknown outcomes\<close>

text \<open>A command that timed out is the only one waiting for its device.\<close>

definition awaited :: "receipt_key \<Rightarrow> command \<Rightarrow> dict option \<Rightarrow> int \<Rightarrow> home_state \<Rightarrow> bool" where
  "awaited k c before now st \<longleftrightarrow>
     hs_pending st (rk_owner_id k, cm_device_id c) = [\<lparr>pe_scope = rk_scope k, pe_request_id = rk_request_id k,
       pe_command = c, pe_before = before, pe_expires_at = now + reconcile_window_ms\<rparr>]"

lemma timed_out_awaited:
  "command_timed_out x now k c st = (st1, Inr a) \<Longrightarrow> hs_pending st (rk_owner_id k, cm_device_id c) = [] \<Longrightarrow>
   \<exists>before. last_observed x (rk_owner_id k) (cm_device_id c) st = Inr before \<and> awaited k c before now st1
     \<and> hs_receipts st1 = hs_receipts st \<and> a = unknown_command c (Some deadline_exceeded)"
  by (auto simp: command_timed_out_def Let_def awaited_def split: sum.splits)

lemma awaited_observed:
  assumes "awaited k c before now st" "later < now + reconcile_window_ms"
    and "satisfied x h c before state = Inr True"
  shows "observe x s h later (rk_owner_id k) (cm_device_id c) seen (Some state) st =
    (st\<lparr>hs_observations := fst (put_observation s (rk_owner_id k) (cm_device_id c) seen (Some state) later
          (hs_observations st)),
        hs_receipts := fst (sqlite_reconcile k (cm_device_id c) (outcome_item (cm_device_id c) (Some state)) later
          (hs_receipts st)),
        hs_pending := (hs_pending st)((rk_owner_id k, cm_device_id c) := [])\<rparr>, Inr ())"
  using assms by (cases k) (simp add: awaited_def observe_def Let_def outcome_item_def)

text \<open>
  A command that timed out is answered as unknown and waits ten minutes.  An observation in
  that time whose state shows the command took effect makes the first unknown answer for the
  device in the recorded result a success with that state; the receipt is otherwise kept.
\<close>

theorem unknown_outcome_settled:
  assumes "awaited k c before now st" "later < now + reconcile_window_ms"
    and "satisfied x h c before state = Inr True"
    and "fetch_receipt k (hs_receipts st) = Some r" "rc_result r = Some res"
    and "xr_results res = earlier @ unknown_command c e # rest"
    and "find (\<lambda>a. ca_device_id a = cm_device_id c \<and> ca_status a = Unknown) earlier = None"
  shows "fetch_receipt k (hs_receipts (fst (observe x s h later (rk_owner_id k) (cm_device_id c) seen
      (Some state) st))) =
    Some (r\<lparr>rc_result := Some (res\<lparr>xr_results := earlier @ \<lparr>ca_device_id = cm_device_id c,
              ca_status = Succeeded, ca_code = None, ca_state = Some state, ca_platform_answer = None\<rparr> # rest\<rparr>),
            rc_timestamps := (rc_timestamps r)\<lparr>ts_reconciled := Some later\<rparr>\<rparr>)"
proof -
  have "replace_item (cm_device_id c) item (earlier @ unknown_command c e # rest) = Some (earlier @ item # rest)"
    for item
    using assms(7) by (induction earlier) (auto simp: unknown_command_def split: if_splits)
  then show ?thesis
    using assms(4-6) by (simp add: awaited_observed [OF assms(1-3)] sqlite_reconcile_def replace_unknown_def
        fetch_tupd outcome_item_def)
qed

text \<open>
  The same observation, when it comes before the request is complete, is lost: the receipt
  has no result yet, so nothing is settled, and the command no longer waits.  The result is then
  recorded as unknown, and no observation of the device changes it any more.
\<close>

theorem early_confirmation_lost:
  assumes "command_timed_out x now k c st = (st1, Inr a)" "hs_pending st (rk_owner_id k, cm_device_id c) = []"
    and "fetch_receipt k (hs_receipts st) = Some r" "rc_result r = None"
    and "last_observed x (rk_owner_id k) (cm_device_id c) st = Inr before"
    and "satisfied x h c before state = Inr True" "later < now + reconcile_window_ms"
    and "observe x s h later (rk_owner_id k) (cm_device_id c) seen (Some state) st1 = (st2, o1)"
    and "observe x s h t (rk_owner_id k) (cm_device_id c) seen' state' (complete k res ts st2) = (st3, o2)"
  shows "o1 = Inr () \<and> hs_receipts st2 = hs_receipts st
    \<and> (\<exists>q. fetch_receipt k (hs_receipts st3) = Some q \<and> rc_result q = Some res)"
proof -
  from timed_out_awaited [OF assms(1,2)] assms(5)
  have aw: "awaited k c before now st1" and same: "hs_receipts st1 = hs_receipts st" by auto
  have "replace_unknown (fetch_receipt k (hs_receipts st1)) d item = None" for d item
    using assms(3,4) by (simp add: same replace_unknown_def)
  then have st2: "o1 = Inr ()" "hs_receipts st2 = hs_receipts st" "hs_pending st2 (rk_owner_id k, cm_device_id c) = []"
    using assms(8) by (auto simp: awaited_observed [OF aw assms(7,6)] sqlite_reconcile_def same)
  have "hs_receipts st3 = hs_receipts (complete k res ts st2)"
    using assms(9) st2(3) by (auto simp: observe_def Let_def complete_def)
  then show ?thesis using assms(3) st2(1,2) by (simp add: complete_def sqlite_complete_def fetch_tupd)
qed

lemma recorded_answer_stands_witness:
  "\<exists>w' res'. home_steps small_home unknown_lamp_world w'
     \<and> snd (submit (he_printer small_home) (hw_now w') ''u'' lamp_request (hw_state w')) = Submission_answered res'
     \<and> settles unknown_lamp_result res'"
proof -
  let ?o = "observe small_world small_sdk small_home_sdk 7 ''u'' ''lamp'' True (Some lamp_is_on) unknown_lamp_state"
  let ?w = "unknown_lamp_world\<lparr>hw_state := fst ?o\<rparr>"
  let ?r = "open_lamp_receipt\<lparr>rc_result := Some unknown_lamp_result\<rparr>"
  have "home_step small_home unknown_lamp_world ?w"
    using home_step.Observe [of small_home unknown_lamp_world "''u''" "''lamp''" True "Some lamp_is_on" "fst ?o" "snd ?o"]
    by (simp add: small_home_def unknown_lamp_world_def)
  then have steps: "home_steps small_home unknown_lamp_world ?w" by (simp add: home_steps_def)
  have rows: "hs_receipts (hw_state unknown_lamp_world) = [?r]"
    by (simp add: unknown_lamp_world_def unknown_lamp_state_def lamp_state_def)
  have "\<exists>res'. snd (submit (he_printer small_home) (hw_now ?w) ''u'' lamp_request (hw_state ?w)) = Submission_answered res'
      \<and> settles unknown_lamp_result res'"
  proof (rule recorded_answer_stands [OF steps])
    show "fetch_receipt (request_key ''u'' lamp_request) (hs_receipts (hw_state unknown_lamp_world)) = Some ?r"
      unfolding rows by (simp add: fetch_receipt_def tget_Cons open_lamp_receipt_def)
    show "receipts_ok (hs_receipts (hw_state unknown_lamp_world))" unfolding rows by (simp add: receipts_ok_def)
    show "rc_fingerprint ?r = he_printer small_home (rq_commands lamp_request) (rq_scene_id lamp_request)"
      by (simp add: open_lamp_receipt_def small_home_def) (simp add: lamp_request_def switch_on_def)
    show "hw_now ?w \<le> ts_submitted (rc_timestamps ?r) + idempotency_window_ms"
      by (simp add: open_lamp_receipt_def submitted_def unknown_lamp_world_def idempotency_window_ms_def)
  qed (simp_all add: unknown_lamp_world_def)
  with steps show ?thesis by blast
qed

lemma unknown_outcome_settled_witness:
  "rc_result (the (fetch_receipt lamp_key (hs_receipts (fst (observe small_world small_sdk small_home_sdk 7 ''u''
      ''lamp'' True (Some lamp_is_on) unknown_lamp_state)))))
   = Some (unknown_lamp_result\<lparr>xr_results := [\<lparr>ca_device_id = ''lamp'', ca_status = Succeeded, ca_code = None,
        ca_state = Some lamp_is_on, ca_platform_answer = None\<rparr>]\<rparr>)"
proof -
  have "awaited lamp_key switch_on None 6 unknown_lamp_state"
    by (simp add: awaited_def lamp_key_def switch_on_def unknown_lamp_state_def)
  moreover have "satisfied small_world small_home_sdk switch_on None lamp_is_on = Inr True"
    by (simp add: satisfied_def switch_on_def lamp_is_on_def is_true_def dict_get_def)
  moreover have "fetch_receipt lamp_key (hs_receipts unknown_lamp_state)
      = Some (open_lamp_receipt\<lparr>rc_result := Some unknown_lamp_result\<rparr>)"
    by (simp add: unknown_lamp_state_def lamp_state_def fetch_receipt_def tget_Cons open_lamp_receipt_def)
  moreover have "xr_results unknown_lamp_result = [] @ unknown_command switch_on (Some deadline_exceeded) # []"
    by (simp add: unknown_lamp_result_def)
  moreover have "rk_owner_id lamp_key = ''u''" "cm_device_id switch_on = ''lamp''"
    by (simp_all add: lamp_key_def switch_on_def)
  ultimately show ?thesis
    using unknown_outcome_settled [of lamp_key switch_on None 6 unknown_lamp_state 7 small_world small_home_sdk lamp_is_on
        "open_lamp_receipt\<lparr>rc_result := Some unknown_lamp_result\<rparr>" unknown_lamp_result "[]"
        "Some deadline_exceeded" "[]" small_sdk True]
    by (simp add: reconcile_window_ms_def)
qed

text \<open>The lamp is seen on before its request is complete, and ever after: the answer stays unknown.\<close>

lemma early_confirmation_lost_witness:
  "\<exists>st1 a st2 o1 st3 o2 q. command_timed_out small_world 6 lamp_key switch_on (lamp_state [open_lamp_receipt]) = (st1, Inr a)
     \<and> observe small_world small_sdk small_home_sdk 7 ''u'' ''lamp'' True (Some lamp_is_on) st1 = (st2, o1)
     \<and> observe small_world small_sdk small_home_sdk 9 ''u'' ''lamp'' True (Some lamp_is_on)
         (complete lamp_key unknown_lamp_result (submitted 5) st2) = (st3, o2)
     \<and> fetch_receipt lamp_key (hs_receipts st3) = Some q \<and> rc_result q = Some unknown_lamp_result"
proof -
  let ?st = "lamp_state [open_lamp_receipt]"
  have seen: "last_observed small_world (rk_owner_id lamp_key) (cm_device_id switch_on) ?st = Inr None"
    by (simp add: last_observed_def snapshot_observations_def of_owner_def lamp_state_def)
  then obtain st1 a where st1: "command_timed_out small_world 6 lamp_key switch_on ?st = (st1, Inr a)"
    by (simp add: command_timed_out_def Let_def)
  obtain st2 o1 where st2: "observe small_world small_sdk small_home_sdk 7 (rk_owner_id lamp_key) (cm_device_id switch_on)
      True (Some lamp_is_on) st1 = (st2, o1)" by fastforce
  obtain st3 o2 where st3: "observe small_world small_sdk small_home_sdk 9 (rk_owner_id lamp_key) (cm_device_id switch_on)
      True (Some lamp_is_on) (complete lamp_key unknown_lamp_result (submitted 5) st2) = (st3, o2)" by fastforce
  have "satisfied small_world small_home_sdk switch_on None lamp_is_on = Inr True"
    by (simp add: satisfied_def switch_on_def lamp_is_on_def is_true_def dict_get_def)
  moreover have "fetch_receipt lamp_key (hs_receipts ?st) = Some open_lamp_receipt" "rc_result open_lamp_receipt = None"
    "hs_pending ?st (rk_owner_id lamp_key, cm_device_id switch_on) = []"
    by (simp_all add: lamp_state_def fetch_receipt_def tget_Cons open_lamp_receipt_def)
  ultimately have "\<exists>q. fetch_receipt lamp_key (hs_receipts st3) = Some q \<and> rc_result q = Some unknown_lamp_result"
    using early_confirmation_lost [OF st1 _ _ _ seen _ _ st2 st3] by (simp add: reconcile_window_ms_def)
  moreover have "rk_owner_id lamp_key = ''u''" "cm_device_id switch_on = ''lamp''"
    by (simp_all add: lamp_key_def switch_on_def)
  ultimately show ?thesis using st1 st2 st3 by auto
qed

end
