(* ===== verification/Observation_Properties.thy ===== *)
theory Observation_Properties
  imports Observation_Cache Device_Scenario
begin

text \<open>
  What a reader of the change stream is told: everything, as long as no target is forgotten;
  after the latest target is forgotten, not the next change.
\<close>

section \<open>The table\<close>

record report =
  rt_owner :: string
  rt_target :: string
  rt_reachable :: bool
  rt_state :: "dict option"
  rt_at :: int

definition report_to :: "device_sdk \<Rightarrow> report \<Rightarrow> observation_row list \<Rightarrow> observation_row list" where
  "report_to s p rows =
     fst (put_observation s (rt_owner p) (rt_target p) (rt_reachable p) (rt_state p) (rt_at p) rows)"

fun report_all :: "device_sdk \<Rightarrow> report list \<Rightarrow> observation_row list \<Rightarrow> observation_row list" where
  "report_all s [] rows = rows"
| "report_all s (p # ps) rows = report_all s ps (report_to s p rows)"

text \<open>The observed fact of a target: what a reader sees of a row, but for when.\<close>

definition fact :: "string \<Rightarrow> string \<Rightarrow> observation_row list \<Rightarrow> (bool \<times> string option) option" where
  "fact owner target rows =
     map_option (\<lambda>r. (ob_reachable r, ob_state_json r)) (tget observation_key (owner, target) rows)"

lemma latest_seq_ge: "r \<in> set rows \<Longrightarrow> ob_owner_id r = owner \<Longrightarrow> ob_seq r \<le> latest_seq owner rows"
  by (simp add: latest_seq_def of_owner_def sql_max_ge)

lemma latest_seq_bound:
  "(\<And>r. r \<in> set rows \<Longrightarrow> ob_owner_id r = owner \<Longrightarrow> ob_seq r \<le> b) \<Longrightarrow> 0 \<le> b \<Longrightarrow> latest_seq owner rows \<le> b"
  unfolding latest_seq_def of_owner_def by (rule sql_max_bound) auto

text \<open>A report is one of two moves: the time of a row is renewed, or a row with the next number is stored.\<close>

definition next_row :: "device_sdk \<Rightarrow> report \<Rightarrow> observation_row list \<Rightarrow> observation_row" where
  "next_row s p rows = \<lparr>ob_owner_id = rt_owner p, ob_target = rt_target p, ob_reachable = rt_reachable p,
     ob_state_json = state_text s (rt_state p), ob_observed_at = rt_at p,
     ob_seq = latest_seq (rt_owner p) rows + 1\<rparr>"

lemma next_row_key [simp]: "observation_key (next_row s p rows) = (rt_owner p, rt_target p)"
  by (simp add: next_row_def observation_key_def)

lemma next_row_simps [simp]:
  "ob_owner_id (next_row s p rows) = rt_owner p" "ob_seq (next_row s p rows) = latest_seq (rt_owner p) rows + 1"
  "ob_reachable (next_row s p rows) = rt_reachable p" "ob_state_json (next_row s p rows) = state_text s (rt_state p)"
  by (simp_all add: next_row_def)

lemma of_owner_tupd:
  "owner \<noteq> o1 \<Longrightarrow> (\<And>r. ob_owner_id r = o1 \<Longrightarrow> ob_owner_id (f r) = o1) \<Longrightarrow>
   of_owner owner (tupd observation_key (o1, t) f rows) = of_owner owner rows"
  by (induction rows) (auto simp: tupd_def of_owner_def observation_key_def)

lemma of_owner_append [simp]: "of_owner owner (rows @ rows') = of_owner owner rows @ of_owner owner rows'"
  by (simp add: of_owner_def)

lemma renewed_of_owner:
  "map ob_seq (of_owner owner (tupd observation_key k (\<lambda>r. r\<lparr>ob_observed_at := t\<rparr>) rows))
   = map ob_seq (of_owner owner rows)"
  by (induction rows) (auto simp: tupd_def of_owner_def)

lemma renewed_tget:
  "tget observation_key k (tupd observation_key k0 (\<lambda>r. r\<lparr>ob_observed_at := t\<rparr>) rows) =
   (if k = k0 then map_option (\<lambda>r. r\<lparr>ob_observed_at := t\<rparr>) (tget observation_key k rows)
    else tget observation_key k rows)"
  by (subst tget_tupd) (simp_all add: observation_key_def)

lemma report_cases:
  obtains (renewed) r where "tget observation_key (rt_owner p, rt_target p) rows = Some r"
      "ob_reachable r = rt_reachable p" "ob_state_json r = state_text s (rt_state p)"
      "report_to s p rows = tupd observation_key (rt_owner p, rt_target p) (\<lambda>r. r\<lparr>ob_observed_at := rt_at p\<rparr>) rows"
  | (stored) "tget observation_key (rt_owner p, rt_target p) (report_to s p rows) = Some (next_row s p rows)"
      "\<And>k. k \<noteq> (rt_owner p, rt_target p) \<Longrightarrow> tget observation_key k (report_to s p rows) = tget observation_key k rows"
      "\<And>owner. owner \<noteq> rt_owner p \<Longrightarrow> of_owner owner (report_to s p rows) = of_owner owner rows"
proof (cases "tget observation_key (rt_owner p, rt_target p) rows")
  case None
  then have "report_to s p rows = rows @ [next_row s p rows]"
    by (simp add: report_to_def put_observation_def next_row_def Let_def)
  with None show ?thesis
    by (intro stored) (auto simp: tget_append tget_Cons of_owner_def split: option.split)
next
  case (Some r)
  show ?thesis
  proof (cases "ob_reachable r = rt_reachable p \<and> ob_state_json r = state_text s (rt_state p)")
    case True
    with Some show ?thesis by (intro renewed [of r]) (simp_all add: report_to_def put_observation_def Let_def)
  next
    case False
    with Some have "report_to s p rows = tupd observation_key (rt_owner p, rt_target p) (\<lambda>_. next_row s p rows) rows"
      by (auto simp: report_to_def put_observation_def next_row_def Let_def)
    with Some show ?thesis
      by (intro stored) (simp_all add: tget_tupd_const of_owner_tupd)
  qed
qed

lemma report_fact:
  "fact (rt_owner p) (rt_target p) (report_to s p rows) = Some (rt_reachable p, state_text s (rt_state p))"
proof (cases rule: report_cases [of p rows s])
  case (renewed r)
  then show ?thesis by (simp add: fact_def renewed_tget)
next
  case stored
  then show ?thesis by (simp add: fact_def)
qed

lemma report_grows: "latest_seq owner rows \<le> latest_seq owner (report_to s p rows)"
proof (cases rule: report_cases [of p rows s])
  case (renewed r)
  then show ?thesis by (simp add: latest_seq_def renewed_of_owner)
next
  case stored
  show ?thesis
  proof (cases "owner = rt_owner p")
    case True
    have "next_row s p rows \<in> set (report_to s p rows)" using stored(1) by (auto dest: tget_SomeD)
    from latest_seq_ge [OF this, of owner] True show ?thesis by (simp add: next_row_def)
  next
    case False
    with stored(3) show ?thesis by (simp add: latest_seq_def)
  qed
qed

text \<open>Since the number \<open>n\<close>, a target's fact is the same, or its row has a later number.\<close>

definition told :: "string \<Rightarrow> int \<Rightarrow> observation_row list \<Rightarrow> string \<Rightarrow> observation_row list \<Rightarrow> bool" where
  "told owner n before target rows \<longleftrightarrow> fact owner target rows = fact owner target before
     \<or> (\<exists>r. tget observation_key (owner, target) rows = Some r \<and> n < ob_seq r)"

lemma report_told:
  assumes "told owner n before target rows" "n \<le> latest_seq owner rows"
  shows "told owner n before target (report_to s p rows)"
proof (cases rule: report_cases [of p rows s])
  case (renewed r)
  show ?thesis using assms(1) by (auto simp: renewed(4) renewed_tget told_def fact_def option.map_comp comp_def)
next
  case stored
  show ?thesis
  proof (cases "(owner, target) = (rt_owner p, rt_target p)")
    case True
    with stored(1) assms(2) show ?thesis by (simp add: told_def next_row_def)
  next
    case False
    with stored(2) assms(1) show ?thesis by (simp add: told_def fact_def)
  qed
qed

lemma reports_told:
  "told owner n before target rows \<Longrightarrow> n \<le> latest_seq owner rows \<Longrightarrow>
   told owner n before target (report_all s ps rows)"
  by (induction ps arbitrary: rows) (auto intro: report_told order_trans [OF _ report_grows])

text \<open>
  C25: A reader who has read up to the latest number of an Owner and asks for what came after it
  is given, whatever was reported in between by whomever, every target whose observed fact is
  not what it was, with the fact it has now.
\<close>

theorem observation_feed_complete:
  assumes "fact owner target (report_all s ps rows) \<noteq> fact owner target rows"
  shows "\<exists>r\<in>set (rows_after owner (latest_seq owner rows) (report_all s ps rows)).
    ob_target r = target
    \<and> fact owner target (report_all s ps rows) = Some (ob_reachable r, ob_state_json r)"
proof -
  have "told owner (latest_seq owner rows) rows target (report_all s ps rows)"
    by (rule reports_told) (simp_all add: told_def)
  with assms obtain r where r: "tget observation_key (owner, target) (report_all s ps rows) = Some r"
      "latest_seq owner rows < ob_seq r" by (auto simp: told_def)
  then have "r \<in> set (report_all s ps rows)" "ob_owner_id r = owner" "ob_target r = target"
    by (auto dest: tget_SomeD simp: observation_key_def)
  with r show ?thesis by (intro bexI [of _ r]) (simp_all add: fact_def rows_after_def of_owner_def)
qed

definition lamp_on :: report where
  "lamp_on = \<lparr>rt_owner = ''u'', rt_target = ''lamp'', rt_reachable = True, rt_state = Some [(''on'', JBool True)],
     rt_at = 1\<rparr>"

definition lamp_gone :: report where
  "lamp_gone = lamp_on\<lparr>rt_reachable := False, rt_state := None, rt_at := 2\<rparr>"

lemma observation_feed_complete_witness:
  "\<exists>r\<in>set (rows_after ''u'' 1 (report_all small_sdk [lamp_on, lamp_gone] [])).
    ob_target r = ''lamp'' \<and> \<not> ob_reachable r"
proof -
  have "latest_seq ''u'' (report_all small_sdk [lamp_on] []) = 1" by code_simp
  moreover have "report_all small_sdk [lamp_gone] (report_all small_sdk [lamp_on] [])
      = report_all small_sdk [lamp_on, lamp_gone] []" by simp
  moreover have "fact ''u'' ''lamp'' (report_all small_sdk [lamp_on, lamp_gone] []) = Some (False, None)"
    by code_simp
  moreover have "fact ''u'' ''lamp'' (report_all small_sdk [lamp_on] []) = Some (True, Some ''{}'')"
    by code_simp
  ultimately show ?thesis
    using observation_feed_complete [of "''u''" "''lamp''" small_sdk "[lamp_gone]" "report_all small_sdk [lamp_on] []"]
    by auto
qed

section \<open>Forgetting\<close>

text \<open>What reports build: one row per target, and no number twice for an Owner.\<close>

definition feed_ok :: "observation_row list \<Rightarrow> bool" where
  "feed_ok rows \<longleftrightarrow> distinct (map observation_key rows) \<and> (\<forall>r\<in>set rows. 0 < ob_seq r)
     \<and> (\<forall>r\<in>set rows. \<forall>q\<in>set rows. ob_owner_id q = ob_owner_id r \<and> ob_seq q = ob_seq r \<longrightarrow>
          ob_target q = ob_target r)"

lemma feed_pos: "feed_ok rows \<Longrightarrow> r \<in> set rows \<Longrightarrow> 0 < ob_seq r"
  by (simp add: feed_ok_def)

lemma feed_unique:
  "feed_ok rows \<Longrightarrow> r \<in> set rows \<Longrightarrow> q \<in> set rows \<Longrightarrow> ob_owner_id q = ob_owner_id r \<Longrightarrow> ob_seq q = ob_seq r \<Longrightarrow>
   ob_target q = ob_target r"
  unfolding feed_ok_def by blast

lemma report_set:
  "report_to s p rows = tupd observation_key (rt_owner p, rt_target p) (\<lambda>r. r\<lparr>ob_observed_at := rt_at p\<rparr>) rows
   \<or> (set (report_to s p rows) = insert (next_row s p rows)
        {r \<in> set rows. observation_key r \<noteq> (rt_owner p, rt_target p)}
      \<and> (distinct (map observation_key rows) \<longrightarrow> distinct (map observation_key (report_to s p rows))))"
  (is "_ \<or> ?stored")
proof (cases "tget observation_key (rt_owner p, rt_target p) rows")
  case None
  then have rows: "report_to s p rows = rows @ [next_row s p rows]"
    by (simp add: report_to_def put_observation_def next_row_def Let_def)
  show ?thesis using None unfolding rows by (auto simp: tget_None_iff image_iff)
next
  case (Some r)
  show ?thesis
  proof (cases "ob_reachable r = rt_reachable p \<and> ob_state_json r = state_text s (rt_state p)")
    case True
    with Some show ?thesis by (simp add: report_to_def put_observation_def Let_def)
  next
    case False
    with Some have rows:
      "report_to s p rows = tupd observation_key (rt_owner p, rt_target p) (\<lambda>_. next_row s p rows) rows"
      by (auto simp: report_to_def put_observation_def next_row_def Let_def)
    have "map observation_key (report_to s p rows) = map observation_key rows"
      unfolding rows by (auto simp: tupd_def)
    then show ?thesis using tget_SomeD [OF Some] unfolding rows by (auto simp: set_tupd)
  qed
qed

lemma report_distinct:
  "distinct (map observation_key rows) \<Longrightarrow> distinct (map observation_key (report_to s p rows))"
proof -
  have "map observation_key (tupd observation_key k (\<lambda>r. r\<lparr>ob_observed_at := t\<rparr>) rows) = map observation_key rows"
    for k t by (rule map_tupd) (simp add: observation_key_def)
  then show "distinct (map observation_key rows) \<Longrightarrow> ?thesis" using report_set [of s p rows] by metis
qed

text \<open>Every row after a report is the new one, replacing its target's, or as it was but for the time.\<close>

lemma report_origin:
  assumes "q \<in> set (report_to s p rows)"
  shows "q = next_row s p rows \<or> (\<exists>q0\<in>set rows. ob_owner_id q = ob_owner_id q0 \<and> ob_target q = ob_target q0
    \<and> ob_seq q = ob_seq q0)"
  using report_set [of s p rows]
proof
  assume "report_to s p rows = tupd observation_key (rt_owner p, rt_target p) (\<lambda>r. r\<lparr>ob_observed_at := rt_at p\<rparr>) rows"
  with assms show ?thesis by (auto simp: set_tupd)
qed (use assms in auto)

lemma latest_seq_nonneg: "feed_ok rows \<Longrightarrow> 0 \<le> latest_seq owner rows"
proof (cases "of_owner owner rows")
  case (Cons r rs)
  assume ok: "feed_ok rows"
  have "r \<in> set (of_owner owner rows)" using Cons by simp
  then have "r \<in> set rows" "ob_owner_id r = owner" by (auto simp: of_owner_def)
  with latest_seq_ge [of r rows owner] feed_pos [OF ok, of r] show ?thesis by simp
qed (simp add: latest_seq_def)

lemma report_feed_ok:
  assumes "feed_ok rows"
  shows "feed_ok (report_to s p rows)"
proof -
  have new: "ob_seq q0 < ob_seq (next_row s p rows)" if "q0 \<in> set rows" "ob_owner_id q0 = rt_owner p" for q0
    using latest_seq_ge [OF that] by simp
  have "0 < ob_seq q" if "q \<in> set (report_to s p rows)" for q
    using report_origin [OF that] feed_pos [OF assms] latest_seq_nonneg [OF assms, of "rt_owner p"] by auto
  moreover have "ob_target q = ob_target r"
    if "r \<in> set (report_to s p rows)" "q \<in> set (report_to s p rows)"
      "ob_owner_id q = ob_owner_id r" "ob_seq q = ob_seq r" for q r
    using report_origin [OF that(1)] report_origin [OF that(2)]
  proof (elim disjE bexE conjE)
    fix q0 r0
    assume "q0 \<in> set rows" "r0 \<in> set rows" and eqs: "ob_owner_id r = ob_owner_id r0" "ob_target r = ob_target r0"
      "ob_seq r = ob_seq r0" "ob_owner_id q = ob_owner_id q0" "ob_target q = ob_target q0" "ob_seq q = ob_seq q0"
    with feed_unique [OF assms, of r0 q0] that(3,4) show ?thesis by simp
  qed (use that(3,4) in \<open>auto dest: new\<close>)
  moreover have "distinct (map observation_key (report_to s p rows))"
    using assms by (intro report_distinct) (simp add: feed_ok_def)
  ultimately show ?thesis unfolding feed_ok_def by blast
qed

lemma reports_feed_ok: "feed_ok rows \<Longrightarrow> feed_ok (report_all s ps rows)"
  by (induction ps arbitrary: rows) (auto intro: report_feed_ok)

text \<open>
  When the target with an Owner's latest number is forgotten, the number is given out again:
  the next report, of whatever target, is stored, but a reader who had read up to the latest
  number is not told of it.
\<close>

theorem forgetting_hides_next_change:
  assumes "rows = report_all s ps []" "r \<in> set rows" "ob_owner_id r = owner"
    and "ob_seq r = latest_seq owner rows" "rt_owner p = owner"
  shows "fact owner (rt_target p) (report_to s p (forget_observations owner [ob_target r] rows))
      = Some (rt_reachable p, state_text s (rt_state p))
    \<and> rows_after owner (latest_seq owner rows) (report_to s p (forget_observations owner [ob_target r] rows)) = []"
proof -
  let ?kept = "forget_observations owner [ob_target r] rows" and ?n = "latest_seq owner rows"
  have ok: "feed_ok rows" unfolding assms(1) by (rule reports_feed_ok) (simp add: feed_ok_def)
  have "ob_seq q < ?n" if "q \<in> set ?kept" "ob_owner_id q = owner" for q
  proof -
    from that have q: "q \<in> set rows" "ob_target q \<noteq> ob_target r" by (auto simp: forget_observations_def)
    with latest_seq_ge [OF q(1) that(2)] feed_unique [OF ok assms(2) q(1)] that(2) assms(3,4) show ?thesis
      by fastforce
  qed
  then have below: "ob_seq q \<le> ?n - 1" if "q \<in> set ?kept" "ob_owner_id q = owner" for q
    using that by fastforce
  have "0 < ?n" using feed_pos [OF ok assms(2)] assms(4) by simp
  then have "latest_seq owner ?kept \<le> ?n - 1" using below by (intro latest_seq_bound) auto
  then have "ob_seq q \<le> ?n" if "q \<in> set (report_to s p ?kept)" "ob_owner_id q = owner" for q
    using report_origin [OF that(1)]
  proof (elim disjE bexE conjE)
    fix q0
    assume "q0 \<in> set ?kept" "ob_owner_id q = ob_owner_id q0" "ob_seq q = ob_seq q0"
    with below [of q0] that(2) show ?thesis by simp
  qed (use \<open>latest_seq owner ?kept \<le> ?n - 1\<close> assms(5) in simp)
  then have "\<not> ?n < ob_seq q" if "q \<in> set (report_to s p ?kept)" "ob_owner_id q = owner" for q
    using that by (simp add: not_less)
  then have "set (rows_after owner ?n (report_to s p ?kept)) = {}"
    unfolding rows_after_def of_owner_def set_order_by set_filter by blast
  then have "rows_after owner ?n (report_to s p ?kept) = []" by simp
  moreover have "fact owner (rt_target p) (report_to s p ?kept) = Some (rt_reachable p, state_text s (rt_state p))"
    using report_fact [of p s ?kept] by (simp add: assms(5))
  ultimately show ?thesis by simp
qed

lemma forgetting_hides_next_change_witness:
  "fact ''u'' ''lamp'' (report_to small_sdk lamp_gone
      (forget_observations ''u'' [''lamp''] (report_all small_sdk [lamp_on] []))) = Some (False, None)
   \<and> rows_after ''u'' (latest_seq ''u'' (report_all small_sdk [lamp_on] [])) (report_to small_sdk lamp_gone
      (forget_observations ''u'' [''lamp''] (report_all small_sdk [lamp_on] []))) = []"
proof -
  let ?r = "next_row small_sdk lamp_on []"
  have "report_all small_sdk [lamp_on] [] = [?r]" "ob_owner_id ?r = ''u''" "ob_target ?r = ''lamp''" "ob_seq ?r = 1"
      "latest_seq ''u'' [?r] = 1" "rt_owner lamp_gone = ''u''" "rt_target lamp_gone = ''lamp''"
      "rt_reachable lamp_gone = False" "rt_state lamp_gone = None"
    by (simp_all add: report_to_def put_observation_def next_row_def lamp_on_def lamp_gone_def latest_seq_def
        of_owner_def)
  with forgetting_hides_next_change [of "[?r]" small_sdk "[lamp_on]" ?r "''u''" lamp_gone] show ?thesis
    by (simp add: state_text_def)
qed

end
