(* ===== verification/Home_Importer.thy ===== *)
theory Home_Importer
  imports Home_Runtime
begin

text \<open>
  Discovery into the registry (\<open>RegistryImporter\<close> of \<open>hub/smarthome/importer.py\<close>).  System Data
  writes the registry; its API is a parameter whose calls take and leave a state of its own.
  Text is a list of characters, so a name is clipped by characters; the name of a nameless
  device and the SDK's limits are parameters.
\<close>

section \<open>The writer\<close>

record discovered =
  dd_external_ref :: string
  dd_name :: string
  dd_type :: string
  dd_traits :: json
  dd_limits :: json
  dd_area_name :: "string option"
  dd_reachable :: bool

type_synonym ('w, 'a) effect = "'w \<Rightarrow> 'w \<times> (exn + 'a)"

record 'w registry_writer =
  rw_get :: "('w, registry) effect"
  rw_create_area :: "area \<Rightarrow> int \<Rightarrow> ('w, registry) effect"
  rw_create_device :: "home_device \<Rightarrow> int \<Rightarrow> ('w, registry) effect"
  rw_update_device :: "home_device \<Rightarrow> int \<Rightarrow> ('w, registry) effect"

definition follow :: "('w, 'a) effect \<Rightarrow> ('a \<Rightarrow> ('w, 'b) effect) \<Rightarrow> ('w, 'b) effect" where
  "follow m k w = (case m w of (w1, Inl e) \<Rightarrow> (w1, Inl e) | (w1, Inr a) \<Rightarrow> k a w1)"

definition answer :: "exn + 'a \<Rightarrow> ('w, 'a) effect" where
  "answer a w = (w, a)"

record sync_limits =
  sl_max_areas :: nat
  sl_max_devices :: nat
  sl_unnamed :: string

record sync_report =
  sr_added :: "string list"
  sr_updated :: "string list"
  sr_orphaned :: "string list"
  sr_skipped :: "(string \<times> string) list"
  sr_revision :: int

definition empty_report :: sync_report where
  "empty_report = \<lparr>sr_added = [], sr_updated = [], sr_orphaned = [], sr_skipped = [], sr_revision = 0\<rparr>"

definition skip_ref :: "string \<Rightarrow> string \<Rightarrow> sync_report \<Rightarrow> sync_report" where
  "skip_ref ref reason rep = rep\<lparr>sr_skipped := sr_skipped rep @ [(ref, reason)]\<rparr>"

section \<open>Names and identifiers\<close>

definition name_max :: nat where
  "name_max = 32"

text \<open>\<open>\s\<close> and \<open>str.strip\<close> of Python, on characters below 256.\<close>

definition is_space :: "char \<Rightarrow> bool" where
  "is_space c \<longleftrightarrow> c \<in> {CHR 0x09, CHR 0x0A, CHR 0x0B, CHR 0x0C, CHR 0x0D, CHR 0x1C, CHR 0x1D, CHR 0x1E, CHR 0x1F,
     CHR '' '', CHR 0x85, CHR 0xA0}"

fun collapse :: "(char \<Rightarrow> bool) \<Rightarrow> char \<Rightarrow> string \<Rightarrow> string" where
  "collapse p r [] = []"
| "collapse p r (c # cs) =
     (if \<not> p c then c # collapse p r cs
      else case cs of [] \<Rightarrow> [r] | d # _ \<Rightarrow> if p d then collapse p r cs else r # collapse p r cs)"

definition strip_by :: "(char \<Rightarrow> bool) \<Rightarrow> string \<Rightarrow> string" where
  "strip_by p s = List.rev (dropWhile p (List.rev (dropWhile p s)))"

definition clip_name :: "sync_limits \<Rightarrow> string \<Rightarrow> string" where
  "clip_name l name =
     (let cleaned = strip_by is_space (collapse is_space (CHR '' '') name)
      in take name_max (if cleaned = [] then sl_unnamed l else cleaned))"

definition taken_names :: "registry \<Rightarrow> string option \<Rightarrow> string option \<Rightarrow> string list" where
  "taken_names r area except = map hd_name (filter (\<lambda>d. hd_area_id d = area \<and> Some (hd_device_id d) \<noteq> except)
     (rg_devices r))"

definition numbered :: "string \<Rightarrow> nat \<Rightarrow> string" where
  "numbered name i = take (name_max - length (digits i)) name @ digits i"

definition unique_name :: "registry \<Rightarrow> string option \<Rightarrow> string \<Rightarrow> string option \<Rightarrow> exn + string" where
  "unique_name r area name except =
     (let taken = taken_names r area except
      in if name \<notin> set taken then Inr name
         else case find (\<lambda>c. c \<notin> set taken) (map (numbered name) [2..<100]) of
                Some c \<Rightarrow> Inr c
              | None \<Rightarrow> Inl (Value_error ''cannot find a unique device name''))"

definition alphanumeric :: string where
  "alphanumeric = ''0123456789ABCDEFGHIJKLMNOPQRSTUVWXYZabcdefghijklmnopqrstuvwxyz''"

definition ident_char :: "char \<Rightarrow> bool" where
  "ident_char c \<longleftrightarrow> c \<in> set (alphanumeric @ ''._:-'')"

definition import_device_id :: "string \<Rightarrow> string \<Rightarrow> string" where
  "import_device_id provider ref = take 128 (collapse (\<lambda>c. \<not> ident_char c) (CHR ''-'') (provider @ ''.'' @ ref))"

definition area_base :: "string \<Rightarrow> string" where
  "area_base name =
     (let b = strip_by (\<lambda>c. c = CHR ''-'') (collapse (\<lambda>c. \<not> ident_char c) (CHR ''-'') name);
          base = (if b = [] then ''area'' else b)
      in if hd base \<in> set alphanumeric then base else ''area-'' @ base)"

definition area_candidate :: "string \<Rightarrow> nat \<Rightarrow> string" where
  "area_candidate base i = base @ ''-'' @ digits i"

definition number_value :: "string \<Rightarrow> nat" where
  "number_value s = foldl (\<lambda>a c. 10 * a + (of_char c - 48)) 0 s"

lemma hex_digit_value: "n < 10 \<Longrightarrow> of_char (hex_digit n) = 48 + n"
proof -
  assume "n < 10"
  then have "n \<in> {0, 1, 2, 3, 4, 5, 6, 7, 8, 9}" by auto
  then show ?thesis by (auto simp: hex_digit_def)
qed

lemma number_value_digits: "number_value (digits n) = n"
proof (induction n rule: digits.induct)
  case (1 n)
  then show ?case
    by (subst digits.simps) (auto simp: number_value_def hex_digit_value)
qed

lemma digits_inject [simp]: "digits m = digits n \<longleftrightarrow> m = n"
  by (metis number_value_digits)

text \<open>The search ends, since only finitely many numbered candidates are areas.\<close>

function free_area_id :: "string list \<Rightarrow> string \<Rightarrow> nat \<Rightarrow> string" where
  "free_area_id ids base i =
     (if area_candidate base i \<in> set ids then free_area_id ids base (Suc i) else area_candidate base i)"
  by pat_completeness auto

lemma candidates_finite: "finite {m. area_candidate base m \<in> set ids}"
proof (rule finite_imageD)
  show "finite (area_candidate base ` {m. area_candidate base m \<in> set ids})"
    by (rule finite_subset [OF _ finite_set [of ids]]) auto
  show "inj_on (area_candidate base) {m. area_candidate base m \<in> set ids}"
    by (simp add: inj_on_def area_candidate_def)
qed

termination free_area_id
proof (relation "measure (\<lambda>(ids, base, i). card {m. i \<le> m \<and> area_candidate base m \<in> set ids})")
  fix ids base i
  assume found: "area_candidate base i \<in> set ids"
  have "{m. Suc i \<le> m \<and> area_candidate base m \<in> set ids} \<subset> {m. i \<le> m \<and> area_candidate base m \<in> set ids}"
  proof (rule psubsetI)
    have "i \<in> {m. i \<le> m \<and> area_candidate base m \<in> set ids}" using found by simp
    moreover have "i \<notin> {m. Suc i \<le> m \<and> area_candidate base m \<in> set ids}" by simp
    ultimately show "{m. Suc i \<le> m \<and> area_candidate base m \<in> set ids}
        \<noteq> {m. i \<le> m \<and> area_candidate base m \<in> set ids}" by blast
  qed auto
  then show "((ids, base, Suc i), ids, base, i)
      \<in> measure (\<lambda>(ids, base, i). card {m. i \<le> m \<and> area_candidate base m \<in> set ids})"
    by (simp add: psubset_card_mono candidates_finite)
qed simp

declare free_area_id.simps [simp del]

definition area_id_for :: "string \<Rightarrow> registry \<Rightarrow> string" where
  "area_id_for name r =
     (let base = area_base name; ids = map ar_area_id (rg_areas r)
      in take 128 (if base \<in> set ids then free_area_id ids base 2 else base))"

section \<open>One sync\<close>

definition ensure_area ::
  "'w registry_writer \<Rightarrow> sync_limits \<Rightarrow> string option \<Rightarrow> registry \<times> sync_report \<Rightarrow>
   ('w, (registry \<times> sync_report) \<times> string option) effect" where
  "ensure_area data l area_name st =
     (case (st, area_name) of
        ((r, rep), Some (c # cs)) \<Rightarrow>
          (let name = clip_name l (c # cs)
           in case find (\<lambda>a. ar_name a = name) (rg_areas r) of
                Some a \<Rightarrow> answer (Inr ((r, rep), Some (ar_area_id a)))
              | None \<Rightarrow>
                  if sl_max_areas l \<le> length (rg_areas r)
                  then answer (Inr ((r, skip_ref name ''AREA_LIMIT_EXCEEDED'' rep), None))
                  else (let a = \<lparr>ar_area_id = area_id_for name r, ar_name = name, ar_order = length (rg_areas r)\<rparr>
                        in follow (rw_create_area data a (rg_revision r)) (\<lambda>r1.
                           answer (Inr ((r1, rep), Some (ar_area_id a))))))
      | (st, _) \<Rightarrow> answer (Inr (st, None)))"

definition imported_as :: "string \<Rightarrow> string \<Rightarrow> home_device \<Rightarrow> bool" where
  "imported_as provider ref d \<longleftrightarrow> hd_provider d = provider \<and> hd_provider_ref d = Some ref"

definition facts_of :: "home_device \<Rightarrow> home_device" where
  "facts_of d = d\<lparr>hd_synced_at := None\<rparr>"

definition new_device ::
  "sync_limits \<Rightarrow> string \<Rightarrow> int \<Rightarrow> registry \<Rightarrow> string option \<Rightarrow> discovered \<Rightarrow> exn + home_device" where
  "new_device l provider now r area f =
     andthen (unique_name r area (clip_name l (dd_name f)) None) (\<lambda>name.
     Inr \<lparr>hd_device_id = import_device_id provider (dd_external_ref f), hd_name = name, hd_type = dd_type f,
          hd_area_id = area, hd_provider = provider, hd_provider_ref = Some (dd_external_ref f),
          hd_traits = dd_traits f, hd_limits = dd_limits f, hd_source = ''imported'', hd_synced_at = Some now,
          hd_orphaned = False, hd_overrides = []\<rparr>)"

definition proposed_device ::
  "sync_limits \<Rightarrow> int \<Rightarrow> registry \<Rightarrow> string option \<Rightarrow> discovered \<Rightarrow> home_device \<Rightarrow> exn + home_device" where
  "proposed_device l now r area f d =
     andthen (if ''name'' \<in> set (hd_overrides d) then Inr (hd_name d)
              else unique_name r area (clip_name l (dd_name f)) (Some (hd_device_id d))) (\<lambda>name.
     Inr (d\<lparr>hd_type := dd_type f, hd_traits := dd_traits f, hd_limits := dd_limits f, hd_synced_at := Some now,
            hd_orphaned := False, hd_source := ''imported'', hd_name := name,
            hd_area_id := (if ''area_id'' \<in> set (hd_overrides d) then hd_area_id d else area)\<rparr>))"

definition sync_one ::
  "'w registry_writer \<Rightarrow> sync_limits \<Rightarrow> string \<Rightarrow> int \<Rightarrow> discovered \<Rightarrow> registry \<times> sync_report \<Rightarrow>
   ('w, registry \<times> sync_report) effect" where
  "sync_one data l provider now f st =
     follow (ensure_area data l (dd_area_name f) st) (\<lambda>((r, rep), area).
     case find (imported_as provider (dd_external_ref f)) (rg_devices r) of
       None \<Rightarrow>
         if sl_max_devices l \<le> length (rg_devices r)
         then answer (Inr (r, skip_ref (dd_external_ref f) ''LIMIT_EXCEEDED'' rep))
         else follow (answer (new_device l provider now r area f)) (\<lambda>d.
              follow (rw_create_device data d (rg_revision r)) (\<lambda>r1.
              answer (Inr (r1, rep\<lparr>sr_added := sr_added rep @ [hd_device_id d]\<rparr>))))
     | Some d \<Rightarrow>
         follow (answer (proposed_device l now r area f d)) (\<lambda>p.
         if facts_of p \<noteq> facts_of d
         then follow (rw_update_device data p (rg_revision r)) (\<lambda>r1.
              answer (Inr (r1, rep\<lparr>sr_updated := sr_updated rep @ [hd_device_id d]\<rparr>)))
         else answer (Inr (r, rep))))"

fun sync_each ::
  "'w registry_writer \<Rightarrow> sync_limits \<Rightarrow> string \<Rightarrow> int \<Rightarrow> string list \<Rightarrow> discovered list \<Rightarrow> registry \<times> sync_report \<Rightarrow>
   ('w, registry \<times> sync_report) effect" where
  "sync_each data l provider now refs [] st = answer (Inr st)"
| "sync_each data l provider now refs (f # fs) st =
     (if dd_external_ref f \<in> set refs
      then sync_each data l provider now refs fs (fst st, skip_ref (dd_external_ref f) ''DUPLICATE_REF'' (snd st))
      else follow (sync_one data l provider now f st) (sync_each data l provider now (dd_external_ref f # refs) fs))"

text \<open>\<open>seen_refs\<close> holds references only, so a device without one is never among them.\<close>

definition gone_from :: "string \<Rightarrow> discovered list \<Rightarrow> home_device \<Rightarrow> bool" where
  "gone_from provider fs d \<longleftrightarrow> hd_provider d = provider
     \<and> hd_provider_ref d \<notin> Some ` set (map dd_external_ref fs)"

fun orphan_each ::
  "'w registry_writer \<Rightarrow> int \<Rightarrow> home_device list \<Rightarrow> registry \<times> sync_report \<Rightarrow> ('w, registry \<times> sync_report) effect" where
  "orphan_each data now [] st = answer (Inr st)"
| "orphan_each data now (d # ds) (r, rep) =
     follow (rw_update_device data (d\<lparr>hd_orphaned := True, hd_synced_at := Some now\<rparr>) (rg_revision r)) (\<lambda>r1.
     orphan_each data now ds (r1, rep\<lparr>sr_orphaned := sr_orphaned rep @ [hd_device_id d]\<rparr>))"

definition sync_registry ::
  "'w registry_writer \<Rightarrow> sync_limits \<Rightarrow> string \<Rightarrow> int \<Rightarrow> discovered list \<Rightarrow> ('w, sync_report) effect" where
  "sync_registry data l provider now fs =
     follow (rw_get data) (\<lambda>r.
     follow (sync_each data l provider now [] fs (r, empty_report)) (\<lambda>(r1, rep).
     follow (orphan_each data now (filter (\<lambda>d. gone_from provider fs d \<and> \<not> hd_orphaned d) (rg_devices r1)) (r1, rep))
       (\<lambda>(r2, rep2). answer (Inr (rep2\<lparr>sr_revision := rg_revision r2\<rparr>)))))"

end
