(* ===== verification/Importer_Properties.thy ===== *)
theory Importer_Properties
  imports Home_Importer Home_Scenario
begin

text \<open>What a sync leaves in the registry, given that System Data's API does what it documents.\<close>

section \<open>System Data\<close>

text \<open>
  \<open>cur\<close> reads the registry off the API's state.  A call that succeeds answers the registry as it
  then is; an area or a device is added at the end, a device of a new identifier only, and an
  update replaces the device of that identifier.  Any call may fail.
\<close>

definition data_serves :: "'w registry_writer \<Rightarrow> ('w \<Rightarrow> registry) \<Rightarrow> bool" where
  "data_serves data cur \<longleftrightarrow>
     (\<forall>w w' r. rw_get data w = (w', Inr r) \<longrightarrow> r = cur w' \<and> cur w' = cur w)
   \<and> (\<forall>a v w w' r. rw_create_area data a v w = (w', Inr r) \<longrightarrow> r = cur w' \<and> rg_devices r = rg_devices (cur w))
   \<and> (\<forall>d v w w' r. rw_create_device data d v w = (w', Inr r) \<longrightarrow> r = cur w'
        \<and> rg_devices r = rg_devices (cur w) @ [d] \<and> hd_device_id d \<notin> hd_device_id ` set (rg_devices (cur w)))
   \<and> (\<forall>d v w w' r. rw_update_device data d v w = (w', Inr r) \<longrightarrow> r = cur w'
        \<and> rg_devices r = map (\<lambda>x. if hd_device_id x = hd_device_id d then d else x) (rg_devices (cur w)))"

lemma follow_InrE:
  assumes "follow m k w = (w', Inr b)"
  obtains w1 a where "m w = (w1, Inr a)" "k a w1 = (w', Inr b)"
  using assms by (auto simp: follow_def split: prod.splits sum.splits)

lemma answer_Inr [simp]: "answer a w = (w', Inr b) \<longleftrightarrow> w' = w \<and> a = Inr b"
  by (auto simp: answer_def)

section \<open>What a device keeps\<close>

definition keeps :: "home_device \<Rightarrow> home_device \<Rightarrow> bool" where
  "keeps d0 d \<longleftrightarrow> hd_device_id d = hd_device_id d0 \<and> hd_provider d = hd_provider d0
     \<and> hd_provider_ref d = hd_provider_ref d0 \<and> hd_overrides d = hd_overrides d0
     \<and> (''name'' \<in> set (hd_overrides d0) \<longrightarrow> hd_name d = hd_name d0)
     \<and> (''area_id'' \<in> set (hd_overrides d0) \<longrightarrow> hd_area_id d = hd_area_id d0)"

lemma keeps_refl [simp, intro]: "keeps d d"
  by (simp add: keeps_def)

lemma keeps_trans: "keeps a b \<Longrightarrow> keeps b c \<Longrightarrow> keeps a c"
  by (auto simp: keeps_def)

lemma proposed_keeps: "proposed_device l now r area f d = Inr p \<Longrightarrow> keeps d p"
  by (auto simp: proposed_device_def keeps_def andthen_ok split: if_splits)

text \<open>A listed device is as it was discovered.\<close>

definition as_listed :: "discovered list \<Rightarrow> home_device \<Rightarrow> bool" where
  "as_listed fs d \<longleftrightarrow> \<not> hd_orphaned d
     \<and> (\<exists>f\<in>set fs. hd_provider_ref d = Some (dd_external_ref f) \<and> hd_type d = dd_type f
          \<and> hd_traits d = dd_traits f \<and> hd_limits d = dd_limits f)"

lemma proposed_as_listed:
  "proposed_device l now r area f d = Inr p \<Longrightarrow> imported_as provider (dd_external_ref f) d \<Longrightarrow> f \<in> set fs \<Longrightarrow>
   as_listed fs p"
  by (auto simp: proposed_device_def as_listed_def imported_as_def andthen_ok split: if_splits)

lemma facts_as_listed: "facts_of p = facts_of d \<Longrightarrow> as_listed fs p \<Longrightarrow> as_listed fs d"
proof -
  assume "facts_of p = facts_of d"
  then have "hd_orphaned p = hd_orphaned d" "hd_provider_ref p = hd_provider_ref d" "hd_type p = hd_type d"
      "hd_traits p = hd_traits d" "hd_limits p = hd_limits d"
    by (cases p; cases d; simp add: facts_of_def)+
  then show "as_listed fs p \<Longrightarrow> as_listed fs d" by (simp add: as_listed_def)
qed

section \<open>The invariant of the walk over what was discovered\<close>

definition synced ::
  "string \<Rightarrow> home_device list \<Rightarrow> discovered list \<Rightarrow> string list \<Rightarrow> registry \<times> sync_report \<Rightarrow> bool" where
  "synced provider devs0 fs refs st \<longleftrightarrow>
     (let devs = rg_devices (fst st); own = (\<lambda>d. hd_provider d = provider) in
      distinct (map hd_device_id devs) \<and> distinct (map hd_provider_ref (filter own devs))
      \<and> filter (\<lambda>d. hd_provider d \<noteq> provider) devs = filter (\<lambda>d. hd_provider d \<noteq> provider) devs0
      \<and> (\<forall>d\<in>set devs. own d \<and> hd_provider_ref d \<in> Some ` set refs \<longrightarrow> as_listed fs d)
      \<and> (\<forall>ref\<in>set refs. (\<exists>d\<in>set devs. imported_as provider ref d)
            \<or> (ref, ''LIMIT_EXCEEDED'') \<in> set (sr_skipped (snd st)))
      \<and> (\<forall>d0\<in>set devs0. \<exists>d\<in>set devs. keeps d0 d))"

text \<open>With distinct identifiers an update is the replacement of one device.\<close>

lemma replace_one:
  assumes "distinct (map hd_device_id devs)" "d \<in> set devs" "hd_device_id p = hd_device_id d"
  shows "map (\<lambda>x. if hd_device_id x = hd_device_id p then p else x) devs = map (\<lambda>x. if x = d then p else x) devs"
  using assms by (auto simp: dest: distinct_key_eq)

lemma replace_filter:
  "P d = P p \<Longrightarrow> filter P (map (\<lambda>x. if x = d then p else x) devs) = map (\<lambda>x. if x = d then p else x) (filter P devs)"
  by (induction devs) auto

lemma replace_map: "g p = g d \<Longrightarrow> map g (map (\<lambda>x. if x = d then p else x) devs) = map g devs"
  by (induction devs) auto

lemma replace_none: "d \<notin> set devs \<Longrightarrow> map (\<lambda>x. if x = d then p else x) devs = devs"
  by (induction devs) auto

lemma synced_devices:
  "synced provider devs0 fs refs (r, rep) \<Longrightarrow> rg_devices r1 = rg_devices r \<Longrightarrow> set (sr_skipped rep) \<subseteq> set (sr_skipped rep1) \<Longrightarrow>
   synced provider devs0 fs refs (r1, rep1)"
  unfolding synced_def Let_def by auto

lemma synced_replace:
  assumes s: "synced provider devs0 fs refs (r, rep)" and d: "d \<in> set (rg_devices r)" "hd_provider d = provider"
    and p: "keeps d p" "hd_provider_ref d \<in> Some ` set refs \<Longrightarrow> as_listed fs p"
    and r1: "rg_devices r1 = map (\<lambda>x. if x = d then p else x) (rg_devices r)"
    and rep: "sr_skipped rep1 = sr_skipped rep"
  shows "synced provider devs0 fs refs (r1, rep1)"
proof -
  have p': "hd_device_id p = hd_device_id d" "hd_provider p = provider" "hd_provider_ref p = hd_provider_ref d"
    using p(1) d(2) by (simp_all add: keeps_def)
  have other: "filter (\<lambda>d. hd_provider d \<noteq> provider) (rg_devices r1) = filter (\<lambda>d. hd_provider d \<noteq> provider) (rg_devices r)"
    unfolding r1 using d(2) p'(2) by (subst replace_filter) (auto intro!: replace_none)
  have own: "map hd_provider_ref (filter (\<lambda>d. hd_provider d = provider) (rg_devices r1))
      = map hd_provider_ref (filter (\<lambda>d. hd_provider d = provider) (rg_devices r))"
    unfolding r1 using d(2) p' by (subst replace_filter) (auto intro!: replace_map)
  have ids: "map hd_device_id (rg_devices r1) = map hd_device_id (rg_devices r)"
    unfolding r1 using p'(1) by (rule replace_map)
  have listed: "as_listed fs x" if "x \<in> set (rg_devices r1)" "hd_provider x = provider"
      "hd_provider_ref x \<in> Some ` set refs" for x
  proof (cases "x = p")
    case True
    with that p(2) p'(3) show ?thesis by simp
  next
    case False
    with that s show ?thesis by (auto simp: synced_def Let_def r1 split: if_splits)
  qed
  have refs: "\<exists>x\<in>set (rg_devices r1). imported_as provider ref x" if "x \<in> set (rg_devices r)" "imported_as provider ref x"
    for ref x
    using that p' d by (cases "x = d") (auto simp: r1 imported_as_def)
  have kept: "\<exists>x\<in>set (rg_devices r1). keeps d0 x" if "x \<in> set (rg_devices r)" "keeps d0 x" for d0 x
    using that p(1) keeps_trans by (cases "x = d") (force simp: r1)+
  note s' = s [unfolded synced_def Let_def fst_conv snd_conv]
  show ?thesis
    unfolding synced_def Let_def fst_conv snd_conv other own ids rep
  proof (intro conjI ballI impI)
    show "as_listed fs x" if "x \<in> set (rg_devices r1)"
        "hd_provider x = provider \<and> hd_provider_ref x \<in> Some ` set refs" for x
      using listed that by blast
    show "(\<exists>d\<in>set (rg_devices r1). imported_as provider ref d) \<or> (ref, ''LIMIT_EXCEEDED'') \<in> set (sr_skipped rep)"
      if "ref \<in> set refs" for ref using s' refs that by blast
    show "\<exists>d\<in>set (rg_devices r1). keeps d0 d" if "d0 \<in> set devs0" for d0 using s' kept that by blast
  qed (use s' in blast)+
qed

lemma synced_add:
  assumes s: "synced provider devs0 fs refs (r, rep)"
    and new: "hd_device_id p \<notin> hd_device_id ` set (rg_devices r)" "imported_as provider ref p" "as_listed fs p"
    and fresh: "find (imported_as provider ref) (rg_devices r) = None"
    and r1: "rg_devices r1 = rg_devices r @ [p]" and rep: "sr_skipped rep1 = sr_skipped rep"
  shows "synced provider devs0 fs refs (r1, rep1)"
proof -
  have p: "hd_provider p = provider" "hd_provider_ref p = Some ref" using new(2) by (simp_all add: imported_as_def)
  have unseen: "Some ref \<notin> hd_provider_ref ` {d \<in> set (rg_devices r). hd_provider d = provider}"
    using fresh by (auto simp: find_None_iff imported_as_def)
  note s' = s [unfolded synced_def Let_def fst_conv snd_conv]
  show ?thesis
    unfolding synced_def Let_def fst_conv snd_conv rep r1
  proof (intro conjI ballI impI)
    show "distinct (map hd_provider_ref (filter (\<lambda>d. hd_provider d = provider) (rg_devices r @ [p])))"
      using s' p unseen by simp
    show "filter (\<lambda>d. hd_provider d \<noteq> provider) (rg_devices r @ [p]) = filter (\<lambda>d. hd_provider d \<noteq> provider) devs0"
      using s' p(1) by simp
    show "as_listed fs d" if "d \<in> set (rg_devices r @ [p])" "hd_provider d = provider \<and> hd_provider_ref d \<in> Some ` set refs" for d
      using s' new(3) that by auto
  qed (use s' new(1) in auto)
qed

text \<open>One more reference: the device of it agrees, or the limit kept it out.\<close>

lemma synced_ref:
  assumes s: "synced provider devs0 fs refs (r, rep)"
    and here: "(\<exists>d\<in>set (rg_devices r). imported_as provider ref d \<and> as_listed fs d)
      \<or> (find (imported_as provider ref) (rg_devices r) = None \<and> (ref, ''LIMIT_EXCEEDED'') \<in> set (sr_skipped rep))"
  shows "synced provider devs0 fs (ref # refs) (r, rep)"
proof -
  have unique: "d = e" if "d \<in> set (rg_devices r)" "e \<in> set (rg_devices r)" "imported_as provider ref d"
      "imported_as provider ref e" for d e
    using s that distinct_key_eq [of hd_provider_ref "filter (\<lambda>d. hd_provider d = provider) (rg_devices r)" d e]
    by (simp add: synced_def Let_def imported_as_def)
  have "as_listed fs d" if "d \<in> set (rg_devices r)" "hd_provider d = provider" "hd_provider_ref d = Some ref" for d
    using here unique that by (auto simp: imported_as_def find_None_iff)
  with s here show ?thesis unfolding synced_def Let_def fst_conv snd_conv by auto
qed

lemma ensure_area_synced:
  assumes "ensure_area data l name (r, rep) w = (w1, Inr ((r1, rep1), area))" "data_serves data cur" "r = cur w"
    and "synced provider devs0 fs refs (r, rep)"
  shows "r1 = cur w1" "synced provider devs0 fs refs (r1, rep1)"
proof -
  have "r1 = cur w1 \<and> rg_devices r1 = rg_devices r \<and> set (sr_skipped rep) \<subseteq> set (sr_skipped rep1)"
    using assms(1-3)
    by (auto simp: ensure_area_def Let_def skip_ref_def data_serves_def
        split: option.splits list.splits if_splits elim!: follow_InrE)
  then show "r1 = cur w1" "synced provider devs0 fs refs (r1, rep1)"
    using synced_devices [OF assms(4)] by blast+
qed

lemma sync_one_synced:
  assumes one: "sync_one data l provider now f (r, rep) w = (w', Inr (r', rep'))"
    and serves: "data_serves data cur" and r: "r = cur w"
    and s: "synced provider devs0 fs refs (r, rep)" and f: "f \<in> set fs" "dd_external_ref f \<notin> set refs"
  shows "r' = cur w' \<and> synced provider devs0 fs (dd_external_ref f # refs) (r', rep')"
proof -
  let ?ref = "dd_external_ref f"
  from one obtain w1 r1 rep1 area where area: "ensure_area data l (dd_area_name f) (r, rep) w = (w1, Inr ((r1, rep1), area))"
    and rest: "(case find (imported_as provider ?ref) (rg_devices r1) of
       None \<Rightarrow>
         if sl_max_devices l \<le> length (rg_devices r1)
         then answer (Inr (r1, skip_ref ?ref ''LIMIT_EXCEEDED'' rep1))
         else follow (answer (new_device l provider now r1 area f)) (\<lambda>d.
              follow (rw_create_device data d (rg_revision r1)) (\<lambda>r1.
              answer (Inr (r1, rep1\<lparr>sr_added := sr_added rep1 @ [hd_device_id d]\<rparr>))))
     | Some d \<Rightarrow>
         follow (answer (proposed_device l now r1 area f d)) (\<lambda>p.
         if facts_of p \<noteq> facts_of d
         then follow (rw_update_device data p (rg_revision r1)) (\<lambda>r1.
              answer (Inr (r1, rep1\<lparr>sr_updated := sr_updated rep1 @ [hd_device_id d]\<rparr>)))
         else answer (Inr (r1, rep1)))) w1 = (w', Inr (r', rep'))"
    by (auto simp: sync_one_def elim!: follow_InrE)
  note r1 = ensure_area_synced [OF area serves r s]
  show ?thesis
  proof (cases "find (imported_as provider ?ref) (rg_devices r1)")
    case None
    show ?thesis
    proof (cases "sl_max_devices l \<le> length (rg_devices r1)")
      case True
      with rest None have "w' = w1" "r' = r1" "rep' = skip_ref ?ref ''LIMIT_EXCEEDED'' rep1" by auto
      with None r1 synced_ref [OF synced_devices [OF r1(2) refl], of rep' ?ref] show ?thesis
        by (auto simp: skip_ref_def)
    next
      case False
      with rest None obtain d where d: "new_device l provider now r1 area f = Inr d"
        and c: "rw_create_device data d (rg_revision r1) w1 = (w', Inr r')"
        and rep': "sr_skipped rep' = sr_skipped rep1"
        by (auto elim!: follow_InrE)
      have dev: "r' = cur w'" "rg_devices r' = rg_devices r1 @ [d]" "hd_device_id d \<notin> hd_device_id ` set (rg_devices r1)"
        using serves c r1(1) unfolding data_serves_def by blast+
      have new: "imported_as provider ?ref d" "as_listed fs d"
        using d f(1) by (auto simp: new_device_def imported_as_def as_listed_def andthen_ok)
      from synced_ref [OF synced_add [OF r1(2) dev(3) new None dev(2) rep'], of ?ref] new dev(1,2) show ?thesis
        by auto
    qed
  next
    case (Some d)
    then have d: "d \<in> set (rg_devices r1)" "imported_as provider ?ref d" by (auto simp: find_Some_iff)
    from rest Some obtain p where p: "proposed_device l now r1 area f d = Inr p"
      and u: "(if facts_of p \<noteq> facts_of d
         then follow (rw_update_device data p (rg_revision r1)) (\<lambda>r1.
              answer (Inr (r1, rep1\<lparr>sr_updated := sr_updated rep1 @ [hd_device_id d]\<rparr>)))
         else answer (Inr (r1, rep1))) w1 = (w', Inr (r', rep'))"
      by (auto elim!: follow_InrE)
    note kept = proposed_keeps [OF p] and listed = proposed_as_listed [OF p d(2) f(1)]
    show ?thesis
    proof (cases "facts_of p = facts_of d")
      case True
      with u have "w' = w1" "r' = r1" "rep' = rep1" by auto
      with synced_ref [OF r1(2), of ?ref] d facts_as_listed [OF True listed] r1(1) show ?thesis by auto
    next
      case False
      with u obtain c: "rw_update_device data p (rg_revision r1) w1 = (w', Inr r')" and rep': "sr_skipped rep' = sr_skipped rep1"
        by (auto elim!: follow_InrE)
      have id: "hd_device_id p = hd_device_id d" using kept by (simp add: keeps_def)
      have "r' = cur w'" "rg_devices r' = map (\<lambda>x. if hd_device_id x = hd_device_id p then p else x) (rg_devices r1)"
        using serves c r1(1) unfolding data_serves_def by blast+
      moreover have "distinct (map hd_device_id (rg_devices r1))" using r1(2) by (simp add: synced_def Let_def)
      ultimately have dev: "r' = cur w'" "rg_devices r' = map (\<lambda>x. if x = d then p else x) (rg_devices r1)"
        using replace_one [OF _ d(1) id] by simp_all
      have "synced provider devs0 fs refs (r', rep')"
        by (rule synced_replace [OF r1(2) d(1) _ kept _ dev(2) rep']) (use d(2) listed in \<open>auto simp: imported_as_def\<close>)
      moreover have "p \<in> set (rg_devices r')" "imported_as provider ?ref p"
        using d kept by (auto simp: dev(2) keeps_def imported_as_def)
      ultimately show ?thesis using synced_ref [of provider devs0 fs refs r' rep' ?ref] listed dev(1) by auto
    qed
  qed
qed

lemma synced_set:
  "set refs = set refs' \<Longrightarrow> synced provider devs0 fs refs st \<longleftrightarrow> synced provider devs0 fs refs' st"
  unfolding synced_def by simp

lemma sync_each_synced:
  assumes "sync_each data l provider now refs fs1 (r, rep) w = (w', Inr (r', rep'))" "data_serves data cur" "r = cur w"
    and "synced provider devs0 fs refs (r, rep)" "set fs1 \<subseteq> set fs"
  shows "r' = cur w' \<and> synced provider devs0 fs (map dd_external_ref fs1 @ refs) (r', rep')"
  using assms(1,3-)
proof (induction fs1 arbitrary: refs r rep w)
  case (Cons f fs1)
  show ?case
  proof (cases "dd_external_ref f \<in> set refs")
    case True
    have "synced provider devs0 fs refs (r, skip_ref (dd_external_ref f) ''DUPLICATE_REF'' rep)"
      by (rule synced_devices [OF Cons.prems(3) refl]) (auto simp: skip_ref_def)
    with Cons.IH [of refs r "skip_ref (dd_external_ref f) ''DUPLICATE_REF'' rep" w] Cons.prems True
    have "r' = cur w' \<and> synced provider devs0 fs (map dd_external_ref fs1 @ refs) (r', rep')" by auto
    with synced_set [of "map dd_external_ref fs1 @ refs" "map dd_external_ref (f # fs1) @ refs"] True
    show ?thesis by (auto simp: insert_absorb)
  next
    case False
    with Cons.prems(1) obtain w1 r1 rep1 where
      one: "sync_one data l provider now f (r, rep) w = (w1, Inr (r1, rep1))" and
      rest: "sync_each data l provider now (dd_external_ref f # refs) fs1 (r1, rep1) w1 = (w', Inr (r', rep'))"
      by (auto elim!: follow_InrE)
    have f: "f \<in> set fs" using Cons.prems(4) by simp
    note stepped = sync_one_synced [OF one assms(2) Cons.prems(2,3) f False]
    have "r' = cur w' \<and> synced provider devs0 fs (map dd_external_ref fs1 @ dd_external_ref f # refs) (r', rep')"
      by (rule Cons.IH [OF rest conjunct1 [OF stepped] conjunct2 [OF stepped]]) (use Cons.prems(4) in simp)
    with synced_set [of "map dd_external_ref fs1 @ dd_external_ref f # refs" "map dd_external_ref (f # fs1) @ refs"]
    show ?thesis by auto
  qed
qed simp

section \<open>The devices that are gone\<close>

lemma orphan_each_synced:
  assumes "orphan_each data now ds (r, rep) w = (w', Inr (r', rep'))" "data_serves data cur" "r = cur w"
    and "synced provider devs0 fs (map dd_external_ref fs) (r, rep)"
    and "distinct ds" "set ds \<subseteq> set (rg_devices r)"
    and "\<And>d. d \<in> set ds \<Longrightarrow> gone_from provider fs d"
    and "\<And>d. d \<in> set (rg_devices r) \<Longrightarrow> gone_from provider fs d \<Longrightarrow> \<not> hd_orphaned d \<Longrightarrow> d \<in> set ds"
  shows "r' = cur w' \<and> synced provider devs0 fs (map dd_external_ref fs) (r', rep')
    \<and> (\<forall>d\<in>set (rg_devices r'). gone_from provider fs d \<longrightarrow> hd_orphaned d)"
  using assms(1,3-)
proof (induction ds arbitrary: r rep w)
  case Nil
  then show ?case by auto
next
  case (Cons d ds)
  let ?p = "d\<lparr>hd_orphaned := True, hd_synced_at := Some now\<rparr>" and ?rep1 = "rep\<lparr>sr_orphaned := sr_orphaned rep @ [hd_device_id d]\<rparr>"
  from Cons.prems(1) obtain w1 r1 where u: "rw_update_device data ?p (rg_revision r) w = (w1, Inr r1)"
    and rest: "orphan_each data now ds (r1, ?rep1) w1 = (w', Inr (r', rep'))" by (auto elim!: follow_InrE)
  have d: "d \<in> set (rg_devices r)" "gone_from provider fs d" using Cons.prems(5,6) by auto
  have "r1 = cur w1" "rg_devices r1 = map (\<lambda>x. if hd_device_id x = hd_device_id ?p then ?p else x) (rg_devices r)"
    using assms(2) u Cons.prems(2) unfolding data_serves_def by blast+
  moreover have "distinct (map hd_device_id (rg_devices r))" using Cons.prems(3) by (simp add: synced_def Let_def)
  ultimately have dev: "r1 = cur w1" "rg_devices r1 = map (\<lambda>x. if x = d then ?p else x) (rg_devices r)"
    using replace_one [OF _ d(1), of ?p] by simp_all
  show ?case
  proof (rule Cons.IH [OF rest dev(1)])
    show "synced provider devs0 fs (map dd_external_ref fs) (r1, ?rep1)"
      by (rule synced_replace [OF Cons.prems(3) d(1) _ _ _ dev(2)])
        (use d(2) in \<open>auto simp: gone_from_def keeps_def\<close>)
    show "set ds \<subseteq> set (rg_devices r1)" using Cons.prems(4,5) by (force simp: dev(2))
    show "x \<in> set ds" if "x \<in> set (rg_devices r1)" "gone_from provider fs x" "\<not> hd_orphaned x" for x
      using that Cons.prems(7) by (auto simp: dev(2) split: if_splits)
  qed (use Cons.prems(4,6) in auto)
qed

text \<open>
  C26: A sync that succeeds makes the registry agree with what the Provider's account lists.  Each
  listed reference has its device, unless the device limit kept it out; a device of the account
  is orphaned if and only if its reference is not listed, and a listed one has the type, traits
  and limits of an entry with its reference.  Devices of other accounts are untouched.  No device
  is lost: each keeps its identifier, reference and overrides, and with an override its name or
  its area.
\<close>

theorem sync_agrees_with_discovery:
  assumes "sync_registry data l provider now fs w = (w', Inr rep)" "data_serves data cur"
    and "distinct (map hd_device_id (rg_devices (cur w)))"
    and "distinct (map hd_provider_ref (filter (\<lambda>d. hd_provider d = provider) (rg_devices (cur w))))"
  shows "(\<forall>f\<in>set fs. (\<exists>d\<in>set (rg_devices (cur w')). imported_as provider (dd_external_ref f) d)
      \<or> (dd_external_ref f, ''LIMIT_EXCEEDED'') \<in> set (sr_skipped rep))
    \<and> (\<forall>d\<in>set (rg_devices (cur w')). hd_provider d = provider \<longrightarrow>
         (hd_orphaned d \<longleftrightarrow> hd_provider_ref d \<notin> Some ` dd_external_ref ` set fs) \<and> (hd_orphaned d \<or> as_listed fs d))
    \<and> filter (\<lambda>d. hd_provider d \<noteq> provider) (rg_devices (cur w'))
        = filter (\<lambda>d. hd_provider d \<noteq> provider) (rg_devices (cur w))
    \<and> (\<forall>d0\<in>set (rg_devices (cur w)). \<exists>d\<in>set (rg_devices (cur w')). keeps d0 d)"
proof -
  from assms(1) obtain w0 r0 w1 r1 rep1 r2 rep2 where
    start: "rw_get data w = (w0, Inr r0)" and
    each: "sync_each data l provider now [] fs (r0, empty_report) w0 = (w1, Inr (r1, rep1))" and
    orphan: "orphan_each data now (filter (\<lambda>d. gone_from provider fs d \<and> \<not> hd_orphaned d) (rg_devices r1)) (r1, rep1) w1
      = (w', Inr (r2, rep2))" and
    rep: "rep = rep2\<lparr>sr_revision := rg_revision r2\<rparr>"
    by (auto simp: sync_registry_def elim!: follow_InrE)
  have r0: "r0 = cur w0" "cur w0 = cur w" using assms(2) start unfolding data_serves_def by blast+
  have "synced provider (rg_devices (cur w)) fs [] (r0, empty_report)"
    using assms(3,4) by (auto simp: synced_def Let_def r0)
  from sync_each_synced [OF each assms(2) r0(1) this subset_refl]
  have r1: "r1 = cur w1" "synced provider (rg_devices (cur w)) fs (map dd_external_ref fs) (r1, rep1)"
    unfolding append_Nil2 by blast+
  have "distinct (filter (\<lambda>d. gone_from provider fs d \<and> \<not> hd_orphaned d) (rg_devices r1))"
    using r1(2) by (simp add: synced_def Let_def distinct_map)
  then have "r2 = cur w' \<and> synced provider (rg_devices (cur w)) fs (map dd_external_ref fs) (r2, rep2)
      \<and> (\<forall>d\<in>set (rg_devices r2). gone_from provider fs d \<longrightarrow> hd_orphaned d)"
    by (rule orphan_each_synced [OF orphan assms(2) r1]) simp_all
  then have r2: "r2 = cur w'" "synced provider (rg_devices (cur w)) fs (map dd_external_ref fs) (r2, rep2)"
    and gone: "\<forall>d\<in>set (rg_devices r2). gone_from provider fs d \<longrightarrow> hd_orphaned d" by blast+
  note s = r2(2) [unfolded synced_def Let_def fst_conv snd_conv r2(1)]
  have "(hd_orphaned d \<longleftrightarrow> hd_provider_ref d \<notin> Some ` dd_external_ref ` set fs) \<and> (hd_orphaned d \<or> as_listed fs d)"
    if "d \<in> set (rg_devices (cur w'))" "hd_provider d = provider" for d
  proof (cases "hd_provider_ref d \<in> Some ` dd_external_ref ` set fs")
    case True
    with that s have "as_listed fs d" by simp
    with True show ?thesis by (simp add: as_listed_def)
  next
    case False
    with that gone show ?thesis by (simp add: r2(1) gone_from_def)
  qed
  moreover have "\<forall>f\<in>set fs. (\<exists>d\<in>set (rg_devices (cur w')). imported_as provider (dd_external_ref f) d)
      \<or> (dd_external_ref f, ''LIMIT_EXCEEDED'') \<in> set (sr_skipped rep)"
    using s by (simp add: rep)
  ultimately show ?thesis using s by blast
qed

text \<open>A registry as the state of the API; a lamp the Owner renamed is listed again, another is not.\<close>

definition small_data :: "registry registry_writer" where
  "small_data = \<lparr>rw_get = (\<lambda>w. (w, Inr w)),
     rw_create_area = (\<lambda>a v w. let r = w\<lparr>rg_areas := rg_areas w @ [a]\<rparr> in (r, Inr r)),
     rw_create_device = (\<lambda>d v w. if hd_device_id d \<in> hd_device_id ` set (rg_devices w) then (w, Inl (Value_error []))
        else let r = w\<lparr>rg_devices := rg_devices w @ [d]\<rparr> in (r, Inr r)),
     rw_update_device = (\<lambda>d v w. let r = w\<lparr>rg_devices := map (\<lambda>x. if hd_device_id x = hd_device_id d then d else x)
        (rg_devices w)\<rparr> in (r, Inr r))\<rparr>"

lemma small_data_serves: "data_serves small_data id"
  by (auto simp: data_serves_def small_data_def Let_def split: if_splits)

definition renamed_lamp :: home_device where
  "renamed_lamp = lamp\<lparr>hd_provider_ref := Some ''light.a'', hd_name := ''mine'', hd_overrides := [''name''], hd_orphaned := True\<rparr>"

definition old_lamp :: home_device where
  "old_lamp = lamp\<lparr>hd_device_id := ''old'', hd_provider_ref := Some ''light.b''\<rparr>"

definition two_lamps :: registry where
  "two_lamps = lamp_registry\<lparr>rg_devices := [renamed_lamp, old_lamp]\<rparr>"

definition found_lamps :: "discovered list" where
  "found_lamps = [\<lparr>dd_external_ref = ''light.a'', dd_name = ''A'', dd_type = ''light'', dd_traits = JNull, dd_limits = JNull,
     dd_area_name = Some ''Hall'', dd_reachable = True\<rparr>, \<lparr>dd_external_ref = ''light.c'', dd_name = '' C  d '', dd_type = ''light'',
     dd_traits = JNull, dd_limits = JNull, dd_area_name = None, dd_reachable = True\<rparr>]"

definition small_limits :: sync_limits where
  "small_limits = \<lparr>sl_max_areas = 4, sl_max_devices = 3, sl_unnamed = ''device''\<rparr>"

definition synced_lamps :: "registry \<times> (exn + sync_report)" where
  "synced_lamps = sync_registry small_data small_limits ''v'' 9 found_lamps two_lamps"

lemma sync_agrees_with_discovery_witness:
  "\<exists>d e. {d, e} \<subseteq> set (rg_devices (fst synced_lamps)) \<and> keeps renamed_lamp d \<and> keeps old_lamp e
     \<and> \<not> hd_orphaned d \<and> hd_orphaned e"
proof -
  have "case snd synced_lamps of Inr _ \<Rightarrow> True | Inl _ \<Rightarrow> False" by code_simp
  then obtain w' rep where done_sync: "sync_registry small_data small_limits ''v'' 9 found_lamps two_lamps = (w', Inr rep)"
    unfolding synced_lamps_def by (metis old.sum.simps(5) prod.exhaust_sel sum.exhaust_sel)
  have lamps: "rg_devices (id two_lamps) = [renamed_lamp, old_lamp]" by (simp add: two_lamps_def)
  have refs: "dd_external_ref ` set found_lamps = {''light.a'', ''light.c''}" by (simp add: found_lamps_def)
  have distinct: "distinct (map hd_device_id (rg_devices (id two_lamps)))"
    "distinct (map hd_provider_ref (filter (\<lambda>d. hd_provider d = ''v'') (rg_devices (id two_lamps))))"
    unfolding lamps by (simp_all add: renamed_lamp_def old_lamp_def lamp_def)
  note agrees = sync_agrees_with_discovery [OF done_sync small_data_serves distinct]
  from agrees obtain d e where d: "d \<in> set (rg_devices w')" "keeps renamed_lamp d"
    and e: "e \<in> set (rg_devices w')" "keeps old_lamp e"
    unfolding lamps by auto
  have "hd_provider d = ''v''" "hd_provider_ref d = Some ''light.a''" "hd_provider e = ''v''" "hd_provider_ref e = Some ''light.b''"
    using d(2) e(2) by (simp_all add: keeps_def renamed_lamp_def old_lamp_def lamp_def)
  then have "\<not> hd_orphaned d" "hd_orphaned e" using agrees d(1) e(1) unfolding refs by auto
  with d e show ?thesis by (auto simp: synced_lamps_def done_sync)
qed

end
