(* ===== verification/Provider_Accounts.thy ===== *)
theory Provider_Accounts
  imports Home_Importer Crypto "HOL-Library.AList"
begin

text \<open>
  The accounts of the ecosystems' Providers (\<open>hub/integration/accounts.py\<close>), their secrets
  (\<open>vault.py\<close>), the Home Assistant Provider's part in binding them
  (\<open>smarthome/providers/homeassistant/provider.py\<close>) and the service the routes call
  (\<open>smarthome/integration_service.py\<close>).

  The choices of an account are the value their JSON text is read back as.  The cipher's
  decryption, the random nonces and what opening a connection comes to are parameters, and so
  are the messages meant for a person.
\<close>

section \<open>Account records\<close>

record account_record =
  ac_account_id :: string
  ac_owner_id :: string
  ac_kind :: string
  ac_label :: string
  ac_status :: string
  ac_error :: "string option"
  ac_choices :: "json list"
  ac_created_at :: int
  ac_last_seen :: "int option"

definition account_order :: "account_record \<Rightarrow> int \<times> string" where
  "account_order r = (ac_created_at r, ac_account_id r)"

definition list_accounts :: "string \<Rightarrow> account_record list \<Rightarrow> account_record list" where
  "list_accounts owner rows = order_by account_order (filter (\<lambda>r. ac_owner_id r = owner) rows)"

definition all_accounts :: "account_record list \<Rightarrow> account_record list" where
  "all_accounts rows = order_by ac_created_at rows"

definition get_account :: "string \<Rightarrow> string \<Rightarrow> account_record list \<Rightarrow> account_record option" where
  "get_account owner account rows = find (\<lambda>r. ac_owner_id r = owner \<and> ac_account_id r = account) rows"

definition upsert_account :: "int \<Rightarrow> account_record \<Rightarrow> account_record list \<Rightarrow> account_record list" where
  "upsert_account now r rows =
     (if tget ac_account_id (ac_account_id r) rows = None
      then rows @ [r\<lparr>ac_created_at := (if ac_created_at r = 0 then now else ac_created_at r)\<rparr>]
      else tupd ac_account_id (ac_account_id r) (\<lambda>q. q\<lparr>ac_label := ac_label r, ac_status := ac_status r,
             ac_error := ac_error r, ac_choices := ac_choices r, ac_last_seen := ac_last_seen r\<rparr>) rows)"

definition set_account_status ::
  "int \<Rightarrow> string \<Rightarrow> string \<Rightarrow> string option \<Rightarrow> bool \<Rightarrow> account_record list \<Rightarrow> account_record list" where
  "set_account_status now account status1 err seen rows =
     tupd ac_account_id account (\<lambda>q. q\<lparr>ac_status := status1, ac_error := err,
       ac_last_seen := (if seen then Some now else ac_last_seen q)\<rparr>) rows"

definition delete_account :: "string \<Rightarrow> string \<Rightarrow> account_record list \<Rightarrow> account_record list \<times> bool" where
  "delete_account owner account rows =
     (filter (\<lambda>r. \<not> (ac_owner_id r = owner \<and> ac_account_id r = account)) rows,
      \<exists>r\<in>set rows. ac_owner_id r = owner \<and> ac_account_id r = account)"

section \<open>The vault\<close>

record vault_row =
  va_account_id :: string
  va_name :: string
  va_nonce :: "byte list"
  va_ciphertext :: "byte list"
  va_updated_at :: int

record vault_cipher =
  vc_key :: "byte list"
  vc_decrypt :: "byte list \<Rightarrow> byte list \<Rightarrow> byte list \<Rightarrow> byte list \<Rightarrow> byte list option"

definition vault_key :: "vault_row \<Rightarrow> string \<times> string" where
  "vault_key r = (va_account_id r, va_name r)"

definition vault_aad :: "string \<Rightarrow> string \<Rightarrow> byte list" where
  "vault_aad account name = encode account @ [0] @ encode name"

definition vault_new :: "vault_cipher \<Rightarrow> exn + vault_cipher" where
  "vault_new c = (if length (vc_key c) \<noteq> 32 then Inl (Other_error ''VaultKeyError'') else Inr c)"

definition vault_put ::
  "external \<Rightarrow> vault_cipher \<Rightarrow> int \<Rightarrow> byte list \<Rightarrow> string \<Rightarrow> string \<Rightarrow> string \<Rightarrow> vault_row list \<Rightarrow> vault_row list" where
  "vault_put x c now nonce account name secret rows =
     (let sealed1 = aesgcm_encrypt x (vc_key c) nonce (encode secret) (vault_aad account name)
      in if tget vault_key (account, name) rows = None
         then rows @ [\<lparr>va_account_id = account, va_name = name, va_nonce = nonce, va_ciphertext = sealed1,
                       va_updated_at = now\<rparr>]
         else tupd vault_key (account, name)
                (\<lambda>r. r\<lparr>va_nonce := nonce, va_ciphertext := sealed1, va_updated_at := now\<rparr>) rows)"

definition vault_get :: "vault_cipher \<Rightarrow> string \<Rightarrow> string \<Rightarrow> vault_row list \<Rightarrow> exn + string option" where
  "vault_get c account name rows =
     (case tget vault_key (account, name) rows of
        None \<Rightarrow> Inr None
      | Some r \<Rightarrow>
          (case vc_decrypt c (vc_key c) (va_nonce r) (va_ciphertext r) (vault_aad account name) of
             None \<Rightarrow> Inl (Other_error ''InvalidTag'')
           | Some bs \<Rightarrow> Inr (Some (decode_text bs))))"

definition vault_names :: "string \<Rightarrow> vault_row list \<Rightarrow> string list" where
  "vault_names account rows = order_by id (map va_name (filter (\<lambda>r. va_account_id r = account) rows))"

definition vault_delete_all :: "string \<Rightarrow> vault_row list \<Rightarrow> vault_row list" where
  "vault_delete_all account rows = filter (\<lambda>r. va_account_id r \<noteq> account) rows"

section \<open>Binding a Home Assistant\<close>

text \<open>A live connection by what it was opened with; \<open>opened\<close> of the environment is its outcome.\<close>

record account_state =
  as_accounts :: "account_record list"
  as_vault :: "vault_row list"
  as_connections :: "(string \<times> string \<times> string) list"
  as_owners :: "(string \<times> string) list"
  as_known :: "string list"
  as_observers :: "string list"

record bind_env =
  be_external :: external
  be_cipher :: vault_cipher
  be_nonce :: "nat \<Rightarrow> byte list"
  be_opens :: "string \<Rightarrow> string \<Rightarrow> (string \<times> string) + string"
  be_missing :: string
  be_invalid_url :: string

definition home_assistant :: string where
  "home_assistant = ''homeassistant''"

definition field_of :: "(string \<times> string) list \<Rightarrow> string \<Rightarrow> string" where
  "field_of form name = strip_by is_space (case map_of form name of None \<Rightarrow> '''' | Some v \<Rightarrow> v)"

definition starts_with :: "string \<Rightarrow> string \<Rightarrow> bool" where
  "starts_with pre s \<longleftrightarrow> take (length pre) s = pre"

text \<open>A refusal has its code and its message (\<open>BindError\<close>, \<open>BindRefused\<close>).\<close>

definition ha_bind ::
  "bind_env \<Rightarrow> int \<Rightarrow> string \<Rightarrow> string \<Rightarrow> (string \<times> string) list \<Rightarrow> account_state \<Rightarrow>
   account_state \<times> ((string \<times> string) + account_record)" where
  "ha_bind b now owner account form st =
     (let url = field_of form ''url''; token = field_of form ''token''
      in if url = '''' \<or> token = '''' then (st, Inl (''MISSING_FIELDS'', be_missing b))
         else if \<not> (starts_with ''http://'' url \<or> starts_with ''https://'' url)
         then (st, Inl (''INVALID_URL'', be_invalid_url b))
         else case be_opens b url token of
                Inl refusal \<Rightarrow> (st, Inl refusal)
              | Inr location \<Rightarrow>
                  (let r = \<lparr>ac_account_id = account, ac_owner_id = owner, ac_kind = home_assistant,
                            ac_label = take 64 location, ac_status = ''connected'', ac_error = None,
                            ac_choices = [], ac_created_at = 0, ac_last_seen = Some now\<rparr>
                   in (st\<lparr>as_connections := AList.update account (url, token) (as_connections st),
                          as_owners := AList.update account owner (as_owners st),
                          as_vault := vault_put (be_external b) (be_cipher b) now (be_nonce b 1) account ''token'' token
                            (vault_put (be_external b) (be_cipher b) now (be_nonce b 0) account ''url'' url (as_vault st)),
                          as_accounts := upsert_account now r (as_accounts st)\<rparr>, Inr r)))"

definition ha_unbind :: "string \<Rightarrow> string \<Rightarrow> account_state \<Rightarrow> account_state" where
  "ha_unbind owner account st =
     st\<lparr>as_connections := AList.delete account (as_connections st),
        as_owners := AList.delete account (as_owners st),
        as_known := removeAll account (as_known st),
        as_vault := vault_delete_all account (as_vault st),
        as_accounts := fst (delete_account owner account (as_accounts st))\<rparr>"

text \<open>\<open>restore\<close>: every account that is not revoked is bound again with what the vault holds.\<close>

definition stored_field :: "bind_env \<Rightarrow> string \<Rightarrow> string \<Rightarrow> account_state \<Rightarrow> exn + string" where
  "stored_field b account name st =
     andthen (vault_get (be_cipher b) account name (as_vault st)) (\<lambda>v.
     Inr (case v of None \<Rightarrow> '''' | Some s \<Rightarrow> s))"

definition ha_restore_one ::
  "bind_env \<Rightarrow> int \<Rightarrow> account_record \<Rightarrow> account_state \<Rightarrow> account_state \<times> (exn + unit)" where
  "ha_restore_one b now r st =
     (case stored_field b (ac_account_id r) ''url'' st of
        Inl e \<Rightarrow> (st, Inl e)
      | Inr url \<Rightarrow>
          (case stored_field b (ac_account_id r) ''token'' st of
             Inl e \<Rightarrow> (st, Inl e)
           | Inr token \<Rightarrow>
               (case ha_bind b now (ac_owner_id r) (ac_account_id r) [(''url'', url), (''token'', token)] st of
                  (st1, Inr _) \<Rightarrow> (st1, Inr ())
                | (st1, Inl (c, message)) \<Rightarrow>
                    (st1\<lparr>as_accounts := set_account_status now (ac_account_id r) ''degraded''
                           (Some (take 200 message)) False (as_accounts st1)\<rparr>, Inr ()))))"

fun ha_restore_each ::
  "bind_env \<Rightarrow> int \<Rightarrow> account_record list \<Rightarrow> account_state \<Rightarrow> account_state \<times> (exn + unit)" where
  "ha_restore_each b now [] st = (st, Inr ())"
| "ha_restore_each b now (r # rs) st =
     (if ac_kind r \<noteq> home_assistant \<or> ac_status r = ''revoked'' then ha_restore_each b now rs st
      else case ha_restore_one b now r st of
             (st1, Inl e) \<Rightarrow> (st1, Inl e)
           | (st1, Inr _) \<Rightarrow> ha_restore_each b now rs st1)"

definition ha_restore :: "bind_env \<Rightarrow> int \<Rightarrow> account_state \<Rightarrow> account_state \<times> (exn + unit)" where
  "ha_restore b now st = ha_restore_each b now (all_accounts (as_accounts st)) st"

section \<open>The service\<close>

text \<open>
  Only Home Assistant among the account-backed Providers is modelled; \<open>enabled\<close> says whether it
  is.  \<open>drawn\<close> is the identifier drawn when none is given.
\<close>

definition bind_through ::
  "bind_env \<Rightarrow> int \<Rightarrow> string \<Rightarrow> string \<Rightarrow> (string \<times> string) list \<Rightarrow>
   account_state \<Rightarrow> account_state \<times> ((string \<times> string) + account_record)" where
  "bind_through b now owner account form st =
     (case ha_bind b now owner account form st of
        (st1, Inl refusal) \<Rightarrow> (st1, Inl refusal)
      | (st1, Inr r) \<Rightarrow>
          ((if ac_status r = ''connected'' then st1\<lparr>as_observers := List.insert account (as_observers st1)\<rparr> else st1),
           Inr r))"

definition bind_account ::
  "bind_env \<Rightarrow> bool \<Rightarrow> int \<Rightarrow> string \<Rightarrow> string \<Rightarrow> string \<Rightarrow> string option \<Rightarrow> (string \<times> string) list \<Rightarrow>
   account_state \<Rightarrow> account_state \<times> ((string \<times> string) + account_record)" where
  "bind_account b enabled now drawn owner kind given form st =
     (if \<not> enabled \<or> kind \<noteq> home_assistant then (st, Inl (''UNKNOWN_PROVIDER'', kind))
      else let account = (case given of None \<Rightarrow> drawn | Some i \<Rightarrow> if i = '''' then drawn else i)
           in case get_account owner account (as_accounts st) of
                Some r \<Rightarrow>
                  if ac_kind r \<noteq> kind then (st, Inl (''ACCOUNT_KIND_MISMATCH'', ac_kind r))
                  else bind_through b now owner account form st
              | None \<Rightarrow> bind_through b now owner account form st)"

definition unbind_account :: "bool \<Rightarrow> string \<Rightarrow> string \<Rightarrow> account_state \<Rightarrow> account_state \<times> bool" where
  "unbind_account enabled owner account st =
     (case get_account owner account (as_accounts st) of
        None \<Rightarrow> (st, False)
      | Some r \<Rightarrow>
          (let st1 = st\<lparr>as_observers := removeAll account (as_observers st)\<rparr>
           in if enabled \<and> ac_kind r = home_assistant then (ha_unbind owner account st1, True)
              else (st1\<lparr>as_accounts := fst (delete_account owner account (as_accounts st1))\<rparr>, True)))"

text \<open>The process ends and starts: connections and owners are of the process, the rest is stored.\<close>

definition restart_accounts :: "account_state \<Rightarrow> account_state" where
  "restart_accounts st = st\<lparr>as_connections := [], as_owners := [], as_known := [], as_observers := []\<rparr>"

text \<open>\<open>start\<close>: restore, then observe every account that is connected or degraded.\<close>

definition start_accounts :: "bind_env \<Rightarrow> bool \<Rightarrow> int \<Rightarrow> account_state \<Rightarrow> account_state" where
  "start_accounts b enabled now st =
     (let st1 = (if enabled then fst (ha_restore b now st) else st)
      in st1\<lparr>as_observers := fold (\<lambda>r obs.
           if ac_status r \<in> {''connected'', ''degraded''} \<and> enabled \<and> ac_kind r = home_assistant
           then List.insert (ac_account_id r) obs else obs) (all_accounts (as_accounts st1)) (as_observers st1)\<rparr>)"

section \<open>What binding leaves behind\<close>

lemma dropWhile_snoc_keep: "\<not> p c \<Longrightarrow> \<exists>ys. dropWhile p (xs @ [c]) = ys @ [c]"
  by (induction xs) auto

lemma dropWhile_twice: "dropWhile p (dropWhile p xs) = dropWhile p xs"
  by (induction xs) auto

lemma strip_idem: "strip_by p (strip_by p s) = strip_by p s"
proof (cases "dropWhile p s")
  case (Cons c cs)
  then have c: "\<not> p c" by (metis dropWhile_eq_Cons_conv)
  obtain ys where ys: "dropWhile p (List.rev cs @ [c]) = ys @ [c]" using dropWhile_snoc_keep [where p = p, OF c] by blast
  have "dropWhile p (ys @ [c]) = ys @ [c]" using dropWhile_twice [of p "List.rev cs @ [c]"] by (simp add: ys)
  then show ?thesis using Cons c by (simp add: strip_by_def ys)
next
  case Nil
  show ?thesis unfolding strip_by_def Nil by simp
qed

lemma field_of_stored [simp]:
  "field_of [(''url'', field_of form n), (''token'', t)] ''url'' = field_of form n"
  "field_of [(''url'', u), (''token'', field_of form n)] ''token'' = field_of form n"
  by (simp_all add: field_of_def strip_idem)

lemma vault_put_fetch:
  "tget vault_key k (vault_put x c now nonce account name secret rows) =
   (if k = (account, name) then
      (case tget vault_key k rows of
         None \<Rightarrow> Some \<lparr>va_account_id = account, va_name = name, va_nonce = nonce,
           va_ciphertext = aesgcm_encrypt x (vc_key c) nonce (encode secret) (vault_aad account name), va_updated_at = now\<rparr>
       | Some r \<Rightarrow> Some (r\<lparr>va_nonce := nonce,
           va_ciphertext := aesgcm_encrypt x (vc_key c) nonce (encode secret) (vault_aad account name), va_updated_at := now\<rparr>))
    else tget vault_key k rows)"
  by (cases "tget vault_key (account, name) rows")
    (auto simp: vault_put_def Let_def tget_append tget_Cons vault_key_def tget_tupd split: option.split)

text \<open>AES-GCM: what was encrypted under a key, nonce and associated data is decrypted under them.\<close>

definition cipher_law :: "external \<Rightarrow> vault_cipher \<Rightarrow> bool" where
  "cipher_law x c \<longleftrightarrow> (\<forall>n p aad. vc_decrypt c (vc_key c) n (aesgcm_encrypt x (vc_key c) n p aad) aad = Some p)"

lemma vault_get_put:
  "cipher_law x c \<Longrightarrow> vault_get c a n (vault_put x c now nonce account name secret rows) =
     (if (a, n) = (account, name) then Inr (Some secret) else vault_get c a n rows)"
  by (auto simp: vault_get_def vault_put_fetch cipher_law_def split: option.split)

lemma get_account_tget:
  "distinct (map ac_account_id rows) \<Longrightarrow> get_account owner account rows =
     (case tget ac_account_id account rows of
        None \<Rightarrow> None
      | Some r \<Rightarrow> if ac_owner_id r = owner then Some r else None)"
proof (induction rows)
  case (Cons a rows)
  then have "tget ac_account_id (ac_account_id a) rows = None" by (simp add: tget_None_iff)
  with Cons show ?case by (cases "ac_account_id a = account") (auto simp: get_account_def tget_Cons)
qed (simp add: get_account_def)

lemma get_account_upsert:
  assumes "distinct (map ac_account_id rows)" "get_account other account rows = Some r" "ac_account_id q = account"
  shows "get_account owner account (upsert_account now q rows) = (if owner = other then
      Some (r\<lparr>ac_label := ac_label q, ac_status := ac_status q, ac_error := ac_error q, ac_choices := ac_choices q,
              ac_last_seen := ac_last_seen q\<rparr>) else None)"
proof -
  have r: "tget ac_account_id account rows = Some r" "ac_owner_id r = other"
    using assms(2) by (auto simp: get_account_tget [OF assms(1)] split: option.splits if_splits)
  let ?f = "\<lambda>p. p\<lparr>ac_label := ac_label q, ac_status := ac_status q, ac_error := ac_error q,
    ac_choices := ac_choices q, ac_last_seen := ac_last_seen q\<rparr>"
  have up: "upsert_account now q rows = tupd ac_account_id account ?f rows"
    using r(1) by (simp add: upsert_account_def assms(3))
  have "distinct (map ac_account_id (tupd ac_account_id account ?f rows))"
    using assms(1) by (simp add: map_tupd)
  from get_account_tget [OF this] show ?thesis using r by (simp add: up tget_tupd)
qed

text \<open>A bind that succeeds: what was given, and the state it leaves.\<close>

lemma ha_bind_done:
  assumes "ha_bind b now owner account form st = (st1, Inr a)" "cipher_law (be_external b) (be_cipher b)"
  shows "field_of form ''url'' \<noteq> ''''" "field_of form ''token'' \<noteq> ''''"
    and "starts_with ''http://'' (field_of form ''url'') \<or> starts_with ''https://'' (field_of form ''url'')"
    and "be_opens b (field_of form ''url'') (field_of form ''token'') = Inr location \<Longrightarrow> ac_label a = take 64 location"
    and "\<exists>location. be_opens b (field_of form ''url'') (field_of form ''token'') = Inr location"
    and "ac_account_id a = account" "ac_status a = ''connected''"
    and "as_accounts st1 = upsert_account now a (as_accounts st)"
    and "map_of (as_connections st1) account = Some (field_of form ''url'', field_of form ''token'')"
    and "map_of (as_owners st1) account = Some owner"
    and "vault_get (be_cipher b) account ''url'' (as_vault st1) = Inr (Some (field_of form ''url''))"
    and "vault_get (be_cipher b) account ''token'' (as_vault st1) = Inr (Some (field_of form ''token''))"
  using assms
  by (auto simp: ha_bind_def Let_def update_conv' vault_get_put split: if_splits sum.splits)

end
