(* ===== verification/Account_Properties.thy ===== *)
theory Account_Properties
  imports Provider_Accounts Home_Scenario
begin

text \<open>What binding does to an account that is another Owner's.\<close>


definition small_bind_env :: bind_env where
  "small_bind_env = \<lparr>be_external = small_world\<lparr>aesgcm_encrypt := (\<lambda>k n p a. p)\<rparr>,
     be_cipher = \<lparr>vc_key = replicate 32 0, vc_decrypt = (\<lambda>k n p a. Some p)\<rparr>, be_nonce = (\<lambda>i. [0]),
     be_opens = (\<lambda>u t. Inr ''home''), be_missing = '''', be_invalid_url = ''''\<rparr>"

definition taken_account :: account_record where
  "taken_account = \<lparr>ac_account_id = ''acc'', ac_owner_id = ''v'', ac_kind = home_assistant, ac_label = '''',
     ac_status = ''connected'', ac_error = None, ac_choices = [], ac_created_at = 1, ac_last_seen = None\<rparr>"

definition one_account :: account_state where
  "one_account = \<lparr>as_accounts = [taken_account], as_vault = [], as_connections = [], as_owners = [], as_known = [],
     as_observers = []\<rparr>"

definition own_home :: "(string \<times> string) list" where
  "own_home = [(''url'', ''http://h''), (''token'', ''t'')]"

definition taken_over :: account_state where
  "taken_over = fst (bind_account small_bind_env True 5 ''acc_1'' ''u'' home_assistant (Some ''acc'') own_home one_account)"


end
