(* ===== verification/Page_Properties.thy ===== *)
theory Page_Properties
  imports Paging Device_Scenario
begin

text \<open>What a client that follows the cursors of the Claim listing ends up with.\<close>

text \<open>
  C28: A client that follows the cursors over an unchanged database stops: after at most one
  request more than there are Claims it has a page without a cursor, and the pages together are
  every Claim of that Owner in one of the wanted states, once, in the listing's order, whatever
  the page size.
\<close>

theorem claim_pages_end:
  assumes "keys_ok db" "0 < limit" "length (claims db) < fuel"
    and "require_scope ctx ''device.read'' = Inr ()" "owner = ctx_owner_domain_id ctx"
  shows "client_pages (\<lambda>c. list_claims now owner states c limit ctx db) fuel None =
    Some (map claim_view (order_by claim_sort_key
      (filter (\<lambda>r. cl_owner_domain_id r = owner \<and> cl_business_owner_id r = ctx_business_owner_id ctx
        \<and> cl_state r \<in> set states) (claims db))))"
proof -
  let ?q = "(owner, ctx_business_owner_id ctx, states)"
  have "length (listed_claims ?q db) < fuel"
    using le_less_trans [OF length_filter_le assms(3)] by (simp add: listed_claims_def)
  from claim_listing.walk_complete [OF assms(1,2) this]
  have "walk claim_sort_key (\<lambda>c. list_claim_rows db owner (ctx_business_owner_id ctx) states c limit) limit fuel None
      = Some (order_by claim_sort_key (listed_claims ?q db))" by simp
  then show ?thesis
    using client_walk [of "\<lambda>c. list_claims now owner states c limit ctx db" claim_view
        "\<lambda>c. list_claim_rows db owner (ctx_business_owner_id ctx) states c limit" claim_sort_key limit now fuel None]
      assms(4,5)
    by (simp add: list_claims_def Let_def listed_claims_def)
qed

definition two_claims :: hub_db where
  "two_claims = empty_db\<lparr>claims := [small_claim, small_claim\<lparr>cl_device_instance_id := ''e'', cl_hardware_identity_ref := ''i''\<rparr>]\<rparr>"

lemma claim_pages_end_witness:
  "client_pages (\<lambda>c. list_claims 5 ''o'' [Active] c 1 owner_context two_claims) 3 None
   = Some (map claim_view (claims two_claims))"
proof -
  have "keys_ok two_claims"
    by (simp add: keys_ok_def keys_defs two_claims_def empty_db_def small_claim_def)
  moreover have "require_scope owner_context ''device.read'' = Inr ()" by code_simp
  moreover have "order_by claim_sort_key (claims two_claims) = claims two_claims" by code_simp
  moreover have "filter (\<lambda>r. cl_owner_domain_id r = ''o'' \<and> cl_business_owner_id r = ctx_business_owner_id owner_context
      \<and> cl_state r \<in> set [Active]) (claims two_claims) = claims two_claims" by code_simp
  moreover have "ctx_owner_domain_id owner_context = ''o''" "length (claims two_claims) < 3"
    by (simp_all add: owner_context_def two_claims_def)
  ultimately show ?thesis
    using claim_pages_end [of two_claims 1 3 owner_context "''o''" 5 "[Active]"] by simp
qed

end
