(* ===== verification/Home_Assistant.thy ===== *)
theory Home_Assistant
  imports Home_Importer "HOL-Library.AList"
begin

text \<open>
  Between Home Assistant's entities and the SDK's traits
  (\<open>hub/smarthome/providers/homeassistant/mapping.py\<close>).  A number is an exact rational, so the
  float division and rounding of the source have no rounding error here.  The SDK's reading of a
  device's traits and limits and the two words cut out of a sensor's name are parameters.
\<close>

unbundle bit_operations_syntax

section \<open>Entities\<close>

record entity =
  en_entity_id :: string
  en_state :: string
  en_attributes :: dict
  en_name :: string
  en_area_name :: "string option"
  en_device_id :: "string option"
  en_device_class :: "string option"

record service_call =
  sc_domain :: string
  sc_service :: string
  sc_data :: dict

record ha_limits =
  hl_target :: "(rat \<times> rat) option"
  hl_modes :: "string list option"

record mapping_sdk =
  ms_traits :: "home_device \<Rightarrow> string list"
  ms_limits :: "home_device \<Rightarrow> ha_limits option"
  ms_limits_json :: "ha_limits option \<Rightarrow> json"
  ms_temperature_word :: string
  ms_humidity_word :: string

definition domain_of :: "string \<Rightarrow> string" where
  "domain_of i = takeWhile (\<lambda>c. c \<noteq> CHR ''.'') i"

definition entity_unreachable :: "string \<Rightarrow> bool" where
  "entity_unreachable s \<longleftrightarrow> s = ''unavailable'' \<or> s = ''unknown''"

definition hvac_to_mode :: "(string \<times> string) list" where
  "hvac_to_mode = [(''cool'', ''cool''), (''heat'', ''heat''), (''auto'', ''auto''), (''heat_cool'', ''auto''),
     (''fan_only'', ''fan''), (''dry'', ''dry'')]"

definition mode_to_hvac :: "(string \<times> string) list" where
  "mode_to_hvac = [(''cool'', ''cool''), (''heat'', ''heat''), (''auto'', ''auto''), (''fan'', ''fan_only''),
     (''dry'', ''dry'')]"

definition vacuum_run_state :: "(string \<times> string) list" where
  "vacuum_run_state = [(''cleaning'', ''running''), (''paused'', ''paused''), (''docked'', ''docked''),
     (''returning'', ''docked''), (''idle'', ''idle''), (''error'', ''idle'')]"

definition domain_type :: "(string \<times> string) list" where
  "domain_type = [(''light'', ''light''), (''switch'', ''switch''), (''input_boolean'', ''switch''),
     (''climate'', ''climate''), (''water_heater'', ''water_heater''), (''cover'', ''cover''), (''fan'', ''fan''),
     (''media_player'', ''media''), (''vacuum'', ''appliance''), (''lawn_mower'', ''appliance''),
     (''lock'', ''lock''), (''camera'', ''camera'')]"

text \<open>\<open>a or b\<close> of Python.\<close>

definition py_or :: "json \<Rightarrow> json \<Rightarrow> json" where
  "py_or a b = (if truthy a then a else b)"

text \<open>\<open>round\<close>: to the nearest integer, a half to the even one.\<close>

definition py_round :: "rat \<Rightarrow> int" where
  "py_round q =
     (let n = \<lfloor>q\<rfloor>; part = q - of_int n
      in if part < 1 / 2 then n else if 1 / 2 < part then n + 1 else if even n then n else n + 1)"

section \<open>Discovery\<close>

definition entity_features :: "external \<Rightarrow> entity \<Rightarrow> exn + int" where
  "entity_features x e = int_value x (py_or (dict_get (en_attributes e) ''supported_features'') (jint 0))"

text \<open>Iteration, as Python has it of what JSON holds.\<close>

fun py_iter :: "json \<Rightarrow> exn + json list" where
  "py_iter (JArr xs) = Inr xs"
| "py_iter (JStr s) = Inr (map (\<lambda>c. JStr [c]) s)"
| "py_iter (JObj d) = Inr (map (\<lambda>p. JStr (fst p)) d)"
| "py_iter _ = Inl (Type_error ''not iterable'')"

definition traits_of :: "external \<Rightarrow> entity \<Rightarrow> string \<Rightarrow> exn + string list" where
  "traits_of x e kind =
     andthen (entity_features x e) (\<lambda>features.
     let modes = py_or (dict_get (en_attributes e) ''supported_color_modes'') (JArr [])
     in if kind = ''light'' then
          (if map_of (en_attributes e) ''brightness'' \<noteq> None then Inr [''on_off'', ''level'']
           else andthen (py_iter modes) (\<lambda>ms.
                Inr (if \<exists>m\<in>set ms. m \<noteq> JStr ''onoff'' then [''on_off'', ''level''] else [''on_off''])))
        else if kind = ''cover'' then Inr [''position'']
        else if kind = ''fan'' then Inr (if features AND 1 \<noteq> 0 then [''on_off'', ''fan_speed''] else [''on_off''])
        else if kind = ''media'' then Inr (if features AND 4 \<noteq> 0 then [''on_off'', ''volume''] else [''on_off''])
        else if kind = ''climate'' \<or> kind = ''water_heater'' then Inr [''on_off'', ''thermostat'']
        else if kind = ''appliance'' then Inr [''operational'']
        else if kind = ''lock'' then Inr [''lock'']
        else Inr [''on_off''])"

text \<open>\<open>hvac_modes\<close>: the known ones, translated, each once.\<close>

definition known_modes :: "json list \<Rightarrow> string list" where
  "known_modes modes =
     List.rev (remdups (List.rev (List.map_filter
       (\<lambda>m. case m of JStr s \<Rightarrow> map_of hvac_to_mode s | _ \<Rightarrow> None) modes)))"

definition limits_of :: "home_sdk \<Rightarrow> entity \<Rightarrow> string \<Rightarrow> exn + ha_limits option" where
  "limits_of h e kind =
     (if kind \<noteq> ''climate'' \<and> kind \<noteq> ''water_heater'' then Inr None
      else let a = en_attributes e; low = dict_get a ''min_temp''; high = dict_get a ''max_temp''
           in andthen (if low = JNull \<or> high = JNull then Inr None
                       else andthen (float_value h low) (\<lambda>l. andthen (float_value h high) (\<lambda>u. Inr (Some (l, u))))) (\<lambda>target.
              if kind = ''climate''
              then andthen (case map_of a ''hvac_modes'' of None \<Rightarrow> Inr [] | Some ms \<Rightarrow> py_iter ms) (\<lambda>ms.
                   Inr (Some \<lparr>hl_target = target,
                     hl_modes = (if known_modes ms = [] then None else Some (known_modes ms))\<rparr>))
              else Inr (Some \<lparr>hl_target = target, hl_modes = Some [''heat'']\<rparr>)))"

text \<open>\<open>str.replace(word, "")\<close>.\<close>

definition starts_word :: "string \<Rightarrow> string \<Rightarrow> bool" where
  "starts_word w s \<longleftrightarrow> take (length w) s = w"

function cut_word :: "string \<Rightarrow> string \<Rightarrow> string" where
  "cut_word w s =
     (if s = [] then [] else if w \<noteq> [] \<and> starts_word w s then cut_word w (drop (length w) s)
      else hd s # cut_word w (tl s))"
  by pat_completeness auto

termination cut_word
  by (relation "measure (\<lambda>(w, s). length s)") auto

declare cut_word.simps [simp del]

fun join_by :: "char \<Rightarrow> string list \<Rightarrow> string" where
  "join_by c [] = []"
| "join_by c [s] = s"
| "join_by c (s # t # ss) = s @ c # join_by c (t # ss)"

definition sensor_ref :: "entity list \<Rightarrow> string" where
  "sensor_ref members =
     map (\<lambda>c. if c = CHR ''+'' then CHR '':'' else c)
       (join_by (CHR ''+'') (order_by id (map en_entity_id members)))"

definition discovered_sensor :: "mapping_sdk \<Rightarrow> entity list \<Rightarrow> discovered" where
  "discovered_sensor m members =
     (let first = hd members;
          cut = strip_by is_space (cut_word (ms_humidity_word m) (cut_word (ms_temperature_word m) (en_name first)));
          name = (if 1 < length members then (if cut = [] then en_name first else cut) else en_name first)
      in \<lparr>dd_external_ref = sensor_ref members, dd_name = take 64 name, dd_type = ''sensor'',
          dd_traits = JArr [JStr ''measure''], dd_limits = ms_limits_json m None,
          dd_area_name = en_area_name first,
          dd_reachable = (\<exists>e\<in>set members. \<not> entity_unreachable (en_state e))\<rparr>)"

definition discovered_entity :: "external \<Rightarrow> home_sdk \<Rightarrow> mapping_sdk \<Rightarrow> entity \<Rightarrow> string \<Rightarrow> exn + discovered" where
  "discovered_entity x h m e kind =
     andthen (traits_of x e kind) (\<lambda>ts. andthen (limits_of h e kind) (\<lambda>l.
     Inr \<lparr>dd_external_ref = en_entity_id e, dd_name = take 64 (en_name e), dd_type = kind,
          dd_traits = JArr (map JStr ts), dd_limits = ms_limits_json m l, dd_area_name = en_area_name e,
          dd_reachable = (\<not> entity_unreachable (en_state e))\<rparr>))"

text \<open>The walk over the entities: the devices found, and the sensors grouped by their device.\<close>

definition group_key :: "entity \<Rightarrow> string" where
  "group_key e = (case en_device_id e of Some (c # cs) \<Rightarrow> c # cs | _ \<Rightarrow> en_entity_id e)"

definition add_sensor :: "entity \<Rightarrow> (string \<times> entity list) list \<Rightarrow> (string \<times> entity list) list" where
  "add_sensor e groups =
     (case map_of groups (group_key e) of
        None \<Rightarrow> groups @ [(group_key e, [e])]
      | Some es \<Rightarrow> AList.update (group_key e) (es @ [e]) groups)"

fun discover_each ::
  "external \<Rightarrow> home_sdk \<Rightarrow> mapping_sdk \<Rightarrow> entity list \<Rightarrow> (string \<times> entity list) list \<Rightarrow>
   exn + discovered list \<times> (string \<times> entity list) list" where
  "discover_each x h m [] groups = Inr ([], groups)"
| "discover_each x h m (e # es) groups =
     (if domain_of (en_entity_id e) = ''sensor''
      then discover_each x h m es
             (if en_device_class e = Some ''temperature'' \<or> en_device_class e = Some ''humidity''
              then add_sensor e groups else groups)
      else case map_of domain_type (domain_of (en_entity_id e)) of
             None \<Rightarrow> discover_each x h m es groups
           | Some kind \<Rightarrow>
               andthen (discovered_entity x h m e kind) (\<lambda>d.
               andthen (discover_each x h m es groups) (\<lambda>(ds, gs). Inr (d # ds, gs))))"

definition discover_entities :: "external \<Rightarrow> home_sdk \<Rightarrow> mapping_sdk \<Rightarrow> entity list \<Rightarrow> exn + discovered list" where
  "discover_entities x h m es =
     andthen (discover_each x h m es []) (\<lambda>(ds, groups). Inr (ds @ map (\<lambda>g. discovered_sensor m (snd g)) groups))"

section \<open>State\<close>

text \<open>\<open>_num_or_none\<close>; a value that cannot be in a set raises.\<close>

fun num_or_none :: "home_sdk \<Rightarrow> json \<Rightarrow> exn + rat option" where
  "num_or_none h JNull = Inr None"
| "num_or_none h (JStr s) = Inr (if entity_unreachable s then None else py_float h s)"
| "num_or_none h (JArr xs) = Inl (Type_error ''unhashable type'')"
| "num_or_none h (JObj d) = Inl (Type_error ''unhashable type'')"
| "num_or_none h v = Inr (number_of v)"

definition num_json :: "rat option \<Rightarrow> json" where
  "num_json q = (case q of None \<Rightarrow> JNull | Some n \<Rightarrow> JNum n)"

definition num_with_default :: "home_sdk \<Rightarrow> json \<Rightarrow> json \<Rightarrow> exn + rat" where
  "num_with_default h v d =
     andthen (num_or_none h v) (\<lambda>parsed.
     case parsed of
       Some q \<Rightarrow> Inr q
     | None \<Rightarrow> andthen (num_or_none h d) (\<lambda>q. Inr (case q of None \<Rightarrow> 0 | Some n \<Rightarrow> n)))"

definition first_mode :: "mapping_sdk \<Rightarrow> home_device \<Rightarrow> string" where
  "first_mode m d =
     (case Option.bind (ms_limits m d) hl_modes of
        Some (mode # _) \<Rightarrow> mode
      | _ \<Rightarrow> if hd_type d = ''climate'' then ''cool'' else ''heat'')"

definition thermostat_state ::
  "home_sdk \<Rightarrow> entity \<Rightarrow> string \<Rightarrow> json \<Rightarrow> exn + dict" where
  "thermostat_state h e mode default1 =
     (let a = en_attributes e
      in andthen (num_with_default h (dict_get a ''temperature'') default1) (\<lambda>target.
         andthen (num_or_none h (dict_get a ''current_temperature'')) (\<lambda>current.
         Inr [(''on'', JBool (\<not> entity_unreachable (en_state e) \<and> en_state e \<noteq> ''off'')), (''mode'', JStr mode),
              (''target_c'', JNum target), (''current_c'', num_json current)])))"

text \<open>The readings of a sensor and its siblings; the last of each class counts.\<close>

fun sensor_readings :: "home_sdk \<Rightarrow> entity list \<Rightarrow> json \<times> json \<Rightarrow> exn + json \<times> json" where
  "sensor_readings h [] th = Inr th"
| "sensor_readings h (e # es) th =
     andthen (num_or_none h (JStr (en_state e))) (\<lambda>v.
     sensor_readings h es
       (if en_device_class e = Some ''temperature'' then (num_json v, snd th)
        else if en_device_class e = Some ''humidity''
        then (fst th, case v of None \<Rightarrow> JNull | Some q \<Rightarrow> jint (py_round q))
        else th))"

definition project_state ::
  "external \<Rightarrow> home_sdk \<Rightarrow> mapping_sdk \<Rightarrow> home_device \<Rightarrow> entity \<Rightarrow> entity list \<Rightarrow> exn + dict" where
  "project_state x h m d e extra =
     (let a = en_attributes e; traits = ms_traits m d; kind = hd_type d;
          is_on = JBool (en_state e = ''on'')
      in if kind = ''light'' then
           (if ''level'' \<notin> set traits then Inr [(''on'', is_on)]
            else let brightness = dict_get a ''brightness''
                 in if brightness = JNull
                    then Inr [(''on'', is_on), (''level'', jint (if en_state e = ''on'' then 100 else 0))]
                    else andthen (int_value x brightness) (\<lambda>b.
                         Inr [(''on'', is_on), (''level'', jint (py_round (of_int (b * 100) / 255)))]))
         else if kind = ''switch'' then Inr [(''on'', is_on)]
         else if kind = ''camera''
           then Inr [(''on'', JBool (\<not> entity_unreachable (en_state e) \<and> en_state e \<noteq> ''off''))]
         else if kind = ''climate''
           then thermostat_state h e
                  (case map_of hvac_to_mode (en_state e) of None \<Rightarrow> first_mode m d | Some mode \<Rightarrow> mode)
                  (py_or (py_or (dict_get a ''target_temp_high'') (dict_get a ''min_temp'')) (jint 16))
         else if kind = ''water_heater''
           then thermostat_state h e ''heat'' (py_or (dict_get a ''min_temp'') (jint 35))
         else if kind = ''cover'' then
           (let position = dict_get a ''current_position''
            in andthen (if position = JNull
                        then Inr (if en_state e = ''open'' \<or> en_state e = ''opening'' then 100 else 0)
                        else int_value x position) (\<lambda>p.
               Inr [(''position'', jint p)]))
         else if kind = ''fan'' then
           (if ''fan_speed'' \<notin> set traits then Inr [(''on'', is_on)]
            else andthen (int_value x (py_or (dict_get a ''percentage'') (jint 0))) (\<lambda>p.
                 Inr [(''on'', is_on), (''speed'', jint p)]))
         else if kind = ''media'' then
           (let on = JBool (\<not> entity_unreachable (en_state e) \<and> en_state e \<notin> {''off'', ''standby''})
            in if ''volume'' \<notin> set traits then Inr [(''on'', on)]
               else andthen (float_value h (py_or (dict_get a ''volume_level'') (jint 0))) (\<lambda>v.
                    Inr [(''on'', on), (''volume'', jint (py_round (v * 100))),
                         (''muted'', JBool (truthy (dict_get a ''is_volume_muted'')))]))
         else if kind = ''appliance''
           then Inr [(''run_state'', JStr (case map_of vacuum_run_state (en_state e) of None \<Rightarrow> ''idle'' | Some r \<Rightarrow> r))]
         else if kind = ''lock''
           then Inr [(''locked'', JBool (en_state e = ''locked'' \<or> en_state e = ''locking''))]
         else if kind = ''sensor''
           then andthen (sensor_readings h (e # extra) (JNull, JNull)) (\<lambda>(t, hum).
                Inr [(''temp_c'', t), (''humidity'', hum)])
         else Inr [])"

section \<open>Commands\<close>

definition unsupported_command :: exn where
  "unsupported_command = Other_error ''SmartHomeError''"

text \<open>\<open>current.get(k, 0)\<close>.\<close>

definition current_or_zero :: "dict \<Rightarrow> string \<Rightarrow> json" where
  "current_or_zero d k = (case map_of d k of None \<Rightarrow> jint 0 | Some v \<Rightarrow> v)"

text \<open>The whole number a relative step of \<open>delta\<close> comes to, kept within 0 and 100.\<close>

definition stepped_percent :: "external \<Rightarrow> dict \<Rightarrow> dict \<Rightarrow> string \<Rightarrow> exn + rat" where
  "stepped_percent x current p k =
     andthen (int_value x (current_or_zero current k)) (\<lambda>v.
     andthen (param p ''delta'') (\<lambda>j. andthen (int_value x j) (\<lambda>d.
     Inr (clamp (Some 0) (Some 100) (of_int (v + d))))))"

definition int_param :: "external \<Rightarrow> dict \<Rightarrow> string \<Rightarrow> exn + int" where
  "int_param x p k = andthen (param p k) (int_value x)"

definition to_service_call ::
  "external \<Rightarrow> home_sdk \<Rightarrow> mapping_sdk \<Rightarrow> home_device \<Rightarrow> command \<Rightarrow> dict \<Rightarrow> int \<Rightarrow> exn + service_call" where
  "to_service_call x h m d c current features =
     (let ref = (case hd_provider_ref d of None \<Rightarrow> '''' | Some r \<Rightarrow> r);
          dom1 = domain_of ref;
          target = (''entity_id'', case hd_provider_ref d of None \<Rightarrow> JNull | Some r \<Rightarrow> JStr r);
          p = cm_params c;
          tc = (cm_trait c, cm_command c);
          call = (\<lambda>domain service. Inr \<lparr>sc_domain = domain, sc_service = service, sc_data = [target]\<rparr>);
          with = (\<lambda>domain service k v. Inr \<lparr>sc_domain = domain, sc_service = service, sc_data = [target, (k, v)]\<rparr>)
      in if tc = (''position'', ''set'') \<and> features AND 4 = 0 then Inl unsupported_command
         else if tc = (''on_off'', ''on'') then call dom1 ''turn_on''
         else if tc = (''on_off'', ''off'') then call dom1 ''turn_off''
         else if tc = (''on_off'', ''toggle'') then call dom1 ''toggle''
         else if tc = (''level'', ''set'')
           then andthen (int_param x p ''value'') (\<lambda>v. with ''light'' ''turn_on'' ''brightness_pct'' (jint v))
         else if tc = (''level'', ''step'')
           then andthen (stepped_percent x current p ''level'') (\<lambda>v. with ''light'' ''turn_on'' ''brightness_pct'' (JNum v))
         else if tc = (''thermostat'', ''set_mode'')
           then andthen (param p ''mode'') (\<lambda>j.
                andthen (present (map_of mode_to_hvac (str_of x j)) (Key_error (str_of x j))) (\<lambda>mode.
                with ''climate'' ''set_hvac_mode'' ''hvac_mode'' (JStr mode)))
         else if tc = (''thermostat'', ''set_target'')
           then andthen (param p ''celsius'') (\<lambda>v. with dom1 ''set_temperature'' ''temperature'' v)
         else if tc = (''thermostat'', ''step'')
           then andthen (float_value h (current_or_zero current ''target_c'')) (\<lambda>t.
                andthen (param p ''delta'') (\<lambda>j. andthen (float_value h j) (\<lambda>delta.
                let (low, high) = (case Option.bind (ms_limits m d) hl_target of
                                     None \<Rightarrow> (None, None) | Some (l, u) \<Rightarrow> (Some l, Some u))
                in with dom1 ''set_temperature'' ''temperature'' (JNum (clamp low high (t + delta))))))
         else if tc = (''fan_speed'', ''step'')
           then (case as_int (dict_get current ''speed'') of
                   None \<Rightarrow> Inl unsupported_command
                 | Some speed \<Rightarrow>
                     if 0 \<le> speed \<and> speed \<le> 100
                     then andthen (number_at p ''delta'') (\<lambda>delta.
                          with ''fan'' ''set_percentage'' ''percentage'' (JNum (clamp (Some 0) (Some 100) (of_int speed + delta))))
                     else Inl unsupported_command)
         else if tc = (''fan_speed'', ''set'')
           then andthen (int_param x p ''value'') (\<lambda>v. with ''fan'' ''set_percentage'' ''percentage'' (jint v))
         else if tc = (''position'', ''open'') then call ''cover'' ''open_cover''
         else if tc = (''position'', ''close'') then call ''cover'' ''close_cover''
         else if tc = (''position'', ''stop'') then call ''cover'' ''stop_cover''
         else if tc = (''position'', ''set'')
           then andthen (int_param x p ''value'') (\<lambda>v. with ''cover'' ''set_cover_position'' ''position'' (jint v))
         else if tc = (''lock'', ''lock'') then call ''lock'' ''lock''
         else if tc = (''lock'', ''unlock'') then call ''lock'' ''unlock''
         else if tc = (''operational'', ''start'')
           then call dom1 (if dom1 = ''vacuum'' then ''start'' else ''start_mowing'')
         else if tc = (''operational'', ''pause'') then call dom1 ''pause''
         else if tc = (''operational'', ''stop'') then call dom1 (if dom1 = ''vacuum'' then ''stop'' else ''dock'')
         else if tc = (''operational'', ''dock'') then call dom1 (if dom1 = ''vacuum'' then ''return_to_base'' else ''dock'')
         else if tc = (''volume'', ''set'')
           then andthen (int_param x p ''value'') (\<lambda>v.
                with ''media_player'' ''volume_set'' ''volume_level'' (JNum (of_int v / 100)))
         else if tc = (''volume'', ''step'')
           then andthen (stepped_percent x current p ''volume'') (\<lambda>v.
                with ''media_player'' ''volume_set'' ''volume_level'' (JNum (v / 100)))
         else if tc = (''volume'', ''mute'')
           then andthen (param p ''muted'') (\<lambda>v.
                with ''media_player'' ''volume_mute'' ''is_volume_muted'' (JBool (truthy v)))
         else Inl unsupported_command)"

end
