(* ===== verification/Home_Assistant_Properties.thy ===== *)
theory Home_Assistant_Properties
  imports Home_Assistant Home_Scenario
begin

text \<open>The Home Assistant mapping against the virtual devices, which say what a command means.\<close>

text \<open>The relative commands within 0 and 100: the state they step, the attribute sent, its scale.\<close>

definition percent_steps :: "(string \<times> string \<times> string \<times> string \<times> rat) list" where
  "percent_steps = [(''level'', ''step'', ''level'', ''brightness_pct'', 1),
     (''fan_speed'', ''step'', ''speed'', ''percentage'', 1), (''volume'', ''step'', ''volume'', ''volume_level'', 1 / 100)]"


definition dim_up :: command where
  "dim_up = \<lparr>cm_device_id = ''lamp'', cm_trait = ''level'', cm_command = ''step'', cm_params = [(''delta'', jint 20)]\<rparr>"

definition small_mapping :: mapping_sdk where
  "small_mapping = \<lparr>ms_traits = (\<lambda>d. [''on_off'', ''level'']), ms_limits = (\<lambda>d. None), ms_limits_json = (\<lambda>l. JNull),
     ms_temperature_word = '''', ms_humidity_word = ''''\<rparr>"


end
