(* ===== verification/Virtual_Provider.thy ===== *)
theory Virtual_Provider
  imports Home_Effects Device_Domain
begin

text \<open>
  The virtual Provider's store (\<open>VirtualProvider\<close> of
  \<open>hub/smarthome/providers/virtual.py\<close>): one row per Owner and device with the JSON text of
  its state.  A text that is not an object is refused by the SDK's validator.
\<close>

record virtual_row =
  vd_owner_id :: string
  vd_device_id :: string
  vd_device_type :: string
  vd_state_json :: string
  vd_updated_at :: int

definition virtual_key :: "virtual_row \<Rightarrow> string \<times> string" where
  "virtual_key r = (vd_owner_id r, vd_device_id r)"

text \<open>The validator's \<open>AttributeError\<close>, \<open>TypeError\<close> and \<open>ValueError\<close> are caught.\<close>

definition stored_state ::
  "external \<Rightarrow> home_sdk \<Rightarrow> home_device \<Rightarrow> virtual_row option \<Rightarrow> dict option" where
  "stored_state x h d row =
     (case row of
        None \<Rightarrow> None
      | Some r \<Rightarrow>
          if vd_device_type r \<noteq> hd_type d then None
          else (case json_loads x (vd_state_json r) of
                  Some (JObj state) \<Rightarrow>
                    (case validate_state h (hd_type d) state of Inl _ \<Rightarrow> None | Inr _ \<Rightarrow> Some state)
                | _ \<Rightarrow> None))"

definition virtual_row_of :: "string \<Rightarrow> home_device \<Rightarrow> virtual_row list \<Rightarrow> virtual_row option" where
  "virtual_row_of owner d rows = tget virtual_key (owner, hd_device_id d) rows"

definition virtual_write ::
  "device_sdk \<Rightarrow> int \<Rightarrow> string \<Rightarrow> home_device \<Rightarrow> dict \<Rightarrow> virtual_row list \<Rightarrow> virtual_row list" where
  "virtual_write s now owner d state rows =
     (let row = \<lparr>vd_owner_id = owner, vd_device_id = hd_device_id d, vd_device_type = hd_type d,
                 vd_state_json = json_dumps s (JObj state), vd_updated_at = now\<rparr>
      in if virtual_row_of owner d rows = None then rows @ [row]
         else tupd virtual_key (owner, hd_device_id d) (\<lambda>_. row) rows)"

text \<open>An empty state is falsy, so the initial one stands in for it too.\<close>

definition current_state ::
  "external \<Rightarrow> home_sdk \<Rightarrow> string \<Rightarrow> home_device \<Rightarrow> virtual_row list \<Rightarrow> dict" where
  "current_state x h owner d rows =
     (case stored_state x h d (virtual_row_of owner d rows) of
        Some (e # es) \<Rightarrow> e # es
      | _ \<Rightarrow> initial_state h (hd_type d))"

fun write_missing ::
  "external \<Rightarrow> device_sdk \<Rightarrow> home_sdk \<Rightarrow> int \<Rightarrow> string \<Rightarrow> virtual_row list \<Rightarrow> home_device list \<Rightarrow> virtual_row list \<Rightarrow>
   virtual_row list" where
  "write_missing x s h now owner before [] rows = rows"
| "write_missing x s h now owner before (d # ds) rows =
     write_missing x s h now owner before ds
       (if stored_state x h d (virtual_row_of owner d before) = None
        then virtual_write s now owner d (initial_state h (hd_type d)) rows else rows)"

definition virtual_reconcile ::
  "external \<Rightarrow> device_sdk \<Rightarrow> home_sdk \<Rightarrow> int \<Rightarrow> string \<Rightarrow> home_device list \<Rightarrow> virtual_row list \<Rightarrow> virtual_row list" where
  "virtual_reconcile x s h now owner ds rows =
     write_missing x s h now owner rows ds
       (filter (\<lambda>r. vd_owner_id r = owner \<longrightarrow> vd_device_id r \<in> hd_device_id ` set ds) rows)"

definition virtual_states ::
  "external \<Rightarrow> home_sdk \<Rightarrow> string \<Rightarrow> home_device list \<Rightarrow> virtual_row list \<Rightarrow> (string \<times> dict) list" where
  "virtual_states x h owner ds rows = map (\<lambda>d. (hd_device_id d, current_state x h owner d rows)) ds"

definition virtual_execute ::
  "external \<Rightarrow> device_sdk \<Rightarrow> home_sdk \<Rightarrow> int \<Rightarrow> string \<Rightarrow> home_device \<Rightarrow> command \<Rightarrow> virtual_row list \<Rightarrow>
   virtual_row list \<times> (exn + dict)" where
  "virtual_execute x s h now owner d c rows =
     (if cm_device_id c \<noteq> hd_device_id d then (rows, Inl (Value_error ''command addresses a different device''))
      else let current = current_state x h owner d rows
           in case apply_command h (hd_type d) current c of
                Inl e \<Rightarrow> (rows, Inl e)
              | Inr state \<Rightarrow>
                  (if virtual_row_of owner d rows = None \<or> \<not> py_eq (JObj state) (JObj current)
                   then virtual_write s now owner d state rows else rows, Inr state))"

section \<open>What was executed is what is there\<close>

lemma virtual_row_written:
  "virtual_row_of owner' d' (virtual_write s now owner d state rows) =
   (if (owner', hd_device_id d') = (owner, hd_device_id d)
    then Some \<lparr>vd_owner_id = owner, vd_device_id = hd_device_id d, vd_device_type = hd_type d,
               vd_state_json = json_dumps s (JObj state), vd_updated_at = now\<rparr>
    else virtual_row_of owner' d' rows)"
  by (cases "tget virtual_key (owner, hd_device_id d) rows")
    (auto simp: virtual_row_of_def virtual_write_def Let_def tget_append tget_Cons virtual_key_def tget_tupd_const
      split: option.split)

lemma applied_valid: "apply_command h kind state c = Inr new \<Longrightarrow> validate_state h kind new = Inr ()"
  by (auto simp: apply_command_def Let_def andthen_ok)

text \<open>
  A command a virtual device carried out leaves the device in the state it was answered with: the
  next poll reports that state, up to Python's \<open>==\<close>.  Other devices are as they were.
\<close>

lemma virtual_execute_reported:
  assumes "virtual_execute x s h now owner d c rows = (rows', Inr state)" "state \<noteq> []"
    and "json_loads x (json_dumps s (JObj state)) = Some (JObj state)"
  shows "current_state x h owner d rows' = state \<or> py_eq (JObj state) (JObj (current_state x h owner d rows'))"
    and "(owner', hd_device_id d') \<noteq> (owner, hd_device_id d) \<Longrightarrow>
      current_state x h owner' d' rows' = current_state x h owner' d' rows"
proof -
  have done_state: "apply_command h (hd_type d) (current_state x h owner d rows) c = Inr state"
    and rows': "rows' = (if virtual_row_of owner d rows = None \<or> \<not> py_eq (JObj state) (JObj (current_state x h owner d rows))
      then virtual_write s now owner d state rows else rows)"
    using assms(1) by (auto simp: virtual_execute_def Let_def split: if_splits sum.splits)
  show "current_state x h owner d rows' = state \<or> py_eq (JObj state) (JObj (current_state x h owner d rows'))"
    using applied_valid [OF done_state] assms(2,3)
    by (cases state) (auto simp: rows' current_state_def virtual_row_written stored_state_def)
  show "(owner', hd_device_id d') \<noteq> (owner, hd_device_id d) \<Longrightarrow>
      current_state x h owner' d' rows' = current_state x h owner' d' rows"
    by (auto simp: rows' current_state_def virtual_row_written)
qed

end
