(* ===== verification/Database_Schema.thy ===== *)
theory Database_Schema
  imports Schema
begin

text \<open>
  The physical schema of the Hub's database: the tables the release declares
  (\<open>hub/adapters/persistence/models.py\<close>, as SQLAlchemy compiles them for SQLite), what a start adds to an older database
  and when it refuses one (\<open>HubDatabase._initialize_schema\<close> of
  \<open>hub/adapters/persistence/database.py\<close>).
\<close>

section \<open>Shapes\<close>

text \<open>
  A column has the upper-cased SQL type; \<open>co_default\<close> says that the table gives it a default.
  A UNIQUE constraint without an index is not among the indexes the code compares.
\<close>

record table_column =
  co_name :: string
  co_type :: string
  co_nullable :: bool
  co_default :: bool
  co_primary :: bool

record table_index =
  ix_name :: string
  ix_columns :: "string list"
  ix_unique :: bool

record table_shape =
  tb_columns :: "table_column list"
  tb_indexes :: "table_index list"

type_synonym shape = "(string \<times> table_shape) list"

definition col :: "string \<Rightarrow> string \<Rightarrow> table_column" where
  "col n t = \<lparr>co_name = n, co_type = t, co_nullable = False, co_default = False, co_primary = False\<rparr>"

definition nullable :: "string \<Rightarrow> string \<Rightarrow> table_column" where
  "nullable n t = (col n t)\<lparr>co_nullable := True\<rparr>"

definition key :: "string \<Rightarrow> string \<Rightarrow> table_column" where
  "key n t = (col n t)\<lparr>co_primary := True\<rparr>"

text \<open>\<open>index=True\<close> names its index after table and column.\<close>

definition table :: "string \<Rightarrow> table_column list \<Rightarrow> (string \<times> bool) list \<Rightarrow> string \<times> table_shape" where
  "table n columns indexed =
     (n, \<lparr>tb_columns = columns,
         tb_indexes = map (\<lambda>(c, u). \<lparr>ix_name = ''ix_'' @ n @ ''_'' @ c, ix_columns = [c], ix_unique = u\<rparr>)
           indexed\<rparr>)"

section \<open>The declared tables\<close>

definition authority_state_table :: "string \<times> table_shape" where
  "authority_state_table = table ''hub_authority_state''
     [key ''singleton_id'' ''INTEGER'', col ''owner_domain_id'' ''VARCHAR(255)'',
      col ''owner_domain_generation'' ''INTEGER'', col ''state_id'' ''VARCHAR(128)'']
     []"

definition device_table :: "string \<times> table_shape" where
  "device_table = table ''hub_device_directory_v1''
     [key ''device_id'' ''VARCHAR(255)'', col ''display_name'' ''VARCHAR(512)'',
      col ''device_kind'' ''VARCHAR(255)'', col ''manifest_json'' ''TEXT'',
      nullable ''output_policy_json'' ''TEXT'', col ''manifest_revision'' ''VARCHAR(80)'',
      col ''manifest_declared_revision'' ''INTEGER'', col ''enrolled_at'' ''DATETIME'',
      col ''updated_at'' ''DATETIME'', col ''owner_domain_generation'' ''INTEGER'',
      col ''claim_generation'' ''INTEGER'', col ''trust_epoch'' ''INTEGER'',
      col ''aggregate_revision'' ''INTEGER'', nullable ''owner_id'' ''VARCHAR(255)'',
      col ''lifecycle_state'' ''VARCHAR(32)'',
      col ''last_management_request_id'' ''VARCHAR(255)'',
      col ''last_management_fingerprint'' ''VARCHAR(128)'']
     [(''device_kind'', False), (''updated_at'', False), (''owner_id'', False),
      (''lifecycle_state'', False)]"

definition device_management_event_table :: "string \<times> table_shape" where
  "device_management_event_table = table ''hub_events''
     [key ''stream_position'' ''INTEGER'', col ''event_id'' ''VARCHAR(255)'',
      col ''event_type'' ''VARCHAR(255)'', col ''source'' ''VARCHAR(512)'',
      col ''principal_id'' ''VARCHAR(255)'', col ''subject'' ''VARCHAR(512)'',
      col ''owner_id'' ''VARCHAR(255)'', col ''occurred_at'' ''DATETIME'',
      col ''data_json'' ''TEXT'']
     [(''event_id'', True), (''event_type'', False), (''principal_id'', False),
      (''subject'', False), (''owner_id'', False), (''occurred_at'', False)]"

definition channel_revocation_delivery_table :: "string \<times> table_shape" where
  "channel_revocation_delivery_table = table ''hub_channel_revocation_delivery_v1''
     [key ''source_event_id'' ''VARCHAR(128)'', col ''operation_id'' ''VARCHAR(128)'',
      col ''device_id'' ''VARCHAR(128)'', col ''owner_domain_id'' ''VARCHAR(128)'',
      col ''owner_domain_generation'' ''INTEGER'', col ''claim_generation'' ''INTEGER'',
      col ''trust_epoch'' ''INTEGER'', col ''reason'' ''VARCHAR(256)'',
      col ''state'' ''VARCHAR(24)'', col ''attempt_count'' ''INTEGER'',
      col ''next_attempt_at'' ''DATETIME'', nullable ''delivered_at'' ''DATETIME'',
      col ''result_code'' ''VARCHAR(128)'', col ''last_error'' ''VARCHAR(512)'']
     [(''device_id'', False), (''owner_domain_id'', False), (''state'', False),
      (''next_attempt_at'', False)]"

definition device_erase_operation_table :: "string \<times> table_shape" where
  "device_erase_operation_table = table ''hub_device_erase_operations''
     [key ''operation_id'' ''VARCHAR(255)'', col ''source_event_id'' ''VARCHAR(255)'',
      col ''request_fingerprint'' ''VARCHAR(128)'', col ''device_id'' ''VARCHAR(255)'',
      col ''owner_domain_id'' ''VARCHAR(255)'', col ''owner_domain_generation'' ''INTEGER'',
      col ''claim_generation'' ''INTEGER'', col ''trust_epoch'' ''INTEGER'',
      col ''accepted_manifest_digest'' ''VARCHAR(128)'',
      nullable ''public_key_spki'' ''VARCHAR(256)'', nullable ''key_id'' ''VARCHAR(128)'',
      col ''command_json'' ''TEXT'', col ''state'' ''VARCHAR(32)'',
      col ''created_at'' ''DATETIME'', col ''deadline'' ''DATETIME'',
      col ''attempt_count'' ''INTEGER'', nullable ''delivery_attempt_id'' ''VARCHAR(255)'',
      nullable ''delivery_accepted_at'' ''DATETIME'',
      nullable ''acknowledged_at'' ''DATETIME'',
      nullable ''terminal_result'' ''VARCHAR(64)'', col ''result_code'' ''VARCHAR(128)'',
      col ''last_error_code'' ''VARCHAR(128)'']
     [(''device_id'', False), (''owner_domain_id'', False), (''state'', False),
      (''deadline'', False)]"

definition device_erase_ack_evidence_table :: "string \<times> table_shape" where
  "device_erase_ack_evidence_table = table ''hub_device_erase_ack_evidence''
     [key ''operation_id'' ''VARCHAR(255)'', key ''ack_sequence'' ''INTEGER'',
      col ''ack_fingerprint'' ''VARCHAR(128)'', col ''received_at'' ''DATETIME'',
      col ''applied'' ''INTEGER'', col ''result'' ''VARCHAR(64)'',
      col ''result_code'' ''VARCHAR(128)'']
     []"

definition admission_base_identity_table :: "string \<times> table_shape" where
  "admission_base_identity_table = table ''admission_base_identities_v1''
     [key ''device_base_id'' ''VARCHAR(128)'', col ''owner_domain_id'' ''VARCHAR(128)'',
      col ''hardware_identity_ref'' ''VARCHAR(128)'',
      col ''operational_key_id'' ''VARCHAR(71)'', col ''provenance'' ''VARCHAR(32)'',
      col ''bound_at'' ''DATETIME'']
     [(''owner_domain_id'', False), (''hardware_identity_ref'', False),
      (''operational_key_id'', True)]"

definition admission_commissioning_voucher_table :: "string \<times> table_shape" where
  "admission_commissioning_voucher_table = table ''admission_commissioning_vouchers_v1''
     [key ''jti'' ''VARCHAR(256)'', col ''device_base_id'' ''VARCHAR(128)'',
      col ''operational_key_id'' ''VARCHAR(71)'', col ''expires_at'' ''DATETIME'',
      col ''consumed_at'' ''DATETIME'']
     [(''device_base_id'', False), (''expires_at'', False)]"

definition admission_commissioning_standing_table :: "string \<times> table_shape" where
  "admission_commissioning_standing_table = table ''admission_commissioning_standings_v1''
     [key ''jti'' ''VARCHAR(256)'', col ''operational_key_id'' ''VARCHAR(71)'',
      col ''owner_domain_id'' ''VARCHAR(128)'', col ''business_owner_id'' ''VARCHAR(128)'',
      col ''actor_json'' ''TEXT'', col ''recorded_at'' ''DATETIME'']
     [(''operational_key_id'', False), (''owner_domain_id'', False)]"

definition admission_controller_withdrawal_table :: "string \<times> table_shape" where
  "admission_controller_withdrawal_table = table ''admission_controller_withdrawals_v1''
     [key ''owner_domain_id'' ''VARCHAR(128)'', key ''principal_id'' ''VARCHAR(128)'',
      col ''withdrawn_at'' ''DATETIME'', col ''actor_json'' ''TEXT'']
     []"

definition admission_proposal_table :: "string \<times> table_shape" where
  "admission_proposal_table = table ''admission_proposals_v1''
     [key ''enrollment_id'' ''VARCHAR(128)'', col ''device_instance_id'' ''VARCHAR(128)'',
      col ''hardware_identity_ref'' ''VARCHAR(128)'',
      col ''requested_owner_domain_id'' ''VARCHAR(128)'', col ''state'' ''VARCHAR(48)'',
      col ''revision'' ''INTEGER'', col ''hardware_evidence_digest'' ''VARCHAR(71)'',
      col ''commissioning_proof_digest'' ''VARCHAR(71)'',
      col ''manifest_id'' ''VARCHAR(128)'', col ''manifest_revision'' ''INTEGER'',
      col ''manifest_digest'' ''VARCHAR(71)'', col ''manifest_json'' ''TEXT'',
      nullable ''output_policy_json'' ''TEXT'', col ''handoff_public_key_spki'' ''TEXT'',
      col ''handoff_key_id'' ''VARCHAR(71)'', col ''operational_public_key_spki'' ''TEXT'',
      col ''operational_key_id'' ''VARCHAR(71)'',
      col ''collection_challenge_hash'' ''VARCHAR(64)'', col ''created_at'' ''DATETIME'',
      col ''expires_at'' ''DATETIME'', col ''updated_at'' ''DATETIME'']
     [(''device_instance_id'', False), (''hardware_identity_ref'', False),
      (''requested_owner_domain_id'', False), (''state'', False), (''expires_at'', False)]"

definition admission_decision_table :: "string \<times> table_shape" where
  "admission_decision_table = table ''admission_decisions_v1''
     [key ''decision_id'' ''VARCHAR(128)'', col ''enrollment_id'' ''VARCHAR(128)'',
      col ''decision'' ''VARCHAR(16)'', col ''actor_json'' ''TEXT'',
      col ''target_owner_domain_id'' ''VARCHAR(128)'',
      col ''target_business_owner_id'' ''VARCHAR(128)'',
      col ''reviewed_manifest_json'' ''TEXT'',
      col ''expected_proposal_revision'' ''INTEGER'', col ''decided_at'' ''DATETIME'']
     [(''enrollment_id'', True), (''target_owner_domain_id'', False),
      (''target_business_owner_id'', False)]"

definition admission_grant_table :: "string \<times> table_shape" where
  "admission_grant_table = table ''admission_claim_grants_v1''
     [key ''grant_id'' ''VARCHAR(128)'', col ''enrollment_id'' ''VARCHAR(128)'',
      col ''decision_id'' ''VARCHAR(128)'', col ''owner_domain_id'' ''VARCHAR(128)'',
      col ''hardware_identity_ref'' ''VARCHAR(128)'', col ''claim_generation'' ''INTEGER'',
      col ''device_ref_json'' ''TEXT'', col ''manifest_ref_json'' ''TEXT'',
      col ''handoff_key_id'' ''VARCHAR(71)'', col ''operational_key_id'' ''VARCHAR(71)'',
      col ''grant_json'' ''TEXT'', nullable ''wire_envelope_json'' ''TEXT'',
      col ''issued_at'' ''DATETIME'', col ''expires_at'' ''DATETIME'',
      nullable ''delivered_at'' ''DATETIME'', nullable ''revoked_at'' ''DATETIME'']
     [(''enrollment_id'', True), (''owner_domain_id'', False),
      (''hardware_identity_ref'', False), (''expires_at'', False)]"

definition admission_grant_ack_table :: "string \<times> table_shape" where
  "admission_grant_ack_table = table ''admission_grant_acks_v1''
     [key ''grant_id'' ''VARCHAR(128)'', col ''enrollment_id'' ''VARCHAR(128)'',
      col ''proof_fingerprint'' ''VARCHAR(71)'', col ''device_ref_json'' ''TEXT'',
      col ''acknowledged_at'' ''DATETIME'']
     []"

definition admission_claim_table :: "string \<times> table_shape" where
  "admission_claim_table = table ''admission_claims_v1''
     [key ''device_instance_id'' ''VARCHAR(128)'', col ''owner_domain_id'' ''VARCHAR(128)'',
      col ''business_owner_id'' ''VARCHAR(128)'',
      col ''hardware_identity_ref'' ''VARCHAR(128)'',
      col ''owner_domain_generation'' ''INTEGER'', col ''claim_generation'' ''INTEGER'',
      col ''trust_epoch'' ''INTEGER'', col ''manifest_ref_json'' ''TEXT'',
      col ''approval_decision_id'' ''VARCHAR(128)'',
      col ''operational_public_key_spki'' ''TEXT'', col ''state'' ''VARCHAR(24)'',
      col ''revision'' ''INTEGER'', nullable ''activated_at'' ''DATETIME'',
      col ''updated_at'' ''DATETIME'', nullable ''revoked_at'' ''DATETIME'']
     [(''owner_domain_id'', False), (''business_owner_id'', False),
      (''hardware_identity_ref'', False), (''state'', False)]"

definition admission_command_result_table :: "string \<times> table_shape" where
  "admission_command_result_table = table ''admission_command_results_v1''
     [key ''owner_domain_id'' ''VARCHAR(128)'', key ''command_type'' ''VARCHAR(96)'',
      key ''command_id'' ''VARCHAR(128)'', col ''fingerprint'' ''VARCHAR(71)'',
      col ''result_json'' ''TEXT'', col ''occurred_at'' ''DATETIME'']
     []"

definition admission_outbox_table :: "string \<times> table_shape" where
  "admission_outbox_table = table ''admission_outbox_v1''
     [key ''event_id'' ''VARCHAR(128)'', col ''event_type'' ''VARCHAR(128)'',
      col ''source'' ''VARCHAR(128)'', col ''aggregate_id'' ''VARCHAR(128)'',
      col ''aggregate_revision'' ''INTEGER'', col ''event_json'' ''TEXT'',
      col ''occurred_at'' ''DATETIME'', nullable ''published_at'' ''DATETIME'',
      col ''publish_attempts'' ''INTEGER'', col ''last_error'' ''VARCHAR(512)'']
     [(''event_type'', False), (''aggregate_id'', False)]"

definition admission_claim_event_stream_table :: "string \<times> table_shape" where
  "admission_claim_event_stream_table = table ''admission_claim_event_stream_v1''
     [key ''stream_position'' ''INTEGER'', col ''event_id'' ''VARCHAR(128)'',
      col ''owner_domain_id'' ''VARCHAR(128)'', col ''event_type'' ''VARCHAR(128)'',
      col ''event_json'' ''TEXT'', col ''occurred_at'' ''DATETIME'']
     [(''event_id'', True), (''owner_domain_id'', False), (''event_type'', False),
      (''occurred_at'', False)]"

definition hub_metadata :: shape where
  "hub_metadata =
     [authority_state_table, device_table, device_management_event_table,
      channel_revocation_delivery_table, device_erase_operation_table,
      device_erase_ack_evidence_table, admission_base_identity_table,
      admission_commissioning_voucher_table, admission_commissioning_standing_table,
      admission_controller_withdrawal_table, admission_proposal_table,
      admission_decision_table, admission_grant_table, admission_grant_ack_table,
      admission_claim_table, admission_command_result_table, admission_outbox_table,
      admission_claim_event_stream_table]"

section \<open>What a start adds\<close>

definition column_names :: "table_shape \<Rightarrow> string list" where
  "column_names t = map co_name (tb_columns t)"

text \<open>A nullable column, or one with a default, is added; any other is left to the checks.\<close>

definition add_columns :: "table_shape \<Rightarrow> table_shape \<Rightarrow> table_shape" where
  "add_columns expected actual =
     actual\<lparr>tb_columns := tb_columns actual
        @ filter (\<lambda>c. co_name c \<notin> set (column_names actual) \<and> (co_nullable c \<or> co_default c))
            (tb_columns expected)\<rparr>"

definition add_missing_columns :: "shape \<Rightarrow> shape \<Rightarrow> shape" where
  "add_missing_columns meta actual =
     map (\<lambda>(n, t). case map_of meta n of None \<Rightarrow> (n, t) | Some e \<Rightarrow> (n, add_columns e t)) actual"

definition manifest_revision_column :: table_column where
  "manifest_revision_column = (col ''manifest_declared_revision'' ''INTEGER'')\<lparr>co_default := True\<rparr>"

definition add_manifest_revision :: "shape \<Rightarrow> shape" where
  "add_manifest_revision actual =
     map (\<lambda>(n, t).
       if n = ''hub_device_directory_v1'' \<and> ''manifest_declared_revision'' \<notin> set (column_names t)
       then (n, t\<lparr>tb_columns := tb_columns t @ [manifest_revision_column]\<rparr>) else (n, t)) actual"

text \<open>\<open>table_name.startswith("admission_")\<close>.\<close>

definition additive_table :: "string \<Rightarrow> bool" where
  "additive_table n \<longleftrightarrow> take 10 n = ''admission_'' \<or> n = ''hub_channel_revocation_delivery_v1''"

definition missing_tables :: "shape \<Rightarrow> shape \<Rightarrow> shape" where
  "missing_tables meta actual = filter (\<lambda>(n, e). n \<notin> fst ` set actual) meta"

definition add_missing_tables :: "shape \<Rightarrow> shape \<Rightarrow> shape" where
  "add_missing_tables meta actual =
     (if list_all (\<lambda>(n, e). additive_table n) (missing_tables meta actual)
      then actual @ sort_key fst (missing_tables meta actual) else actual)"

definition upgrade :: "shape \<Rightarrow> shape \<Rightarrow> shape" where
  "upgrade meta actual =
     add_missing_tables meta (add_manifest_revision (add_missing_columns meta actual))"

section \<open>What a start refuses\<close>

datatype schema_problem =
  Tables_missing "string list"
| Columns_missing string "string list"
| Unwritable_columns string "string list"
| Definitions_differ string
| Indexes_missing string "string list"
| Rejecting_indexes string "string list"

definition contract :: "table_column \<Rightarrow> string \<times> string \<times> bool \<times> bool" where
  "contract c = (co_name c, co_type c, co_nullable c, co_primary c)"

definition missing_columns :: "table_shape \<Rightarrow> table_shape \<Rightarrow> string list" where
  "missing_columns expected actual =
     filter (\<lambda>n. n \<notin> set (column_names actual)) (column_names expected)"

definition unwritable_columns :: "table_shape \<Rightarrow> table_shape \<Rightarrow> string list" where
  "unwritable_columns expected actual =
     map co_name (filter (\<lambda>c. co_name c \<notin> set (column_names expected) \<and> \<not> co_nullable c \<and> \<not> co_default c)
       (tb_columns actual))"

definition same_contract :: "table_shape \<Rightarrow> table_shape \<Rightarrow> bool" where
  "same_contract expected actual \<longleftrightarrow>
     set (map contract (filter (\<lambda>c. co_name c \<in> set (column_names expected)) (tb_columns actual)))
       = set (map contract (tb_columns expected))"

definition missing_indexes :: "table_shape \<Rightarrow> table_shape \<Rightarrow> string list" where
  "missing_indexes expected actual =
     map ix_name (filter (\<lambda>i. i \<notin> set (tb_indexes actual)) (tb_indexes expected))"

definition rejecting_indexes :: "table_shape \<Rightarrow> table_shape \<Rightarrow> string list" where
  "rejecting_indexes expected actual =
     map ix_name (filter (\<lambda>i. i \<notin> set (tb_indexes expected) \<and> ix_unique i) (tb_indexes actual))"

definition reported :: "(string list \<Rightarrow> schema_problem) \<Rightarrow> string list \<Rightarrow> schema_problem list" where
  "reported problem names = (if names = [] then [] else [problem (sort names)])"

definition table_problems :: "string \<Rightarrow> table_shape \<Rightarrow> table_shape \<Rightarrow> schema_problem list" where
  "table_problems n expected actual =
     (if missing_columns expected actual \<noteq> []
      then reported (Columns_missing n) (missing_columns expected actual)
      else reported (Unwritable_columns n) (unwritable_columns expected actual)
         @ (if same_contract expected actual then [] else [Definitions_differ n])
         @ reported (Indexes_missing n) (missing_indexes expected actual)
         @ reported (Rejecting_indexes n) (rejecting_indexes expected actual))"

definition schema_problems :: "shape \<Rightarrow> shape \<Rightarrow> schema_problem list" where
  "schema_problems meta actual =
     reported Tables_missing (map fst (missing_tables meta actual))
     @ concat (map (\<lambda>n. case (map_of meta n, map_of actual n) of
          (Some e, Some t) \<Rightarrow> table_problems n e t | _ \<Rightarrow> [])
        (sort (filter (\<lambda>n. n \<in> fst ` set meta) (map fst actual))))"

lemma reported_Nil [simp]: "reported p ns = [] \<longleftrightarrow> ns = []"
  by (simp add: reported_def)

text \<open>Two releases: the later declares all the earlier does, and more that may be left empty.\<close>

definition extends_table :: "table_shape \<Rightarrow> table_shape \<Rightarrow> bool" where
  "extends_table e e' \<longleftrightarrow>
     set (tb_columns e) \<subseteq> set (tb_columns e') \<and> distinct (column_names e')
     \<and> (\<forall>c \<in> set (tb_columns e'). co_name c \<in> set (column_names e) \<or> co_nullable c)
     \<and> set (tb_indexes e) \<subseteq> set (tb_indexes e')
     \<and> (\<forall>i \<in> set (tb_indexes e'). i \<in> set (tb_indexes e) \<or> \<not> ix_unique i)"

definition extends :: "shape \<Rightarrow> shape \<Rightarrow> bool" where
  "extends meta meta' \<longleftrightarrow>
     (\<forall>(n, e) \<in> set meta. case map_of meta' n of None \<Rightarrow> False | Some e' \<Rightarrow> extends_table e e')"

end
