(* ===== verification/Claim_Repair.thy ===== *)
theory Claim_Repair
  imports Claim_Stream "HOL-Library.Multiset"
begin

text \<open>
  The repair of Claim event revisions at start (\<open>repair_claim_revisions\<close> of
  \<open>hub/adapters/persistence/claim_revision_migration.py\<close>): an earlier release numbered the
  events of a device from 1 again when it was claimed again.
\<close>

section \<open>The repair\<close>

datatype repair_error =
  No_device_ref
| Needs_recovery
| Claim_row_missing
| Claim_disagrees
| Outbox_row_missing
| Outbox_disagrees

type_synonym generation = "int \<times> int \<times> int"
type_synonym changes = "(stream_row \<times> int) list"

definition generation_of :: "device_ref \<Rightarrow> generation" where
  "generation_of r = (owner_domain_generation r, claim_generation r, trust_epoch r)"

definition history_key :: "stream_row \<Rightarrow> string \<times> string" where
  "history_key r = (ae_owner_domain_id (se_event r), ae_subject (se_event r))"

definition revision_of :: "stream_row \<Rightarrow> int" where
  "revision_of r = ae_aggregate_revision (se_event r)"

text \<open>\<open>histories.setdefault(key, []).append(row)\<close>.\<close>

fun append_history :: "stream_row \<Rightarrow> ((string \<times> string) \<times> stream_row list) list \<Rightarrow>
    ((string \<times> string) \<times> stream_row list) list" where
  "append_history r [] = [(history_key r, [r])]"
| "append_history r ((k, h) # hs) =
     (if k = history_key r then (k, h @ [r]) # hs else (k, h) # append_history r hs)"

definition histories :: "stream_row list \<Rightarrow> ((string \<times> string) \<times> stream_row list) list" where
  "histories rows = foldl (\<lambda>hs r. append_history r hs) [] rows"

text \<open>The rows whose revision has to change, and the last revision of the history.\<close>

fun scan_history ::
  "int \<Rightarrow> generation option \<Rightarrow> stream_row list \<Rightarrow> repair_error + changes \<times> int" where
  "scan_history previous previous_generation [] = Inr ([], previous)"
| "scan_history previous previous_generation (r # rs) =
     andthen (present (event_ref (ae_data (se_event r))) No_device_ref) (\<lambda>ref.
       let revision = revision_of r; generation = generation_of ref in
       andthen (require (revision > previous
                  \<or> ae_type (se_event r) = ''live.eidolon.device.claim-activated.v1'' \<and> revision = 1
                    \<and> (case previous_generation of None \<Rightarrow> False | Some g \<Rightarrow> g < generation))
                 Needs_recovery) (\<lambda>_.
         let candidate = (if revision \<le> previous then previous + 1 else revision) in
         andthen (scan_history candidate (Some generation) rs) (\<lambda>(changes, final).
           Inr (if candidate \<noteq> revision then (r, candidate) # changes else changes, final))))"

definition with_revision :: "int \<Rightarrow> admission_event \<Rightarrow> admission_event" where
  "with_revision revision event = event\<lparr>ae_aggregate_revision := revision\<rparr>"

fun apply_changes :: "changes \<Rightarrow> hub_db \<Rightarrow> repair_error + hub_db" where
  "apply_changes [] db = Inr db"
| "apply_changes ((r, revision) # changes) db =
     andthen (present (tget ob_event_id (se_event_id r) (outbox db)) Outbox_row_missing) (\<lambda>o'.
     andthen (require (ob_event o' = se_event r) Outbox_disagrees) (\<lambda>_.
       apply_changes changes
         (db\<lparr>claim_stream := tupd se_event_id (se_event_id r)
                (\<lambda>s. s\<lparr>se_event := with_revision revision (se_event r)\<rparr>) (claim_stream db),
             outbox := tupd ob_event_id (se_event_id r)
                (\<lambda>b. b\<lparr>ob_event := with_revision revision (se_event r), ob_aggregate_revision := revision\<rparr>)
                (outbox db)\<rparr>)))"

definition repair_history :: "stream_row list \<Rightarrow> hub_db \<Rightarrow> repair_error + hub_db \<times> nat" where
  "repair_history h db =
     andthen (scan_history 0 None h) (\<lambda>(changes, final).
       if changes = [] then Inr (db, 0)
       else andthen (present (event_ref (ae_data (se_event (last h)))) No_device_ref) (\<lambda>ref.
            andthen (present (get_claim db (device_instance_id ref)) Claim_row_missing) (\<lambda>claim.
            andthen (require (cl_revision claim = final) Claim_disagrees) (\<lambda>_.
            andthen (apply_changes changes db) (\<lambda>db'. Inr (db', length changes))))))"

fun repair_histories :: "stream_row list list \<Rightarrow> hub_db \<Rightarrow> repair_error + hub_db \<times> nat" where
  "repair_histories [] db = Inr (db, 0)"
| "repair_histories (h # hs) db =
     andthen (repair_history h db) (\<lambda>(db1, n).
     andthen (repair_histories hs db1) (\<lambda>(db2, m). Inr (db2, n + m)))"

definition repair_claim_revisions :: "hub_db \<Rightarrow> repair_error + hub_db \<times> nat" where
  "repair_claim_revisions db =
     repair_histories (map snd (histories (order_by se_stream_position (claim_stream db)))) db"

section \<open>What a repair does to the rows\<close>

text \<open>The stream row after the changes, and a history whose revisions increase.\<close>

definition repaired_row :: "changes \<Rightarrow> stream_row \<Rightarrow> stream_row" where
  "repaired_row changes r =
     (case find (\<lambda>(s, v). se_event_id s = se_event_id r) changes of
        None \<Rightarrow> r
      | Some (s, v) \<Rightarrow> r\<lparr>se_event := with_revision v (se_event s)\<rparr>)"

definition increasing :: "stream_row list \<Rightarrow> bool" where
  "increasing h = sorted_wrt (<) (0 # map revision_of h)"

abbreviation readable :: "stream_row list \<Rightarrow> bool" where
  "readable h \<equiv> \<forall>r \<in> set h. event_ref (ae_data (se_event r)) \<noteq> None"

definition same_but_revision :: "(stream_row \<Rightarrow> stream_row) \<Rightarrow> stream_row list \<Rightarrow> bool" where
  "same_but_revision f rows = (\<forall>r \<in> set rows. \<exists>v. f r = r\<lparr>se_event := with_revision v (se_event r)\<rparr>)"

lemma repaired_row_Nil [simp]: "repaired_row [] r = r"
  by (simp add: repaired_row_def)

lemma repaired_row_none: "repaired_row [] = (\<lambda>r. r)"
  by (rule ext) simp

lemma repaired_row_Cons:
  "repaired_row ((s, v) # ch) r =
     (if se_event_id s = se_event_id r then r\<lparr>se_event := with_revision v (se_event s)\<rparr> else repaired_row ch r)"
  by (simp add: repaired_row_def)

lemma repaired_row_other:
  "se_event_id r \<notin> (\<lambda>(s, v). se_event_id s) ` set ch \<Longrightarrow> repaired_row ch r = r"
  by (induction ch) (auto simp: repaired_row_Cons)

lemma scan_ConsE:
  assumes "scan_history p g (r # rs) = Inr (ch, q)"
  obtains c ref ch' where "scan_history c (Some (generation_of ref)) rs = Inr (ch', q)"
    "event_ref (ae_data (se_event r)) = Some ref" "p < c"
    "ch = (r, c) # ch' \<or> ch = ch' \<and> c = revision_of r"
proof -
  let ?c = "if revision_of r \<le> p then p + 1 else revision_of r"
  from assms obtain ref ch' where "scan_history ?c (Some (generation_of ref)) rs = Inr (ch', q)"
      "event_ref (ae_data (se_event r)) = Some ref" "ch = (if ?c \<noteq> revision_of r then (r, ?c) # ch' else ch')"
    by (auto simp: ok_iff Let_def split: prod.splits)
  then show thesis by (intro that [of ?c ref ch']) auto
qed

lemma scan_rows:
  "scan_history p g h = Inr (ch, q) \<Longrightarrow> (s, v) \<in> set ch \<Longrightarrow> s \<in> set h"
proof (induction h arbitrary: p g ch q)
  case (Cons r rs)
  from Cons.prems(1) obtain c ref ch' where s: "scan_history c (Some (generation_of ref)) rs = Inr (ch', q)"
      "ch = (r, c) # ch' \<or> ch = ch' \<and> c = revision_of r"
    by (rule scan_ConsE)
  from Cons.IH [OF s(1)] s(2) Cons.prems(2) show ?case by auto
qed simp

lemma scan_distinct:
  "scan_history p g h = Inr (ch, q) \<Longrightarrow> distinct (map se_event_id h) \<Longrightarrow>
   distinct (map (\<lambda>(s, v). se_event_id s) ch)"
proof (induction h arbitrary: p g ch q)
  case (Cons r rs)
  from Cons.prems(1) obtain c ref ch' where s: "scan_history c (Some (generation_of ref)) rs = Inr (ch', q)"
      "ch = (r, c) # ch' \<or> ch = ch' \<and> c = revision_of r"
    by (rule scan_ConsE)
  have "(\<lambda>(s, v). se_event_id s) ` set ch' \<subseteq> se_event_id ` set rs"
    using scan_rows [OF s(1)] by force
  with s(2) Cons.IH [OF s(1)] Cons.prems(2) show ?case by auto
qed simp

lemma scan_repairs:
  assumes "scan_history p g h = Inr (ch, q)" "distinct (map se_event_id h)"
  shows "sorted_wrt (<) (p # map (revision_of \<circ> repaired_row ch) h)" "same_but_revision (repaired_row ch) h" "readable h"
proof -
  have "sorted_wrt (<) (p # map (revision_of \<circ> repaired_row ch) h) \<and> same_but_revision (repaired_row ch) h \<and> readable h"
    using assms
  proof (induction h arbitrary: p g ch q)
    case Nil then show ?case by (simp add: same_but_revision_def)
  next
    case (Cons r rs)
    from Cons.prems(1) obtain c ref ch' where s: "scan_history c (Some (generation_of ref)) rs = Inr (ch', q)"
        "event_ref (ae_data (se_event r)) = Some ref" "p < c"
        "ch = (r, c) # ch' \<or> ch = ch' \<and> c = revision_of r"
      by (rule scan_ConsE)
    have out: "se_event_id r \<notin> (\<lambda>(s, v). se_event_id s) ` set ch'"
      using scan_rows [OF s(1)] Cons.prems(2) by force
    have tail: "repaired_row ch t = repaired_row ch' t" if "t \<in> set rs" for t
      using that Cons.prems(2) s(4) by (auto simp: repaired_row_Cons)
    have r: "repaired_row ch r = r\<lparr>se_event := with_revision c (se_event r)\<rparr>"
      using s(4) repaired_row_other [OF out] by (auto simp: repaired_row_Cons with_revision_def revision_of_def)
    then have "revision_of (repaired_row ch r) = c" by (simp add: revision_of_def with_revision_def)
    moreover have "same_but_revision (repaired_row ch) (r # rs) = same_but_revision (repaired_row ch') rs"
      using tail r by (auto simp: same_but_revision_def)
    moreover have IH: "sorted_wrt (<) (c # map (revision_of \<circ> repaired_row ch') rs)"
        "same_but_revision (repaired_row ch') rs" "readable rs"
      using Cons.IH [OF s(1)] Cons.prems(2) by (simp_all add: comp_def)
    moreover have "sorted_wrt (<) (map (\<lambda>x. revision_of (repaired_row ch x)) rs)"
      using IH(1) tail by (simp add: comp_def cong: map_cong)
    moreover have "p < revision_of (repaired_row ch x) \<and> c < revision_of (repaired_row ch x)" if "x \<in> set rs" for x
      using IH(1) s(3) that tail [OF that] by (auto intro: less_trans)
    ultimately show ?case using s(2,3) by (simp add: comp_def)
  qed
  then show "sorted_wrt (<) (p # map (revision_of \<circ> repaired_row ch) h)" "same_but_revision (repaired_row ch) h" "readable h"
    by blast+
qed

lemma apply_rows:
  assumes "apply_changes ch db = Inr db'" "distinct (map (\<lambda>(s, v). se_event_id s) ch)"
  shows "claim_stream db' = map (repaired_row ch) (claim_stream db)" "claims db' = claims db"
proof -
  have "claim_stream db' = map (repaired_row ch) (claim_stream db) \<and> claims db' = claims db"
    using assms
  proof (induction ch arbitrary: db)
    case (Cons c ch)
    obtain r v where c: "c = (r, v)" by (cases c)
    let ?f = "\<lambda>s. s\<lparr>se_event := with_revision v (se_event r)\<rparr>"
    from Cons.prems(1) c obtain db1 where s: "apply_changes ch db1 = Inr db'" "claims db1 = claims db"
        "claim_stream db1 = tupd se_event_id (se_event_id r) ?f (claim_stream db)"
      by (auto simp: ok_iff)
    have "repaired_row ch (if se_event_id t = se_event_id r then ?f t else t) = repaired_row (c # ch) t" for t
      using Cons.prems(2) c by (auto simp: repaired_row_Cons intro!: repaired_row_other)
    with Cons.IH [OF s(1)] Cons.prems(2) s(2,3) show ?case by (simp add: tupd_def)
  qed (simp add: repaired_row_none)
  then show "claim_stream db' = map (repaired_row ch) (claim_stream db)" "claims db' = claims db" by blast+
qed

lemma repair_history_rows:
  assumes "repair_history h db = Inr (db', n)" "distinct (map se_event_id h)"
  obtains f where "claim_stream db' = map f (claim_stream db)" "claims db' = claims db"
    "increasing (map f h)" "same_but_revision f h" "readable h"
    "\<And>r. se_event_id r \<notin> se_event_id ` set h \<Longrightarrow> f r = r"
proof -
  from assms(1) obtain ch q where s: "scan_history 0 None h = Inr (ch, q)"
      "ch = [] \<and> db' = db \<or> apply_changes ch db = Inr db'"
    by (auto simp: repair_history_def ok_iff split: if_splits)
  have "claim_stream db' = map (repaired_row ch) (claim_stream db) \<and> claims db' = claims db"
  proof (cases "ch = [] \<and> db' = db")
    case True
    then show ?thesis by (simp add: repaired_row_none)
  qed (use s(2) apply_rows [OF _ scan_distinct [OF s(1) assms(2)]] in blast)
  moreover have "(\<lambda>(s, v). se_event_id s) ` set ch \<subseteq> se_event_id ` set h"
    using scan_rows [OF s(1)] by force
  then have "repaired_row ch r = r" if "se_event_id r \<notin> se_event_id ` set h" for r
    using that by (intro repaired_row_other) blast
  ultimately show thesis
    using scan_repairs [OF s(1) assms(2)] by (intro that [of "repaired_row ch"]) (simp_all add: increasing_def)
qed

lemma same_but_revisionD:
  assumes "same_but_revision f rows" "r \<in> set rows"
  shows "se_event_id (f r) = se_event_id r" "se_stream_position (f r) = se_stream_position r"
    "history_key (f r) = history_key r" "ae_data (se_event (f r)) = ae_data (se_event r)"
  using assms by (auto simp: same_but_revision_def history_key_def with_revision_def)

lemma repair_histories_rows:
  assumes "repair_histories hs db = Inr (db', n)" "distinct (map se_event_id (concat hs))"
  obtains f where "claim_stream db' = map f (claim_stream db)" "claims db' = claims db"
    "same_but_revision f (concat hs)" "\<And>h. h \<in> set hs \<Longrightarrow> increasing (map f h) \<and> readable h"
    "\<And>r. se_event_id r \<notin> se_event_id ` set (concat hs) \<Longrightarrow> f r = r"
  using assms
proof (induction hs arbitrary: db n thesis)
  case Nil
  then show ?case by (intro Nil.prems(1) [of "\<lambda>r. r"]) (simp_all add: same_but_revision_def)
next
  case (Cons h hs)
  from Cons.prems(2) obtain db1 k m where s: "repair_history h db = Inr (db1, k)"
      "repair_histories hs db1 = Inr (db', m)"
    by (auto simp: ok_iff)
  have ids: "distinct (map se_event_id h)" "distinct (map se_event_id (concat hs))"
      "se_event_id ` set h \<inter> se_event_id ` set (concat hs) = {}"
    using Cons.prems(3) by auto
  from s(1) ids(1) obtain f where f: "claim_stream db1 = map f (claim_stream db)" "claims db1 = claims db"
      "increasing (map f h)" "same_but_revision f h" "readable h"
      "\<And>r. se_event_id r \<notin> se_event_id ` set h \<Longrightarrow> f r = r"
    by (rule repair_history_rows) blast
  from s(2) ids(2) obtain g where g: "claim_stream db' = map g (claim_stream db1)" "claims db' = claims db1"
      "same_but_revision g (concat hs)" "\<And>h. h \<in> set hs \<Longrightarrow> increasing (map g h) \<and> readable h"
      "\<And>r. se_event_id r \<notin> se_event_id ` set (concat hs) \<Longrightarrow> g r = r"
    by (rule Cons.IH [rotated]) blast
  have first: "g (f r) = f r" if "r \<in> set h" for r
    using that ids(3) same_but_revisionD(1) [OF f(4) that] by (intro g(5)) auto
  have rest: "f r = r" if "r \<in> set (concat hs)" for r
    using that ids(3) by (intro f(6)) blast
  show ?case
  proof (rule Cons.prems(1) [of "g \<circ> f"])
    show "same_but_revision (g \<circ> f) (concat (h # hs))"
      using f(4) g(3) first rest unfolding same_but_revision_def by fastforce
    show "increasing (map (g \<circ> f) h') \<and> readable h'" if "h' \<in> set (h # hs)" for h'
    proof (cases "h' = h")
      case True
      then have "map (g \<circ> f) h' = map f h" using first by simp
      with f(3,5) True show ?thesis by (simp only:)
    next
      case False
      with that have h': "h' \<in> set hs" by simp
      then have eq: "map (g \<circ> f) h' = map g h'" using rest by (intro map_cong) fastforce+
      show ?thesis unfolding eq by (rule g(4) [OF h'])
    qed
    show "(g \<circ> f) r = r" if "se_event_id r \<notin> se_event_id ` set (concat (h # hs))" for r
      using that f(6) [of r] g(5) [of r] by (simp add: image_Un)
  qed (use f g in simp_all)
qed

section \<open>Histories\<close>

lemma append_history_mset:
  "mset (concat (map snd (append_history r hs))) = add_mset r (mset (concat (map snd hs)))"
  by (induction r hs rule: append_history.induct) auto

lemma histories_snoc: "histories (rows @ [r]) = append_history r (histories rows)"
  by (simp add: histories_def)

lemma mset_histories: "mset (concat (map snd (histories rows))) = mset rows"
  by (induction rows rule: rev_induct) (simp_all add: histories_snoc append_history_mset, simp add: histories_def)

lemma append_history_map:
  assumes "\<forall>x \<in> set (concat (map snd hs)). history_key (f x) = history_key x" "history_key (f r) = history_key r"
  shows "append_history (f r) (map (\<lambda>(k, h). (k, map f h)) hs) = map (\<lambda>(k, h). (k, map f h)) (append_history r hs)"
  using assms by (induction r hs rule: append_history.induct) auto

lemma histories_map:
  "\<forall>r \<in> set rows. history_key (f r) = history_key r \<Longrightarrow>
   histories (map f rows) = map (\<lambda>(k, h). (k, map f h)) (histories rows)"
proof (induction rows rule: rev_induct)
  case (snoc r rows)
  have "set (concat (map snd (histories rows))) = set rows"
    using mset_histories [of rows] by (metis set_mset_mset)
  then have "\<forall>x \<in> set (concat (map snd (histories rows))). history_key (f x) = history_key x"
    using snoc.prems by simp
  with snoc append_history_map [of "histories rows" f r] show ?case by (simp add: histories_snoc)
qed (simp add: histories_def)

lemma append_history_filter:
  assumes "distinct (map fst hs)" "\<forall>(k, h) \<in> set hs. h = filter (\<lambda>x. history_key x = k) rows"
    and "\<forall>x \<in> set rows. history_key x \<in> fst ` set hs"
  shows "distinct (map fst (append_history r hs))
    \<and> (\<forall>(k, h) \<in> set (append_history r hs). h = filter (\<lambda>x. history_key x = k) (rows @ [r]))
    \<and> fst ` set (append_history r hs) = insert (history_key r) (fst ` set hs)"
proof -
  have keys: "fst ` set (append_history r hs) = insert (history_key r) (fst ` set hs)" for r hs
    by (induction r hs rule: append_history.induct) auto
  have "distinct (map fst (append_history r hs))"
    using assms(1) by (induction r hs rule: append_history.induct) (auto simp: keys image_iff)
  moreover have split: "k = history_key r \<and> ((\<exists>h'. (k, h') \<in> set hs \<and> h = h' @ [r]) \<or> k \<notin> fst ` set hs \<and> h = [r])
      \<or> k \<noteq> history_key r \<and> (k, h) \<in> set hs" if "(k, h) \<in> set (append_history r hs)" for k h
    using that assms(1) by (induction r hs rule: append_history.induct) (auto simp: image_iff split: if_splits)
  moreover have "h = filter (\<lambda>x. history_key x = k) (rows @ [r])" if "(k, h) \<in> set (append_history r hs)" for k h
  proof -
    have old: "h' = filter (\<lambda>x. history_key x = k) rows" if "(k, h') \<in> set hs" for h'
      using that assms(2) by auto
    have "filter (\<lambda>x. history_key x = k) rows = []" if "k \<notin> fst ` set hs"
      using that assms(3) by (auto simp: filter_empty_conv)
    with split [OF that] old show ?thesis by auto
  qed
  ultimately show ?thesis using keys by blast
qed

lemma histories_filter:
  "distinct (map fst (histories rows))
   \<and> (\<forall>(k, h) \<in> set (histories rows). h = filter (\<lambda>x. history_key x = k) rows)
   \<and> fst ` set (histories rows) = history_key ` set rows"
proof (induction rows rule: rev_induct)
  case (snoc r rows)
  with append_history_filter [of "histories rows" rows r] show ?case by (auto simp: histories_snoc)
qed (simp add: histories_def)

section \<open>A repaired stream is left alone\<close>

lemma scan_clean:
  "sorted_wrt (<) (p # map revision_of h) \<Longrightarrow> readable h \<Longrightarrow> \<exists>q. scan_history p g h = Inr ([], q)"
proof (induction h arbitrary: p g)
  case (Cons r rs)
  then obtain ref where "event_ref (ae_data (se_event r)) = Some ref" "p < revision_of r" by auto
  moreover from Cons.IH [of "revision_of r" "Some (generation_of ref)"] Cons.prems
  obtain q where "scan_history (revision_of r) (Some (generation_of ref)) rs = Inr ([], q)" by auto
  ultimately show ?case by (simp add: Let_def)
qed simp

lemma repair_clean: "\<forall>h \<in> set hs. increasing h \<and> readable h \<Longrightarrow> repair_histories hs db = Inr (db, 0)"
proof (induction hs)
  case (Cons h hs)
  with scan_clean [of 0 h None] show ?case by (auto simp: repair_history_def increasing_def)
qed simp

lemma order_by_map: "\<forall>r \<in> set rows. key (f r) = key r \<Longrightarrow> order_by key (map f rows) = map f (order_by key rows)"
proof -
  have ins: "\<forall>x \<in> set xs. key (f x) = key x \<Longrightarrow> key (f r) = key r \<Longrightarrow>
      insort_key key (f r) (map f xs) = map f (insort_key key r xs)" for r xs
    by (induction xs) auto
  show "\<forall>r \<in> set rows. key (f r) = key r \<Longrightarrow> ?thesis"
    by (induction rows) (auto simp: order_by_def ins)
qed

lemma repair_settles:
  assumes "repair_claim_revisions db = Inr (db', n)" "distinct (map se_event_id (claim_stream db))"
  shows "repair_claim_revisions db' = Inr (db', 0)
    \<and> (\<exists>f. claim_stream db' = map f (claim_stream db) \<and> same_but_revision f (claim_stream db))
    \<and> claims db' = claims db
    \<and> list_all increasing (map snd (histories (order_by se_stream_position (claim_stream db'))))"
proof -
  let ?rows = "order_by se_stream_position (claim_stream db)"
  let ?hs = "map snd (histories ?rows)"
  have ms: "mset (concat ?hs) = mset (claim_stream db)"
    unfolding mset_histories by (simp add: order_by_def)
  then have sets: "set (concat ?hs) = set (claim_stream db)" by (metis set_mset_mset)
  have "distinct (map se_event_id (concat ?hs))"
    using assms(2) ms by (metis mset_eq_imp_distinct_iff mset_map)
  with assms(1) obtain f where f: "claim_stream db' = map f (claim_stream db)" "claims db' = claims db"
      "same_but_revision f (concat ?hs)" "\<And>h. h \<in> set ?hs \<Longrightarrow> increasing (map f h) \<and> readable h"
    unfolding repair_claim_revisions_def by (rule repair_histories_rows) blast
  have same: "same_but_revision f (claim_stream db)"
    using f(3) unfolding same_but_revision_def sets .
  note keeps = same_but_revisionD [OF same]
  have rows: "order_by se_stream_position (claim_stream db') = map f ?rows"
    unfolding f(1) using keeps(2) by (intro order_by_map) blast
  have "map snd (histories (map f ?rows)) = map (map f) ?hs"
    using keeps(3) by (subst histories_map) (auto simp: order_by_def)
  moreover have "increasing h \<and> readable h" if "h \<in> set (map (map f) ?hs)" for h
  proof -
    from that obtain h0 where h0: "h0 \<in> set ?hs" "h = map f h0" by auto
    then have "set h0 \<subseteq> set (claim_stream db)" using sets by auto
    then have "ae_data (se_event (f r)) = ae_data (se_event r)" if "r \<in> set h0" for r
      using that keeps(4) by blast
    moreover have "increasing h" "readable h0" using f(4) [OF h0(1)] h0(2) by blast+
    ultimately show ?thesis using h0(2) by simp
  qed
  ultimately have "\<forall>h \<in> set (map snd (histories (map f ?rows))). increasing h \<and> readable h" by simp
  with repair_clean [of _ db'] f(1,2) same rows show ?thesis
    by (auto simp: repair_claim_revisions_def list_all_iff)
qed

text \<open>
  C31: the repair of Claim revisions is made once. Where it succeeds, the revisions of every history increase, nothing but
  revisions has changed in the stream and no Claim at all, and repairing again finds nothing to do.
\<close>

theorem repair_is_final:
  assumes "repair_claim_revisions db = Inr (db', n)" "distinct (map se_event_id (claim_stream db))"
  shows "repair_claim_revisions db' = Inr (db', 0)
    \<and> (\<exists>f. claim_stream db' = map f (claim_stream db) \<and> same_but_revision f (claim_stream db))
    \<and> claims db' = claims db
    \<and> list_all increasing (map snd (histories (order_by se_stream_position (claim_stream db'))))"
  by (rule repair_settles [OF assms])

section \<open>Histories of this release\<close>

definition stream_readable :: "hub_db \<Rightarrow> bool" where
  "stream_readable db =
     (\<forall>r \<in> set (claim_stream db). \<exists>ref. event_ref (ae_data (se_event r)) = Some ref
        \<and> ae_subject (se_event r) = ''device-instances/'' @ device_instance_id ref)"

lemma readable_run: "stream_readable (run x au pj rs)"
proof (rule run_log_invariant)
  fix db db' assume "announces db db'" "stream_readable db"
  then show "stream_readable db'"
    by (auto simp: announces_def announcement_def stream_readable_def)
qed (auto simp: stream_readable_def empty_db_def claim_log_def)

lemma increasing_filter:
  assumes "map revision_of h = [1..n]"
  shows "increasing (filter p h)"
proof -
  have "sorted_wrt (<) (map revision_of h)"
    unfolding assms by (simp add: strict_sorted_iff)
  then have "sorted_wrt (<) (map revision_of (filter p h))"
    by (simp add: sorted_wrt_map sorted_wrt_filter)
  moreover have "revision_of r \<in> set [1..n]" if "r \<in> set h" for r
    using that assms by (metis image_eqI set_map)
  ultimately show ?thesis by (fastforce simp: increasing_def)
qed

text \<open>
  The repair never touches a history this release wrote. On every database the authority
  reaches it succeeds and changes nothing, so a start is never stopped by it.
\<close>

theorem repair_finds_nothing: "repair_claim_revisions (run x au pj rs) = Inr (run x au pj rs, 0)"
proof -
  let ?db = "run x au pj rs"
  have "order_by se_stream_position (claim_stream ?db) = claim_stream ?db"
    using numbered_run [of x au pj rs] by (simp add: order_by_def stream_numbered_def sort_key_id_if_sorted)
  moreover have "increasing h \<and> readable h" if kh: "(k, h) \<in> set (histories (claim_stream ?db))" for k h
  proof -
    have h: "h = filter (\<lambda>r. history_key r = k) (claim_stream ?db)"
      using histories_filter [of "claim_stream ?db"] kh by auto
    have "k \<in> fst ` set (histories (claim_stream ?db))" using imageI [OF kh, of fst] by simp
    then have "k \<in> history_key ` set (claim_stream ?db)"
      using histories_filter [of "claim_stream ?db"] by (simp only:)
    then obtain r where r: "r \<in> set (claim_stream ?db)" "history_key r = k" by blast
    then obtain ref where ref: "event_ref (ae_data (se_event r)) = Some ref"
        "snd k = ''device-instances/'' @ device_instance_id ref"
      using readable_run [of x au pj rs] unfolding stream_readable_def history_key_def by auto
    let ?dev = "device_instance_id ref"
    have events: "h = filter (\<lambda>r. history_key r = k) (device_events ?db ?dev)"
      unfolding h device_events_def filter_filter using ref(2) by (intro filter_cong) (auto simp: history_key_def)
    have "\<exists>n. map revision_of (device_events ?db ?dev) = [1..n]"
    proof (cases "get_claim ?db ?dev")
      case None
      with changelog_run [of x au pj rs ?dev] have "device_events ?db ?dev = []" by (simp add: changelog_def)
      then have "map revision_of (device_events ?db ?dev) = [1..0]" by simp
      then show ?thesis by blast
    next
      case (Some row)
      with changelog_run [of x au pj rs ?dev] show ?thesis
        by (auto simp: changelog_def revision_of_def [abs_def] comp_def)
    qed
    then have "increasing h" using increasing_filter events by metis
    moreover have "readable h" using readable_run [of x au pj rs] h by (auto simp: stream_readable_def)
    ultimately show ?thesis by blast
  qed
  ultimately show ?thesis
    unfolding repair_claim_revisions_def by (intro repair_clean) auto
qed

section \<open>A history of the earlier release\<close>

definition legacy_ref :: "int \<Rightarrow> device_ref" where
  "legacy_ref generation = \<lparr>device_instance_id = ''d'', ref_owner_domain_id = ''o'',
     owner_domain_generation = 1, claim_generation = generation, trust_epoch = 1\<rparr>"

definition legacy_event :: "string \<Rightarrow> string \<Rightarrow> int \<Rightarrow> event_data \<Rightarrow> admission_event" where
  "legacy_event eid ty revision payload =
     make_event eid ty ''device-instances/d'' ''o'' revision [] [] 0 payload"

definition legacy_activation :: "string \<Rightarrow> int \<Rightarrow> admission_event" where
  "legacy_activation eid generation = legacy_event eid claim_activated_type 1
     (Claim_activated_data (legacy_ref generation) ''u''
        \<lparr>manifest_id = ''m'', manifest_revision = 1, manifest_digest = []\<rparr> [] 0)"

definition legacy_revocation :: admission_event where
  "legacy_revocation = legacy_event ''b'' claim_revoked_type 2 (Claim_revoked_data (legacy_ref 1) [] 0)"

definition legacy_stream_row :: "int \<Rightarrow> admission_event \<Rightarrow> stream_row" where
  "legacy_stream_row position event = \<lparr>se_stream_position = position, se_event_id = ae_id event,
     se_owner_domain_id = ''o'', se_event_type = ae_type event, se_event = event, se_occurred_at = 0\<rparr>"

definition legacy_outbox_row :: "admission_event \<Rightarrow> outbox_row" where
  "legacy_outbox_row event = \<lparr>ob_event_id = ae_id event, ob_event_type = ae_type event,
     ob_aggregate_id = ''d'', ob_aggregate_revision = ae_aggregate_revision event, ob_event = event,
     ob_occurred_at = 0, ob_published_at = None, ob_publish_attempts = 0, ob_last_error = []\<rparr>"

definition legacy_claim :: claim_row where
  "legacy_claim = \<lparr>cl_device_instance_id = ''d'', cl_owner_domain_id = ''o'', cl_business_owner_id = ''u'',
     cl_hardware_identity_ref = [], cl_owner_domain_generation = 1, cl_claim_generation = 2, cl_trust_epoch = 1,
     cl_manifest_ref = \<lparr>manifest_id = ''m'', manifest_revision = 1, manifest_digest = []\<rparr>,
     cl_approval_decision_id = [], cl_operational_public_key_spki = [], cl_state = Active, cl_revision = 3,
     cl_activated_at = None, cl_updated_at = 0, cl_revoked_at = None\<rparr>"

text \<open>Claimed, revoked and claimed again: the third event starts from 1.\<close>

definition legacy_events :: "admission_event list" where
  "legacy_events = [legacy_activation ''a'' 1, legacy_revocation, legacy_activation ''c'' 2]"

definition legacy_db :: hub_db where
  "legacy_db = empty_db\<lparr>claims := [legacy_claim], stream_seq := 3,
     claim_stream := map2 legacy_stream_row [1, 2, 3] legacy_events,
     outbox := map legacy_outbox_row legacy_events\<rparr>"

lemma legacy_repaired: "\<exists>db'. repair_claim_revisions legacy_db = Inr (db', 1)"
proof -
  have "(case repair_claim_revisions legacy_db of Inl _ \<Rightarrow> 0 | Inr (db', n) \<Rightarrow> n) = 1" by code_simp
  then show ?thesis by (cases "repair_claim_revisions legacy_db") auto
qed

theorem repair_is_final_witness:
  "\<exists>db'. repair_claim_revisions legacy_db = Inr (db', 1) \<and> repair_claim_revisions db' = Inr (db', 0)"
proof -
  from legacy_repaired obtain db' where "repair_claim_revisions legacy_db = Inr (db', 1)" by blast
  moreover have "distinct (map se_event_id (claim_stream legacy_db))" by code_simp
  ultimately show ?thesis using repair_is_final by blast
qed

end
