(* ===== verification/Database_Start.thy ===== *)
theory Database_Start
  imports Database_Schema Claim_Repair Python_Values
begin

text \<open>
  Starting on a database (\<open>HubDatabase.initialize_schema\<close> of
  \<open>hub/adapters/persistence/database.py\<close>): one transaction that installs, upgrades and
  checks the schema and repairs the Claim events, then the two files beside the database, the lineage
  anchor and the bootstrap capability.  A start may be cut short after each of its writes, so
  it is the list of the disks it leaves.
\<close>

section \<open>The disk\<close>

text \<open>What \<open>json.loads\<close> makes of a file; \<open>Undecodable\<close> is one it cannot decode, an empty one included.\<close>

datatype stored_file = Absent | Undecodable | Holds json

record authority_row =
  ar_owner_domain_id :: string
  ar_owner_domain_generation :: int
  ar_state_id :: string

text \<open>The authority table has at most one row, as \<open>singleton_id\<close> is its key.\<close>

record host_disk =
  hd_shape :: shape
  hd_authority :: "authority_row option"
  hd_data :: hub_db
  hd_anchor :: stored_file
  hd_bootstrap :: stored_file

record start_config =
  sc_owner_domain_id :: string
  sc_owner_domain_generation :: int
  sc_bootstrap_path :: bool

datatype start_error =
  Anchor_invalid
| Bootstrap_invalid
| Lineage_exists
| No_capability
| Schema_mismatch "schema_problem list"
| Marker_missing
| Anchor_missing
| Generations_differ
| Anchor_appeared
| Repair_refused repair_error

definition read_anchor :: "host_disk \<Rightarrow> start_error + dict option" where
  "read_anchor d =
     (case hd_anchor d of
        Absent \<Rightarrow> Inr None
      | Holds (JObj v) \<Rightarrow> Inr (Some v)
      | _ \<Rightarrow> Inl Anchor_invalid)"

definition read_bootstrap :: "start_config \<Rightarrow> host_disk \<Rightarrow> start_error + dict option" where
  "read_bootstrap cfg d =
     (if \<not> sc_bootstrap_path cfg then Inr None
      else case hd_bootstrap d of
        Absent \<Rightarrow> Inr None
      | Holds (JObj v) \<Rightarrow> Inr (Some v)
      | _ \<Rightarrow> Inl Bootstrap_invalid)"

section \<open>The transaction\<close>

definition lineage :: "string \<Rightarrow> int \<Rightarrow> string \<Rightarrow> dict" where
  "lineage owner generation state_id =
     [(''contract_version'', JNum 1), (''owner_domain_id'', JStr owner),
      (''owner_domain_generation'', JNum (of_int generation)), (''state_id'', JStr state_id)]"

definition capability :: "string \<Rightarrow> int \<Rightarrow> dict" where
  "capability owner generation =
     [(''contract_version'', JNum 1), (''operation'', JStr ''owner-authority.bootstrap''),
      (''owner_domain_id'', JStr owner), (''owner_domain_generation'', JNum (of_int generation))]"

text \<open>\<open>bootstrap_marker\<close>: the capability with the state it was spent on.\<close>

definition bootstrap_marker :: "string \<Rightarrow> int \<Rightarrow> string \<Rightarrow> dict" where
  "bootstrap_marker owner generation state_id =
     [(''contract_version'', JNum 1), (''operation'', JStr ''owner-authority.bootstrap''),
      (''owner_domain_id'', JStr owner), (''owner_domain_generation'', JNum (of_int generation)),
      (''state_id'', JStr state_id)]"

definition implicit_bootstrap :: "start_config \<Rightarrow> dict option \<Rightarrow> dict option" where
  "implicit_bootstrap cfg bootstrap =
     (if bootstrap = None \<and> \<not> sc_bootstrap_path cfg
      then Some (bootstrap_marker (sc_owner_domain_id cfg) (sc_owner_domain_generation cfg)
             ''authority-state_test-only'')
      else bootstrap)"

definition usable_state :: "start_config \<Rightarrow> dict \<Rightarrow> string option" where
  "usable_state cfg bootstrap =
     (if list_all (\<lambda>(k, v). py_eq (dict_get bootstrap k) v)
           (capability (sc_owner_domain_id cfg) (sc_owner_domain_generation cfg))
      then (case dict_get bootstrap ''state_id'' of
              JStr s \<Rightarrow> (if take 16 s = ''authority-state_'' then Some s else None)
            | _ \<Rightarrow> None)
      else None)"

text \<open>
  What the transaction answers: the disk, whether the anchor has to be created, the marker and
  whether the bootstrap capability is spent.
\<close>

definition install_schema ::
  "start_config \<Rightarrow> shape \<Rightarrow> dict option \<Rightarrow> dict option \<Rightarrow> host_disk \<Rightarrow>
     start_error + host_disk \<times> bool \<times> dict \<times> bool" where
  "install_schema cfg meta anchor bootstrap d =
     andthen (require (anchor = None) Lineage_exists) (\<lambda>_.
     andthen (present (case implicit_bootstrap cfg bootstrap of None \<Rightarrow> None | Some b \<Rightarrow> usable_state cfg b)
               No_capability) (\<lambda>state_id.
       Inr (d\<lparr>hd_shape := meta,
             hd_authority := Some \<lparr>ar_owner_domain_id = sc_owner_domain_id cfg,
               ar_owner_domain_generation = sc_owner_domain_generation cfg, ar_state_id = state_id\<rparr>\<rparr>,
            True, lineage (sc_owner_domain_id cfg) (sc_owner_domain_generation cfg) state_id, True)))"

definition check_lineage ::
  "start_config \<Rightarrow> dict option \<Rightarrow> dict option \<Rightarrow> authority_row \<Rightarrow> start_error + bool \<times> dict \<times> bool" where
  "check_lineage cfg anchor bootstrap row =
     (let marker = lineage (ar_owner_domain_id row) (ar_owner_domain_generation row) (ar_state_id row);
          expected = lineage (sc_owner_domain_id cfg) (sc_owner_domain_generation cfg) (ar_state_id row);
          spent = bootstrap_marker (sc_owner_domain_id cfg) (sc_owner_domain_generation cfg) (ar_state_id row);
          matches = (case bootstrap of None \<Rightarrow> False | Some b \<Rightarrow> py_eq (JObj b) (JObj spent))
      in case anchor of
           None \<Rightarrow> (if matches then Inr (True, marker, True) else Inl Anchor_missing)
         | Some a \<Rightarrow>
             (if py_eq (JObj marker) (JObj expected) \<and> py_eq (JObj a) (JObj expected)
              then Inr (False, marker, matches) else Inl Generations_differ))"

definition upgrade_schema ::
  "start_config \<Rightarrow> shape \<Rightarrow> dict option \<Rightarrow> dict option \<Rightarrow> host_disk \<Rightarrow>
     start_error + host_disk \<times> bool \<times> dict \<times> bool" where
  "upgrade_schema cfg meta anchor bootstrap d =
     (let shape = upgrade meta (hd_shape d); problems = schema_problems meta shape
      in andthen (require (problems = []) (Schema_mismatch problems)) (\<lambda>_.
         andthen (present (hd_authority d) Marker_missing) (\<lambda>row.
         andthen (check_lineage cfg anchor bootstrap row) (\<lambda>answer.
           Inr (d\<lparr>hd_shape := shape\<rparr>, answer)))))"

definition initialize_tables ::
  "start_config \<Rightarrow> shape \<Rightarrow> dict option \<Rightarrow> dict option \<Rightarrow> host_disk \<Rightarrow>
     start_error + host_disk \<times> bool \<times> dict \<times> bool" where
  "initialize_tables cfg meta anchor bootstrap d =
     (if hd_shape d = [] then install_schema cfg meta anchor bootstrap d
      else upgrade_schema cfg meta anchor bootstrap d)"

definition repair_data :: "host_disk \<Rightarrow> start_error + host_disk" where
  "repair_data d =
     (case repair_claim_revisions (hd_data d) of
        Inl e \<Rightarrow> Inl (Repair_refused e)
      | Inr (db, n) \<Rightarrow> Inr (d\<lparr>hd_data := db\<rparr>))"

section \<open>The files\<close>

text \<open>Opening the anchor creates it empty; its text is written next.\<close>

definition create_anchor :: "dict \<Rightarrow> host_disk \<Rightarrow> start_error + host_disk list" where
  "create_anchor marker d =
     (if hd_anchor d = Absent
      then Inr [d\<lparr>hd_anchor := Undecodable\<rparr>, d\<lparr>hd_anchor := Holds (JObj marker)\<rparr>]
      else Inl Anchor_appeared)"

definition consume_bootstrap :: "start_config \<Rightarrow> host_disk \<Rightarrow> host_disk list" where
  "consume_bootstrap cfg d = (if sc_bootstrap_path cfg then [d\<lparr>hd_bootstrap := Absent\<rparr>] else [])"

definition initialize_schema :: "start_config \<Rightarrow> shape \<Rightarrow> host_disk \<Rightarrow> start_error + host_disk list" where
  "initialize_schema cfg meta d =
     andthen (read_anchor d) (\<lambda>anchor.
     andthen (read_bootstrap cfg d) (\<lambda>bootstrap.
     andthen (initialize_tables cfg meta anchor bootstrap d) (\<lambda>(d1, create, marker, consume).
     andthen (repair_data d1) (\<lambda>d2.
     andthen (if create then create_anchor marker d2 else Inr []) (\<lambda>anchored.
       let disks = d2 # anchored
       in Inr (disks @ (if consume then consume_bootstrap cfg (last disks) else [])))))))"

end
