(* ===== verification/Database_Properties.thy ===== *)
theory Database_Properties
  imports Database_Start
begin

text \<open>
  What a start promises: whatever it is cut short by, the next one ends where it would have
  ended, except in the write of the anchor; and an older release starts on what a newer one
  left, as long as the newer only added what may stay empty.
\<close>

section \<open>Shapes that need nothing\<close>

definition sound_metadata :: "shape \<Rightarrow> bool" where
  "sound_metadata meta \<longleftrightarrow> distinct (map fst meta) \<and>
     (case map_of meta ''hub_device_directory_v1'' of None \<Rightarrow> False
      | Some e \<Rightarrow> ''manifest_declared_revision'' \<in> set (column_names e))"

lemma sound_metadataD:
  assumes "sound_metadata meta" "(n, e) \<in> set meta"
  shows "map_of meta n = Some e"
    and "n = ''hub_device_directory_v1'' \<Longrightarrow> ''manifest_declared_revision'' \<in> set (column_names e)"
  using assms by (auto simp: sound_metadata_def split: option.splits)

lemma map_same: "(\<And>x. x \<in> set xs \<Longrightarrow> f x = x) \<Longrightarrow> map f xs = xs"
  by (induction xs) auto

lemma add_columns_same:
  assumes "\<And>c. c \<in> set (tb_columns e) \<Longrightarrow> co_nullable c \<or> co_default c \<Longrightarrow> co_name c \<in> set (column_names t)"
  shows "add_columns e t = t"
proof -
  have "filter (\<lambda>c. co_name c \<notin> set (column_names t) \<and> (co_nullable c \<or> co_default c)) (tb_columns e) = []"
    using assms by (auto simp: filter_empty_conv)
  then show ?thesis by (simp add: add_columns_def)
qed

lemma column_names_add: "co_name ` set (tb_columns (add_columns e t)) \<supseteq> co_name ` set (tb_columns t)"
  by (auto simp: add_columns_def)

lemma missing_tables_iff: "missing_tables meta s = [] \<longleftrightarrow> fst ` set meta \<subseteq> fst ` set s"
  by (force simp: missing_tables_def filter_empty_conv)

text \<open>A shape no addition changes.\<close>

definition settled :: "shape \<Rightarrow> shape \<Rightarrow> bool" where
  "settled meta s \<longleftrightarrow>
     (\<forall>(n, t) \<in> set s. \<forall>e. map_of meta n = Some e \<longrightarrow>
        (\<forall>c \<in> set (tb_columns e). co_nullable c \<or> co_default c \<longrightarrow> co_name c \<in> set (column_names t)))
     \<and> (\<forall>(n, t) \<in> set s. n = ''hub_device_directory_v1'' \<longrightarrow>
          ''manifest_declared_revision'' \<in> set (column_names t))
     \<and> fst ` set meta \<subseteq> fst ` set s"

lemma upgrade_settled: "settled meta s \<Longrightarrow> upgrade meta s = s"
proof -
  assume s: "settled meta s"
  have "add_missing_columns meta s = s"
    unfolding add_missing_columns_def
    using s by (intro map_same) (fastforce simp: settled_def intro!: add_columns_same split: option.split)
  moreover have "add_manifest_revision s = s"
    unfolding add_manifest_revision_def using s by (intro map_same) (auto simp: settled_def)
  moreover have "missing_tables meta s = []" using s by (simp add: settled_def missing_tables_iff)
  ultimately show ?thesis by (simp add: upgrade_def add_missing_tables_def)
qed

lemma settled_metadata: "sound_metadata meta \<Longrightarrow> settled meta meta"
  by (auto simp: settled_def column_names_def dest: sound_metadataD(1) sound_metadataD(2))

lemma problems_tables: "schema_problems meta s = [] \<Longrightarrow> fst ` set meta \<subseteq> fst ` set s"
  by (simp add: schema_problems_def missing_tables_iff)

lemma problems_table:
  assumes "schema_problems meta s = []" "map_of meta n = Some e" "map_of s n = Some t"
  shows "table_problems n e t = []"
proof -
  have "n \<in> fst ` set meta" "n \<in> fst ` set s"
    using assms(2,3) by (auto dest!: map_of_SomeD intro: rev_image_eqI)
  with assms(1) have "(case (map_of meta n, map_of s n) of (Some e, Some t) \<Rightarrow> table_problems n e t | _ \<Rightarrow> []) = []"
    by (auto simp: schema_problems_def)
  with assms(2,3) show ?thesis by simp
qed

lemma no_problems:
  assumes "fst ` set meta \<subseteq> fst ` set s"
    and "\<And>n e t. map_of meta n = Some e \<Longrightarrow> map_of s n = Some t \<Longrightarrow> table_problems n e t = []"
  shows "schema_problems meta s = []"
  using assms by (auto simp: schema_problems_def missing_tables_iff split: option.split)

lemma table_problems_iff:
  "table_problems n e t = [] \<longleftrightarrow> missing_columns e t = [] \<and> unwritable_columns e t = []
     \<and> same_contract e t \<and> missing_indexes e t = [] \<and> rejecting_indexes e t = []"
  by (simp add: table_problems_def)

lemma table_problems_self: "table_problems n e e = []"
proof -
  have "filter (\<lambda>c. co_name c \<in> set (column_names e)) (tb_columns e) = tb_columns e"
    by (simp add: column_names_def)
  then show ?thesis
    by (simp add: table_problems_iff missing_columns_def unwritable_columns_def same_contract_def
        missing_indexes_def rejecting_indexes_def filter_empty_conv column_names_def)
qed

lemma problems_self: "schema_problems meta meta = []"
  by (rule no_problems) (simp_all add: table_problems_self)

lemma column_names_manifest: "column_names (t\<lparr>tb_columns := tb_columns t @ cs\<rparr>) = column_names t @ map co_name cs"
  by (simp add: column_names_def)

lemma upgrade_settles:
  assumes "sound_metadata meta" "schema_problems meta (upgrade meta s) = []"
  shows "settled meta (upgrade meta s)"
proof -
  let ?s1 = "add_missing_columns meta s" and ?s2 = "add_manifest_revision (add_missing_columns meta s)"
  have one: "co_name c \<in> set (column_names t)"
    if "(n, t) \<in> set ?s1" "map_of meta n = Some e" "c \<in> set (tb_columns e)" "co_nullable c \<or> co_default c" for n t e c
  proof -
    from that(1,2) obtain t0 where "t = add_columns e t0" by (auto simp: add_missing_columns_def split: option.splits)
    with that(3,4) show ?thesis
      by (cases "co_name c \<in> set (column_names t0)") (auto simp: add_columns_def column_names_def)
  qed
  have two: "co_name c \<in> set (column_names t)"
    if "(n, t) \<in> set ?s2" "map_of meta n = Some e" "c \<in> set (tb_columns e)" "co_nullable c \<or> co_default c" for n t e c
  proof -
    from that(1) obtain t1 where t1: "(n, t1) \<in> set ?s1" "set (column_names t1) \<subseteq> set (column_names t)"
      by (auto simp: add_manifest_revision_def column_names_manifest split: if_splits) blast
    from one [OF t1(1) that(2-4)] t1(2) show ?thesis by blast
  qed
  have directory: "''manifest_declared_revision'' \<in> set (column_names t)"
    if "(n, t) \<in> set ?s2" "n = ''hub_device_directory_v1''" for n t
    using that by (auto simp: add_manifest_revision_def column_names_manifest manifest_revision_column_def col_def
        split: if_splits)
  have new: "(n, t) \<in> set meta" if "(n, t) \<in> set (upgrade meta s)" "(n, t) \<notin> set ?s2" for n t
    using that by (auto simp: upgrade_def add_missing_tables_def missing_tables_def split: if_splits)
  show "settled meta (upgrade meta s)"
    unfolding settled_def
  proof (intro conjI ballI, safe)
    fix n t e c assume a: "(n, t) \<in> set (upgrade meta s)" "map_of meta n = Some e" "c \<in> set (tb_columns e)"
      "co_nullable c"
    then show "co_name c \<in> set (column_names t)"
      using two new sound_metadataD(1) [OF assms(1)] by (fastforce simp: column_names_def)
  next
    fix n t e c assume a: "(n, t) \<in> set (upgrade meta s)" "map_of meta n = Some e" "c \<in> set (tb_columns e)"
      "co_default c"
    then show "co_name c \<in> set (column_names t)"
      using two new sound_metadataD(1) [OF assms(1)] by (fastforce simp: column_names_def)
  next
    fix t assume "(''hub_device_directory_v1'', t) \<in> set (upgrade meta s)"
    then show "''manifest_declared_revision'' \<in> set (column_names t)"
      using directory new sound_metadataD(2) [OF assms(1)] by blast
  next
    fix n e assume "(n, e) \<in> set meta"
    then show "fst (n, e) \<in> fst ` set (upgrade meta s)"
      using problems_tables [OF assms(2)] by force
  qed
qed

lemma names_upgrade:
  assumes "distinct (map fst meta)" "distinct (map fst s)"
  shows "distinct (map fst (upgrade meta s))"
proof -
  define t where "t = add_manifest_revision (add_missing_columns meta s)"
  have "map fst t = map fst s"
    by (auto simp: t_def add_manifest_revision_def add_missing_columns_def split: option.split)
  with assms(2) have t: "distinct (map fst t)" by simp
  have "distinct (map fst (missing_tables meta t))"
    using assms(1) by (simp add: missing_tables_def distinct_map_filter)
  then have new: "distinct (map fst (sort_key fst (missing_tables meta t)))"
    by (simp add: distinct_map)
  have "fst ` set (missing_tables meta t) \<inter> fst ` set t = {}"
    by (force simp: missing_tables_def)
  with t new have "distinct (map fst (add_missing_tables meta t))"
    by (auto simp: add_missing_tables_def)
  then show ?thesis by (simp add: upgrade_def t_def)
qed

section \<open>Another release\<close>

lemma extends_tableD:
  assumes "extends_table e e'"
  shows "set (column_names e) \<subseteq> set (column_names e')"
    and "c \<in> set (tb_columns e') \<Longrightarrow> co_name c \<notin> set (column_names e) \<Longrightarrow> co_nullable c"
    and "c \<in> set (tb_columns e') \<Longrightarrow> co_name c \<in> set (column_names e) \<Longrightarrow> c \<in> set (tb_columns e)"
proof -
  from assms have e: "set (tb_columns e) \<subseteq> set (tb_columns e')" "distinct (column_names e')"
    by (simp_all add: extends_table_def)
  then show "set (column_names e) \<subseteq> set (column_names e')" by (auto simp: column_names_def)
  show "c \<in> set (tb_columns e') \<Longrightarrow> co_name c \<notin> set (column_names e) \<Longrightarrow> co_nullable c"
    using assms by (auto simp: extends_table_def)
  show "c \<in> set (tb_columns e)" if c: "c \<in> set (tb_columns e')" "co_name c \<in> set (column_names e)"
  proof -
    from c(2) obtain c' where "c' \<in> set (tb_columns e)" "co_name c' = co_name c" by (auto simp: column_names_def)
    moreover from this e c(1) have "c' = c"
      by (auto simp: column_names_def dest: distinct_key_eq)
    ultimately show ?thesis by simp
  qed
qed

lemma contractD: "contract c = contract c' \<Longrightarrow> co_name c = co_name c' \<and> co_nullable c = co_nullable c'"
  by (simp add: contract_def)

lemma contract_match:
  assumes "same_contract e t" "c \<in> set (tb_columns t)" "co_name c \<in> set (column_names e)"
  obtains c' where "c' \<in> set (tb_columns e)" "contract c' = contract c"
proof -
  have "contract c \<in> set (map contract (filter (\<lambda>c. co_name c \<in> set (column_names e)) (tb_columns t)))"
    using assms(2,3) by auto
  then have "contract c \<in> set (map contract (tb_columns e))"
    using assms(1) unfolding same_contract_def by (simp only:)
  then show thesis using that by force
qed

lemma contract_found:
  assumes "same_contract e t" "c' \<in> set (tb_columns e)"
  obtains c where "c \<in> set (tb_columns t)" "contract c = contract c'"
proof -
  have "contract c' \<in> set (map contract (filter (\<lambda>c. co_name c \<in> set (column_names e)) (tb_columns t)))"
    using assms unfolding same_contract_def by (metis image_eqI set_map)
  then show thesis using that by force
qed

lemma table_problems_older:
  assumes "extends_table e e'" "table_problems n e' t = []"
  shows "table_problems n e t = []"
proof -
  from assms(2) have p: "missing_columns e' t = []" "unwritable_columns e' t = []" "same_contract e' t"
      "missing_indexes e' t = []" "rejecting_indexes e' t = []"
    by (simp_all add: table_problems_iff)
  note ext = extends_tableD [OF assms(1)]
  have sub: "set (column_names e) \<subseteq> set (column_names t)"
    using ext(1) p(1) by (auto simp: missing_columns_def filter_empty_conv)
  then have "missing_columns e t = []" by (auto simp: missing_columns_def filter_empty_conv)
  moreover have "unwritable_columns e t = []"
  proof -
    have "co_nullable c \<or> co_default c" if c: "c \<in> set (tb_columns t)" "co_name c \<notin> set (column_names e)" for c
    proof (cases "co_name c \<in> set (column_names e')")
      case True
      then obtain c' where c': "c' \<in> set (tb_columns e')" "contract c' = contract c"
        using contract_match [OF p(3) c(1)] by blast
      with ext(2) [OF c'(1)] contractD [OF c'(2)] c(2) show ?thesis by simp
    next
      case False
      with p(2) c(1) show ?thesis by (auto simp: unwritable_columns_def filter_empty_conv)
    qed
    then show ?thesis by (auto simp: unwritable_columns_def filter_empty_conv)
  qed
  moreover have "same_contract e t"
    unfolding same_contract_def
  proof (intro equalityI subsetI)
    fix k assume "k \<in> set (map contract (filter (\<lambda>c. co_name c \<in> set (column_names e)) (tb_columns t)))"
    then obtain c where c: "c \<in> set (tb_columns t)" "co_name c \<in> set (column_names e)" "k = contract c" by auto
    with ext(1) obtain c' where c': "c' \<in> set (tb_columns e')" "contract c' = contract c"
      using contract_match [OF p(3) c(1)] by blast
    with ext(3) [OF c'(1)] contractD [OF c'(2)] c(2) have "c' \<in> set (tb_columns e)" by simp
    with c'(2) c(3) show "k \<in> set (map contract (tb_columns e))" by (metis image_eqI set_map)
  next
    fix k assume "k \<in> set (map contract (tb_columns e))"
    then obtain c' where c': "c' \<in> set (tb_columns e)" "k = contract c'" by auto
    with assms(1) have "c' \<in> set (tb_columns e')" by (auto simp: extends_table_def)
    with p(3) obtain c where c: "c \<in> set (tb_columns t)" "contract c = contract c'" by (rule contract_found)
    then have "co_name c \<in> set (column_names e)" using c'(1) contractD [OF c(2)] by (simp add: column_names_def)
    with c c'(2) have "c \<in> set (filter (\<lambda>c. co_name c \<in> set (column_names e)) (tb_columns t))" "k = contract c"
      by simp_all
    then show "k \<in> set (map contract (filter (\<lambda>c. co_name c \<in> set (column_names e)) (tb_columns t)))"
      by (metis image_eqI set_map)
  qed
  moreover have "missing_indexes e t = []" "rejecting_indexes e t = []"
    using assms(1) p(4,5) by (auto simp: extends_table_def missing_indexes_def rejecting_indexes_def filter_empty_conv)
  ultimately show ?thesis by (simp add: table_problems_iff)
qed

lemma extendsD:
  assumes "extends meta meta'" "(n, e) \<in> set meta"
  obtains e' where "map_of meta' n = Some e'" "extends_table e e'"
  using assms by (auto simp: extends_def split: option.splits)

lemma problems_older:
  assumes "extends meta meta'" "schema_problems meta' s = []" "sound_metadata meta" "distinct (map fst s)"
  shows "schema_problems meta s = []" "settled meta s"
proof -
  have names: "fst ` set meta \<subseteq> fst ` set s"
  proof
    fix n assume "n \<in> fst ` set meta"
    then obtain e where "(n, e) \<in> set meta" by auto
    with assms(1) obtain e' where "map_of meta' n = Some e'" by (rule extendsD)
    then have "n \<in> fst ` set meta'" by (auto dest!: map_of_SomeD intro: rev_image_eqI)
    with problems_tables [OF assms(2)] show "n \<in> fst ` set s" by blast
  qed
  have table: "table_problems n e t = []" if "map_of meta n = Some e" "map_of s n = Some t" for n e t
  proof -
    from extendsD [OF assms(1) map_of_SomeD [OF that(1)]] obtain e' where
      "map_of meta' n = Some e'" "extends_table e e'" by blast
    with problems_table [OF assms(2)] that(2) table_problems_older show ?thesis by blast
  qed
  from names table show p: "schema_problems meta s = []" by (rule no_problems)
  have row: "table_problems n e t = []" if "(n, t) \<in> set s" "map_of meta n = Some e" for n e t
    using table that assms(4) by simp
  have columns: "set (column_names e) \<subseteq> set (column_names t)" if "(n, t) \<in> set s" "map_of meta n = Some e" for n e t
    using row [OF that] by (auto simp: table_problems_iff missing_columns_def filter_empty_conv)
  show "settled meta s"
    unfolding settled_def
  proof (intro conjI ballI, safe)
    fix n t e c assume "(n, t) \<in> set s" "map_of meta n = Some e" "c \<in> set (tb_columns e)"
    then show "co_name c \<in> set (column_names t)" using columns by (fastforce simp: column_names_def)
    then show "co_name c \<in> set (column_names t)" .
  next
    fix t assume t: "(''hub_device_directory_v1'', t) \<in> set s"
    from assms(3) obtain e where "map_of meta ''hub_device_directory_v1'' = Some e"
        "''manifest_declared_revision'' \<in> set (column_names e)"
      by (auto simp: sound_metadata_def split: option.splits)
    with columns [OF t] show "''manifest_declared_revision'' \<in> set (column_names t)" by blast
  next
    fix n e assume "(n, e) \<in> set meta"
    then show "fst (n, e) \<in> fst ` set s" using names by force
  qed
qed

lemma hub_metadata_sound: "sound_metadata hub_metadata"
  by code_simp

section \<open>Starting again\<close>

lemma lineage_eq: "py_eq (JObj (lineage o1 g1 s1)) (JObj (lineage o2 g2 s2)) \<longleftrightarrow> o1 = o2 \<and> g1 = g2 \<and> s1 = s2"
  by (simp add: lineage_def) blast

definition row_lineage :: "authority_row \<Rightarrow> dict" where
  "row_lineage row = lineage (ar_owner_domain_id row) (ar_owner_domain_generation row) (ar_state_id row)"

definition owns :: "start_config \<Rightarrow> authority_row \<Rightarrow> bool" where
  "owns cfg row \<longleftrightarrow> ar_owner_domain_id row = sc_owner_domain_id cfg
     \<and> ar_owner_domain_generation row = sc_owner_domain_generation cfg"

text \<open>The bootstrap file holds the capability that was spent on the state.\<close>

definition spends :: "start_config \<Rightarrow> stored_file \<Rightarrow> string \<Rightarrow> bool" where
  "spends cfg f state_id \<longleftrightarrow> (\<exists>b. f = Holds (JObj b) \<and>
     py_eq (JObj b) (JObj (bootstrap_marker (sc_owner_domain_id cfg) (sc_owner_domain_generation cfg) state_id)))"

lemma bootstrap_matches:
  assumes "sc_bootstrap_path cfg" "read_bootstrap cfg d = Inr bootstrap"
  shows "(case bootstrap of None \<Rightarrow> False | Some b \<Rightarrow> py_eq (JObj b) (JObj (bootstrap_marker
      (sc_owner_domain_id cfg) (sc_owner_domain_generation cfg) s))) = spends cfg (hd_bootstrap d) s"
  using assms
  by (auto simp: spends_def read_bootstrap_def simp del: py_eq.simps split: stored_file.splits json.splits)

lemma restart:
  assumes "hd_shape d \<noteq> []" "settled meta (hd_shape d)" "schema_problems meta (hd_shape d) = []"
    and "repair_claim_revisions (hd_data d) = Inr (hd_data d, n)"
    and "hd_authority d = Some row" "owns cfg row" "sc_bootstrap_path cfg"
    and "read_bootstrap cfg d = Inr bootstrap"
    and "hd_anchor d = Absent \<and> spends cfg (hd_bootstrap d) (ar_state_id row)
      \<or> (\<exists>a. hd_anchor d = Holds (JObj a) \<and> py_eq (JObj a) (JObj (row_lineage row)))"
  shows "\<exists>disks. initialize_schema cfg meta d = Inr disks
    \<and> last disks = d\<lparr>hd_anchor := (if hd_anchor d = Absent then Holds (JObj (row_lineage row)) else hd_anchor d),
         hd_bootstrap := (if spends cfg (hd_bootstrap d) (ar_state_id row) then Absent else hd_bootstrap d)\<rparr>"
proof -
  have expected: "lineage (sc_owner_domain_id cfg) (sc_owner_domain_generation cfg) (ar_state_id row) = row_lineage row"
    using assms(6) by (simp add: owns_def row_lineage_def)
  note matches = bootstrap_matches [OF assms(7,8)]
  have self: "py_eq (JObj (row_lineage row)) (JObj (row_lineage row))" unfolding row_lineage_def lineage_eq by simp
  have tables: "initialize_tables cfg meta anchor bootstrap d =
      andthen (check_lineage cfg anchor bootstrap row) (\<lambda>answer. Inr (d, answer))" for anchor
    using assms(1,3,5) upgrade_settled [OF assms(2)]
    by (cases "check_lineage cfg anchor bootstrap row") (simp_all add: initialize_tables_def upgrade_schema_def Let_def)
  have repaired: "repair_data d = Inr d" using assms(4) by (simp add: repair_data_def)
  show ?thesis
    using assms(9)
  proof
    assume a: "hd_anchor d = Absent \<and> spends cfg (hd_bootstrap d) (ar_state_id row)"
    then have "check_lineage cfg None bootstrap row = Inr (True, row_lineage row, True)"
      by (simp add: check_lineage_def matches Let_def row_lineage_def)
    with a assms(7,8) show ?thesis
      by (simp add: initialize_schema_def read_anchor_def tables repaired create_anchor_def consume_bootstrap_def Let_def)
  next
    assume "\<exists>a. hd_anchor d = Holds (JObj a) \<and> py_eq (JObj a) (JObj (row_lineage row))"
    then obtain a where a: "hd_anchor d = Holds (JObj a)" "py_eq (JObj a) (JObj (row_lineage row))" by blast
    then have "check_lineage cfg (Some a) bootstrap row
        = Inr (False, row_lineage row, spends cfg (hd_bootstrap d) (ar_state_id row))"
      using self matches by (simp add: check_lineage_def Let_def expected) (simp add: row_lineage_def)
    with a(1) assms(7,8) show ?thesis
      by (simp add: initialize_schema_def read_anchor_def tables repaired consume_bootstrap_def Let_def)
  qed
qed

text \<open>
  What a start needs of the disk besides being accepted: the capability of a first install names
  nothing but the installation, and a database without its anchor is the configured Owner's.
\<close>

definition lineage_sound :: "start_config \<Rightarrow> host_disk \<Rightarrow> bool" where
  "lineage_sound cfg d \<longleftrightarrow>
     (if hd_shape d = [] then \<exists>s. spends cfg (hd_bootstrap d) s
      else hd_anchor d = Absent \<longrightarrow> (case hd_authority d of None \<Rightarrow> False | Some row \<Rightarrow> owns cfg row))"

definition started_disk :: "host_disk \<Rightarrow> shape \<Rightarrow> authority_row \<Rightarrow> hub_db \<Rightarrow> host_disk" where
  "started_disk d s row db = d\<lparr>hd_shape := s, hd_authority := Some row, hd_data := db\<rparr>"

text \<open>The disks of a start that ends with this shape, this row and this data.\<close>

definition leaves_disks ::
  "start_config \<Rightarrow> host_disk \<Rightarrow> shape \<Rightarrow> authority_row \<Rightarrow> hub_db \<Rightarrow> host_disk list \<Rightarrow> bool" where
  "leaves_disks cfg d s row db disks =
    (let b = started_disk d s row db; a = b\<lparr>hd_anchor := Holds (JObj (row_lineage row))\<rparr>
     in if hd_anchor d = Absent
        then spends cfg (hd_bootstrap d) (ar_state_id row)
          \<and> disks = [b, b\<lparr>hd_anchor := Undecodable\<rparr>, a, a\<lparr>hd_bootstrap := Absent\<rparr>]
        else (\<exists>a. hd_anchor d = Holds (JObj a) \<and> py_eq (JObj a) (JObj (row_lineage row)))
          \<and> disks = b # (if spends cfg (hd_bootstrap d) (ar_state_id row) then [b\<lparr>hd_bootstrap := Absent\<rparr>] else []))"

lemma bootstrap_marker_get:
  assumes "py_eq (JObj b) (JObj (bootstrap_marker owner generation s))"
  shows "dict_get b ''state_id'' = JStr s"
proof -
  from assms have keys: "''state_id'' \<in> set (map fst b)" and eq: "eq_entries b (bootstrap_marker owner generation s)"
    by (auto simp: bootstrap_marker_def)
  have "\<exists>w. map_of e k = Some w \<and> py_eq v w" if "eq_entries b e" "(k, v) \<in> set b" for e k v
    using that by (induction b) (auto split: option.splits)
  moreover from keys obtain v where "map_of b ''state_id'' = Some v" by (cases "map_of b ''state_id''") (auto simp: map_of_eq_None_iff)
  ultimately have "\<exists>w. map_of (bootstrap_marker owner generation s) ''state_id'' = Some w \<and> py_eq v w"
    using eq by (blast dest: map_of_SomeD)
  then have "py_eq v (JStr s)" by (simp add: bootstrap_marker_def)
  then have "v = JStr s" by (cases v) auto
  with \<open>map_of b ''state_id'' = Some v\<close> show ?thesis by (simp add: dict_get_def)
qed

lemma tables_cases:
  assumes "initialize_tables cfg meta anchor bootstrap d = Inr (d1, create, marker, consume)"
    and "read_anchor d = Inr anchor" "read_bootstrap cfg d = Inr bootstrap"
    and "sc_bootstrap_path cfg" "lineage_sound cfg d" "sound_metadata meta"
  obtains s row where "d1 = d\<lparr>hd_shape := s, hd_authority := Some row\<rparr>" "marker = row_lineage row"
    "s \<noteq> []" "settled meta s" "schema_problems meta s = []" "owns cfg row" "create = (hd_anchor d = Absent)"
    "consume = spends cfg (hd_bootstrap d) (ar_state_id row)" "hd_anchor d = Absent \<Longrightarrow> consume"
    "hd_anchor d \<noteq> Absent \<Longrightarrow> \<exists>a. hd_anchor d = Holds (JObj a) \<and> py_eq (JObj a) (JObj (row_lineage row))"
    "distinct (map fst (hd_shape d)) \<Longrightarrow> distinct (map fst s)"
proof (cases "hd_shape d = []")
  case True
  let ?o = "sc_owner_domain_id cfg" and ?g = "sc_owner_domain_generation cfg"
  from assms(1) True obtain b state_id where st: "anchor = None" "bootstrap = Some b" "usable_state cfg b = Some state_id"
      "d1 = d\<lparr>hd_shape := meta, hd_authority := Some \<lparr>ar_owner_domain_id = ?o,
         ar_owner_domain_generation = ?g, ar_state_id = state_id\<rparr>\<rparr>"
      "create" "marker = lineage ?o ?g state_id" "consume"
    using assms(4) by (auto simp: initialize_tables_def install_schema_def implicit_bootstrap_def ok_iff split: option.splits)
  from assms(5) True obtain s where s: "spends cfg (hd_bootstrap d) s" by (auto simp: lineage_sound_def)
  then have "hd_bootstrap d = Holds (JObj b)"
    using assms(3,4) st(2) by (auto simp: spends_def read_bootstrap_def simp del: py_eq.simps)
  with s have "dict_get b ''state_id'' = JStr s"
    by (auto simp: spends_def simp del: py_eq.simps intro: bootstrap_marker_get)
  with st(3) have "s = state_id" by (auto simp: usable_state_def split: if_splits)
  moreover have "hd_anchor d = Absent"
    using assms(2) st(1) by (auto simp: read_anchor_def split: stored_file.splits json.splits)
  moreover have "meta \<noteq> []" using assms(6) by (auto simp: sound_metadata_def)
  ultimately show thesis
    using that [OF st(4)] st(5-7) s settled_metadata [OF assms(6)] problems_self [of meta] assms(6)
    by (simp add: row_lineage_def owns_def sound_metadata_def)
next
  case False
  from assms(1) False obtain row where st: "schema_problems meta (upgrade meta (hd_shape d)) = []"
      "hd_authority d = Some row" "check_lineage cfg anchor bootstrap row = Inr (create, marker, consume)"
      "d1 = d\<lparr>hd_shape := upgrade meta (hd_shape d)\<rparr>"
    by (auto simp: initialize_tables_def upgrade_schema_def Let_def ok_iff)
  have d1: "d1 = d\<lparr>hd_shape := upgrade meta (hd_shape d), hd_authority := Some row\<rparr>" using st(2,4) by simp
  note matches = bootstrap_matches [OF assms(4,3)]
  have ne: "upgrade meta (hd_shape d) \<noteq> []"
    using False by (simp add: upgrade_def add_missing_tables_def add_manifest_revision_def add_missing_columns_def)
  have names: "distinct (map fst (hd_shape d)) \<Longrightarrow> distinct (map fst (upgrade meta (hd_shape d)))"
    using assms(6) by (simp add: names_upgrade sound_metadata_def)
  have settled: "settled meta (upgrade meta (hd_shape d))" by (rule upgrade_settles [OF assms(6) st(1)])
  show thesis
  proof (cases anchor)
    case None
    then have "hd_anchor d = Absent"
      using assms(2) by (auto simp: read_anchor_def split: stored_file.splits json.splits)
    moreover from this assms(5) False st(2) have "owns cfg row" by (simp add: lineage_sound_def)
    moreover from st(3) None have "spends cfg (hd_bootstrap d) (ar_state_id row)" "create" "consume" "marker = row_lineage row"
      by (auto simp: check_lineage_def Let_def matches row_lineage_def split: if_splits)
    ultimately show thesis using that [OF d1] ne settled st(1) names by simp
  next
    case (Some a)
    then have "hd_anchor d = Holds (JObj a)"
      using assms(2) by (auto simp: read_anchor_def split: stored_file.splits json.splits)
    moreover from st(3) Some have "py_eq (JObj marker) (JObj (lineage (sc_owner_domain_id cfg) (sc_owner_domain_generation cfg) (ar_state_id row)))"
        "py_eq (JObj a) (JObj (lineage (sc_owner_domain_id cfg) (sc_owner_domain_generation cfg) (ar_state_id row)))"
        "\<not> create" "consume = spends cfg (hd_bootstrap d) (ar_state_id row)" "marker = row_lineage row"
      by (auto simp: check_lineage_def Let_def matches row_lineage_def simp del: py_eq.simps split: if_splits)
    moreover from this have "owns cfg row" by (simp only: row_lineage_def lineage_eq owns_def)
    ultimately show thesis using that [OF d1] ne settled st(1) names
      by (simp add: owns_def row_lineage_def del: py_eq.simps)
  qed
qed

lemma start_cases:
  assumes "initialize_schema cfg meta d = Inr disks" "sc_bootstrap_path cfg" "lineage_sound cfg d"
    and "sound_metadata meta" "distinct (map se_event_id (claim_stream (hd_data d)))"
  obtains s row db where "s \<noteq> []" "settled meta s" "schema_problems meta s = []"
    "repair_claim_revisions db = Inr (db, 0)" "owns cfg row" "\<exists>bootstrap. read_bootstrap cfg d = Inr bootstrap"
    "distinct (map fst (hd_shape d)) \<Longrightarrow> distinct (map fst s)"
    "leaves_disks cfg d s row db disks"
proof -
  from assms(1) obtain anchor bootstrap d1 create marker consume d2 anchored where st:
      "read_anchor d = Inr anchor" "read_bootstrap cfg d = Inr bootstrap"
      "initialize_tables cfg meta anchor bootstrap d = Inr (d1, create, marker, consume)"
      "repair_data d1 = Inr d2" "(if create then create_anchor marker d2 else Inr []) = Inr anchored"
      "disks = (d2 # anchored) @ (if consume then consume_bootstrap cfg (last (d2 # anchored)) else [])"
    by (auto simp: initialize_schema_def ok_iff Let_def)
  from st(3,1,2) assms(2-4) obtain s row where t: "d1 = d\<lparr>hd_shape := s, hd_authority := Some row\<rparr>"
      "marker = row_lineage row" "s \<noteq> []" "settled meta s" "schema_problems meta s = []" "owns cfg row"
      "create = (hd_anchor d = Absent)" "consume = spends cfg (hd_bootstrap d) (ar_state_id row)"
      "hd_anchor d = Absent \<Longrightarrow> consume"
      "hd_anchor d \<noteq> Absent \<Longrightarrow> \<exists>a. hd_anchor d = Holds (JObj a) \<and> py_eq (JObj a) (JObj (row_lineage row))"
      "distinct (map fst (hd_shape d)) \<Longrightarrow> distinct (map fst s)"
    by (rule tables_cases) blast
  from st(4) obtain db n where r: "repair_claim_revisions (hd_data d1) = Inr (db, n)" "d2 = d1\<lparr>hd_data := db\<rparr>"
    by (auto simp: repair_data_def split: sum.splits)
  with t(1) assms(5) have db: "repair_claim_revisions db = Inr (db, 0)"
    using repair_settles [OF r(1)] by simp
  have d2: "d2 = started_disk d s row db" using r(2) t(1) by (simp add: started_disk_def)
  have "leaves_disks cfg d s row db disks"
  proof (cases "hd_anchor d = Absent")
    case True
    then have "hd_anchor d2 = Absent" by (simp add: d2 started_disk_def)
    with True st(5,6) t(2,7,8,9) assms(2) show ?thesis
      by (auto simp: leaves_disks_def create_anchor_def consume_bootstrap_def Let_def d2 simp del: py_eq.simps)
  next
    case False
    with st(5,6) t(7,8,10) assms(2) show ?thesis
      by (auto simp: leaves_disks_def consume_bootstrap_def Let_def d2 simp del: py_eq.simps)
  qed
  with that t(3-6,11) db st(2) show thesis by blast
qed


text \<open>A first install: nothing but the capability the deployment minted.\<close>

definition fresh_config :: start_config where
  "fresh_config = \<lparr>sc_owner_domain_id = ''o'', sc_owner_domain_generation = 1, sc_bootstrap_path = True\<rparr>"

definition fresh_disk :: host_disk where
  "fresh_disk = \<lparr>hd_shape = [], hd_authority = None, hd_data = empty_db, hd_anchor = Absent,
     hd_bootstrap = Holds (JObj (bootstrap_marker ''o'' 1 ''authority-state_1''))\<rparr>"

definition fresh_row :: authority_row where
  "fresh_row = \<lparr>ar_owner_domain_id = ''o'', ar_owner_domain_generation = 1, ar_state_id = ''authority-state_1''\<rparr>"

lemma repair_empty: "repair_claim_revisions empty_db = Inr (empty_db, 0)"
  by (simp add: repair_claim_revisions_def empty_db_def order_by_def histories_def)

lemma fresh_start:
  "initialize_schema fresh_config meta fresh_disk =
     (let b = started_disk fresh_disk meta fresh_row empty_db; a = b\<lparr>hd_anchor := Holds (JObj (row_lineage fresh_row))\<rparr>
      in Inr [b, b\<lparr>hd_anchor := Undecodable\<rparr>, a, a\<lparr>hd_bootstrap := Absent\<rparr>])"
proof -
  have u: "usable_state fresh_config (bootstrap_marker ''o'' 1 ''authority-state_1'') = Some ''authority-state_1''"
    by (simp add: usable_state_def fresh_config_def capability_def bootstrap_marker_def dict_get_def)
  show ?thesis
    by (simp add: initialize_schema_def read_anchor_def read_bootstrap_def initialize_tables_def install_schema_def
        fresh_disk_def implicit_bootstrap_def u repair_data_def repair_empty create_anchor_def consume_bootstrap_def
        started_disk_def row_lineage_def fresh_row_def Let_def)
      (simp add: fresh_config_def)
qed

lemma fresh_sound: "lineage_sound fresh_config fresh_disk"
  unfolding lineage_sound_def fresh_disk_def fresh_config_def spends_def
  by (simp add: exI [of _ "''authority-state_1''"] del: py_eq.simps) (simp add: bootstrap_marker_def exI [of _ "''authority-state_1''"])


text \<open>
  A release can be rolled back. Where a newer release has started, whether it installed the database
  or upgraded it, the release modelled here starts too and changes nothing, provided the newer one
  only added tables, columns that may be left empty and indexes that reject nothing.
\<close>

theorem older_release_starts:
  assumes "initialize_schema cfg newer d = Inr disks" "sc_bootstrap_path cfg" "lineage_sound cfg d"
    and "distinct (map se_event_id (claim_stream (hd_data d)))" "distinct (map fst (hd_shape d))"
    and "sound_metadata newer" "extends hub_metadata newer"
  shows "\<exists>disks'. initialize_schema cfg hub_metadata (last disks) = Inr disks' \<and> last disks' = last disks"
proof -
  from assms(1-3,6,4) obtain s row db where st: "s \<noteq> []" "settled newer s"
      "schema_problems newer s = []" "repair_claim_revisions db = Inr (db, 0)" "owns cfg row"
      "\<exists>bootstrap. read_bootstrap cfg d = Inr bootstrap"
      "distinct (map fst (hd_shape d)) \<Longrightarrow> distinct (map fst s)"
      and disks: "leaves_disks cfg d s row db disks"
    by (rule start_cases) blast
  note older = problems_older [OF assms(7) st(3) hub_metadata_sound st(7) [OF assms(5)]]
  let ?d = "last disks"
  have self: "py_eq (JObj (row_lineage row)) (JObj (row_lineage row))" unfolding row_lineage_def lineage_eq by simp
  have unspent: "\<not> spends cfg Absent (ar_state_id row)" by (simp add: spends_def)
  have d: "hd_shape ?d = s" "hd_authority ?d = Some row" "hd_data ?d = db"
      "hd_bootstrap ?d = hd_bootstrap d \<or> hd_bootstrap ?d = Absent" "\<not> spends cfg (hd_bootstrap ?d) (ar_state_id row)"
      "\<exists>a. hd_anchor ?d = Holds (JObj a) \<and> py_eq (JObj a) (JObj (row_lineage row))"
    using disks self unspent
    by (auto simp: leaves_disks_def Let_def started_disk_def simp del: py_eq.simps split: if_splits)
  have "read_bootstrap cfg ?d = read_bootstrap cfg d \<or> read_bootstrap cfg ?d = Inr None"
    using d(4) by (auto simp: read_bootstrap_def)
  then obtain bootstrap where "read_bootstrap cfg ?d = Inr bootstrap" using st(6) by metis
  from restart [of ?d hub_metadata 0 row cfg bootstrap, OF _ _ _ _ d(2) st(5) assms(2) this]
  show ?thesis using older st(1,4) d by auto
qed

text \<open>A release that adds a nullable column to the directory and a table of its own.\<close>

definition extended_directory :: table_shape where
  "extended_directory = (snd device_table)\<lparr>tb_columns := tb_columns (snd device_table)
     @ [nullable ''trust_note'' ''TEXT'']\<rparr>"

definition next_metadata :: shape where
  "next_metadata = map (\<lambda>(n, e). if n = ''hub_device_directory_v1'' then (n, extended_directory) else (n, e)) hub_metadata
     @ [table ''hub_later_v1'' [key ''later_id'' ''INTEGER''] []]"

theorem older_release_starts_witness:
  "\<exists>disks disks'. initialize_schema fresh_config next_metadata fresh_disk = Inr disks
    \<and> initialize_schema fresh_config hub_metadata (last disks) = Inr disks' \<and> last disks' = last disks"
proof -
  obtain disks where s: "initialize_schema fresh_config next_metadata fresh_disk = Inr disks"
    by (simp only: fresh_start Let_def)
  have m: "sound_metadata next_metadata" by code_simp
  have "extends hub_metadata next_metadata" by code_simp
  with older_release_starts [OF s _ fresh_sound _ _ m] s show ?thesis
    by (auto simp: fresh_config_def fresh_disk_def empty_db_def)
qed

section \<open>Refusals\<close>

text \<open>An established lineage whose database is lost is never started anew, with whatever capability.\<close>

lemma lost_database_refused:
  assumes "hd_shape d = []" "hd_anchor d \<noteq> Absent"
  shows "\<exists>e. initialize_schema cfg meta d = Inl e"
proof (cases "read_anchor d")
  case (Inr anchor)
  with assms(2) obtain a where "anchor = Some a"
    by (auto simp: read_anchor_def split: stored_file.splits json.splits)
  with Inr assms(1) show ?thesis
    by (cases "read_bootstrap cfg d")
      (simp_all add: initialize_schema_def initialize_tables_def install_schema_def)
qed (simp add: initialize_schema_def)

text \<open>Nor does a capability that was spent, and is shipped again as such, install anything.\<close>

lemma spent_capability_refused:
  assumes "hd_shape d = []" "hd_anchor d = Absent" "sc_bootstrap_path cfg"
    and "hd_bootstrap d = Holds (JObj b)" "dict_get b ''operation'' = JStr ''owner-authority.bootstrap-consumed''"
  shows "initialize_schema cfg meta d = Inl No_capability"
proof -
  have "usable_state cfg b = None" using assms(5) by (simp add: usable_state_def capability_def)
  with assms(1-4) show ?thesis
    by (simp add: initialize_schema_def read_anchor_def read_bootstrap_def initialize_tables_def install_schema_def
        implicit_bootstrap_def)
qed

text \<open>
  Without its anchor a database is only compared with the capability, so one of another Owner
  or generation is started on, once: the anchor it is given fits no later start.
\<close>

lemma foreign_database_adopted_once:
  assumes "initialize_schema cfg meta d = Inr disks" "hd_shape d \<noteq> []" "hd_anchor d = Absent"
    and "hd_authority d = Some row" "\<not> owns cfg row" "sound_metadata meta" "sc_bootstrap_path cfg"
  shows "initialize_schema cfg meta (last disks) = Inl Generations_differ"
proof -
  from assms(1-3) obtain bootstrap d1 create marker consume d2 anchored where st:
      "read_bootstrap cfg d = Inr bootstrap"
      "upgrade_schema cfg meta None bootstrap d = Inr (d1, create, marker, consume)"
      "repair_data d1 = Inr d2" "(if create then create_anchor marker d2 else Inr []) = Inr anchored"
      "disks = (d2 # anchored) @ (if consume then consume_bootstrap cfg (last (d2 # anchored)) else [])"
    by (auto simp: initialize_schema_def read_anchor_def initialize_tables_def ok_iff Let_def)
  from st(2) assms(4) have up: "schema_problems meta (upgrade meta (hd_shape d)) = []"
      "d1 = d\<lparr>hd_shape := upgrade meta (hd_shape d)\<rparr>"
      "check_lineage cfg None bootstrap row = Inr (create, marker, consume)"
    by (auto simp: upgrade_schema_def Let_def ok_iff)
  from up(3) have c: "create" "consume" "marker = row_lineage row"
    by (auto simp: check_lineage_def Let_def row_lineage_def split: if_splits)
  from st(3) up(2) have d2: "hd_shape d2 = upgrade meta (hd_shape d)" "hd_authority d2 = Some row" "hd_anchor d2 = Absent"
    using assms(3,4) by (auto simp: repair_data_def split: sum.splits)
  with st(4,5) c assms(7) have l: "last disks = d2\<lparr>hd_anchor := Holds (JObj (row_lineage row)), hd_bootstrap := Absent\<rparr>"
    by (auto simp: create_anchor_def consume_bootstrap_def)
  have "upgrade meta (hd_shape d) \<noteq> []"
    using assms(2) by (simp add: upgrade_def add_missing_tables_def add_manifest_revision_def add_missing_columns_def)
  moreover have "upgrade meta (upgrade meta (hd_shape d)) = upgrade meta (hd_shape d)"
    by (rule upgrade_settled [OF upgrade_settles [OF assms(6) up(1)]])
  moreover have "check_lineage cfg (Some (row_lineage row)) None row = Inl Generations_differ"
    using assms(5) unfolding check_lineage_def Let_def row_lineage_def lineage_eq owns_def by (auto simp del: py_eq.simps)
  ultimately show ?thesis
    using l d2 up(1) by (simp add: initialize_schema_def read_anchor_def read_bootstrap_def initialize_tables_def
        upgrade_schema_def)
qed

text \<open>A nullable column that has an index is added without it, and the database is refused.\<close>

definition without_owner :: "table_shape \<Rightarrow> table_shape" where
  "without_owner e = \<lparr>tb_columns = filter (\<lambda>c. co_name c \<noteq> ''owner_id'') (tb_columns e),
     tb_indexes = filter (\<lambda>i. ix_columns i \<noteq> [''owner_id'']) (tb_indexes e)\<rparr>"

lemma indexed_column_not_added:
  "table_problems ''hub_device_directory_v1'' (snd device_table)
       (add_columns (snd device_table) (without_owner (snd device_table)))
     = [Indexes_missing ''hub_device_directory_v1'' [''ix_hub_device_directory_v1_owner_id'']]"
  by code_simp

end
