(* ===== verification/Admission_Http.thy ===== *)
theory Admission_Http
  imports Admission_Handlers Python_Values
begin

text \<open>
  The HTTP surface of Admission (\<open>hub/admission/http.py\<close> and \<open>auth.py\<close>): what of a JSON body is
  checked before the SDK's models read it, which request of the authority each route becomes,
  and which answer each exception becomes.  A route that starts a request names the instants
  and the ephemeral key the authority will draw.
\<close>

section \<open>The SDK's contracts\<close>

text \<open>
  Each \<open>model_validate\<close> gives the fields or the text of its \<open>ValueError\<close>; \<open>sdk_text\<close> is the text under which
  the authority keeps a value it never looks into, \<open>sdk_repr\<close> is \<open>repr\<close>.
\<close>

record admission_sdk =
  create_fields :: "string list"
  decide_fields :: "string list"
  cancel_fields :: "string list"
  collect_fields :: "string list"
  ack_fields :: "string list"
  revoke_fields :: "string list"
  sdk_create :: "dict \<Rightarrow> string + enrollment_payload"
  sdk_decide :: "dict \<Rightarrow> string + string \<times> decision_payload"
  sdk_cancel :: "dict \<Rightarrow> string + string \<times> string"
  sdk_collect :: "dict \<Rightarrow> string + string \<times> int \<times> string \<times> string"
  sdk_ack :: "dict \<Rightarrow> string + string \<times> string \<times> string \<times> int \<times> int"
  sdk_revoke :: "dict \<Rightarrow> string + string \<times> device_ref \<times> string"
  sdk_result :: "command_result \<Rightarrow> string + unit"
  sdk_problem_ok :: "problem \<Rightarrow> json \<Rightarrow> bool"
  sdk_cursor :: "string \<Rightarrow> instant \<Rightarrow> string \<Rightarrow> string + int \<times> string"
  sdk_proposal_query :: "proposal_state list \<Rightarrow> int \<Rightarrow> string + nat"
  sdk_claim_query :: "claim_state list \<Rightarrow> int \<Rightarrow> string + nat"
  sdk_event_cursor :: "int \<Rightarrow> string + unit"
  sdk_event :: "admission_event \<Rightarrow> string + unit"
  sdk_credential :: "string \<Rightarrow> string + caller"
  sdk_text :: "json \<Rightarrow> string"
  sdk_repr :: "string \<Rightarrow> string"

text \<open>A \<open>ValueError\<close> of the SDK.\<close>

definition validated :: "string + 'a \<Rightarrow> exn + 'a" where
  "validated r = (case r of Inl e \<Rightarrow> Inl (Value_error e) | Inr v \<Rightarrow> Inr v)"

section \<open>Checks on the body\<close>

definition refused_argument :: "string \<Rightarrow> exn" where
  "refused_argument d = problem_of ''INVALID_ARGUMENT'' d 422 ''invalid''"

definition required_command_id :: "dict \<Rightarrow> exn + string" where
  "required_command_id payload =
     (case dict_get payload ''command_id'' of
        JStr s \<Rightarrow> (if strip s \<noteq> [] then Inr s else Inl (refused_argument ''command_id is required''))
      | _ \<Rightarrow> Inl (refused_argument ''command_id is required''))"

definition names_text :: "external \<Rightarrow> string list \<Rightarrow> string" where
  "names_text x names = py_str x (JArr (map JStr (sort names)))"

definition strict_fields :: "external \<Rightarrow> dict \<Rightarrow> string list \<Rightarrow> exn + unit" where
  "strict_fields x payload allowed =
     (let unknown = filter (\<lambda>k. k \<notin> set allowed) (remdups (map fst payload));
          missing = filter (\<lambda>k. k \<notin> fst ` set payload) (remdups allowed)
      in require (unknown = [] \<and> missing = [])
           (refused_argument (''canonical request fields differ: missing='' @ names_text x missing
              @ '', unknown='' @ names_text x unknown)))"

definition only_fields :: "string list \<Rightarrow> dict \<Rightarrow> dict" where
  "only_fields fs payload = filter (\<lambda>(k, v). k \<in> set fs) payload"

section \<open>Answers\<close>

datatype body =
  Command_body command_result
| Standing_body base_identity_answer string
| Withdrawal_body string string instant
| Base_identity_body base_identity_answer
| Claim_body claim_record
| Recovery_body recovery_projection
| Recovery_page_body "recovery_projection page"
| Claim_page_body "claim_record page"
| Event_page_body claim_event_page

datatype answer = Json_answer int body | Problem_answer problem json | Crashed exn

text \<open>\<open>problem_response\<close>: without the command id where the contract does not accept it.\<close>

definition problem_response :: "admission_sdk \<Rightarrow> problem \<Rightarrow> json \<Rightarrow> answer" where
  "problem_response k p command_id =
     (if sdk_problem_ok k p command_id then Problem_answer p command_id
      else if sdk_problem_ok k p JNull then Problem_answer p JNull
      else Crashed (Value_error ''DeviceProblem''))"

text \<open>\<open>str(exc)\<close>; that of a \<open>KeyError\<close> is the \<open>repr\<close> of the key.\<close>

fun error_text :: "admission_sdk \<Rightarrow> exn \<Rightarrow> string" where
  "error_text k (Value_error s) = s"
| "error_text k (Type_error s) = s"
| "error_text k (Key_error s) = sdk_repr k s"
| "error_text k (Erase_idempotency_conflict s) = s"
| "error_text k (Erase_generation_conflict s) = s"
| "error_text k (Manifest_revision_conflict s) = s"
| "error_text k (Output_policy_conflict s) = s"
| "error_text k (Concurrent_mutation s) = s"
| "error_text k _ = []"

definition invalid_problem :: "admission_sdk \<Rightarrow> exn \<Rightarrow> problem" where
  "invalid_problem k e = \<lparr>code = ''INVALID_ARGUMENT'',
     detail = (if error_text k e \<noteq> [] then error_text k e else ''request is invalid''),
     status = 422, category = ''invalid'', retryable = False\<rparr>"

definition forbidden_problem :: "string \<Rightarrow> problem" where
  "forbidden_problem d = \<lparr>code = ''FORBIDDEN'', detail = d, status = 403, category = ''forbidden'', retryable = False\<rparr>"

text \<open>What a route catches besides \<open>AdmissionProblem\<close>.\<close>

datatype catches = Device_route | Controller_route | Lookup_route | Recovery_route | Page_route

fun is_value_error :: "exn \<Rightarrow> bool" where
  "is_value_error (Value_error s) = True"
| "is_value_error (Erase_idempotency_conflict s) = True"
| "is_value_error (Erase_generation_conflict s) = True"
| "is_value_error (Manifest_revision_conflict s) = True"
| "is_value_error (Output_policy_conflict s) = True"
| "is_value_error (Concurrent_mutation s) = True"
| "is_value_error _ = False"

fun is_bad_request :: "exn \<Rightarrow> bool" where
  "is_bad_request (Key_error s) = True"
| "is_bad_request (Type_error s) = True"
| "is_bad_request e = is_value_error e"

fun caught :: "admission_sdk \<Rightarrow> catches \<Rightarrow> exn \<Rightarrow> problem option" where
  "caught k r (Admission_problem p) = Some p"
| "caught k r (Permission_error s) =
     (if r \<in> {Controller_route, Lookup_route} then Some (forbidden_problem s) else None)"
| "caught k r e =
     (if r \<in> {Device_route, Controller_route} \<and> is_bad_request e \<or> r = Page_route \<and> is_value_error e
      then Some (invalid_problem k e) else None)"

definition answered :: "admission_sdk \<Rightarrow> catches \<Rightarrow> json \<Rightarrow> int \<Rightarrow> exn + body \<Rightarrow> answer" where
  "answered k r command_id st outcome =
     (case outcome of
        Inr b \<Rightarrow> Json_answer st b
      | Inl e \<Rightarrow>
          (case caught k r e of
             Some p \<Rightarrow> problem_response k p command_id
           | None \<Rightarrow> Crashed e))"

section \<open>Credentials\<close>

text \<open>
  \<open>JwtAdmissionActorProvider.__call__\<close>; the \<open>ActorContext\<close> it ends in is built by \<open>as_actor\<close>.
\<close>

definition read_actor :: "admission_sdk \<Rightarrow> string \<Rightarrow> exn + caller" where
  "read_actor k header =
     (case sdk_credential k header of
        Inl e \<Rightarrow> Inl (problem_of ''UNAUTHENTICATED'' e 401 ''auth'')
      | Inr who \<Rightarrow> Inr who)"

definition read_context :: "admission_sdk \<Rightarrow> string \<Rightarrow> exn + actor_context" where
  "read_context k header =
     andthen (read_actor k header) (\<lambda>who.
       actor_context_new (ca_actor who) (ca_owner_domain_id who) (ca_business_owner_id who))"

section \<open>The routes\<close>

datatype http_request =
  Post_create dict
| Post_decision string dict
| Post_cancel string dict
| Post_collect string dict
| Post_ack string string dict
| Post_revoke string dict
| Post_standing dict
| Post_withdrawal dict
| Get_base_identity string
| Get_claim string
| Get_enrollment string
| Get_enrollments string int "instant option" "string option"
| Get_claims string int "instant option" "string option"
| Get_claim_events int int

record http_env =
  he_external :: external
  he_authority :: authority
  he_projector :: projector
  he_sdk :: admission_sdk
  he_reader :: "(string \<Rightarrow> exn + string) option"

text \<open>The instants the authority reads on the way, and its ephemeral key.\<close>

record draws =
  dw_started :: instant
  dw_now :: instant
  dw_ephemeral :: nat

text \<open>
  Read the command, run the handler, and have the contract accept the result; what the handler committed
  stays committed.
\<close>

definition run_command :: "http_env \<Rightarrow> exn + command_result handler \<Rightarrow> body handler" where
  "run_command e h db =
     (case h of
        Inl ex \<Rightarrow> (db, Inl ex)
      | Inr f \<Rightarrow>
          (case f db of
             (db', Inl ex) \<Rightarrow> (db', Inl ex)
           | (db', Inr r) \<Rightarrow> (db', andthen (validated (sdk_result (he_sdk e) r)) (\<lambda>_. Inr (Command_body r)))))"

definition correlation_of :: "http_env \<Rightarrow> dict \<Rightarrow> string" where
  "correlation_of e payload = sdk_text (he_sdk e) (dict_get payload ''correlation_id'')"

definition command_fields :: "string list \<Rightarrow> string list" where
  "command_fields fs = [''command_id'', ''correlation_id''] @ fs"

definition post_create :: "http_env \<Rightarrow> draws \<Rightarrow> dict \<Rightarrow> exn + command_result handler" where
  "post_create e d payload =
     (let x = he_external e; k = he_sdk e
      in andthen (required_command_id payload) (\<lambda>command_id.
         andthen (strict_fields x payload (command_fields (create_fields k))) (\<lambda>_.
         andthen (validated (sdk_create k (only_fields (create_fields k) payload))) (\<lambda>command.
           Inr (create_enrollment x (he_authority e) (dw_now d) command_id (correlation_of e payload) command)))))"

definition post_decision :: "http_env \<Rightarrow> draws \<Rightarrow> string \<Rightarrow> string \<Rightarrow> dict \<Rightarrow> exn + command_result handler" where
  "post_decision e d header enrollment_id payload =
     (let x = he_external e; k = he_sdk e
      in andthen (required_command_id payload) (\<lambda>command_id.
         andthen (strict_fields x payload (command_fields (decide_fields k))) (\<lambda>_.
         andthen (validated (sdk_decide k (only_fields (decide_fields k) payload))) (\<lambda>(eid, command).
         andthen (require (eid = enrollment_id) (refused_argument ''path and command enrollment_id differ'')) (\<lambda>_.
         andthen (read_actor k header) (\<lambda>who.
           Inr (as_actor who (decide_enrollment x (he_authority e) (dw_started d) (dw_now d) command_id
             (correlation_of e payload) enrollment_id command))))))))"

definition post_cancel :: "http_env \<Rightarrow> draws \<Rightarrow> string \<Rightarrow> string \<Rightarrow> dict \<Rightarrow> exn + command_result handler" where
  "post_cancel e d header enrollment_id payload =
     (let x = he_external e; k = he_sdk e
      in andthen (required_command_id payload) (\<lambda>command_id.
         andthen (strict_fields x payload (command_fields (cancel_fields k))) (\<lambda>_.
         andthen (validated (sdk_cancel k (only_fields (cancel_fields k) payload))) (\<lambda>(eid, reason).
         andthen (require (eid = enrollment_id) (refused_argument ''path and cancel command enrollment_id differ'')) (\<lambda>_.
         andthen (read_actor k header) (\<lambda>who.
           Inr (as_actor who (cancel_enrollment x (dw_started d) (dw_now d) command_id
             (correlation_of e payload) enrollment_id reason))))))))"

definition post_collect :: "http_env \<Rightarrow> draws \<Rightarrow> string \<Rightarrow> dict \<Rightarrow> exn + command_result handler" where
  "post_collect e d enrollment_id payload =
     (let x = he_external e; k = he_sdk e
      in andthen (required_command_id payload) (\<lambda>command_id.
         andthen (strict_fields x payload (command_fields (collect_fields k))) (\<lambda>_.
         andthen (validated (sdk_collect k (only_fields (collect_fields k) payload))) (\<lambda>(eid, revision, challenge, pf).
         andthen (require (eid = enrollment_id) (refused_argument ''path and command enrollment_id differ'')) (\<lambda>_.
           Inr (collect_claim_grant x (he_authority e) (dw_ephemeral d) (dw_started d) (dw_now d) command_id
             (correlation_of e payload) enrollment_id revision challenge pf))))))"

definition post_ack :: "http_env \<Rightarrow> draws \<Rightarrow> string \<Rightarrow> string \<Rightarrow> dict \<Rightarrow> exn + command_result handler" where
  "post_ack e d enrollment_id grant_id payload =
     (let x = he_external e; k = he_sdk e
      in andthen (required_command_id payload) (\<lambda>command_id.
         andthen (strict_fields x payload (command_fields (ack_fields k))) (\<lambda>_.
         andthen (validated (sdk_ack k (only_fields (ack_fields k) payload))) (\<lambda>(eid, gid, pf, generation, epoch).
         andthen (require (eid = enrollment_id \<and> gid = grant_id) (refused_argument ''path and Ack command identity differ'')) (\<lambda>_.
           Inr (ack_claim_grant x (he_authority e) (he_projector e) (dw_started d) (dw_now d) command_id
             (correlation_of e payload) enrollment_id grant_id pf generation epoch))))))"

definition post_revoke :: "http_env \<Rightarrow> draws \<Rightarrow> string \<Rightarrow> string \<Rightarrow> dict \<Rightarrow> exn + command_result handler" where
  "post_revoke e d header device_id payload =
     (let x = he_external e; k = he_sdk e
      in andthen (required_command_id payload) (\<lambda>command_id.
         andthen (strict_fields x payload (revoke_fields k)) (\<lambda>_.
         andthen (validated (sdk_revoke k payload)) (\<lambda>(correlation_id, ref, reason).
         andthen (require (device_instance_id ref = device_id) (refused_argument ''path and DeviceRef do not match'')) (\<lambda>_.
         andthen (read_actor k header) (\<lambda>who.
           Inr (as_actor who (revoke_claim x (dw_now d) command_id correlation_id ref reason))))))))"

definition contract_version_ok :: "dict \<Rightarrow> exn + unit" where
  "contract_version_ok payload =
     require (map_of payload ''contract_version'' \<in> {None, Some (JStr ''1'')})
       (refused_argument ''unsupported contract_version'')"

definition voucher_id_of :: "json \<Rightarrow> exn + string" where
  "voucher_id_of v =
     (case v of
        JStr s \<Rightarrow> (if strip s \<noteq> [] \<and> length s \<le> 256 then Inr s else Inl (refused_argument ''jti is required''))
      | _ \<Rightarrow> Inl (refused_argument ''jti is required''))"

definition key_fingerprint_of :: "json \<Rightarrow> exn + string" where
  "key_fingerprint_of v =
     (let refused = Inl (refused_argument ''operational_key_id must be an sha256: fingerprint'')
      in case v of
        JStr s \<Rightarrow> (if take 7 s = ''sha256:'' \<and> length s = 71 then Inr s else refused)
      | _ \<Rightarrow> refused)"

definition post_standing :: "http_env \<Rightarrow> draws \<Rightarrow> string \<Rightarrow> dict \<Rightarrow> exn + string \<times> string \<times> caller" where
  "post_standing e d header payload =
     andthen (strict_fields (he_external e) payload [''contract_version'', ''jti'', ''operational_key_id'']) (\<lambda>_.
     andthen (contract_version_ok payload) (\<lambda>_.
     andthen (voucher_id_of (dict_get payload ''jti'')) (\<lambda>jti.
     andthen (key_fingerprint_of (dict_get payload ''operational_key_id'')) (\<lambda>key.
     andthen (read_actor (he_sdk e) header) (\<lambda>who. Inr (jti, key, who))))))"

text \<open>The authority refuses an id that is no text as it refuses a blank one.\<close>

definition principal_text :: "json \<Rightarrow> string" where
  "principal_text v = (case v of JStr s \<Rightarrow> s | _ \<Rightarrow> [])"

definition post_withdrawal :: "http_env \<Rightarrow> draws \<Rightarrow> string \<Rightarrow> dict \<Rightarrow> exn + string \<times> caller" where
  "post_withdrawal e d header payload =
     andthen (strict_fields (he_external e) payload [''contract_version'', ''principal_id'']) (\<lambda>_.
     andthen (contract_version_ok payload) (\<lambda>_.
     andthen (read_actor (he_sdk e) header) (\<lambda>who.
       Inr (principal_text (dict_get payload ''principal_id''), who))))"

text \<open>\<open>EnrollmentProposalState(item) for item in states.split(",") if item\<close>.\<close>

definition enum_of :: "admission_sdk \<Rightarrow> string \<Rightarrow> ('s \<Rightarrow> string) \<Rightarrow> 's list \<Rightarrow> string \<Rightarrow> exn + 's" where
  "enum_of k enum value states item =
     (case find (\<lambda>s. value s = item) states of
        Some s \<Rightarrow> Inr s
      | None \<Rightarrow> Inl (Value_error (sdk_repr k item @ '' is not a valid '' @ enum)))"

fun states_of :: "(string \<Rightarrow> exn + 's) \<Rightarrow> string list \<Rightarrow> exn + 's list" where
  "states_of f [] = Inr []"
| "states_of f (item # items) =
     (if item = [] then states_of f items
      else andthen (f item) (\<lambda>s. andthen (states_of f items) (\<lambda>ss. Inr (s # ss))))"

definition proposal_states :: "proposal_state list" where
  "proposal_states = [Pending_review, Approved_awaiting_handoff, Grant_delivered, Grant_acknowledged,
     Rejected, Expired, Canceled, Claim_revoked]"

definition cursor_of ::
  "admission_sdk \<Rightarrow> string \<Rightarrow> instant option \<Rightarrow> string option \<Rightarrow> exn + (int \<times> string) option" where
  "cursor_of k owner after_key resource_id =
     andthen (require ((after_key = None) = (resource_id = None)) (refused_argument ''both cursor fields are required'')) (\<lambda>_.
     (case (after_key, resource_id) of
        (Some t, Some i) \<Rightarrow> andthen (validated (sdk_cursor k owner t i)) (\<lambda>c. Inr (Some c))
      | _ \<Rightarrow> Inr None))"

definition list_enrollments_route ::
  "http_env \<Rightarrow> draws \<Rightarrow> string \<Rightarrow> string \<Rightarrow> int \<Rightarrow> instant option \<Rightarrow> string option \<Rightarrow>
     exn + string \<times> proposal_state list \<times> (int \<times> string) option \<times> nat \<times> caller" where
  "list_enrollments_route e d header states limit after_key resource_id =
     (let k = he_sdk e
      in andthen (read_actor k header) (\<lambda>who.
         andthen (read_context k header) (\<lambda>ctx.
         andthen (cursor_of k (ctx_owner_domain_id ctx) after_key resource_id) (\<lambda>cursor.
         andthen (states_of (enum_of k ''EnrollmentProposalState'' proposal_state_value proposal_states)
                    (split_on (CHR '','') states)) (\<lambda>ss.
         andthen (validated (sdk_proposal_query k ss limit)) (\<lambda>n.
           Inr (ctx_owner_domain_id ctx, ss, cursor, n, who)))))))"

definition list_claims_route ::
  "http_env \<Rightarrow> draws \<Rightarrow> string \<Rightarrow> string \<Rightarrow> int \<Rightarrow> instant option \<Rightarrow> string option \<Rightarrow> hub_db \<Rightarrow> exn + body" where
  "list_claims_route e d header states limit after_key resource_id db =
     (let k = he_sdk e
      in andthen (read_context k header) (\<lambda>ctx.
         andthen (cursor_of k (ctx_owner_domain_id ctx) after_key resource_id) (\<lambda>cursor.
         andthen (states_of (enum_of k ''ClaimState'' claim_state_value [Active, Suspended, Revoked])
                    (split_on (CHR '','') states)) (\<lambda>ss.
         andthen (validated (sdk_claim_query k ss limit)) (\<lambda>n.
         andthen (list_claims (dw_now d) (ctx_owner_domain_id ctx) ss cursor n ctx db) (\<lambda>page.
           Inr (Claim_page_body page)))))))"

section \<open>The Claim event stream\<close>

definition claim_event_owner :: "http_env \<Rightarrow> string \<Rightarrow> exn + string" where
  "claim_event_owner e header =
     (case he_reader e of
        Some reader \<Rightarrow> reader header
      | None \<Rightarrow>
          andthen (read_context (he_sdk e) header) (\<lambda>ctx.
          andthen (require_scope ctx ''device.claim.events.read'') (\<lambda>_. Inr (ctx_owner_domain_id ctx))))"

text \<open>The stored document of every event of the page is read back by the contract.\<close>

fun valid_events :: "admission_sdk \<Rightarrow> (int \<times> admission_event) list \<Rightarrow> exn + unit" where
  "valid_events k [] = Inr ()"
| "valid_events k ((position, event) # es) =
     andthen (validated (sdk_event k event)) (\<lambda>_. valid_events k es)"

definition claim_events_route :: "http_env \<Rightarrow> draws \<Rightarrow> string \<Rightarrow> int \<Rightarrow> int \<Rightarrow> hub_db \<Rightarrow> exn + body" where
  "claim_events_route e d header after limit db =
     andthen (claim_event_owner e header) (\<lambda>owner.
     andthen (require (1 \<le> limit \<and> limit \<le> 500)
       (refused_argument ''claim event page limit must be between 1 and 500'')) (\<lambda>_.
     andthen (validated (sdk_event_cursor (he_sdk e) after)) (\<lambda>_.
     andthen (read_claim_event_page (he_authority e) (dw_now d) after (nat limit) owner db) (\<lambda>page.
     andthen (valid_events (he_sdk e) (ep_events page)) (\<lambda>_. Inr (Event_page_body page))))))"

section \<open>One request\<close>

definition map_body :: "('a \<Rightarrow> body) \<Rightarrow> 'a handler \<Rightarrow> body handler" where
  "map_body f h db = (case h db of (db', Inl ex) \<Rightarrow> (db', Inl ex) | (db', Inr v) \<Rightarrow> (db', Inr (f v)))"

text \<open>A route that reads only.\<close>

definition reading :: "(hub_db \<Rightarrow> exn + body) \<Rightarrow> body handler" where
  "reading f db = (db, f db)"

definition raising :: "exn + body handler \<Rightarrow> body handler" where
  "raising h db = (case h of Inl ex \<Rightarrow> (db, Inl ex) | Inr f \<Rightarrow> f db)"

fun route :: "http_env \<Rightarrow> draws \<Rightarrow> string \<Rightarrow> http_request \<Rightarrow> body handler" where
  "route e d header (Post_create p) = run_command e (post_create e d p)"
| "route e d header (Post_decision eid p) = run_command e (post_decision e d header eid p)"
| "route e d header (Post_cancel eid p) = run_command e (post_cancel e d header eid p)"
| "route e d header (Post_collect eid p) = run_command e (post_collect e d eid p)"
| "route e d header (Post_ack eid gid p) = run_command e (post_ack e d eid gid p)"
| "route e d header (Post_revoke did p) = run_command e (post_revoke e d header did p)"
| "route e d header (Post_standing p) =
     raising (andthen (post_standing e d header p) (\<lambda>(jti, key, who).
       Inr (map_body (\<lambda>(b, j). Standing_body b j)
         (as_actor who (record_commissioning_standing (dw_now d) jti key)))))"
| "route e d header (Post_withdrawal p) =
     raising (andthen (post_withdrawal e d header p) (\<lambda>(pid, who).
       Inr (map_body (Withdrawal_body (ca_owner_domain_id who) pid)
         (as_actor who (withdraw_controller (dw_now d) pid)))))"
| "route e d header (Get_base_identity key) =
     reading (\<lambda>db. andthen (read_context (he_sdk e) header) (\<lambda>ctx.
       andthen (base_identity_for_operational_key db key ctx) (\<lambda>b. Inr (Base_identity_body b))))"
| "route e d header (Get_claim did) =
     reading (\<lambda>db. andthen (read_context (he_sdk e) header) (\<lambda>ctx.
       andthen (read_claim db did ctx) (\<lambda>c. Inr (Claim_body c))))"
| "route e d header (Get_enrollment eid) =
     raising (andthen (read_actor (he_sdk e) header) (\<lambda>who.
       Inr (map_body Recovery_body
         (as_actor who (get_enrollment_recovery (he_external e) (dw_started d) (dw_now d) eid)))))"
| "route e d header (Get_enrollments states limit t i) =
     raising (andthen (list_enrollments_route e d header states limit t i) (\<lambda>(owner, ss, cursor, n, who).
       Inr (map_body Recovery_page_body
         (as_actor who (list_enrollment_recovery (he_external e) (dw_started d) (dw_now d) owner ss cursor n)))))"
| "route e d header (Get_claims states limit t i) =
     reading (list_claims_route e d header states limit t i)"
| "route e d header (Get_claim_events after limit) =
     reading (claim_events_route e d header after limit)"

fun route_catches :: "http_request \<Rightarrow> catches" where
  "route_catches (Post_create p) = Device_route"
| "route_catches (Post_collect eid p) = Device_route"
| "route_catches (Post_ack eid gid p) = Device_route"
| "route_catches (Get_base_identity key) = Lookup_route"
| "route_catches (Get_claim did) = Lookup_route"
| "route_catches (Get_enrollment eid) = Recovery_route"
| "route_catches (Get_enrollments states limit t i) = Page_route"
| "route_catches (Get_claims states limit t i) = Page_route"
| "route_catches (Get_claim_events after limit) = Page_route"
| "route_catches _ = Controller_route"

text \<open>The command id a problem is answered with: as it came, before it is known to be a text.\<close>

fun echoed_id :: "http_request \<Rightarrow> json" where
  "echoed_id (Post_create p) = dict_get p ''command_id''"
| "echoed_id (Post_decision eid p) = dict_get p ''command_id''"
| "echoed_id (Post_cancel eid p) = dict_get p ''command_id''"
| "echoed_id (Post_collect eid p) = dict_get p ''command_id''"
| "echoed_id (Post_ack eid gid p) = dict_get p ''command_id''"
| "echoed_id (Post_revoke did p) = dict_get p ''command_id''"
| "echoed_id _ = JNull"

fun success_status :: "http_request \<Rightarrow> int" where
  "success_status (Post_create p) = 201"
| "success_status _ = 200"

definition serve_http :: "http_env \<Rightarrow> draws \<Rightarrow> string \<Rightarrow> http_request \<Rightarrow> hub_db \<Rightarrow> hub_db \<times> answer" where
  "serve_http e d header rq db =
     (case route e d header rq db of
        (db', outcome) \<Rightarrow> (db', answered (he_sdk e) (route_catches rq) (echoed_id rq) (success_status rq) outcome))"

definition http_run :: "http_env \<Rightarrow> (draws \<times> string \<times> http_request) list \<Rightarrow> hub_db" where
  "http_run e calls = fold (\<lambda>(d, header, rq) db. fst (serve_http e d header rq db)) calls empty_db"

end
