(* ===== verification/Ha_Connection.thy ===== *)
theory Ha_Connection
  imports Home_Assistant Provider_Accounts
begin

text \<open>
  One websocket to a Home Assistant (\<open>hub/smarthome/providers/homeassistant/connection.py\<close>): the
  handshake, the requests that wait for their replies, the cache of states, and the bounded queues of
  its listeners.

  What arrives is a parameter: the outcome of connecting and of each receive, the replies, and the messages
  the reader is given.  A message that is no text is passed over; \<open>Text None\<close> is a text that is not JSON.
  Exceptions the code does not name end in \<open>Raised\<close>.
\<close>

datatype failure = Connection_failed string string | Timed_out | Raised exn

definition raising_as :: "exn + 'a \<Rightarrow> failure + 'a" where
  "raising_as m = (case m of Inl e \<Rightarrow> Inl (Raised e) | Inr v \<Rightarrow> Inr v)"

text \<open>\<open>.get\<close> of what is not a dictionary, and a value that cannot be a key; \<open>True\<close> is the key 1.\<close>

definition as_dict :: "json \<Rightarrow> exn + dict" where
  "as_dict j = (case j of JObj d \<Rightarrow> Inr d | _ \<Rightarrow> Inl (Other_error ''AttributeError''))"

fun dict_key :: "json \<Rightarrow> exn + json" where
  "dict_key (JBool b) = Inr (JNum (if b then 1 else 0))"
| "dict_key (JArr xs) = Inl (Type_error ''unhashable type'')"
| "dict_key (JObj d) = Inl (Type_error ''unhashable type'')"
| "dict_key j = Inr j"

section \<open>The connection\<close>

datatype outcome = Answered dict | Gone string

type_synonym change = "json \<times> json"

record link =
  ln_url :: string
  ln_token :: string
  ln_open :: bool
  ln_reading :: bool
  ln_next_id :: int
  ln_pending :: "int list"
  ln_futures :: "(int \<times> outcome option) list"
  ln_states :: "(json \<times> json) list"
  ln_queues :: "(nat \<times> change list) list"
  ln_version :: string
  ln_location :: string

definition right_slashes :: "string \<Rightarrow> string" where
  "right_slashes s = List.rev (dropWhile (\<lambda>c. c = CHR ''/'') (List.rev s))"

definition new_link :: "string \<Rightarrow> string \<Rightarrow> link" where
  "new_link url token = \<lparr>ln_url = right_slashes url, ln_token = token, ln_open = False, ln_reading = False,
     ln_next_id = 1, ln_pending = [], ln_futures = [], ln_states = [], ln_queues = [], ln_version = [],
     ln_location = []\<rparr>"

text \<open>A future still waiting is given its outcome.\<close>

definition settle :: "int \<Rightarrow> outcome \<Rightarrow> (int \<times> outcome option) list \<Rightarrow> (int \<times> outcome option) list" where
  "settle i r futures = map (\<lambda>(j, f). if j = i \<and> f = None then (j, Some r) else (j, f)) futures"

definition settle_all :: "string \<Rightarrow> link \<Rightarrow> link" where
  "settle_all why l = l\<lparr>ln_futures := fold (\<lambda>i. settle i (Gone why)) (ln_pending l) (ln_futures l)\<rparr>"

text \<open>The reader ends: because the socket did, or because of a message it cannot read.\<close>

definition reader_ends :: "link \<Rightarrow> link" where
  "reader_ends l = settle_all ''connection lost'' (l\<lparr>ln_reading := False\<rparr>)"

definition socket_lost :: "link \<Rightarrow> link" where
  "socket_lost l = reader_ends (l\<lparr>ln_open := False\<rparr>)"

definition close_link :: "link \<Rightarrow> link" where
  "close_link l = (settle_all ''connection closed'' (socket_lost l))\<lparr>ln_pending := []\<rparr>"

section \<open>Events\<close>

definition queue_size :: nat where
  "queue_size = 1024"

definition push_change :: "change \<Rightarrow> change list \<Rightarrow> change list" where
  "push_change c q = (if queue_size \<le> length q then tl q else q) @ [c]"

definition on_event :: "dict \<Rightarrow> link \<Rightarrow> exn + link" where
  "on_event event l =
     (if dict_get event ''event_type'' \<noteq> JStr ''state_changed'' then Inr l
      else andthen (as_dict (py_or (dict_get event ''data'') (JObj []))) (\<lambda>data.
        let new_state = dict_get data ''new_state''; entity_id = dict_get data ''entity_id''
        in if \<not> truthy entity_id then Inr l
           else andthen (dict_key entity_id) (\<lambda>k.
             Inr (l\<lparr>ln_states := (if new_state = JNull then AList.delete k (ln_states l)
                                  else AList.update k new_state (ln_states l)),
                    ln_queues := map (\<lambda>(i, q). (i, push_change (entity_id, new_state) q)) (ln_queues l)\<rparr>))))"

datatype message = Text "json option" | Not_text

definition on_message :: "json \<Rightarrow> link \<Rightarrow> exn + link" where
  "on_message payload l =
     andthen (as_dict payload) (\<lambda>p.
       if dict_get p ''type'' = JStr ''event''
       then andthen (as_dict (py_or (dict_get p ''event'') (JObj []))) (\<lambda>event. on_event event l)
       else andthen (dict_key (dict_get p ''id'')) (\<lambda>k.
         case as_int k of
           None \<Rightarrow> Inr l
         | Some i \<Rightarrow> Inr (if i \<in> set (ln_pending l)
                          then l\<lparr>ln_futures := settle i (Answered p) (ln_futures l)\<rparr> else l)))"

definition read_message :: "message \<Rightarrow> link \<Rightarrow> link" where
  "read_message m l =
     (if \<not> ln_reading l then l
      else case m of
        Not_text \<Rightarrow> l
      | Text None \<Rightarrow> reader_ends l
      | Text (Some payload) \<Rightarrow> (case on_message payload l of Inl e \<Rightarrow> reader_ends l | Inr l1 \<Rightarrow> l1))"

section \<open>Requests\<close>

definition request_begin :: "dict \<Rightarrow> link \<Rightarrow> failure + link \<times> int \<times> dict" where
  "request_begin m l =
     (if \<not> ln_open l then Inl (Connection_failed ''CLOSED'' ''not connected'')
      else let i = ln_next_id l
           in Inr (l\<lparr>ln_next_id := i + 1, ln_pending := ln_pending l @ [i],
                     ln_futures := ln_futures l @ [(i, None)]\<rparr>, i, (''id'', jint i) # m))"

definition reply_value :: "external \<Rightarrow> dict \<Rightarrow> failure + json" where
  "reply_value x reply =
     (if truthy (dict_get reply ''success'') then Inr (dict_get reply ''result'')
      else andthen (raising_as (as_dict (py_or (dict_get reply ''error'') (JObj [])))) (\<lambda>err.
        Inl (Connection_failed
          (str_of x (py_or (dict_get err ''code'') (JStr ''REQUEST_FAILED'')))
          (str_of x (py_or (dict_get err ''message'') (JStr ''request failed''))))))"

text \<open>The wait ends with the outcome the future has, or with none: the 15 seconds are over.\<close>

definition request_end :: "external \<Rightarrow> int \<Rightarrow> link \<Rightarrow> link \<times> (failure + json)" where
  "request_end x i l =
     (l\<lparr>ln_pending := removeAll i (ln_pending l), ln_futures := AList.delete i (ln_futures l)\<rparr>,
      case map_of (ln_futures l) i of
        Some (Some (Answered reply)) \<Rightarrow> reply_value x reply
      | Some (Some (Gone why)) \<Rightarrow> Inl (Connection_failed ''CLOSED'' why)
      | _ \<Rightarrow> Inl Timed_out)"

text \<open>A request with nothing but its own reply, or no reply, in between.\<close>

definition ask :: "external \<Rightarrow> dict \<Rightarrow> dict option \<Rightarrow> link \<Rightarrow> link \<times> (failure + json)" where
  "ask x m reply l =
     (case request_begin m l of
        Inl f \<Rightarrow> (l, Inl f)
      | Inr (l1, i, frame) \<Rightarrow>
          request_end x i (case reply of None \<Rightarrow> l1 | Some r \<Rightarrow> l1\<lparr>ln_futures := settle i (Answered r) (ln_futures l1)\<rparr>))"

definition service_message :: "service_call \<Rightarrow> dict" where
  "service_message c =
     [(''type'', JStr ''call_service''), (''domain'', JStr (sc_domain c)), (''service'', JStr (sc_service c)),
      (''service_data'', JObj (AList.delete ''entity_id'' (sc_data c))),
      (''target'', JObj (case map_of (sc_data c) ''entity_id'' of None \<Rightarrow> [] | Some e \<Rightarrow> [(''entity_id'', e)]))]"

section \<open>Opening\<close>

text \<open>A \<open>ClientError\<close>, a \<open>TimeoutError\<close> or a \<open>TypeError\<close> is told apart from any other exception.\<close>

datatype received = Received json | Receive_failed string | Receive_raised exn

record dial =
  dl_connected :: "string option"
  dl_hello :: received
  dl_answer :: received
  dl_config :: "dict option"
  dl_states :: "dict option"
  dl_subscribed :: "dict option"

text \<open>\<open>str.replace(old, new, 1)\<close>.\<close>

fun replace_first :: "string \<Rightarrow> string \<Rightarrow> string \<Rightarrow> string" where
  "replace_first w new [] = []"
| "replace_first w new (c # s) =
     (if starts_word w (c # s) then new @ drop (length w) (c # s) else c # replace_first w new s)"

definition socket_url :: "link \<Rightarrow> string" where
  "socket_url l = replace_first ''https://'' ''wss://'' (replace_first ''http://'' ''ws://'' (ln_url l)) @ ''/api/websocket''"

definition receive :: "received \<Rightarrow> failure + dict" where
  "receive r =
     (case r of
        Receive_failed e \<Rightarrow> Inl (Connection_failed ''UNREACHABLE'' (''handshake failed: '' @ e))
      | Receive_raised e \<Rightarrow> Inl (Raised e)
      | Received j \<Rightarrow> raising_as (as_dict j))"

definition handshake :: "external \<Rightarrow> dial \<Rightarrow> failure + string" where
  "handshake x dl =
     andthen (receive (dl_hello dl)) (\<lambda>hello.
     andthen (require (dict_get hello ''type'' = JStr ''auth_required'')
       (Connection_failed ''NOT_HOME_ASSISTANT'' ''no auth_required greeting'')) (\<lambda>_.
     andthen (receive (dl_answer dl)) (\<lambda>answer.
     andthen (require (dict_get answer ''type'' = JStr ''auth_ok'')
       (Connection_failed ''UNAUTHORIZED''
         (str_of x (py_or (dict_get answer ''message'') (JStr ''token was not accepted''))))) (\<lambda>_.
     Inr (case map_of answer ''ha_version'' of None \<Rightarrow> '''' | Some v \<Rightarrow> str_of x v)))))"

text \<open>\<open>{s["entity_id"]: s for s in states}\<close>.\<close>

fun state_entries :: "json list \<Rightarrow> (json \<times> json) list \<Rightarrow> exn + (json \<times> json) list" where
  "state_entries [] acc = Inr acc"
| "state_entries (s # ss) acc =
     (case s of
        JObj d \<Rightarrow>
          andthen (param d ''entity_id'') (\<lambda>e. andthen (dict_key e) (\<lambda>k. state_entries ss (AList.update k s acc)))
      | _ \<Rightarrow> Inl (Type_error ''indices must be integers''))"

definition refresh_states :: "external \<Rightarrow> dict option \<Rightarrow> link \<Rightarrow> link \<times> (failure + unit)" where
  "refresh_states x reply l =
     (case ask x [(''type'', JStr ''get_states'')] reply l of
        (l1, Inl f) \<Rightarrow> (l1, Inl f)
      | (l1, Inr states) \<Rightarrow>
          (case andthen (py_iter states) (\<lambda>ss. state_entries ss []) of
             Inl e \<Rightarrow> (l1, Inl (Raised e))
           | Inr es \<Rightarrow> (l1\<lparr>ln_states := es\<rparr>, Inr ())))"

text \<open>Past the handshake the socket stays open whatever the requests come to.\<close>

definition open_link :: "external \<Rightarrow> dial \<Rightarrow> link \<Rightarrow> link \<times> (failure + unit)" where
  "open_link x dl l =
     (case dl_connected dl of
        Some e \<Rightarrow> (l, Inl (Connection_failed ''UNREACHABLE'' (''cannot reach '' @ ln_url l @ '': '' @ e)))
      | None \<Rightarrow>
          (case handshake x dl of
             Inl f \<Rightarrow> (l, Inl f)
           | Inr version \<Rightarrow>
               (case ask x [(''type'', JStr ''get_config'')] (dl_config dl)
                       (l\<lparr>ln_open := True, ln_reading := True, ln_version := version\<rparr>) of
                  (l1, Inl f) \<Rightarrow> (l1, Inl f)
                | (l1, Inr config) \<Rightarrow>
                    (case as_dict config of
                       Inl e \<Rightarrow> (l1, Inl (Raised e))
                     | Inr c \<Rightarrow>
                         (case refresh_states x (dl_states dl)
                                 (l1\<lparr>ln_location := str_of x (py_or (dict_get c ''location_name'') (JStr ''Home Assistant''))\<rparr>) of
                            (l2, Inl f) \<Rightarrow> (l2, Inl f)
                          | (l2, Inr _) \<Rightarrow>
                              (case ask x [(''type'', JStr ''subscribe_events''), (''event_type'', JStr ''state_changed'')]
                                      (dl_subscribed dl) l2 of
                                 (l3, Inl f) \<Rightarrow> (l3, Inl f)
                               | (l3, Inr _) \<Rightarrow> (l3, Inr ())))))))"

section \<open>Waiting and listening\<close>

text \<open>
  \<open>wait_state\<close>, over the caches it looks at: when it begins, each time it is woken, and when the time is over.
\<close>

fun wait_state :: "(json \<Rightarrow> exn + bool) \<Rightarrow> string \<Rightarrow> (json \<times> json) list list \<Rightarrow> exn + json option" where
  "wait_state done entity_id [] = Inr None"
| "wait_state done entity_id (cache # later) =
     (case map_of cache (JStr entity_id) of
        None \<Rightarrow> wait_state done entity_id later
      | Some s \<Rightarrow> andthen (done s) (\<lambda>b. if b then Inr (Some s) else wait_state done entity_id later))"

definition listen :: "nat \<Rightarrow> link \<Rightarrow> link" where
  "listen i l = l\<lparr>ln_queues := ln_queues l @ [(i, [])]\<rparr>"

definition stop_changes :: "nat \<Rightarrow> link \<Rightarrow> link" where
  "stop_changes i l = l\<lparr>ln_queues := AList.delete i (ln_queues l)\<rparr>"

definition take_change :: "nat \<Rightarrow> link \<Rightarrow> (change \<times> link) option" where
  "take_change i l =
     (case map_of (ln_queues l) i of
        Some (c # q) \<Rightarrow> Some (c, l\<lparr>ln_queues := AList.update i q (ln_queues l)\<rparr>)
      | _ \<Rightarrow> None)"

end
