(* ===== verification/Ha_Provider.thy ===== *)
theory Ha_Provider
  imports Ha_Connection
begin

text \<open>
  The Home Assistant Provider over its connections
  (\<open>hub/smarthome/providers/homeassistant/provider.py\<close>): what the instance exposes, the state of a device
  from the cache, carrying out a command, and the task that observes an account.  Binding is in
  \<open>Provider_Accounts\<close>.

  The registries have the shape Home Assistant documents.  The order in which a set is walked is a parameter.
\<close>

section \<open>Registries\<close>

record ha_entry =
  he_device_id :: "string option"
  he_area_id :: "string option"
  he_name :: "string option"
  he_original_name :: "string option"
  he_original_class :: "string option"

record ha_registries =
  hr_areas :: "(string \<times> string) list"
  hr_devices :: "(string \<times> string option) list"
  hr_entries :: "(string \<times> ha_entry) list"
  hr_exposed :: "(string \<times> dict) list"

record ha_provider =
  hp_links :: "(string \<times> link) list"
  hp_owners :: "(string \<times> string) list"
  hp_known :: "(string \<times> (string \<times> entity) list) list"

definition device_offline :: string where
  "device_offline = ''DEVICE_OFFLINE''"

definition ha_link :: "string \<Rightarrow> string \<Rightarrow> ha_provider \<Rightarrow> string + link" where
  "ha_link owner account pv =
     (case map_of (hp_links pv) account of
        None \<Rightarrow> Inl device_offline
      | Some l \<Rightarrow> if map_of (hp_owners pv) account \<noteq> Some owner then Inl device_offline else Inr l)"

text \<open>Python's \<open>or\<close> of two values that are texts or \<open>None\<close>; the empty text is passed over.\<close>

fun first_text :: "string option list \<Rightarrow> string option" where
  "first_text [] = None"
| "first_text (t # ts) = (case t of Some (c # s) \<Rightarrow> Some (c # s) | _ \<Rightarrow> first_text ts)"

text \<open>An entity's attributes and the text of its state; of a dict comprehension the last entry of a key counts.\<close>

definition state_attributes :: "dict \<Rightarrow> exn + dict" where
  "state_attributes s = as_dict (py_or (dict_get s ''attributes'') (JObj []))"

definition state_text_of :: "external \<Rightarrow> dict \<Rightarrow> string" where
  "state_text_of x s = str_of x (dict_get s ''state'')"

definition unreachable_state :: "dict \<Rightarrow> bool" where
  "unreachable_state s \<longleftrightarrow> dict_get s ''state'' \<in> {JStr ''unavailable'', JStr ''unknown''}"

definition text_of :: "json \<Rightarrow> string option" where
  "text_of j = (case j of JStr s \<Rightarrow> Some s | _ \<Rightarrow> None)"

text \<open>\<open>attributes.get("device_class") or fallback\<close>: what is truthy and no text is no known class.\<close>

definition class_or :: "json \<Rightarrow> string option \<Rightarrow> string option" where
  "class_or j fallback = (if truthy j then text_of j else fallback)"

definition last_of :: "('k \<times> 'v) list \<Rightarrow> 'k \<Rightarrow> 'v option" where
  "last_of m k = map_of (List.rev m) k"

definition no_entry :: ha_entry where
  "no_entry = \<lparr>he_device_id = None, he_area_id = None, he_name = None, he_original_name = None, he_original_class = None\<rparr>"

definition exposed_entity :: "external \<Rightarrow> ha_registries \<Rightarrow> string \<Rightarrow> dict \<Rightarrow> exn + entity" where
  "exposed_entity x r entity_id s =
     (let entry = (case last_of (hr_entries r) entity_id of None \<Rightarrow> no_entry | Some e \<Rightarrow> e);
          in_device = Option.bind (last_of (hr_devices r) (case he_device_id entry of None \<Rightarrow> [] | Some d \<Rightarrow> d)) id;
          area = first_text [he_area_id entry, in_device]
      in andthen (state_attributes s) (\<lambda>a.
         Inr \<lparr>en_entity_id = entity_id, en_state = state_text_of x s, en_attributes = a,
              en_name = (case first_text [he_name entry, he_original_name entry, text_of (dict_get a ''friendly_name'')] of
                           None \<Rightarrow> entity_id | Some n \<Rightarrow> n),
              en_area_name = Option.bind area (last_of (hr_areas r)),
              en_device_id = he_device_id entry,
              en_device_class = class_or (dict_get a ''device_class'') (he_original_class entry)\<rparr>))"

definition exposed_ids :: "ha_registries \<Rightarrow> string list" where
  "exposed_ids r = map fst (filter (\<lambda>(i, flags). truthy (dict_get flags ''conversation'')) (hr_exposed r))"

text \<open>\<open>_entities\<close>: the exposed entities that have a state.\<close>

fun ha_entities :: "external \<Rightarrow> ha_registries \<Rightarrow> (json \<times> json) list \<Rightarrow> string list \<Rightarrow> exn + (string \<times> entity) list" where
  "ha_entities x r states [] = Inr []"
| "ha_entities x r states (i # is) =
     (case map_of states (JStr i) of
        None \<Rightarrow> ha_entities x r states is
      | Some j \<Rightarrow>
          (if j = JNull then ha_entities x r states is
           else andthen (as_dict j) (\<lambda>s. andthen (exposed_entity x r i s) (\<lambda>e.
                andthen (ha_entities x r states is) (\<lambda>es. Inr ((i, e) # es))))))"

text \<open>\<open>discover\<close>: \<open>walk\<close> is the order of the set, \<open>Inl\<close> of the registries the failure of a request.\<close>

definition ha_discover ::
  "external \<Rightarrow> home_sdk \<Rightarrow> mapping_sdk \<Rightarrow> (string list \<Rightarrow> string list) \<Rightarrow> string \<Rightarrow> string \<Rightarrow> failure + ha_registries \<Rightarrow>
   ha_provider \<Rightarrow> ha_provider \<times> (string + failure + discovered list)" where
  "ha_discover x h m walk owner account came pv =
     (case ha_link owner account pv of
        Inl e \<Rightarrow> (pv, Inl e)
      | Inr l \<Rightarrow>
          (case came of
             Inl f \<Rightarrow> (pv, Inr (Inl f))
           | Inr r \<Rightarrow>
               (case ha_entities x r (ln_states l) (walk (exposed_ids r)) of
                  Inl e \<Rightarrow> (pv, Inr (Inl (Raised e)))
                | Inr es \<Rightarrow>
                    (pv\<lparr>hp_known := AList.update account es (hp_known pv)\<rparr>,
                     Inr (raising_as (discover_entities x h m (map snd es)))))))"

section \<open>The state of a device\<close>

text \<open>\<open>_entity\<close>; nothing that reads it looks at its name.\<close>

definition known_entity :: "external \<Rightarrow> (string \<times> entity) list \<Rightarrow> json \<Rightarrow> exn + entity" where
  "known_entity x known j =
     andthen (as_dict j) (\<lambda>s. andthen (param s ''entity_id'') (\<lambda>e. andthen (dict_key e) (\<lambda>_. andthen (state_attributes s) (\<lambda>a.
       let found = Option.bind (text_of e) (map_of known)
       in Inr \<lparr>en_entity_id = str_of x e, en_state = state_text_of x s, en_attributes = a,
            en_name = (case found of
                         Some k \<Rightarrow> en_name k
                       | None \<Rightarrow> str_of x (py_or (dict_get a ''friendly_name'') e)),
            en_area_name = Option.bind found en_area_name,
            en_device_id = Option.bind found en_device_id,
            en_device_class = class_or (dict_get a ''device_class'') (Option.bind found en_device_class)\<rparr>))))"

definition entities_known :: "ha_provider \<Rightarrow> string \<Rightarrow> (string \<times> entity) list" where
  "entities_known pv account = (case map_of (hp_known pv) account of None \<Rightarrow> [] | Some es \<Rightarrow> es)"

fun known_each :: "external \<Rightarrow> (string \<times> entity) list \<Rightarrow> json list \<Rightarrow> exn + entity list" where
  "known_each x known [] = Inr []"
| "known_each x known (j # js) =
     andthen (known_entity x known j) (\<lambda>e. andthen (known_each x known js) (\<lambda>es. Inr (e # es)))"

definition sensor_entities :: "string \<Rightarrow> string list" where
  "sensor_entities ref = split_on (CHR '':'') ref"

text \<open>\<open>project\<close>.\<close>

definition ha_project ::
  "external \<Rightarrow> home_sdk \<Rightarrow> mapping_sdk \<Rightarrow> ha_provider \<Rightarrow> home_device \<Rightarrow> string \<Rightarrow> exn + dict option" where
  "ha_project x h m pv d account =
     (case (map_of (hp_links pv) account, hd_provider_ref d) of
        (Some l, Some (c # cs)) \<Rightarrow>
          (let ref = c # cs; known = entities_known pv account
           in if hd_type d = ''sensor''
              then (let parts = filter (\<lambda>p. p \<noteq> JNull)
                          (List.map_filter (\<lambda>i. map_of (ln_states l) (JStr i)) (sensor_entities ref))
                    in case parts of
                         [] \<Rightarrow> Inr None
                       | p # ps \<Rightarrow>
                           andthen (known_entity x known p) (\<lambda>e. andthen (known_each x known ps) (\<lambda>es.
                           andthen (project_state x h m d e es) (\<lambda>st. Inr (Some st)))))
              else (case map_of (ln_states l) (JStr ref) of
                      None \<Rightarrow> Inr None
                    | Some j \<Rightarrow>
                        if j = JNull then Inr None
                        else andthen (as_dict j) (\<lambda>s.
                          if unreachable_state s then Inr None
                          else andthen (known_entity x known j) (\<lambda>e.
                               andthen (project_state x h m d e []) (\<lambda>st. Inr (Some st))))))
      | _ \<Rightarrow> Inr None)"

text \<open>\<open>states\<close>, of the Owner's devices.\<close>

fun ha_states ::
  "external \<Rightarrow> home_sdk \<Rightarrow> mapping_sdk \<Rightarrow> ha_provider \<Rightarrow> string \<Rightarrow> home_device list \<Rightarrow> exn + (string \<times> dict) list" where
  "ha_states x h m pv owner [] = Inr []"
| "ha_states x h m pv owner (d # ds) =
     (let account = snd (provider_binding h (hd_provider d))
      in if map_of (hp_owners pv) account \<noteq> Some owner then ha_states x h m pv owner ds
         else andthen (ha_project x h m pv d account) (\<lambda>state.
              andthen (ha_states x h m pv owner ds) (\<lambda>rest.
              Inr (case state of None \<Rightarrow> rest | Some st \<Rightarrow> (hd_device_id d, st) # rest))))"

section \<open>Carrying out a command\<close>

text \<open>Any exception but a \<open>SmartHomeError\<close> and a \<open>TimeoutError\<close> leaves the command unresolved.\<close>

definition mapping_outcome :: "exn \<Rightarrow> provider_outcome" where
  "mapping_outcome e = (if e = unsupported_command then Provider_refused ''UNSUPPORTED_COMMAND'' else Provider_failed)"

text \<open>Up to the service call: the state before, and what to ask for.\<close>

definition ha_prepare ::
  "external \<Rightarrow> home_sdk \<Rightarrow> mapping_sdk \<Rightarrow> ha_provider \<Rightarrow> string \<Rightarrow> home_device \<Rightarrow> command \<Rightarrow>
   provider_outcome + dict \<times> service_call" where
  "ha_prepare x h m pv owner d c =
     (let account = snd (provider_binding h (hd_provider d))
      in case ha_link owner account pv of
           Inl e \<Rightarrow> Inl (Provider_refused e)
         | Inr l \<Rightarrow>
             if \<not> ln_open l then Inl (Provider_refused device_offline)
             else (case map_of (ln_states l) (JStr (case hd_provider_ref d of None \<Rightarrow> [] | Some ref \<Rightarrow> ref)) of
                     None \<Rightarrow> Inl (Provider_refused device_offline)
                   | Some j \<Rightarrow>
                       if j = JNull then Inl (Provider_refused device_offline)
                       else (case as_dict j of
                               Inl e \<Rightarrow> Inl Provider_failed
                             | Inr s \<Rightarrow>
                                 if unreachable_state s then Inl (Provider_refused device_offline)
                                 else (case andthen (known_entity x (entities_known pv account) j) (\<lambda>e.
                                              andthen (project_state x h m d e []) (\<lambda>before.
                                              andthen (state_attributes s) (\<lambda>a.
                                              andthen (int_value x (py_or (dict_get a ''supported_features'') (jint 0))) (\<lambda>features.
                                              andthen (to_service_call x h m d c before features) (\<lambda>call. Inr (before, call)))))) of
                                         Inl e \<Rightarrow> Inl (mapping_outcome e)
                                       | Inr bc \<Rightarrow> Inr bc))))"

text \<open>What the state of the entity says of the command.\<close>

definition shows_effect ::
  "external \<Rightarrow> home_sdk \<Rightarrow> mapping_sdk \<Rightarrow> (string \<times> entity) list \<Rightarrow> home_device \<Rightarrow> command \<Rightarrow> dict \<Rightarrow> json \<Rightarrow> exn + bool" where
  "shows_effect x h m known d c before j =
     andthen (known_entity x known j) (\<lambda>e. andthen (project_state x h m d e []) (\<lambda>after.
       satisfied x h c (Some before) after))"

text \<open>\<open>execute\<close>: \<open>came\<close> is what the service call comes to, \<open>caches\<close> what \<open>wait_state\<close> looks at.\<close>

definition ha_execute ::
  "external \<Rightarrow> home_sdk \<Rightarrow> mapping_sdk \<Rightarrow> ha_provider \<Rightarrow> string \<Rightarrow> home_device \<Rightarrow> command \<Rightarrow>
   failure + json \<Rightarrow> (json \<times> json) list list \<Rightarrow> provider_outcome" where
  "ha_execute x h m pv owner d c came caches =
     (let known = entities_known pv (snd (provider_binding h (hd_provider d)))
      in case ha_prepare x h m pv owner d c of
           Inl refusal \<Rightarrow> refusal
         | Inr (before, call) \<Rightarrow>
             (case came of
                Inl (Connection_failed c1 e1) \<Rightarrow> Provider_refused ''PLATFORM_REJECTED''
              | Inl Timed_out \<Rightarrow> Provider_timeout
              | Inl (Raised e) \<Rightarrow> Provider_failed
              | Inr _ \<Rightarrow>
                  (case wait_state (shows_effect x h m known d c before)
                          (case hd_provider_ref d of None \<Rightarrow> [] | Some ref \<Rightarrow> ref) caches of
                     Inl e \<Rightarrow> mapping_outcome e
                   | Inr None \<Rightarrow> Provider_timeout
                   | Inr (Some j) \<Rightarrow>
                       (case andthen (known_entity x known j) (\<lambda>e. project_state x h m d e []) of
                          Inl e \<Rightarrow> mapping_outcome e
                        | Inr st \<Rightarrow> Provider_state st))))"

end
