(* ===== verification/Ha_Observer.thy ===== *)
theory Ha_Observer
  imports Ha_Provider
begin

text \<open>
  The tasks that keep observations current: the one that follows a Home Assistant (\<open>observe\<close> of
  \<open>providers/homeassistant/provider.py\<close>) as a step relation over its connection, and the part of
  \<open>smarthome/integration_service.py\<close> that passes what a Provider observes, or has discovered, on to the
  runtime.
\<close>

section \<open>Following a Home Assistant\<close>

text \<open>Where the task is: at the head of its loop, waiting for a change, past one, asleep, or over.\<close>

datatype place = At_loop int | Watching nat int | Passed nat int | Sleeping int | Task_over

record watch =
  wa_link :: link
  wa_bound :: bool
  wa_place :: place
  wa_status :: "string list"
  wa_seen :: "(json \<times> bool) list"

definition reconnect_min :: int where
  "reconnect_min = 2"

definition reconnect_max :: int where
  "reconnect_max = 60"

text \<open>\<open>_observation\<close>: which entity, and whether it is reachable.\<close>

definition ha_observation :: "change \<Rightarrow> exn + json \<times> bool" where
  "ha_observation c =
     (case c of (entity_id, j) \<Rightarrow>
        if j = JNull then Inr (entity_id, False)
        else andthen (as_dict j) (\<lambda>s. Inr (entity_id, \<not> unreachable_state s)))"

fun ha_observations :: "change list \<Rightarrow> exn + (json \<times> bool) list" where
  "ha_observations [] = Inr []"
| "ha_observations (c # cs) =
     andthen (ha_observation c) (\<lambda>o1. andthen (ha_observations cs) (\<lambda>os. Inr (o1 # os)))"

definition no_queue :: "nat \<Rightarrow> link \<Rightarrow> bool" where
  "no_queue i l \<longleftrightarrow> i \<notin> fst ` set (ln_queues l)"

text \<open>The head of the loop; the states a fresh connection has are passed on as one step.\<close>

definition at_loop :: "external \<Rightarrow> dial \<Rightarrow> nat \<Rightarrow> int \<Rightarrow> watch \<Rightarrow> watch" where
  "at_loop x dl i backoff w =
     (if \<not> wa_bound w then w\<lparr>wa_place := Task_over\<rparr>
      else if ln_open (wa_link w) then w\<lparr>wa_link := listen i (wa_link w), wa_place := Watching i backoff\<rparr>
      else case open_link x dl (wa_link w) of
             (l1, Inl (Connection_failed c1 e1)) \<Rightarrow>
               w\<lparr>wa_link := l1, wa_status := wa_status w @ [''degraded''], wa_place := Sleeping backoff\<rparr>
           | (l1, Inl f) \<Rightarrow> w\<lparr>wa_link := l1, wa_place := Task_over\<rparr>
           | (l1, Inr _) \<Rightarrow>
               (case ha_observations (ln_states l1) of
                  Inl e \<Rightarrow> w\<lparr>wa_link := l1, wa_status := wa_status w @ [''connected''], wa_place := Task_over\<rparr>
                | Inr os \<Rightarrow>
                    w\<lparr>wa_link := listen i l1, wa_status := wa_status w @ [''connected''],
                      wa_seen := wa_seen w @ os, wa_place := Watching i reconnect_min\<rparr>))"

definition take_next :: "nat \<Rightarrow> int \<Rightarrow> watch \<Rightarrow> watch option" where
  "take_next i backoff w =
     (case take_change i (wa_link w) of
        None \<Rightarrow> None
      | Some (c, l1) \<Rightarrow>
          (case ha_observation c of
             Inl e \<Rightarrow> Some (w\<lparr>wa_link := l1, wa_place := Task_over\<rparr>)
           | Inr ob \<Rightarrow> Some (w\<lparr>wa_link := l1, wa_seen := wa_seen w @ [ob], wa_place := Passed i backoff\<rparr>)))"

definition after_change :: "nat \<Rightarrow> int \<Rightarrow> watch \<Rightarrow> watch" where
  "after_change i backoff w =
     w\<lparr>wa_place := (if ln_open (wa_link w) then Watching i backoff else At_loop backoff)\<rparr>"

definition after_sleep :: "int \<Rightarrow> watch \<Rightarrow> watch" where
  "after_sleep backoff w = w\<lparr>wa_place := At_loop (min (backoff * 2) reconnect_max)\<rparr>"

text \<open>
  One step of the task or of what it lives with: a message is read, the socket is lost, a request is made or ends, the
  account is bound anew, which closes this connection and opens another, or unbound, and the queue of a stream
  that is no longer read is dropped.
\<close>

inductive watch_step :: "external \<Rightarrow> watch \<Rightarrow> watch \<Rightarrow> bool" for x where
  reads: "watch_step x w (w\<lparr>wa_link := read_message m (wa_link w)\<rparr>)"
| loses: "watch_step x w (w\<lparr>wa_link := socket_lost (wa_link w)\<rparr>)"
| requests: "request_begin m (wa_link w) = Inr (l1, i, frame) \<Longrightarrow> watch_step x w (w\<lparr>wa_link := l1\<rparr>)"
| answers: "watch_step x w (w\<lparr>wa_link := fst (request_end x i (wa_link w))\<rparr>)"
| binds: "watch_step x w (w\<lparr>wa_link := close_link (wa_link w), wa_bound := True\<rparr>)"
| unbinds: "watch_step x w (w\<lparr>wa_link := close_link (wa_link w), wa_bound := False\<rparr>)"
| drops: "(\<forall>b. wa_place w \<noteq> Watching j b \<and> wa_place w \<noteq> Passed j b) \<Longrightarrow>
    watch_step x w (w\<lparr>wa_link := stop_changes j (wa_link w)\<rparr>)"
| loops: "wa_place w = At_loop b \<Longrightarrow> no_queue i (wa_link w) \<Longrightarrow> watch_step x w (at_loop x dl i b w)"
| takes: "wa_place w = Watching i b \<Longrightarrow> take_next i b w = Some w1 \<Longrightarrow> watch_step x w w1"
| passes: "wa_place w = Passed i b \<Longrightarrow> watch_step x w (after_change i b w)"
| wakes: "wa_place w = Sleeping b \<Longrightarrow> watch_step x w (after_sleep b w)"

abbreviation watch_steps :: "external \<Rightarrow> watch \<Rightarrow> watch \<Rightarrow> bool" where
  "watch_steps x \<equiv> (watch_step x)\<^sup>*\<^sup>*"

definition new_watch :: "link \<Rightarrow> watch" where
  "new_watch l = \<lparr>wa_link = l, wa_bound = True, wa_place = At_loop reconnect_min, wa_status = [], wa_seen = []\<rparr>"

section \<open>Into the runtime\<close>

text \<open>\<open>_observe\<close>: the device an observation is of; \<open>device_id in (provider_ref or "").split(":")\<close>.\<close>

definition observed_device :: "registry \<Rightarrow> string \<Rightarrow> string \<Rightarrow> home_device option" where
  "observed_device r provider observed =
     find (\<lambda>d. hd_provider d = provider \<and>
        observed \<in> set (split_on (CHR '':'') (case hd_provider_ref d of None \<Rightarrow> [] | Some ref \<Rightarrow> ref))) (rg_devices r)"

text \<open>
  One observation, which brings no state: a Provider that can project the device's state is asked for it.
  \<open>source\<close> and \<open>views\<close> are what the registry and the Providers answer the snapshot.
\<close>

definition pass_observation ::
  "external \<Rightarrow> device_sdk \<Rightarrow> home_sdk \<Rightarrow> int \<Rightarrow> int \<Rightarrow> exn + registry \<Rightarrow> provider_view list \<Rightarrow>
   (home_device \<Rightarrow> exn + dict option) option \<Rightarrow> string \<Rightarrow> string \<Rightarrow> string \<times> bool \<Rightarrow> home_state \<Rightarrow> home_state \<times> (exn + unit)" where
  "pass_observation x s h ttl now source views project owner provider ob st =
     (case read_registry x s h ttl now owner source views st of
        (st1, Inl e) \<Rightarrow> (st1, Inl e)
      | (st1, Inr r) \<Rightarrow>
          (case home_snapshot x owner r st1 of
             Inl e \<Rightarrow> (st1, Inl e)
           | Inr _ \<Rightarrow>
               (case observed_device r provider (fst ob) of
                  None \<Rightarrow> (st1, Inr ())
                | Some d \<Rightarrow>
                    (case (case project of Some f \<Rightarrow> if snd ob then f d else Inr None | None \<Rightarrow> Inr None) of
                       Inl e \<Rightarrow> (st1, Inl e)
                     | Inr state \<Rightarrow> observe x s h now owner (hd_device_id d) (snd ob) state st1))))"

section \<open>Sync\<close>

datatype sync_answer = Sync_refused string string | Sync_raised exn | Sync_done sync_report

text \<open>What \<open>discover\<close> of a Provider comes to: a \<open>BindError\<close>, another exception, or the devices.\<close>

type_synonym discovery = "(string \<times> string) + exn + discovered list"

definition by_ref :: "registry \<Rightarrow> string \<Rightarrow> string \<Rightarrow> string option" where
  "by_ref r provider ref =
     map_of (List.rev (map (\<lambda>d. (hd_provider_ref d, hd_device_id d)) (filter (\<lambda>d. hd_provider d = provider) (rg_devices r))))
       (Some ref)"

fun observe_found ::
  "external \<Rightarrow> device_sdk \<Rightarrow> home_sdk \<Rightarrow> int \<Rightarrow> string \<Rightarrow> (string \<Rightarrow> string option) \<Rightarrow> discovered list \<Rightarrow> home_state \<Rightarrow>
   home_state \<times> (exn + unit)" where
  "observe_found x s h now owner refs [] st = (st, Inr ())"
| "observe_found x s h now owner refs (f # fs) st =
     (case refs (dd_external_ref f) of
        None \<Rightarrow> observe_found x s h now owner refs fs st
      | Some dev \<Rightarrow>
          (case observe x s h now owner dev (dd_reachable f) None st of
             (st1, Inl e) \<Rightarrow> (st1, Inl e)
           | (st1, Inr _) \<Rightarrow> observe_found x s h now owner refs fs st1))"

definition account_provider :: "account_record \<Rightarrow> string" where
  "account_provider r = ac_kind r @ '':'' @ ac_account_id r"

definition sync_account ::
  "external \<Rightarrow> device_sdk \<Rightarrow> home_sdk \<Rightarrow> 'w registry_writer \<Rightarrow> sync_limits \<Rightarrow> string list \<Rightarrow> int \<Rightarrow> int \<Rightarrow>
   discovery \<Rightarrow> ('w \<Rightarrow> exn + registry) \<Rightarrow> provider_view list \<Rightarrow> string \<Rightarrow> string \<Rightarrow> account_record list \<Rightarrow>
   'w \<times> home_state \<Rightarrow> ('w \<times> home_state) \<times> sync_answer" where
  "sync_account x s h data limits kinds ttl now came source views owner account rows wst =
     (case wst of (w, st) \<Rightarrow>
      (case get_account owner account rows of
        None \<Rightarrow> (wst, Sync_raised (Key_error account))
      | Some a \<Rightarrow>
          if ac_kind a \<notin> set kinds then (wst, Sync_refused ''UNKNOWN_PROVIDER'' (ac_kind a))
          else (case came of
             Inl (refusal, message) \<Rightarrow> (wst, Sync_refused refusal message)
           | Inr (Inl e) \<Rightarrow> (wst, Sync_raised e)
           | Inr (Inr found) \<Rightarrow>
               (case sync_registry data limits (account_provider a) now found w of
                  (w1, Inl e) \<Rightarrow> ((w1, st), Sync_raised e)
                | (w1, Inr report) \<Rightarrow>
                    (case read_registry x s h ttl now owner (source w1) views st of
                       (st1, Inl e) \<Rightarrow> ((w1, st1), Sync_raised e)
                     | (st1, Inr r) \<Rightarrow>
                         (case home_snapshot x owner r st1 of
                            Inl e \<Rightarrow> ((w1, st1), Sync_raised e)
                          | Inr _ \<Rightarrow>
                              (case observe_found x s h now owner (by_ref r (account_provider a)) found st1 of
                                 (st2, Inl e) \<Rightarrow> ((w1, st2), Sync_raised e)
                               | (st2, Inr _) \<Rightarrow> ((w1, st2), Sync_done report))))))))"

end
