(* ===== verification/Ha_Properties.thy ===== *)
theory Ha_Properties
  imports Ha_Observer Home_Scenario
begin

text \<open>
  What the connection keeps of what Home Assistant reports, when the task that follows it stops for good, and
  what a confirmed command rests on.
\<close>

section \<open>Reports\<close>

text \<open>The change a message reports, if it reports one.\<close>

definition event_change :: "dict \<Rightarrow> change option" where
  "event_change event =
     (if dict_get event ''event_type'' \<noteq> JStr ''state_changed'' then None
      else (case dict_get event ''data'' of
              JObj d \<Rightarrow> if truthy (dict_get d ''entity_id'')
                        then Some (dict_get d ''entity_id'', dict_get d ''new_state'') else None
            | _ \<Rightarrow> None))"

definition reported_change :: "json \<Rightarrow> change option" where
  "reported_change payload =
     (case payload of
        JObj p \<Rightarrow>
          if dict_get p ''type'' \<noteq> JStr ''event'' then None
          else (case dict_get p ''event'' of JObj event \<Rightarrow> event_change event | _ \<Rightarrow> None)
      | _ \<Rightarrow> None)"

definition changes_in :: "message list \<Rightarrow> change list" where
  "changes_in ms = List.map_filter (\<lambda>m. case m of Text (Some payload) \<Rightarrow> reported_change payload | _ \<Rightarrow> None) ms"

definition keep_state :: "change \<Rightarrow> (json \<times> json) list \<Rightarrow> (json \<times> json) list" where
  "keep_state c states =
     (case dict_key (fst c) of
        Inl e \<Rightarrow> states
      | Inr k \<Rightarrow> if snd c = JNull then AList.delete k states else AList.update k (snd c) states)"

definition keep_change :: "change \<Rightarrow> link \<Rightarrow> link" where
  "keep_change c l = l\<lparr>ln_states := keep_state c (ln_states l),
     ln_queues := map (\<lambda>(i, q). (i, push_change c q)) (ln_queues l)\<rparr>"

lemma as_dict_ok [ok_iff]: "as_dict j = Inr d \<longleftrightarrow> j = JObj d"
  by (cases j) (simp_all add: as_dict_def)

lemma py_or_JObj: "py_or j (JObj []) = JObj d \<longleftrightarrow> j = JObj d \<or> (\<not> truthy j \<and> d = [])"
  by (cases j) (auto simp: py_or_def)

lemma on_event_keeps:
  assumes "on_event event l = Inr l1"
  shows "l1 = (case event_change event of None \<Rightarrow> l | Some c \<Rightarrow> keep_change c l)"
proof (cases "dict_get event ''event_type'' = JStr ''state_changed''")
  case True
  with assms obtain d where d: "py_or (dict_get event ''data'') (JObj []) = JObj d"
    by (auto simp: on_event_def ok_iff)
  show ?thesis
  proof (cases "truthy (dict_get d ''entity_id'')")
    case seen: True
    then have "dict_get event ''data'' = JObj d" using d by (auto simp: py_or_JObj dict_get_def)
    with True seen have "event_change event = Some (dict_get d ''entity_id'', dict_get d ''new_state'')"
      by (simp add: event_change_def)
    then show ?thesis using assms True seen d
      by (auto simp: on_event_def keep_change_def keep_state_def ok_iff as_dict_def Let_def)
  next
    case False
    then have "event_change event = None" using d by (auto simp: event_change_def py_or_JObj split: json.split)
    then show ?thesis using assms True False d by (simp add: on_event_def as_dict_def Let_def)
  qed
qed (use assms in \<open>simp add: on_event_def event_change_def\<close>)

lemma on_message_keeps:
  assumes "on_message payload l = Inr l1"
  shows "ln_states l1 = ln_states (case reported_change payload of None \<Rightarrow> l | Some c \<Rightarrow> keep_change c l)
    \<and> ln_queues l1 = ln_queues (case reported_change payload of None \<Rightarrow> l | Some c \<Rightarrow> keep_change c l)"
proof -
  obtain p where p: "payload = JObj p" using assms by (auto simp: on_message_def ok_iff)
  show ?thesis
  proof (cases "dict_get p ''type'' = JStr ''event''")
    case True
    then obtain event where e: "py_or (dict_get p ''event'') (JObj []) = JObj event" "on_event event l = Inr l1"
      using assms by (auto simp: on_message_def p ok_iff)
    have "event_change [] = None" by (simp add: event_change_def dict_get_def)
    then have "reported_change payload = event_change event"
      using e(1) True by (auto simp: reported_change_def p py_or_JObj split: json.splits)
    with on_event_keeps [OF e(2)] show ?thesis by simp
  next
    case False
    then show ?thesis using assms by (auto simp: on_message_def p reported_change_def ok_iff split: option.splits if_splits)
  qed
qed

lemma reader_stays_stopped: "\<not> ln_reading l \<Longrightarrow> fold read_message ms l = l"
  by (induction ms) (simp_all add: read_message_def)

lemma read_message_keeps:
  assumes "ln_reading (read_message m l)"
  shows "ln_reading l"
    and "ln_states (read_message m l) = fold keep_state (changes_in [m]) (ln_states l)"
    and "ln_queues (read_message m l) = map (\<lambda>(i, q). (i, fold push_change (changes_in [m]) q)) (ln_queues l)"
proof -
  show reading: "ln_reading l" using assms by (auto simp: read_message_def split: if_splits)
  have id: "map (\<lambda>(i, q). (i, q)) qs = qs" for qs :: "(nat \<times> change list) list" by (induction qs) auto
  have stopped: "\<not> ln_reading (reader_ends l)" by (simp add: reader_ends_def settle_all_def)
  have "ln_states (read_message m l) = fold keep_state (changes_in [m]) (ln_states l)
    \<and> ln_queues (read_message m l) = map (\<lambda>(i, q). (i, fold push_change (changes_in [m]) q)) (ln_queues l)"
  proof (cases m)
    case (Text content)
    then obtain payload l1 where "content = Some payload" "on_message payload l = Inr l1" "read_message m l = l1"
      using assms reading stopped by (cases content) (auto simp: read_message_def split: sum.splits)
    with on_message_keeps [of payload l l1] Text show ?thesis
      by (cases "reported_change payload") (auto simp: changes_in_def List.map_filter_def keep_change_def id)
  next
    case Not_text
    with reading show ?thesis by (simp add: read_message_def changes_in_def List.map_filter_def id)
  qed
  then show "ln_states (read_message m l) = fold keep_state (changes_in [m]) (ln_states l)"
    and "ln_queues (read_message m l) = map (\<lambda>(i, q). (i, fold push_change (changes_in [m]) q)) (ln_queues l)" by simp_all
qed

lemma messages_kept:
  assumes "ln_reading (fold read_message ms l)"
  shows "ln_states (fold read_message ms l) = fold keep_state (changes_in ms) (ln_states l)
    \<and> ln_queues (fold read_message ms l) = map (\<lambda>(i, q). (i, fold push_change (changes_in ms) q)) (ln_queues l)"
  using assms
proof (induction ms arbitrary: l)
  case Nil
  have "map (\<lambda>(i, q). (i, q)) qs = qs" for qs :: "(nat \<times> change list) list" by (induction qs) auto
  then show ?case by (simp add: changes_in_def List.map_filter_def)
next
  case (Cons m ms)
  have reading: "ln_reading (read_message m l)"
    using Cons.prems reader_stays_stopped [of "read_message m l" ms] by (cases "ln_reading (read_message m l)") auto
  have split: "changes_in (m # ms) = changes_in [m] @ changes_in ms" by (simp add: changes_in_def List.map_filter_def)
  show ?case
    using Cons.IH [of "read_message m l"] Cons.prems read_message_keeps [OF reading]
    by (simp add: split comp_def prod.case_distrib)
qed

text \<open>A full queue drops its oldest entry: it holds the last of what was put in.\<close>

definition latest :: "change list \<Rightarrow> change list" where
  "latest cs = drop (length cs - queue_size) cs"

lemma push_latest: "fold push_change cs (latest q) = latest (q @ cs)"
proof (induction cs arbitrary: q)
  case (Cons c cs)
  have pos: "0 < queue_size" by (simp add: queue_size_def)
  have "push_change c (latest q) = latest (q @ [c])"
  proof (cases "queue_size \<le> length q")
    case True
    then have "tl (latest q) = drop (Suc (length q) - queue_size) q"
      by (simp add: latest_def tl_drop drop_Suc [symmetric] Suc_diff_le)
    with True pos show ?thesis by (simp add: push_change_def latest_def)
  qed (use pos in \<open>simp add: push_change_def latest_def\<close>)
  with Cons.IH [of "q @ [c]"] show ?case by simp
qed simp

lemma latest_short: "length q \<le> queue_size \<Longrightarrow> latest q = q"
  by (simp add: latest_def)

lemma states_kept:
  "map_of (fold keep_state cs states) k =
     (case find (\<lambda>c. dict_key (fst c) = Inr k) (rev cs) of
        None \<Rightarrow> map_of states k
      | Some c \<Rightarrow> if snd c = JNull then None else Some (snd c))"
proof (induction cs rule: rev_induct)
  case (snoc c cs)
  then show ?case
    by (auto simp: keep_state_def update_conv' delete_conv' split: sum.splits)
qed simp

text \<open>
  C34: while its reader runs, the connection loses nothing of the present. Whatever messages arrive, the cache holds for
  every entity what was reported of it last, and a listener's queue holds, in order, the last 1024 of the changes
  it was not yet given.
\<close>

theorem changes_kept:
  assumes "ln_reading (fold read_message ms l)"
    and "map_of (ln_queues l) i = Some q" "length q \<le> queue_size"
  shows "map_of (ln_states (fold read_message ms l)) k =
      (case find (\<lambda>c. dict_key (fst c) = Inr k) (rev (changes_in ms)) of
         None \<Rightarrow> map_of (ln_states l) k
       | Some c \<Rightarrow> if snd c = JNull then None else Some (snd c))
    \<and> map_of (ln_queues (fold read_message ms l)) i = Some (latest (q @ changes_in ms))"
proof -
  have "map_of (map (\<lambda>(i, q). (i, f q)) qs) i = map_option f (map_of qs i)"
    for f :: "change list \<Rightarrow> change list" and qs :: "(nat \<times> change list) list"
    by (induction qs) auto
  with assms(2) push_latest [of "changes_in ms" q] show ?thesis
    by (simp add: messages_kept [OF assms(1)] states_kept latest_short [OF assms(3)])
qed

definition report_message :: "string \<Rightarrow> json \<Rightarrow> message" where
  "report_message entity_id new_state = Text (Some (JObj [(''type'', JStr ''event''), (''event'', JObj
     [(''event_type'', JStr ''state_changed''),
      (''data'', JObj [(''entity_id'', JStr entity_id), (''new_state'', new_state)])])]))"

definition state_of_entity :: "string \<Rightarrow> string \<Rightarrow> json" where
  "state_of_entity i s = JObj [(''entity_id'', JStr i), (''state'', JStr s), (''attributes'', JObj [])]"

text \<open>A connection that has told a lock is locked, with one listener.\<close>

definition lock_link :: link where
  "lock_link = (new_link ''http://h'' ''t'')\<lparr>ln_open := True, ln_reading := True,
     ln_states := [(JStr ''lock.a'', state_of_entity ''lock.a'' ''locked'')], ln_queues := [(0, [])]\<rparr>"

lemma changes_kept_witness:
  "map_of (ln_states (fold read_message [Not_text, report_message ''lock.a'' (state_of_entity ''lock.a'' ''unlocked''),
       report_message ''lock.a'' JNull] lock_link)) (JStr ''lock.a'') = None
   \<and> map_of (ln_queues (fold read_message [Not_text, report_message ''lock.a'' (state_of_entity ''lock.a'' ''unlocked''),
       report_message ''lock.a'' JNull] lock_link)) 0
     = Some [(JStr ''lock.a'', state_of_entity ''lock.a'' ''unlocked''), (JStr ''lock.a'', JNull)]"
proof -
  let ?ms = "[Not_text, report_message ''lock.a'' (state_of_entity ''lock.a'' ''unlocked''), report_message ''lock.a'' JNull]"
  have reading: "ln_reading (fold read_message ?ms lock_link)"
    by (simp add: read_message_def report_message_def on_message_def on_event_def as_dict_def dict_get_def py_or_def
        lock_link_def state_of_entity_def new_link_def Let_def)
  have reported: "changes_in ?ms = [(JStr ''lock.a'', state_of_entity ''lock.a'' ''unlocked''), (JStr ''lock.a'', JNull)]"
    by (simp add: changes_in_def List.map_filter_def report_message_def reported_change_def event_change_def dict_get_def)
  from changes_kept [OF reading, of 0 "[]" "JStr ''lock.a''"] show ?thesis
    unfolding reported by (simp add: lock_link_def latest_def queue_size_def)
qed

section \<open>A connection that is lost\<close>

text \<open>The task waits on an empty queue that nothing fills any more.\<close>

definition starved :: "nat \<Rightarrow> int \<Rightarrow> watch \<Rightarrow> bool" where
  "starved i b w \<longleftrightarrow> wa_place w = Watching i b \<and> map_of (ln_queues (wa_link w)) i = Some [] \<and> \<not> ln_reading (wa_link w)"

lemma settled_link [simp]:
  "ln_queues (settle_all why l) = ln_queues l" "ln_reading (settle_all why l) = ln_reading l"
  by (simp_all add: settle_all_def)

lemma closed_link [simp]:
  "ln_queues (socket_lost l) = ln_queues l" "\<not> ln_reading (socket_lost l)"
  "ln_queues (close_link l) = ln_queues l" "\<not> ln_reading (close_link l)"
  "ln_queues (fst (request_end x i l)) = ln_queues l" "ln_reading (fst (request_end x i l)) = ln_reading l"
  by (simp_all add: socket_lost_def reader_ends_def close_link_def request_end_def)

lemma begun_link: "request_begin m l = Inr (l1, i, frame) \<Longrightarrow> ln_queues l1 = ln_queues l \<and> ln_reading l1 = ln_reading l"
  by (auto simp: request_begin_def Let_def split: if_splits)

lemma starved_step: "watch_step x w w1 \<Longrightarrow> starved i b w \<Longrightarrow> starved i b w1 \<and> wa_seen w1 = wa_seen w"
proof (induction rule: watch_step.induct)
  case (reads w m)
  then show ?case by (simp add: starved_def read_message_def)
next
  case (requests m w l1 j frame)
  then show ?case using begun_link by (fastforce simp: starved_def)
next
  case (drops w j)
  then show ?case by (auto simp: starved_def stop_changes_def delete_conv')
next
  case (takes w j c w1)
  then show ?case by (auto simp: starved_def take_next_def take_change_def)
qed (auto simp: starved_def)

text \<open>
  C35: the task that follows an account does not survive the loss of its connection. If the reader has ended, be it with
  the socket or at a message it could not read, while the task waits with an empty queue, then whatever happens later,
  a new binding too, it waits on, opens nothing again and reports nothing more.
\<close>

theorem lost_connection_not_reopened:
  assumes "watch_steps x w w1" "wa_place w = Watching i b" "map_of (ln_queues (wa_link w)) i = Some []"
    and "\<not> ln_reading (wa_link w)"
  shows "wa_place w1 = Watching i b \<and> map_of (ln_queues (wa_link w1)) i = Some [] \<and> wa_seen w1 = wa_seen w"
proof -
  have "starved i b w" using assms(2-4) by (simp add: starved_def)
  with assms(1) have "starved i b w1 \<and> wa_seen w1 = wa_seen w"
  proof (induction rule: rtranclp_induct)
    case (step y z)
    then show ?case using starved_step by metis
  qed simp
  then show ?thesis by (simp add: starved_def)
qed

text \<open>Followed, lost and bound anew; the worked connection is open already.\<close>

definition followed_lock :: watch where
  "followed_lock = (new_watch lock_link)\<lparr>wa_link := socket_lost lock_link, wa_place := Watching 0 2\<rparr>"

lemma lost_connection_not_reopened_witness:
  "watch_steps small_world (new_watch (lock_link\<lparr>ln_queues := []\<rparr>)) followed_lock
   \<and> wa_place (followed_lock\<lparr>wa_link := close_link (wa_link followed_lock), wa_bound := True\<rparr>) = Watching 0 2"
proof
  let ?w0 = "new_watch (lock_link\<lparr>ln_queues := []\<rparr>)" and ?w1 = "(new_watch lock_link)\<lparr>wa_place := Watching 0 2\<rparr>"
  have "watch_step small_world ?w0 (at_loop small_world undefined 0 2 ?w0)"
    by (rule loops) (simp_all add: new_watch_def reconnect_min_def no_queue_def)
  also have "at_loop small_world undefined 0 2 ?w0 = ?w1"
    by (simp add: at_loop_def new_watch_def lock_link_def listen_def new_link_def)
  finally have "watch_step small_world ?w0 ?w1" .
  moreover have "watch_step small_world ?w1 followed_lock"
    using loses [of small_world ?w1] by (simp add: followed_lock_def new_watch_def)
  ultimately show "watch_steps small_world ?w0 followed_lock" by simp
next
  have "watch_steps small_world followed_lock (followed_lock\<lparr>wa_link := close_link (wa_link followed_lock), wa_bound := True\<rparr>)"
    by (rule r_into_rtranclp) (rule binds)
  from lost_connection_not_reopened [OF this, of 0 2]
  show "wa_place (followed_lock\<lparr>wa_link := close_link (wa_link followed_lock), wa_bound := True\<rparr>) = Watching 0 2"
    by (simp add: followed_lock_def new_watch_def lock_link_def)
qed

section \<open>Commands\<close>

lemma wait_state_done:
  "wait_state p ref caches = Inr (Some j) \<Longrightarrow> \<exists>cache\<in>set caches. map_of cache (JStr ref) = Some j \<and> p j = Inr True"
  by (induction p ref caches rule: wait_state.induct) (auto simp: ok_iff split: option.splits if_splits)

lemma wait_state_append:
  "wait_state p ref earlier = Inr None \<Longrightarrow> wait_state p ref (earlier @ later) = wait_state p ref later"
  by (induction p ref earlier rule: wait_state.induct) (auto simp: ok_iff split: option.splits if_splits)

definition ref_of :: "home_device \<Rightarrow> string" where
  "ref_of d = (case hd_provider_ref d of None \<Rightarrow> [] | Some ref \<Rightarrow> ref)"

definition known_of :: "home_sdk \<Rightarrow> ha_provider \<Rightarrow> home_device \<Rightarrow> (string \<times> entity) list" where
  "known_of h pv d = entities_known pv (snd (provider_binding h (hd_provider d)))"

lemma refused_not_state: "ha_prepare x h m pv owner d c = Inl r \<Longrightarrow> r \<noteq> Provider_state st"
  unfolding ha_prepare_def Let_def mapping_outcome_def
  by (auto simp del: andthen.simps split: sum.splits option.splits if_splits)

text \<open>
  A command is answered with a state only if Home Assistant took the service call it maps to, and a cached state of
  the device's entity, seen after that, projects to that very state and shows the effect asked for.
\<close>

theorem confirmed_by_entity:
  assumes "ha_execute x h m pv owner d c came caches = Provider_state st"
  shows "\<exists>before call v cache j e. ha_prepare x h m pv owner d c = Inr (before, call) \<and> came = Inr v
    \<and> cache \<in> set caches \<and> map_of cache (JStr (ref_of d)) = Some j
    \<and> known_entity x (known_of h pv d) j = Inr e \<and> project_state x h m d e [] = Inr st
    \<and> satisfied x h c (Some before) st = Inr True"
proof -
  let ?known = "known_of h pv d"
  obtain before call where p: "ha_prepare x h m pv owner d c = Inr (before, call)"
  proof (cases "ha_prepare x h m pv owner d c")
    case (Inl r)
    with assms have "r = Provider_state st" by (simp add: ha_execute_def)
    with refused_not_state [OF Inl] show thesis by blast
  qed (use that in auto)
  obtain v where v: "came = Inr v"
  proof (cases came)
    case (Inl f)
    with assms p show thesis by (cases f) (simp_all add: ha_execute_def)
  qed
  note run = assms [unfolded ha_execute_def Let_def p v prod.case sum.case, folded known_of_def ref_of_def]
  obtain j where w: "wait_state (shows_effect x h m ?known d c before) (ref_of d) caches = Inr (Some j)"
  proof (cases "wait_state (shows_effect x h m ?known d c before) (ref_of d) caches")
    case (Inr found)
    with run that show thesis by (cases found) simp_all
  qed (use run in \<open>simp add: mapping_outcome_def split: if_splits\<close>)
  have "andthen (known_entity x ?known j) (\<lambda>e. project_state x h m d e []) = Inr st"
    using run by (simp add: w mapping_outcome_def split: sum.splits if_splits)
  note j = w this
  from wait_state_done [OF j(1)] obtain cache where cache: "cache \<in> set caches" "map_of cache (JStr (ref_of d)) = Some j"
      "shows_effect x h m ?known d c before j = Inr True" by blast
  from j(2) obtain e where e: "known_entity x ?known j = Inr e" "project_state x h m d e [] = Inr st"
    by (auto simp: ok_iff)
  with cache(3) have "satisfied x h c (Some before) st = Inr True" by (simp add: shows_effect_def)
  with p v cache e show ?thesis by blast
qed

text \<open>The commands an entity that is gone seems to have carried out, and the state it is taken to be in.\<close>

definition seeming :: "(string \<times> string \<times> string \<times> dict) list" where
  "seeming = [(''lock'', ''lock'', ''unlock'', [(''locked'', JBool False)]),
     (''switch'', ''on_off'', ''off'', [(''on'', JBool False)]),
     (''cover'', ''position'', ''close'', [(''position'', jint 0)])]"

text \<open>
  An entity that becomes unavailable while its command runs confirms it. A lock that was asked to unlock, a switch
  asked to go off or a cover asked to close, and that is gone from the network instead, is answered as unlocked, off or closed.
\<close>

theorem vanished_entity_confirms:
  assumes "ha_prepare x h m pv owner d c = Inr (before, call)"
    and "(hd_type d, cm_trait c, cm_command c, st) \<in> set seeming"
    and "caches = earlier @ cache # later"
    and "wait_state (shows_effect x h m (known_of h pv d) d c before) (ref_of d) earlier = Inr None"
    and "map_of cache (JStr (ref_of d)) = Some (JObj [(''entity_id'', JStr (ref_of d)),
      (''state'', JStr ''unavailable''), (''attributes'', JObj [])])"
  shows "ha_execute x h m pv owner d c (Inr v) caches = Provider_state st"
proof -
  let ?known = "known_of h pv d"
  let ?j = "JObj [(''entity_id'', JStr (ref_of d)), (''state'', JStr ''unavailable''), (''attributes'', JObj [])]"
  obtain e where e: "known_entity x ?known ?j = Inr e" "en_state e = ''unavailable''" "en_attributes e = []"
    by (auto simp: known_entity_def as_dict_def param_def present_def state_attributes_def state_text_of_def
        dict_get_def py_or_def str_of_def Let_def)
  from assms(2) consider (lock) "hd_type d = ''lock''" "cm_trait c = ''lock''" "cm_command c = ''unlock''" "st = [(''locked'', JBool False)]"
    | (switch) "hd_type d = ''switch''" "cm_trait c = ''on_off''" "cm_command c = ''off''" "st = [(''on'', JBool False)]"
    | (cover) "hd_type d = ''cover''" "cm_trait c = ''position''" "cm_command c = ''close''" "st = [(''position'', jint 0)]"
    by (auto simp: seeming_def)
  then have "project_state x h m d e [] = Inr st \<and> satisfied x h c (Some before) st = Inr True"
    by cases (simp_all add: project_state_def satisfied_def e(2,3) dict_get_def jint_def)
  then have state: "project_state x h m d e [] = Inr st" and effect: "satisfied x h c (Some before) st = Inr True" by simp_all
  have "wait_state (shows_effect x h m ?known d c before) (ref_of d) caches = Inr (Some ?j)"
    using wait_state_append [OF assms(4)] assms(3,5) e(1) state effect by (simp add: shows_effect_def)
  with assms(1) e(1) state show ?thesis by (simp add: ha_execute_def Let_def known_of_def ref_of_def)
qed

definition front_lock :: home_device where
  "front_lock = lamp\<lparr>hd_type := ''lock'', hd_provider_ref := Some ''lock.a''\<rparr>"

definition unlock_it :: command where
  "unlock_it = \<lparr>cm_device_id = ''lamp'', cm_trait = ''lock'', cm_command = ''unlock'', cm_params = []\<rparr>"

definition plain_mapping :: mapping_sdk where
  "plain_mapping = \<lparr>ms_traits = (\<lambda>d. []), ms_limits = (\<lambda>d. None), ms_limits_json = (\<lambda>l. JNull),
     ms_temperature_word = [], ms_humidity_word = []\<rparr>"

definition lock_provider :: ha_provider where
  "lock_provider = \<lparr>hp_links = [([], lock_link)], hp_owners = [([], ''u'')], hp_known = []\<rparr>"

lemma unlock_prepared:
  "ha_prepare small_world small_home_sdk plain_mapping lock_provider ''u'' front_lock unlock_it
   = Inr ([(''locked'', JBool True)],
       \<lparr>sc_domain = ''lock'', sc_service = ''unlock'', sc_data = [(''entity_id'', JStr ''lock.a'')]\<rparr>)"
  by (simp add: ha_prepare_def small_home_sdk_def front_lock_def lamp_def lock_provider_def ha_link_def lock_link_def
      state_of_entity_def as_dict_def unreachable_state_def dict_get_def known_entity_def param_def state_attributes_def
      py_or_def state_text_of_def str_of_def project_state_def to_service_call_def unlock_it_def int_value_def jint_def
      entities_known_def text_of_def)

lemma vanished_entity_confirms_witness:
  "ha_execute small_world small_home_sdk plain_mapping lock_provider ''u'' front_lock unlock_it (Inr JNull)
     [ln_states lock_link, [(JStr ''lock.a'', state_of_entity ''lock.a'' ''unavailable'')]]
   = Provider_state [(''locked'', JBool False)]"
proof -
  have waits: "wait_state (shows_effect small_world small_home_sdk plain_mapping (known_of small_home_sdk lock_provider front_lock)
      front_lock unlock_it [(''locked'', JBool True)]) (ref_of front_lock) [ln_states lock_link] = Inr None"
    by (simp add: ref_of_def front_lock_def lamp_def lock_link_def shows_effect_def state_of_entity_def known_entity_def
        as_dict_def param_def state_attributes_def py_or_def dict_get_def state_text_of_def str_of_def project_state_def
        satisfied_def unlock_it_def Let_def)
  show ?thesis
    by (rule vanished_entity_confirms [where later = "[]" and
          cache = "[(JStr ''lock.a'', state_of_entity ''lock.a'' ''unavailable'')]", OF unlock_prepared _ _ waits])
      (simp_all add: seeming_def front_lock_def unlock_it_def ref_of_def state_of_entity_def)
qed

lemma confirmed_by_entity_witness:
  "\<exists>before call v cache j e. ha_prepare small_world small_home_sdk plain_mapping lock_provider ''u'' front_lock unlock_it
       = Inr (before, call) \<and> Inr JNull = (Inr v :: failure + json)
    \<and> cache \<in> {[(JStr ''lock.a'', state_of_entity ''lock.a'' ''unlocked'')]} \<and> map_of cache (JStr ''lock.a'') = Some j
    \<and> known_entity small_world [] j = Inr e \<and> project_state small_world small_home_sdk plain_mapping front_lock e []
       = Inr [(''locked'', JBool False)]
    \<and> satisfied small_world small_home_sdk unlock_it (Some before) [(''locked'', JBool False)] = Inr True"
proof -
  have "ha_execute small_world small_home_sdk plain_mapping lock_provider ''u'' front_lock unlock_it (Inr JNull)
      [[(JStr ''lock.a'', state_of_entity ''lock.a'' ''unlocked'')]] = Provider_state [(''locked'', JBool False)]"
    unfolding ha_execute_def unlock_prepared Let_def
    by (simp add: entities_known_def lock_provider_def front_lock_def lamp_def
        shows_effect_def state_of_entity_def known_entity_def as_dict_def param_def state_attributes_def py_or_def
        dict_get_def state_text_of_def str_of_def project_state_def satisfied_def unlock_it_def Let_def)
  from confirmed_by_entity [OF this] show ?thesis
    by (simp add: ref_of_def known_of_def front_lock_def lamp_def entities_known_def lock_provider_def)
qed

end
