(* ===== verification/Zhoubian.thy ===== *)
theory Zhoubian
  imports Ha_Observer
begin

text \<open>
  The adapter of the delegating platform (\<open>hub/smarthome/providers/zhoubian\<close>): its signatures
  (\<open>protocol.py\<close>), the tokens of an account, binding, discovery, polling and the control call
  (\<open>provider.py\<close>).

  The platform is a parameter with a state of its own: what it answers, and the clock.  Digests and base64
  are parameters, and so are the words of its language and what Python takes for a letter.  Tokens are kept as they
  came, \<open>str\<close> makes them text.
\<close>

section \<open>Protocol\<close>

record zh_crypto =
  zc_b64decode :: "string \<Rightarrow> byte list option"
  zc_strict_b64 :: "string \<Rightarrow> bool"
  zc_b64encode :: "byte list \<Rightarrow> string"
  zc_hmac :: "byte list \<Rightarrow> byte list \<Rightarrow> byte list"
  zc_sha256_hex :: "byte list \<Rightarrow> string"
  zc_md5_hex :: "byte list \<Rightarrow> string"
  zc_quote :: "string \<Rightarrow> string"

text \<open>The words the adapter knows in the platform's language.\<close>

record zh_words =
  zw_air :: string
  zw_curtain :: string
  zw_light :: string
  zw_fan :: string
  zw_socket :: string
  zw_switch :: string
  zw_sensor :: string
  zw_open :: string
  zw_close :: string
  zw_lock :: string
  zw_device :: string
  zw_label :: string
  zw_accepted :: string
  zw_missing :: "string list \<Rightarrow> string"
  zw_secret_not_base64 :: string
  zw_no_secret :: string
  zw_choose_home :: string
  zw_lower :: "string \<Rightarrow> string"
  zw_alnum :: "char \<Rightarrow> bool"

definition hmac_sign :: "zh_crypto \<Rightarrow> string \<Rightarrow> string list \<Rightarrow> exn + string" where
  "hmac_sign z secret parts =
     andthen (present (zc_b64decode z secret) (Value_error ''base64'')) (\<lambda>key.
     Inr (zc_b64encode z (zc_hmac z key (encode (concat parts)))))"

definition int_text :: "external \<Rightarrow> int \<Rightarrow> string" where
  "int_text x n = py_str x (jint n)"

definition grant_hmac :: string where "grant_hmac = ''hmac_sign''"
definition grant_refresh :: string where "grant_refresh = ''refresh_token''"
definition scope_control :: string where "scope_control = ''cloud_write''"

definition sign_valid :: "external \<Rightarrow> zh_crypto \<Rightarrow> string \<Rightarrow> string \<Rightarrow> string \<Rightarrow> int \<Rightarrow> string \<Rightarrow> exn + string" where
  "sign_valid x z app_secret app_id nonce ts union_id =
     hmac_sign z app_secret [app_id, nonce, int_text x ts, union_id]"

definition sign_active :: "external \<Rightarrow> zh_crypto \<Rightarrow> string \<Rightarrow> string \<Rightarrow> int \<Rightarrow> string \<Rightarrow> string \<Rightarrow> exn + string" where
  "sign_active x z app_secret app_id ts union_id user_id =
     hmac_sign z app_secret [app_id, int_text x ts, union_id, user_id]"

definition sign_password :: "external \<Rightarrow> zh_crypto \<Rightarrow> string \<Rightarrow> string \<Rightarrow> int \<Rightarrow> string \<Rightarrow> exn + string" where
  "sign_password x z user_secret app_id ts user_id =
     hmac_sign z user_secret [app_id, grant_hmac, int_text x ts, user_id]"

definition zh_password :: "external \<Rightarrow> zh_crypto \<Rightarrow> string \<Rightarrow> string \<Rightarrow> int \<Rightarrow> string \<Rightarrow> exn + string" where
  "zh_password x z user_secret app_id ts user_id =
     andthen (sign_password x z user_secret app_id ts user_id) (\<lambda>sign1.
     Inr (''appId='' @ app_id @ ''&secureMode='' @ grant_hmac @ ''&timestamp='' @ int_text x ts
        @ ''&userId='' @ user_id @ ''&sign='' @ zc_quote z sign1))"

definition basic_authorization :: "zh_crypto \<Rightarrow> string \<Rightarrow> string \<Rightarrow> string" where
  "basic_authorization z app_id app_secret =
     ''Basic '' @ zc_b64encode z (encode (app_id @ '':'' @ zc_md5_hex z (encode app_secret)))"

definition username :: "string \<Rightarrow> string \<Rightarrow> string" where
  "username app_id user_id = app_id @ ''.'' @ user_id"

definition derive_user_id :: "zh_crypto \<Rightarrow> string \<Rightarrow> string" where
  "derive_user_id z host_identity = take 32 (''eid'' @ zc_sha256_hex z (encode host_identity))"

section \<open>The platform\<close>

datatype zh_failure = Bind_error string string | Home_error string string | Other_failure exn

text \<open>A response: its HTTP status, and its body where that is JSON.\<close>

type_synonym response = "int \<times> json option"

record zh_request =
  zq_method :: string
  zq_url :: string
  zq_authorization :: string
  zq_body :: json

record 'w platform =
  pl_send :: "zh_request \<Rightarrow> 'w \<Rightarrow> 'w \<times> (exn + response)"
  pl_clock :: "'w \<Rightarrow> 'w \<times> rat"

record zh_session =
  zs_owner_id :: string
  zs_account_id :: string
  zs_base_url :: string
  zs_app_id :: string
  zs_app_secret :: string
  zs_user_id :: string
  zs_user_secret :: string
  zs_home_id :: "string option"
  zs_access_token :: json
  zs_refresh_token :: json
  zs_expires_at :: rat

text \<open>A call works on the session and the platform.\<close>

type_synonym ('w, 'a) call = "zh_session \<times> 'w \<Rightarrow> (zh_session \<times> 'w) \<times> (zh_failure + 'a)"

definition calling :: "('w, 'a) call \<Rightarrow> ('a \<Rightarrow> ('w, 'b) call) \<Rightarrow> ('w, 'b) call" where
  "calling m k sw = (case m sw of (sw1, Inl e) \<Rightarrow> (sw1, Inl e) | (sw1, Inr a) \<Rightarrow> k a sw1)"

definition giving :: "zh_failure + 'a \<Rightarrow> ('w, 'a) call" where
  "giving r sw = (sw, r)"

definition lifted :: "exn + 'a \<Rightarrow> ('w, 'a) call" where
  "lifted r = giving (case r of Inl e \<Rightarrow> Inl (Other_failure e) | Inr v \<Rightarrow> Inr v)"

definition clock_now :: "'w platform \<Rightarrow> ('w, rat) call" where
  "clock_now pl sw = (case pl_clock pl (snd sw) of (w1, t) \<Rightarrow> ((fst sw, w1), Inr t))"

definition session_now :: "('w, zh_session) call" where
  "session_now sw = (sw, Inr (fst sw))"

definition set_session :: "(zh_session \<Rightarrow> zh_session) \<Rightarrow> ('w, unit) call" where
  "set_session f sw = ((f (fst sw), snd sw), Inr ())"

definition sending :: "'w platform \<Rightarrow> zh_request \<Rightarrow> ('w, response) call" where
  "sending pl rq sw =
     (case pl_send pl rq (snd sw) of
        (w1, Inl e) \<Rightarrow> ((fst sw, w1), Inl (Other_failure e))
      | (w1, Inr r) \<Rightarrow> ((fst sw, w1), Inr r))"

definition platform_rejected :: string where
  "platform_rejected = ''PLATFORM_REJECTED''"

definition unwrap :: "external \<Rightarrow> bool \<Rightarrow> response \<Rightarrow> zh_failure + json" where
  "unwrap x bind1 r =
     (case snd r of
        None \<Rightarrow> (let m = ''HTTP '' @ int_text x (fst r)
                 in Inl (if bind1 then Bind_error ''BAD_RESPONSE'' m
                         else Home_error platform_rejected (''BAD_RESPONSE: '' @ m)))
      | Some (JObj p) \<Rightarrow>
          (if \<not> py_eq (dict_get p ''code'') (jint 0)
           then (let m = strip_by is_space (str_of x (dict_get p ''code'') @ '': '' @ str_of x (py_or (dict_get p ''msg'') (JStr [])))
                 in Inl (if bind1 then Bind_error ''PLATFORM_REFUSED'' m else Home_error platform_rejected m))
           else Inr (dict_get p ''data''))
      | Some _ \<Rightarrow> Inl (Other_failure (Other_error ''AttributeError'')))"

section \<open>Tokens\<close>

text \<open>\<open>int(clock())\<close>; the clock is not negative.\<close>

definition whole_seconds :: "rat \<Rightarrow> int" where
  "whole_seconds t = \<lfloor>t\<rfloor>"

definition path_active :: string where "path_active = ''/cloud-api/app/active''"
definition path_token :: string where "path_token = ''/cloud-api/oauth2/token''"
definition path_refresh :: string where "path_refresh = ''/cloud-api/oauth2/refresh''"
definition path_homes :: string where "path_homes = ''/cloud-api/home/list''"
definition path_control :: string where "path_control = ''/cloud-api/device/llm/control''"
definition path_devices :: string where "path_devices = ''/cloud-api/device/list''"

text \<open>\<open>data[k]\<close>.\<close>

definition index_of :: "json \<Rightarrow> string \<Rightarrow> exn + json" where
  "index_of j k = (case j of JObj d \<Rightarrow> param d k | _ \<Rightarrow> Inl (Type_error ''not subscriptable''))"

definition zh_grant :: "external \<Rightarrow> home_sdk \<Rightarrow> zh_crypto \<Rightarrow> 'w platform \<Rightarrow> dict \<Rightarrow> string \<Rightarrow> ('w, unit) call" where
  "zh_grant x h z pl form path =
     calling session_now (\<lambda>s.
     calling (sending pl \<lparr>zq_method = ''POST'', zq_url = zs_base_url s @ path,
         zq_authorization = basic_authorization z (zs_app_id s) (zs_app_secret s), zq_body = JObj form\<rparr>) (\<lambda>r.
     calling (giving (unwrap x True r)) (\<lambda>data.
     calling (lifted (index_of data ''access_token'')) (\<lambda>token.
     calling (set_session (\<lambda>s. s\<lparr>zs_access_token := token\<rparr>)) (\<lambda>_.
     calling (lifted (as_dict data)) (\<lambda>d.
     calling (set_session (\<lambda>s. s\<lparr>zs_refresh_token := (case map_of d ''refresh_token'' of None \<Rightarrow> JStr [] | Some t \<Rightarrow> t)\<rparr>)) (\<lambda>_.
     calling (clock_now pl) (\<lambda>now.
     calling (lifted (float_value h (case map_of d ''expires_in'' of None \<Rightarrow> jint 7199 | Some t \<Rightarrow> t))) (\<lambda>lasts.
     set_session (\<lambda>s. s\<lparr>zs_expires_at := now + lasts * (9 / 10)\<rparr>))))))))))"

definition zh_token :: "external \<Rightarrow> home_sdk \<Rightarrow> zh_crypto \<Rightarrow> 'w platform \<Rightarrow> ('w, unit) call" where
  "zh_token x h z pl =
     calling session_now (\<lambda>s.
     calling (clock_now pl) (\<lambda>now.
     calling (lifted (zh_password x z (zs_user_secret s) (zs_app_id s) (whole_seconds now) (zs_user_id s))) (\<lambda>secret.
     zh_grant x h z pl [(''grant_type'', JStr grant_hmac), (''username'', JStr (username (zs_app_id s) (zs_user_id s))),
       (''password'', JStr secret), (''scope'', JStr scope_control)] path_token)))"

definition zh_refresh :: "external \<Rightarrow> home_sdk \<Rightarrow> zh_crypto \<Rightarrow> 'w platform \<Rightarrow> ('w, unit) call" where
  "zh_refresh x h z pl sw =
     (if \<not> truthy (zs_refresh_token (fst sw)) then zh_token x h z pl sw
      else case zh_grant x h z pl [(''grant_type'', JStr grant_refresh), (''refresh_token'', zs_refresh_token (fst sw)),
                  (''scope'', JStr scope_control)] path_refresh sw of
             (sw1, Inl (Bind_error c m)) \<Rightarrow> zh_token x h z pl sw1
           | (sw1, r) \<Rightarrow> (sw1, r))"

definition ensure_token :: "external \<Rightarrow> home_sdk \<Rightarrow> zh_crypto \<Rightarrow> 'w platform \<Rightarrow> ('w, unit) call" where
  "ensure_token x h z pl =
     calling session_now (\<lambda>s.
     if \<not> truthy (zs_access_token s) then zh_refresh x h z pl
     else calling (clock_now pl) (\<lambda>now. if zs_expires_at s \<le> now then zh_refresh x h z pl else giving (Inr ())))"

definition authorized :: "external \<Rightarrow> zh_session \<Rightarrow> string \<Rightarrow> string \<Rightarrow> json \<Rightarrow> zh_request" where
  "authorized x s method path body =
     \<lparr>zq_method = method, zq_url = zs_base_url s @ path,
      zq_authorization = ''Bearer '' @ str_of x (zs_access_token s), zq_body = body\<rparr>"

text \<open>The code of the envelope, read before the response is unwrapped.\<close>

definition refused_token :: "response \<Rightarrow> exn + bool" where
  "refused_token r =
     (case snd r of
        None \<Rightarrow> Inl (Value_error ''JSON'')
      | Some j \<Rightarrow>
          andthen (as_dict j) (\<lambda>p.
          Inr (py_eq (dict_get p ''code'') (jint 401) \<or> py_eq (dict_get p ''code'') (jint 30106))))"

definition zh_authed :: "external \<Rightarrow> home_sdk \<Rightarrow> zh_crypto \<Rightarrow> 'w platform \<Rightarrow> string \<Rightarrow> string \<Rightarrow> json \<Rightarrow> ('w, json) call" where
  "zh_authed x h z pl method path body =
     calling (ensure_token x h z pl) (\<lambda>_.
     calling session_now (\<lambda>s.
     calling (sending pl (authorized x s method path body)) (\<lambda>r1.
     calling (lifted (refused_token r1)) (\<lambda>again.
     if \<not> again then giving (unwrap x False r1)
     else calling (zh_refresh x h z pl) (\<lambda>_.
          calling session_now (\<lambda>s2.
          calling (sending pl (authorized x s2 method path body)) (\<lambda>r2.
          calling (lifted (refused_token r2)) (\<lambda>_.
          giving (unwrap x False r2)))))))))"

definition rows_of :: "json \<Rightarrow> exn + json list" where
  "rows_of j = py_iter (py_or j (JArr []))"

definition zh_homes :: "external \<Rightarrow> home_sdk \<Rightarrow> zh_crypto \<Rightarrow> 'w platform \<Rightarrow> ('w, json list) call" where
  "zh_homes x h z pl = calling (zh_authed x h z pl ''GET'' path_homes JNull) (\<lambda>j. lifted (rows_of j))"

definition zh_devices :: "external \<Rightarrow> home_sdk \<Rightarrow> zh_crypto \<Rightarrow> 'w platform \<Rightarrow> ('w, json list) call" where
  "zh_devices x h z pl =
     calling session_now (\<lambda>s.
     calling (zh_authed x h z pl ''GET'' path_devices
       (JObj [(''homeId'', case zs_home_id s of None \<Rightarrow> JNull | Some i \<Rightarrow> JStr i)])) (\<lambda>j. lifted (rows_of j)))"

definition zh_control :: "external \<Rightarrow> home_sdk \<Rightarrow> zh_crypto \<Rightarrow> 'w platform \<Rightarrow> string \<Rightarrow> ('w, dict) call" where
  "zh_control x h z pl query =
     calling session_now (\<lambda>s.
     calling (zh_authed x h z pl ''POST'' path_control
       (JObj ((''query'', JStr query) # (case zs_home_id s of Some (c # i) \<Rightarrow> [(''homeId'', JStr (c # i))] | _ \<Rightarrow> [])))) (\<lambda>j.
     lifted (as_dict (py_or j (JObj [])))))"

definition zh_activate :: "external \<Rightarrow> zh_crypto \<Rightarrow> zh_words \<Rightarrow> 'w platform \<Rightarrow> string \<Rightarrow> ('w, json) call" where
  "zh_activate x z wd pl phone =
     calling session_now (\<lambda>s.
     calling (clock_now pl) (\<lambda>now.
     calling (lifted (sign_active x z (zs_app_secret s) (zs_app_id s) (whole_seconds now) phone (zs_user_id s))) (\<lambda>sign1.
     calling (sending pl \<lparr>zq_method = ''POST'', zq_url = zs_base_url s @ path_active, zq_authorization = [],
         zq_body = JObj [(''appId'', JStr (zs_app_id s)), (''timestamp'', jint (whole_seconds now)), (''unionId'', JStr phone),
           (''accountType'', JStr ''PHONE_NUMBER''), (''userId'', JStr (zs_user_id s)), (''sign'', JStr sign1)]\<rparr>) (\<lambda>r.
     calling (giving (unwrap x True r)) (\<lambda>data.
     calling (lifted (as_dict data)) (\<lambda>d.
     giving (if truthy (dict_get d ''userSecret'') then Inr (dict_get d ''userSecret'')
             else Inl (Bind_error ''ACTIVATE_FAILED'' (zw_no_secret wd)))))))))"

section \<open>Naming\<close>

definition external_ref :: "zh_words \<Rightarrow> string \<Rightarrow> string option \<Rightarrow> string" where
  "external_ref wd dev res =
     (let ref = (case res of Some (c # r) \<Rightarrow> dev @ ''.'' @ c # r | _ \<Rightarrow> dev)
      in take 128 (map (\<lambda>c. if zw_alnum wd c \<or> c \<in> set ''._:-'' then c else CHR ''-'') ref))"

definition type_words :: "zh_words \<Rightarrow> (string \<times> string) list" where
  "type_words wd = [(zw_air wd, ''climate''), (''ac'', ''climate''), (zw_curtain wd, ''cover''), (''curtain'', ''cover''),
     (zw_light wd, ''light''), (''light'', ''light''), (zw_fan wd, ''fan''), (''fan'', ''fan''), (zw_socket wd, ''switch''),
     (zw_switch wd, ''switch''), (''switch'', ''switch''), (zw_sensor wd, ''sensor''), (''sensor'', ''sensor'')]"

text \<open>\<open>word in text\<close>.\<close>

fun occurs_in :: "string \<Rightarrow> string \<Rightarrow> bool" where
  "occurs_in w [] = (w = [])"
| "occurs_in w (c # s) = (starts_word w (c # s) \<or> occurs_in w s)"

definition suggest_type :: "zh_words \<Rightarrow> string \<Rightarrow> string \<Rightarrow> string" where
  "suggest_type wd classify product =
     (case find (\<lambda>(w, kind). occurs_in w (zw_lower wd (classify @ '' '' @ product))) (type_words wd) of
        Some (w, kind) \<Rightarrow> kind
      | None \<Rightarrow> ''switch'')"

definition traits_for :: "string \<Rightarrow> string list" where
  "traits_for kind = (if kind = ''cover'' then [''position''] else if kind = ''sensor'' then [''measure''] else [''on_off''])"

text \<open>What the platform is told, by command.\<close>

definition zh_query :: "zh_words \<Rightarrow> command \<Rightarrow> string \<Rightarrow> string option" where
  "zh_query wd c name =
     (let tc = (cm_trait c, cm_command c)
      in if tc = (''on_off'', ''on'') \<or> tc = (''position'', ''open'') then Some (zw_open wd @ name)
         else if tc = (''on_off'', ''off'') \<or> tc = (''position'', ''close'') then Some (zw_close wd @ name)
         else if tc = (''lock'', ''lock'') then Some (zw_lock wd @ name)
         else None)"

end
