(* ===== verification/Zhoubian_Provider.thy ===== *)
theory Zhoubian_Provider
  imports Zhoubian
begin

text \<open>
  The operations of \<open>ZhoubianProvider\<close> over its sessions, the vault and the account records: binding and
  restoring an account, discovery, one round of polling, and the control call.

  The rows the platform lists have texts where the adapter reads texts.
\<close>

record 'w zh_state =
  zt_store :: account_state
  zt_sessions :: "(string \<times> zh_session) list"
  zt_known :: "(string \<times> (string \<times> bool) list) list"
  zt_world :: 'w

record 'w zh_env =
  ze_external :: external
  ze_home :: home_sdk
  ze_crypto :: zh_crypto
  ze_words :: zh_words
  ze_platform :: "'w platform"
  ze_host :: string
  ze_cipher :: vault_cipher
  ze_nonce :: "nat \<Rightarrow> byte list"
  ze_traits :: "string list \<Rightarrow> json"
  ze_limits :: json
  ze_failure_text :: "zh_failure \<Rightarrow> string"

definition zhoubian :: string where
  "zhoubian = ''zhoubian''"

definition text_value :: "json \<Rightarrow> exn + string" where
  "text_value j = present (text_of j) (Type_error ''text'')"

definition text_at :: "json \<Rightarrow> string \<Rightarrow> exn + string" where
  "text_at j k = andthen (index_of j k) text_value"

text \<open>\<open>row.get(k)\<close> of a text or \<open>None\<close>.\<close>

definition optional_text :: "dict \<Rightarrow> string \<Rightarrow> exn + string option" where
  "optional_text d k = (if dict_get d k = JNull then Inr None else andthen (text_value (dict_get d k)) (\<lambda>s. Inr (Some s)))"

section \<open>Binding\<close>

definition zh_field :: "(string \<times> string) list \<Rightarrow> string \<Rightarrow> string" where
  "zh_field form k = (case map_of form k of None \<Rightarrow> [] | Some v \<Rightarrow> v)"

definition new_session :: "'w zh_env \<Rightarrow> string \<Rightarrow> string \<Rightarrow> (string \<times> string) list \<Rightarrow> zh_session" where
  "new_session e owner account form =
     \<lparr>zs_owner_id = owner, zs_account_id = account, zs_base_url = right_slashes (zh_field form ''base_url''),
      zs_app_id = zh_field form ''app_id'', zs_app_secret = zh_field form ''app_secret'',
      zs_user_id = derive_user_id (ze_crypto e) (ze_host e @ ''/'' @ account), zs_user_secret = [],
      zs_home_id = (case zh_field form ''home_id'' of [] \<Rightarrow> None | c # i \<Rightarrow> Some (c # i)),
      zs_access_token = JStr [], zs_refresh_token = JStr [], zs_expires_at = 0\<rparr>"

definition activated :: "'w zh_env \<Rightarrow> string \<Rightarrow> ('w, unit) call" where
  "activated e phone =
     calling (zh_activate (ze_external e) (ze_crypto e) (ze_words e) (ze_platform e) phone) (\<lambda>secret.
     calling (lifted (text_value secret)) (\<lambda>s.
     calling (set_session (\<lambda>z. z\<lparr>zs_user_secret := s\<rparr>)) (\<lambda>_.
     zh_token (ze_external e) (ze_home e) (ze_crypto e) (ze_platform e))))"

text \<open>With a stored secret a token is asked for first; what the platform refuses is activated again.\<close>

definition signed_in :: "'w zh_env \<Rightarrow> string \<Rightarrow> string option \<Rightarrow> ('w, unit) call" where
  "signed_in e phone stored sw =
     (case stored of
        Some (c # s) \<Rightarrow>
          (case calling (set_session (\<lambda>z. z\<lparr>zs_user_secret := c # s\<rparr>))
                  (\<lambda>_. zh_token (ze_external e) (ze_home e) (ze_crypto e) (ze_platform e)) sw of
             (sw1, Inl (Bind_error _ _)) \<Rightarrow> activated e phone sw1
           | (sw1, r) \<Rightarrow> (sw1, r))
      | _ \<Rightarrow> activated e phone sw)"

text \<open>The only home there is is chosen.\<close>

definition home_chosen :: "json list \<Rightarrow> ('w, unit) call" where
  "home_chosen homes =
     calling session_now (\<lambda>s.
     if zs_home_id s = None \<and> length homes = 1
     then calling (lifted (text_at (hd homes) ''homeId'')) (\<lambda>i. set_session (\<lambda>z. z\<lparr>zs_home_id := Some i\<rparr>))
     else giving (Inr ()))"

text \<open>The name of the home, with a default.\<close>

fun home_label :: "string option \<Rightarrow> string \<Rightarrow> json list \<Rightarrow> exn + string" where
  "home_label i default1 [] = Inr default1"
| "home_label i default1 (h # hs) =
     andthen (text_at h ''homeId'') (\<lambda>j. if Some j = i then text_at h ''name'' else home_label i default1 hs)"

fun home_choices :: "json list \<Rightarrow> exn + json list" where
  "home_choices [] = Inr []"
| "home_choices (h # hs) =
     andthen (index_of h ''homeId'') (\<lambda>i. andthen (index_of h ''name'') (\<lambda>n. andthen (home_choices hs) (\<lambda>cs.
     Inr (JObj [(''value'', i), (''label'', n)] # cs))))"

definition stored_fields :: "zh_session \<Rightarrow> string \<Rightarrow> (string \<times> string) list" where
  "stored_fields s phone =
     [(''base_url'', zs_base_url s), (''app_id'', zs_app_id s), (''app_secret'', zs_app_secret s), (''phone'', phone),
      (''user_secret'', zs_user_secret s), (''home_id'', case zs_home_id s of None \<Rightarrow> [] | Some i \<Rightarrow> i)]"

definition put_fields :: "'w zh_env \<Rightarrow> int \<Rightarrow> string \<Rightarrow> (string \<times> string) list \<Rightarrow> vault_row list \<Rightarrow> vault_row list" where
  "put_fields e now account items rows =
     fold (\<lambda>(i, name, v). vault_put (ze_external e) (ze_cipher e) now (ze_nonce e i) account name v)
       (zip [0..<length items] items) rows"

definition zh_account :: "'w zh_env \<Rightarrow> int \<Rightarrow> zh_session \<Rightarrow> json list \<Rightarrow> exn + account_record" where
  "zh_account e now s homes =
     andthen (home_label (zs_home_id s) (zw_label (ze_words e)) homes) (\<lambda>label.
     andthen (if zs_home_id s = None then home_choices homes else Inr []) (\<lambda>choices.
     Inr \<lparr>ac_account_id = zs_account_id s, ac_owner_id = zs_owner_id s, ac_kind = zhoubian,
          ac_label = (if zs_home_id s = None then zw_label (ze_words e) else label),
          ac_status = (if zs_home_id s = None then ''pending'' else ''connected''), ac_error = None,
          ac_choices = choices, ac_created_at = 0,
          ac_last_seen = (if zs_home_id s = None then None else Some now)\<rparr>))"

text \<open>\<open>bind\<close>; \<open>now\<close> is the time in milliseconds.\<close>

definition zh_bind ::
  "'w zh_env \<Rightarrow> int \<Rightarrow> string \<Rightarrow> string \<Rightarrow> (string \<times> string) list \<Rightarrow> 'w zh_state \<Rightarrow>
   'w zh_state \<times> (zh_failure + account_record)" where
  "zh_bind e now owner account form st =
     (let missing = filter (\<lambda>k. zh_field form k = []) [''base_url'', ''app_id'', ''app_secret'', ''phone''];
          phone = zh_field form ''phone'';
          s0 = new_session e owner account form
      in if missing \<noteq> [] then (st, Inl (Bind_error ''MISSING_FIELDS'' (zw_missing (ze_words e) missing)))
         else if \<not> zc_strict_b64 (ze_crypto e) (zs_app_secret s0)
         then (st, Inl (Bind_error ''INVALID_APP_SECRET'' (zw_secret_not_base64 (ze_words e))))
         else (case vault_get (ze_cipher e) account ''user_secret'' (as_vault (zt_store st)) of
            Inl ex \<Rightarrow> (st, Inl (Other_failure ex))
          | Inr stored \<Rightarrow>
              (case calling (signed_in e phone stored) (\<lambda>_.
                      calling (zh_homes (ze_external e) (ze_home e) (ze_crypto e) (ze_platform e)) (\<lambda>homes.
                      calling (home_chosen homes) (\<lambda>_. giving (Inr homes)))) (s0, zt_world st) of
                 ((s, w1), Inl f) \<Rightarrow> (st\<lparr>zt_world := w1\<rparr>, Inl f)
               | ((s, w1), Inr homes) \<Rightarrow>
                   (let kept = (zt_store st)\<lparr>as_vault := put_fields e now account (stored_fields s phone) (as_vault (zt_store st))\<rparr>;
                        st1 = st\<lparr>zt_world := w1, zt_store := kept, zt_sessions := AList.update account s (zt_sessions st)\<rparr>
                    in case zh_account e now s homes of
                         Inl ex \<Rightarrow> (st1, Inl (Other_failure ex))
                       | Inr r \<Rightarrow>
                           (st1\<lparr>zt_store := kept\<lparr>as_accounts := upsert_account now r (as_accounts kept)\<rparr>\<rparr>, Inr r)))))"

definition zh_unbind :: "string \<Rightarrow> string \<Rightarrow> 'w zh_state \<Rightarrow> 'w zh_state" where
  "zh_unbind owner account st =
     st\<lparr>zt_sessions := AList.delete account (zt_sessions st), zt_known := AList.delete account (zt_known st),
        zt_store := (zt_store st)\<lparr>as_vault := vault_delete_all account (as_vault (zt_store st)),
          as_accounts := fst (delete_account owner account (as_accounts (zt_store st)))\<rparr>\<rparr>"

definition mark_account :: "int \<Rightarrow> string \<Rightarrow> string \<Rightarrow> string option \<Rightarrow> bool \<Rightarrow> 'w zh_state \<Rightarrow> 'w zh_state" where
  "mark_account now account status1 err seen st =
     st\<lparr>zt_store := (zt_store st)\<lparr>as_accounts := set_account_status now account status1 err seen (as_accounts (zt_store st))\<rparr>\<rparr>"

text \<open>\<open>restore\<close>: the fields the vault holds, read in order; whatever a binding raises only marks the account.\<close>

fun held_fields :: "'w zh_env \<Rightarrow> string \<Rightarrow> vault_row list \<Rightarrow> string list \<Rightarrow> exn + (string \<times> string) list" where
  "held_fields e account rows [] = Inr []"
| "held_fields e account rows (k # ks) =
     andthen (vault_get (ze_cipher e) account k rows) (\<lambda>v.
     andthen (held_fields e account rows ks) (\<lambda>fs. Inr ((k, case v of None \<Rightarrow> [] | Some s \<Rightarrow> s) # fs)))"

fun zh_restore_each :: "'w zh_env \<Rightarrow> int \<Rightarrow> account_record list \<Rightarrow> 'w zh_state \<Rightarrow> 'w zh_state \<times> (exn + unit)" where
  "zh_restore_each e now [] st = (st, Inr ())"
| "zh_restore_each e now (r # rs) st =
     (if ac_kind r \<noteq> zhoubian \<or> ac_status r = ''revoked'' then zh_restore_each e now rs st
      else case held_fields e (ac_account_id r) (as_vault (zt_store st))
                  [''base_url'', ''app_id'', ''app_secret'', ''phone'', ''home_id''] of
             Inl ex \<Rightarrow> (st, Inl ex)
           | Inr form \<Rightarrow>
               (case zh_bind e now (ac_owner_id r) (ac_account_id r) form st of
                  (st1, Inr _) \<Rightarrow> zh_restore_each e now rs st1
                | (st1, Inl f) \<Rightarrow>
                    zh_restore_each e now rs
                      (mark_account now (ac_account_id r) ''degraded'' (Some (take 200 (ze_failure_text e f))) False st1)))"

definition zh_restore :: "'w zh_env \<Rightarrow> int \<Rightarrow> 'w zh_state \<Rightarrow> 'w zh_state \<times> (exn + unit)" where
  "zh_restore e now st = zh_restore_each e now (all_accounts (as_accounts (zt_store st))) st"

section \<open>Discovery and polling\<close>

definition zh_session_of :: "string \<Rightarrow> string \<Rightarrow> 'w zh_state \<Rightarrow> zh_failure + zh_session" where
  "zh_session_of owner account st =
     (case map_of (zt_sessions st) account of
        None \<Rightarrow> Inl (Home_error device_offline [])
      | Some s \<Rightarrow> if zs_owner_id s \<noteq> owner then Inl (Home_error device_offline []) else Inr s)"

definition row_connected :: "dict \<Rightarrow> bool" where
  "row_connected d = (case map_of d ''connected'' of None \<Rightarrow> True | Some c \<Rightarrow> truthy c)"

definition found_row :: "'w zh_env \<Rightarrow> json \<Rightarrow> exn + discovered" where
  "found_row e row =
     (let wd = ze_words e
      in andthen (text_at row ''deviceId'') (\<lambda>dev.
         andthen (as_dict row) (\<lambda>d.
         andthen (optional_text d ''resourceId'') (\<lambda>res.
         andthen (optional_text d ''classifyName'') (\<lambda>classify.
         andthen (optional_text d ''productName'') (\<lambda>product.
         andthen (optional_text d ''deviceName'') (\<lambda>name.
         andthen (optional_text d ''place'') (\<lambda>area.
         let kind = suggest_type wd (case classify of None \<Rightarrow> [] | Some t \<Rightarrow> t) (case product of None \<Rightarrow> [] | Some t \<Rightarrow> t)
         in Inr \<lparr>dd_external_ref = external_ref wd dev res,
              dd_name = take 64 (case first_text [name, product] of None \<Rightarrow> zw_device wd | Some t \<Rightarrow> t),
              dd_type = kind, dd_traits = ze_traits e (traits_for kind), dd_limits = ze_limits e,
              dd_area_name = first_text [area], dd_reachable = row_connected d\<rparr>))))))))"

fun found_rows :: "'w zh_env \<Rightarrow> json list \<Rightarrow> exn + discovered list" where
  "found_rows e [] = Inr []"
| "found_rows e (r # rs) = andthen (found_row e r) (\<lambda>d. andthen (found_rows e rs) (\<lambda>ds. Inr (d # ds)))"

definition zh_discover ::
  "'w zh_env \<Rightarrow> string \<Rightarrow> string \<Rightarrow> 'w zh_state \<Rightarrow> 'w zh_state \<times> (zh_failure + discovered list)" where
  "zh_discover e owner account st =
     (case zh_session_of owner account st of
        Inl f \<Rightarrow> (st, Inl f)
      | Inr s \<Rightarrow>
          if zs_home_id s = None then (st, Inl (Bind_error ''HOME_NOT_CHOSEN'' (zw_choose_home (ze_words e))))
          else (case zh_devices (ze_external e) (ze_home e) (ze_crypto e) (ze_platform e) (s, zt_world st) of
             ((s1, w1), r) \<Rightarrow>
               (let st1 = st\<lparr>zt_world := w1, zt_sessions := AList.update account s1 (zt_sessions st)\<rparr>
                in case r of
                     Inl f \<Rightarrow> (st1, Inl f)
                   | Inr rows \<Rightarrow>
                       (case found_rows e rows of
                          Inl ex \<Rightarrow> (st1, Inl (Other_failure ex))
                        | Inr found \<Rightarrow>
                            (st1\<lparr>zt_known := AList.update account
                               (fold (\<lambda>d. AList.update (dd_external_ref d) (dd_reachable d)) found []) (zt_known st1)\<rparr>,
                             Inr found)))))"

definition known_now :: "'w zh_state \<Rightarrow> string \<Rightarrow> (string \<times> bool) list" where
  "known_now st account = (case map_of (zt_known st) account of None \<Rightarrow> [] | Some k \<Rightarrow> k)"

text \<open>One round of \<open>observe\<close>, with what it yields; \<open>None\<close> once the account is unbound.\<close>

definition zh_poll :: "'w zh_env \<Rightarrow> int \<Rightarrow> string \<Rightarrow> string \<Rightarrow> 'w zh_state \<Rightarrow> ('w zh_state \<times> (string \<times> bool) list) option" where
  "zh_poll e now owner account st =
     (if map_of (zt_sessions st) account = None then None
      else let before = known_now st account
           in case zh_discover e owner account st of
                (st1, Inl f) \<Rightarrow>
                  Some (mark_account now account ''degraded'' (Some (take 200 (ze_failure_text e f))) False st1, [])
              | (st1, Inr _) \<Rightarrow>
                  Some (mark_account now account ''connected'' None True st1,
                        filter (\<lambda>(ref, c). map_of before ref \<noteq> Some c) (known_now st1 account)))"

section \<open>Control\<close>

definition control_outcome :: "'w zh_env \<Rightarrow> dict \<Rightarrow> provider_outcome" where
  "control_outcome e reply =
     (case int_value (ze_external e) (case map_of reply ''status'' of None \<Rightarrow> jint (- 1) | Some n \<Rightarrow> n) of
        Inl ex \<Rightarrow> Provider_failed
      | Inr n \<Rightarrow>
          (let t = str_of (ze_external e) (py_or (dict_get reply ''answer'') (JStr []))
           in if n = 0 then Provider_delegated (if t = [] then zw_accepted (ze_words e) else t)
              else if n = 1005 \<or> n = 1007 then Provider_refused device_offline
              else if n = 1002 \<or> n = 1003 then Provider_refused ''UNKNOWN_DEVICE''
              else Provider_refused platform_rejected))"

fun failure_outcome :: "zh_failure \<Rightarrow> provider_outcome" where
  "failure_outcome (Bind_error c m) = Provider_refused platform_rejected"
| "failure_outcome (Home_error c m) = Provider_refused c"
| "failure_outcome (Other_failure e) = Provider_failed"

definition zh_execute ::
  "'w zh_env \<Rightarrow> string \<Rightarrow> home_device \<Rightarrow> command \<Rightarrow> 'w zh_state \<Rightarrow> 'w zh_state \<times> provider_outcome" where
  "zh_execute e owner d c st =
     (let account = snd (provider_binding (ze_home e) (hd_provider d))
      in case zh_session_of owner account st of
           Inl f \<Rightarrow> (st, failure_outcome f)
         | Inr s \<Rightarrow>
             (case zh_query (ze_words e) c (hd_name d) of
                None \<Rightarrow> (st, Provider_refused platform_rejected)
              | Some query \<Rightarrow>
                  (case zh_control (ze_external e) (ze_home e) (ze_crypto e) (ze_platform e) query (s, zt_world st) of
                     ((s1, w1), r) \<Rightarrow>
                       (st\<lparr>zt_world := w1, zt_sessions := AList.update account s1 (zt_sessions st)\<rparr>,
                        case r of Inl f \<Rightarrow> failure_outcome f | Inr reply \<Rightarrow> control_outcome e reply))))"

end
