(* ===== verification/Zhoubian_Properties.thy ===== *)
theory Zhoubian_Properties
  imports Zhoubian_Provider Home_Scenario
begin

text \<open>
  How often an instruction is sent and what is made of the platform's answer, and which observations never reach
  a device.
\<close>

section \<open>Instructions\<close>

text \<open>The platform, with a log of what it was sent and answered.\<close>

type_synonym exchange = "zh_request \<times> (exn + response)"

definition logged :: "'w platform \<Rightarrow> ('w \<times> exchange list) platform" where
  "logged pl = \<lparr>pl_send = (\<lambda>rq (w, es). case pl_send pl rq w of (w1, r) \<Rightarrow> ((w1, es @ [(rq, r)]), r)),
     pl_clock = (\<lambda>(w, es). case pl_clock pl w of (w1, t) \<Rightarrow> ((w1, es), t))\<rparr>"

definition instructions :: "string \<Rightarrow> exchange list \<Rightarrow> exchange list" where
  "instructions base es = filter (\<lambda>(rq, r). zq_url rq = base @ path_control) es"

text \<open>A call that leaves the platform's address alone and sends no instruction.\<close>

definition silent :: "string \<Rightarrow> ('w \<times> exchange list, 'a) call \<Rightarrow> bool" where
  "silent base m \<longleftrightarrow> (\<forall>s w es s1 w1 es1 r. zs_base_url s = base \<longrightarrow> m (s, w, es) = ((s1, w1, es1), r) \<longrightarrow>
     zs_base_url s1 = base \<and> (\<exists>more. es1 = es @ more \<and> instructions base more = []))"

lemma silentD:
  "silent base m \<Longrightarrow> zs_base_url s = base \<Longrightarrow> m (s, w, es) = ((s1, w1, es1), r) \<Longrightarrow>
   zs_base_url s1 = base \<and> (\<exists>more. es1 = es @ more \<and> instructions base more = [])"
  unfolding silent_def by blast

lemma silentI:
  "(\<And>s w es s1 w1 es1 r. zs_base_url s = base \<Longrightarrow> m (s, w, es) = ((s1, w1, es1), r) \<Longrightarrow>
      zs_base_url s1 = base \<and> (\<exists>more. es1 = es @ more \<and> instructions base more = [])) \<Longrightarrow> silent base m"
  unfolding silent_def by blast

lemma silent_giving [intro]: "silent base (giving r)"
  by (rule silentI) (auto simp: giving_def instructions_def)

lemma silent_lifted [intro]: "silent base (lifted r)"
  by (auto simp: lifted_def)

lemma silent_session [intro]: "silent base session_now"
  by (rule silentI) (auto simp: session_now_def instructions_def)

lemma silent_set [intro]: "(\<And>s. zs_base_url (f s) = zs_base_url s) \<Longrightarrow> silent base (set_session f)"
  by (rule silentI) (auto simp: set_session_def instructions_def)

lemma silent_clock [intro]: "silent base (clock_now (logged pl))"
  by (rule silentI) (auto simp: clock_now_def logged_def instructions_def split: prod.splits)

lemma silent_sending: "zq_url rq \<noteq> base @ path_control \<Longrightarrow> silent base (sending (logged pl) rq)"
  by (rule silentI) (auto simp: sending_def logged_def instructions_def split: prod.splits sum.splits)

lemma silent_calling [intro]:
  assumes "silent base m" "\<And>a. silent base (k a)"
  shows "silent base (calling m k)"
proof (rule silentI)
  fix s w es s1 w1 es1 r
  assume base: "zs_base_url s = base" and run: "calling m k (s, w, es) = ((s1, w1, es1), r)"
  obtain s2 w2 es2 r2 where m: "m (s, w, es) = ((s2, w2, es2), r2)" by (cases "m (s, w, es)") auto
  note first = silentD [OF assms(1) base m]
  show "zs_base_url s1 = base \<and> (\<exists>more. es1 = es @ more \<and> instructions base more = [])"
  proof (cases r2)
    case (Inl f)
    with run m first show ?thesis by (simp add: calling_def)
  next
    case (Inr a)
    with run m have "k a (s2, w2, es2) = ((s1, w1, es1), r)" by (simp add: calling_def)
    from silentD [OF assms(2) _ this] first show ?thesis by (auto simp: instructions_def)
  qed
qed

text \<open>What starts with the session starts with one at that address.\<close>

lemma silent_session_calling:
  assumes "\<And>s. zs_base_url s = base \<Longrightarrow> silent base (k s)"
  shows "silent base (calling session_now k)"
proof (rule silentI)
  fix s w es s1 w1 es1 r
  assume base: "zs_base_url s = base" and run: "calling session_now k (s, w, es) = ((s1, w1, es1), r)"
  from run have "k s (s, w, es) = ((s1, w1, es1), r)" by (simp add: calling_def session_now_def)
  from silentD [OF assms [OF base] base this]
  show "zs_base_url s1 = base \<and> (\<exists>more. es1 = es @ more \<and> instructions base more = [])" .
qed

lemma paths_apart [simp]: "path_token \<noteq> path_control" "path_refresh \<noteq> path_control"
  by (simp_all add: path_token_def path_refresh_def path_control_def)

lemma silent_grant: "path \<noteq> path_control \<Longrightarrow> silent base (zh_grant x h z (logged pl) form path)"
  unfolding zh_grant_def by (intro silent_session_calling silent_calling silent_sending) auto

lemma silent_token: "silent base (zh_token x h z (logged pl))"
  unfolding zh_token_def by (intro silent_calling silent_grant) auto

lemma silent_refresh: "silent base (zh_refresh x h z (logged pl))"
proof (rule silentI)
  fix s w es s1 w1 es1 r
  assume base: "zs_base_url s = base" and run: "zh_refresh x h z (logged pl) (s, w, es) = ((s1, w1, es1), r)"
  show "zs_base_url s1 = base \<and> (\<exists>more. es1 = es @ more \<and> instructions base more = [])"
  proof (cases "truthy (zs_refresh_token s)")
    case False
    with run have "zh_token x h z (logged pl) (s, w, es) = ((s1, w1, es1), r)" by (simp add: zh_refresh_def)
    from silentD [OF silent_token base this] show ?thesis .
  next
    case True
    let ?form = "[(''grant_type'', JStr grant_refresh), (''refresh_token'', zs_refresh_token s), (''scope'', JStr scope_control)]"
    obtain s2 w2 es2 r2 where g: "zh_grant x h z (logged pl) ?form path_refresh (s, w, es) = ((s2, w2, es2), r2)"
      by (cases "zh_grant x h z (logged pl) ?form path_refresh (s, w, es)") auto
    have "path_refresh \<noteq> path_control" by simp
    note first = silentD [OF silent_grant [OF this] base g]
    show ?thesis
    proof (cases "\<exists>c m. r2 = Inl (Bind_error c m)")
      case again: True
      with run True g have "zh_token x h z (logged pl) (s2, w2, es2) = ((s1, w1, es1), r)" by (auto simp: zh_refresh_def)
      from silentD [OF silent_token _ this] first show ?thesis by (auto simp: instructions_def)
    next
      case False
      with run True g have "s2 = s1 \<and> w2 = w1 \<and> es2 = es1"
        by (auto simp: zh_refresh_def split: sum.splits zh_failure.splits)
      with first show ?thesis by simp
    qed
  qed
qed

lemma silent_ensure: "silent base (ensure_token x h z (logged pl))"
  unfolding ensure_token_def
  by (intro silent_calling silent_session) (simp add: silent_refresh silent_calling silent_clock silent_giving)

text \<open>What was sent as an instruction, and why again.\<close>

definition sent_well :: "external \<Rightarrow> json \<Rightarrow> exchange list \<Rightarrow> zh_failure + json \<Rightarrow> bool" where
  "sent_well x body sent r \<longleftrightarrow> length sent \<le> 2 \<and> (\<forall>q\<in>set sent. zq_body (fst q) = body)
     \<and> (length sent = 2 \<longrightarrow> (\<exists>r0. snd (hd sent) = Inr r0 \<and> refused_token r0 = Inr True))
     \<and> (\<forall>j. r = Inr j \<longrightarrow> sent \<noteq> [] \<and> (\<exists>r0. snd (last sent) = Inr r0 \<and> unwrap x False r0 = Inr j))"

lemma callingE:
  assumes "calling m k (s, w, es) = ((s1, w1, es1), r)"
  obtains (stops) f where "m (s, w, es) = ((s1, w1, es1), Inl f)" "r = Inl f"
  | (goes) a s2 w2 es2 where "m (s, w, es) = ((s2, w2, es2), Inr a)" "k a (s2, w2, es2) = ((s1, w1, es1), r)"
proof -
  obtain s2 w2 es2 r2 where m: "m (s, w, es) = ((s2, w2, es2), r2)" by (cases "m (s, w, es)") auto
  show thesis
    using assms m by (cases r2) (auto simp: calling_def intro: stops goes)
qed

lemma session_calling: "calling session_now k (s, w, es) = k s (s, w, es)"
  by (simp add: calling_def session_now_def)

lemma sending_logged:
  assumes "sending (logged pl) rq (s, w, es) = ((s1, w1, es1), r)"
  obtains a where "s1 = s" "es1 = es @ [(rq, a)]" "\<And>v. r = Inr v \<Longrightarrow> a = Inr v"
  using assms by (auto simp: sending_def logged_def split: prod.splits sum.splits)

lemma lifted_run: "lifted m (s, w, es) = ((s1, w1, es1), r) \<Longrightarrow> s1 = s \<and> w1 = w \<and> es1 = es \<and> (\<forall>v. r = Inr v \<longrightarrow> m = Inr v)"
  by (auto simp: lifted_def giving_def split: sum.splits)

lemma giving_run: "giving m (s, w, es) = ((s1, w1, es1), r) \<Longrightarrow> s1 = s \<and> es1 = es \<and> r = m"
  by (auto simp: giving_def)

lemma instructions_simps [simp]:
  "instructions base [] = []" "instructions base (es @ fs) = instructions base es @ instructions base fs"
  "instructions base [(rq, a)] = (if zq_url rq = base @ path_control then [(rq, a)] else [])"
  by (simp_all add: instructions_def)

lemma authorized_simps [simp]:
  "zq_url (authorized x s method path body) = zs_base_url s @ path" "zq_body (authorized x s method path body) = body"
  by (simp_all add: authorized_def)

text \<open>The second sending, if the first token was refused.\<close>

lemma sent_again:
  assumes "zs_base_url s = base" "refused_token r0 = Inr True"
    and "calling (zh_refresh x h z (logged pl)) (\<lambda>_.
          calling session_now (\<lambda>s2.
          calling (sending (logged pl) (authorized x s2 method path_control body)) (\<lambda>r2.
          calling (lifted (refused_token r2)) (\<lambda>_. giving (unwrap x False r2))))) (s, w, es) = ((s1, w1, es1), r)"
  shows "zs_base_url s1 = base \<and> (\<exists>more. es1 = es @ more \<and> (zq_body rq = body \<longrightarrow>
    sent_well x body ((rq, Inr r0) # instructions base more) r))"
  using assms(3)
proof (cases rule: callingE)
  case (stops f)
  from silentD [OF silent_refresh assms(1) stops(1)] stops(2) assms(2) show ?thesis by (auto simp: sent_well_def)
next
  case (goes u s2 w2 es2)
  from silentD [OF silent_refresh assms(1) goes(1)] obtain more where
    m: "zs_base_url s2 = base" "es2 = es @ more" "instructions base more = []" by blast
  from goes(2) [unfolded session_calling] show ?thesis
  proof (cases rule: callingE)
    case (stops f)
    then obtain a where "s1 = s2" "es1 = es2 @ [(authorized x s2 method path_control body, a)]" by (auto elim: sending_logged)
    with m assms(2) stops(2) show ?thesis by (auto simp: sent_well_def intro!: exI [of _ "more @ [(authorized x s2 method path_control body, a)]"])
  next
    case (goes r2 s3 w3 es3)
    then have s3: "s3 = s2" "es3 = es2 @ [(authorized x s2 method path_control body, Inr r2)]" by (auto elim: sending_logged)
    from goes(2) have "s1 = s3 \<and> es1 = es3 \<and> (\<forall>j. r = Inr j \<longrightarrow> unwrap x False r2 = Inr j)"
      by (cases rule: callingE) (auto dest: lifted_run giving_run)
    with m s3 assms(2) show ?thesis
      by (auto simp: sent_well_def simp del: split_paired_Ex
          intro!: exI [of _ "more @ [(authorized x s2 method path_control body, Inr r2)]"])
  qed
qed

lemma authed_sends:
  assumes base: "zs_base_url s = base"
    and run: "zh_authed x h z (logged pl) method path_control body (s, w, es) = ((s1, w1, es1), r)"
  shows "zs_base_url s1 = base \<and> (\<exists>more. es1 = es @ more \<and> sent_well x body (instructions base more) r)"
  using run [unfolded zh_authed_def]
proof (cases rule: callingE)
  case (stops f)
  from silentD [OF silent_ensure base stops(1)] stops(2) show ?thesis by (auto simp: sent_well_def)
next
  case (goes u s2 w2 es2)
  from silentD [OF silent_ensure base goes(1)] obtain more where
    m: "zs_base_url s2 = base" "es2 = es @ more" "instructions base more = []" by blast
  let ?rq = "authorized x s2 method path_control body"
  from goes(2) [unfolded session_calling] show ?thesis
  proof (cases rule: callingE)
    case (stops f)
    then obtain a where "s1 = s2" "es1 = es2 @ [(?rq, a)]" by (auto elim: sending_logged)
    with m stops(2) show ?thesis by (auto simp: sent_well_def intro!: exI [of _ "more @ [(?rq, a)]"])
  next
    case (goes r1 s3 w3 es3)
    then have s3: "s3 = s2" "es3 = es2 @ [(?rq, Inr r1)]" by (auto elim: sending_logged)
    from goes(2) show ?thesis
    proof (cases rule: callingE)
      case (stops f)
      with m s3 show ?thesis by (auto simp: sent_well_def dest!: lifted_run intro!: exI [of _ "more @ [(?rq, Inr r1)]"])
    next
      case (goes again s4 w4 es4)
      then have s4: "s4 = s2" "es4 = es3" "refused_token r1 = Inr again" using s3 by (auto dest: lifted_run)
      show ?thesis
      proof (cases again)
        case False
        with goes(2) have "giving (unwrap x False r1) (s4, w4, es4) = ((s1, w1, es1), r)" by simp
        with m s3 s4 show ?thesis by (auto simp: sent_well_def simp del: split_paired_Ex dest!: giving_run intro!: exI [of _ "more @ [(?rq, Inr r1)]"])
      next
        case True
        with goes(2) have rest: "calling (zh_refresh x h z (logged pl)) (\<lambda>_.
          calling session_now (\<lambda>s2.
          calling (sending (logged pl) (authorized x s2 method path_control body)) (\<lambda>r2.
          calling (lifted (refused_token r2)) (\<lambda>_. giving (unwrap x False r2))))) (s4, w4, es4) = ((s1, w1, es1), r)"
          by simp
        from m(1) s4 True have "zs_base_url s4 = base" "refused_token r1 = Inr True" by simp_all
        from sent_again [OF this rest, of ?rq] obtain later where
          "zs_base_url s1 = base" "es1 = es4 @ later" "sent_well x body ((?rq, Inr r1) # instructions base later) r" by auto
        with m s3 s4 show ?thesis by (auto intro!: exI [of _ "more @ (?rq, Inr r1) # later"] simp: instructions_def)
      qed
    qed
  qed
qed

lemma control_sends:
  assumes base: "zs_base_url s = base" and run: "zh_control x h z (logged pl) query (s, w, es) = ((s1, w1, es1), r)"
  shows "\<exists>more body j. es1 = es @ more \<and> sent_well x body (instructions base more) j
    \<and> (\<forall>reply. r = Inr reply \<longrightarrow> (\<exists>v. j = Inr v \<and> py_or v (JObj []) = JObj reply))"
proof -
  let ?body = "JObj ((''query'', JStr query) # (case zs_home_id s of Some (c # i) \<Rightarrow> [(''homeId'', JStr (c # i))] | _ \<Rightarrow> []))"
  from run [unfolded zh_control_def session_calling] show ?thesis
  proof (cases rule: callingE)
    case (stops f)
    from authed_sends [OF base stops(1)] stops(2) show ?thesis by auto
  next
    case (goes j s2 w2 es2)
    from lifted_run [OF goes(2)] have "es1 = es2" "\<And>reply. r = Inr reply \<Longrightarrow> py_or j (JObj []) = JObj reply"
      by (auto simp: as_dict_def split: json.splits)
    with authed_sends [OF base goes(1)] show ?thesis by blast
  qed
qed

text \<open>
  C36: an instruction is sent at most twice, and twice only when the platform said of the first that its token was not
  valid. A command is answered as delegated only if the last of them was answered with the code and the status of an
  instruction taken.
\<close>

theorem instruction_sent_at_most_twice:
  assumes "zh_execute e owner d c st = (st1, out)" "ze_platform e = logged pl" "zt_world st = (w, es)"
    and "map_of (zt_sessions st) (snd (provider_binding (ze_home e) (hd_provider d))) = Some s"
  shows "\<exists>more. snd (zt_world st1) = es @ more \<and> length (instructions (zs_base_url s) more) \<le> 2
    \<and> (length (instructions (zs_base_url s) more) = 2 \<longrightarrow>
        (\<exists>r0. snd (hd (instructions (zs_base_url s) more)) = Inr r0 \<and> refused_token r0 = Inr True))
    \<and> (\<forall>t. out = Provider_delegated t \<longrightarrow>
        (\<exists>r0 reply n. instructions (zs_base_url s) more \<noteq> [] \<and> snd (last (instructions (zs_base_url s) more)) = Inr r0
          \<and> unwrap (ze_external e) False r0 = Inr (JObj reply) \<and> map_of reply ''status'' = Some n
          \<and> int_value (ze_external e) n = Inr 0))"
proof (cases "zh_session_of owner (snd (provider_binding (ze_home e) (hd_provider d))) st")
  case (Inl f)
  then have "f = Home_error device_offline []" by (auto simp: zh_session_of_def split: option.splits if_splits)
  with assms(1,3) Inl show ?thesis by (auto simp: zh_execute_def Let_def intro!: exI [of _ "[]"])
next
  case (Inr s')
  then have s': "s' = s" using assms(4) by (auto simp: zh_session_of_def split: if_splits)
  show ?thesis
  proof (cases "zh_query (ze_words e) c (hd_name d)")
    case None
    with assms(1,3) Inr show ?thesis by (auto simp: zh_execute_def Let_def intro!: exI [of _ "[]"])
  next
    case (Some query)
    let ?x = "ze_external e"
    obtain s1 w1 es1 r where run: "zh_control ?x (ze_home e) (ze_crypto e) (logged pl) query (s, w, es) = ((s1, w1, es1), r)"
      by (cases "zh_control ?x (ze_home e) (ze_crypto e) (logged pl) query (s, w, es)") auto
    with assms Inr Some s' have st1: "zt_world st1 = (w1, es1)"
        "out = (case r of Inl f \<Rightarrow> failure_outcome f | Inr reply \<Rightarrow> control_outcome e reply)"
      by (auto simp: zh_execute_def Let_def)
    from control_sends [OF refl run] obtain more body j where m: "es1 = es @ more"
        "sent_well ?x body (instructions (zs_base_url s) more) j"
        "\<forall>reply. r = Inr reply \<longrightarrow> (\<exists>v. j = Inr v \<and> py_or v (JObj []) = JObj reply)" by (elim exE conjE) (rule that)
    have "\<exists>r0 reply n. instructions (zs_base_url s) more \<noteq> [] \<and> snd (last (instructions (zs_base_url s) more)) = Inr r0
        \<and> unwrap ?x False r0 = Inr (JObj reply) \<and> map_of reply ''status'' = Some n \<and> int_value ?x n = Inr 0"
      if taken: "out = Provider_delegated t" for t
    proof -
      obtain reply where r: "r = Inr reply" "control_outcome e reply = Provider_delegated t"
      proof (cases r)
        case (Inl f)
        with taken st1(2) show thesis by (cases f) simp_all
      qed (use taken st1(2) that in simp)
      then have "int_value ?x (case map_of reply ''status'' of None \<Rightarrow> jint (- 1) | Some n \<Rightarrow> n) = Inr 0"
        by (auto simp: control_outcome_def Let_def split: sum.splits if_splits)
      moreover have "\<lceil>(- 1) :: rat\<rceil> = - 1" using ceiling_of_int [of "- 1", where 'a = rat] by simp
      ultimately obtain n where n: "map_of reply ''status'' = Some n" "int_value ?x n = Inr 0"
        by (cases "map_of reply ''status''") (auto simp: int_value_def present_def jint_def)
      from m(3) r(1) obtain v where v: "j = Inr v" "py_or v (JObj []) = JObj reply" by blast
      then have "v = JObj reply" using n(1) by (auto simp: py_or_def split: if_splits)
      with v m(2) n show ?thesis by (auto simp: sent_well_def simp del: split_paired_Ex)
    qed
    with m(1,2) st1(1) show ?thesis by (auto simp: sent_well_def simp del: split_paired_Ex intro!: exI [of _ more])
  qed
qed

section \<open>Observations\<close>

lemma split_on_parts: "w \<in> set (split_on sep s) \<Longrightarrow> sep \<notin> set w"
  by (induction sep s arbitrary: w rule: split_on.induct) (auto split: if_splits list.splits)

lemma reference_keeps_colon:
  assumes "CHR '':'' \<in> set dev" "length dev \<le> 128"
  shows "CHR '':'' \<in> set (external_ref wd dev res)"
proof -
  let ?f = "\<lambda>c. if zw_alnum wd c \<or> c \<in> set ''._:-'' then c else CHR ''-''"
  have colon: "CHR '':'' \<in> ?f ` set dev" using assms(1) by (intro image_eqI [of _ _ "CHR '':''"]) simp_all
  obtain tail where "external_ref wd dev res = take 128 (map ?f (dev @ tail))"
  proof (cases res)
    case None
    then show thesis using that [of "[]"] by (simp add: external_ref_def)
  next
    case (Some r)
    then show thesis using that [of "[]"] that [of "CHR ''.'' # r"] by (cases r) (simp_all add: external_ref_def)
  qed
  with assms(2) have "external_ref wd dev res = map ?f dev @ take (128 - length dev) (map ?f tail)" by simp
  with colon show ?thesis by (metis (no_types, lifting) UnI1 list.set_map set_append)
qed

text \<open>
  A device the platform names with a colon is not observed. The colon stays in its reference, by which polling
  reports it, and the service looks a reference up among the parts between colons, so whatever is reported of the
  device leaves the runtime as reading the registry does.
\<close>

theorem colon_reference_unseen:
  assumes "CHR '':'' \<in> set dev" "length dev \<le> 128"
  shows "fst (pass_observation x s h ttl now source views project owner provider (external_ref wd dev res, seen) st)
    = fst (read_registry x s h ttl now owner source views st)"
proof -
  have "observed_device r provider (external_ref wd dev res) = None" for r
    using split_on_parts [of "external_ref wd dev res" "CHR '':''"] reference_keeps_colon [OF assms]
    by (auto simp: observed_device_def find_None_iff)
  then show ?thesis by (auto simp: pass_observation_def split: prod.splits sum.splits)
qed

definition plain_words :: zh_words where
  "plain_words = \<lparr>zw_air = ''kt'', zw_curtain = ''cl'', zw_light = ''d'', zw_fan = ''fs'', zw_socket = ''cz'', zw_switch = ''kg'',
     zw_sensor = ''cg'', zw_open = ''open '', zw_close = ''close '', zw_lock = ''lock '', zw_device = ''sb'', zw_label = ''zb'',
     zw_accepted = ''ok'', zw_missing = concat, zw_secret_not_base64 = [], zw_no_secret = [], zw_choose_home = [],
     zw_lower = (\<lambda>s. s), zw_alnum = (\<lambda>c. c \<in> set ''ab'')\<rparr>"

lemma colon_reference_unseen_witness:
  "fst (pass_observation small_world small_sdk small_home_sdk 0 5 (Inr lamp_registry) [] None ''u'' ''v''
       (external_ref plain_words ''a:b'' None, False) (lamp_state []))
   = fst (read_registry small_world small_sdk small_home_sdk 0 5 ''u'' (Inr lamp_registry) [] (lamp_state []))"
  by (rule colon_reference_unseen) simp_all

text \<open>A platform that first refuses the token, then gives another and takes the instruction.\<close>

definition second_time :: "nat platform" where
  "second_time = \<lparr>pl_send = (\<lambda>rq n. (n + 1, Inr (200, Some (JObj
       (if n = 0 then [(''code'', jint 401)]
        else if n = 1 then [(''code'', jint 0), (''data'', JObj [(''access_token'', JStr ''t'')])]
        else [(''code'', jint 0), (''data'', JObj [(''status'', jint 0), (''answer'', JStr ''ok'')])]))))),
     pl_clock = (\<lambda>n. (n, 1))\<rparr>"

definition plain_crypto :: zh_crypto where
  "plain_crypto = \<lparr>zc_b64decode = (\<lambda>s. Some []), zc_strict_b64 = (\<lambda>s. True), zc_b64encode = (\<lambda>bs. []),
     zc_hmac = (\<lambda>k m. []), zc_sha256_hex = (\<lambda>bs. []), zc_md5_hex = (\<lambda>bs. []), zc_quote = (\<lambda>s. s)\<rparr>"

definition second_env :: "(nat \<times> exchange list) zh_env" where
  "second_env = \<lparr>ze_external = small_world, ze_home = small_home_sdk, ze_crypto = plain_crypto, ze_words = plain_words,
     ze_platform = logged second_time, ze_host = ''h'', ze_cipher = \<lparr>vc_key = [], vc_decrypt = (\<lambda>k n c a. None)\<rparr>,
     ze_nonce = (\<lambda>i. []), ze_traits = (\<lambda>ts. JNull), ze_limits = JNull, ze_failure_text = (\<lambda>f. [])\<rparr>"

definition second_session :: zh_session where
  "second_session = \<lparr>zs_owner_id = ''u'', zs_account_id = [], zs_base_url = ''http://p'', zs_app_id = ''a'', zs_app_secret = ''s'',
     zs_user_id = ''eid'', zs_user_secret = ''k'', zs_home_id = Some ''1'', zs_access_token = JStr ''old'',
     zs_refresh_token = JStr [], zs_expires_at = 9\<rparr>"

definition second_state :: "(nat \<times> exchange list) zh_state" where
  "second_state = \<lparr>zt_store = \<lparr>as_accounts = [], as_vault = [], as_connections = [], as_owners = [], as_known = [],
     as_observers = []\<rparr>, zt_sessions = [([], second_session)], zt_known = [], zt_world = (0, [])\<rparr>"

lemma second_run:
  "case zh_execute second_env ''u'' lamp switch_on second_state of
     (st1, out) \<Rightarrow> out = Provider_delegated ''ok'' \<and> map (\<lambda>q. zq_url (fst q)) (snd (zt_world st1))
       = [''http://p/cloud-api/device/llm/control'', ''http://p/cloud-api/oauth2/token'', ''http://p/cloud-api/device/llm/control'']"
  by code_simp

lemma instruction_sent_at_most_twice_witness:
  "\<exists>st1 r0. zh_execute second_env ''u'' lamp switch_on second_state = (st1, Provider_delegated ''ok'')
    \<and> length (instructions ''http://p'' (snd (zt_world st1))) = 2
    \<and> snd (hd (instructions ''http://p'' (snd (zt_world st1)))) = Inr r0 \<and> refused_token r0 = Inr True"
proof -
  obtain st1 where run: "zh_execute second_env ''u'' lamp switch_on second_state = (st1, Provider_delegated ''ok'')"
      and urls: "map (\<lambda>q. zq_url (fst q)) (snd (zt_world st1)) = [''http://p/cloud-api/device/llm/control'',
        ''http://p/cloud-api/oauth2/token'', ''http://p/cloud-api/device/llm/control'']"
    using second_run by (cases "zh_execute second_env ''u'' lamp switch_on second_state") auto
  have "length (instructions base es) = length (filter (\<lambda>u. u = base @ path_control) (map (\<lambda>q. zq_url (fst q)) es))" for base es
    by (induction es) (auto simp: instructions_def)
  from this [of "''http://p''" "snd (zt_world st1)"] have two: "length (instructions ''http://p'' (snd (zt_world st1))) = 2"
    unfolding urls by (simp add: path_control_def)
  have "ze_platform second_env = logged second_time" "zt_world second_state = (0, [])"
    "map_of (zt_sessions second_state) (snd (provider_binding (ze_home second_env) (hd_provider lamp))) = Some second_session"
    by (simp_all add: second_env_def second_state_def small_home_sdk_def)
  from instruction_sent_at_most_twice [OF run this] two run show ?thesis by (auto simp: second_session_def)
qed

end
