(* ===== verification/Home_Http.thy ===== *)
theory Home_Http
  imports Ha_Observer
begin

text \<open>
  The routes of home execution (\<open>hub/smarthome/http.py\<close>) and the one for the Kernel's device reads
  (\<open>interfaces/http/routers/device_management.py\<close>): which credential each asks for, and what it
  answers.  What runtime and accounts come to is an argument; the SDK prints it.
\<close>

section \<open>Answers\<close>

datatype refusal_detail = Detail_text string | Detail_refusal string string

datatype 'a home_answer = Home_ok 'a | Home_error_status int refusal_detail | Home_crashed exn

definition bearer :: "string \<Rightarrow> string" where
  "bearer token = ''Bearer '' @ token"

text \<open>\<open>hmac.compare_digest\<close> takes texts of ASCII characters only.\<close>

definition ascii_text :: "string \<Rightarrow> bool" where
  "ascii_text s = list_all (\<lambda>c. (of_char c :: nat) < 128) s"

definition compare_digest :: "string \<Rightarrow> string \<Rightarrow> exn + bool" where
  "compare_digest s t =
     (if ascii_text s \<and> ascii_text t then Inr (s = t)
      else Inl (Type_error ''comparing strings with non-ASCII characters is not supported''))"

definition not_accepted :: "'a home_answer" where
  "not_accepted = Home_error_status 401 (Detail_text ''internal credential was not accepted'')"

text \<open>\<open>authenticate\<close>, then \<open>runtime\<close> or \<open>account_service\<close>: the service, if there is one.\<close>

definition home_service :: "string \<Rightarrow> string \<Rightarrow> string \<Rightarrow> 's option \<Rightarrow> 'a home_answer + 's" where
  "home_service token missing header service =
     (if token = [] then Inl not_accepted
      else case compare_digest header (bearer token) of
             Inl e \<Rightarrow> Inl (Home_crashed e)
           | Inr same \<Rightarrow>
               if \<not> same then Inl not_accepted
               else case service of None \<Rightarrow> Inl (Home_error_status 503 (Detail_text missing)) | Some s \<Rightarrow> Inr s)"

definition no_runtime :: string where
  "no_runtime = ''smart home is not configured''"

definition no_accounts :: string where
  "no_accounts = ''smart home provider accounts are not configured''"

definition with_service ::
  "string \<Rightarrow> string \<Rightarrow> string \<Rightarrow> 's option \<Rightarrow> ('s \<Rightarrow> 's \<times> 'a home_answer) \<Rightarrow> 's option \<times> 'a home_answer" where
  "with_service token missing header service f =
     (case home_service token missing header service of
        Inl a \<Rightarrow> (service, a)
      | Inr s \<Rightarrow> (case f s of (s1, a) \<Rightarrow> (Some s1, a)))"

definition answer_of :: "exn + 'a \<Rightarrow> 'a home_answer" where
  "answer_of r = (case r of Inl e \<Rightarrow> Home_crashed e | Inr v \<Rightarrow> Home_ok v)"

section \<open>The runtime's routes\<close>

text \<open>Where a submission ends at once; one that runs is answered when it has run.\<close>

definition execute_route ::
  "request_printer \<Rightarrow> string \<Rightarrow> int \<Rightarrow> string \<Rightarrow> string \<Rightarrow> execute_request \<Rightarrow> exn + execute_result \<Rightarrow>
   home_state option \<Rightarrow> home_state option \<times> execute_result home_answer" where
  "execute_route printer token now header owner rq came service =
     with_service token no_runtime header service (\<lambda>st.
       case submit printer now owner rq st of
         (st1, Submission_conflict) \<Rightarrow>
           (st1, Home_error_status 409 (Detail_text ''request_id was reused for a different command''))
       | (st1, Submission_without_owner) \<Rightarrow> (st1, Home_crashed (Value_error ''owner_id is required''))
       | (st1, Submission_answered result) \<Rightarrow> (st1, Home_ok result)
       | (st1, _) \<Rightarrow> (st1, answer_of came))"

definition snapshot_route ::
  "external \<Rightarrow> device_sdk \<Rightarrow> home_sdk \<Rightarrow> int \<Rightarrow> exn + registry \<Rightarrow> provider_view list \<Rightarrow> string \<Rightarrow> int \<Rightarrow> string \<Rightarrow> string \<Rightarrow>
   home_state option \<Rightarrow> home_state option \<times> (registry \<times> (string \<times> device_status) list) home_answer" where
  "snapshot_route x s h ttl source views token now header owner service =
     with_service token no_runtime header service (\<lambda>st.
       case read_registry x s h ttl now owner source views st of
         (st1, Inl e) \<Rightarrow> (st1, Home_crashed e)
       | (st1, Inr r) \<Rightarrow> (st1, answer_of (andthen (home_snapshot x owner r st1) (\<lambda>status1. Inr (r, status1)))))"

text \<open>
  \<open>changes\<close>: \<open>looks\<close> are the rows each time \<open>changes_since\<close> looks, \<open>rows\<close> those it finds when it asks for
  the latest number.
\<close>

definition changes_route ::
  "external \<Rightarrow> string \<Rightarrow> string \<Rightarrow> string \<Rightarrow> int \<Rightarrow> observation_row list list \<Rightarrow> observation_row list \<Rightarrow>
   home_state option \<Rightarrow> home_state option \<times> (observed list \<times> int) home_answer" where
  "changes_route x token header owner since looks rows service =
     with_service token no_runtime header service (\<lambda>st.
       (st, answer_of (andthen (changes_since x owner since looks) (\<lambda>seen.
         Inr (seen, if seen \<noteq> [] then od_seq (last seen) else latest_seq owner rows)))))"

definition receipt_route ::
  "string \<Rightarrow> string \<Rightarrow> string \<Rightarrow> string \<Rightarrow> string \<Rightarrow> home_state option \<Rightarrow> home_state option \<times> receipt home_answer" where
  "receipt_route token header owner scope request_id service =
     with_service token no_runtime header service (\<lambda>st.
       (st, case fetch_receipt \<lparr>rk_owner_id = owner, rk_scope = scope, rk_request_id = request_id\<rparr> (hs_receipts st) of
              None \<Rightarrow> Home_error_status 404 (Detail_text ''no receipt for that request'')
            | Some r \<Rightarrow> Home_ok r))"

section \<open>The accounts' routes\<close>

definition no_such_account :: refusal_detail where
  "no_such_account = Detail_text ''no such account for this owner''"

definition accounts_route ::
  "string \<Rightarrow> string \<Rightarrow> string \<Rightarrow> account_state option \<Rightarrow> account_state option \<times> account_record list home_answer" where
  "accounts_route token header owner service =
     with_service token no_accounts header service (\<lambda>st. (st, Home_ok (list_accounts owner (as_accounts st))))"

definition bind_route ::
  "bind_env \<Rightarrow> bool \<Rightarrow> string \<Rightarrow> int \<Rightarrow> string \<Rightarrow> string \<Rightarrow> string \<Rightarrow> string \<Rightarrow> string option \<Rightarrow> (string \<times> string) list \<Rightarrow>
   account_state option \<Rightarrow> account_state option \<times> account_record home_answer" where
  "bind_route b enabled token now drawn header owner kind given form service =
     with_service token no_accounts header service (\<lambda>st.
       case bind_account b enabled now drawn owner kind given form st of
         (st1, Inl (refusal, message)) \<Rightarrow> (st1, Home_error_status 422 (Detail_refusal refusal message))
       | (st1, Inr r) \<Rightarrow> (st1, Home_ok r))"

definition unbind_route ::
  "bool \<Rightarrow> string \<Rightarrow> string \<Rightarrow> string \<Rightarrow> string \<Rightarrow> account_state option \<Rightarrow> account_state option \<times> string home_answer" where
  "unbind_route enabled token header owner account service =
     with_service token no_accounts header service (\<lambda>st.
       case unbind_account enabled owner account st of
         (st1, removed) \<Rightarrow> (st1, if removed then Home_ok account else Home_error_status 404 no_such_account))"

text \<open>A \<open>KeyError\<close> from anywhere in the sync reads as an account that does not exist.\<close>

definition sync_answered :: "sync_answer \<Rightarrow> sync_report home_answer" where
  "sync_answered a =
     (case a of
        Sync_refused refusal message \<Rightarrow> Home_error_status 422 (Detail_refusal refusal message)
      | Sync_raised (Key_error k) \<Rightarrow> Home_error_status 404 no_such_account
      | Sync_raised e \<Rightarrow> Home_crashed e
      | Sync_done report \<Rightarrow> Home_ok report)"

definition sync_route ::
  "('s \<Rightarrow> 's \<times> sync_answer) \<Rightarrow> string \<Rightarrow> string \<Rightarrow> 's option \<Rightarrow> 's option \<times> sync_report home_answer" where
  "sync_route sync token header service =
     with_service token no_accounts header service (\<lambda>st. case sync st of (st1, a) \<Rightarrow> (st1, sync_answered a))"

section \<open>The device reader\<close>

datatype permission = Device_get | Claim_events_read

definition reader_new :: "string \<Rightarrow> exn + string" where
  "reader_new token =
     (if length (encode token) < 32
      then Inl (Value_error ''device registry reader token must contain at least 32 bytes'') else Inr token)"

definition partition_space :: "string \<Rightarrow> string \<times> bool \<times> string" where
  "partition_space s =
     (let scheme = takeWhile (\<lambda>c. c \<noteq> CHR '' '') s
      in (scheme, CHR '' '' \<in> set s, drop (length scheme + 1) s))"

text \<open>\<open>authorize\<close>; \<open>lower\<close> is \<open>str.lower\<close>.\<close>

definition authorize_reader ::
  "(string \<Rightarrow> string) \<Rightarrow> string \<Rightarrow> string \<Rightarrow> permission \<Rightarrow> string option \<Rightarrow> string option \<Rightarrow> exn + unit" where
  "authorize_reader lower secret credential p owner dev =
     (case partition_space credential of
        (scheme, separated, token) \<Rightarrow>
          andthen (require (separated \<and> lower scheme = ''bearer'' \<and> token \<noteq> [])
            (Permission_error ''Bearer management credential required'')) (\<lambda>_.
          andthen (compare_digest token secret) (\<lambda>same.
          andthen (require same (Permission_error ''management credential is not recognized'')) (\<lambda>_.
          require (p = Device_get \<and> owner \<noteq> None \<and> dev \<noteq> None \<or> p = Claim_events_read)
            (Permission_error ''device registry reader is limited to exact reads and Claim events'')))))"

text \<open>\<open>claim_event_reader\<close> of \<open>composition/app.py\<close>.\<close>

definition claim_event_reader :: "(string \<Rightarrow> string) \<Rightarrow> string \<Rightarrow> string \<Rightarrow> string \<Rightarrow> exn + string" where
  "claim_event_reader lower secret owner_domain header =
     (case authorize_reader lower secret header Claim_events_read None None of
        Inl (Permission_error e) \<Rightarrow> Inl (problem_of ''UNAUTHENTICATED'' ''invalid Claim event reader credential'' 401 ''auth'')
      | Inl e \<Rightarrow> Inl e
      | Inr _ \<Rightarrow> Inr owner_domain)"

definition get_directory_device :: "directory \<Rightarrow> string \<Rightarrow> string \<Rightarrow> exn + directory_entry" where
  "get_directory_device dir owner dev =
     andthen (require (strip owner \<noteq> [] \<and> strip dev \<noteq> []) (Value_error ''owner_scope and device_id are required'')) (\<lambda>_.
     present (directory_get dir owner dev) (Key_error dev))"

definition directory_route ::
  "(string \<Rightarrow> string) \<Rightarrow> string \<Rightarrow> string \<Rightarrow> string \<Rightarrow> string \<Rightarrow> directory \<Rightarrow> directory_entry home_answer" where
  "directory_route lower secret header owner dev dir =
     (case andthen (authorize_reader lower secret header Device_get (Some owner) (Some dev))
             (\<lambda>_. get_directory_device dir owner dev) of
        Inr e \<Rightarrow> Home_ok e
      | Inl (Key_error k) \<Rightarrow> Home_error_status 404 (Detail_text ''device not found'')
      | Inl (Permission_error e) \<Rightarrow> Home_error_status 403 (Detail_text e)
      | Inl e \<Rightarrow> Home_crashed e)"

end
