(* ===== verification/Home_Http_Properties.thy ===== *)
theory Home_Http_Properties
  imports Home_Http Home_Scenario Observation_Properties Admission_Http_Properties
begin

text \<open>Which credential opens a route, and how the changes route can lose a change.\<close>

section \<open>Credentials\<close>

lemma home_routes_closed:
  assumes "token = [] \<or> header \<noteq> bearer token"
  shows "fst (with_service token missing header service f) = service
    \<and> snd (with_service token missing header service f) \<in> {not_accepted,
        Home_crashed (Type_error ''comparing strings with non-ASCII characters is not supported'')}"
  using assms by (auto simp: with_service_def home_service_def compare_digest_def)

lemma partition_space_eq: "partition_space s = (scheme, True, rest) \<Longrightarrow> s = scheme @ CHR '' '' # rest"
proof (induction s arbitrary: scheme)
  case (Cons c s)
  show ?case
  proof (cases "c = CHR '' ''")
    case False
    then obtain sc where "scheme = c # sc" "partition_space s = (sc, True, rest)"
      using Cons.prems by (auto simp: partition_space_def)
    with Cons.IH show ?thesis by simp
  qed (use Cons.prems in \<open>simp add: partition_space_def\<close>)
qed (simp add: partition_space_def)

lemma authorized_reader:
  assumes "authorize_reader lower secret header p owner dev = Inr u"
  shows "\<exists>scheme. header = scheme @ CHR '' '' # secret \<and> lower scheme = ''bearer''"
proof -
  obtain scheme sep rest where s: "partition_space header = (scheme, sep, rest)" by (cases "partition_space header") auto
  with assms have "sep" "lower scheme = ''bearer''" "rest = secret"
    by (auto simp: authorize_reader_def compare_digest_def ok_iff split: if_splits)
  with s have "partition_space header = (scheme, True, secret)" by simp
  from partition_space_eq [OF this] \<open>lower scheme = _\<close> show ?thesis by blast
qed

text \<open>
  C37: with the Hub's composition, the Claim event stream is read with the reader's own token alone: a page is given
  only to a header that ends in that token after a bearer scheme, whatever credential of a Controller it is. Any other
  header changes nothing and is answered with a problem, or, if it is not ASCII, ends in an internal error.
\<close>

theorem event_stream_needs_token:
  assumes "he_reader e = Some (claim_event_reader lower secret (au_owner_domain_id (he_authority e)))"
    and "serve_http e d header (Get_claim_events after n) db = (db1, out)"
  shows "db1 = db \<and> ((\<exists>scheme. header = scheme @ CHR '' '' # secret \<and> lower scheme = ''bearer'')
    \<or> out = problem_response (he_sdk e) \<lparr>code = ''UNAUTHENTICATED'', detail = ''invalid Claim event reader credential'',
        status = 401, category = ''auth'', retryable = False\<rparr> JNull
    \<or> \<not> (ascii_text header \<and> ascii_text secret)
        \<and> out = Crashed (Type_error ''comparing strings with non-ASCII characters is not supported''))"
proof (cases "authorize_reader lower secret header Claim_events_read None None")
  case (Inr u)
  with authorized_reader [OF Inr] assms(2) show ?thesis by (auto simp: serve_http_def reading_def)
next
  case (Inl x)
  obtain scheme sep rest where s: "partition_space header = (scheme, sep, rest)" by (cases "partition_space header") auto
  from Inl s have "(\<exists>m. x = Permission_error m) \<or> sep \<and> \<not> (ascii_text rest \<and> ascii_text secret)
      \<and> x = Type_error ''comparing strings with non-ASCII characters is not supported''"
    by (auto simp: authorize_reader_def compare_digest_def require_def andthen_err split: if_splits)
  then show ?thesis
  proof
    assume "\<exists>m. x = Permission_error m"
    with Inl have "claim_events_route e d header after n db
        = Inl (problem_of ''UNAUTHENTICATED'' ''invalid Claim event reader credential'' 401 ''auth'')"
      by (auto simp: claim_events_route_def claim_event_owner_def assms(1) claim_event_reader_def)
    with assms(2) show ?thesis by (simp add: serve_http_def reading_def answered_def problem_of_def)
  next
    assume x: "sep \<and> \<not> (ascii_text rest \<and> ascii_text secret)
      \<and> x = Type_error ''comparing strings with non-ASCII characters is not supported''"
    with s have "partition_space header = (scheme, True, rest)" by simp
    from partition_space_eq [OF this] x have "\<not> (ascii_text header \<and> ascii_text secret)" by (auto simp: ascii_text_def)
    moreover from Inl x have "claim_events_route e d header after n db
        = Inl (Type_error ''comparing strings with non-ASCII characters is not supported'')"
      by (simp add: claim_events_route_def claim_event_owner_def assms(1) claim_event_reader_def)
    ultimately show ?thesis using assms(2) by (auto simp: serve_http_def reading_def answered_def)
  qed
qed

lemma event_stream_needs_token_witness:
  "snd (serve_http (small_env\<lparr>he_reader := Some (claim_event_reader (\<lambda>s. s) ''k'' (au_owner_domain_id (he_authority small_env)))\<rparr>)
     small_draws ''bearer other'' (Get_claim_events 0 10) (small_run acked_run))
   = problem_response small_admission_sdk \<lparr>code = ''UNAUTHENTICATED'', detail = ''invalid Claim event reader credential'',
        status = 401, category = ''auth'', retryable = False\<rparr> JNull"
proof -
  let ?e = "small_env\<lparr>he_reader := Some (claim_event_reader (\<lambda>s. s) ''k'' (au_owner_domain_id (he_authority small_env)))\<rparr>"
  obtain db1 out where run: "serve_http ?e small_draws ''bearer other'' (Get_claim_events 0 10) (small_run acked_run) = (db1, out)"
    by (cases "serve_http ?e small_draws ''bearer other'' (Get_claim_events 0 10) (small_run acked_run)") auto
  have other: "\<not> (\<exists>scheme. ''bearer other'' = scheme @ CHR '' '' # ''k'' \<and> (\<lambda>s. s) scheme = ''bearer'')"
    by (auto simp: append_eq_Cons_conv)
  have "he_reader ?e = Some (claim_event_reader (\<lambda>s. s) ''k'' (au_owner_domain_id (he_authority ?e)))" by simp
  from event_stream_needs_token [OF this run] other run show ?thesis by (auto simp: small_env_def ascii_text_def)
qed

section \<open>Changes\<close>

lemma stored_change:
  assumes "put_observation s owner target up state t rows = (rows1, Some c)" "feed_ok rows"
  shows "latest_seq owner rows1 = od_seq c"
proof -
  let ?row = "\<lparr>ob_owner_id = owner, ob_target = target, ob_reachable = up, ob_state_json = state_text s state,
    ob_observed_at = t, ob_seq = latest_seq owner rows + 1\<rparr>"
  have "od_seq c = latest_seq owner rows + 1 \<and> (rows1 = rows @ [?row] \<or>
      (\<exists>r. tget observation_key (owner, target) rows = Some r \<and> rows1 = tupd observation_key (owner, target) (\<lambda>_. ?row) rows))"
    using assms(1) by (auto simp: put_observation_def Let_def split: option.splits if_splits)
  then have c: "od_seq c = latest_seq owner rows + 1" and moves: "rows1 = rows @ [?row] \<or>
      (\<exists>r. tget observation_key (owner, target) rows = Some r \<and> rows1 = tupd observation_key (owner, target) (\<lambda>_. ?row) rows)"
    by blast+
  from moves have "?row \<in> set rows1 \<and> set rows1 \<subseteq> insert ?row (set rows)"
  proof
    assume "\<exists>r. tget observation_key (owner, target) rows = Some r \<and> rows1 = tupd observation_key (owner, target) (\<lambda>_. ?row) rows"
    then obtain r where r: "tget observation_key (owner, target) rows = Some r"
      and rows1: "rows1 = tupd observation_key (owner, target) (\<lambda>_. ?row) rows" by blast
    from tget_SomeD [OF r] show ?thesis unfolding rows1 set_tupd by blast
  qed simp
  then have row: "?row \<in> set rows1" and others: "\<And>r. r \<in> set rows1 \<Longrightarrow> r \<in> set rows \<or> r = ?row" by blast+
  have "latest_seq owner rows1 \<le> latest_seq owner rows + 1"
  proof (rule latest_seq_bound)
    fix r assume r: "r \<in> set rows1" "ob_owner_id r = owner"
    from others [OF r(1)] show "ob_seq r \<le> latest_seq owner rows + 1"
    proof
      assume "r \<in> set rows"
      from latest_seq_ge [OF this r(2)] show ?thesis by simp
    qed simp
  next
    show "0 \<le> latest_seq owner rows + 1" using latest_seq_nonneg [OF assms(2), of owner] by simp
  qed
  moreover have "latest_seq owner rows + 1 \<le> latest_seq owner rows1" using latest_seq_ge [OF row, of owner] by simp
  ultimately show ?thesis using c by simp
qed

text \<open>
  An answer of the changes route may pass over a change. If one is stored after the last look and before
  the latest number is read, the answer tells of no change and carries that change's number, and a client that asks on
  from there is not told of it.
\<close>

lemma changes_route_passes_over:
  assumes "token \<noteq> []" "ascii_text token" "changes_since x owner since (earlier @ [rows]) = Inr []"
    and "put_observation s owner target up state t rows = (rows1, Some c)" "feed_ok rows"
  shows "snd (changes_route x token (bearer token) owner since (earlier @ [rows]) rows1 (Some st)) = Home_ok ([], od_seq c)
    \<and> rows_after owner (od_seq c) rows1 = []"
proof
  show "snd (changes_route x token (bearer token) owner since (earlier @ [rows]) rows1 (Some st)) = Home_ok ([], od_seq c)"
    using assms(1-3) stored_change [OF assms(4,5)]
    by (simp add: changes_route_def with_service_def home_service_def compare_digest_def bearer_def ascii_text_def answer_of_def)
  show "rows_after owner (od_seq c) rows1 = []"
  proof -
    have "filter (\<lambda>r. od_seq c < ob_seq r) (of_owner owner rows1) = []"
      using latest_seq_ge [of _ rows1 owner] stored_change [OF assms(4,5)] by (force simp: filter_empty_conv of_owner_def)
    then show ?thesis by (simp add: rows_after_def order_by_def)
  qed
qed

lemma changes_route_passes_over_witness:
  "snd (changes_route small_world ''k'' (bearer ''k'') ''u'' 0 [[]]
     (fst (put_observation small_sdk ''u'' ''lamp'' True None 5 [])) (Some (lamp_state []))) = Home_ok ([], 1)
   \<and> rows_after ''u'' 1 (fst (put_observation small_sdk ''u'' ''lamp'' True None 5 [])) = []"
proof -
  obtain rows1 c where put: "put_observation small_sdk ''u'' ''lamp'' True None 5 [] = (rows1, Some c)" and c: "od_seq c = 1"
    by (simp add: put_observation_def latest_seq_def of_owner_def Let_def)
  have look: "changes_since small_world ''u'' 0 ([] @ [[]]) = Inr []"
    by (simp add: rows_after_def of_owner_def order_by_def)
  from changes_route_passes_over [OF _ _ look put, of "''k''" "lamp_state []"] put c show ?thesis
    by (simp add: feed_ok_def ascii_text_def)
qed

end
