(* ===== verification/Advertiser.thy ===== *)
theory Advertiser
  imports Contracts
begin

text \<open>
  The mDNS advertisement of the Hub (\<open>hub/adapters/discovery/zeroconf.py\<close>): which addresses it
  gives, and the transports it opens, replaces and closes as the Host's interfaces change.

  The Host's adapters, the SDK's test for a product link and what the mDNS library comes to are
  arguments; a transport is a number, and one that is told to close is closed.
\<close>

section \<open>Addresses\<close>

text \<open>What \<open>ipaddress\<close> and the SDK say of an address.\<close>

record ip_address =
  ip_text :: string
  ip_six :: bool
  ip_loopback :: bool
  ip_unspecified :: bool
  ip_multicast :: bool
  ip_link_local :: bool
  ip_product :: bool

record adapter =
  ap_name :: string
  ap_index :: int
  ap_ips :: "(string \<times> int) list"

type_synonym interface_entry = "string \<times> int \<times> string \<times> int"

definition usable_ip :: "ip_address \<Rightarrow> bool" where
  "usable_ip i \<longleftrightarrow> \<not> (ip_loopback i \<or> ip_unspecified i \<or> ip_multicast i \<or> ip_link_local i) \<and> ip_product i"

definition adapter_entries :: "(string \<Rightarrow> ip_address option) \<Rightarrow> adapter \<Rightarrow> interface_entry list" where
  "adapter_entries parse a =
     List.map_filter (\<lambda>(raw, prefix1).
       case parse (takeWhile (\<lambda>c. c \<noteq> CHR ''%'') raw) of
         None \<Rightarrow> None
       | Some i \<Rightarrow> if usable_ip i then Some (ap_name a, ap_index a, ip_text i, prefix1) else None) (ap_ips a)"

definition interface_snapshot :: "(string \<Rightarrow> ip_address option) \<Rightarrow> adapter list \<Rightarrow> interface_entry list" where
  "interface_snapshot parse adapters = sort (remdups (concat (map (adapter_entries parse) adapters)))"

definition entry_address :: "interface_entry \<Rightarrow> string" where
  "entry_address e = fst (snd (snd e))"

definition snapshot_addresses :: "interface_entry list \<Rightarrow> string list" where
  "snapshot_addresses entries = sort (remdups (map entry_address entries))"

text \<open>\<open>interface_addresses\<close>: IPv4 first.\<close>

definition interface_addresses :: "(string \<Rightarrow> ip_address option) \<Rightarrow> adapter list \<Rightarrow> string list" where
  "interface_addresses parse adapters =
     order_by (\<lambda>v. (case parse v of Some i \<Rightarrow> ip_six i | None \<Rightarrow> False, v))
       (snapshot_addresses (interface_snapshot parse adapters))"

section \<open>The advertiser\<close>

datatype interface_observation = Interfaces "interface_entry list" | Given "string list"

record advertiser =
  av_given :: "string list option"
  av_running :: bool
  av_networks :: "nat list option"
  av_addresses :: "string list"
  av_observation :: "interface_observation option"
  av_open :: "nat list"
  av_next :: nat

text \<open>What comes of each step that leaves the process, and the adapters before and after the registration.\<close>

datatype listener = Opened | Not_on_adapter exn | Not_opened exn

record advert_env =
  en_parse :: "string \<Rightarrow> ip_address option"
  en_before :: "adapter list"
  en_after :: "adapter list"
  en_info :: "exn option"
  en_open4 :: listener
  en_open6 :: listener
  en_register :: "exn option"
  en_unregister_old :: "exn option"
  en_unregister_new :: "exn option"
  en_close :: "exn option"

definition close_all :: "nat list \<Rightarrow> advertiser \<Rightarrow> advertiser" where
  "close_all nets a = a\<lparr>av_open := filter (\<lambda>n. n \<notin> set nets) (av_open a)\<rparr>"

definition failing :: "exn option list \<Rightarrow> exn + unit" where
  "failing es = (case List.map_filter id es of [] \<Rightarrow> Inr () | e # _ \<Rightarrow> Inl e)"

text \<open>\<open>_close_network\<close>: the transports are closed even where they cannot be unregistered.\<close>

definition close_network :: "advert_env \<Rightarrow> advertiser \<Rightarrow> advertiser \<times> (exn + unit)" where
  "close_network v a =
     (let a1 = a\<lparr>av_networks := None, av_addresses := [], av_observation := None\<rparr>
      in case av_networks a of
           None \<Rightarrow> (a1, Inr ())
         | Some nets \<Rightarrow> (close_all nets a1, failing [en_close v, en_unregister_old v]))"

definition new_network :: "advertiser \<Rightarrow> nat \<times> advertiser" where
  "new_network a = (av_next a, a\<lparr>av_next := Suc (av_next a), av_open := av_open a @ [av_next a]\<rparr>)"

text \<open>\<open>_open_network\<close>: a listener per family; without IPv4 a family that no adapter has is an error.\<close>

definition open_six :: "advert_env \<Rightarrow> bool \<Rightarrow> nat list \<Rightarrow> advertiser \<Rightarrow> advertiser \<times> (exn + nat list)" where
  "open_six v wanted nets a =
     (if \<not> wanted then (a, Inr nets)
      else case en_open6 v of
             Opened \<Rightarrow> (case new_network a of (n, a1) \<Rightarrow> (a1, Inr (nets @ [n])))
           | Not_on_adapter e \<Rightarrow> if nets = [] then (close_all nets a, Inl e) else (a, Inr nets)
           | Not_opened e \<Rightarrow> (close_all nets a, Inl e))"

definition open_network :: "advert_env \<Rightarrow> string list \<Rightarrow> advertiser \<Rightarrow> advertiser \<times> (exn + nat list)" where
  "open_network v addresses a =
     (let six = (\<lambda>t. case en_parse v t of Some i \<Rightarrow> ip_six i | None \<Rightarrow> False);
          wanted6 = list_ex six addresses
      in if list_all six addresses then open_six v wanted6 [] a
         else case en_open4 v of
                Opened \<Rightarrow> (case new_network a of (n, a1) \<Rightarrow> open_six v wanted6 [n] a1)
              | Not_on_adapter e \<Rightarrow> (a, Inl e)
              | Not_opened e \<Rightarrow> (a, Inl e))"

definition refresh_interfaces :: "advert_env \<Rightarrow> advertiser \<Rightarrow> advertiser \<times> (exn + unit)" where
  "refresh_interfaces v a =
     (if \<not> av_running a then (a, Inr ())
      else let seen = (\<lambda>adapters. case av_given a of
                         None \<Rightarrow> Interfaces (interface_snapshot (en_parse v) adapters)
                       | Some given \<Rightarrow> Given given);
               addresses = (case av_given a of
                              None \<Rightarrow> snapshot_addresses (interface_snapshot (en_parse v) (en_before v))
                            | Some given \<Rightarrow> given)
           in if av_networks a \<noteq> None \<and> av_observation a = Some (seen (en_before v)) then (a, Inr ())
              else case close_network v a of
                     (a1, Inl e) \<Rightarrow> (a1, Inl e)
                   | (a1, Inr _) \<Rightarrow>
                       if addresses = [] then (a1, Inr ())
                       else (case en_info v of
                          Some e \<Rightarrow> (a1, Inl e)
                        | None \<Rightarrow>
                            (case open_network v addresses a1 of
                               (a2, Inl e) \<Rightarrow> (a2, Inl e)
                             | (a2, Inr nets) \<Rightarrow>
                                 (case en_register v of
                                    Some e \<Rightarrow> (close_all nets a2, Inl e)
                                  | None \<Rightarrow>
                                      if seen (en_after v) \<noteq> seen (en_before v)
                                      then (close_all nets a2, failing [en_close v, en_unregister_new v])
                                      else (a2\<lparr>av_networks := Some nets, av_addresses := addresses,
                                               av_observation := Some (seen (en_before v))\<rparr>, Inr ())))))"

text \<open>\<open>start\<close>: the Hub starts whatever the network does; the loop refreshes again.\<close>

definition start_advertiser :: "advert_env \<Rightarrow> advertiser \<Rightarrow> advertiser" where
  "start_advertiser v a = (if av_running a then a else fst (refresh_interfaces v (a\<lparr>av_running := True\<rparr>)))"

definition stop_advertiser :: "advert_env \<Rightarrow> advertiser \<Rightarrow> advertiser \<times> (exn + unit)" where
  "stop_advertiser v a = close_network v (a\<lparr>av_running := False\<rparr>)"

definition new_advertiser :: "string list option \<Rightarrow> advertiser" where
  "new_advertiser given = \<lparr>av_given = given, av_running = False, av_networks = None, av_addresses = [],
     av_observation = None, av_open = [], av_next = 0\<rparr>"

datatype advert_call = Start_advert | Refresh_advert | Stop_advert

fun advert_step :: "advert_call \<times> advert_env \<Rightarrow> advertiser \<Rightarrow> advertiser" where
  "advert_step (Start_advert, v) a = start_advertiser v a"
| "advert_step (Refresh_advert, v) a = fst (refresh_interfaces v a)"
| "advert_step (Stop_advert, v) a = fst (stop_advertiser v a)"

definition advert_run :: "string list option \<Rightarrow> (advert_call \<times> advert_env) list \<Rightarrow> advertiser" where
  "advert_run given calls = fold advert_step calls (new_advertiser given)"

section \<open>What it leaves open\<close>

text \<open>The transports that are open are the ones the advertiser has.\<close>

definition held_transports :: "advertiser \<Rightarrow> nat list" where
  "held_transports a = (case av_networks a of None \<Rightarrow> [] | Some nets \<Rightarrow> nets)"

definition tidy_advertiser :: "advertiser \<Rightarrow> bool" where
  "tidy_advertiser a \<longleftrightarrow> av_open a = held_transports a \<and> length (held_transports a) \<le> 2 \<and> (\<forall>n\<in>set (av_open a). n < av_next a) \<and> (\<not> av_running a \<longrightarrow> av_networks a = None)"

definition bare_advertiser :: "bool \<Rightarrow> advertiser \<Rightarrow> bool" where
  "bare_advertiser running a \<longleftrightarrow> av_networks a = None \<and> av_open a = [] \<and> av_running a = running"

lemma bare_tidy: "bare_advertiser running a \<Longrightarrow> tidy_advertiser a"
  by (simp add: bare_advertiser_def tidy_advertiser_def held_transports_def)

lemma close_network_bare: "tidy_advertiser a \<Longrightarrow> close_network v a = (a1, r) \<Longrightarrow> bare_advertiser (av_running a) a1"
  by (auto simp: close_network_def close_all_def tidy_advertiser_def held_transports_def bare_advertiser_def Let_def split: option.splits)

lemma open_network_opens:
  assumes "bare_advertiser True a" "open_network v addresses a = (a1, r)"
  shows "av_networks a1 = None \<and> av_running a1 \<and> (case r of Inl e \<Rightarrow> av_open a1 = []
    | Inr nets \<Rightarrow> av_open a1 = nets \<and> length nets \<le> 2 \<and> (\<forall>n\<in>set nets. n < av_next a1))"
  using assms
  by (auto simp: open_network_def open_six_def new_network_def close_all_def bare_advertiser_def Let_def
      split: if_splits listener.splits prod.splits)

lemma refresh_tidy:
  assumes "tidy_advertiser a"
  shows "tidy_advertiser (fst (refresh_interfaces v a))"
proof (cases "av_running a")
  case True
  obtain a1 r1 where c: "close_network v a = (a1, r1)" by (cases "close_network v a") auto
  from close_network_bare [OF assms c] True have bare: "bare_advertiser True a1" by simp
  have opened: "tidy_advertiser (close_all nets a2) \<and> tidy_advertiser (a2\<lparr>av_networks := Some nets, av_addresses := as, av_observation := Some ob\<rparr>)"
    if "open_network v addresses a1 = (a2, Inr nets)" for addresses a2 nets as ob
    using open_network_opens [OF bare that] by (auto simp: tidy_advertiser_def held_transports_def close_all_def)
  have failed: "tidy_advertiser a2" if "open_network v addresses a1 = (a2, Inl e)" for addresses a2 e
    using open_network_opens [OF bare that] by (simp add: tidy_advertiser_def held_transports_def)
  show ?thesis
    using assms True bare_tidy [OF bare] opened failed
    by (auto simp: refresh_interfaces_def c Let_def split: sum.splits prod.splits option.splits)
qed (use assms in \<open>simp add: refresh_interfaces_def\<close>)

lemma advert_run_tidy: "tidy_advertiser (advert_run given calls)"
proof -
  have "tidy_advertiser (new_advertiser given)" by (simp add: tidy_advertiser_def held_transports_def new_advertiser_def)
  moreover have "tidy_advertiser (advert_step call a)" if "tidy_advertiser a" for call a
  proof (cases call)
    case (Pair c v)
    show ?thesis
    proof (cases c)
      case Start_advert
      have "tidy_advertiser (a\<lparr>av_running := True\<rparr>)" using that by (simp add: tidy_advertiser_def held_transports_def)
      from refresh_tidy [OF this] that show ?thesis by (simp add: Pair Start_advert start_advertiser_def)
    next
      case Refresh_advert
      with refresh_tidy [OF that] show ?thesis by (simp add: Pair)
    next
      case Stop_advert
      obtain a1 r where "close_network v (a\<lparr>av_running := False\<rparr>) = (a1, r)"
        by (cases "close_network v (a\<lparr>av_running := False\<rparr>)") auto
      with that show ?thesis
        by (auto simp: Pair Stop_advert stop_advertiser_def close_network_def close_all_def tidy_advertiser_def held_transports_def Let_def
            split: option.splits)
    qed
  qed
  ultimately show ?thesis
    unfolding advert_run_def by (induction calls rule: rev_induct) simp_all
qed


text \<open>Only addresses of product links are given.\<close>

lemma snapshot_usable:
  "t \<in> set (snapshot_addresses (interface_snapshot parse adapters)) \<Longrightarrow>
   \<exists>a\<in>set adapters. \<exists>(raw, prefix1)\<in>set (ap_ips a). \<exists>i. parse (takeWhile (\<lambda>c. c \<noteq> CHR ''%'') raw) = Some i
     \<and> usable_ip i \<and> t = ip_text i"
  by (force simp: snapshot_addresses_def interface_snapshot_def adapter_entries_def entry_address_def List.map_filter_def
      split: option.splits if_splits)

end
