(* ===== verification/Integration_Upgrade.thy ===== *)
theory Integration_Upgrade
  imports Contracts "HOL-Library.AList"
begin

text \<open>
  Opening the file of the integration store (\<open>IntegrationStore\<close> of \<open>hub/integration/store.py\<close>):
  the tables it creates, the upgrade from the first version, and what a start that was cut short leaves.

  \<open>executescript\<close> commits the transaction it finds open, so each statement from there on is its own.
\<close>

section \<open>The file\<close>

text \<open>The version \<open>PRAGMA user_version\<close> reads, 0 for a new file, and the columns of each table.\<close>

record store_file =
  sf_version :: int
  sf_tables :: "(string \<times> string list) list"

definition new_store :: store_file where
  "new_store = \<lparr>sf_version = 0, sf_tables = []\<rparr>"

definition store_schema_version :: int where
  "store_schema_version = 2"

definition receipt_columns :: "string list" where
  "receipt_columns = [''owner_id'', ''scope'', ''request_id'', ''fingerprint'', ''submitted_at_ms'',
     ''provider_started_at_ms'', ''provider_returned_at_ms'', ''confirmed_at_ms'', ''completed_at_ms'',
     ''result_json'', ''reconciled_at_ms'']"

definition store_schema :: "(string \<times> string list) list" where
  "store_schema =
     [(''provider_accounts'', [''account_id'', ''owner_id'', ''kind'', ''label'', ''status'', ''error'',
         ''choices_json'', ''created_at_ms'', ''last_seen_ms'']),
      (''credentials'', [''account_id'', ''key'', ''nonce'', ''ciphertext'', ''updated_at_ms'']),
      (''receipts'', receipt_columns),
      (''observations'', [''owner_id'', ''target'', ''reachable'', ''state_json'', ''observed_at_ms'', ''seq''])]"

section \<open>Statements\<close>

text \<open>A statement either fails and leaves the file, or is there as a whole.\<close>

datatype statement = Create_missing string "string list" | Add_column string string | Set_version int

fun run_statement :: "statement \<Rightarrow> store_file \<Rightarrow> exn + store_file" where
  "run_statement (Create_missing table cols) f =
     Inr (if map_of (sf_tables f) table = None then f\<lparr>sf_tables := sf_tables f @ [(table, cols)]\<rparr> else f)"
| "run_statement (Add_column table col) f =
     (case map_of (sf_tables f) table of
        None \<Rightarrow> Inl (Other_error ''no such table'')
      | Some cols \<Rightarrow>
          if col \<in> set cols then Inl (Other_error ''duplicate column name'')
          else Inr (f\<lparr>sf_tables := AList.update table (cols @ [col]) (sf_tables f)\<rparr>))"
| "run_statement (Set_version v) f = Inr (f\<lparr>sf_version := v\<rparr>)"

definition store_statements :: "store_file \<Rightarrow> exn + statement list" where
  "store_statements f =
     (if sf_version f \<notin> {0, 1, store_schema_version} then Inl (Other_error ''unsupported integration store schema version'')
      else Inr (map (\<lambda>(table, cols). Create_missing table cols) store_schema
             @ (if sf_version f = 1 then [Add_column ''receipts'' ''reconciled_at_ms''] else [])
             @ [Set_version store_schema_version]))"

fun run_statements :: "statement list \<Rightarrow> store_file \<Rightarrow> store_file \<times> (exn + unit)" where
  "run_statements [] f = (f, Inr ())"
| "run_statements (s # ss) f = (case run_statement s f of Inl e \<Rightarrow> (f, Inl e) | Inr f1 \<Rightarrow> run_statements ss f1)"

text \<open>\<open>initialize\<close>, and what it leaves when the process dies after some statements.\<close>

definition initialize_store :: "store_file \<Rightarrow> store_file \<times> (exn + unit)" where
  "initialize_store f = (case store_statements f of Inl e \<Rightarrow> (f, Inl e) | Inr ss \<Rightarrow> run_statements ss f)"

definition cut_store :: "nat \<Rightarrow> store_file \<Rightarrow> store_file" where
  "cut_store n f = (case store_statements f of Inl e \<Rightarrow> f | Inr ss \<Rightarrow> fst (run_statements (take n ss) f))"

section \<open>Starts that are cut short\<close>

text \<open>A file of the first release: its tables, and receipts that do not know when they were settled.\<close>

definition first_release_store :: "store_file \<Rightarrow> bool" where
  "first_release_store f \<longleftrightarrow> sf_version f = 1
     \<and> (\<forall>t\<in>fst ` set store_schema. map_of (sf_tables f) t \<noteq> None)
     \<and> (\<forall>cols. map_of (sf_tables f) ''receipts'' = Some cols \<longrightarrow> ''reconciled_at_ms'' \<notin> set cols)"

text \<open>The column is there and the version is still the first.\<close>

definition half_upgraded :: "store_file \<Rightarrow> bool" where
  "half_upgraded f \<longleftrightarrow> sf_version f = 1
     \<and> (\<forall>t\<in>fst ` set store_schema. map_of (sf_tables f) t \<noteq> None)
     \<and> (\<exists>cols. map_of (sf_tables f) ''receipts'' = Some cols \<and> ''reconciled_at_ms'' \<in> set cols)"

lemma create_present: "map_of (sf_tables f) t \<noteq> None \<Longrightarrow> run_statement (Create_missing t cols) f = Inr f"
  by simp

lemma run_statements_append:
  "run_statements (ss @ ts) f = (case run_statements ss f of (f1, Inl e) \<Rightarrow> (f1, Inl e) | (f1, Inr _) \<Rightarrow> run_statements ts f1)"
  by (induction ss arbitrary: f) (auto split: sum.splits)

lemma run_creates_present:
  "\<forall>(t, cols)\<in>set ss. map_of (sf_tables f) t \<noteq> None \<Longrightarrow>
   run_statements (map (\<lambda>(t, cols). Create_missing t cols) ss) f = (f, Inr ())"
  by (induction ss) auto

lemma run_creates_take:
  "\<forall>(t, cols)\<in>set ss. map_of (sf_tables f) t \<noteq> None \<Longrightarrow>
   run_statements (take n (map (\<lambda>(t, cols). Create_missing t cols) ss)) f = (f, Inr ())"
  unfolding take_map by (rule run_creates_present) (auto dest: in_set_takeD)

lemma schema_tables: "\<forall>t\<in>fst ` set store_schema. map_of (sf_tables f) t \<noteq> None \<Longrightarrow>
   \<forall>(t, cols)\<in>set store_schema. map_of (sf_tables f) t \<noteq> None"
  by force

lemma half_upgraded_refused:
  assumes "half_upgraded f"
  shows "initialize_store f = (f, Inl (Other_error ''duplicate column name''))" "cut_store n f = f"
proof -
  obtain cols where f: "sf_version f = 1" "map_of (sf_tables f) ''receipts'' = Some cols" "''reconciled_at_ms'' \<in> set cols"
    using assms by (auto simp: half_upgraded_def)
  have creates: "\<forall>(t, cols)\<in>set store_schema. map_of (sf_tables f) t \<noteq> None"
    using assms by (intro schema_tables) (simp add: half_upgraded_def)
  have full: "run_statements (map (\<lambda>(t, cols). Create_missing t cols) store_schema) f = (f, Inr ())"
    by (rule run_creates_present [OF creates])
  show "initialize_store f = (f, Inl (Other_error ''duplicate column name''))"
    using f by (simp add: initialize_store_def store_statements_def run_statements_append full)
  show "cut_store n f = f"
    using f by (cases "n - length store_schema")
      (simp_all add: cut_store_def store_statements_def run_statements_append run_creates_take [OF creates] full)
qed

lemma cut_before_version:
  assumes "first_release_store f"
  shows "half_upgraded (cut_store (length store_schema + 1) f)"
proof -
  obtain cols where f: "sf_version f = 1" "map_of (sf_tables f) ''receipts'' = Some cols" "''reconciled_at_ms'' \<notin> set cols"
    using assms by (force simp: first_release_store_def store_schema_def)
  have creates: "\<forall>(t, cols)\<in>set store_schema. map_of (sf_tables f) t \<noteq> None"
    using assms by (intro schema_tables) (simp add: first_release_store_def)
  have "cut_store (length store_schema + 1) f
      = f\<lparr>sf_tables := AList.update ''receipts'' (cols @ [''reconciled_at_ms'']) (sf_tables f)\<rparr>"
    using f by (simp add: cut_store_def store_statements_def run_statements_append run_creates_present [OF creates])
  with assms f show ?thesis by (auto simp: half_upgraded_def first_release_store_def update_conv')
qed

text \<open>A later start: it runs to its end, or is cut short itself.\<close>

definition later_starts :: "nat option list \<Rightarrow> store_file \<Rightarrow> store_file" where
  "later_starts cuts f = fold (\<lambda>c f. case c of None \<Rightarrow> fst (initialize_store f) | Some n \<Rightarrow> cut_store n f) cuts f"

lemma later_starts_half: "half_upgraded f \<Longrightarrow> later_starts cuts f = f"
  by (induction cuts) (auto simp: later_starts_def half_upgraded_refused split: option.splits)

lemma upgrade_done:
  assumes "first_release_store f"
  shows "snd (initialize_store f) = Inr ()" "sf_version (fst (initialize_store f)) = 2"
proof -
  obtain cols where f: "sf_version f = 1" "map_of (sf_tables f) ''receipts'' = Some cols" "''reconciled_at_ms'' \<notin> set cols"
    using assms by (force simp: first_release_store_def store_schema_def)
  have creates: "\<forall>(t, cols)\<in>set store_schema. map_of (sf_tables f) t \<noteq> None"
    using assms by (intro schema_tables) (simp add: first_release_store_def)
  show "snd (initialize_store f) = Inr ()" "sf_version (fst (initialize_store f)) = 2"
    using f by (simp_all add: initialize_store_def store_statements_def run_statements_append
        run_creates_present [OF creates] store_schema_version_def)
qed

text \<open>
  C40: the upgrade of the first release's integration store, which succeeds when it runs to its end, is not atomic.
  A process that dies between adding the column and setting the version leaves a file that every later start
  refuses, and no start, whether it ends or dies itself, changes it.
\<close>

theorem interrupted_upgrade_refused:
  assumes "first_release_store f" "f1 = cut_store (length store_schema + 1) f"
  shows "snd (initialize_store f) = Inr () \<and> later_starts cuts f1 = f1
    \<and> snd (initialize_store (later_starts cuts f1)) = Inl (Other_error ''duplicate column name'')"
  using upgrade_done(1) [OF assms(1)] cut_before_version [OF assms(1), folded assms(2)]
  by (simp add: later_starts_half half_upgraded_refused)

definition small_store :: store_file where
  "small_store = \<lparr>sf_version = 1, sf_tables = map (\<lambda>(t, cols). (t, filter (\<lambda>c. c \<noteq> ''reconciled_at_ms'') cols)) store_schema\<rparr>"

lemma interrupted_upgrade_refused_witness:
  "snd (initialize_store (later_starts [None, Some 3] (cut_store (length store_schema + 1) small_store)))
   = Inl (Other_error ''duplicate column name'')"
proof -
  have "first_release_store small_store"
    by (simp add: first_release_store_def small_store_def store_schema_def receipt_columns_def)
  from interrupted_upgrade_refused [OF this refl, of "[None, Some 3]"] show ?thesis by blast
qed

text \<open>A new file is completed by the next start, wherever the one before it was cut.\<close>

lemma cut_installation_recovers: "snd (initialize_store (cut_store n new_store)) = Inr ()"
proof -
  have "n < 5 \<or> take n (map (\<lambda>(t, cols). Create_missing t cols) store_schema @ [Set_version 2])
      = map (\<lambda>(t, cols). Create_missing t cols) store_schema @ [Set_version 2]"
    by (auto simp: store_schema_def)
  then consider "n = 0" | "n = 1" | "n = 2" | "n = 3" | "n = 4" | "take n (map (\<lambda>(t, cols). Create_missing t cols) store_schema @ [Set_version 2])
      = map (\<lambda>(t, cols). Create_missing t cols) store_schema @ [Set_version 2]" by linarith
  then show ?thesis
    by cases (simp_all add: initialize_store_def cut_store_def store_statements_def new_store_def store_schema_version_def
        store_schema_def)
qed

end
