(* ===== verification/Hub_Startup.thy ===== *)
theory Hub_Startup
  imports Home_Http
begin

text \<open>
  How a Hub process comes up and goes down (\<open>hub/composition/app.py\<close>, \<open>composition/resources.py\<close>,
  \<open>composition/smarthome.py\<close>, \<open>composition/device_onboarding.py\<close>, \<open>config.py\<close>, \<open>adapters/runtime.py\<close>):
  the checks of the configuration and the environment, the order in which things are opened, the exit
  stack, and the lock that keeps two processes from one database.

  Each step of the start and each callback of the exit stack is one event, and events of several
  processes interleave.  What a step meets outside the process is part of the event.

  Shown below: one process per database, whatever happens to the processes of a machine; a process that
  is down has left nothing open; and the name that is published is one label a resolver takes.
\<close>

section \<open>Configuration\<close>

record parsed_uri =
  pu_scheme :: string
  pu_netloc :: string
  pu_user_info :: bool
  pu_hostname :: string
  pu_path :: string
  pu_query :: string
  pu_fragment :: string

record hub_config =
  hc_database_path :: string
  hc_owner_domain_id :: string
  hc_generation :: int
  hc_trust_epoch :: int
  hc_descriptor_uri :: string
  hc_descriptor_path :: string
  hc_root_path :: string
  hc_signing_path :: string
  hc_mdns :: bool
  hc_erase_ttl :: int
  hc_proofs :: bool
  hc_workspace_url :: "string option"
  hc_state_path :: "string option"
  hc_providers :: "string list"

text \<open>What the process is given: its environment, and the parts of the host it reads.\<close>

record hub_host =
  ho_environ :: "string \<Rightarrow> string option"
  ho_parse :: "string \<Rightarrow> parsed_uri"
  ho_url :: "string \<Rightarrow> parsed_uri"
  ho_expanduser :: "string \<Rightarrow> string"
  ho_parent :: "string \<Rightarrow> string"
  ho_is_file :: "string \<Rightarrow> bool"
  ho_exists :: "string \<Rightarrow> bool"
  ho_root :: string
  ho_base64 :: "string \<Rightarrow> byte list option"
  ho_descriptor :: "string \<Rightarrow> exn + string \<times> int"
  ho_locator :: "exn option"

definition env_text :: "hub_host \<Rightarrow> string \<Rightarrow> string" where
  "env_text h name = (case ho_environ h name of None \<Rightarrow> [] | Some v \<Rightarrow> v)"

definition absolute_path :: "string \<Rightarrow> bool" where
  "absolute_path s = (take 1 s = ''/'')"

definition onboarding_contract :: "hub_host \<Rightarrow> hub_config \<Rightarrow> exn + unit" where
  "onboarding_contract h c =
     (let u = ho_parse h (hc_descriptor_uri c);
          absolute = (\<lambda>p name. require (absolute_path p) (Value_error (''onboarding.'' @ name @ '' must be absolute'')))
      in andthen (require (pu_scheme u = ''https'' \<and> pu_netloc u \<noteq> [] \<and> \<not> pu_user_info u \<and> pu_query u = []
             \<and> pu_fragment u = [] \<and> pu_path u = ''/api/device-onboarding/v1/descriptor'')
           (Value_error ''onboarding.descriptor_uri must be the plain HTTPS descriptor URI'')) (\<lambda>_.
         andthen (absolute (hc_descriptor_path c) ''descriptor_path'') (\<lambda>_.
         andthen (absolute (hc_root_path c) ''owner_root_certificate_path'') (\<lambda>_.
         absolute (hc_signing_path c) ''authority_signing_certificate_path''))))"

text \<open>One scalar in the settings file, a list in code.\<close>

definition split_providers :: "string + string list \<Rightarrow> string list" where
  "split_providers given =
     (case given of
        Inl s \<Rightarrow> filter (\<lambda>p. p \<noteq> []) (map strip (split_on CHR '','' s))
      | Inr ps \<Rightarrow> ps)"

text \<open>\<open>resolve_database_path\<close>; \<open>resolve\<close> is the file system's.\<close>

definition resolve_database_path :: "(string \<Rightarrow> string) \<Rightarrow> hub_host \<Rightarrow> hub_config \<Rightarrow> string" where
  "resolve_database_path resolve h c =
     (let p = ho_expanduser h (hc_database_path c)
      in resolve (if absolute_path p then p else ho_root h @ ''/'' @ p))"

definition lock_path :: "(string \<Rightarrow> string) \<Rightarrow> hub_host \<Rightarrow> hub_config \<Rightarrow> string" where
  "lock_path resolve h c = resolve (resolve_database_path resolve h c @ ''.lock'')"

section \<open>What each step checks\<close>

definition required_text :: "hub_host \<Rightarrow> string \<Rightarrow> exn + string" where
  "required_text h name =
     andthen (require (32 \<le> length (encode (env_text h name))) (Other_error (name @ '' must contain at least 32 bytes'')))
       (\<lambda>_. Inr (env_text h name))"

definition load_runtime_secrets :: "hub_host \<Rightarrow> exn + string \<times> string" where
  "load_runtime_secrets h =
     andthen (required_text h ''EIDOLON_HUB_MANAGEMENT_JWT_SECRET'') (\<lambda>jwt.
     andthen (required_text h ''EIDOLON_HUB_DEVICE_REGISTRY_READER_TOKEN'') (\<lambda>token. Inr (jwt, token)))"

definition load_owner_directory :: "hub_host \<Rightarrow> hub_config \<Rightarrow> exn + unit" where
  "load_owner_directory h c =
     (let there = (\<lambda>p label. require (ho_is_file h p) (Other_error (label @ '' is missing: '' @ p)))
      in andthen (there (hc_descriptor_path c) ''Owner Domain descriptor'') (\<lambda>_.
         andthen (there (hc_root_path c) ''Owner root certificate'') (\<lambda>_.
         andthen (there (hc_signing_path c) ''authority signing certificate'') (\<lambda>_.
         andthen (ho_descriptor h (hc_descriptor_path c)) (\<lambda>(owner, generation).
         andthen (require (owner = hc_owner_domain_id c)
           (Other_error ''signed descriptor Owner Domain does not match Hub configuration'')) (\<lambda>_.
         andthen (require (generation = hc_generation c)
           (Other_error ''signed descriptor Owner Domain generation does not match Hub configuration'')) (\<lambda>_.
         case ho_locator h of None \<Rightarrow> Inr () | Some e \<Rightarrow> Inl e)))))))"

definition discovery_owner :: "hub_host \<Rightarrow> exn + string" where
  "discovery_owner h =
     (let owner = (case ho_environ h ''EIDOLON_HUB_DISCOVERY_OWNER'' of None \<Rightarrow> ''embedded'' | Some v \<Rightarrow> v)
      in andthen (require (owner \<in> {''embedded'', ''standalone''})
           (Value_error ''EIDOLON_HUB_DISCOVERY_OWNER must be embedded or standalone'')) (\<lambda>_. Inr owner))"

text \<open>\<open>ChannelProviderHttpClient.__init__\<close>.\<close>

definition check_channel_provider :: "hub_host \<Rightarrow> exn + unit" where
  "check_channel_provider h =
     (let url = ho_url h (case ho_environ h ''EIDOLON_HUB_CHANNEL_PROVIDER_URL'' of
                            None \<Rightarrow> ''http://127.0.0.1:8767/v1'' | Some v \<Rightarrow> v)
      in andthen (require (32 \<le> length (encode (env_text h ''EIDOLON_HUB_CHANNEL_PROVIDER_TOKEN'')))
           (Value_error ''Channel Provider token must contain at least 32 bytes'')) (\<lambda>_.
         require (pu_scheme url \<in> {''http'', ''https''} \<and> pu_query url = [] \<and> pu_fragment url = [])
           (Value_error ''Channel Provider contract URL must be plain HTTP(S)'')))"

definition check_home :: "hub_host \<Rightarrow> hub_config \<Rightarrow> exn + unit" where
  "check_home h c =
     (let long = (\<lambda>k. require (32 \<le> length (env_text h k)) (Other_error (k @ '' must contain at least 32 characters'')));
          state_dir = ho_parent h (ho_expanduser h (hc_database_path c));
          legacy = ho_parent h state_dir @ ''/channel/smarthome.sqlite3'';
          virtual_path = state_dir @ ''/smarthome.sqlite3''
      in andthen (long ''EIDOLON_HUB_SMARTHOME_TOKEN'') (\<lambda>_.
         andthen (long ''EIDOLON_DATA_WORKSPACE_AUTHORITY_TOKEN'') (\<lambda>_.
         require (\<not> (hc_state_path c = None \<and> ho_exists h legacy \<and> \<not> ho_exists h virtual_path))
           (Other_error ''existing smart-home state requires offline migration from Channel to Hub''))))"

definition account_kinds :: "string list" where
  "account_kinds = [''zhoubian'', ''homeassistant'']"

definition load_vault_key :: "hub_host \<Rightarrow> exn + byte list" where
  "load_vault_key h =
     (let raw = env_text h ''EIDOLON_HUB_VAULT_KEY''
      in andthen (require (raw \<noteq> []) (Other_error ''EIDOLON_HUB_VAULT_KEY is not set'')) (\<lambda>_.
         andthen (present (ho_base64 h raw) (Other_error ''EIDOLON_HUB_VAULT_KEY is not base64'')) (\<lambda>key.
         andthen (require (length key = 32) (Other_error ''EIDOLON_HUB_VAULT_KEY must decode to 32 bytes'')) (\<lambda>_. Inr key))))"

text \<open>\<open>ProviderRegistry.build\<close>: an unknown kind is refused, a kind named twice is built once.\<close>

definition build_providers :: "string list \<Rightarrow> string list \<Rightarrow> exn + string list" where
  "build_providers known wanted =
     andthen (require (set wanted \<subseteq> set known) (Value_error ''unknown smart-home provider kind(s)''))
       (\<lambda>_. Inr (rev (remdups (rev wanted))))"

definition known_kinds :: "string list" where
  "known_kinds = [''virtual'', ''zhoubian'', ''homeassistant'']"

section \<open>The start\<close>

datatype start_step =
  Read_secrets | Take_lock | Open_database | Initialize_schema | Enter_http_client | Enter_ws_session
| Load_verifier | Project_directory | Load_onboarding | Build_management | Build_channel_provider
| Start_revocations | Start_erases | Start_mdns | Check_home | Open_home_store | Open_vault | Build_home | Start_accounts

text \<open>\<open>lifespan\<close> up to \<open>yield\<close>, with \<open>open_runtime_resources\<close> and \<open>build_smarthome\<close> in their places.\<close>

definition startup_steps :: "start_step list" where
  "startup_steps =
     [Read_secrets, Take_lock, Open_database, Initialize_schema, Enter_http_client, Enter_ws_session,
      Load_verifier, Project_directory, Load_onboarding, Build_management, Build_channel_provider,
      Start_revocations, Start_erases, Start_mdns, Check_home, Open_home_store, Open_vault, Build_home, Start_accounts]"

datatype hub_resource =
  Process_lock | Database_engine | Http_client | Ws_session | Revocation_worker | Erase_worker
| Mdns_publisher | Account_observers

definition home_wanted :: "hub_config \<Rightarrow> bool" where
  "home_wanted c = (hc_workspace_url c \<noteq> None)"

definition accounts_wanted :: "hub_config \<Rightarrow> bool" where
  "accounts_wanted c = (home_wanted c \<and> set account_kinds \<inter> set (hc_providers c) \<noteq> {})"

definition refusal_of :: "exn + 'a \<Rightarrow> exn option" where
  "refusal_of r = (case r of Inl e \<Rightarrow> Some e | Inr _ \<Rightarrow> None)"

fun step_refusal :: "hub_host \<Rightarrow> hub_config \<Rightarrow> start_step \<Rightarrow> exn option" where
  "step_refusal h c Read_secrets = refusal_of (load_runtime_secrets h)"
| "step_refusal h c Load_onboarding =
     refusal_of (andthen (load_owner_directory h c) (\<lambda>_. andthen (discovery_owner h) (\<lambda>_. Inr ())))"
| "step_refusal h c Build_management = refusal_of (reader_new (env_text h ''EIDOLON_HUB_DEVICE_REGISTRY_READER_TOKEN''))"
| "step_refusal h c Build_channel_provider = refusal_of (check_channel_provider h)"
| "step_refusal h c Check_home = (if home_wanted c then refusal_of (check_home h c) else None)"
| "step_refusal h c Open_vault = (if accounts_wanted c then refusal_of (load_vault_key h) else None)"
| "step_refusal h c Build_home = (if home_wanted c then refusal_of (build_providers known_kinds (hc_providers c)) else None)"
| "step_refusal h c step = None"

text \<open>What a step leaves open, and pushes onto the exit stack before the next begins.\<close>

fun step_opens :: "hub_host \<Rightarrow> hub_config \<Rightarrow> start_step \<Rightarrow> hub_resource option" where
  "step_opens h c Take_lock = Some Process_lock"
| "step_opens h c Open_database = Some Database_engine"
| "step_opens h c Enter_http_client = Some Http_client"
| "step_opens h c Enter_ws_session = Some Ws_session"
| "step_opens h c Start_revocations = Some Revocation_worker"
| "step_opens h c Start_erases = Some Erase_worker"
| "step_opens h c Start_mdns = (if discovery_owner h \<noteq> Inr ''standalone'' \<and> hc_mdns c then Some Mdns_publisher else None)"
| "step_opens h c Start_accounts = (if accounts_wanted c then Some Account_observers else None)"
| "step_opens h c step = None"

section \<open>Processes\<close>

text \<open>The exception that ended the start is raised when the stack is unwound; a callback may raise another.\<close>

datatype hub_phase = Down | Starting "start_step list" | Up | Closing "exn option"

record hub_process =
  hp_host :: hub_host
  hp_config :: hub_config
  hp_phase :: hub_phase
  hp_live :: "hub_resource list"
  hp_stack :: "hub_resource list"

text \<open>The locks of the machine, by path, and its processes.\<close>

record hub_machine =
  hm_locks :: "string \<Rightarrow> nat option"
  hm_process :: "nat \<Rightarrow> hub_process"

definition set_process :: "nat \<Rightarrow> hub_process \<Rightarrow> hub_machine \<Rightarrow> hub_machine" where
  "set_process p pr m = m\<lparr>hm_process := (hm_process m)(p := pr)\<rparr>"

text \<open>\<open>LocalProcessLock\<close>: \<open>flock\<close> without waiting, and its release.\<close>

definition acquire_lock :: "string \<Rightarrow> nat \<Rightarrow> hub_machine \<Rightarrow> exn + hub_machine" where
  "acquire_lock path p m =
     (case hm_locks m path of
        Some q \<Rightarrow> Inl (Other_error ''another Eidolon Hub process owns the local database'')
      | None \<Rightarrow> Inr (m\<lparr>hm_locks := (hm_locks m)(path := Some p)\<rparr>))"

definition release_lock :: "string \<Rightarrow> hub_machine \<Rightarrow> hub_machine" where
  "release_lock path m = m\<lparr>hm_locks := (hm_locks m)(path := None)\<rparr>"

definition start_outcome ::
  "(string \<Rightarrow> string) \<Rightarrow> nat \<Rightarrow> start_step \<Rightarrow> exn option \<Rightarrow> hub_machine \<Rightarrow> exn + hub_machine" where
  "start_outcome resolve p step met m =
     (let pr = hm_process m p in
      case step_refusal (hp_host pr) (hp_config pr) step of
        Some e \<Rightarrow> Inl e
      | None \<Rightarrow>
          (case met of
             Some e \<Rightarrow> Inl e
           | None \<Rightarrow> if step = Take_lock then acquire_lock (lock_path resolve (hp_host pr) (hp_config pr)) p m else Inr m))"

definition advance_start ::
  "(string \<Rightarrow> string) \<Rightarrow> nat \<Rightarrow> start_step \<Rightarrow> start_step list \<Rightarrow> exn option \<Rightarrow> hub_machine \<Rightarrow> hub_machine" where
  "advance_start resolve p step rest met m =
     (let pr = hm_process m p in
      case start_outcome resolve p step met m of
        Inl e \<Rightarrow> set_process p (pr\<lparr>hp_phase := Closing (Some e)\<rparr>) m
      | Inr m1 \<Rightarrow>
          let opened = (case step_opens (hp_host pr) (hp_config pr) step of None \<Rightarrow> [] | Some r \<Rightarrow> [r])
          in set_process p (pr\<lparr>hp_phase := if rest = [] then Up else Starting rest,
                 hp_live := opened @ hp_live pr, hp_stack := opened @ hp_stack pr\<rparr>) m1)"

definition advance_close :: "(string \<Rightarrow> string) \<Rightarrow> nat \<Rightarrow> exn option \<Rightarrow> exn option \<Rightarrow> hub_machine \<Rightarrow> hub_machine" where
  "advance_close resolve p raised met m =
     (let pr = hm_process m p in
      case hp_stack pr of
        [] \<Rightarrow> set_process p (pr\<lparr>hp_phase := Down\<rparr>) m
      | r # rest \<Rightarrow>
          set_process p (pr\<lparr>hp_phase := Closing (if met = None then raised else met), hp_live := remove1 r (hp_live pr), hp_stack := rest\<rparr>)
            (if r = Process_lock then release_lock (lock_path resolve (hp_host pr) (hp_config pr)) m else m))"

datatype process_event = Launch nat hub_host hub_config | Advance nat "exn option" | Halt nat | Kill nat

text \<open>A process that is killed leaves its locks to the operating system, which releases them.\<close>

fun process_step :: "(string \<Rightarrow> string) \<Rightarrow> process_event \<Rightarrow> hub_machine \<Rightarrow> hub_machine" where
  "process_step resolve (Launch p h c) m =
     (if hp_phase (hm_process m p) = Down
      then set_process p \<lparr>hp_host = h, hp_config = c, hp_phase = Starting startup_steps, hp_live = [], hp_stack = []\<rparr> m else m)"
| "process_step resolve (Advance p met) m =
     (case hp_phase (hm_process m p) of
        Starting (step # rest) \<Rightarrow> advance_start resolve p step rest met m
      | Closing raised \<Rightarrow> advance_close resolve p raised met m
      | _ \<Rightarrow> m)"
| "process_step resolve (Halt p) m =
     (if hp_phase (hm_process m p) = Up then set_process p ((hm_process m p)\<lparr>hp_phase := Closing None\<rparr>) m else m)"
| "process_step resolve (Kill p) m =
     set_process p ((hm_process m p)\<lparr>hp_phase := Down, hp_live := [], hp_stack := []\<rparr>)
       (m\<lparr>hm_locks := (\<lambda>f. if hm_locks m f = Some p then None else hm_locks m f)\<rparr>)"

definition machine_run :: "(string \<Rightarrow> string) \<Rightarrow> hub_host \<Rightarrow> hub_config \<Rightarrow> process_event list \<Rightarrow> hub_machine" where
  "machine_run resolve h c events = fold (process_step resolve) events
     \<lparr>hm_locks = (\<lambda>_. None),
      hm_process = (\<lambda>_. \<lparr>hp_host = h, hp_config = c, hp_phase = Down, hp_live = [], hp_stack = []\<rparr>)\<rparr>"

text \<open>\<open>require_runtime\<close> and the \<open>ready\<close> route.\<close>

definition ready_route :: "hub_process \<Rightarrow> string home_answer" where
  "ready_route pr =
     (if hp_phase pr \<noteq> Up then Home_crashed (Other_error ''Hub application runtime is not started'')
      else if hc_proofs (hp_config pr) then Home_ok ''ready''
      else Home_error_status 503 (Detail_text ''commissioning-proof-verifier-unavailable''))"

section \<open>The published name\<close>

definition label_char :: "char \<Rightarrow> bool" where
  "label_char c \<longleftrightarrow> c \<in> set ''abcdefghijklmnopqrstuvwxyz0123456789-''"

text \<open>\<open>re.sub("[^a-z0-9-]+", "-", s)\<close>.\<close>

function dashed :: "string \<Rightarrow> string" where
  "dashed [] = []"
| "dashed (c # s) = (if label_char c then c # dashed s else CHR ''-'' # dashed (dropWhile (\<lambda>d. \<not> label_char d) s))"
  by pat_completeness auto
termination by (relation "measure length") (auto simp: less_Suc_eq_le length_dropWhile_le)

definition rstrip_dash :: "string \<Rightarrow> string" where
  "rstrip_dash s = rev (dropWhile (\<lambda>c. c = CHR ''-'') (rev s))"

definition mdns_target_hostname :: "(string \<Rightarrow> string) \<Rightarrow> string \<Rightarrow> string \<Rightarrow> string" where
  "mdns_target_hostname lower owner public_hostname =
     (if drop (length public_hostname - 6) public_hostname = ''.local''
      then take (length public_hostname - 6) public_hostname
      else let label = rstrip_dash (dropWhile (\<lambda>c. c = CHR ''-'') (dashed (lower owner)))
           in rstrip_dash (take 63 (if label = [] then ''eidolon-owner'' else label)))"

section \<open>The lock and the exit stack\<close>

definition process_lock_path :: "(string \<Rightarrow> string) \<Rightarrow> hub_process \<Rightarrow> string" where
  "process_lock_path resolve pr = lock_path resolve (hp_host pr) (hp_config pr)"

text \<open>The lock is at the bottom of the stack and is the process's own; what is open is what the stack closes.\<close>

definition stack_ok :: "hub_process \<Rightarrow> bool" where
  "stack_ok pr \<longleftrightarrow> hp_live pr = hp_stack pr
     \<and> (hp_stack pr = [] \<or> (\<exists>ws. hp_stack pr = ws @ [Process_lock] \<and> Process_lock \<notin> set ws))"

definition phase_ok :: "hub_process \<Rightarrow> bool" where
  "phase_ok pr \<longleftrightarrow> (case hp_phase pr of
       Down \<Rightarrow> hp_stack pr = []
     | Starting steps \<Rightarrow> (\<exists>before. before @ steps = startup_steps) \<and> (Take_lock \<in> set steps \<longleftrightarrow> hp_stack pr = [])
     | _ \<Rightarrow> True)"

definition locks_ok :: "(string \<Rightarrow> string) \<Rightarrow> (string \<Rightarrow> nat option) \<Rightarrow> nat \<Rightarrow> hub_process \<Rightarrow> bool" where
  "locks_ok resolve locks p pr \<longleftrightarrow>
     (\<forall>f. locks f = Some p \<longleftrightarrow> hp_stack pr \<noteq> [] \<and> f = process_lock_path resolve pr)"

definition machine_ok :: "(string \<Rightarrow> string) \<Rightarrow> hub_machine \<Rightarrow> bool" where
  "machine_ok resolve m \<longleftrightarrow> (\<forall>p. stack_ok (hm_process m p) \<and> phase_ok (hm_process m p)
     \<and> locks_ok resolve (hm_locks m) p (hm_process m p))"

lemma machine_okD:
  "machine_ok resolve m \<Longrightarrow> stack_ok (hm_process m p)"
  "machine_ok resolve m \<Longrightarrow> phase_ok (hm_process m p)"
  "machine_ok resolve m \<Longrightarrow> locks_ok resolve (hm_locks m) p (hm_process m p)"
  by (simp_all add: machine_ok_def)

lemma set_process_ok:
  assumes "machine_ok resolve m" "stack_ok pr" "phase_ok pr" "locks_ok resolve locks p pr"
    and "\<And>f q. q \<noteq> p \<Longrightarrow> locks f = Some q \<longleftrightarrow> hm_locks m f = Some q"
  shows "machine_ok resolve (set_process p pr (m\<lparr>hm_locks := locks\<rparr>))"
  using assms by (auto simp: machine_ok_def set_process_def locks_ok_def)

lemma set_process_same_locks:
  assumes "machine_ok resolve m" "stack_ok pr" "phase_ok pr" "locks_ok resolve (hm_locks m) p pr"
  shows "machine_ok resolve (set_process p pr m)"
  using set_process_ok [OF assms] by simp

lemma locks_ok_same:
  "hp_host pr1 = hp_host pr \<Longrightarrow> hp_config pr1 = hp_config pr \<Longrightarrow> (hp_stack pr1 = [] \<longleftrightarrow> hp_stack pr = []) \<Longrightarrow>
   locks_ok resolve locks p pr1 \<longleftrightarrow> locks_ok resolve locks p pr"
  by (simp add: locks_ok_def process_lock_path_def)

lemma rephase_ok:
  assumes "machine_ok resolve m" "phase_ok ((hm_process m p)\<lparr>hp_phase := ph\<rparr>)"
  shows "machine_ok resolve (set_process p ((hm_process m p)\<lparr>hp_phase := ph\<rparr>) m)"
proof (rule set_process_same_locks [OF assms(1) _ assms(2)])
  let ?pr = "(hm_process m p)\<lparr>hp_phase := ph\<rparr>"
  show "stack_ok ?pr" using machine_okD(1) [OF assms(1), of p] by (simp add: stack_ok_def)
  have "locks_ok resolve (hm_locks m) p ?pr \<longleftrightarrow> locks_ok resolve (hm_locks m) p (hm_process m p)"
    by (rule locks_ok_same) simp_all
  with machine_okD(3) [OF assms(1), of p] show "locks_ok resolve (hm_locks m) p ?pr" by simp
qed

lemma locks_ok_free: "hp_stack pr = [] \<Longrightarrow> locks_ok resolve locks p pr \<longleftrightarrow> (\<forall>f. locks f \<noteq> Some p)"
  by (simp add: locks_ok_def)

section \<open>Steps\<close>

lemma startup_order:
  "before @ step # rest = startup_steps \<Longrightarrow>
   (Take_lock \<in> set rest \<longrightarrow> step = Read_secrets) \<and> (step = Take_lock \<longrightarrow> Take_lock \<notin> set rest)"
  by (auto simp: startup_steps_def append_eq_Cons_conv Cons_eq_append_conv)

lemma opens_lock: "step_opens h c step = Some Process_lock \<longleftrightarrow> step = Take_lock"
  by (cases step) auto

lemma started_ok:
  assumes "machine_ok resolve m" "hp_phase (hm_process m p) = Starting (step # rest)"
  shows "machine_ok resolve (advance_start resolve p step rest met m)"
proof -
  let ?pr = "hm_process m p"
  note ok = machine_okD [OF assms(1), of p]
  obtain before where before: "before @ step # rest = startup_steps"
    and held: "Take_lock \<in> set (step # rest) \<longleftrightarrow> hp_stack ?pr = []"
    using ok(2) assms(2) by (auto simp: phase_ok_def)
  note order = startup_order [OF before]
  have rest: "\<exists>before. before @ rest = startup_steps" using before by (intro exI [of _ "before @ [step]"]) simp
  have failed: "machine_ok resolve (set_process p (?pr\<lparr>hp_phase := Closing (Some e)\<rparr>) m)" for e
    by (rule rephase_ok [OF assms(1)]) (simp add: phase_ok_def)
  show ?thesis
  proof (cases "start_outcome resolve p step met m")
    case (Inl e)
    with failed show ?thesis by (simp add: advance_start_def Let_def)
  next
    case (Inr m1)
    define opened where "opened = (case step_opens (hp_host ?pr) (hp_config ?pr) step of None \<Rightarrow> [] | Some r \<Rightarrow> [r])"
    define pr1 where "pr1 = ?pr\<lparr>hp_phase := if rest = [] then Up else Starting rest,
      hp_live := opened @ hp_live ?pr, hp_stack := opened @ hp_stack ?pr\<rparr>"
    have result: "advance_start resolve p step rest met m = set_process p pr1 m1"
      using Inr by (simp add: advance_start_def Let_def opened_def pr1_def)
    have path: "process_lock_path resolve pr1 = process_lock_path resolve ?pr"
      by (simp add: process_lock_path_def pr1_def)
    show ?thesis
    proof (cases "step = Take_lock")
      case True
      with Inr have free: "hm_locks m (process_lock_path resolve ?pr) = None"
        and m1: "m1 = m\<lparr>hm_locks := (hm_locks m)(process_lock_path resolve ?pr := Some p)\<rparr>"
        by (auto simp: start_outcome_def acquire_lock_def Let_def process_lock_path_def split: option.splits)
      have "opened = [Process_lock]" "hp_stack ?pr = []" using True held by (simp_all add: opened_def)
      note held1 = this
      show ?thesis unfolding result m1
      proof (rule set_process_ok [OF assms(1)])
        show "stack_ok pr1" using ok(1) held1 by (auto simp: stack_ok_def pr1_def)
        show "phase_ok pr1" using held1 order True rest by (auto simp: phase_ok_def pr1_def)
        show "locks_ok resolve ((hm_locks m)(process_lock_path resolve ?pr := Some p)) p pr1"
          using ok(3) held1 by (auto simp: locks_ok_def path) (simp add: pr1_def)
        fix f q assume "q \<noteq> p"
        then show "((hm_locks m)(process_lock_path resolve ?pr := Some p)) f = Some q \<longleftrightarrow> hm_locks m f = Some q"
          using free by simp
      qed
    next
      case False
      with Inr have m1: "m1 = m" by (simp add: start_outcome_def Let_def split: option.splits)
      have no_lock: "Process_lock \<notin> set opened"
        using False opens_lock [of "hp_host ?pr" "hp_config ?pr" step] by (simp add: opened_def split: option.splits)
      have early: "opened = []" if "hp_stack ?pr = []" using that held order False by (auto simp: opened_def)
      have "stack_ok pr1" using ok(1) no_lock early by (auto simp: stack_ok_def pr1_def)
      moreover have "phase_ok pr1" using held False early rest by (auto simp: phase_ok_def pr1_def)
      moreover have "locks_ok resolve (hm_locks m) p pr1" using ok(3) early path by (auto simp: locks_ok_def pr1_def)
      ultimately show ?thesis unfolding result m1 by (rule set_process_same_locks [OF assms(1)])
    qed
  qed
qed

lemma closing_ok:
  assumes "machine_ok resolve m"
  shows "machine_ok resolve (advance_close resolve p raised met m)"
proof (cases "hp_stack (hm_process m p)")
  case Nil
  then have "machine_ok resolve (set_process p ((hm_process m p)\<lparr>hp_phase := Down\<rparr>) m)"
    by (intro rephase_ok [OF assms]) (simp add: phase_ok_def)
  with Nil show ?thesis by (simp add: advance_close_def)
next
  case (Cons r rest)
  note ok = machine_okD [OF assms, of p]
  have lock: "r = Process_lock \<longleftrightarrow> rest = []" using ok(1) Cons by (auto simp: stack_ok_def Cons_eq_append_conv)
  let ?pr1 = "(hm_process m p)\<lparr>hp_phase := Closing (if met = None then raised else met),
    hp_live := remove1 r (hp_live (hm_process m p)), hp_stack := rest\<rparr>"
  have stack: "stack_ok ?pr1" using ok(1) Cons lock by (auto simp: stack_ok_def Cons_eq_append_conv)
  have phase: "phase_ok ?pr1" by (simp add: phase_ok_def)
  show ?thesis
  proof (cases "r = Process_lock")
    case True
    let ?locks = "(hm_locks m)(process_lock_path resolve (hm_process m p) := None)"
    have held: "hm_locks m f = Some p \<longleftrightarrow> f = process_lock_path resolve (hm_process m p)" for f
    proof -
      have "hp_stack (hm_process m p) \<noteq> []" by (simp add: Cons)
      with ok(3) show ?thesis unfolding locks_ok_def by (metis (lifting))
    qed
    have "machine_ok resolve (set_process p ?pr1 (m\<lparr>hm_locks := ?locks\<rparr>))"
    proof (rule set_process_ok [OF assms stack phase])
      have "hp_stack ?pr1 = []" using lock True by simp
      moreover have "?locks f \<noteq> Some p" for f
        using held [of f] by (cases "f = process_lock_path resolve (hm_process m p)") simp_all
      ultimately show "locks_ok resolve ?locks p ?pr1" unfolding locks_ok_def by blast
      show "?locks f = Some q \<longleftrightarrow> hm_locks m f = Some q" if "q \<noteq> p" for f q
        using held [of f] that by (cases "f = process_lock_path resolve (hm_process m p)") simp_all
    qed
    then show ?thesis using True Cons
      by (simp add: advance_close_def Let_def release_lock_def process_lock_path_def)
  next
    case False
    have "locks_ok resolve (hm_locks m) p ?pr1 \<longleftrightarrow> locks_ok resolve (hm_locks m) p (hm_process m p)"
      using Cons lock False by (intro locks_ok_same) simp_all
    with ok(3) have "locks_ok resolve (hm_locks m) p ?pr1" by simp
    from set_process_same_locks [OF assms stack phase this] False Cons show ?thesis
      by (simp add: advance_close_def Let_def)
  qed
qed

lemma process_step_ok:
  assumes "machine_ok resolve m"
  shows "machine_ok resolve (process_step resolve event m)"
proof (cases event)
  case (Launch p h c)
  let ?pr = "\<lparr>hp_host = h, hp_config = c, hp_phase = Starting startup_steps, hp_live = [], hp_stack = []\<rparr>"
  have "machine_ok resolve (set_process p ?pr m)" if "hp_phase (hm_process m p) = Down"
  proof (rule set_process_same_locks [OF assms])
    show "stack_ok ?pr" "phase_ok ?pr" by (simp_all add: stack_ok_def phase_ok_def startup_steps_def)
    have "hp_stack (hm_process m p) = []" using machine_okD(2) [OF assms, of p] that by (simp add: phase_ok_def)
    with machine_okD(3) [OF assms, of p] show "locks_ok resolve (hm_locks m) p ?pr" by (simp add: locks_ok_free)
  qed
  with assms show ?thesis by (simp add: Launch)
next
  case (Advance p met)
  with assms started_ok [OF assms] closing_ok [OF assms] show ?thesis
    by (auto split: hub_phase.split list.split)
next
  case (Halt p)
  have "machine_ok resolve (set_process p ((hm_process m p)\<lparr>hp_phase := Closing None\<rparr>) m)"
    by (rule rephase_ok [OF assms]) (simp add: phase_ok_def)
  with assms show ?thesis by (simp add: Halt)
next
  case (Kill p)
  let ?pr = "(hm_process m p)\<lparr>hp_phase := Down, hp_live := [], hp_stack := []\<rparr>"
  let ?locks = "\<lambda>f. if hm_locks m f = Some p then None else hm_locks m f"
  have "machine_ok resolve (set_process p ?pr (m\<lparr>hm_locks := ?locks\<rparr>))"
  proof (rule set_process_ok [OF assms])
    show "stack_ok ?pr" "phase_ok ?pr" by (simp_all add: stack_ok_def phase_ok_def)
    show "locks_ok resolve ?locks p ?pr" by (simp add: locks_ok_free)
  qed auto
  then show ?thesis by (simp add: Kill)
qed

lemma machine_run_ok: "machine_ok resolve (machine_run resolve h c events)"
proof -
  have "machine_ok resolve \<lparr>hm_locks = (\<lambda>_. None),
      hm_process = (\<lambda>_. \<lparr>hp_host = h, hp_config = c, hp_phase = Down, hp_live = [], hp_stack = []\<rparr>)\<rparr>"
    by (simp add: machine_ok_def stack_ok_def phase_ok_def locks_ok_def)
  then show ?thesis
    unfolding machine_run_def by (induction events rule: rev_induct) (simp_all add: process_step_ok)
qed

section \<open>One process per database\<close>

text \<open>
  C39: whatever processes are started, on whatever configuration, and wherever they fail, are stopped or killed, of two
  processes whose settings name the same database at most one has anything open, and it is the one with the lock;
  a process that is down has nothing open.
\<close>

theorem one_process_per_database:
  assumes "m = machine_run resolve h c events" "p \<noteq> q"
    and "resolve_database_path resolve (hp_host (hm_process m p)) (hp_config (hm_process m p))
       = resolve_database_path resolve (hp_host (hm_process m q)) (hp_config (hm_process m q))"
  shows "(hp_live (hm_process m p) = [] \<or> hp_live (hm_process m q) = [])
    \<and> (hp_live (hm_process m p) \<noteq> [] \<longrightarrow> Process_lock \<in> set (hp_live (hm_process m p)))
    \<and> (hp_phase (hm_process m p) = Down \<longrightarrow> hp_live (hm_process m p) = [])"
proof -
  have ok: "machine_ok resolve m" using machine_run_ok assms(1) by simp
  have "process_lock_path resolve (hm_process m p) = process_lock_path resolve (hm_process m q)"
    using assms(3) by (simp add: process_lock_path_def lock_path_def)
  then have "hp_stack (hm_process m p) = [] \<or> hp_stack (hm_process m q) = []"
    using machine_okD(3) [OF ok, of p] machine_okD(3) [OF ok, of q] assms(2) unfolding locks_ok_def by (metis option.inject)
  moreover have "hp_live (hm_process m r) = hp_stack (hm_process m r)" for r
    using machine_okD(1) [OF ok, of r] by (simp add: stack_ok_def)
  moreover have "hp_stack (hm_process m p) = [] \<or> Process_lock \<in> set (hp_stack (hm_process m p))"
    using machine_okD(1) [OF ok, of p] by (auto simp: stack_ok_def)
  moreover have "hp_phase (hm_process m p) = Down \<longrightarrow> hp_stack (hm_process m p) = []"
    using machine_okD(2) [OF ok, of p] by (auto simp: phase_ok_def)
  ultimately show ?thesis by auto
qed

definition small_host :: hub_host where
  "small_host =
     (let uri = (\<lambda>_. \<lparr>pu_scheme = ''https'', pu_netloc = ''hub.local'', pu_user_info = False, pu_hostname = ''hub.local'',
            pu_path = ''/'', pu_query = [], pu_fragment = []\<rparr>)
      in \<lparr>ho_environ = (\<lambda>_. Some (replicate 32 CHR ''k'')), ho_parse = uri, ho_url = uri, ho_expanduser = (\<lambda>p. p),
          ho_parent = (\<lambda>p. p), ho_is_file = (\<lambda>_. True), ho_exists = (\<lambda>_. False), ho_root = ''/srv'',
          ho_base64 = (\<lambda>_. None), ho_descriptor = (\<lambda>_. Inr (''o'', 1)), ho_locator = None\<rparr>)"

definition small_hub_config :: hub_config where
  "small_hub_config = \<lparr>hc_database_path = ''hub.sqlite3'', hc_owner_domain_id = ''o'', hc_generation = 1, hc_trust_epoch = 1,
     hc_descriptor_uri = ''u'', hc_descriptor_path = ''/d'', hc_root_path = ''/r'', hc_signing_path = ''/s'', hc_mdns = True,
     hc_erase_ttl = 300, hc_proofs = True, hc_workspace_url = None, hc_state_path = None, hc_providers = [''virtual'']\<rparr>"

definition small_events :: "process_event list" where
  "small_events = [Launch 0 small_host small_hub_config, Advance 0 None, Advance 0 None,
     Launch 1 small_host small_hub_config, Advance 1 None, Advance 1 None]"

lemma one_process_per_database_witness:
  "hp_live (hm_process (machine_run (\<lambda>p. p) small_host small_hub_config small_events) 0) = [Process_lock]
   \<and> hp_live (hm_process (machine_run (\<lambda>p. p) small_host small_hub_config small_events) 1) = []"
proof -
  let ?m = "machine_run (\<lambda>p. p) small_host small_hub_config small_events"
  have live: "hp_live (hm_process ?m 0) = [Process_lock]" by code_simp
  have same: "resolve_database_path (\<lambda>p. p) (hp_host (hm_process ?m 0)) (hp_config (hm_process ?m 0))
      = resolve_database_path (\<lambda>p. p) (hp_host (hm_process ?m 1)) (hp_config (hm_process ?m 1))" by code_simp
  from one_process_per_database [OF refl _ same] live show ?thesis by simp
qed

section \<open>Going down\<close>

definition wind_down :: "(string \<Rightarrow> string) \<Rightarrow> nat \<Rightarrow> exn option list \<Rightarrow> hub_machine \<Rightarrow> hub_machine" where
  "wind_down resolve p mets m = fold (\<lambda>met. process_step resolve (Advance p met)) mets m"

text \<open>A process that has begun to close is down after one callback for each thing it has open, whatever they raise.\<close>

lemma closing_ends:
  "hp_phase (hm_process m p) = Closing raised \<Longrightarrow> length mets = Suc (length (hp_stack (hm_process m p))) \<Longrightarrow>
   hp_phase (hm_process (wind_down resolve p mets m) p) = Down"
proof (induction mets arbitrary: m raised)
  case (Cons met mets)
  show ?case
  proof (cases "hp_stack (hm_process m p)")
    case Nil
    with Cons.prems show ?thesis by (simp add: wind_down_def advance_close_def set_process_def)
  next
    case (Cons r rest)
    let ?m1 = "process_step resolve (Advance p met) m"
    have "hp_phase (hm_process ?m1 p) = Closing (if met = None then raised else met)" "hp_stack (hm_process ?m1 p) = rest"
      using Cons Cons.prems by (simp_all add: advance_close_def set_process_def Let_def)
    with Cons.IH [of ?m1] Cons.prems Cons show ?thesis by (simp add: wind_down_def)
  qed
qed simp

section \<open>The published name is a label\<close>

lemma dash_label: "label_char CHR ''-''"
  by (simp add: label_char_def)

lemma dashed_chars: "c \<in> set (dashed s) \<Longrightarrow> label_char c"
  by (induction s rule: dashed.induct) (auto split: if_splits simp: dash_label)

lemma rstrip_dash_set: "set (rstrip_dash s) \<subseteq> set s"
  unfolding rstrip_dash_def using set_dropWhileD by fastforce

lemma rstrip_dash_last: "rstrip_dash s \<noteq> [] \<Longrightarrow> last (rstrip_dash s) \<noteq> CHR ''-''"
  unfolding rstrip_dash_def using hd_dropWhile [of "\<lambda>c. c = CHR ''-''" "rev s"] by (simp add: last_rev)

lemma rstrip_dash_first: "s \<noteq> [] \<Longrightarrow> hd s \<noteq> CHR ''-'' \<Longrightarrow> rstrip_dash s \<noteq> [] \<and> hd (rstrip_dash s) = hd s"
  by (cases s) (auto simp: rstrip_dash_def dropWhile_append)

text \<open>
  For a Hub whose public name is not a local one, the name made of the Owner Domain is a label of 1 to 63 letters,
  digits and dashes, and neither begins nor ends with a dash.
\<close>

lemma mdns_label:
  assumes "drop (length public_hostname - 6) public_hostname \<noteq> ''.local''"
    and "l = mdns_target_hostname lower owner public_hostname"
  shows "l \<noteq> [] \<and> length l \<le> 63 \<and> (\<forall>c\<in>set l. label_char c) \<and> hd l \<noteq> CHR ''-'' \<and> last l \<noteq> CHR ''-''"
proof -
  define d where "d = dropWhile (\<lambda>c. c = CHR ''-'') (dashed (lower owner))"
  define t where "t = (if rstrip_dash d = [] then ''eidolon-owner'' else rstrip_dash d)"
  have l: "l = rstrip_dash (take 63 t)" using assms by (simp add: mdns_target_hostname_def d_def t_def Let_def)
  have chars: "label_char c" if "c \<in> set (rstrip_dash d)" for c
    using that rstrip_dash_set [of d] dashed_chars unfolding d_def by (blast dest: set_dropWhileD)
  have first: "hd (rstrip_dash d) \<noteq> CHR ''-''" if "rstrip_dash d \<noteq> []"
  proof -
    have d: "d \<noteq> []" using that by (auto simp: rstrip_dash_def)
    then have "hd d \<noteq> CHR ''-''" unfolding d_def by (rule hd_dropWhile)
    with rstrip_dash_first [OF d] show ?thesis by simp
  qed
  have "t \<noteq> []" "hd t \<noteq> CHR ''-''" by (auto simp: t_def first)
  moreover have t: "label_char c" if "c \<in> set t" for c
    using that chars by (auto simp: t_def label_char_def split: if_splits)
  ultimately have u: "take 63 t \<noteq> []" "hd (take 63 t) \<noteq> CHR ''-''" by (auto simp: hd_take)
  have "length (rstrip_dash (take 63 t)) \<le> length (take 63 t)"
    unfolding rstrip_dash_def using length_dropWhile_le [of _ "rev (take 63 t)"] by simp
  then have "length l \<le> 63" unfolding l by simp
  moreover have "label_char c" if "c \<in> set l" for c
    using that rstrip_dash_set [of "take 63 t"] t unfolding l by (blast dest: in_set_takeD)
  ultimately show ?thesis
    using rstrip_dash_first [OF u] rstrip_dash_last [of "take 63 t"] u(2) unfolding l by auto
qed

end
